(* ===== verification/Py_Base.thy ===== *)
theory Py_Base
  imports Complex_Main "HOL-Library.AList"
begin

text \<open>
  Prelude of the development. It holds what every component shares:
  the error values the Python sources raise, a small error monad in which a check that
  raises is a branch of the model, JSON values as \<^verbatim>\<open>json.loads\<close> returns them, Python
  dictionaries as ordered association lists, Python's \<^verbatim>\<open>==\<close> on JSON values and
  \<^verbatim>\<open>str(int)\<close>. The collections \<open>res_simps\<close> and \<open>py_simps\<close> carry the component
  proofs.
\<close>

named_theorems res_simps \<open>inversion rules for successful runs of the error monad\<close>
named_theorems ev_simps \<open>definitions unfolded to evaluate a run on concrete data\<close>
named_theorems py_simps \<open>facts on dictionaries and JSON values\<close>

section \<open>Errors and the error monad\<close>

text \<open>One constructor per exception class the modelled code raises, with its message.\<close>

datatype py_error =
    ExecutionError string
  | NpuTraceError string
  | TraceError string
  | ParentError string
  | CertificateError string
  | ContractError string
  | BindingError string
  | CorpusError string
  | BuildFailure string string
  | DomainRevisionError string string
  | StatefulProviderError string string
  | StatefulCertificateError string string
  | StateDomainError string string
  | SequenceError int string
  | OSError string
  | ValueError string
  | KeyError string
  | TypeError string
  | IndexError
  | OverflowError string
  | StopIteration
  | OutOfFuel

type_synonym 'a res = "py_error + 'a"

definition bnd :: "'a res \<Rightarrow> ('a \<Rightarrow> 'b res) \<Rightarrow> 'b res" where
  "bnd m f = (case m of Inl e \<Rightarrow> Inl e | Inr x \<Rightarrow> f x)"

text \<open>\<open>chk c e k\<close>: raise \<open>e\<close> unless \<open>c\<close>, then go on with \<open>k\<close>;
  \<open>chkr\<close> is the same for a condition whose evaluation may itself raise.\<close>

definition chk :: "bool \<Rightarrow> py_error \<Rightarrow> 'a res \<Rightarrow> 'a res" where
  "chk c e k = (if c then k else Inl e)"

definition chkr :: "bool res \<Rightarrow> py_error \<Rightarrow> 'a res \<Rightarrow> 'a res" where
  "chkr c e k = bnd c (\<lambda>b. chk b e k)"

text \<open>Short-circuit conjunction of conditions that may raise (Python's chained \<^verbatim>\<open>and\<close>).\<close>

fun allr :: "bool res list \<Rightarrow> bool res" where
  "allr [] = Inr True"
| "allr (c # cs) = (case c of Inl e \<Rightarrow> Inl e | Inr b \<Rightarrow> if b then allr cs else Inr False)"

fun mapr :: "('a \<Rightarrow> 'b res) \<Rightarrow> 'a list \<Rightarrow> 'b list res" where
  "mapr f [] = Inr []"
| "mapr f (x # xs) = bnd (f x) (\<lambda>y. bnd (mapr f xs) (\<lambda>ys. Inr (y # ys)))"

text \<open>A \<^verbatim>\<open>for\<close> loop that threads a state and may raise.\<close>

fun foldm :: "('s \<Rightarrow> 'a \<Rightarrow> 's res) \<Rightarrow> 's \<Rightarrow> 'a list \<Rightarrow> 's res" where
  "foldm f s [] = Inr s"
| "foldm f s (x # xs) = bnd (f s x) (\<lambda>s'. foldm f s' xs)"

lemma bnd_simps [simp]:
  "bnd (Inl e) f = Inl e" "bnd (Inr x) f = f x"
  by (simp_all add: bnd_def)

lemma bnd_eq_Inr [res_simps]: "bnd m f = Inr y \<longleftrightarrow> (\<exists>x. m = Inr x \<and> f x = Inr y)"
  by (cases m) simp_all

lemma bnd_eq_Inl: "bnd m f = Inl e \<longleftrightarrow> m = Inl e \<or> (\<exists>x. m = Inr x \<and> f x = Inl e)"
  by (cases m) simp_all

lemma chk_simps [simp]:
  "chk True e k = k" "chk False e k = Inl e"
  by (simp_all add: chk_def)

text \<open>Congruences for evaluating a run on concrete data: the continuation is not touched
  before the step in front of it is a value.\<close>

lemma bnd_cong: "m = m' \<Longrightarrow> bnd m f = bnd m' f"
  by simp

lemma chk_cong: "c = c' \<Longrightarrow> chk c e k = chk c' e k"
  by simp

lemma chkr_cong: "c = c' \<Longrightarrow> chkr c e k = chkr c' e k"
  by simp

lemmas run_congs = bnd_cong chk_cong chkr_cong if_weak_cong

lemma chk_eq_Inr [res_simps]: "chk c e k = Inr y \<longleftrightarrow> c \<and> k = Inr y"
  by (simp add: chk_def)

lemma chk_eq_Inl: "chk c e k = Inl e' \<longleftrightarrow> (\<not> c \<and> e' = e) \<or> (c \<and> k = Inl e')"
  by (auto simp: chk_def)

lemma chkr_simps [simp]:
  "chkr (Inl e') e k = Inl e'" "chkr (Inr b) e k = chk b e k"
  by (simp_all add: chkr_def)

lemma chkr_eq_Inr [res_simps]: "chkr c e k = Inr y \<longleftrightarrow> c = Inr True \<and> k = Inr y"
  by (auto simp: chkr_def bnd_eq_Inr chk_eq_Inr)

lemma allr_eq_True [res_simps]:
  "allr (c # cs) = Inr True \<longleftrightarrow> c = Inr True \<and> allr cs = Inr True"
  by (auto split: sum.splits if_splits)

lemma allr_Inr_conv: "allr (map Inr bs) = Inr (list_all id bs)"
  by (induction bs) auto

lemma mapr_Inr_iff: "mapr f xs = Inr ys \<longleftrightarrow> list_all2 (\<lambda>x y. f x = Inr y) xs ys"
proof (induction xs arbitrary: ys)
  case Nil
  then show ?case by auto
next
  case (Cons x xs)
  then show ?case by (cases ys) (auto simp: bnd_eq_Inr)
qed

lemma mapr_length: "mapr f xs = Inr ys \<Longrightarrow> length ys = length xs"
  by (simp add: mapr_Inr_iff list_all2_lengthD)

lemma mapr_map_Inr: "(\<And>x. x \<in> set xs \<Longrightarrow> f (g x) = Inr (h x)) \<Longrightarrow> mapr f (map g xs) = Inr (map h xs)"
  by (induction xs) auto

lemma foldm_append: "foldm f s (xs @ ys) = bnd (foldm f s xs) (\<lambda>s'. foldm f s' ys)"
proof (induction xs arbitrary: s)
  case Nil
  then show ?case by simp
next
  case (Cons x xs)
  then show ?case by (cases "f s x") auto
qed

lemma foldm_Cons_Inr [res_simps]:
  "foldm f s (x # xs) = Inr t \<longleftrightarrow> (\<exists>s'. f s x = Inr s' \<and> foldm f s' xs = Inr t)"
  by (simp add: bnd_eq_Inr)

text \<open>Invariant rule for a loop: what holds before and is kept by every iteration that does
  not raise holds afterwards.\<close>

lemma foldm_invariant:
  assumes "foldm f s xs = Inr t" and "P s"
    and "\<And>s x s'. P s \<Longrightarrow> x \<in> set xs \<Longrightarrow> f s x = Inr s' \<Longrightarrow> P s'"
  shows "P t"
  using assms
proof (induction xs arbitrary: s)
  case Nil
  then show ?case by simp
next
  case (Cons x xs)
  from Cons.prems(1) obtain s' where s': "f s x = Inr s'" "foldm f s' xs = Inr t"
    by (auto simp: bnd_eq_Inr)
  have "P s'" using Cons.prems(2,3) s'(1) by (meson list.set_intros(1))
  moreover have "\<And>u y u'. P u \<Longrightarrow> y \<in> set xs \<Longrightarrow> f u y = Inr u' \<Longrightarrow> P u'"
    using Cons.prems(3) by (meson list.set_intros(2))
  ultimately show ?case using Cons.IH s'(2) by blast
qed

text \<open>The same rule with a view of the elements already consumed.\<close>

lemma foldm_prefix_invariant:
  assumes "foldm f s xs = Inr t" and "P [] s"
    and "\<And>ps s x s'. P ps s \<Longrightarrow> f s x = Inr s' \<Longrightarrow> P (ps @ [x]) s'"
  shows "P xs t"
proof -
  have "foldm f s ys = Inr t \<Longrightarrow> P ps s \<Longrightarrow> P (ps @ ys) t" for ps ys s
  proof (induction ys arbitrary: ps s)
    case Nil
    then show ?case by simp
  next
    case (Cons y ys)
    then obtain s' where "f s y = Inr s'" "foldm f s' ys = Inr t"
      by (auto simp: bnd_eq_Inr)
    with Cons.IH [of s' "ps @ [y]"] Cons.prems(2) assms(3) show ?case by simp
  qed
  from this [of s xs "[]"] assms(1,2) show ?thesis by simp
qed

section \<open>Dictionaries\<close>

text \<open>A Python dictionary keeps insertion order and one value per key: an association list
  with distinct keys, written with the library's \<open>AList.update\<close> (which overwrites in
  place and appends a new key at the end, as Python does) and \<open>AList.delete\<close>.\<close>

type_synonym ('k, 'v) dict = "('k \<times> 'v) list"

definition wf_dict :: "('k, 'v) dict \<Rightarrow> bool" where
  "wf_dict d \<longleftrightarrow> distinct (map fst d)"

definition has_key :: "('k, 'v) dict \<Rightarrow> 'k \<Rightarrow> bool" where
  "has_key d k \<longleftrightarrow> k \<in> set (map fst d)"

lemma has_key_map_of [py_simps]: "has_key d k \<longleftrightarrow> map_of d k \<noteq> None"
  by (auto simp: has_key_def map_of_eq_None_iff)

lemma map_of_update [simp]: "map_of (AList.update k v d) = (map_of d)(k \<mapsto> v)"
  by (rule update_conv')

lemma map_of_delete [simp]: "map_of (AList.delete k d) = (map_of d)(k := None)"
  by (rule delete_conv')

text \<open>Two rules that look a key up in a literal dictionary step by step.\<close>

lemma map_of_hit: "map_of ((k, v) # ps) k = Some v"
  by simp

lemma map_of_skip: "k' \<noteq> k \<Longrightarrow> map_of ps k = r \<Longrightarrow> map_of ((k', v) # ps) k = r"
  by simp

lemma wf_dict_update [simp]: "wf_dict d \<Longrightarrow> wf_dict (AList.update k v d)"
  by (simp add: wf_dict_def distinct_update)

lemma wf_dict_delete [simp]: "wf_dict d \<Longrightarrow> wf_dict (AList.delete k d)"
  by (simp add: wf_dict_def distinct_delete)

lemma wf_dict_Nil [simp]: "wf_dict []"
  by (simp add: wf_dict_def)

lemma set_keys_update [simp]: "fst ` set (AList.update k v d) = insert k (fst ` set d)"
  by (induction d) auto

lemma keys_update_distinct: "k \<in> set (map fst d) \<Longrightarrow> map fst (AList.update k v d) = map fst d"
  by (induction d) auto

lemma keys_update_new: "k \<notin> set (map fst d) \<Longrightarrow> AList.update k v d = d @ [(k, v)]"
  by (induction d) auto

text \<open>\<^verbatim>\<open>tuple(dict.fromkeys(xs))\<close>: the elements in order of first occurrence.\<close>

fun fromkeys_from :: "'a list \<Rightarrow> 'a list \<Rightarrow> 'a list" where
  "fromkeys_from seen [] = []"
| "fromkeys_from seen (x # xs) =
     (if x \<in> set seen then fromkeys_from seen xs else x # fromkeys_from (x # seen) xs)"

definition fromkeys :: "'a list \<Rightarrow> 'a list" where
  "fromkeys xs = fromkeys_from [] xs"

lemma set_fromkeys_from: "set (fromkeys_from seen xs) = set xs - set seen"
  by (induction seen xs rule: fromkeys_from.induct) auto

lemma set_fromkeys [simp]: "set (fromkeys xs) = set xs"
  by (simp add: fromkeys_def set_fromkeys_from)

lemma distinct_fromkeys_from: "distinct (fromkeys_from seen xs)"
  by (induction seen xs rule: fromkeys_from.induct) (auto simp: set_fromkeys_from)

lemma distinct_fromkeys [simp]: "distinct (fromkeys xs)"
  by (simp add: fromkeys_def distinct_fromkeys_from)

section \<open>JSON values\<close>

text \<open>Finite binary64 values are rationals; \<^verbatim>\<open>json.loads\<close> also yields infinities and NaN.\<close>

datatype pyfloat = FFin rat | FInf bool | FNaN

datatype jval =
    JNull
  | JBool bool
  | JInt int
  | JFloat pyfloat
  | JStr string
  | JArr "jval list"
  | JObj "(string \<times> jval) list"

type_synonym Record = "(string, jval) dict"

text \<open>\<^verbatim>\<open>set(r) == {...}\<close>: the key set of a record.\<close>

definition keys_are :: "('k, 'v) dict \<Rightarrow> 'k list \<Rightarrow> bool" where
  "keys_are r ks \<longleftrightarrow> set (map fst r) = set ks"

text \<open>A value that must be an array, with the error raised otherwise.\<close>

definition array_or :: "py_error \<Rightarrow> jval \<Rightarrow> jval list res" where
  "array_or e v = (case v of JArr xs \<Rightarrow> Inr xs | _ \<Rightarrow> Inl e)"

lemma array_or_eq_Inr [res_simps]: "array_or e v = Inr xs \<longleftrightarrow> v = JArr xs"
  by (auto simp: array_or_def split: jval.splits)

text \<open>\<^verbatim>\<open>r.get(k)\<close> and \<^verbatim>\<open>r[k]\<close>.\<close>

definition rget :: "Record \<Rightarrow> string \<Rightarrow> jval" where
  "rget r k = (case map_of r k of None \<Rightarrow> JNull | Some v \<Rightarrow> v)"

definition item :: "Record \<Rightarrow> string \<Rightarrow> jval res" where
  "item r k = (case map_of r k of None \<Rightarrow> Inl (KeyError k) | Some v \<Rightarrow> Inr v)"

lemma item_eq_Inr [res_simps]: "item r k = Inr v \<longleftrightarrow> map_of r k = Some v"
  by (auto simp: item_def split: option.splits)

lemma rget_Some [simp]: "map_of r k = Some v \<Longrightarrow> rget r k = v"
  by (simp add: rget_def)

text \<open>Numeric view of a value: Python compares \<^verbatim>\<open>bool\<close>, \<^verbatim>\<open>int\<close> and \<^verbatim>\<open>float\<close> by value.\<close>

fun num_of :: "jval \<Rightarrow> pyfloat option" where
  "num_of (JBool b) = Some (FFin (if b then 1 else 0))"
| "num_of (JInt n) = Some (FFin (of_int n))"
| "num_of (JFloat f) = Some f"
| "num_of _ = None"

definition num_eq :: "jval \<Rightarrow> jval \<Rightarrow> bool" where
  "num_eq a b = (case (num_of a, num_of b) of
     (Some x, Some y) \<Rightarrow> x \<noteq> FNaN \<and> x = y | _ \<Rightarrow> False)"

text \<open>Python's \<^verbatim>\<open>==\<close> on JSON values: numbers by value across types, lists element by
  element, dictionaries without regard to order.\<close>

fun py_eq :: "jval \<Rightarrow> jval \<Rightarrow> bool"
  and py_eqs :: "jval list \<Rightarrow> jval list \<Rightarrow> bool"
  and py_eqd :: "(string \<times> jval) list \<Rightarrow> (string \<times> jval) list \<Rightarrow> bool" where
  "py_eq JNull b = (b = JNull)"
| "py_eq (JStr s) b = (b = JStr s)"
| "py_eq (JArr xs) b = (case b of JArr ys \<Rightarrow> py_eqs xs ys | _ \<Rightarrow> False)"
| "py_eq (JObj d) b = (case b of JObj e \<Rightarrow> length d = length e \<and> py_eqd d e | _ \<Rightarrow> False)"
| "py_eq (JBool a) b = num_eq (JBool a) b"
| "py_eq (JInt a) b = num_eq (JInt a) b"
| "py_eq (JFloat a) b = num_eq (JFloat a) b"
| "py_eqs [] ys = (ys = [])"
| "py_eqs (x # xs) ys = (case ys of [] \<Rightarrow> False | y # ys' \<Rightarrow> py_eq x y \<and> py_eqs xs ys')"
| "py_eqd [] e = True"
| "py_eqd ((k, v) # d) e =
     ((case map_of e k of None \<Rightarrow> False | Some w \<Rightarrow> py_eq v w) \<and> py_eqd d e)"

text \<open>\<^verbatim>\<open>v in (a, b, ...)\<close>.\<close>

definition py_in :: "jval \<Rightarrow> jval list \<Rightarrow> bool" where
  "py_in v vs = list_ex (py_eq v) vs"

lemma num_eq_Int_Int [simp]: "num_eq (JInt a) (JInt b) \<longleftrightarrow> a = b"
  by (simp add: num_eq_def)

lemma py_eq_Str [simp]: "py_eq v (JStr s) \<longleftrightarrow> v = JStr s"
  by (cases v) (auto simp: num_eq_def)

lemma py_eq_Null [simp]: "py_eq v JNull \<longleftrightarrow> v = JNull"
  by (cases v) (auto simp: num_eq_def)

lemma py_eq_Int_Int [simp]: "py_eq (JInt a) (JInt b) \<longleftrightarrow> a = b"
  by simp

lemma py_in_simps [simp]:
  "py_in v [] = False" "py_in v (w # ws) \<longleftrightarrow> py_eq v w \<or> py_in v ws"
  by (simp_all add: py_in_def)

text \<open>Lists and dictionaries cannot be set members or dictionary keys.\<close>

fun hashable :: "jval \<Rightarrow> bool" where
  "hashable (JArr _) = False"
| "hashable (JObj _) = False"
| "hashable _ = True"

text \<open>\<^verbatim>\<open>isinstance(v, str)\<close>.\<close>

fun is_str :: "jval \<Rightarrow> bool" where
  "is_str (JStr _) = True"
| "is_str _ = False"

text \<open>Truth value of a JSON value.\<close>

fun truthy :: "jval \<Rightarrow> bool" where
  "truthy JNull = False"
| "truthy (JBool b) = b"
| "truthy (JInt n) = (n \<noteq> 0)"
| "truthy (JFloat f) = (f \<noteq> FFin 0)"
| "truthy (JStr s) = (s \<noteq> [])"
| "truthy (JArr xs) = (xs \<noteq> [])"
| "truthy (JObj d) = (d \<noteq> [])"

section \<open>Decimal printing\<close>

definition digit_char :: "nat \<Rightarrow> char" where
  "digit_char d = char_of (48 + d)"

fun str_nat :: "nat \<Rightarrow> string" where
  "str_nat n = (if n < 10 then [digit_char n] else str_nat (n div 10) @ [digit_char (n mod 10)])"

declare str_nat.simps [simp del]

text \<open>\<^verbatim>\<open>str(n)\<close> for a Python integer.\<close>

definition str_int :: "int \<Rightarrow> string" where
  "str_int n = (if n < 0 then CHR ''-'' # str_nat (nat (- n)) else str_nat (nat n))"

definition digit_val :: "char \<Rightarrow> nat" where
  "digit_val c = of_char c - 48"

definition read_nat :: "string \<Rightarrow> nat" where
  "read_nat s = foldl (\<lambda>a c. 10 * a + digit_val c) 0 s"

lemma of_digit_char: "d < 10 \<Longrightarrow> of_char (digit_char d) = 48 + d"
  by (simp add: digit_char_def)

lemma digit_val_char: "d < 10 \<Longrightarrow> digit_val (digit_char d) = d"
  by (simp add: digit_val_def of_digit_char)

lemma read_str_nat: "read_nat (str_nat n) = n"
proof (induction n rule: str_nat.induct)
  case (1 n)
  show ?case
  proof (cases "n < 10")
    case True
    then show ?thesis by (simp add: str_nat.simps [of n] read_nat_def digit_val_char)
  next
    case False
    with 1 have "read_nat (str_nat (n div 10)) = n div 10" by simp
    with False show ?thesis
      by (simp add: str_nat.simps [of n] read_nat_def digit_val_char)
  qed
qed

lemma str_nat_inj: "str_nat m = str_nat n \<Longrightarrow> m = n"
  by (metis read_str_nat)

lemma str_nat_digits: "c \<in> set (str_nat n) \<Longrightarrow> \<exists>d<10. c = digit_char d"
proof (induction n rule: str_nat.induct)
  case (1 n)
  show ?case
  proof (cases "n < 10")
    case True
    with "1.prems" show ?thesis by (auto simp: str_nat.simps [of n])
  next
    case False
    with 1 show ?thesis by (auto simp: str_nat.simps [of n] intro: exI [of _ "n mod 10"])
  qed
qed

lemma str_nat_nonempty [simp]: "str_nat n \<noteq> []"
  by (simp add: str_nat.simps [of n])

lemma str_nat_no_minus: "CHR ''-'' \<notin> set (str_nat n)"
proof
  assume "CHR ''-'' \<in> set (str_nat n)"
  then obtain d where "d < 10" "CHR ''-'' = digit_char d" using str_nat_digits by blast
  then have "(of_char (CHR ''-'') :: nat) = 48 + d" using of_digit_char by metis
  then show False by simp
qed

lemma str_int_inj: "str_int m = str_int n \<longleftrightarrow> m = n"
proof
  assume eq: "str_int m = str_int n"
  have mixed: "str_nat a \<noteq> CHR ''-'' # s" for a s
    using str_nat_no_minus [of a] by (metis list.set_intros(1))
  have mixed': "CHR ''-'' # s \<noteq> str_nat a" for a s
    using mixed by metis
  show "m = n"
    using eq mixed mixed' by (auto simp: str_int_def split: if_splits dest!: str_nat_inj)
qed simp

end
