(* ===== verification/Py_Json.thy ===== *)
theory Py_Json
  imports Py_Base "HOL-Library.Char_ord" "HOL-Library.List_Lexorder" "HOL-Library.Product_Lexorder"
begin

text \<open>
  JSON text as the standard library writes it, and what the code takes from outside the
  repository. Strings are lists of characters; a character stands for its code point, so the
  model covers code points below 256. \<open>dumps\<close> is \<^verbatim>\<open>json.dumps\<close> with
  \<^verbatim>\<open>separators=(',', ':')\<close> and the default \<^verbatim>\<open>ensure_ascii=True\<close>, with and without
  \<^verbatim>\<open>sort_keys\<close>. The digest function and the printing of floats and of nested
  containers are parameters (record \<open>ext\<close>).
\<close>

record ext =
  sha256_hex :: "string \<Rightarrow> string"
  float_repr :: "pyfloat \<Rightarrow> string"
  value_repr :: "jval \<Rightarrow> string"

section \<open>Encoding\<close>

definition hex_digit :: "nat \<Rightarrow> char" where
  "hex_digit d = (if d < 10 then char_of (48 + d) else char_of (87 + d))"

definition json_char :: "char \<Rightarrow> string" where
  "json_char c = (let n = (of_char c :: nat) in
     if n = 34 then [CHR 0x5C, CHR 0x22]
     else if n = 92 then [CHR 0x5C, CHR 0x5C]
     else if n = 8 then [CHR 0x5C, CHR ''b'']
     else if n = 9 then [CHR 0x5C, CHR ''t'']
     else if n = 10 then [CHR 0x5C, CHR ''n'']
     else if n = 12 then [CHR 0x5C, CHR ''f'']
     else if n = 13 then [CHR 0x5C, CHR ''r'']
     else if 32 \<le> n \<and> n \<le> 126 then [c]
     else [CHR 0x5C, CHR ''u'', CHR ''0'', CHR ''0'', hex_digit (n div 16), hex_digit (n mod 16)])"

definition json_string :: "string \<Rightarrow> string" where
  "json_string s = [CHR 0x22] @ concat (map json_char s) @ [CHR 0x22]"

fun join :: "string \<Rightarrow> string list \<Rightarrow> string" where
  "join sep [] = []"
| "join sep [x] = x"
| "join sep (x # y # xs) = x @ sep @ join sep (y # xs)"

definition key_order :: "bool \<Rightarrow> (string \<times> 'a) list \<Rightarrow> (string \<times> 'a) list" where
  "key_order sorted_keys d = (if sorted_keys then sort_key fst d else d)"

fun dumps :: "ext \<Rightarrow> bool \<Rightarrow> jval \<Rightarrow> string" where
  "dumps E sk JNull = ''null''"
| "dumps E sk (JBool b) = (if b then ''true'' else ''false'')"
| "dumps E sk (JInt n) = str_int n"
| "dumps E sk (JFloat f) = float_repr E f"
| "dumps E sk (JStr s) = json_string s"
| "dumps E sk (JArr xs) = ''['' @ join '','' (map (dumps E sk) xs) @ '']''"
| "dumps E sk (JObj d) =
     ''{'' @ join '','' (map (\<lambda>(k, t). json_string k @ '':'' @ t)
        (key_order sk (map (\<lambda>(k, v). (k, dumps E sk v)) d))) @ ''}''"

text \<open>\<^verbatim>\<open>str(v)\<close> on a JSON value.\<close>

fun py_str :: "ext \<Rightarrow> jval \<Rightarrow> string" where
  "py_str E JNull = ''None''"
| "py_str E (JBool b) = (if b then ''True'' else ''False'')"
| "py_str E (JInt n) = str_int n"
| "py_str E (JFloat f) = float_repr E f"
| "py_str E (JStr s) = s"
| "py_str E v = value_repr E v"

section \<open>Decoding\<close>

text \<open>\<^verbatim>\<open>json.loads\<close> with a hook on the pairs of every object, innermost objects first.\<close>

fun load_value :: "((string \<times> jval) list \<Rightarrow> Record res) \<Rightarrow> jval \<Rightarrow> jval res"
  and load_values :: "((string \<times> jval) list \<Rightarrow> Record res) \<Rightarrow> jval list \<Rightarrow> jval list res"
  and load_pairs :: "((string \<times> jval) list \<Rightarrow> Record res) \<Rightarrow> (string \<times> jval) list \<Rightarrow> (string \<times> jval) list res" where
  "load_value h (JArr xs) = bnd (load_values h xs) (\<lambda>ys. Inr (JArr ys))"
| "load_value h (JObj ps) = bnd (load_pairs h ps) (\<lambda>qs. bnd (h qs) (\<lambda>d. Inr (JObj d)))"
| "load_value h v = Inr v"
| "load_values h [] = Inr []"
| "load_values h (x # xs) = bnd (load_value h x) (\<lambda>y. bnd (load_values h xs) (\<lambda>ys. Inr (y # ys)))"
| "load_pairs h [] = Inr []"
| "load_pairs h ((k, v) # ps) = bnd (load_value h v) (\<lambda>w. bnd (load_pairs h ps) (\<lambda>qs. Inr ((k, w) # qs)))"

section \<open>Hexadecimal digests\<close>

definition is_hex :: "char \<Rightarrow> bool" where
  "is_hex c = (let n = (of_char c :: nat) in (48 \<le> n \<and> n \<le> 57) \<or> (97 \<le> n \<and> n \<le> 102))"

text \<open>\<^verbatim>\<open>re.fullmatch('[0-9a-f]{n}', s)\<close>.\<close>

definition hex_string :: "nat \<Rightarrow> string \<Rightarrow> bool" where
  "hex_string n s \<longleftrightarrow> length s = n \<and> list_all is_hex s"

definition is_sha256 :: "jval \<Rightarrow> bool" where
  "is_sha256 v = (case v of JStr s \<Rightarrow> hex_string 64 s | _ \<Rightarrow> False)"

end
