(* ===== verification/Hardware_Contract.thy ===== *)
theory Hardware_Contract
  imports Py_Json
begin

text \<open>
  The hardware lowering contract (\<^verbatim>\<open>scripts/gemmini_replay_contract.py\<close>): digest,
  validation of a contract document against a profile, and compatibility of the producer's
  contract with the model's.
\<close>

definition HARDWARE_GLOBS :: "string list" where
  "HARDWARE_GLOBS =
     [''src/gemmini/src/main/scala/**/*.scala'',
      ''src/gemmini/control/src/main/scala/**/*.scala'',
      ''src/gemmini/upstream/src/main/scala/**/*.scala'',
      ''src/gemmini/patches/*.patch'']"

definition HARDWARE_PATHS :: "string list" where
  "HARDWARE_PATHS =
     [''config/gemmini_hp1_profiles.json'',
      ''sim/include/im2p_geometry.h'',
      ''sim/include/im2p_sim.h'',
      ''sim/common/gemmini_schedule.hpp'',
      ''sim/common/gemmini_schedule.cpp'',
      ''sim/backends/gemmini_hp1/geometry.cpp'',
      ''sim/backends/gemmini_hp1/runtime.cpp'',
      ''src/gemmini/vendor-manifest.json'']"

definition FACT_KEYS :: "string list" where
  "FACT_KEYS =
     [''activation_bits'', ''weight_bits'', ''dim'', ''packing'', ''block_size'',
      ''accumulator_bits'', ''array_partial_bits'', ''numerical_revision'', ''scu'',
      ''fragment_limit'', ''memory'', ''fixed_latencies'', ''scale_entries'',
      ''external_stride_units'', ''tile_units'', ''lowering_revision'',
      ''scale_mapping_revision'', ''saturation_order'']"

text \<open>\<^verbatim>\<open>fnmatch.fnmatchcase\<close> on the patterns above, whose only special character is
  the star (it matches any text, slashes included).\<close>

fun fnmatchcase :: "string \<Rightarrow> string \<Rightarrow> bool" where
  "fnmatchcase [] s = (s = [])"
| "fnmatchcase (p # ps) s =
     (if p = CHR ''*'' then list_ex (fnmatchcase ps) (map (\<lambda>i. drop i s) [0..<Suc (length s)])
      else (case s of [] \<Rightarrow> False | c # cs \<Rightarrow> p = c \<and> fnmatchcase ps cs))"

definition contract_digest :: "ext \<Rightarrow> Record \<Rightarrow> string" where
  "contract_digest E document =
     sha256_hex E (dumps E True (JObj (filter (\<lambda>(k, v). k \<noteq> ''sha256'') document)))"

definition contract_mapping :: "jval \<Rightarrow> string \<Rightarrow> Record res" where
  "contract_mapping v label =
     (case v of JObj d \<Rightarrow> Inr d | _ \<Rightarrow> Inl (ContractError (label @ '': JSON object required'')))"

definition validate_contract :: "ext \<Rightarrow> Record \<Rightarrow> string \<Rightarrow> unit res" where
  "validate_contract E document profile =
     chk (keys_are document [''schema'', ''version'', ''profile'', ''facts'', ''source_sha256'', ''sha256''])
       (ContractError ''hardware contract fields missing or unknown'') (
     chk (py_eq (rget document ''schema'') (JStr ''im2p-hardware-lowering-contract'') \<and>
          rget document ''version'' = JInt 1)
       (ContractError ''unsupported hardware contract schema/version'') (
     chk (py_eq (rget document ''profile'') (JStr profile))
       (ContractError ''hardware contract profile mismatch'') (
     bnd (contract_mapping (rget document ''facts'') ''hardware facts'') (\<lambda>facts.
     chk (keys_are facts FACT_KEYS)
       (ContractError ''hardware contract facts missing or unknown'') (
     chk (profile = ''a'' @ py_str E (rget facts ''activation_bits'') @ ''w'' @
            py_str E (rget facts ''weight_bits'') @ ''-d'' @ py_str E (rget facts ''dim'') @ ''-hp1'')
       (ContractError ''hardware contract profile/DIM mismatch'') (
     bnd (contract_mapping (rget facts ''memory'') ''hardware memory'') (\<lambda>memory.
     bnd (contract_mapping (rget facts ''fixed_latencies'') ''hardware latency'') (\<lambda>latency.
     chk (set [''bank_count'', ''bank_rows'', ''accumulator_rows'', ''scratchpad_row_bytes'',
               ''accumulator_row_bytes'', ''scratchpad_total_bytes'', ''accumulator_total_bytes'']
            \<subseteq> set (map fst memory))
       (ContractError ''resolved memory contract incomplete'') (
     chk (keys_are latency [''scratchpad_read_delay'', ''accumulator_latency''])
       (ContractError ''fixed hardware latency contract incomplete'') (
     bnd (contract_mapping (rget document ''source_sha256'') ''hardware source hashes'') (\<lambda>hashes.
     chk (set (HARDWARE_PATHS @ [''config/gemmini_host_memory_contracts/'' @ profile @ ''.json''])
            \<subseteq> set (map fst hashes) \<and> list_all (\<lambda>(k, v). is_sha256 v) hashes)
       (ContractError ''hardware source hash closure incomplete'') (
     chk (list_all (\<lambda>pattern. list_ex (\<lambda>(p, v). fnmatchcase pattern p) hashes) HARDWARE_GLOBS)
       (ContractError ''hardware RTL source closure incomplete'') (
     chk (py_eq (rget document ''sha256'') (JStr (contract_digest E document)))
       (ContractError ''hardware contract canonical SHA256 mismatch'')
     (Inr ()))))))))))))))"

definition compatible :: "ext \<Rightarrow> Record \<Rightarrow> Record \<Rightarrow> unit res" where
  "compatible E producer model =
     (case rget producer ''profile'' of
        JStr profile \<Rightarrow>
          bnd (validate_contract E producer profile) (\<lambda>_.
          bnd (validate_contract E model profile) (\<lambda>_.
          chk (py_eq (rget producer ''sha256'') (rget model ''sha256''))
            (ContractError ''producer/model hardware lowering contract mismatch'') (Inr ())))
      | _ \<Rightarrow> Inl (ContractError ''producer hardware profile missing''))"

lemma validate_contract_sha:
  "validate_contract E d p = Inr () \<Longrightarrow>
     rget d ''sha256'' = JStr (contract_digest E d) \<and> rget d ''profile'' = JStr p"
  unfolding validate_contract_def by (simp add: res_simps) blast

text \<open>What a compatible pair guarantees: both documents name the same profile and have the
  same content digest, whatever the order of their keys.\<close>

theorem compatible_same_digest:
  assumes "compatible E producer model = Inr ()"
  shows "\<exists>profile. rget producer ''profile'' = JStr profile \<and> rget model ''profile'' = JStr profile
    \<and> contract_digest E producer = contract_digest E model"
  using assms unfolding compatible_def
  by (auto simp: res_simps split: jval.splits dest!: validate_contract_sha)

section \<open>A contract\<close>

definition ex_ext :: ext where
  "ex_ext = \<lparr>sha256_hex = (\<lambda>_. ''h''), float_repr = (\<lambda>_. ''0.0''), value_repr = (\<lambda>_. ''?'')\<rparr>"

definition ex_facts :: Record where
  "ex_facts = map (\<lambda>k. (k, JNull)) (filter (\<lambda>k. k \<notin> {''activation_bits'', ''weight_bits'', ''dim'', ''memory'', ''fixed_latencies''}) FACT_KEYS) @
     [(''activation_bits'', JInt 8), (''weight_bits'', JInt 8), (''dim'', JInt 16),
      (''memory'', JObj (map (\<lambda>k. (k, JInt 1)) [''bank_count'', ''bank_rows'', ''accumulator_rows'', ''scratchpad_row_bytes'',
         ''accumulator_row_bytes'', ''scratchpad_total_bytes'', ''accumulator_total_bytes''])),
      (''fixed_latencies'', JObj [(''scratchpad_read_delay'', JInt 4), (''accumulator_latency'', JInt 2)])]"

definition ex_hashes :: Record where
  "ex_hashes = map (\<lambda>p. (p, JStr (replicate 64 (CHR ''0''))))
     (HARDWARE_PATHS @
      [''config/gemmini_host_memory_contracts/a8w8-d16-hp1.json'', ''src/gemmini/src/main/scala/a/A.scala'',
       ''src/gemmini/control/src/main/scala/a/A.scala'', ''src/gemmini/upstream/src/main/scala/a/A.scala'',
       ''src/gemmini/patches/a.patch''])"

definition ex_contract :: Record where
  "ex_contract = [(''schema'', JStr ''im2p-hardware-lowering-contract''), (''version'', JInt 1),
     (''profile'', JStr ''a8w8-d16-hp1''), (''facts'', JObj ex_facts), (''source_sha256'', JObj ex_hashes), (''sha256'', JStr ''h'')]"

lemma ex_hashes_ok:
  "set (HARDWARE_PATHS @ [''config/gemmini_host_memory_contracts/'' @ ''a8w8-d16-hp1'' @ ''.json'']) \<subseteq> set (map fst ex_hashes)"
  "list_all (\<lambda>(k, v). is_sha256 v) ex_hashes"
  by (simp_all add: ex_hashes_def HARDWARE_PATHS_def is_sha256_def hex_string_def is_hex_def list_all_iff)

lemma ex_globs_ok: "list_all (\<lambda>pattern. list_ex (\<lambda>(p, v). fnmatchcase pattern p) ex_hashes) HARDWARE_GLOBS"
proof -
  have "fnmatchcase ''src/gemmini/src/main/scala/**/*.scala'' ''src/gemmini/src/main/scala/a/A.scala''"
    "fnmatchcase ''src/gemmini/control/src/main/scala/**/*.scala'' ''src/gemmini/control/src/main/scala/a/A.scala''"
    "fnmatchcase ''src/gemmini/upstream/src/main/scala/**/*.scala'' ''src/gemmini/upstream/src/main/scala/a/A.scala''"
    "fnmatchcase ''src/gemmini/patches/*.patch'' ''src/gemmini/patches/a.patch''"
    by code_simp+
  then show ?thesis by (simp add: ex_hashes_def HARDWARE_GLOBS_def del: fnmatchcase.simps)
qed

lemma ex_facts_ok: "keys_are ex_facts FACT_KEYS" by code_simp

lemma ex_contract_valid: "validate_contract ex_ext ex_contract ''a8w8-d16-hp1'' = Inr ()"
proof -
  have d: "contract_digest ex_ext d = ''h''" for d by (simp add: contract_digest_def ex_ext_def)
  have f: "rget ex_facts ''activation_bits'' = JInt 8" "rget ex_facts ''weight_bits'' = JInt 8" "rget ex_facts ''dim'' = JInt 16"
    "rget ex_facts ''memory'' = JObj (map (\<lambda>k. (k, JInt 1)) [''bank_count'', ''bank_rows'', ''accumulator_rows'', ''scratchpad_row_bytes'',
         ''accumulator_row_bytes'', ''scratchpad_total_bytes'', ''accumulator_total_bytes''])"
    "rget ex_facts ''fixed_latencies'' = JObj [(''scratchpad_read_delay'', JInt 4), (''accumulator_latency'', JInt 2)]"
    by (simp_all add: ex_facts_def FACT_KEYS_def rget_def)
  have n: "str_int 8 = ''8''" "str_int 16 = ''16''" by code_simp+
  have c: "rget ex_contract ''schema'' = JStr ''im2p-hardware-lowering-contract''" "rget ex_contract ''version'' = JInt 1"
    "rget ex_contract ''profile'' = JStr ''a8w8-d16-hp1''" "rget ex_contract ''facts'' = JObj ex_facts"
    "rget ex_contract ''source_sha256'' = JObj ex_hashes" "rget ex_contract ''sha256'' = JStr ''h''"
    "keys_are ex_contract [''schema'', ''version'', ''profile'', ''facts'', ''source_sha256'', ''sha256'']"
    by (simp_all add: ex_contract_def rget_def keys_are_def)
  show ?thesis
    using ex_hashes_ok ex_globs_ok ex_facts_ok
    by (simp add: validate_contract_def d f c(1-6) n contract_mapping_def keys_are_def) (simp add: ex_contract_def)
qed

lemma compatible_same_digest_witness:
  "compatible ex_ext ex_contract ex_contract = Inr () \<and> rget ex_contract ''profile'' = JStr ''a8w8-d16-hp1''"
proof -
  have p: "rget ex_contract ''profile'' = JStr ''a8w8-d16-hp1''" by (simp add: ex_contract_def rget_def)
  have "compatible ex_ext ex_contract ex_contract = Inr ()"
    by (simp add: compatible_def p ex_contract_valid) (simp add: ex_contract_def rget_def)
  with compatible_same_digest [OF this] p show ?thesis by auto
qed

end
