(* ===== verification/Trace_Schema.thy ===== *)
theory Trace_Schema
  imports Hardware_Contract
begin

text \<open>
  The strict NPU trace schema: \<^verbatim>\<open>sim/cycle/npu_trace_schema.py\<close> (field tables, typed
  accessors, \<open>semantic_key\<close>, \<open>parse_record\<close>, \<open>parse_run\<close>, \<open>parse_work\<close>),
  \<^verbatim>\<open>sim/cycle/npu_trace_runs.py\<close> (\<open>parse_run_view\<close>) and the duplicate-key hooks of
  \<^verbatim>\<open>sim/cycle/strict_json.py\<close>. Accessors on semantic records used by the other
  components (\<open>array\<close>, \<open>fields_of\<close>) come from
  \<^verbatim>\<open>sim/cycle/reconstruct_graph.py\<close>. The JSON decoder itself belongs to the standard
  library: \<open>parse_record\<close> starts from the decoded value.
\<close>

section \<open>Typed accessors\<close>

definition U64 :: int where
  "U64 = 2 ^ 64"

definition require :: "bool \<Rightarrow> string \<Rightarrow> 'a res \<Rightarrow> 'a res" where
  "require c detail k = chk c (NpuTraceError (''npu-trace: '' @ detail)) k"

definition requirer :: "bool res \<Rightarrow> string \<Rightarrow> 'a res \<Rightarrow> 'a res" where
  "requirer c detail k = chkr c (NpuTraceError (''npu-trace: '' @ detail)) k"

definition integer :: "Record \<Rightarrow> string \<Rightarrow> int res" where
  "integer r key = (case rget r key of
     JInt n \<Rightarrow> (if 0 \<le> n \<and> n < U64 then Inr n
               else Inl (NpuTraceError (''npu-trace: '' @ key @ '': uint64 required'')))
   | _ \<Rightarrow> Inl (NpuTraceError (''npu-trace: '' @ key @ '': uint64 required'')))"

definition text_of :: "Record \<Rightarrow> string \<Rightarrow> string res" where
  "text_of r key = (case rget r key of
     JStr s \<Rightarrow> (if s \<noteq> [] then Inr s
               else Inl (NpuTraceError (''npu-trace: '' @ key @ '': nonempty string required'')))
   | _ \<Rightarrow> Inl (NpuTraceError (''npu-trace: '' @ key @ '': nonempty string required'')))"

definition object_value :: "jval \<Rightarrow> Record res" where
  "object_value v = (case v of JObj d \<Rightarrow> Inr d
     | _ \<Rightarrow> Inl (NpuTraceError ''npu-trace: JSON object required''))"

text \<open>\<^verbatim>\<open>reconstruct_graph.array\<close> and \<^verbatim>\<open>reconstruct_graph.fields\<close>. The message of
  \<open>fields_of\<close> lists the symmetric difference of the key sets.\<close>

definition array :: "jval \<Rightarrow> jval list res" where
  "array v = (case v of JArr xs \<Rightarrow> Inr xs | _ \<Rightarrow> Inl (ValueError ''JSON array required''))"

definition fields_of :: "Record \<Rightarrow> string list \<Rightarrow> unit res" where
  "fields_of r expected =
     require (keys_are r expected)
       (''missing/unknown fields: '' @
        join '','' (sort (remdups (filter (\<lambda>k. k \<notin> set expected) (map fst r) @
                              filter (\<lambda>k. k \<notin> set (map fst r)) expected))))
       (Inr ())"

lemma require_eq_Inr [res_simps]: "require c d k = Inr y \<longleftrightarrow> c \<and> k = Inr y"
  by (simp add: require_def chk_eq_Inr)

lemma requirer_eq_Inr [res_simps]: "requirer c d k = Inr y \<longleftrightarrow> c = Inr True \<and> k = Inr y"
  by (simp add: requirer_def chkr_eq_Inr)

lemma integer_eq_Inr [res_simps]:
  "integer r key = Inr n \<longleftrightarrow> rget r key = JInt n \<and> 0 \<le> n \<and> n < U64"
  by (auto simp: integer_def split: jval.splits if_splits)

lemma text_eq_Inr [res_simps]: "text_of r key = Inr s \<longleftrightarrow> rget r key = JStr s \<and> s \<noteq> []"
  by (auto simp: text_of_def split: jval.splits if_splits)

lemma object_value_eq_Inr [res_simps]: "object_value v = Inr d \<longleftrightarrow> v = JObj d"
  by (auto simp: object_value_def split: jval.splits)

lemma array_eq_Inr [res_simps]: "array v = Inr xs \<longleftrightarrow> v = JArr xs"
  by (auto simp: array_def split: jval.splits)

lemma fields_eq_Inr [res_simps]: "fields_of r ks = Inr u \<longleftrightarrow> keys_are r ks"
  by (simp add: fields_of_def require_eq_Inr)

section \<open>Duplicate keys\<close>

definition unique_step :: "Record \<Rightarrow> string \<times> jval \<Rightarrow> Record res" where
  "unique_step result kv =
     require (\<not> has_key result (fst kv)) (''duplicate JSON key: '' @ fst kv)
       (Inr (AList.update (fst kv) (snd kv) result))"

definition unique_pairs :: "(string \<times> jval) list \<Rightarrow> Record res" where
  "unique_pairs pairs = foldm unique_step [] pairs"

text \<open>\<^verbatim>\<open>dict(pairs)\<close>: a later value replaces an earlier one in place.\<close>

definition dict_of :: "('k \<times> 'v) list \<Rightarrow> ('k, 'v) dict" where
  "dict_of pairs = foldl (\<lambda>d (k, v). AList.update k v d) [] pairs"

definition strict_pairs :: "(string \<times> jval) list \<Rightarrow> Record res" where
  "strict_pairs pairs =
     (let result = dict_of pairs in
      if length result \<noteq> length pairs then unique_pairs pairs else Inr result)"

lemma unique_pairs_acc:
  assumes "foldm unique_step acc ps = Inr r" and "distinct (map fst acc)"
  shows "r = acc @ ps \<and> distinct (map fst (acc @ ps))"
  using assms
proof (induction ps arbitrary: acc)
  case Nil
  then show ?case by simp
next
  case (Cons p ps)
  obtain k v where p: "p = (k, v)" by force
  from Cons.prems(1) obtain a' where a': "unique_step acc p = Inr a'" "foldm unique_step a' ps = Inr r"
    by (auto simp: bnd_eq_Inr)
  then have new: "k \<notin> set (map fst acc)" and "a' = acc @ [(k, v)]"
    by (auto simp: unique_step_def p require_eq_Inr has_key_def keys_update_new)
  then show ?case using Cons.IH [of a'] a'(2) Cons.prems(2) p by auto
qed

lemma unique_pairs_total:
  assumes "distinct (map fst (acc @ ps))"
  shows "foldm unique_step acc ps = Inr (acc @ ps)"
  using assms
proof (induction ps arbitrary: acc)
  case Nil
  then show ?case by simp
next
  case (Cons p ps)
  obtain k v where p: "p = (k, v)" by force
  with Cons.prems have "unique_step acc p = Inr (acc @ [p])"
    by (auto simp: unique_step_def require_def has_key_def keys_update_new)
  then show ?case using Cons.IH [of "acc @ [p]"] Cons.prems by simp
qed

lemma unique_pairs_iff: "unique_pairs ps = Inr r \<longleftrightarrow> distinct (map fst ps) \<and> r = ps"
  using unique_pairs_acc [of "[]" ps r] unique_pairs_total [of "[]" ps]
  by (auto simp: unique_pairs_def)

lemma dict_of_acc_length:
  "length (foldl (\<lambda>d (k, v). AList.update k v d) acc ps) \<le> length acc + length ps"
proof (induction ps arbitrary: acc)
  case Nil
  then show ?case by simp
next
  case (Cons p ps)
  obtain k v where p: "p = (k, v)" by force
  have "length (AList.update k v acc) \<le> Suc (length acc)"
    by (induction acc) auto
  with Cons.IH [of "AList.update k v acc"] p show ?case by simp
qed

lemma dict_of_acc_distinct:
  assumes "length (foldl (\<lambda>d (k, v). AList.update k v d) acc ps) = length acc + length ps"
    and "distinct (map fst acc)"
  shows "distinct (map fst (acc @ ps)) \<and> foldl (\<lambda>d (k, v). AList.update k v d) acc ps = acc @ ps"
  using assms
proof (induction ps arbitrary: acc)
  case Nil
  then show ?case by simp
next
  case (Cons p ps)
  obtain k v where p: "p = (k, v)" by force
  have new: "k \<notin> set (map fst acc)"
  proof
    assume "k \<in> set (map fst acc)"
    then have "length (AList.update k v acc) = length acc"
      by (metis keys_update_distinct length_map)
    with dict_of_acc_length [of "AList.update k v acc" ps] Cons.prems(1) p show False by simp
  qed
  then have upd: "AList.update k v acc = acc @ [(k, v)]" by (rule keys_update_new)
  show ?case using Cons.IH [of "acc @ [(k, v)]"] Cons.prems new upd p by simp
qed

lemma dict_of_distinct: "distinct (map fst (acc @ ps)) \<Longrightarrow>
    foldl (\<lambda>d (k, v). AList.update k v d) acc ps = acc @ ps"
proof (induction ps arbitrary: acc)
  case Nil
  then show ?case by simp
next
  case (Cons p ps)
  obtain k v where p: "p = (k, v)" by force
  with Cons.prems have "AList.update k v acc = acc @ [(k, v)]" by (auto simp: keys_update_new)
  with Cons.IH [of "acc @ [(k, v)]"] Cons.prems p show ?case by simp
qed

text \<open>C23. The optimised hook builds the dictionary first and looks for a duplicate only through the
  lengths; it still behaves as the reference hook on every list of pairs, error message included.\<close>

theorem strict_pairs_unique_pairs: "strict_pairs ps = unique_pairs ps"
proof (cases "distinct (map fst ps)")
  case True
  then have "dict_of ps = ps" using dict_of_distinct [of "[]" ps] by (simp add: dict_of_def)
  moreover from True have "unique_pairs ps = Inr ps" by (simp add: unique_pairs_iff)
  ultimately show ?thesis by (simp add: strict_pairs_def)
next
  case False
  then have "length (dict_of ps) \<noteq> length ps"
    using dict_of_acc_distinct [of "[]" ps] by (auto simp: dict_of_def)
  then show ?thesis by (simp add: strict_pairs_def Let_def)
qed

section \<open>Field tables\<close>

definition SCHEMA :: string where
  "SCHEMA = ''im2p-npu-cycle-trace''"

definition RUN_REVISION :: string where
  "RUN_REVISION = ''cross-block-run-aware-v1''"

definition COMMON :: "string list" where
  "COMMON = [''schema'', ''version'', ''kind'', ''sequence'', ''run_id'', ''collection_run_id'',
     ''run_config_id'', ''source_role'']"

definition SEMANTIC_FIELDS :: "string list" where
  "SEMANTIC_FIELDS = [''semantic_phase_kind'', ''semantic_decode_index'',
     ''semantic_graph_occurrence'', ''semantic_node_ordinal'']"

definition INPUT_KEYS :: "string list" where
  "INPUT_KEYS = [''m'', ''n'', ''k'', ''tile_i_count'', ''tile_j_count'', ''tile_k_count'',
     ''activation_stride_bytes'', ''weight_stride_bytes'', ''output_stride_bytes'',
     ''scale_stride_elements'']"

definition FIELDS :: "(string, string list) dict" where
  "FIELDS =
    [(''RUN'', [''model'', ''profile'', ''activation_bits'', ''weight_bits'', ''dim'', ''prompt_tokens'',
        ''requested_generated_tokens'', ''producer_execution_kind'', ''actual_rtl_acceptance_in_collection'',
        ''hardware_contract'', ''hardware_contract_sha256'', ''collection_scope'']),
     (''PHASE'', [''phase_id'', ''phase_kind'', ''decode_index'', ''input_tokens'']),
     (''TARGET_OPERATION'', [''phase_id'', ''operation_id'', ''node_id'', ''layer'', ''operation'',
        ''actual_backend'', ''activation_type'', ''weight_type'', ''m'', ''n'', ''k'', ''target_eligible'',
        ''selected_target'', ''reason'', ''status'', ''npu_work_count'']),
     (''NPU_WORK'', [''phase_id'', ''operation_id'', ''node_id'', ''parent_id'', ''call_id'', ''work_id'',
        ''layer'', ''operation'', ''provenance'', ''scope'', ''activation_bits'', ''weight_bits'', ''dim''] @
        INPUT_KEYS @ [''parent_m'', ''production_geometry_version'', ''row_begin'', ''row_count'',
        ''stripe_id'', ''host_slot'', ''original_block_id'', ''block_size'', ''vector_op'',
        ''output_domain'', ''work_context'', ''source_row_begin'', ''source_row_count'', ''column_begin'',
        ''group_index'', ''rmd_raw'', ''host_integer_block_multiply'', ''hardware_contract_sha256'',
        ''required_host_stage_ids'']),
     (''NPU_CALL'', [''phase_id'', ''operation_id'', ''node_id'', ''parent_id'', ''call_id'', ''call_kind'',
        ''stage'', ''required_work_ids'']),
     (''HOST_STAGE'', [''phase_id'', ''operation_id'', ''node_id'', ''parent_id'', ''call_id'',
        ''host_stage_id'', ''execution_class'', ''stage_name'', ''source_owner'', ''source_location'',
        ''required_work_ids'', ''required_host_stage_ids'', ''event'', ''status'']),
     (''RUN_END'', [''status'', ''reason'', ''registered_operation_count'', ''completed_operation_count'',
        ''target_npu_count'', ''ordinary_cpu_count'', ''unsupported_count'', ''excluded_count'',
        ''npu_work_count'', ''call_count'', ''phase_count'', ''host_stage_count'',
        ''completed_host_stage_count'', ''potal_host_count'', ''functional_emulation_count''])]"

definition FIELDS_V2 :: "(string, string list) dict" where
  "FIELDS_V2 = map (\<lambda>(kind, fs).
     (kind, if kind = ''RUN'' then fs @ [''residual_work_revision'']
            else if kind = ''NPU_WORK'' then fs @ [''original_k'', ''runs'', ''row_map'', ''residual_work_revision'']
            else fs)) FIELDS"

definition CLASSES :: "string list" where
  "CLASSES = [''TARGET_NPU'', ''ORDINARY_CPU'', ''UNSUPPORTED'', ''EXCLUDED'']"

type_synonym SemanticKey = "string \<times> int option \<times> int \<times> int"

text \<open>An optional integer field read by \<^verbatim>\<open>None if record[key] is None else integer(record, key)\<close>.\<close>

definition opt_integer :: "Record \<Rightarrow> string \<Rightarrow> int option res" where
  "opt_integer r key = bnd (item r key) (\<lambda>v.
     if v = JNull then Inr None else bnd (integer r key) (\<lambda>n. Inr (Some n)))"

definition semantic_key :: "Record \<Rightarrow> SemanticKey res" where
  "semantic_key r =
     bnd (text_of r ''semantic_phase_kind'') (\<lambda>phase.
     bnd (opt_integer r ''semantic_decode_index'') (\<lambda>decode.
     require ((phase = ''prefill'' \<and> decode = None) \<or> (phase = ''decode'' \<and> decode \<noteq> None))
       ''invalid semantic phase'' (
     bnd (integer r ''semantic_graph_occurrence'') (\<lambda>graph.
     bnd (integer r ''semantic_node_ordinal'') (\<lambda>ordinal.
     Inr (phase, decode, graph, ordinal))))))"

definition parse_record :: "jval \<Rightarrow> Record res" where
  "parse_record decoded =
     bnd (object_value decoded) (\<lambda>r.
     require (py_eq (rget r ''schema'') (JStr SCHEMA) \<and>
              (rget r ''version'' = JInt 1 \<or> rget r ''version'' = JInt 2))
       ''unsupported schema/version; production optrace is a separate format'' (
     bnd (text_of r ''kind'') (\<lambda>kind.
     require (has_key FIELDS kind) ''unknown record kind'' (
     let semantic = (if kind \<in> {''TARGET_OPERATION'', ''NPU_WORK'', ''NPU_CALL'', ''HOST_STAGE''}
                     then SEMANTIC_FIELDS else []);
         expected = (if rget r ''version'' = JInt 2 then FIELDS_V2 else FIELDS)
     in require (keys_are r (COMMON @ the (map_of expected kind) @ semantic))
       (''missing/unknown '' @ kind @ '' fields'') (
     bnd (integer r ''sequence'') (\<lambda>_.
     bnd (integer r ''collection_run_id'') (\<lambda>_.
     bnd (text_of r ''run_id'') (\<lambda>_.
     bnd (text_of r ''run_config_id'') (\<lambda>_.
     bnd (item r ''source_role'') (\<lambda>role.
     require (py_eq role (JStr ''POTAL_COLLECTION'')) ''NPU trace requires PoTal collection ownership'' (
     if semantic \<noteq> [] then bnd (semantic_key r) (\<lambda>_. Inr r) else Inr r)))))))))))"

record Run =
  run_identity :: string
  run_collection_id :: int
  run_run_config_id :: string
  run_profile :: string
  run_widths_dim :: "int \<times> int \<times> int"
  run_contract :: Record
  run_contract_hash :: string
  run_trace_version :: int
  run_residual_work_revision :: "string option"

record RunSpan =
  original_block_id :: int
  original_k_mask :: int
  compact_k_begin :: int
  compact_k_count :: int

record RowIdentity =
  source_row :: int
  lane_id :: int

definition profile_name :: "int \<Rightarrow> int \<Rightarrow> int \<Rightarrow> string" where
  "profile_name a w d = ''a'' @ str_int a @ ''w'' @ str_int w @ ''-d'' @ str_int d @ ''-hp1''"

definition parse_run :: "ext \<Rightarrow> Record \<Rightarrow> Run res" where
  "parse_run E r =
     bnd (item r ''kind'') (\<lambda>kind.
     require (py_eq kind (JStr ''RUN'')) ''first record must be RUN'' (
     bnd (text_of r ''profile'') (\<lambda>profile.
     bnd (integer r ''activation_bits'') (\<lambda>a.
     bnd (integer r ''weight_bits'') (\<lambda>w.
     bnd (integer r ''dim'') (\<lambda>dim.
     require (a = w \<and> a \<in> {4, 8} \<and> dim \<in> {16, 32, 64} \<and> profile = profile_name a w dim)
       ''unsupported profile/DIM'' (
     bnd (text_of r ''model'') (\<lambda>_.
     bnd (integer r ''prompt_tokens'') (\<lambda>_.
     bnd (integer r ''requested_generated_tokens'') (\<lambda>_.
     requirer (allr [bnd (item r ''producer_execution_kind'') (\<lambda>v. Inr (py_eq v (JStr ''CPU_FUNCTIONAL''))),
                     bnd (item r ''actual_rtl_acceptance_in_collection'')
                       (\<lambda>v. Inr (py_eq v (JStr ''NOT_APPLICABLE'')))])
       ''collection is not CPU-functional'' (
     bnd (item r ''collection_scope'') (\<lambda>scope.
     require (py_eq scope (JStr ''prompt_and_generation'')) ''unsupported collection scope'' (
     bnd (item r ''hardware_contract'') (\<lambda>raw.
     bnd (object_value raw) (\<lambda>contract.
     bnd (validate_contract E contract profile) (\<lambda>_.
     bnd (text_of r ''hardware_contract_sha256'') (\<lambda>digest.
     require (py_eq (rget contract ''sha256'') (JStr digest)) ''run hardware contract hash mismatch'' (
     bnd (integer r ''version'') (\<lambda>version.
     bnd (if version = 2
          then bnd (item r ''residual_work_revision'') (\<lambda>rev.
               require (py_eq rev (JStr RUN_REVISION)) ''unsupported residual work revision''
                 (Inr (Some RUN_REVISION)))
          else Inr None) (\<lambda>revision.
     bnd (text_of r ''run_id'') (\<lambda>identity.
     bnd (integer r ''collection_run_id'') (\<lambda>collection.
     bnd (text_of r ''run_config_id'') (\<lambda>config.
     Inr \<lparr>run_identity = identity, run_collection_id = collection, run_run_config_id = config,
          run_profile = profile, run_widths_dim = (a, w, dim), run_contract = contract,
          run_contract_hash = digest, run_trace_version = version,
          run_residual_work_revision = revision\<rparr>)))))))))))))))))))))))"

section \<open>Compact runs\<close>

text \<open>\<^verbatim>\<open>int.bit_count\<close> and \<^verbatim>\<open>int.bit_length\<close> on the nonnegative masks.\<close>

fun bit_count :: "nat \<Rightarrow> nat" where
  "bit_count n = (if n = 0 then 0 else n mod 2 + bit_count (n div 2))"

fun bit_length :: "nat \<Rightarrow> nat" where
  "bit_length n = (if n = 0 then 0 else Suc (bit_length (n div 2)))"

declare bit_count.simps [simp del] bit_length.simps [simp del]

text \<open>One iteration of the loop over the runs; the state is (spans, cursor, previous).\<close>

definition run_step :: "int \<Rightarrow> int \<Rightarrow> RunSpan list \<times> int \<times> int \<Rightarrow> jval \<Rightarrow> (RunSpan list \<times> int \<times> int) res" where
  "run_step fragments_per_block original_k st raw =
     (case st of (spans, cursor, previous) \<Rightarrow>
     bnd (object_value raw) (\<lambda>it.
     require (keys_are it [''original_block_id'', ''original_k_mask'', ''compact_k_begin'', ''compact_k_count''])
       ''invalid run fields'' (
     bnd (integer it ''original_block_id'') (\<lambda>block.
     bnd (integer it ''original_k_mask'') (\<lambda>mask.
     bnd (integer it ''compact_k_begin'') (\<lambda>begin'.
     bnd (integer it ''compact_k_count'') (\<lambda>count.
     require (block \<le> (2 ^ 16 - 1) div fragments_per_block \<and> block > previous \<and>
              0 < mask \<and> mask < 2 ^ 32 \<and> 0 < count \<and> count \<le> 32 \<and>
              int (bit_count (nat mask)) = count \<and> begin' = cursor \<and>
              block * 32 + int (bit_length (nat mask)) \<le> original_k)
       ''invalid run coverage/owner/mask'' (
     Inr (spans @ [\<lparr>original_block_id = block, original_k_mask = mask,
                    compact_k_begin = begin', compact_k_count = count\<rparr>],
          cursor + count, block)))))))))"

text \<open>One iteration of the loop over the row map; the state is (mapped, last key).\<close>

definition row_step :: "int \<Rightarrow> int \<Rightarrow> RowIdentity list \<times> (int \<times> int) \<Rightarrow> jval \<Rightarrow> (RowIdentity list \<times> (int \<times> int)) res" where
  "row_step bits source_rows st raw =
     (case st of (mapped, prior) \<Rightarrow>
     bnd (object_value raw) (\<lambda>it.
     require (keys_are it [''source_row'', ''lane_id'']) ''invalid row_map fields'' (
     bnd (integer it ''source_row'') (\<lambda>row.
     bnd (integer it ''lane_id'') (\<lambda>lane.
     require (row < source_rows \<and> lane < 32 div bits + 1 \<and> prior < (lane, row))
       ''invalid/duplicate/unsorted original row or radix lane''
     (Inr (mapped @ [\<lparr>source_row = row, lane_id = lane\<rparr>], (lane, row))))))))"

definition parse_run_view :: "Record \<Rightarrow> int \<times> int \<times> int \<Rightarrow> int \<Rightarrow> int \<Rightarrow> int \<Rightarrow>
    (int \<times> RunSpan list \<times> RowIdentity list) res" where
  "parse_run_view r profile m n k =
     (case profile of (bits, _, d) \<Rightarrow>
     bnd (integer r ''original_k'') (\<lambda>original_k.
     require (0 < original_k \<and> original_k \<le> 2 ^ 32 - 1 \<and> 0 < m \<and> m \<le> 2 ^ 32 - 1 \<and>
              0 < n \<and> n \<le> 2 ^ 32 - 1 \<and> 0 < k \<and> k \<le> 2 ^ 32 - 1)
       ''run work exceeds public numerical integer widths'' (
     bnd (item r ''runs'') (\<lambda>rv.
     bnd (array_or (NpuTraceError ''npu-trace: runs must be an array'') rv) (\<lambda>raw_runs.
     require (0 < length raw_runs \<and> int (length raw_runs) \<le> k)
       ''run count must be nonzero and bounded by compact K'' (
     bnd (foldm (run_step (32 div min d 32) original_k) ([], 0, -1) raw_runs) (\<lambda>(spans, cursor, previous).
     require (cursor = k) ''runs must cover compact K exactly'' (
     bnd (item r ''row_map'') (\<lambda>mv.
     bnd (array_or (NpuTraceError ''npu-trace: row_map must be an array'') mv) (\<lambda>raw_rows.
     bnd (integer r ''source_row_count'') (\<lambda>source_rows.
     bnd (integer r ''source_row_begin'') (\<lambda>source_begin.
     require (0 < source_rows \<and> source_rows \<le> 2 ^ 32 - 1 \<and> source_begin + source_rows < 2 ^ 64 \<and>
              int (length raw_rows) = m) ''row_map/source stripe extent mismatch'' (
     bnd (foldm (row_step bits source_rows) ([], (-1, -1)) raw_rows) (\<lambda>(mapped, prior).
     Inr (original_k, spans, mapped)))))))))))))))"

section \<open>Work records\<close>

record Work =
  w_phase :: int
  w_operation_id :: int
  w_parent_id :: int
  w_node_id :: int
  w_call_id :: int
  w_identity :: int
  w_layer :: string
  w_operation :: string
  w_provenance :: string
  w_scope :: string
  w_parent_rows :: int
  w_row_begin :: int
  w_stripe_id :: "int option"
  w_inputs :: "int list"
  w_original_k :: "int option"
  w_runs :: "RunSpan list"
  w_row_map :: "RowIdentity list"
  w_residual_work_revision :: "string option"

text \<open>The residual view of a work: \<open>(original_k, runs, row_map, revision)\<close>.\<close>

definition work_view :: "Record \<Rightarrow> Run \<Rightarrow> string \<Rightarrow> string \<Rightarrow> int \<Rightarrow> int \<Rightarrow> int \<Rightarrow>
    (int option \<times> RunSpan list \<times> RowIdentity list \<times> string option) res" where
  "work_view r run provenance scope m n k =
     bnd (integer r ''version'') (\<lambda>version.
     if version = 2 then
       require ((provenance = ''dense_main'' \<and> scope \<in> {''full'', ''stripe''}) \<or>
                (provenance = ''residual'' \<and> scope = ''residual_compact'')) ''invalid dense/residual scope'' (
       bnd (item r ''original_block_id'') (\<lambda>ob.
       require (ob = JNull) ''v2 original block identity belongs in runs'' (
       if provenance = ''residual'' then
         bnd (parse_run_view r (run_widths_dim run) m n k) (\<lambda>(original_k, runs, row_map).
         bnd (item r ''residual_work_revision'') (\<lambda>rev.
         require (py_eq rev (case run_residual_work_revision run of None \<Rightarrow> JNull | Some s \<Rightarrow> JStr s))
           ''work/run residual revision mismatch''
         (Inr (Some original_k, runs, row_map, run_residual_work_revision run))))
       else
         requirer (allr [bnd (item r ''original_k'') (\<lambda>v. Inr (v = JNull)),
                         bnd (item r ''runs'') (\<lambda>v. Inr (py_eq v (JArr []))),
                         bnd (item r ''row_map'') (\<lambda>v. Inr (py_eq v (JArr []))),
                         bnd (item r ''residual_work_revision'') (\<lambda>v. Inr (v = JNull))])
           ''dense work cannot carry residual runs''
         (Inr (None, [], [], None)))))
     else
       bnd (item r ''original_block_id'') (\<lambda>ob.
       require ((provenance = ''dense_main'' \<and> scope \<in> {''full'', ''stripe''} \<and> ob = JNull) \<or>
                (provenance = ''residual'' \<and> scope = ''residual_compact'' \<and> k \<le> 32 \<and> ob \<noteq> JNull))
         ''invalid legacy dense/residual scope''
       (Inr (None, [], [], None))))"

definition parse_work :: "Record \<Rightarrow> Run \<Rightarrow> Work res" where
  "parse_work r run =
     bnd (mapr (integer r) [''phase_id'', ''operation_id'', ''parent_id'', ''node_id'', ''call_id'',
            ''work_id'', ''parent_m'', ''row_begin'', ''row_count'', ''production_geometry_version'',
            ''block_size'', ''vector_op'', ''output_domain'', ''work_context'', ''source_row_begin'',
            ''source_row_count'', ''column_begin'', ''group_index'']) (\<lambda>_.
     bnd (mapr (opt_integer r) [''stripe_id'', ''host_slot'', ''original_block_id'']) (\<lambda>_.
     bnd (mapr (integer r) [''activation_bits'', ''weight_bits'', ''dim'']) (\<lambda>widths.
     require (widths = (case run_widths_dim run of (a, w, d) \<Rightarrow> [a, w, d])) ''work/run profile mismatch'' (
     bnd (item r ''hardware_contract_sha256'') (\<lambda>sha.
     require (py_eq sha (JStr (run_contract_hash run))) ''work hardware contract mismatch'' (
     bnd (mapr (integer r) INPUT_KEYS) (\<lambda>values.
     require (list_all (\<lambda>v. v > 0) values) ''geometry/strides must be positive'' (
     let m = values ! 0; n = values ! 1; k = values ! 2; ti = values ! 3; tj = values ! 4;
         tk = values ! 5; a = values ! 6; w = values ! 7; out = values ! 8; scale = values ! 9;
         dim = snd (snd (run_widths_dim run)) in
     require (ti \<le> 65535 div dim \<and> tj \<le> 65535 div dim \<and> tk \<le> (2 ^ 32 - 1) div dim)
       ''tile outside hardware domain'' (
     require (a \<ge> k \<and> w \<ge> n \<and> out \<ge> 4 * n \<and> out mod 4 = 0 \<and> scale \<ge> n) ''invalid descriptor strides'' (
     bnd (mapr (integer r) [''block_size'', ''vector_op'', ''output_domain'', ''production_geometry_version''])
       (\<lambda>hp1.
     require (hp1 = [32, 5, 2, 1]) ''unsupported HP1 descriptor contract'' (
     requirer (allr [bnd (item r ''rmd_raw'') (\<lambda>v. Inr (v = JBool False)),
                     bnd (item r ''host_integer_block_multiply'') (\<lambda>v. Inr (v = JBool False))])
       ''raw/host integer work forbidden'' (
     bnd (integer r ''parent_m'') (\<lambda>rows.
     bnd (integer r ''row_begin'') (\<lambda>begin'.
     bnd (integer r ''row_count'') (\<lambda>row_count.
     require (row_count = m \<and> begin' + m \<le> rows) ''invalid parent row range'' (
     bnd (opt_integer r ''host_slot'') (\<lambda>slot.
     require (slot \<in> {None, Some 0, Some 1}) ''host slot outside [0,1]'' (
     bnd (text_of r ''provenance'') (\<lambda>provenance.
     bnd (text_of r ''scope'') (\<lambda>scope.
     bnd (work_view r run provenance scope m n k) (\<lambda>(original_k, runs, row_map, revision).
     bnd (if scope = ''stripe''
          then bnd (integer r ''stripe_id'') (\<lambda>s. bnd (integer r ''host_slot'') (\<lambda>_. Inr (Some s)))
          else require (begin' = 0 \<and> rows = m) ''FULL/compact must cover exactly its dispatch'' (Inr None))
       (\<lambda>stripe.
     bnd (mapr (integer r) [''phase_id'', ''operation_id'', ''parent_id'', ''node_id'', ''call_id'', ''work_id''])
       (\<lambda>ids.
     bnd (text_of r ''layer'') (\<lambda>layer.
     bnd (text_of r ''operation'') (\<lambda>operation.
     Inr \<lparr>w_phase = ids ! 0, w_operation_id = ids ! 1, w_parent_id = ids ! 2, w_node_id = ids ! 3,
          w_call_id = ids ! 4, w_identity = ids ! 5, w_layer = layer, w_operation = operation,
          w_provenance = provenance, w_scope = scope, w_parent_rows = rows, w_row_begin = begin',
          w_stripe_id = stripe, w_inputs = values, w_original_k = original_k, w_runs = runs,
          w_row_map = row_map, w_residual_work_revision = revision\<rparr>))))))))))))))))))))))))))"

end
