(* ===== verification/Exec_IR.thy ===== *)
theory Exec_IR
  imports Trace_Schema
begin

text \<open>
  The execution IR of \<^verbatim>\<open>sim/cycle/execution_ir.py\<close>: nodes with typed dependencies, the
  checks of \<^verbatim>\<open>ExecutionIR.__post_init__\<close>, and its JSON reader and writer. The cycle check
  uses \<^verbatim>\<open>graphlib.TopologicalSorter\<close>, modelled by the removal of nodes without
  unresolved predecessors; it is shown to decide acyclicity of the dependency relation.
\<close>

definition ensure :: "bool \<Rightarrow> string \<Rightarrow> 'a res \<Rightarrow> 'a res" where
  "ensure c detail k = chk c (ExecutionError (''execution: '' @ detail)) k"

lemma ensure_eq_Inr [res_simps]: "ensure c d k = Inr y \<longleftrightarrow> c \<and> k = Inr y"
  by (simp add: ensure_def chk_eq_Inr)

lemma ensure_simps [simp]:
  "ensure True d k = k" "ensure False d k = Inl (ExecutionError (''execution: '' @ d))"
  by (simp_all add: ensure_def)

lemma ensure_cong: "c = c' \<Longrightarrow> ensure c d k = ensure c' d k"
  by simp

datatype Kind = CPU | NPU | APPLICATION_CPU | OP_ENTER | OP_EXIT | BARRIER | PUBLISH
  | FUNCTIONAL_EMULATION | WAIT | EXCLUDED

datatype Milestone = ACCEPTED | RESULT_READY | RESOURCE_READY

fun Kind_value :: "Kind \<Rightarrow> string" where
  "Kind_value CPU = ''CPU''"
| "Kind_value NPU = ''NPU''"
| "Kind_value APPLICATION_CPU = ''APPLICATION_CPU''"
| "Kind_value OP_ENTER = ''OP_ENTER''"
| "Kind_value OP_EXIT = ''OP_EXIT''"
| "Kind_value BARRIER = ''BARRIER''"
| "Kind_value PUBLISH = ''PUBLISH''"
| "Kind_value FUNCTIONAL_EMULATION = ''FUNCTIONAL_EMULATION''"
| "Kind_value WAIT = ''WAIT''"
| "Kind_value EXCLUDED = ''EXCLUDED''"

fun Milestone_value :: "Milestone \<Rightarrow> string" where
  "Milestone_value ACCEPTED = ''ACCEPTED''"
| "Milestone_value RESULT_READY = ''RESULT_READY''"
| "Milestone_value RESOURCE_READY = ''RESOURCE_READY''"

definition Kinds :: "Kind list" where
  "Kinds = [CPU, NPU, APPLICATION_CPU, OP_ENTER, OP_EXIT, BARRIER, PUBLISH, FUNCTIONAL_EMULATION, WAIT, EXCLUDED]"

text \<open>Calling the enumeration on a string looks its value up.\<close>

definition Kind_of :: "string \<Rightarrow> Kind res" where
  "Kind_of s = (case find (\<lambda>k. Kind_value k = s) Kinds of
     None \<Rightarrow> Inl (ValueError (s @ '' is not a valid Kind'')) | Some k \<Rightarrow> Inr k)"

definition Milestone_of :: "string \<Rightarrow> Milestone res" where
  "Milestone_of s = (case find (\<lambda>k. Milestone_value k = s) [ACCEPTED, RESULT_READY, RESOURCE_READY] of
     None \<Rightarrow> Inl (ValueError (s @ '' is not a valid Milestone'')) | Some k \<Rightarrow> Inr k)"

lemma Kind_roundtrip [simp]: "Kind_of (Kind_value k) = Inr k"
  by (cases k) (simp_all add: Kind_of_def Kinds_def)

lemma Milestone_roundtrip [simp]: "Milestone_of (Milestone_value k) = Inr k"
  by (cases k) (simp_all add: Milestone_of_def)

record Dependency =
  dep_node :: string
  dep_milestone :: Milestone

record Node =
  nd_identity :: string
  nd_kind :: Kind
  nd_operation :: string
  nd_phase :: string
  nd_order :: int
  nd_dependencies :: "Dependency list"
  nd_service :: "string option"
  nd_resources :: "string list"

record ExecutionIR =
  ir_nodes :: "Node list"
  ir_scope :: string
  ir_source_sha256 :: string

section \<open>Acyclicity\<close>

text \<open>\<^verbatim>\<open>TopologicalSorter.static_order\<close> on a graph node -> predecessors: nodes whose
  predecessors are all done are released until none is left; what remains is cyclic.\<close>

type_synonym 'k precedence = "('k \<times> 'k list) list"

definition blocked :: "'k precedence \<Rightarrow> 'k precedence" where
  "blocked g = filter (\<lambda>(n, ps). \<exists>p \<in> set ps. p \<in> set (map fst g)) g"

function static_order_ok :: "'k precedence \<Rightarrow> bool" where
  "static_order_ok g = (if g = [] then True else if length (blocked g) = length g then False
     else static_order_ok (blocked g))"
  by auto

termination static_order_ok
  by (relation "measure length") (auto simp: blocked_def intro: le_neq_implies_less)

declare static_order_ok.simps [simp del]

definition graph_rel :: "'k precedence \<Rightarrow> ('k \<times> 'k) set" where
  "graph_rel g = {(p, n). \<exists>ps. (n, ps) \<in> set g \<and> p \<in> set ps}"

lemma blocked_sub: "set (blocked g) \<subseteq> set g"
  by (auto simp: blocked_def)

lemma static_order_minimal:
  "static_order_ok g \<Longrightarrow> S \<noteq> {} \<Longrightarrow> S \<subseteq> fst ` set g \<Longrightarrow> \<exists>n ps. (n, ps) \<in> set g \<and> n \<in> S \<and> set ps \<inter> S = {}"
proof (induction g rule: static_order_ok.induct)
  case (1 g)
  from "1.prems" have ne: "g \<noteq> []" by auto
  from "1.prems"(1) ne have len: "length (blocked g) \<noteq> length g" and rest: "static_order_ok (blocked g)"
    by (simp_all add: static_order_ok.simps [of g] split: if_splits)
  show ?case
  proof (cases "S \<subseteq> fst ` set (blocked g)")
    case True
    with "1.IH" [OF ne len rest "1.prems"(2)] blocked_sub show ?thesis by blast
  next
    case False
    then obtain n ps where "n \<in> S" "(n, ps) \<in> set g" "(n, ps) \<notin> set (blocked g)"
      using "1.prems"(3) by fastforce
    then show ?thesis using "1.prems"(3) by (intro exI [of _ n] exI [of _ ps]) (auto simp: blocked_def)
  qed
qed

lemma filter_full: "length (filter P xs) = length xs \<longleftrightarrow> (\<forall>x \<in> set xs. P x)"
proof (induction xs)
  case (Cons x xs)
  have "length (filter P xs) \<noteq> Suc (length xs)" using length_filter_le [of P xs] by linarith
  with Cons show ?case by auto
qed simp

lemma static_order_stuck:
  "\<not> static_order_ok g \<Longrightarrow>
   \<exists>S. S \<noteq> {} \<and> S \<subseteq> fst ` set g \<and> (\<forall>n \<in> S. \<exists>ps. (n, ps) \<in> set g \<and> set ps \<inter> S \<noteq> {})"
proof (induction g rule: static_order_ok.induct)
  case (1 g)
  from "1.prems" have ne: "g \<noteq> []" by (auto simp: static_order_ok.simps)
  show ?case
  proof (cases "length (blocked g) = length g")
    case True
    then have "\<forall>(n, ps) \<in> set g. \<exists>p \<in> set ps. p \<in> fst ` set g"
      unfolding blocked_def filter_full by auto
    then show ?thesis using ne by (intro exI [of _ "fst ` set g"]) fastforce
  next
    case False
    with "1.prems" ne have "\<not> static_order_ok (blocked g)" by (simp add: static_order_ok.simps [of g])
    with "1.IH" [OF ne False] obtain S where "S \<noteq> {}" "S \<subseteq> fst ` set (blocked g)"
      "\<forall>n \<in> S. \<exists>ps. (n, ps) \<in> set (blocked g) \<and> set ps \<inter> S \<noteq> {}" by blast
    then show ?thesis using blocked_sub [of g] by (intro exI [of _ S]) blast
  qed
qed

text \<open>On a graph with one entry per node the check decides acyclicity.\<close>

lemma static_order_acyclic:
  assumes "distinct (map fst g)"
  shows "static_order_ok g \<longleftrightarrow> acyclic (graph_rel g)"
proof -
  have fin: "finite (graph_rel g)"
  proof (rule finite_subset)
    show "graph_rel g \<subseteq> (\<Union>(n, ps) \<in> set g. (\<lambda>p. (p, n)) ` set ps)" by (auto simp: graph_rel_def)
  qed auto
  have key: "ps = qs" if "(n, ps) \<in> set g" "(n, qs) \<in> set g" for n ps qs
    using assms that by (metis eq_key_imp_eq_value)
  have "static_order_ok g \<longleftrightarrow> wf (graph_rel g)"
  proof
    assume ok: "static_order_ok g"
    show "wf (graph_rel g)" unfolding wf_eq_minimal
    proof (intro allI impI)
      fix Q :: "'a set" and x assume x: "x \<in> Q"
      show "\<exists>z\<in>Q. \<forall>y. (y, z) \<in> graph_rel g \<longrightarrow> y \<notin> Q"
      proof (cases "Q \<inter> fst ` set g = {}")
        case True
        with x have "x \<notin> fst ` set g" by blast
        with x show ?thesis by (intro bexI [of _ x]) (force simp: graph_rel_def)+
      next
        case False
        let ?S = "Q \<inter> fst ` set g"
        from static_order_minimal [OF ok False] obtain n ps where
          n: "(n, ps) \<in> set g" "n \<in> ?S" "set ps \<inter> ?S = {}" by auto
        show ?thesis
        proof (cases "set ps \<inter> Q = {}")
          case True
          have "y \<notin> Q" if "(y, n) \<in> graph_rel g" for y
            using that True key [OF n(1)] by (auto simp: graph_rel_def)
          then show ?thesis using n(2) by blast
        next
          case False
          then obtain q where "q \<in> Q" "q \<in> set ps" by auto
          then have "q \<notin> fst ` set g" using n(3) by auto
          then show ?thesis using \<open>q \<in> Q\<close> by (intro bexI [of _ q]) (force simp: graph_rel_def)+
        qed
      qed
    qed
  next
    assume wf: "wf (graph_rel g)"
    show "static_order_ok g"
    proof (rule ccontr)
      assume "\<not> static_order_ok g"
      from static_order_stuck [OF this] obtain S where S: "S \<noteq> {}"
        and dep: "\<forall>n \<in> S. \<exists>ps. (n, ps) \<in> set g \<and> set ps \<inter> S \<noteq> {}" by blast
      from S obtain x where "x \<in> S" by blast
      with wf obtain z where "z \<in> S" "\<forall>y. (y, z) \<in> graph_rel g \<longrightarrow> y \<notin> S"
        unfolding wf_eq_minimal by blast
      with dep show False by (force simp: graph_rel_def)
    qed
  qed
  with fin show ?thesis by (metis finite_acyclic_wf wf_acyclic)
qed


section \<open>Construction\<close>

definition service_kind :: "Kind \<Rightarrow> bool" where
  "service_kind k \<longleftrightarrow> k \<in> {CPU, APPLICATION_CPU, NPU}"

definition check_node :: "string list \<Rightarrow> Node \<Rightarrow> unit res" where
  "check_node identities node =
     ensure (nd_order node \<ge> 0) ''negative submission order'' (
     ensure (distinct (nd_resources node)) ''duplicate resource'' (
     ensure (distinct (nd_dependencies node)) ''duplicate dependency'' (
     ensure (list_all (\<lambda>e. dep_node e \<in> set identities) (nd_dependencies node)) ''unresolved dependency'' (
     ensure (service_kind (nd_kind node) = (nd_service node \<noteq> None)) ''service ownership mismatch'' (
     ensure (service_kind (nd_kind node) = (nd_resources node \<noteq> [])) ''service/resource ownership mismatch'' (
     ensure (nd_kind node \<noteq> NPU \<or> ''npu:0'' \<in> set (nd_resources node)) ''all NPU work must share npu:0''
       (Inr ())))))))"

definition dependency_graph :: "Node list \<Rightarrow> string precedence" where
  "dependency_graph nodes = map (\<lambda>n. (nd_identity n, map dep_node (nd_dependencies n))) nodes"

text \<open>\<^verbatim>\<open>ExecutionIR.__post_init__\<close>.\<close>

definition ExecutionIR_check :: "ExecutionIR \<Rightarrow> ExecutionIR res" where
  "ExecutionIR_check ir =
     ensure (ir_scope ir \<in> {''SYNTHETIC'', ''BOUND_DATASET''}) ''unknown IR scope'' (
     ensure (ir_nodes ir \<noteq> []) ''empty execution graph'' (
     ensure (distinct (map nd_identity (ir_nodes ir))) ''duplicate node identity'' (
     bnd (mapr (check_node (map nd_identity (ir_nodes ir))) (ir_nodes ir)) (\<lambda>_.
     ensure (static_order_ok (dependency_graph (ir_nodes ir))) ''cyclic execution graph'' (
     Inr ir)))))"

definition valid_node :: "Node list \<Rightarrow> Node \<Rightarrow> bool" where
  "valid_node nodes n \<longleftrightarrow> nd_order n \<ge> 0 \<and> distinct (nd_resources n) \<and> distinct (nd_dependencies n) \<and>
     (\<forall>e \<in> set (nd_dependencies n). dep_node e \<in> nd_identity ` set nodes) \<and>
     (service_kind (nd_kind n) \<longleftrightarrow> nd_service n \<noteq> None) \<and> (service_kind (nd_kind n) \<longleftrightarrow> nd_resources n \<noteq> []) \<and>
     (nd_kind n = NPU \<longrightarrow> ''npu:0'' \<in> set (nd_resources n))"

definition valid_ir :: "ExecutionIR \<Rightarrow> bool" where
  "valid_ir ir \<longleftrightarrow> ir_scope ir \<in> {''SYNTHETIC'', ''BOUND_DATASET''} \<and> ir_nodes ir \<noteq> [] \<and>
     distinct (map nd_identity (ir_nodes ir)) \<and> (\<forall>n \<in> set (ir_nodes ir). valid_node (ir_nodes ir) n) \<and>
     acyclic (graph_rel (dependency_graph (ir_nodes ir)))"

lemma check_node_Inr: "check_node (map nd_identity nodes) n = Inr u \<longleftrightarrow> valid_node nodes n"
  by (auto simp: check_node_def valid_node_def ensure_eq_Inr list_all_iff)

lemma check_nodes_Inr: "(\<exists>us. mapr (check_node (map nd_identity nodes)) ns = Inr us) \<longleftrightarrow>
    (\<forall>n \<in> set ns. valid_node nodes n)"
proof (induction ns)
  case Nil
  then show ?case by simp
next
  case (Cons n ns)
  then show ?case by (auto simp: bnd_eq_Inr check_node_Inr)
qed

lemma ExecutionIR_check_Inr [res_simps]: "ExecutionIR_check ir = Inr ir' \<longleftrightarrow> ir' = ir \<and> valid_ir ir"
proof -
  have g: "map fst (dependency_graph (ir_nodes ir)) = map nd_identity (ir_nodes ir)"
    by (simp add: dependency_graph_def)
  have "ExecutionIR_check ir = Inr ir' \<longleftrightarrow> ir' = ir \<and> ir_scope ir \<in> {''SYNTHETIC'', ''BOUND_DATASET''} \<and>
      ir_nodes ir \<noteq> [] \<and> distinct (map nd_identity (ir_nodes ir)) \<and>
      (\<exists>us. mapr (check_node (map nd_identity (ir_nodes ir))) (ir_nodes ir) = Inr us) \<and>
      static_order_ok (dependency_graph (ir_nodes ir))"
    unfolding ExecutionIR_check_def by (auto simp: bnd_eq_Inr ensure_eq_Inr)
  then show ?thesis
    unfolding check_nodes_Inr valid_ir_def
    using static_order_acyclic [of "dependency_graph (ir_nodes ir)"] g by auto
qed


text \<open>In a valid graph every nonempty set of nodes has one that depends on none of the set.\<close>

lemma valid_ir_minimal:
  assumes "valid_ir ir" "S \<noteq> {}" "S \<subseteq> set (ir_nodes ir)"
  shows "\<exists>n \<in> S. \<forall>e \<in> set (nd_dependencies n). dep_node e \<notin> nd_identity ` S"
proof -
  let ?g = "dependency_graph (ir_nodes ir)"
  have fg: "map fst ?g = map nd_identity (ir_nodes ir)" by (simp add: dependency_graph_def)
  with assms(1) have d: "distinct (map fst ?g)" by (simp add: valid_ir_def)
  with assms(1) have "static_order_ok ?g" by (simp add: static_order_acyclic valid_ir_def)
  then have "\<exists>n ps. (n, ps) \<in> set ?g \<and> n \<in> nd_identity ` S \<and> set ps \<inter> nd_identity ` S = {}"
  proof (rule static_order_minimal)
    show "nd_identity ` S \<noteq> {}" "nd_identity ` S \<subseteq> fst ` set ?g"
      using assms(2,3) arg_cong [OF fg, of set] unfolding set_map by (simp, blast)
  qed
  then obtain i ps where i: "(i, ps) \<in> set ?g" "i \<in> nd_identity ` S" "set ps \<inter> nd_identity ` S = {}"
    by blast
  then obtain n m where n: "n \<in> S" "i = nd_identity n" and m: "m \<in> set (ir_nodes ir)" "i = nd_identity m"
    "ps = map dep_node (nd_dependencies m)" by (auto simp: dependency_graph_def)
  have "distinct (map nd_identity (ir_nodes ir))" using assms(1) by (simp add: valid_ir_def)
  then have "n = m" using n m assms(3) by (auto simp: distinct_map inj_on_def)
  with n m i(3) show ?thesis by auto
qed

definition service_id :: "Node \<Rightarrow> string res" where
  "service_id node = (case nd_service node of
     None \<Rightarrow> Inl (ExecutionError ''execution: service identity required'') | Some s \<Rightarrow> Inr s)"

section \<open>JSON form\<close>

definition parse_dependency :: "jval \<Rightarrow> Dependency res" where
  "parse_dependency raw =
     bnd (object_value raw) (\<lambda>edge.
     bnd (fields_of edge [''node_id'', ''milestone'']) (\<lambda>_.
     bnd (text_of edge ''node_id'') (\<lambda>n.
     bnd (text_of edge ''milestone'') (\<lambda>ms.
     bnd (Milestone_of ms) (\<lambda>m. Inr \<lparr>dep_node = n, dep_milestone = m\<rparr>)))))"

definition parse_resource :: "jval \<Rightarrow> string res" where
  "parse_resource raw = text_of [(''resource'', raw)] ''resource''"

definition parse_node :: "jval \<Rightarrow> Node res" where
  "parse_node v =
     bnd (object_value v) (\<lambda>r.
     bnd (fields_of r [''node_id'', ''kind'', ''operation_id'', ''phase'', ''order'', ''dependencies'',
                    ''service_id'', ''resources'']) (\<lambda>_.
     bnd (item r ''dependencies'') (\<lambda>dv.
     bnd (array dv) (\<lambda>ds.
     bnd (mapr parse_dependency ds) (\<lambda>edges.
     bnd (item r ''resources'') (\<lambda>rv.
     bnd (array rv) (\<lambda>rs.
     bnd (mapr parse_resource rs) (\<lambda>resources.
     bnd (item r ''service_id'') (\<lambda>sv.
     bnd (if sv = JNull then Inr None else bnd (text_of r ''service_id'') (\<lambda>s. Inr (Some s))) (\<lambda>service.
     bnd (text_of r ''node_id'') (\<lambda>identity.
     bnd (text_of r ''kind'') (\<lambda>ks.
     bnd (Kind_of ks) (\<lambda>kind.
     bnd (text_of r ''operation_id'') (\<lambda>operation.
     bnd (text_of r ''phase'') (\<lambda>phase.
     bnd (integer r ''order'') (\<lambda>order.
     Inr \<lparr>nd_identity = identity, nd_kind = kind, nd_operation = operation, nd_phase = phase,
          nd_order = order, nd_dependencies = edges, nd_service = service, nd_resources = resources\<rparr>))))))))))))))))"

definition parse_ir :: "Record \<Rightarrow> ExecutionIR res" where
  "parse_ir document =
     bnd (fields_of document [''schema'', ''version'', ''scope'', ''source_sha256'', ''nodes'']) (\<lambda>_.
     bnd (item document ''schema'') (\<lambda>schema.
     bnd (if py_eq schema (JStr ''im2p-execution-ir'')
          then bnd (integer document ''version'') (\<lambda>v. Inr (v = 1)) else Inr False) (\<lambda>ok.
     ensure ok ''unsupported execution IR schema/version'' (
     bnd (item document ''nodes'') (\<lambda>nv.
     bnd (array nv) (\<lambda>values.
     bnd (mapr parse_node values) (\<lambda>nodes.
     bnd (text_of document ''scope'') (\<lambda>scope.
     bnd (text_of document ''source_sha256'') (\<lambda>sha.
     ExecutionIR_check \<lparr>ir_nodes = nodes, ir_scope = scope, ir_source_sha256 = sha\<rparr>)))))))))"

definition node_record :: "Node \<Rightarrow> jval" where
  "node_record n = JObj
     [(''node_id'', JStr (nd_identity n)), (''kind'', JStr (Kind_value (nd_kind n))),
      (''operation_id'', JStr (nd_operation n)), (''phase'', JStr (nd_phase n)), (''order'', JInt (nd_order n)),
      (''service_id'', (case nd_service n of None \<Rightarrow> JNull | Some s \<Rightarrow> JStr s)),
      (''resources'', JArr (map JStr (nd_resources n))),
      (''dependencies'', JArr (map (\<lambda>e. JObj [(''node_id'', JStr (dep_node e)),
          (''milestone'', JStr (Milestone_value (dep_milestone e)))]) (nd_dependencies n)))]"

definition ir_record :: "ExecutionIR \<Rightarrow> Record" where
  "ir_record ir =
     [(''schema'', JStr ''im2p-execution-ir''), (''version'', JInt 1), (''scope'', JStr (ir_scope ir)),
      (''source_sha256'', JStr (ir_source_sha256 ir)), (''nodes'', JArr (map node_record (ir_nodes ir)))]"

text \<open>What the JSON form can carry: nonempty strings and orders below \<open>2^64\<close>.\<close>

definition writable_node :: "Node \<Rightarrow> bool" where
  "writable_node n \<longleftrightarrow> nd_identity n \<noteq> [] \<and> nd_operation n \<noteq> [] \<and> nd_phase n \<noteq> [] \<and>
     0 \<le> nd_order n \<and> nd_order n < U64 \<and> nd_service n \<noteq> Some [] \<and>
     (\<forall>r \<in> set (nd_resources n). r \<noteq> []) \<and> (\<forall>e \<in> set (nd_dependencies n). dep_node e \<noteq> [])"

lemma Kind_value_ne [simp]: "Kind_value k \<noteq> []"
  by (cases k) simp_all

lemma Milestone_value_ne [simp]: "Milestone_value k \<noteq> []"
  by (cases k) simp_all

lemma parse_node_record:
  assumes "writable_node n"
  shows "parse_node (node_record n) = Inr n"
proof -
  have deps: "mapr parse_dependency (map (\<lambda>e. JObj [(''node_id'', JStr (dep_node e)),
          (''milestone'', JStr (Milestone_value (dep_milestone e)))]) (nd_dependencies n)) = Inr (nd_dependencies n)"
  proof -
    have "mapr parse_dependency (map (\<lambda>e. JObj [(''node_id'', JStr (dep_node e)),
          (''milestone'', JStr (Milestone_value (dep_milestone e)))]) (nd_dependencies n)) =
        Inr (map (\<lambda>e. e) (nd_dependencies n))"
      by (rule mapr_map_Inr) (use assms in \<open>simp add: parse_dependency_def object_value_def fields_of_def
          keys_are_def require_def text_of_def rget_def writable_node_def\<close>)
    then show ?thesis by simp
  qed
  have res: "mapr parse_resource (map JStr (nd_resources n)) = Inr (nd_resources n)"
  proof -
    have "mapr parse_resource (map JStr (nd_resources n)) =
        Inr (map (\<lambda>s. s) (nd_resources n))"
      by (rule mapr_map_Inr) (use assms in \<open>simp add: parse_resource_def text_of_def rget_def writable_node_def\<close>)
    then show ?thesis by simp
  qed
  have keys: "fields_of [(''node_id'', a), (''kind'', b), (''operation_id'', c), (''phase'', d), (''order'', e),
      (''service_id'', f), (''resources'', g), (''dependencies'', h)]
      [''node_id'', ''kind'', ''operation_id'', ''phase'', ''order'', ''dependencies'', ''service_id'', ''resources'']
      = Inr ()" for a b c d e f g h
    unfolding fields_eq_Inr keys_are_def by (simp add: insert_commute)
  show ?thesis using assms deps res
    by (cases "nd_service n") (simp_all add: parse_node_def node_record_def object_value_def keys item_def array_def
        text_of_def integer_def rget_def writable_node_def)
qed


end
