(* ===== verification/Exec_Services.thy ===== *)
theory Exec_Services
  imports Exec_IR
begin

text \<open>
  CPU and NPU services of a schedule (\<^verbatim>\<open>sim/cycle/execution_services.py\<close>): measured CPU
  worker vectors, exact NPU works, the acceptance-phase table and the JSON reader and writer.
  Durations are exact fractions, as in the source.
\<close>

record WorkerService =
  ws_resource :: string
  ws_duration_ns :: rat
  ws_worker_id :: "int option"
  ws_source :: string
  ws_unit :: string
  ws_quantity :: int
  ws_frequency_hz :: "int option"
  ws_measurement :: Record
  ws_resource_identity :: "string option"

record CpuService =
  cpu_source :: string
  cpu_policy :: string
  cpu_workers :: "WorkerService list"

definition CPU_SOURCES :: "string list" where
  "CPU_SOURCES = [''FULL_CPU'', ''POTAL_COLLECTION'', ''APPLICATION_CPU'']"

text \<open>\<^verbatim>\<open>CpuService.__post_init__\<close>.\<close>

definition CpuService_check :: "CpuService \<Rightarrow> CpuService res" where
  "CpuService_check s =
     ensure (cpu_source s \<in> set CPU_SOURCES) ''unknown CPU source'' (
     ensure (cpu_workers s \<noteq> []) ''empty worker vector'' (
     ensure (distinct (map ws_resource (cpu_workers s))) ''duplicate worker resource'' (
     ensure (list_all (\<lambda>w. ws_duration_ns w \<ge> 0) (cpu_workers s)) ''negative CPU service'' (
     Inr s))))"

record NpuWork =
  nw_identity :: string
  nw_request_sha256 :: string
  nw_profile :: string

record NpuService =
  result_ready_cycles :: int
  resource_ready_cycles :: int
  ns_evidence_id :: string

text \<open>\<^verbatim>\<open>NpuService.__post_init__\<close>.\<close>

definition NpuService_check :: "NpuService \<Rightarrow> NpuService res" where
  "NpuService_check s =
     ensure (0 < result_ready_cycles s \<and> result_ready_cycles s \<le> resource_ready_cycles s)
       ''invalid result/resource boundary'' (
     ensure (ns_evidence_id s \<noteq> []) ''missing NPU timing evidence identity'' (Inr s))"

record PhaseTable =
  pt_period :: int
  pt_samples :: "((string \<times> string \<times> int), NpuService) dict"

definition pt_estimate :: "PhaseTable \<Rightarrow> NpuWork \<Rightarrow> int \<Rightarrow> NpuService res" where
  "pt_estimate t w accepted_cycle =
     ensure (pt_period t > 0) ''invalid acceptance-phase period'' (
     case map_of (pt_samples t) (nw_profile w, nw_request_sha256 w, accepted_cycle mod pt_period t) of
       None \<Rightarrow> Inl (ExecutionError (''execution: '' @ ''missing exact work/acceptance-phase service boundary''))
     | Some s \<Rightarrow> Inr s)"

record Services =
  sv_cpu :: "(string, CpuService) dict"
  sv_npu :: "(string, NpuWork) dict"

definition cpu_resource_keys :: "ext \<Rightarrow> Record \<Rightarrow> string \<Rightarrow> string list res" where
  "cpu_resource_keys E sample source =
     ensure (source \<in> set CPU_SOURCES) ''unknown CPU source identity'' (
     if source = ''FULL_CPU''
     then bnd (integer sample ''worker_id'') (\<lambda>w. Inr [''FULL_CPU:'' @ str_int w])
     else
       bnd (if rget sample ''worker_id'' \<noteq> JNull
            then bnd (integer sample ''worker_id'') (\<lambda>w. Inr [source @ '':'' @ str_int w]) else Inr []) (\<lambda>ks.
       bnd (if rget sample ''host_execution_id'' \<noteq> JNull \<or> rget sample ''thread_id'' \<noteq> JNull
            then bnd (text_of sample ''host_execution_id'') (\<lambda>h. bnd (integer sample ''thread_id'') (\<lambda>t.
                 Inr (ks @ [dumps E False (JArr [JStr source, JStr ''host_thread'', JStr h, JInt t])])))
            else Inr ks) (\<lambda>keys.
       ensure (keys \<noteq> []) ''missing source-local CPU identity'' (Inr keys))))"

definition bind_cpu_resource :: "ext \<Rightarrow> Record \<Rightarrow> string \<Rightarrow> Record \<Rightarrow> Record res" where
  "bind_cpu_resource E sample source mapping =
     bnd (cpu_resource_keys E sample source) (\<lambda>keys.
     let selected = filter (has_key mapping) keys in
     ensure (selected \<noteq> []) (''missing explicit CPU resource mapping: '' @ join '','' keys) (
     ensure (length selected = 1) (''ambiguous explicit CPU resource mapping: '' @ join '','' selected) (
     bnd (text_of mapping (hd selected)) (\<lambda>resource.
     Inr (AList.update ''resource_identity'' (JStr (hd selected)) (AList.update ''resource'' (JStr resource) sample))))))"

text \<open>Metric, validity flag and unit of a policy, and the clock it reads.\<close>

definition policy_metric :: "string \<Rightarrow> string \<times> string \<times> string" where
  "policy_metric policy =
     (if policy = ''THREAD_CPU_NS_GANG'' then (''thread_cpu_ns'', ''thread_cpu_valid'', ''nanosecond'')
      else if policy = ''HOST_ELAPSED_NS_GANG'' then (''host_elapsed_ns'', ''host_elapsed_valid'', ''nanosecond'')
      else (''cpu_work_cycles'', ''cpu_work_cycles_valid'', ''cycle''))"

definition policy_clock :: "string \<Rightarrow> Record \<Rightarrow> jval" where
  "policy_clock policy sample =
     (if policy = ''THREAD_CPU_NS_GANG'' then JStr ''thread_cpu_clock''
      else if policy = ''HOST_ELAPSED_NS_GANG'' then JStr ''steady_clock''
      else rget sample ''cpu_work_cycles_source'')"

definition CPU_POLICIES :: "string list" where
  "CPU_POLICIES = [''THREAD_CPU_NS_GANG'', ''HOST_ELAPSED_NS_GANG'', ''CPU_WORK_CYCLES_GANG'']"

text \<open>One iteration of the loop over the workers of a CPU service.\<close>

definition cpu_worker :: "ext \<Rightarrow> string \<Rightarrow> string \<Rightarrow> jval \<Rightarrow> WorkerService res" where
  "cpu_worker E source policy raw =
     (case policy_metric policy of (metric, validity, unt) \<Rightarrow>
     bnd (object_value raw) (\<lambda>sample.
     ensure (rget sample validity = JBool True) ''selected CPU metric invalid; substitution forbidden'' (
     bnd (integer sample metric) (\<lambda>quantity.
     bnd (if unt = ''cycle''
          then ensure (py_eq (rget sample ''cpu_work_cycles_unit'') (JStr ''cycle'')) ''invalid CPU cycle unit'' (
               bnd (integer sample ''cpu_frequency_hz'') (\<lambda>f.
               ensure (f > 0) ''CPU cycle conversion requires explicit validated frequency'' (Inr f)))
          else Inr 1000000000) (\<lambda>frequency.
     let clock = policy_clock policy sample in
     ensure (py_in clock [JStr ''thread_cpu_clock'', JStr ''steady_clock'', JStr ''riscv_cycle'',
                          JStr ''linux_perf_cpu_cycles'']) ''unknown selected CPU timing source'' (
     bnd (if rget sample ''worker_id'' \<noteq> JNull
          then bnd (integer sample ''worker_id'') (\<lambda>w. Inr (Some w)) else Inr None) (\<lambda>worker_id.
     bnd (if rget sample ''resource_identity'' \<noteq> JNull
          then bnd (text_of sample ''resource_identity'') (\<lambda>s. Inr (Some s)) else Inr None) (\<lambda>identity.
     bnd (case identity of
            None \<Rightarrow> Inr ()
          | Some i \<Rightarrow> bnd (cpu_resource_keys E sample source) (\<lambda>keys.
              ensure (i \<in> set keys) ''CPU source identity binding mismatch'' (Inr ()))) (\<lambda>_.
     ensure (worker_id \<noteq> None \<or> (source \<noteq> ''FULL_CPU'' \<and> identity \<noteq> None))
       ''host-thread service requires explicit source identity; ggml worker index unavailable'' (
     bnd (text_of sample ''resource'') (\<lambda>resource.
     Inr \<lparr>ws_resource = resource, ws_duration_ns = of_int (quantity * 1000000000) / of_int frequency,
          ws_worker_id = worker_id, ws_source = py_str E clock, ws_unit = unt, ws_quantity = quantity,
          ws_frequency_hz = (if unt = ''cycle'' then Some frequency else None),
          ws_measurement = sample, ws_resource_identity = identity\<rparr>)))))))))))"

definition cpu_service :: "ext \<Rightarrow> Record \<Rightarrow> CpuService res" where
  "cpu_service E r =
     bnd (fields_of r [''source'', ''policy'', ''workers'']) (\<lambda>_.
     bnd (text_of r ''source'') (\<lambda>source.
     bnd (text_of r ''policy'') (\<lambda>policy.
     ensure (policy \<in> set CPU_POLICIES) ''unknown CPU service policy'' (
     bnd (item r ''workers'') (\<lambda>wv.
     bnd (array wv) (\<lambda>raws.
     bnd (mapr (cpu_worker E source policy) raws) (\<lambda>samples.
     CpuService_check \<lparr>cpu_source = source, cpu_policy = policy, cpu_workers = samples\<rparr>)))))))"

definition parse_npu :: "string \<times> jval \<Rightarrow> (string \<times> NpuWork) res" where
  "parse_npu kv =
     bnd (object_value (snd kv)) (\<lambda>row.
     bnd (fields_of row [''request_sha256'', ''profile'']) (\<lambda>_.
     bnd (text_of row ''request_sha256'') (\<lambda>sha.
     bnd (text_of row ''profile'') (\<lambda>profile.
     Inr (fst kv, \<lparr>nw_identity = fst kv, nw_request_sha256 = sha, nw_profile = profile\<rparr>)))))"

definition parse_cpu :: "ext \<Rightarrow> string \<times> jval \<Rightarrow> (string \<times> CpuService) res" where
  "parse_cpu E kv = bnd (object_value (snd kv)) (\<lambda>r. bnd (cpu_service E r) (\<lambda>s. Inr (fst kv, s)))"

definition parse_services :: "ext \<Rightarrow> Record \<Rightarrow> Services res" where
  "parse_services E document =
     bnd (fields_of document [''schema'', ''version'', ''cpu'', ''npu'']) (\<lambda>_.
     bnd (item document ''schema'') (\<lambda>schema.
     bnd (if py_eq schema (JStr ''im2p-execution-services'')
          then bnd (integer document ''version'') (\<lambda>v. Inr (v = 1)) else Inr False) (\<lambda>ok.
     ensure ok ''unsupported service schema/version'' (
     bnd (item document ''cpu'') (\<lambda>cv.
     bnd (object_value cv) (\<lambda>cd.
     bnd (mapr (parse_cpu E) cd) (\<lambda>cpu.
     bnd (item document ''npu'') (\<lambda>nv.
     bnd (object_value nv) (\<lambda>nd.
     bnd (mapr parse_npu nd) (\<lambda>npu.
     ensure (set (map fst cpu) \<inter> set (map fst npu) = {}) ''ambiguous service identity'' (
     Inr \<lparr>sv_cpu = cpu, sv_npu = npu\<rparr>)))))))))))"

definition opt_json :: "('a \<Rightarrow> jval) \<Rightarrow> 'a option \<Rightarrow> jval" where
  "opt_json f v = (case v of None \<Rightarrow> JNull | Some x \<Rightarrow> f x)"

definition setdefault :: "Record \<Rightarrow> string \<Rightarrow> jval \<Rightarrow> Record" where
  "setdefault r k v = (if has_key r k then r else AList.update k v r)"

text \<open>One row of \<^verbatim>\<open>services_record\<close>.\<close>

definition worker_record :: "string \<Rightarrow> WorkerService \<Rightarrow> Record res" where
  "worker_record policy s =
     (case policy_metric policy of (metric, validity, _) \<Rightarrow>
     let row0 = AList.update validity (JBool True) (AList.update metric (JInt (ws_quantity s))
                  (AList.update ''resource'' (JStr (ws_resource s)) (ws_measurement s)));
         row1 = (if ws_worker_id s \<noteq> None \<or> has_key (ws_measurement s) ''worker_id''
                 then AList.update ''worker_id'' (opt_json JInt (ws_worker_id s)) row0 else row0);
         row2 = (case ws_resource_identity s of None \<Rightarrow> row1
                 | Some i \<Rightarrow> AList.update ''resource_identity'' (JStr i) row1);
         row3 = setdefault row2 ''source'' (JStr (ws_source s)) in
     if ws_unit s = ''cycle'' then
       ensure (ws_frequency_hz s \<noteq> None) ''CPU clock provenance required'' (
       Inr (AList.update ''cpu_frequency_hz'' (opt_json JInt (ws_frequency_hz s))
             (AList.update ''cpu_work_cycles_source'' (JStr (ws_source s))
               (AList.update ''cpu_work_cycles_unit'' (JStr ''cycle'') row3))))
     else Inr row3)"

definition cpu_record :: "string \<times> CpuService \<Rightarrow> (string \<times> jval) res" where
  "cpu_record kv =
     (if cpu_policy (snd kv) \<notin> set CPU_POLICIES then Inl (KeyError (cpu_policy (snd kv))) else
      bnd (mapr (worker_record (cpu_policy (snd kv))) (cpu_workers (snd kv))) (\<lambda>rows.
      Inr (fst kv, JObj [(''source'', JStr (cpu_source (snd kv))), (''policy'', JStr (cpu_policy (snd kv))),
                         (''workers'', JArr (map JObj rows))])))"

definition services_record :: "Services \<Rightarrow> Record res" where
  "services_record s =
     bnd (mapr cpu_record (sv_cpu s)) (\<lambda>cpu.
     Inr [(''schema'', JStr ''im2p-execution-services''), (''version'', JInt 1), (''cpu'', JObj cpu),
          (''npu'', JObj (map (\<lambda>(i, w). (i, JObj [(''profile'', JStr (nw_profile w)),
             (''request_sha256'', JStr (nw_request_sha256 w))])) (sv_npu s)))])"

section \<open>What an accepted service guarantees\<close>

definition valid_cpu :: "CpuService \<Rightarrow> bool" where
  "valid_cpu s \<longleftrightarrow> cpu_source s \<in> set CPU_SOURCES \<and> cpu_workers s \<noteq> [] \<and>
     distinct (map ws_resource (cpu_workers s)) \<and> (\<forall>w \<in> set (cpu_workers s). 0 \<le> ws_duration_ns w)"

lemma CpuService_check_Inr [res_simps]: "CpuService_check s = Inr s' \<longleftrightarrow> s' = s \<and> valid_cpu s"
  by (auto simp: CpuService_check_def valid_cpu_def ensure_eq_Inr list_all_iff)

definition valid_services :: "Services \<Rightarrow> bool" where
  "valid_services s \<longleftrightarrow> (\<forall>(i, c) \<in> set (sv_cpu s). valid_cpu c) \<and> set (map fst (sv_cpu s)) \<inter> set (map fst (sv_npu s)) = {} \<and>
     (\<forall>(i, w) \<in> set (sv_npu s). nw_identity w = i)"

lemma cpu_service_valid: "cpu_service E r = Inr s \<Longrightarrow> valid_cpu s"
  unfolding cpu_service_def by (auto simp only: bnd_eq_Inr ensure_eq_Inr CpuService_check_Inr)

lemma mapr_set: "mapr f xs = Inr ys \<Longrightarrow> y \<in> set ys \<Longrightarrow> \<exists>x \<in> set xs. f x = Inr y"
  by (induction xs arbitrary: ys) (auto simp: bnd_eq_Inr)

lemma mapr_mem: "mapr f xs = Inr ys \<Longrightarrow> x \<in> set xs \<Longrightarrow> \<exists>y. f x = Inr y"
  by (induction xs arbitrary: ys) (auto simp: bnd_eq_Inr)

lemma mapr_keys: "mapr f xs = Inr ys \<Longrightarrow> (\<And>x y. f x = Inr y \<Longrightarrow> fst y = fst x) \<Longrightarrow> map fst ys = map fst xs"
  by (induction xs arbitrary: ys) (auto simp: bnd_eq_Inr)

text \<open>C22. An accepted service document: every CPU service has a nonempty vector of workers on
  distinct resources with nonnegative durations, no identity is both a CPU and an NPU service,
  every NPU work carries the identity it is filed under, and no entry of the document is lost.\<close>

theorem parse_services_valid:
  assumes "parse_services E document = Inr s"
  shows "valid_services s \<and> (\<exists>cd nd. map_of document ''cpu'' = Some (JObj cd) \<and> map_of document ''npu'' = Some (JObj nd) \<and>
    map fst (sv_cpu s) = map fst cd \<and> map fst (sv_npu s) = map fst nd)"
proof -
  from assms [unfolded parse_services_def bnd_eq_Inr ensure_eq_Inr item_eq_Inr object_value_eq_Inr sum.inject]
  obtain cv nv cd nd cpu npu where
    d: "map_of document ''cpu'' = Some cv" "map_of document ''npu'' = Some nv" "cv = JObj cd" "nv = JObj nd"
    and cpu: "mapr (parse_cpu E) cd = Inr cpu" and npu: "mapr parse_npu nd = Inr npu"
    and dis: "set (map fst cpu) \<inter> set (map fst npu) = {}" and s: "\<lparr>sv_cpu = cpu, sv_npu = npu\<rparr> = s"
    by (elim exE conjE) (rule that; assumption)
  have "\<forall>(i, c) \<in> set cpu. valid_cpu c"
    using mapr_set [OF cpu] cpu_service_valid by (fastforce simp: parse_cpu_def bnd_eq_Inr)
  moreover have "\<forall>(i, w) \<in> set npu. nw_identity w = i"
    using mapr_set [OF npu] by (fastforce simp: parse_npu_def bnd_eq_Inr)
  ultimately have "valid_services s" using dis unfolding s [symmetric] by (simp add: valid_services_def)
  moreover have "map fst cpu = map fst cd" using cpu by (rule mapr_keys) (auto simp: parse_cpu_def bnd_eq_Inr)
  moreover have "map fst npu = map fst nd" using npu by (rule mapr_keys) (auto simp: parse_npu_def bnd_eq_Inr)
  ultimately show ?thesis using d s by auto
qed

end
