(* ===== verification/Application.thy ===== *)
theory Application
  imports Exec_Services
begin

text \<open>
  The measured application work around the model, \<^verbatim>\<open>sim/cycle/execution_application.py\<close>: the preparation of
  prefill batches and the sampling of tokens become nodes and CPU services, and the entries of the next decode wait for
  the sampled token.
\<close>

definition result_of :: "string \<Rightarrow> Dependency" where
  "result_of n = \<lparr>dep_node = n, dep_milestone = RESULT_READY\<rparr>"

record ApplicationSource =
  as_records :: "Record list"
  as_contract :: Record

record ApplicationProjection =
  ap_nodes :: "Node list"
  ap_services :: "(string, CpuService) dict"
  ap_entry_edges :: "(string, Dependency list) dict"

text \<open>The local variables of the loops.\<close>

record application =
  al_nodes :: "(string, Node) dict"
  al_cpu :: "(string, CpuService) dict"
  al_edges :: "(string, Dependency list) dict"
  al_threads :: "int list"
  al_previous :: string

definition application_int :: "Record \<Rightarrow> string \<Rightarrow> int \<Rightarrow> bool res" where
  "application_int r key n = bnd (integer r key) (\<lambda>v. Inr (v = n))"

definition application_fields :: "Record \<Rightarrow> unit res" where
  "application_fields contract =
     fields_of contract ([''sha256'', ''sampler_policy'', ''resource'', ''metric_policy'', ''expected_samples'', ''steps''] @
       (if has_key contract ''prefill_steps'' then [''prefill_steps''] else []))"

definition identities :: "jval list \<Rightarrow> string list res" where
  "identities values = mapr (\<lambda>v. text_of [(''id'', v)] ''id'') values"

definition application_service :: "ext \<Rightarrow> Record \<Rightarrow> string \<Rightarrow> Record \<Rightarrow> CpuService res" where
  "application_service E contract worker r =
     bnd (item contract ''metric_policy'') (\<lambda>policy.
     cpu_service E [(''source'', JStr ''APPLICATION_CPU''), (''policy'', policy),
       (''workers'', JArr [JObj (AList.update ''resource'' (JStr worker) (AList.update ''worker_id'' (JInt 0) r))])])"

section \<open>Prefill preparation\<close>

definition prefill_identity :: "nat \<Rightarrow> Record \<Rightarrow> Record \<Rightarrow> int \<Rightarrow> bool res" where
  "prefill_identity index step r dispatch =
     allr [application_int step ''batch_index'' (int index), application_int r ''batch_index'' (int index),
           application_int r ''dispatch_id'' dispatch, bnd (integer step ''graph_begin'') (\<lambda>v. Inr (v \<ge> 0)),
           Inr (rget r ''schema'' = JStr ''potal-application-cpu''), application_int r ''version'' 2,
           bnd (integer r ''thread_id'') (\<lambda>v. Inr (v \<ge> 0)),
           Inr (rget r ''source_role'' = JStr ''potal_collection'' \<and> rget r ''sample_index'' = JNull \<and> rget r ''token_id'' = JNull \<and>
                rget r ''phase'' = JStr ''prefill'' \<and> rget r ''decode_index'' = JNull)]"

definition prefill_step :: "ext \<Rightarrow> (string, Kind) dict \<Rightarrow> Record \<Rightarrow> string \<Rightarrow> application \<Rightarrow> nat \<times> Record \<times> Record \<Rightarrow> application res" where
  "prefill_step E available contract worker st entry =
     (case entry of (index, r, step) \<Rightarrow>
      bnd (fields_of step [''batch_index'', ''dispatch_id'', ''graph_begin'']) (\<lambda>_.
      bnd (integer step ''dispatch_id'') (\<lambda>dispatch.
      chkr (prefill_identity index step r dispatch) (ExecutionError (''execution: '' @ ''application prefill identity mismatch'')) (
      let first = ''dispatch:'' @ str_int dispatch @ '':begin'';
          final = ''dispatch:'' @ str_int dispatch @ '':end'';
          prep = ''application:prefill-prep:'' @ str_int dispatch in
      ensure (map_of available first = Some BARRIER \<and> map_of available final = Some BARRIER)
        ''application prefill dispatch barriers missing'' (
      ensure (\<not> has_key (al_nodes st) prep \<and> \<not> has_key available prep) ''duplicate application prefill service'' (
      bnd (application_service E contract worker r) (\<lambda>service.
      Inr (st\<lparr>al_cpu := AList.update prep service (al_cpu st),
              al_nodes := AList.update prep \<lparr>nd_identity = prep, nd_kind = APPLICATION_CPU, nd_operation = prep, nd_phase = ''prefill:None'',
                 nd_order = dispatch, nd_dependencies = [result_of (al_previous st)], nd_service = Some prep, nd_resources = [worker]\<rparr> (al_nodes st),
              al_edges := AList.update first [result_of prep] (al_edges st),
              al_previous := final\<rparr>))))))))"

section \<open>Sampling\<close>

definition sample_id :: "nat \<Rightarrow> string" where
  "sample_id i = ''application:sample:'' @ str_nat i"

definition token_node :: "nat \<Rightarrow> string" where
  "token_node i = ''application:token:'' @ str_nat i"

definition logits_dependency :: "(string, Kind) dict \<Rightarrow> string \<Rightarrow> Dependency" where
  "logits_dependency available v = result_of (if has_key available (v @ '':exit'') then v @ '':exit'' else v)"

definition next_entry :: "(string, Kind) dict \<Rightarrow> string \<Rightarrow> (string, Dependency list) dict \<Rightarrow> string \<Rightarrow> (string, Dependency list) dict res" where
  "next_entry available token edges successor =
     (let entry = successor @ '':enter'' in
      ensure (map_of available entry = Some OP_ENTER) ''unknown next-decode operation entry'' (
      Inr (AList.update entry ((case map_of edges entry of None \<Rightarrow> [] | Some ds \<Rightarrow> ds) @ [result_of token]) edges)))"

definition sample_source :: "bool \<Rightarrow> Record \<Rightarrow> bool res" where
  "sample_source prefill r =
     allr [Inr (rget r ''schema'' = JStr ''potal-application-cpu''), application_int r ''version'' (if prefill then 2 else 1),
           Inr (rget r ''source_role'' = JStr ''potal_collection'' \<and> rget r ''stage'' = JStr ''sample_accept'')]"

definition sample_phase :: "nat \<Rightarrow> Record \<Rightarrow> bool" where
  "sample_phase index r \<longleftrightarrow> rget r ''phase'' = JStr (if index = 0 then ''prefill'' else ''decode'') \<and>
     py_eq (rget r ''decode_index'') (if index = 0 then JNull else JInt (int index - 1))"

definition sampling_step :: "ext \<Rightarrow> (string, Kind) dict \<Rightarrow> Record \<Rightarrow> string \<Rightarrow> bool \<Rightarrow> nat \<Rightarrow> application \<Rightarrow> nat \<times> Record \<times> Record \<Rightarrow> application res" where
  "sampling_step E available contract worker prefill count st entry =
     (case entry of (index, r, step) \<Rightarrow>
      chkr (sample_source prefill r) (ExecutionError (''execution: '' @ ''PoTal sampling source required'')) (
      chkr (application_int r ''sample_index'' (int index)) (ExecutionError (''execution: '' @ ''duplicate/gapped application sample identity'')) (
      ensure (sample_phase index r) ''application phase mismatch'' (
      bnd (integer r ''thread_id'') (\<lambda>thread.
      let threads = List.insert thread (al_threads st) in
      ensure (length threads = 1) ''single sampler thread contract violated'' (
      bnd (fields_of step [''sample_index'', ''logits_ready'', ''next_decode_entries'']) (\<lambda>_.
      chkr (application_int step ''sample_index'' (int index)) (ExecutionError (''execution: '' @ ''application dependency identity mismatch'')) (
      bnd (array (rget step ''logits_ready'')) (\<lambda>lv. bnd (identities lv) (\<lambda>required.
      ensure (required \<noteq> [] \<and> distinct required) ''missing/duplicate logits-ready predecessor'' (
      let dependencies = map (logits_dependency available) required in
      ensure (list_all (\<lambda>e. has_key available (dep_node e) \<or> has_key (al_nodes st) (dep_node e)) dependencies) ''unknown logits-ready node'' (
      let sample = sample_id index; token = token_node index in
      ensure (\<not> has_key (al_nodes st) sample \<and> \<not> has_key (al_nodes st) token \<and> \<not> has_key available sample \<and> \<not> has_key available token)
        ''duplicate application service'' (
      bnd (application_service E contract worker r) (\<lambda>service.
      bnd (text_of r ''phase'') (\<lambda>phase_name. bnd (item r ''decode_index'') (\<lambda>decode.
      let phase = phase_name @ '':'' @ py_str E decode in
      bnd (array (rget step ''next_decode_entries'')) (\<lambda>nv. bnd (identities nv) (\<lambda>successors.
      ensure ((successors \<noteq> []) = (index + 1 < count)) ''last sample must not trigger an extra decode'' (
      ensure (distinct successors) ''duplicate next-decode entry'' (
      bnd (foldm (next_entry available token) (al_edges st) successors) (\<lambda>edges.
      Inr (st\<lparr>al_threads := threads, al_edges := edges, al_cpu := AList.update sample service (al_cpu st),
         al_nodes := AList.update token \<lparr>nd_identity = token, nd_kind = BARRIER, nd_operation = sample, nd_phase = phase, nd_order = int index,
              nd_dependencies = [result_of sample], nd_service = None, nd_resources = []\<rparr>
           (AList.update sample \<lparr>nd_identity = sample, nd_kind = APPLICATION_CPU, nd_operation = sample, nd_phase = phase, nd_order = int index,
              nd_dependencies = dependencies, nd_service = Some sample, nd_resources = [worker]\<rparr> (al_nodes st))\<rparr>))))))))))))))))))))))"

section \<open>The projection\<close>

definition application_start :: application where
  "application_start = \<lparr>al_nodes = [], al_cpu = [], al_edges = [], al_threads = [], al_previous = ''application:request:begin''\<rparr>"

definition prefill_projection :: "ext \<Rightarrow> (string, Kind) dict \<Rightarrow> Record \<Rightarrow> string \<Rightarrow> Record list \<Rightarrow> Record list \<Rightarrow> application res" where
  "prefill_projection E available contract worker records preps =
     bnd (item contract ''prefill_steps'') (\<lambda>pv. bnd (array pv) (\<lambda>raws. bnd (mapr object_value raws) (\<lambda>steps.
     ensure (steps \<noteq> [] \<and> length steps = length preps \<and> preps = take (length preps) records) ''application prefill coverage mismatch'' (
     ensure (map_of available ''application:request:begin'' = Some BARRIER) ''application request-start barrier missing'' (
     foldm (prefill_step E available contract worker) application_start (zip [0..<length preps] (zip preps steps)))))))"

definition stage_is :: "string \<Rightarrow> Record \<Rightarrow> bool" where
  "stage_is stage r \<longleftrightarrow> rget r ''stage'' = JStr stage"

definition project_application :: "ext \<Rightarrow> (string, Kind) dict \<Rightarrow> ApplicationSource \<Rightarrow> ApplicationProjection res" where
  "project_application E available source =
     (let contract = as_contract source; records = as_records source; prefill = has_key contract ''prefill_steps'' in
      bnd (application_fields contract) (\<lambda>_.
      ensure (rget contract ''sampler_policy'' = JStr ''SINGLE_CALLING_THREAD'') ''unsupported sampler worker contract'' (
      bnd (integer contract ''expected_samples'') (\<lambda>count.
      let samples = filter (stage_is ''sample_accept'') records; preps = filter (stage_is ''prefill_batch_prepare'') records in
      ensure (count > 0 \<and> int (length samples) = count \<and> length samples + length preps = length records)
        ''application sample coverage mismatch'' (
      bnd (array (rget contract ''steps'')) (\<lambda>raws. bnd (mapr object_value raws) (\<lambda>steps.
      ensure (int (length steps) = count) ''application dependency coverage mismatch'' (
      bnd (text_of contract ''resource'') (\<lambda>worker.
      bnd (if prefill then prefill_projection E available contract worker records preps
           else ensure (preps = [] \<and> int (length records) = count) ''application sample coverage mismatch'' (Inr application_start)) (\<lambda>st.
      bnd (foldm (sampling_step E available contract worker prefill (nat count)) st (zip [0..<length samples] (zip samples steps))) (\<lambda>final.
      Inr \<lparr>ap_nodes = map snd (al_nodes final), ap_services = al_cpu final, ap_entry_edges = al_edges final\<rparr>)))))))))))"

definition with_edges :: "(string, Dependency list) dict \<Rightarrow> Node \<Rightarrow> Node" where
  "with_edges edges n = n\<lparr>nd_dependencies := nd_dependencies n @ (case map_of edges (nd_identity n) of None \<Rightarrow> [] | Some ds \<Rightarrow> ds)\<rparr>"

text \<open>\<^verbatim>\<open>{node.identity: node.kind for node in nodes}\<close>.\<close>

definition available_nodes :: "Node list \<Rightarrow> (string, Kind) dict" where
  "available_nodes nodes = fold (\<lambda>n d. AList.update (nd_identity n) (nd_kind n) d) nodes []"

definition add_application :: "ext \<Rightarrow> ExecutionIR \<Rightarrow> Services \<Rightarrow> ApplicationSource \<Rightarrow> (ExecutionIR \<times> Services) res" where
  "add_application E ir services source =
     bnd (project_application E (available_nodes (ir_nodes ir)) source) (\<lambda>projected.
     ensure (set (map fst (ap_services projected)) \<inter> set (map fst (sv_cpu services)) = {}) ''duplicate application service identity'' (
     bnd (ExecutionIR_check (ir\<lparr>ir_nodes := map (with_edges (ap_entry_edges projected)) (ir_nodes ir) @ ap_nodes projected\<rparr>)) (\<lambda>ir'.
     Inr (ir', services\<lparr>sv_cpu := sv_cpu services @ ap_services projected\<rparr>))))"

end
