(* ===== verification/Semantic_Graph.thy ===== *)
theory Semantic_Graph
  imports Exec_IR
begin

text \<open>
  The semantic graph of a collection: \<^verbatim>\<open>sim/cycle/reconstruct_graph.py\<close>. \<open>read_manifest\<close> takes the parse trees of
  the lines (pairs in order, before the duplicate check). The manifest under construction is a record of the
  local variables of the reader; each kind of record has its step.
\<close>

section \<open>Records\<close>

definition MANIFEST_COMMON :: "string list" where
  "MANIFEST_COMMON = [''schema'', ''version'', ''kind'', ''sequence'']"

definition MANIFEST_FIELDS :: "(string, string list) dict" where
  "MANIFEST_FIELDS =
     [(''RUN'', [''source_role'', ''run_config_id'', ''workload'', ''producer'', ''cpu_only_build'']),
      (''PHASE'', [''phase_kind'', ''decode_index'', ''input_tokens'', ''token_fingerprint'']),
      (''GRAPH'', [''phase_kind'', ''decode_index'', ''graph_occurrence'', ''nodes'', ''leaves'']),
      (''NODE_EXECUTION'', SEMANTIC_FIELDS @ [''source_role'', ''run_config_id'', ''actual_backend'', ''execution_class'', ''success'']),
      (''RUN_END'', [''success'', ''expected_node_count'', ''executed_node_count'', ''cpu_only_proven'', ''graph_count''])]"

definition WORKLOAD :: "string list" where
  "WORKLOAD = [''model'', ''prompt_tokens'', ''generated_tokens'', ''context_tokens'', ''batch_tokens'', ''microbatch_tokens'',
     ''cpu'', ''cpu_batch'', ''flash_attention'', ''kv_type_k'', ''kv_type_v'', ''seed'', ''numa'', ''build_target'']"

type_synonym phase_id = "string \<times> int option"

definition json_record :: "jval \<Rightarrow> Record res" where
  "json_record raw = bnd (load_value unique_pairs raw) object_value"

definition phase_key :: "Record \<Rightarrow> phase_id res" where
  "phase_key r =
     bnd (text_of r ''phase_kind'') (\<lambda>phase.
     bnd (opt_integer r ''decode_index'') (\<lambda>decode.
     require ((phase = ''prefill'' \<and> decode = None) \<or> (phase = ''decode'' \<and> decode \<noteq> None)) ''invalid phase''
       (Inr (phase, decode))))"

definition dimension :: "jval \<Rightarrow> int res" where
  "dimension v = integer [(''dimension'', v)] ''dimension''"

definition tensor_payload :: "Record \<Rightarrow> unit res" where
  "tensor_payload payload =
     require (is_str (rget payload ''name'')) ''tensor name must be string'' (
     bnd (text_of payload ''type'') (\<lambda>_.
     bnd (item payload ''shape'') (\<lambda>sv. bnd (array sv) (\<lambda>shape.
     require (length shape = 4) ''tensor shape must have four dimensions'' (
     bnd (mapr dimension shape) (\<lambda>_. Inr ()))))))"

fun is_bool :: "jval \<Rightarrow> bool" where
  "is_bool (JBool _) = True"
| "is_bool _ = False"

text \<open>\<^verbatim>\<open>re.fullmatch('(?:[0-9a-f]{2})*', s)\<close>.\<close>

definition hex_bytes :: "string \<Rightarrow> bool" where
  "hex_bytes s \<longleftrightarrow> even (length s) \<and> list_all is_hex s"

definition fingerprint_text :: "string \<Rightarrow> bool" where
  "fingerprint_text s \<longleftrightarrow> take 15 s = ''fnv1a64-le-i32:'' \<and> hex_string 16 (drop 15 s)"

section \<open>The manifest\<close>

record Manifest =
  mf_run :: Record
  mf_phases :: "Record list"
  mf_graphs :: "Record list"
  mf_nodes :: "(SemanticKey, Record) dict"
  mf_executions :: "(SemanticKey, Record) dict"
  mf_edges :: "SemanticKey precedence"

record manifest_reader = Manifest +
  mf_ended :: bool
  mf_next_graph :: int

definition manifest_start :: manifest_reader where
  "manifest_start = \<lparr>mf_run = [], mf_phases = [], mf_graphs = [], mf_nodes = [], mf_executions = [], mf_edges = [],
     mf_ended = False, mf_next_graph = 0\<rparr>"

definition manifest_run :: "nat \<Rightarrow> manifest_reader \<Rightarrow> Record \<Rightarrow> manifest_reader res" where
  "manifest_run sequence st run =
     require (sequence = 0) ''duplicate semantic run'' (
     bnd (item run ''source_role'') (\<lambda>role.
     require (py_in role [JStr ''FULL_CPU'', JStr ''POTAL_COLLECTION'']) ''unproven collection role'' (
     bnd (text_of run ''run_config_id'') (\<lambda>_.
     bnd (item run ''workload'') (\<lambda>wv. bnd (object_value wv) (\<lambda>workload.
     bnd (item run ''producer'') (\<lambda>pv. bnd (object_value pv) (\<lambda>producer.
     require (keys_are workload WORKLOAD) ''incomplete workload identity'' (
     require (producer \<noteq> [] \<and> rget producer ''warmup_excluded'' = JBool True \<and>
              rget producer ''reserve_measure_graphs_excluded'' = JBool True) ''collection scope proof missing'' (
     bnd (item run ''cpu_only_build'') (\<lambda>build.
     require (is_bool build) ''CPU-only build proof missing'' (
     Inr (st\<lparr>mf_run := run\<rparr>)))))))))))))"

definition executed_all :: "manifest_reader \<Rightarrow> bool" where
  "executed_all st \<longleftrightarrow> length (mf_executions st) = length (mf_nodes st)"

definition expected_phase :: "nat \<Rightarrow> phase_id" where
  "expected_phase n = (if n = 0 then (''prefill'', None) else (''decode'', Some (int n - 1)))"

definition manifest_phase :: "manifest_reader \<Rightarrow> Record \<Rightarrow> manifest_reader res" where
  "manifest_phase st r =
     require (mf_run st \<noteq> [] \<and> executed_all st) ''phase before completed graph'' (
     bnd (phase_key r) (\<lambda>key.
     require (key = expected_phase (length (mf_phases st))) ''nonmonotonic semantic phase'' (
     bnd (integer r ''input_tokens'') (\<lambda>_.
     bnd (text_of r ''token_fingerprint'') (\<lambda>fp.
     require (fingerprint_text fp) ''token input fingerprint missing'' (
     Inr (st\<lparr>mf_phases := mf_phases st @ [r], mf_next_graph := 0\<rparr>)))))))"

text \<open>One input of a node: the key of the node it names, if it names one.\<close>

definition graph_input :: "phase_id \<Rightarrow> int \<Rightarrow> nat \<Rightarrow> nat \<Rightarrow> jval \<Rightarrow> SemanticKey list res" where
  "graph_input ph graph entries leaves edge =
     (if edge = JNull then Inr [] else
      bnd (object_value edge) (\<lambda>source.
      bnd (fields_of source [''kind'', ''ordinal'']) (\<lambda>_.
      bnd (integer source ''ordinal'') (\<lambda>index.
      bnd (item source ''kind'') (\<lambda>kind.
      require (py_in kind [JStr ''node'', JStr ''leaf'']) ''unknown edge kind'' (
      require (index < int (if kind = JStr ''node'' then entries else leaves)) ''dangling graph edge'' (
      Inr (if kind = JStr ''node'' then [(fst ph, snd ph, graph, index)] else []))))))))"

definition graph_leaf :: "jval \<Rightarrow> unit res" where
  "graph_leaf leaf =
     bnd (object_value leaf) (\<lambda>payload.
     bnd (fields_of payload [''name'', ''type'', ''shape'']) (\<lambda>_. tensor_payload payload))"

definition graph_payload :: "Record \<Rightarrow> Record res" where
  "graph_payload node =
     bnd (item node ''payload'') (\<lambda>pv. bnd (object_value pv) (\<lambda>payload.
     bnd (fields_of payload [''op'', ''name'', ''type'', ''shape'', ''parameters_hex'', ''parameters_status'', ''inputs'']) (\<lambda>_.
     bnd (tensor_payload payload) (\<lambda>_.
     bnd (text_of payload ''op'') (\<lambda>_.
     bnd (item payload ''parameters_status'') (\<lambda>status.
     bnd (item payload ''parameters_hex'') (\<lambda>hex.
     require (status = JStr ''STATIC_BYTES'' \<and> (case hex of JStr s \<Rightarrow> hex_bytes s | _ \<Rightarrow> False))
       ''unsupported static operation parameters'' (Inr payload))))))))"

definition graph_node :: "phase_id \<Rightarrow> int \<Rightarrow> nat \<Rightarrow> nat \<Rightarrow> manifest_reader \<Rightarrow> nat \<times> jval \<Rightarrow> manifest_reader res" where
  "graph_node ph graph entries leaves st entry =
     bnd (object_value (snd entry)) (\<lambda>node.
     bnd (fields_of node [''node_ordinal'', ''payload'', ''excluded'']) (\<lambda>_.
     bnd (integer node ''node_ordinal'') (\<lambda>ordinal.
     bnd (item node ''excluded'') (\<lambda>excluded.
     require (ordinal = int (fst entry) \<and> is_bool excluded) ''invalid original node ordinal'' (
     bnd (graph_payload node) (\<lambda>payload.
     let key = (fst ph, snd ph, graph, int (fst entry)) in
     require (\<not> has_key (mf_nodes st) key) ''duplicate semantic node'' (
     bnd (item payload ''inputs'') (\<lambda>iv. bnd (array iv) (\<lambda>inputs.
     bnd (mapr (graph_input ph graph entries leaves) inputs) (\<lambda>dependencies.
     Inr (st\<lparr>mf_nodes := AList.update key node (mf_nodes st),
             mf_edges := AList.update key (concat dependencies) (mf_edges st)\<rparr>)))))))))))"

definition manifest_graph :: "manifest_reader \<Rightarrow> Record \<Rightarrow> manifest_reader res" where
  "manifest_graph st r =
     requirer (allr [Inr (mf_phases st \<noteq> []),
                     bnd (phase_key r) (\<lambda>k. bnd (phase_key (last (mf_phases st))) (\<lambda>l. Inr (k = l))),
                     Inr (executed_all st)]) ''graph phase or execution boundary mismatch'' (
     bnd (integer r ''graph_occurrence'') (\<lambda>graph.
     require (graph = mf_next_graph st) ''duplicate/missing graph occurrence'' (
     bnd (phase_key r) (\<lambda>ph.
     bnd (item r ''leaves'') (\<lambda>lv. bnd (array lv) (\<lambda>leaves.
     bnd (item r ''nodes'') (\<lambda>nv. bnd (array nv) (\<lambda>entries.
     bnd (mapr graph_leaf leaves) (\<lambda>_.
     bnd (foldm (graph_node ph graph (length entries) (length leaves)) st (zip [0..<length entries] entries)) (\<lambda>st'.
     Inr (st'\<lparr>mf_graphs := mf_graphs st @ [r], mf_next_graph := mf_next_graph st + 1\<rparr>)))))))))))"

definition manifest_execution :: "manifest_reader \<Rightarrow> Record \<Rightarrow> manifest_reader res" where
  "manifest_execution st r =
     bnd (semantic_key r) (\<lambda>key.
     require (has_key (mf_nodes st) key \<and> \<not> has_key (mf_executions st) key) ''unknown/duplicate original node execution'' (
     requirer (bnd (item r ''run_config_id'') (\<lambda>a. bnd (item (mf_run st) ''run_config_id'') (\<lambda>b.
               if py_eq a b then bnd (item r ''source_role'') (\<lambda>c. bnd (item (mf_run st) ''source_role'') (\<lambda>d. Inr (py_eq c d)))
               else Inr False))) ''execution source mismatch'' (
     bnd (item r ''success'') (\<lambda>success.
     require (success = JBool True) ''node execution failed'' (
     bnd (text_of r ''actual_backend'') (\<lambda>_.
     bnd (text_of r ''execution_class'') (\<lambda>kind.
     require (kind \<in> {''ORDINARY_CPU'', ''TARGET_NPU'', ''EXCLUDED''}) ''unsupported node execution class'' (
     require (py_eq (JBool (kind = ''EXCLUDED'')) (rget (the (map_of (mf_nodes st) key)) ''excluded''))
       ''excluded-node coverage mismatch'' (
     require (rget (mf_run st) ''source_role'' \<noteq> JStr ''FULL_CPU'' \<or> kind \<noteq> ''TARGET_NPU'') ''FullCPU execution used NPU'' (
     Inr (st\<lparr>mf_executions := AList.update key r (mf_executions st)\<rparr>)))))))))))"

definition manifest_end :: "manifest_reader \<Rightarrow> Record \<Rightarrow> manifest_reader res" where
  "manifest_end st r =
     requirer (allr [Inr (mf_phases st \<noteq> []), bnd (item r ''success'') (\<lambda>v. Inr (v = JBool True))])
       ''semantic run did not complete'' (
     requirer (bnd (integer r ''expected_node_count'') (\<lambda>a. bnd (integer r ''executed_node_count'') (\<lambda>b.
               Inr (a = b \<and> b = int (length (mf_nodes st)) \<and> length (mf_nodes st) = length (mf_executions st)))))
       ''semantic node coverage incomplete'' (
     bnd (integer r ''graph_count'') (\<lambda>n.
     require (n = int (length (mf_graphs st))) ''semantic graph count mismatch'' (
     require (rget (mf_run st) ''source_role'' \<noteq> JStr ''FULL_CPU'' \<or>
              (rget (mf_run st) ''cpu_only_build'' = JBool True \<and> rget r ''cpu_only_proven'' = JBool True))
       ''FullCPU build/execution proof missing'' (
     Inr (st\<lparr>mf_ended := True\<rparr>))))))"

definition manifest_step :: "manifest_reader \<Rightarrow> nat \<times> Record \<Rightarrow> manifest_reader res" where
  "manifest_step st entry =
     (let sequence = fst entry; r = snd entry in
      require (\<not> mf_ended st) ''record after semantic run end'' (
      require (py_eq (rget r ''schema'') (JStr ''im2p-semantic-graph'') \<and> rget r ''version'' = JInt 1)
        ''unsupported semantic graph schema/version'' (
      bnd (text_of r ''kind'') (\<lambda>kind.
      require (has_key MANIFEST_FIELDS kind) ''unknown semantic record'' (
      bnd (fields_of r (MANIFEST_COMMON @ the (map_of MANIFEST_FIELDS kind))) (\<lambda>_.
      bnd (integer r ''sequence'') (\<lambda>n.
      require (n = int sequence) ''semantic sequence duplicate/gap'' (
      if kind = ''RUN'' then manifest_run sequence st r
      else if kind = ''PHASE'' then manifest_phase st r
      else if kind = ''GRAPH'' then manifest_graph st r
      else if kind = ''NODE_EXECUTION'' then manifest_execution st r
      else manifest_end st r))))))))"

definition manifest_line :: "manifest_reader \<Rightarrow> nat \<times> jval \<Rightarrow> manifest_reader res" where
  "manifest_line st entry = bnd (json_record (snd entry)) (\<lambda>r. manifest_step st (fst entry, r))"

definition read_semantic_graph :: "jval list \<Rightarrow> Manifest res" where
  "read_semantic_graph lines =
     bnd (foldm manifest_line manifest_start (zip [0..<length lines] lines)) (\<lambda>st.
     require (mf_ended st) ''missing semantic run end'' (
     if static_order_ok (mf_edges st) then Inr (Manifest.truncate st) else Inl (ValueError ''cyclic original graph'')))"

section \<open>Two collections\<close>

text \<open>The operands of a node: the payloads of the nodes and leaves it names.\<close>

fun find_graph :: "phase_id \<Rightarrow> int \<Rightarrow> Record list \<Rightarrow> Record res" where
  "find_graph ph graph [] = Inl StopIteration"
| "find_graph ph graph (row # rows) =
     bnd (phase_key row) (\<lambda>k. bnd (item row ''graph_occurrence'') (\<lambda>g.
     if k = ph \<and> py_eq g (JInt graph) then Inr row else find_graph ph graph rows))"

definition graph_of_key :: "Manifest \<Rightarrow> SemanticKey \<Rightarrow> Record res" where
  "graph_of_key m key = (case key of (phase, decode, graph, _) \<Rightarrow> find_graph (phase, decode) graph (mf_graphs m))"

definition graph_operand :: "Manifest \<Rightarrow> SemanticKey \<Rightarrow> Record \<Rightarrow> jval \<Rightarrow> Record option res" where
  "graph_operand m key graph raw =
     (if raw = JNull then Inr None else
      bnd (object_value raw) (\<lambda>edge. bnd (integer edge ''ordinal'') (\<lambda>ordinal. bnd (item edge ''kind'') (\<lambda>kind.
      if kind = JStr ''node''
      then (case map_of (mf_nodes m) (case key of (phase, decode, g, _) \<Rightarrow> (phase, decode, g, ordinal)) of
              None \<Rightarrow> Inl (KeyError ''node'')
            | Some node \<Rightarrow> bnd (item node ''payload'') (\<lambda>v. bnd (object_value v) (\<lambda>p. Inr (Some p))))
      else bnd (item graph ''leaves'') (\<lambda>lv. bnd (array lv) (\<lambda>leaves.
           if nat ordinal < length leaves then bnd (object_value (leaves ! nat ordinal)) (\<lambda>p. Inr (Some p))
           else Inl IndexError))))))"

definition manifest_inputs :: "Manifest \<Rightarrow> SemanticKey \<Rightarrow> Record option list res" where
  "manifest_inputs m key =
     bnd (graph_of_key m key) (\<lambda>graph.
     case map_of (mf_nodes m) key of
       None \<Rightarrow> Inl (KeyError ''node'')
     | Some node \<Rightarrow>
         bnd (item node ''payload'') (\<lambda>pv. bnd (object_value pv) (\<lambda>payload.
         bnd (item payload ''inputs'') (\<lambda>iv. bnd (array iv) (\<lambda>raws. mapr (graph_operand m key graph) raws)))))"

definition without_sequence :: "Record \<Rightarrow> jval" where
  "without_sequence r = JObj (filter (\<lambda>(k, _). k \<noteq> ''sequence'') r)"

text \<open>Decoded tokens may differ between the collections; the prompt may not.\<close>

definition phase_contract :: "Record \<Rightarrow> jval" where
  "phase_contract r = JObj (filter (\<lambda>(k, _). k \<noteq> ''sequence'' \<and>
     (rget r ''phase_kind'' = JStr ''prefill'' \<or> k \<noteq> ''token_fingerprint'')) r)"

definition compare_manifests :: "ext \<Rightarrow> Manifest \<Rightarrow> Manifest \<Rightarrow> unit res" where
  "compare_manifests E full potal =
     bnd (item (mf_run full) ''source_role'') (\<lambda>a. bnd (item (mf_run potal) ''source_role'') (\<lambda>b.
     require (a = JStr ''FULL_CPU'' \<and> b = JStr ''POTAL_COLLECTION'') ''reconstruction source roles swapped'' (
     requirer (bnd (item (mf_run full) ''run_config_id'') (\<lambda>c. bnd (item (mf_run potal) ''run_config_id'') (\<lambda>d.
         if py_eq c d
         then bnd (item (mf_run full) ''workload'') (\<lambda>v. bnd (object_value v) (\<lambda>w.
              bnd (item (mf_run potal) ''workload'') (\<lambda>v'. bnd (object_value v') (\<lambda>w'.
              Inr (dumps E True (JObj w) = dumps E True (JObj w'))))))
         else Inr False))) ''workload/CPU configuration mismatch'' (
     require (py_eqs (map phase_contract (mf_phases full)) (map phase_contract (mf_phases potal)))
       ''phase/prompt input mismatch'' (
     require (py_eqs (map without_sequence (mf_graphs full)) (map without_sequence (mf_graphs potal)))
       ''original graph payload/edge mismatch'' (Inr ()))))))"

end
