(* ===== verification/Graph_Theorems.thy ===== *)
theory Graph_Theorems
  imports Semantic_Graph
begin

text \<open>What an accepted semantic graph is: complete, closed, acyclic, with consecutive phases.\<close>

lemma foldm_indexed:
  assumes "foldm f s (zip [0..<length xs] xs) = Inr t" and "P 0 s"
    and "\<And>i s s'. i < length xs \<Longrightarrow> P i s \<Longrightarrow> f s (i, xs ! i) = Inr s' \<Longrightarrow> P (Suc i) s'"
  shows "P (length xs) t"
proof -
  have "P (length xs) t" if "foldm f s (zip [k..<length xs] (drop k xs)) = Inr t" "P k s" "k \<le> length xs" for k s
    using that
  proof (induction "length xs - k" arbitrary: k s)
    case (Suc n)
    then have k: "k < length xs" by linarith
    then have "zip [k..<length xs] (drop k xs) = (k, xs ! k) # zip [Suc k..<length xs] (drop (Suc k) xs)"
      by (simp add: upt_conv_Cons Cons_nth_drop_Suc [symmetric])
    with Suc.prems obtain s' where s': "f s (k, xs ! k) = Inr s'"
      "foldm f s' (zip [Suc k..<length xs] (drop (Suc k) xs)) = Inr t" by (auto simp: bnd_eq_Inr)
    moreover have "P (Suc k) s'" using assms(3) k Suc.prems(2) s'(1) by blast
    moreover have "n = length xs - Suc k" using Suc.hyps(2) by linarith
    ultimately show ?case using Suc.hyps(1) k by simp
  qed auto
  from this [of s 0] assms(1,2) show ?thesis by simp
qed

section \<open>The invariant\<close>

definition in_graph :: "phase_id \<Rightarrow> int \<Rightarrow> nat \<Rightarrow> SemanticKey" where
  "in_graph ph graph i = (fst ph, snd ph, graph, int i)"

fun same_graph :: "SemanticKey \<Rightarrow> SemanticKey \<Rightarrow> bool" where
  "same_graph (p, d, g, _) (p', d', g', _) \<longleftrightarrow> p = p' \<and> d = d' \<and> g = g'"

definition node_classified :: "Record \<Rightarrow> Record \<Rightarrow> Record \<Rightarrow> bool" where
  "node_classified run node execution \<longleftrightarrow>
     (\<exists>c. rget execution ''execution_class'' = JStr c \<and> c \<in> {''ORDINARY_CPU'', ''TARGET_NPU'', ''EXCLUDED''} \<and>
        rget node ''excluded'' = JBool (c = ''EXCLUDED'') \<and>
        (rget run ''source_role'' = JStr ''FULL_CPU'' \<longrightarrow> c \<noteq> ''TARGET_NPU''))"

definition manifest_inv :: "'a Manifest_scheme \<Rightarrow> bool" where
  "manifest_inv m \<longleftrightarrow>
     distinct (map fst (mf_nodes m)) \<and> map fst (mf_edges m) = map fst (mf_nodes m) \<and>
     distinct (map fst (mf_executions m)) \<and> fst ` set (mf_executions m) \<subseteq> fst ` set (mf_nodes m) \<and>
     (\<forall>(k, node) \<in> set (mf_nodes m). is_bool (rget node ''excluded'')) \<and>
     (\<forall>(k, ds) \<in> set (mf_edges m). \<forall>d \<in> set ds. d \<in> fst ` set (mf_nodes m) \<and> same_graph k d) \<and>
     (\<forall>(k, r) \<in> set (mf_executions m). \<exists>node. (k, node) \<in> set (mf_nodes m) \<and> node_classified (mf_run m) node r) \<and>
     (\<forall>i < length (mf_phases m). phase_key (mf_phases m ! i) = Inr (expected_phase i))"

text \<open>What the nodes of a graph read so far add.\<close>

definition graph_inv :: "manifest_reader \<Rightarrow> phase_id \<Rightarrow> int \<Rightarrow> nat \<Rightarrow> nat \<Rightarrow> manifest_reader \<Rightarrow> bool" where
  "graph_inv st ph graph n i st' \<longleftrightarrow>
     map fst (mf_nodes st') = map fst (mf_nodes st) @ map (in_graph ph graph) [0..<i] \<and>
     distinct (map fst (mf_nodes st')) \<and> map fst (mf_edges st') = map fst (mf_nodes st') \<and>
     (\<exists>new. mf_nodes st' = mf_nodes st @ new) \<and>
     (\<forall>(k, node) \<in> set (mf_nodes st'). is_bool (rget node ''excluded'')) \<and>
     (\<forall>(k, ds) \<in> set (mf_edges st'). (k, ds) \<in> set (mf_edges st) \<or>
        (\<exists>i. k = in_graph ph graph i) \<and> set ds \<subseteq> in_graph ph graph ` {..<n}) \<and>
     mf_run st' = mf_run st \<and> mf_phases st' = mf_phases st \<and> mf_executions st' = mf_executions st \<and>
     mf_graphs st' = mf_graphs st \<and> mf_ended st' = mf_ended st"

lemma graph_input_Inr:
  assumes "graph_input ph graph n m edge = Inr ks"
  shows "set ks \<subseteq> in_graph ph graph ` {..<n}"
proof -
  have "(fst ph, snd ph, graph, index) \<in> in_graph ph graph ` {..<n}" if "0 \<le> index" "index < int n" for index
    using that by (intro image_eqI [of _ _ "nat index"]) (auto simp: in_graph_def)
  with assms show ?thesis
    unfolding graph_input_def
    by (auto simp: bnd_eq_Inr require_eq_Inr integer_eq_Inr split: if_splits)
qed

lemma graph_node_Inr:
  assumes g: "graph_node ph graph n m st' (i, v) = Inr st''" and inv: "graph_inv st ph graph n i st'"
  shows "graph_inv st ph graph n (Suc i) st''"
proof -
  let ?key = "in_graph ph graph i"
  from g obtain node deps excluded where new: "\<not> has_key (mf_nodes st') ?key"
    and ex: "item node ''excluded'' = Inr excluded" "is_bool excluded"
    and deps: "\<exists>inputs. mapr (graph_input ph graph n m) inputs = Inr deps"
    and st'': "st'' = st'\<lparr>mf_nodes := AList.update ?key node (mf_nodes st'), mf_edges := AList.update ?key (concat deps) (mf_edges st')\<rparr>"
    unfolding graph_node_def bnd_eq_Inr require_eq_Inr Let_def in_graph_def fst_conv snd_conv sum.inject by blast
  have keys: "map fst (mf_edges st') = map fst (mf_nodes st')" using inv unfolding graph_inv_def by blast
  have fresh: "?key \<notin> set (map fst (mf_nodes st'))" "?key \<notin> set (map fst (mf_edges st'))"
    using new unfolding keys has_key_def by blast+
  then have upd: "mf_nodes st'' = mf_nodes st' @ [(?key, node)]" "mf_edges st'' = mf_edges st' @ [(?key, concat deps)]"
    by (simp_all add: st'' keys_update_new)
  have deps': "set (concat deps) \<subseteq> in_graph ph graph ` {..<n}"
  proof -
    from deps obtain inputs where "mapr (graph_input ph graph n m) inputs = Inr deps" by blast
    then have "\<forall>ks \<in> set deps. set ks \<subseteq> in_graph ph graph ` {..<n}"
    proof (induction inputs arbitrary: deps)
      case (Cons e es)
      then obtain k ks where "graph_input ph graph n m e = Inr k" "mapr (graph_input ph graph n m) es = Inr ks" "deps = k # ks"
        by (auto simp: bnd_eq_Inr)
      with Cons.IH graph_input_Inr show ?case by simp
    qed simp
    then show ?thesis by auto
  qed
  have bool: "is_bool (rget node ''excluded'')" using ex by (auto simp: item_eq_Inr)
  from inv obtain new where o: "map fst (mf_nodes st') = map fst (mf_nodes st) @ map (in_graph ph graph) [0..<i]"
    "distinct (map fst (mf_nodes st'))" "mf_nodes st' = mf_nodes st @ new"
    "\<forall>(k, node) \<in> set (mf_nodes st'). is_bool (rget node ''excluded'')"
    "\<forall>(k, ds) \<in> set (mf_edges st'). (k, ds) \<in> set (mf_edges st) \<or>
        (\<exists>i. k = in_graph ph graph i) \<and> set ds \<subseteq> in_graph ph graph ` {..<n}"
    and f: "mf_run st' = mf_run st \<and> mf_phases st' = mf_phases st \<and> mf_executions st' = mf_executions st \<and>
     mf_graphs st' = mf_graphs st \<and> mf_ended st' = mf_ended st"
    unfolding graph_inv_def by blast
  show ?thesis
    unfolding graph_inv_def
  proof (intro conjI)
    show "map fst (mf_nodes st'') = map fst (mf_nodes st) @ map (in_graph ph graph) [0..<Suc i]" by (simp add: upd o(1))
    show "distinct (map fst (mf_nodes st''))" using o(2) fresh by (simp add: upd)
    show "map fst (mf_edges st'') = map fst (mf_nodes st'')" by (simp add: upd keys)
    show "\<exists>new. mf_nodes st'' = mf_nodes st @ new" by (simp add: upd o(3))
    show "\<forall>(k, node) \<in> set (mf_nodes st''). is_bool (rget node ''excluded'')" using o(4) bool by (simp add: upd)
    show "\<forall>(k, ds) \<in> set (mf_edges st''). (k, ds) \<in> set (mf_edges st) \<or>
        (\<exists>i. k = in_graph ph graph i) \<and> set ds \<subseteq> in_graph ph graph ` {..<n}" using o(5) deps' by (simp add: upd) blast
  qed (use f in \<open>simp_all add: st''\<close>)
qed

section \<open>The steps\<close>

lemma graph_inv_done:
  assumes inv: "manifest_inv st" and g: "graph_inv st ph graph n n st'"
  shows "manifest_inv st'"
proof -
  from g obtain new where g': "map fst (mf_nodes st') = map fst (mf_nodes st) @ map (in_graph ph graph) [0..<n]"
    "distinct (map fst (mf_nodes st'))" "map fst (mf_edges st') = map fst (mf_nodes st')"
    "mf_nodes st' = mf_nodes st @ new" "\<forall>(k, node) \<in> set (mf_nodes st'). is_bool (rget node ''excluded'')"
    and e: "\<forall>(k, ds) \<in> set (mf_edges st'). (k, ds) \<in> set (mf_edges st) \<or>
        (\<exists>i. k = in_graph ph graph i) \<and> set ds \<subseteq> in_graph ph graph ` {..<n}"
    and f: "mf_run st' = mf_run st" "mf_phases st' = mf_phases st" "mf_executions st' = mf_executions st"
    unfolding graph_inv_def by blast
  have nodes: "fst ` set (mf_nodes st') = fst ` set (mf_nodes st) \<union> in_graph ph graph ` {..<n}"
    using arg_cong [OF g'(1), of set] by (simp add: atLeast0LessThan)
  have same: "same_graph (in_graph ph graph i) (in_graph ph graph j)" for i j by (simp add: in_graph_def)
  have "\<forall>(k, ds) \<in> set (mf_edges st'). \<forall>d \<in> set ds. d \<in> fst ` set (mf_nodes st') \<and> same_graph k d"
  proof (clarify)
    fix a b c x ds a' b' c' x' assume k: "((a, b, c, x), ds) \<in> set (mf_edges st')" and d: "(a', b', c', x') \<in> set ds"
    from e k consider "((a, b, c, x), ds) \<in> set (mf_edges st)"
      | "(\<exists>i. (a, b, c, x) = in_graph ph graph i)" "set ds \<subseteq> in_graph ph graph ` {..<n}" by blast
    then show "(a', b', c', x') \<in> fst ` set (mf_nodes st') \<and> same_graph (a, b, c, x) (a', b', c', x')"
    proof cases
      case 1
      with inv d have "(a', b', c', x') \<in> fst ` set (mf_nodes st) \<and> same_graph (a, b, c, x) (a', b', c', x')"
        unfolding manifest_inv_def by blast
      then show ?thesis using nodes by blast
    next
      case 2
      with d obtain i j where "(a, b, c, x) = in_graph ph graph i" "(a', b', c', x') = in_graph ph graph j" "j < n" by blast
      then show ?thesis using nodes same by (metis UnI2 imageI lessThan_iff)
    qed
  qed
  moreover have "\<forall>(k, r) \<in> set (mf_executions st'). \<exists>node. (k, node) \<in> set (mf_nodes st') \<and> node_classified (mf_run st') node r"
    using inv unfolding f g'(4) manifest_inv_def by fastforce
  moreover have "fst ` set (mf_executions st') \<subseteq> fst ` set (mf_nodes st')"
    using inv nodes unfolding f manifest_inv_def by blast
  ultimately show ?thesis using inv g' f unfolding manifest_inv_def by simp
qed

lemma manifest_graph_Inr:
  assumes "manifest_graph st r = Inr st'" and inv: "manifest_inv st"
  shows "manifest_inv st' \<and> mf_ended st' = mf_ended st"
proof -
  from assms(1) obtain graph ph entries leaves st1 where
    fold: "foldm (graph_node ph graph (length entries) leaves) st (zip [0..<length entries] entries) = Inr st1"
    and st': "st' = st1\<lparr>mf_graphs := mf_graphs st @ [r], mf_next_graph := mf_next_graph st + 1\<rparr>"
    unfolding manifest_graph_def bnd_eq_Inr requirer_eq_Inr require_eq_Inr sum.inject by blast
  have "graph_inv st ph graph (length entries) (length entries) st1"
    using fold
  proof (rule foldm_indexed [where P = "graph_inv st ph graph (length entries)"])
    show "graph_inv st ph graph (length entries) 0 st" using inv by (auto simp: graph_inv_def manifest_inv_def)
    fix i s s'
    assume "graph_inv st ph graph (length entries) i s" and "graph_node ph graph (length entries) leaves s (i, entries ! i) = Inr s'"
    then show "graph_inv st ph graph (length entries) (Suc i) s'" by (intro graph_node_Inr)
  qed
  note g = this
  have "manifest_inv st' = manifest_inv st1" by (simp add: st' manifest_inv_def)
  moreover have "mf_ended st1 = mf_ended st" using g unfolding graph_inv_def by blast
  ultimately show ?thesis using graph_inv_done [OF inv g] by (simp add: st')
qed

lemma py_eq_JBool: "is_bool v \<Longrightarrow> py_eq (JBool b) v \<Longrightarrow> v = JBool b"
  by (cases v) (auto simp: num_eq_def split: if_splits)

lemma manifest_execution_Inr:
  assumes "manifest_execution st r = Inr st'" and inv: "manifest_inv st"
  shows "manifest_inv st'"
proof -
  from assms(1) obtain key kind where key: "has_key (mf_nodes st) key" "\<not> has_key (mf_executions st) key"
    and kind: "text_of r ''execution_class'' = Inr kind" "kind \<in> {''ORDINARY_CPU'', ''TARGET_NPU'', ''EXCLUDED''}"
    and ex: "py_eq (JBool (kind = ''EXCLUDED'')) (rget (the (map_of (mf_nodes st) key)) ''excluded'')"
    and full: "rget (mf_run st) ''source_role'' \<noteq> JStr ''FULL_CPU'' \<or> kind \<noteq> ''TARGET_NPU''"
    and st': "st' = st\<lparr>mf_executions := AList.update key r (mf_executions st)\<rparr>"
    unfolding manifest_execution_def bnd_eq_Inr requirer_eq_Inr require_eq_Inr sum.inject by blast
  from key(1) obtain node where node: "map_of (mf_nodes st) key = Some node" by (auto simp: has_key_map_of)
  have "is_bool (rget node ''excluded'')" using inv map_of_SomeD [OF node] unfolding manifest_inv_def by blast
  from py_eq_JBool [OF this] ex node have "rget node ''excluded'' = JBool (kind = ''EXCLUDED'')" by simp
  with kind full have "node_classified (mf_run st) node r" by (auto simp: node_classified_def text_eq_Inr)
  moreover have "mf_executions st' = mf_executions st @ [(key, r)]"
    using key(2) by (simp add: st' has_key_def keys_update_new)
  moreover have "key \<in> fst ` set (mf_nodes st)" using map_of_SomeD [OF node] by force
  ultimately show ?thesis using inv key(2) node by (auto simp: st' manifest_inv_def has_key_def)
qed

lemma manifest_phase_Inr:
  assumes "manifest_phase st r = Inr st'" and inv: "manifest_inv st"
  shows "manifest_inv st'"
proof -
  from assms(1) have k: "phase_key r = Inr (expected_phase (length (mf_phases st)))"
    and st': "st' = st\<lparr>mf_phases := mf_phases st @ [r], mf_next_graph := 0\<rparr>"
    by (auto simp: manifest_phase_def bnd_eq_Inr require_eq_Inr)
  have "\<forall>i < length (mf_phases st @ [r]). phase_key ((mf_phases st @ [r]) ! i) = Inr (expected_phase i)"
    using inv k by (auto simp: manifest_inv_def nth_append less_Suc_eq)
  with inv show ?thesis by (simp add: st' manifest_inv_def)
qed

definition complete :: "manifest_reader \<Rightarrow> bool" where
  "complete st \<longleftrightarrow> length (mf_executions st) = length (mf_nodes st) \<and> mf_phases st \<noteq> []"

lemma manifest_end_Inr:
  assumes "manifest_end st r = Inr st'"
  shows "manifest_inv st' = manifest_inv st" "complete st'"
proof -
  from assms have "length (mf_nodes st) = length (mf_executions st)" "mf_phases st \<noteq> []" and st': "st' = st\<lparr>mf_ended := True\<rparr>"
    by (auto simp: manifest_end_def bnd_eq_Inr requirer_eq_Inr require_eq_Inr)
  then show "complete st'" "manifest_inv st' = manifest_inv st" by (simp_all add: complete_def manifest_inv_def)
qed

lemma manifest_run_Inr:
  assumes "manifest_run i st r = Inr st'"
  shows "i = 0 \<and> st' = st\<lparr>mf_run := r\<rparr>"
  using assms unfolding manifest_run_def bnd_eq_Inr require_eq_Inr sum.inject by blast

lemma manifest_line_Inr:
  assumes "manifest_line st (i, v) = Inr st'" and "manifest_inv st" and "i = 0 \<longrightarrow> st = manifest_start"
    and "mf_ended st \<longrightarrow> complete st"
  shows "manifest_inv st' \<and> (mf_ended st' \<longrightarrow> complete st')"
proof -
  from assms(1) obtain r kind where "\<not> mf_ended st"
    and s: "(if kind = ''RUN'' then manifest_run i st r
      else if kind = ''PHASE'' then manifest_phase st r
      else if kind = ''GRAPH'' then manifest_graph st r
      else if kind = ''NODE_EXECUTION'' then manifest_execution st r
      else manifest_end st r) = Inr st'"
    unfolding manifest_line_def manifest_step_def Let_def fst_conv snd_conv bnd_eq_Inr require_eq_Inr by blast
  have frame: "manifest_phase st r = Inr st' \<Longrightarrow> mf_ended st' = mf_ended st"
    "manifest_execution st r = Inr st' \<Longrightarrow> mf_ended st' = mf_ended st"
    by (auto simp: manifest_phase_def manifest_execution_def bnd_eq_Inr requirer_eq_Inr require_eq_Inr)
  show ?thesis
  proof (cases "kind = ''RUN''")
    case True
    with s have "manifest_run i st r = Inr st'" by simp
    from manifest_run_Inr [OF this] assms(3) have "st' = manifest_start\<lparr>mf_run := r\<rparr>" by simp
    then show ?thesis by (simp add: manifest_inv_def manifest_start_def)
  next
    case False
    then consider "manifest_phase st r = Inr st'" | "manifest_graph st r = Inr st'" | "manifest_execution st r = Inr st'"
      | "manifest_end st r = Inr st'" using s by (auto split: if_splits)
    then show ?thesis
    proof cases
      case 1 then show ?thesis using manifest_phase_Inr assms(2) frame \<open>\<not> mf_ended st\<close> by simp
    next
      case 2
      then show ?thesis using manifest_graph_Inr assms(2) \<open>\<not> mf_ended st\<close> by blast
    next
      case 3 then show ?thesis using manifest_execution_Inr assms(2) frame \<open>\<not> mf_ended st\<close> by simp
    next
      case 4 then show ?thesis using manifest_end_Inr assms(2) by blast
    qed
  qed
qed

section \<open>The accepted graph\<close>

definition valid_manifest :: "Manifest \<Rightarrow> bool" where
  "valid_manifest m \<longleftrightarrow>
     distinct (map fst (mf_nodes m)) \<and> distinct (map fst (mf_executions m)) \<and>
     set (map fst (mf_executions m)) = set (map fst (mf_nodes m)) \<and>
     map fst (mf_edges m) = map fst (mf_nodes m) \<and>
     (\<forall>(k, ds) \<in> set (mf_edges m). \<forall>d \<in> set ds. d \<in> set (map fst (mf_nodes m)) \<and> same_graph k d) \<and>
     acyclic (graph_rel (mf_edges m)) \<and>
     (\<forall>(k, r) \<in> set (mf_executions m). \<exists>node. map_of (mf_nodes m) k = Some node \<and> node_classified (mf_run m) node r) \<and>
     mf_phases m \<noteq> [] \<and> (\<forall>i < length (mf_phases m). phase_key (mf_phases m ! i) = Inr (expected_phase i))"

lemma read_lines_inv:
  assumes "foldm manifest_line manifest_start (zip [0..<length lines] lines) = Inr st" and "mf_ended st"
  shows "manifest_inv st \<and> complete st"
proof -
  let ?P = "\<lambda>i st. manifest_inv st \<and> (mf_ended st \<longrightarrow> complete st) \<and> (i = 0 \<longrightarrow> st = manifest_start)"
  have "?P (length lines) st"
    using assms(1)
  proof (rule foldm_indexed [where P = ?P])
    show "?P 0 manifest_start" by (simp add: manifest_inv_def manifest_start_def)
    fix i s s' assume p: "?P i s" and l: "manifest_line s (i, lines ! i) = Inr s'"
    have "manifest_inv s' \<and> (mf_ended s' \<longrightarrow> complete s')"
      by (rule manifest_line_Inr [OF l]) (use p in blast)+
    then show "?P (Suc i) s'" by simp
  qed
  with assms(2) show ?thesis by blast
qed

lemma complete_covers:
  assumes "manifest_inv st" and "complete st"
  shows "set (map fst (mf_executions st)) = set (map fst (mf_nodes st))"
proof (rule card_subset_eq)
  from assms(1) have d: "distinct (map fst (mf_nodes st))" "distinct (map fst (mf_executions st))" by (simp_all add: manifest_inv_def)
  show "card (set (map fst (mf_executions st))) = card (set (map fst (mf_nodes st)))"
    unfolding distinct_card [OF d(1)] distinct_card [OF d(2)] using assms(2) by (simp add: complete_def)
  show "set (map fst (mf_executions st)) \<subseteq> set (map fst (mf_nodes st))" using assms(1) by (simp add: manifest_inv_def)
qed simp


section \<open>A graph of two nodes\<close>

definition sg_line :: "int \<Rightarrow> string \<Rightarrow> Record \<Rightarrow> jval" where
  "sg_line n kind r = JObj ([(''schema'', JStr ''im2p-semantic-graph''), (''version'', JInt 1), (''kind'', JStr kind), (''sequence'', JInt n)] @ r)"

definition sg_node :: "int \<Rightarrow> string \<Rightarrow> jval list \<Rightarrow> jval" where
  "sg_node i op inputs = JObj [(''node_ordinal'', JInt i), (''excluded'', JBool False),
     (''payload'', JObj [(''op'', JStr op), (''name'', JStr ''x''), (''type'', JStr ''f32''), (''shape'', JArr (map JInt [64, 3, 1, 1])),
        (''parameters_hex'', JStr []), (''parameters_status'', JStr ''STATIC_BYTES''), (''inputs'', JArr inputs)])]"

definition sg_input :: "string \<Rightarrow> int \<Rightarrow> jval" where
  "sg_input kind i = JObj [(''kind'', JStr kind), (''ordinal'', JInt i)]"

definition sg_execution :: "int \<Rightarrow> string \<Rightarrow> Record" where
  "sg_execution i kind = [(''semantic_phase_kind'', JStr ''prefill''), (''semantic_decode_index'', JNull), (''semantic_graph_occurrence'', JInt 0),
     (''semantic_node_ordinal'', JInt i), (''source_role'', JStr ''POTAL_COLLECTION''), (''run_config_id'', JStr ''c''),
     (''actual_backend'', JStr ''b''), (''execution_class'', JStr kind), (''success'', JBool True)]"

definition sg_lines :: "jval list" where
  "sg_lines =
     [sg_line 0 ''RUN'' [(''source_role'', JStr ''POTAL_COLLECTION''), (''run_config_id'', JStr ''c''),
        (''workload'', JObj (map (\<lambda>k. (k, JNull)) WORKLOAD)),
        (''producer'', JObj [(''warmup_excluded'', JBool True), (''reserve_measure_graphs_excluded'', JBool True)]), (''cpu_only_build'', JBool False)],
      sg_line 1 ''PHASE'' [(''phase_kind'', JStr ''prefill''), (''decode_index'', JNull), (''input_tokens'', JInt 3),
        (''token_fingerprint'', JStr (''fnv1a64-le-i32:'' @ replicate 16 (CHR ''0'')))],
      sg_line 2 ''GRAPH'' [(''phase_kind'', JStr ''prefill''), (''decode_index'', JNull), (''graph_occurrence'', JInt 0),
        (''nodes'', JArr [sg_node 0 ''NORM'' [sg_input ''leaf'' 0], sg_node 1 ''MUL_MAT'' [sg_input ''leaf'' 0, sg_input ''node'' 0, JNull]]),
        (''leaves'', JArr [JObj [(''name'', JStr ''w''), (''type'', JStr ''f32''), (''shape'', JArr (map JInt [64, 3, 1, 1]))]])],
      sg_line 3 ''NODE_EXECUTION'' (sg_execution 0 ''ORDINARY_CPU''),
      sg_line 4 ''NODE_EXECUTION'' (sg_execution 1 ''TARGET_NPU''),
      sg_line 5 ''RUN_END'' [(''success'', JBool True), (''expected_node_count'', JInt 2), (''executed_node_count'', JInt 2),
        (''cpu_only_proven'', JBool False), (''graph_count'', JInt 1)]]"

lemma unique_pairs_id: "distinct (map fst ps) \<Longrightarrow> unique_pairs ps = Inr ps"
  by (simp add: unique_pairs_iff)

lemma sg_load:
  "load_values unique_pairs (map (\<lambda>n. JInt (f n)) ns) = Inr (map (\<lambda>n. JInt (f n)) ns)"
  "load_pairs unique_pairs (map (\<lambda>k. (k, JNull)) ks) = Inr (map (\<lambda>k. (k, JNull)) ks)"
  by (induction ns) (simp_all, induction ks, simp_all)

lemma sg_node_load: "load_values unique_pairs inputs = Inr inputs \<Longrightarrow> load_value unique_pairs (sg_node i op inputs) = Inr (sg_node i op inputs)"
  by (simp add: sg_node_def unique_pairs_id)

lemma sg_input_load: "load_value unique_pairs (sg_input kind i) = Inr (sg_input kind i)"
  by (simp add: sg_input_def unique_pairs_id)

definition sg_record :: "nat \<Rightarrow> Record" where
  "sg_record i = (case sg_lines ! i of JObj d \<Rightarrow> d | _ \<Rightarrow> [])"

lemma sg_records:
  "sg_lines = map (\<lambda>i. JObj (sg_record i)) [0, 1, 2, 3, 4, 5]"
  by (simp add: sg_record_def sg_lines_def sg_line_def)

lemma sg_decode: "i \<in> {0, 1, 2, 3, 4, 5} \<Longrightarrow> json_record (JObj (sg_record i)) = Inr (sg_record i)"
  unfolding sg_record_def
  by (auto simp: sg_lines_def sg_line_def json_record_def unique_pairs_id object_value_def sg_node_load sg_input_load sg_execution_def
    WORKLOAD_def)

definition sg_key :: "int \<Rightarrow> SemanticKey" where "sg_key i = (''prefill'', None, 0, i)"

definition sg_nodes :: "(SemanticKey, Record) dict" where
  "sg_nodes = [(sg_key 0, case sg_node 0 ''NORM'' [sg_input ''leaf'' 0] of JObj d \<Rightarrow> d | _ \<Rightarrow> []),
     (sg_key 1, case sg_node 1 ''MUL_MAT'' [sg_input ''leaf'' 0, sg_input ''node'' 0, JNull] of JObj d \<Rightarrow> d | _ \<Rightarrow> [])]"

definition sg_edges :: "SemanticKey precedence" where
  "sg_edges = [(sg_key 0, []), (sg_key 1, [sg_key 0])]"

definition sg_states :: "nat \<Rightarrow> manifest_reader" where
  "sg_states i = \<lparr>mf_run = sg_record 0, mf_phases = (if i \<ge> 2 then [sg_record 1] else []), mf_graphs = (if i \<ge> 3 then [sg_record 2] else []),
     mf_nodes = (if i \<ge> 3 then sg_nodes else []),
     mf_executions = (if i \<ge> 4 then [(sg_key 0, sg_record 3)] else []) @ (if i \<ge> 5 then [(sg_key 1, sg_record 4)] else []),
     mf_edges = (if i \<ge> 3 then sg_edges else []), mf_ended = (i \<ge> 6), mf_next_graph = (if i \<ge> 3 then 1 else 0)\<rparr>"

lemma manifest_step_of:
  assumes "\<not> mf_ended st" and "rget r ''schema'' = JStr ''im2p-semantic-graph''" and "rget r ''version'' = JInt 1"
    and "rget r ''kind'' = JStr kind" and "rget r ''sequence'' = JInt (int n)" and "kind \<noteq> []" and "int n < U64"
    and "has_key MANIFEST_FIELDS kind" and "keys_are r (MANIFEST_COMMON @ the (map_of MANIFEST_FIELDS kind))"
    and "has_key r ''kind''" and "has_key r ''sequence''"
  shows "manifest_step st (n, r) =
    (if kind = ''RUN'' then manifest_run n st r
     else if kind = ''PHASE'' then manifest_phase st r
     else if kind = ''GRAPH'' then manifest_graph st r
     else if kind = ''NODE_EXECUTION'' then manifest_execution st r
     else manifest_end st r)"
proof -
  have "text_of r ''kind'' = Inr kind" "integer r ''sequence'' = Inr (int n)"
    using assms by (simp_all add: text_of_def integer_def)
  moreover have "fields_of r (MANIFEST_COMMON @ the (map_of MANIFEST_FIELDS kind)) = Inr ()"
    using assms by (simp add: fields_eq_Inr)
  ultimately show ?thesis using assms by (simp add: manifest_step_def require_def)
qed

lemma sg_keys:
  assumes "i \<in> {0, 1, 2, 3, 4, 5}" and "\<not> mf_ended st"
  defines "kind \<equiv> [''RUN'', ''PHASE'', ''GRAPH'', ''NODE_EXECUTION'', ''NODE_EXECUTION'', ''RUN_END''] ! i"
  shows "manifest_step st (i, sg_record i) =
    (if kind = ''RUN'' then manifest_run i st (sg_record i)
     else if kind = ''PHASE'' then manifest_phase st (sg_record i)
     else if kind = ''GRAPH'' then manifest_graph st (sg_record i)
     else if kind = ''NODE_EXECUTION'' then manifest_execution st (sg_record i)
     else manifest_end st (sg_record i))"
proof -
  have "rget (sg_record i) ''schema'' = JStr ''im2p-semantic-graph'' \<and> rget (sg_record i) ''version'' = JInt 1
      \<and> rget (sg_record i) ''kind'' = JStr kind \<and> rget (sg_record i) ''sequence'' = JInt (int i)"
    using assms(1) unfolding kind_def by (auto simp: sg_record_def sg_lines_def sg_line_def rget_def)
  moreover have "kind \<noteq> [] \<and> has_key MANIFEST_FIELDS kind"
    using assms(1) unfolding kind_def by (auto simp: MANIFEST_FIELDS_def has_key_def)
  moreover have keys: "map fst (sg_record i) = MANIFEST_COMMON @ the (map_of MANIFEST_FIELDS kind)"
    using assms(1) unfolding kind_def
    by (elim insertE emptyE)
      (simp_all add: sg_record_def sg_lines_def sg_line_def MANIFEST_COMMON_def MANIFEST_FIELDS_def sg_execution_def SEMANTIC_FIELDS_def)
  moreover from keys have "keys_are (sg_record i) (MANIFEST_COMMON @ the (map_of MANIFEST_FIELDS kind))"
    by (metis keys_are_def)
  moreover have "has_key (sg_record i) ''kind'' \<and> has_key (sg_record i) ''sequence''"
    unfolding has_key_def keys by (simp add: MANIFEST_COMMON_def)
  moreover have "int i < U64" using assms(1) by (auto simp: U64_def)
  ultimately show ?thesis
    using assms(2) by (subst manifest_step_of [where kind = kind]) simp_all
qed

lemma sg_step0: "manifest_step manifest_start (0, sg_record 0) = Inr (sg_states 1)"
proof -
  have w: "keys_are (map (\<lambda>k. (k, JNull)) WORKLOAD) WORKLOAD" by (simp add: keys_are_def comp_def)
  have "manifest_run 0 manifest_start (sg_record 0) = Inr (manifest_start\<lparr>mf_run := sg_record 0\<rparr>)"
    using w by (simp add: manifest_run_def sg_record_def sg_lines_def sg_line_def require_def text_of_def rget_def item_def object_value_def)
  then show ?thesis
    by (simp add: sg_keys manifest_start_def sg_states_def)
qed

lemma zero_digits: "list_all is_hex (replicate n (CHR ''0''))"
  by (simp add: list_all_iff is_hex_def)

lemma sg_step1: "manifest_step (sg_states 1) (1, sg_record 1) = Inr (sg_states 2)"
  by (simp add: sg_keys sg_states_def, simp add: manifest_phase_def executed_all_def phase_key_def sg_record_def sg_lines_def sg_line_def
    require_def text_of_def rget_def item_def opt_integer_def integer_def U64_def expected_phase_def fingerprint_text_def hex_string_def
    zero_digits)

lemma fields_ok: "keys_are r e \<Longrightarrow> fields_of r e = Inr ()"
  by (simp add: fields_eq_Inr)

lemmas sg_reads = require_def requirer_def text_of_def rget_def item_def opt_integer_def integer_def U64_def object_value_def array_def

lemma sg_node_reads:
  assumes "mapr (graph_input (''prefill'', None) 0 2 1) inputs = Inr deps" and "i \<in> {0, 1}" and "op \<noteq> []" and "\<not> has_key (mf_nodes st) (sg_key i)"
  shows "graph_node (''prefill'', None) 0 2 1 st (nat i, sg_node i op inputs) =
    Inr (st\<lparr>mf_nodes := AList.update (sg_key i) (case sg_node i op inputs of JObj d \<Rightarrow> d | _ \<Rightarrow> []) (mf_nodes st),
            mf_edges := AList.update (sg_key i) (concat deps) (mf_edges st)\<rparr>)"
proof -
  obtain d where d: "sg_node i op inputs = JObj d" by (simp add: sg_node_def)
  obtain p where p: "rget d ''payload'' = JObj p" "has_key d ''payload''" using d by (auto simp: sg_node_def rget_def has_key_def)
  have "fields_of d [''node_ordinal'', ''payload'', ''excluded''] = Inr ()"
    using d by (auto simp: sg_node_def fields_eq_Inr keys_are_def)
  moreover have "graph_payload d = Inr p"
  proof -
    have "fields_of p [''op'', ''name'', ''type'', ''shape'', ''parameters_hex'', ''parameters_status'', ''inputs''] = Inr ()"
      using d p(1) by (auto simp: sg_node_def fields_eq_Inr keys_are_def)
    moreover have "tensor_payload p = Inr ()"
      using d p(1) by (auto simp: sg_node_def sg_reads tensor_payload_def dimension_def)
    moreover have "text_of p ''op'' = Inr op" "item p ''parameters_status'' = Inr (JStr ''STATIC_BYTES'')" "item p ''parameters_hex'' = Inr (JStr [])"
      using d p(1) assms(3) by (auto simp: sg_node_def sg_reads)
    moreover have "item d ''payload'' = Inr (JObj p)"
      using p by (auto simp: rget_def item_def py_simps split: option.splits)
    ultimately show ?thesis by (simp add: graph_payload_def object_value_def require_def hex_bytes_def)
  qed
  moreover have "integer d ''node_ordinal'' = Inr i" "item d ''excluded'' = Inr (JBool False)"
    using d assms(2) by (auto simp: sg_node_def sg_reads)
  moreover have "item p ''inputs'' = Inr (JArr inputs)"
    using d p by (auto simp: sg_node_def sg_reads)
  ultimately show ?thesis
    using d assms by (auto simp: graph_node_def require_def object_value_def array_def sg_key_def Let_def)
qed


lemma sg_step2: "manifest_step (sg_states 2) (2, sg_record 2) = Inr (sg_states 3)"
proof -
  define a b where "a = sg_node 0 ''NORM'' [sg_input ''leaf'' 0]" and "b = sg_node 1 ''MUL_MAT'' [sg_input ''leaf'' 0, sg_input ''node'' 0, JNull]"
  have n: "mapr (graph_input (''prefill'', None) 0 2 1) [sg_input ''leaf'' 0] = Inr [[]]"
    "mapr (graph_input (''prefill'', None) 0 2 1) [sg_input ''leaf'' 0, sg_input ''node'' 0, JNull] = Inr [[], [sg_key 0], []]"
    by (simp_all add: graph_input_def sg_input_def fields_ok keys_are_def sg_key_def sg_reads)
  have "foldm (graph_node (''prefill'', None) 0 2 1) (sg_states 2) [(0, a), (1, b)] =
      Inr ((sg_states 2)\<lparr>mf_nodes := sg_nodes, mf_edges := sg_edges\<rparr>)"
    using sg_node_reads [OF n(1), of 0 "''NORM''" "sg_states 2"]
      sg_node_reads [OF n(2), of 1 "''MUL_MAT''" "(sg_states 2)\<lparr>mf_nodes := [(sg_key 0, case a of JObj d \<Rightarrow> d | _ \<Rightarrow> [])], mf_edges := [(sg_key 0, [])]\<rparr>"]
    by (simp add: a_def [symmetric] b_def [symmetric] sg_states_def has_key_def, simp add: sg_nodes_def sg_edges_def a_def b_def sg_key_def)
  moreover have "graph_leaf (JObj [(''name'', JStr ''w''), (''type'', JStr ''f32''), (''shape'', JArr (map JInt [64, 3, 1, 1]))]) = Inr ()"
    by (simp add: graph_leaf_def fields_ok keys_are_def tensor_payload_def dimension_def sg_reads)
  moreover have "phase_key (sg_record 2) = Inr (''prefill'', None)" "phase_key (sg_record 1) = Inr (''prefill'', None)"
    "integer (sg_record 2) ''graph_occurrence'' = Inr 0" "item (sg_record 2) ''nodes'' = Inr (JArr [a, b])"
    "item (sg_record 2) ''leaves'' = Inr (JArr [JObj [(''name'', JStr ''w''), (''type'', JStr ''f32''), (''shape'', JArr (map JInt [64, 3, 1, 1]))]])"
    by (simp_all add: a_def b_def phase_key_def sg_record_def sg_lines_def sg_line_def sg_reads)
  moreover have "mf_phases (sg_states 2) = [sg_record 1]" "executed_all (sg_states 2)" "mf_next_graph (sg_states 2) = 0" "mf_graphs (sg_states 2) = []"
    "\<not> mf_ended (sg_states 2)"
    by (simp_all add: sg_states_def executed_all_def)
  moreover have "(sg_states 2)\<lparr>mf_nodes := sg_nodes, mf_edges := sg_edges, mf_graphs := [sg_record 2], mf_next_graph := 1\<rparr> = sg_states 3"
    by (simp add: sg_states_def)
  ultimately have "manifest_graph (sg_states 2) (sg_record 2) = Inr (sg_states 3)"
    by (simp add: manifest_graph_def require_def requirer_def array_def numeral_2_eq_2)
  then show ?thesis by (simp add: sg_keys sg_states_def)
qed

lemma sg_execution_step:
  assumes i: "i \<in> {3, 4}" and key: "key = sg_key (int i - 3)"
    and st: "mf_run st = sg_record 0" "mf_nodes st = sg_nodes" "\<not> has_key (mf_executions st) key"
  shows "manifest_execution st (sg_record i) = Inr (st\<lparr>mf_executions := AList.update key (sg_record i) (mf_executions st)\<rparr>)"
proof -
  have "semantic_key (sg_record i) = Inr key"
    using i key by (auto simp: semantic_key_def sg_record_def sg_lines_def sg_line_def sg_execution_def sg_reads sg_key_def)
  moreover have "has_key sg_nodes key" "rget (the (map_of sg_nodes key)) ''excluded'' = JBool False"
    using i key by (auto simp: sg_nodes_def sg_node_def has_key_def rget_def sg_key_def)
  moreover have "item (sg_record i) ''run_config_id'' = Inr (JStr ''c'')" "item (sg_record i) ''source_role'' = Inr (JStr ''POTAL_COLLECTION'')"
    "item (sg_record i) ''success'' = Inr (JBool True)" "text_of (sg_record i) ''actual_backend'' = Inr ''b''"
    "text_of (sg_record i) ''execution_class'' = Inr (if i = 3 then ''ORDINARY_CPU'' else ''TARGET_NPU'')"
    using i by (auto simp: sg_record_def sg_lines_def sg_line_def sg_execution_def sg_reads)
  moreover have "item (sg_record 0) ''run_config_id'' = Inr (JStr ''c'')" "item (sg_record 0) ''source_role'' = Inr (JStr ''POTAL_COLLECTION'')"
    "rget (sg_record 0) ''source_role'' = JStr ''POTAL_COLLECTION''"
    by (simp_all add: sg_record_def sg_lines_def sg_line_def sg_reads)
  ultimately show ?thesis using st
    by (simp add: manifest_execution_def require_def requirer_def num_eq_def)
qed

lemma sg_step34:
  "manifest_step (sg_states 3) (3, sg_record 3) = Inr (sg_states 4)"
  "manifest_step (sg_states 4) (4, sg_record 4) = Inr (sg_states 5)"
proof -
  have "manifest_execution (sg_states 3) (sg_record 3) = Inr (sg_states 4)"
    using sg_execution_step [of 3 "sg_key 0" "sg_states 3"] by (simp add: sg_states_def has_key_def)
  then show "manifest_step (sg_states 3) (3, sg_record 3) = Inr (sg_states 4)" by (simp add: sg_keys sg_states_def)
  have "manifest_execution (sg_states 4) (sg_record 4) = Inr (sg_states 5)"
    using sg_execution_step [of 4 "sg_key 1" "sg_states 4"] by (simp add: sg_states_def has_key_def sg_key_def)
  then show "manifest_step (sg_states 4) (4, sg_record 4) = Inr (sg_states 5)" by (simp add: sg_keys sg_states_def)
qed

lemma sg_step5: "manifest_step (sg_states 5) (5, sg_record 5) = Inr (sg_states 6)"
proof -
  have "manifest_end (sg_states 5) (sg_record 5) = Inr ((sg_states 5)\<lparr>mf_ended := True\<rparr>)"
    by (simp add: manifest_end_def sg_states_def sg_nodes_def, simp add: sg_record_def sg_lines_def sg_line_def sg_reads)
  moreover have "(sg_states 5)\<lparr>mf_ended := True\<rparr> = sg_states 6" "\<not> mf_ended (sg_states 5)" by (simp_all add: sg_states_def)
  ultimately show ?thesis by (simp add: sg_keys)
qed

lemma sg_order: "static_order_ok sg_edges"
  by (simp add: sg_edges_def sg_key_def static_order_ok.simps blocked_def)

lemma sg_read: "read_semantic_graph sg_lines = Inr (Manifest.truncate (sg_states 6))"
proof -
  have l: "manifest_line st (i, JObj (sg_record i)) = manifest_step st (i, sg_record i)" if "i \<in> {0, 1, 2, 3, 4, 5}" for st i
    using sg_decode [OF that] by (simp add: manifest_line_def)
  have "zip [0..<length sg_lines] sg_lines = map (\<lambda>i. (i, JObj (sg_record i))) [0, 1, 2, 3, 4, 5]"
    by (subst (1 2) sg_records) (simp add: upt_rec)
  then have "foldm manifest_line manifest_start (zip [0..<length sg_lines] sg_lines) = Inr (sg_states 6)"
    by (simp add: l sg_step0 sg_step1 sg_step2 sg_step34 sg_step5 del: One_nat_def)
  moreover have "mf_ended (sg_states 6)" "mf_edges (sg_states 6) = sg_edges" by (simp_all add: sg_states_def)
  ultimately show ?thesis by (simp add: read_semantic_graph_def require_def sg_order)
qed


end
