(* ===== verification/Application_Theorems.thy ===== *)
theory Application_Theorems
  imports Application Graph_Theorems
begin

text \<open>Sampling serialises the decodes: what \<open>add_application\<close> adds to an execution.\<close>

lemma available_nodes_Some: "map_of (available_nodes nodes) k = Some kind \<Longrightarrow> \<exists>n \<in> set nodes. nd_identity n = k \<and> nd_kind n = kind"
proof -
  have "map_of (fold (\<lambda>n d. AList.update (nd_identity n) (nd_kind n) d) nodes d) k = Some kind \<Longrightarrow>
      map_of d k = Some kind \<or> (\<exists>n \<in> set nodes. nd_identity n = k \<and> nd_kind n = kind)" for d
    by (induction nodes arbitrary: d) (fastforce split: if_splits)+
  from this [of "[]"] show "map_of (available_nodes nodes) k = Some kind \<Longrightarrow> ?thesis"
    by (simp add: available_nodes_def)
qed

definition entry_waits :: "(string, Dependency list) dict \<Rightarrow> string \<Rightarrow> string \<Rightarrow> bool" where
  "entry_waits edges entry node \<longleftrightarrow> (\<exists>ds. map_of edges entry = Some ds \<and> result_of node \<in> set ds)"

lemma next_entry_parts:
  assumes "next_entry available token edges successor = Inr edges'"
  shows "map_of available (successor @ '':enter'') = Some OP_ENTER" and "entry_waits edges' (successor @ '':enter'') token"
    and "entry_waits edges e n \<Longrightarrow> entry_waits edges' e n"
  using assms by (auto simp: next_entry_def Let_def ensure_eq_Inr entry_waits_def split: option.splits)

lemma linked_entries_parts:
  assumes "foldm (next_entry available token) edges successors = Inr edges'"
  shows "entry_waits edges e n \<Longrightarrow> entry_waits edges' e n"
    and "s \<in> set successors \<Longrightarrow> map_of available (s @ '':enter'') = Some OP_ENTER \<and> entry_waits edges' (s @ '':enter'') token"
proof -
  have "(\<forall>e n. entry_waits edges e n \<longrightarrow> entry_waits edges' e n) \<and>
      (\<forall>s \<in> set successors. map_of available (s @ '':enter'') = Some OP_ENTER \<and> entry_waits edges' (s @ '':enter'') token)"
    using assms
  proof (induction successors arbitrary: edges)
    case (Cons s ss)
    then obtain edges1 where n: "next_entry available token edges s = Inr edges1" and f: "foldm (next_entry available token) edges1 ss = Inr edges'"
      unfolding foldm.simps(2) bnd_eq_Inr by blast
    from Cons.IH [OF f] next_entry_parts [OF n] show ?case by auto
  qed simp
  then show "entry_waits edges e n \<Longrightarrow> entry_waits edges' e n"
    and "s \<in> set successors \<Longrightarrow> map_of available (s @ '':enter'') = Some OP_ENTER \<and> entry_waits edges' (s @ '':enter'') token" by blast+
qed

text \<open>What step \<open>k\<close> of the contract has added to the state of the loop.\<close>

definition step_added :: "(string, Kind) dict \<Rightarrow> nat \<Rightarrow> nat \<Rightarrow> Record \<Rightarrow> application \<Rightarrow> bool" where
  "step_added available count k step st \<longleftrightarrow>
     (\<exists>lv nv required successors sample token.
        rget step ''logits_ready'' = JArr lv \<and> identities lv = Inr required \<and>
        rget step ''next_decode_entries'' = JArr nv \<and> identities nv = Inr successors \<and>
        required \<noteq> [] \<and> (successors \<noteq> []) = (k + 1 < count) \<and>
        (sample_id k, sample) \<in> set (al_nodes st) \<and> (token_node k, token) \<in> set (al_nodes st) \<and>
        nd_identity sample = sample_id k \<and> nd_kind sample = APPLICATION_CPU \<and>
        nd_dependencies sample = map (logits_dependency available) required \<and>
        nd_identity token = token_node k \<and> nd_kind token = BARRIER \<and> nd_dependencies token = [result_of (sample_id k)] \<and>
        (\<forall>s \<in> set successors. map_of available (s @ '':enter'') = Some OP_ENTER \<and> entry_waits (al_edges st) (s @ '':enter'') (token_node k)))"

lemma sample_token_differ [simp]: "sample_id i \<noteq> token_node j" "token_node j \<noteq> sample_id i"
  by (simp_all add: sample_id_def token_node_def)

lemma array_eq_Inr': "array v = Inr xs \<longleftrightarrow> v = JArr xs"
  by (simp add: array_def split: jval.splits)

lemma sampling_step_parts:
  assumes "sampling_step E available contract worker prefill count st (k, r, step) = Inr st'"
  obtains lv nv required successors sample token where
    "rget step ''logits_ready'' = JArr lv" "identities lv = Inr required" "rget step ''next_decode_entries'' = JArr nv" "identities nv = Inr successors"
    "required \<noteq> []" "(successors \<noteq> []) = (k + 1 < count)" "sample_id k \<notin> set (map fst (al_nodes st))" "token_node k \<notin> set (map fst (al_nodes st))"
    "nd_identity sample = sample_id k" "nd_kind sample = APPLICATION_CPU" "nd_dependencies sample = map (logits_dependency available) required"
    "nd_identity token = token_node k" "nd_kind token = BARRIER" "nd_dependencies token = [result_of (sample_id k)]"
    "foldm (next_entry available (token_node k)) (al_edges st) successors = Inr (al_edges st')"
    "al_nodes st' = AList.update (token_node k) token (AList.update (sample_id k) sample (al_nodes st))"
proof -
  from assms obtain lv required pn decode nv successors edges threads cpu where
    f: "rget step ''logits_ready'' = JArr lv" "identities lv = Inr required" "rget step ''next_decode_entries'' = JArr nv"
      "identities nv = Inr successors" "required \<noteq> []" "(successors \<noteq> []) = (k + 1 < count)"
      "sample_id k \<notin> set (map fst (al_nodes st))" "token_node k \<notin> set (map fst (al_nodes st))"
    and e: "foldm (next_entry available (token_node k)) (al_edges st) successors = Inr edges"
    and st': "st' = st\<lparr>al_threads := threads, al_edges := edges, al_cpu := cpu,
         al_nodes := AList.update (token_node k) \<lparr>nd_identity = token_node k, nd_kind = BARRIER, nd_operation = sample_id k,
              nd_phase = pn @ '':'' @ py_str E decode, nd_order = int k, nd_dependencies = [result_of (sample_id k)], nd_service = None, nd_resources = []\<rparr>
           (AList.update (sample_id k) \<lparr>nd_identity = sample_id k, nd_kind = APPLICATION_CPU, nd_operation = sample_id k,
              nd_phase = pn @ '':'' @ py_str E decode, nd_order = int k, nd_dependencies = map (logits_dependency available) required,
              nd_service = Some (sample_id k), nd_resources = [worker]\<rparr> (al_nodes st))\<rparr>"
    unfolding sampling_step_def prod.case Let_def bnd_eq_Inr chkr_eq_Inr ensure_eq_Inr array_eq_Inr' has_key_def sum.inject by blast
  have n: "al_edges st' = edges" by (simp add: st')
  show thesis by (rule that [OF f _ _ _ _ _ _ e [folded n]]) (simp_all add: st')
qed

lemma step_added_mono:
  assumes "step_added available count k step st" and "set (al_nodes st) \<subseteq> set (al_nodes st')"
    and "\<And>e n. entry_waits (al_edges st) e n \<Longrightarrow> entry_waits (al_edges st') e n"
  shows "step_added available count k step st'"
proof -
  from assms(1) obtain lv nv required successors sample token where
    s: "rget step ''logits_ready'' = JArr lv" "identities lv = Inr required"
      "rget step ''next_decode_entries'' = JArr nv" "identities nv = Inr successors" "required \<noteq> []"
      "(successors \<noteq> []) = (k + 1 < count)"
    and m: "(sample_id k, sample) \<in> set (al_nodes st)" "(token_node k, token) \<in> set (al_nodes st)"
    and n: "nd_identity sample = sample_id k" "nd_kind sample = APPLICATION_CPU" "nd_dependencies sample = map (logits_dependency available) required"
      "nd_identity token = token_node k" "nd_kind token = BARRIER" "nd_dependencies token = [result_of (sample_id k)]"
    and e: "\<forall>s \<in> set successors. map_of available (s @ '':enter'') = Some OP_ENTER \<and> entry_waits (al_edges st) (s @ '':enter'') (token_node k)"
    unfolding step_added_def by blast
  have m': "(sample_id k, sample) \<in> set (al_nodes st')" "(token_node k, token) \<in> set (al_nodes st')" using m assms(2) by blast+
  have e': "\<forall>s \<in> set successors. map_of available (s @ '':enter'') = Some OP_ENTER \<and> entry_waits (al_edges st') (s @ '':enter'') (token_node k)"
    using e assms(3) by blast
  show ?thesis unfolding step_added_def by (intro exI conjI) (fact s m' n e')+
qed

lemma sampling_step_added:
  assumes "sampling_step E available contract worker prefill count st (k, r, step) = Inr st'"
  shows "step_added available count k step st'" and "set (al_nodes st) \<subseteq> set (al_nodes st')"
    and "entry_waits (al_edges st) e n \<Longrightarrow> entry_waits (al_edges st') e n"
proof -
  from sampling_step_parts [OF assms] obtain lv nv required successors sample token where
    f: "rget step ''logits_ready'' = JArr lv" "identities lv = Inr required" "rget step ''next_decode_entries'' = JArr nv" "identities nv = Inr successors"
      "required \<noteq> []" "(successors \<noteq> []) = (k + 1 < count)" "sample_id k \<notin> set (map fst (al_nodes st))" "token_node k \<notin> set (map fst (al_nodes st))"
    and n: "nd_identity sample = sample_id k" "nd_kind sample = APPLICATION_CPU" "nd_dependencies sample = map (logits_dependency available) required"
      "nd_identity token = token_node k" "nd_kind token = BARRIER" "nd_dependencies token = [result_of (sample_id k)]"
    and e: "foldm (next_entry available (token_node k)) (al_edges st) successors = Inr (al_edges st')"
    and u: "al_nodes st' = AList.update (token_node k) token (AList.update (sample_id k) sample (al_nodes st))" by metis
  have s: "al_nodes st' = al_nodes st @ [(sample_id k, sample), (token_node k, token)]"
  proof -
    have "token_node k \<notin> set (map fst (al_nodes st @ [(sample_id k, sample)]))" using f(8) by auto
    from keys_update_new [OF this] keys_update_new [OF f(7)] show ?thesis by (simp add: u)
  qed
  then show "set (al_nodes st) \<subseteq> set (al_nodes st')" by auto
  show "entry_waits (al_edges st) e n \<Longrightarrow> entry_waits (al_edges st') e n" by (rule linked_entries_parts(1) [OF e])
  have "\<forall>s \<in> set successors. map_of available (s @ '':enter'') = Some OP_ENTER \<and> entry_waits (al_edges st') (s @ '':enter'') (token_node k)"
    using linked_entries_parts(2) [OF e] by blast
  moreover have "(sample_id k, sample) \<in> set (al_nodes st')" "(token_node k, token) \<in> set (al_nodes st')" by (simp_all add: s)
  ultimately show "step_added available count k step st'" unfolding step_added_def using f(1-6) n by blast
qed

lemma sampling_loop:
  assumes f: "foldm (sampling_step E available contract worker prefill count) st (zip [0..<length xs] xs) = Inr st'"
  shows "k < length xs \<Longrightarrow> step_added available count k (snd (xs ! k)) st'"
proof -
  have "\<forall>k < length xs. step_added available count k (snd (xs ! k)) st'"
  proof (rule foldm_indexed [where P = "\<lambda>i st. \<forall>k < i. step_added available count k (snd (xs ! k)) st", OF f])
    fix i s s' assume i: "i < length xs" and p: "\<forall>k < i. step_added available count k (snd (xs ! k)) s"
      and step: "sampling_step E available contract worker prefill count s (i, xs ! i) = Inr s'"
    obtain r x where x: "xs ! i = (r, x)" by (cases "xs ! i") auto
    note a = sampling_step_added [OF step [unfolded x]]
    show "\<forall>k < Suc i. step_added available count k (snd (xs ! k)) s'"
      using p a x step_added_mono [OF _ a(2,3)] by (auto simp: less_Suc_eq)
  qed simp
  then show "k < length xs \<Longrightarrow> step_added available count k (snd (xs ! k)) st'" by simp
qed

section \<open>The execution with the application\<close>

text \<open>\<open>(x, y)\<close>: node \<open>y\<close> waits for the result of node \<open>x\<close>.\<close>

definition awaits :: "Node list \<Rightarrow> (string \<times> string) set" where
  "awaits nodes = {(x, nd_identity n) |x n. n \<in> set nodes \<and> result_of x \<in> set (nd_dependencies n)}"

definition sampling_serialised :: "Record list \<Rightarrow> (string, Kind) dict \<Rightarrow> Node list \<Rightarrow> bool" where
  "sampling_serialised steps available nodes \<longleftrightarrow>
     (\<forall>k < length steps. \<exists>lv nv required successors.
        rget (steps ! k) ''logits_ready'' = JArr lv \<and> identities lv = Inr required \<and>
        rget (steps ! k) ''next_decode_entries'' = JArr nv \<and> identities nv = Inr successors \<and>
        required \<noteq> [] \<and> (successors \<noteq> []) = (k + 1 < length steps) \<and>
        (\<forall>v \<in> set required. (dep_node (logits_dependency available v), sample_id k) \<in> awaits nodes) \<and>
        (sample_id k, token_node k) \<in> awaits nodes \<and>
        (\<forall>s \<in> set successors. (token_node k, s @ '':enter'') \<in> awaits nodes))"

lemma awaits_entry:
  assumes "map_of (available_nodes nodes) e = Some kind" and "entry_waits edges e n"
  shows "(n, e) \<in> awaits (map (with_edges edges) nodes @ rest)"
proof -
  from available_nodes_Some [OF assms(1)] obtain m where m: "m \<in> set nodes" "nd_identity m = e" by blast
  from assms(2) m(2) have "result_of n \<in> set (nd_dependencies (with_edges edges m))" "nd_identity (with_edges edges m) = e"
    by (auto simp: entry_waits_def with_edges_def)
  moreover have "with_edges edges m \<in> set (map (with_edges edges) nodes @ rest)" using m(1) by simp
  ultimately show ?thesis unfolding awaits_def by blast
qed

lemma awaits_projected: "n \<in> set rest \<Longrightarrow> result_of x \<in> set (nd_dependencies n) \<Longrightarrow> (x, nd_identity n) \<in> awaits (nodes @ rest)"
  unfolding awaits_def by fastforce


end
