(* ===== verification/Application_Example.thy ===== *)
theory Application_Example
  imports Application_Theorems
begin

text \<open>Two sampled tokens around an operation: the first token starts the operation, the second follows it.\<close>

definition ae_record :: "nat \<Rightarrow> Record" where
  "ae_record i = [(''schema'', JStr ''potal-application-cpu''), (''version'', JInt 1), (''source_role'', JStr ''potal_collection''),
     (''stage'', JStr ''sample_accept''), (''sample_index'', JInt (int i)), (''phase'', JStr (if i = 0 then ''prefill'' else ''decode'')),
     (''decode_index'', if i = 0 then JNull else JInt 0), (''thread_id'', JInt 9), (''host_elapsed_ns'', JInt 5), (''host_elapsed_valid'', JBool True)]"

definition ae_step :: "nat \<Rightarrow> Record" where
  "ae_step i = [(''sample_index'', JInt (int i)), (''logits_ready'', JArr [JStr (if i = 0 then ''d'' else ''e'')]),
     (''next_decode_entries'', JArr (if i = 0 then [JStr ''o''] else []))]"

definition ae_contract :: Record where
  "ae_contract = [(''sha256'', JNull), (''sampler_policy'', JStr ''SINGLE_CALLING_THREAD''), (''resource'', JStr ''cpu:0''),
     (''metric_policy'', JStr ''HOST_ELAPSED_NS_GANG''), (''expected_samples'', JInt 2), (''steps'', JArr [JObj (ae_step 0), JObj (ae_step 1)])]"

definition ae_source :: ApplicationSource where
  "ae_source = \<lparr>as_records = [ae_record 0, ae_record 1], as_contract = ae_contract\<rparr>"

definition ae_node :: "string \<Rightarrow> Kind \<Rightarrow> Dependency list \<Rightarrow> Node" where
  "ae_node n k ds = \<lparr>nd_identity = n, nd_kind = k, nd_operation = n, nd_phase = ''p'', nd_order = 0, nd_dependencies = ds, nd_service = None,
     nd_resources = []\<rparr>"

definition ae_ir :: ExecutionIR where
  "ae_ir = \<lparr>ir_nodes = [ae_node ''d'' BARRIER [], ae_node ''o:enter'' OP_ENTER [], ae_node ''e'' BARRIER [result_of ''o:enter'']],
     ir_scope = ''SYNTHETIC'', ir_source_sha256 = ''s''\<rparr>"

definition ae_services :: Services where
  "ae_services = \<lparr>sv_cpu = [], sv_npu = []\<rparr>"

lemma ae_available: "available_nodes (ir_nodes ae_ir) = [(''d'', BARRIER), (''o:enter'', OP_ENTER), (''e'', BARRIER)]"
  by (simp add: available_nodes_def ae_ir_def ae_node_def)

lemma ae_service:
  assumes "i \<in> {0, 1}"
  obtains service where "application_service E ae_contract ''cpu:0'' (ae_record i) = Inr service"
proof -
  define r where "r = AList.update ''resource'' (JStr ''cpu:0'') (AList.update ''worker_id'' (JInt 0) (ae_record i))"
  have k: "rget r ''host_elapsed_valid'' = JBool True" "integer r ''host_elapsed_ns'' = Inr 5" "rget r ''worker_id'' = JInt 0"
    "integer r ''worker_id'' = Inr 0" "rget r ''resource_identity'' = JNull" "text_of r ''resource'' = Inr ''cpu:0''"
    by (simp_all add: r_def rget_def integer_def text_of_def U64_def ae_record_def)
  have "\<exists>w. cpu_worker E ''APPLICATION_CPU'' ''HOST_ELAPSED_NS_GANG'' (JObj r) = Inr w \<and> ws_duration_ns w = 5"
    by (simp add: cpu_worker_def policy_metric_def policy_clock_def object_value_def k ensure_def)
  then obtain w where w: "cpu_worker E ''APPLICATION_CPU'' ''HOST_ELAPSED_NS_GANG'' (JObj r) = Inr w" "ws_duration_ns w = 5" by blast
  have f: "fields_of [(''source'', JStr ''APPLICATION_CPU''), (''policy'', JStr ''HOST_ELAPSED_NS_GANG''), (''workers'', JArr [JObj r])]
      [''source'', ''policy'', ''workers''] = Inr ()" by (simp add: fields_eq_Inr keys_are_def)
  have "application_service E ae_contract ''cpu:0'' (ae_record i) =
      Inr \<lparr>cpu_source = ''APPLICATION_CPU'', cpu_policy = ''HOST_ELAPSED_NS_GANG'', cpu_workers = [w]\<rparr>"
    unfolding application_service_def r_def [symmetric]
    using f w by (simp add: item_def ae_contract_def cpu_service_def text_of_def rget_def CPU_POLICIES_def array_def CpuService_check_def CPU_SOURCES_def)
  then show thesis by (rule that)
qed

lemma ae_ids: "sample_id 0 = ''application:sample:0''" "sample_id (Suc 0) = ''application:sample:1''" "token_node 0 = ''application:token:0''"
  "token_node (Suc 0) = ''application:token:1''"
  by (simp_all add: sample_id_def token_node_def) code_simp+

lemma ae_steps:
  "identities [JStr ''d''] = Inr [''d'']" "identities [JStr ''e''] = Inr [''e'']" "identities [JStr ''o''] = Inr [''o'']" "identities [] = Inr []"
  by (simp_all add: identities_def text_of_def rget_def)

lemma ae_step_fields: "i \<in> {0, 1} \<Longrightarrow> fields_of (ae_step i) [''sample_index'', ''logits_ready'', ''next_decode_entries''] = Inr ()"
  by (auto simp: ae_step_def fields_eq_Inr keys_are_def)

text \<open>The state after both steps.\<close>

definition ae_token :: "nat \<Rightarrow> string \<Rightarrow> Node" where
  "ae_token i phase = \<lparr>nd_identity = token_node i, nd_kind = BARRIER, nd_operation = sample_id i, nd_phase = phase, nd_order = int i,
     nd_dependencies = [result_of (sample_id i)], nd_service = None, nd_resources = []\<rparr>"

definition ae_sample :: "nat \<Rightarrow> string \<Rightarrow> string \<Rightarrow> Node" where
  "ae_sample i phase logits = \<lparr>nd_identity = sample_id i, nd_kind = APPLICATION_CPU, nd_operation = sample_id i, nd_phase = phase, nd_order = int i,
     nd_dependencies = [result_of logits], nd_service = Some (sample_id i), nd_resources = [''cpu:0'']\<rparr>"

definition ae_after :: "nat \<Rightarrow> CpuService \<Rightarrow> CpuService \<Rightarrow> application" where
  "ae_after i s0 s1 = \<lparr>al_nodes = [(sample_id 0, ae_sample 0 ''prefill:None'' ''d''), (token_node 0, ae_token 0 ''prefill:None'')] @
       (if i = 1 then [] else [(sample_id 1, ae_sample 1 ''decode:0'' ''e''), (token_node 1, ae_token 1 ''decode:0'')]),
     al_cpu = [(sample_id 0, s0)] @ (if i = 1 then [] else [(sample_id 1, s1)]),
     al_edges = [(''o:enter'', [result_of (token_node 0)])], al_threads = [9], al_previous = ''application:request:begin''\<rparr>"

lemma ae_ints: "i \<in> {0, 1} \<Longrightarrow> application_int (ae_record i) ''version'' 1 = Inr True \<and> application_int (ae_record i) ''sample_index'' (int i) = Inr True \<and>
    integer (ae_record i) ''thread_id'' = Inr 9 \<and> application_int (ae_step i) ''sample_index'' (int i) = Inr True \<and>
    rget (ae_record i) ''schema'' = JStr ''potal-application-cpu'' \<and> rget (ae_record i) ''source_role'' = JStr ''potal_collection'' \<and>
    rget (ae_record i) ''stage'' = JStr ''sample_accept'' \<and> sample_phase i (ae_record i)"
  by (auto simp: application_int_def integer_def rget_def U64_def ae_record_def ae_step_def sample_phase_def)

lemma ae_reads:
  "text_of (ae_record 0) ''phase'' = Inr ''prefill''" "item (ae_record 0) ''decode_index'' = Inr JNull"
  "text_of (ae_record (Suc 0)) ''phase'' = Inr ''decode''" "item (ae_record (Suc 0)) ''decode_index'' = Inr (JInt 0)"
  "rget (ae_step 0) ''logits_ready'' = JArr [JStr ''d'']" "rget (ae_step 0) ''next_decode_entries'' = JArr [JStr ''o'']"
  "rget (ae_step (Suc 0)) ''logits_ready'' = JArr [JStr ''e'']" "rget (ae_step (Suc 0)) ''next_decode_entries'' = JArr []"
  by (simp_all add: text_of_def item_def rget_def ae_record_def ae_step_def)

lemma ae_zero: "str_int 0 = ''0''"
  by code_simp

lemma ae_step0:
  assumes "application_service E ae_contract ''cpu:0'' (ae_record 0) = Inr s0"
  shows "sampling_step E (available_nodes (ir_nodes ae_ir)) ae_contract ''cpu:0'' False 2 application_start (0, ae_record 0, ae_step 0) =
    Inr (ae_after (Suc 0) s0 s1)"
  unfolding sampling_step_def prod.case
  using ae_ints [of 0]
  by (simp add: sample_source_def ae_step_fields ae_reads ae_steps assms array_def application_start_def ae_available logits_dependency_def
    has_key_def next_entry_def Let_def ae_ids ae_after_def ae_sample_def ae_token_def result_of_def)

lemma ae_step1:
  assumes "application_service E ae_contract ''cpu:0'' (ae_record (Suc 0)) = Inr s1"
  shows "sampling_step E (available_nodes (ir_nodes ae_ir)) ae_contract ''cpu:0'' False 2 (ae_after (Suc 0) s0 s1) (Suc 0, ae_record (Suc 0), ae_step (Suc 0)) =
    Inr (ae_after 2 s0 s1)"
  unfolding sampling_step_def prod.case
  using ae_ints [of "Suc 0"]
  by (simp add: sample_source_def ae_step_fields ae_reads ae_steps assms array_def ae_available logits_dependency_def
    has_key_def Let_def ae_ids ae_after_def ae_sample_def ae_token_def result_of_def ae_zero)

lemma ae_project:
  obtains s0 s1 where "project_application E (available_nodes (ir_nodes ae_ir)) ae_source =
    Inr \<lparr>ap_nodes = map snd (al_nodes (ae_after 2 s0 s1)), ap_services = al_cpu (ae_after 2 s0 s1), ap_entry_edges = al_edges (ae_after 2 s0 s1)\<rparr>"
proof -
  obtain s0 where s0: "application_service E ae_contract ''cpu:0'' (ae_record 0) = Inr s0" using ae_service [of 0] by blast
  obtain s1 where s1: "application_service E ae_contract ''cpu:0'' (ae_record (Suc 0)) = Inr s1" using ae_service [of "Suc 0"] by auto
  have st: "stage_is ''sample_accept'' (ae_record i)" "\<not> stage_is ''prefill_batch_prepare'' (ae_record i)" for i
    by (simp_all add: stage_is_def ae_record_def rget_def)
  have c: "application_fields ae_contract = Inr ()" "\<not> has_key ae_contract ''prefill_steps''" "integer ae_contract ''expected_samples'' = Inr 2"
    "rget ae_contract ''sampler_policy'' = JStr ''SINGLE_CALLING_THREAD''" "rget ae_contract ''steps'' = JArr [JObj (ae_step 0), JObj (ae_step (Suc 0))]"
    "text_of ae_contract ''resource'' = Inr ''cpu:0''"
    by (simp_all add: application_fields_def fields_eq_Inr keys_are_def has_key_def integer_def rget_def U64_def text_of_def ae_contract_def)
  have "project_application E (available_nodes (ir_nodes ae_ir)) ae_source =
    Inr \<lparr>ap_nodes = map snd (al_nodes (ae_after 2 s0 s1)), ap_services = al_cpu (ae_after 2 s0 s1), ap_entry_edges = al_edges (ae_after 2 s0 s1)\<rparr>"
    unfolding project_application_def Let_def by (simp add: ae_source_def c st array_def object_value_def ae_step0 [OF s0, of s1] ae_step1 [OF s1])
  then show thesis by (rule that)
qed

definition ae_nodes :: "Node list" where
  "ae_nodes = [ae_node ''d'' BARRIER [], ae_node ''o:enter'' OP_ENTER [result_of (token_node 0)], ae_node ''e'' BARRIER [result_of ''o:enter''],
     ae_sample 0 ''prefill:None'' ''d'', ae_token 0 ''prefill:None'', ae_sample 1 ''decode:0'' ''e'', ae_token 1 ''decode:0'']"

lemma ae_check: "ExecutionIR_check (ae_ir\<lparr>ir_nodes := ae_nodes\<rparr>) = Inr (ae_ir\<lparr>ir_nodes := ae_nodes\<rparr>)"
proof -
  have i: "map nd_identity ae_nodes = [''d'', ''o:enter'', ''e'', ''application:sample:0'', ''application:token:0'', ''application:sample:1'', ''application:token:1'']"
    by (simp add: ae_nodes_def ae_node_def ae_sample_def ae_token_def ae_ids)
  have "dependency_graph ae_nodes = [(''d'', []), (''o:enter'', [''application:token:0'']), (''e'', [''o:enter'']), (''application:sample:0'', [''d'']),
      (''application:token:0'', [''application:sample:0'']), (''application:sample:1'', [''e'']), (''application:token:1'', [''application:sample:1''])]"
    by (simp add: dependency_graph_def ae_nodes_def ae_node_def ae_sample_def ae_token_def ae_ids result_of_def)
  then have o: "static_order_ok (dependency_graph ae_nodes)"
    by (simp add: static_order_ok.simps blocked_def)
  have "mapr (check_node (map nd_identity ae_nodes)) ae_nodes = Inr (map (\<lambda>_. ()) ae_nodes)"
    unfolding i by (simp add: ae_nodes_def ae_node_def ae_sample_def ae_token_def ae_ids result_of_def check_node_def service_kind_def)
  moreover have "distinct (map nd_identity ae_nodes)" unfolding i by simp
  moreover have "ae_nodes \<noteq> []" by (simp add: ae_nodes_def)
  ultimately show ?thesis using o by (simp add: ExecutionIR_check_def ae_ir_def)
qed

lemma ae_add: "\<exists>services'. add_application E ae_ir ae_services ae_source = Inr (ae_ir\<lparr>ir_nodes := ae_nodes\<rparr>, services')"
proof -
  obtain s0 s1 where p: "project_application E (available_nodes (ir_nodes ae_ir)) ae_source =
    Inr \<lparr>ap_nodes = map snd (al_nodes (ae_after 2 s0 s1)), ap_services = al_cpu (ae_after 2 s0 s1), ap_entry_edges = al_edges (ae_after 2 s0 s1)\<rparr>"
    by (rule ae_project)
  have n: "map (with_edges (al_edges (ae_after 2 s0 s1))) (ir_nodes ae_ir) @ map snd (al_nodes (ae_after 2 s0 s1)) = ae_nodes"
    by (simp add: ae_after_def ae_ir_def ae_nodes_def with_edges_def ae_node_def)
  show ?thesis unfolding add_application_def by (simp add: p n ae_check ae_services_def)
qed


end
