(* ===== verification/Build_Binding.thy ===== *)
theory Build_Binding
  imports Hardware_Contract
begin

text \<open>
  The binding of the host-test outputs to the hardware contract they were built for:
  \<^verbatim>\<open>validate_binding\<close> of \<^verbatim>\<open>scripts/gemmini_rtl_build_binding.py\<close>, and the standard
  library's paths as lists of parts, which the certificate checks use as well.
\<close>

section \<open>Paths\<close>

fun split_slash :: "string \<Rightarrow> string list" where
  "split_slash [] = [[]]"
| "split_slash (c # cs) =
     (if c = CHR ''/'' then [] # split_slash cs
      else (case split_slash cs of [] \<Rightarrow> [[c]] | p # ps \<Rightarrow> (c # p) # ps))"

definition path_absolute :: "string \<Rightarrow> bool" where
  "path_absolute s \<longleftrightarrow> s \<noteq> [] \<and> hd s = CHR ''/''"

type_synonym path = "string list"

text \<open>\<^verbatim>\<open>Path(s).parts\<close>: the root, then the parts that are neither empty nor a dot.\<close>

definition path_root :: "string \<Rightarrow> string list" where
  "path_root s = (if \<not> path_absolute s then []
     else if take 2 s = ''//'' \<and> take 3 s \<noteq> ''///'' then [''//''] else [''/''])"

definition path_of :: "string \<Rightarrow> path" where
  "path_of s = path_root s @ filter (\<lambda>p. p \<noteq> [] \<and> p \<noteq> ''.'') (split_slash s)"

definition is_root :: "path \<Rightarrow> bool" where
  "is_root p \<longleftrightarrow> p = [] \<or> p = [''/''] \<or> p = [''//'']"

definition path_name :: "path \<Rightarrow> string" where
  "path_name p = (if is_root p then [] else last p)"

definition path_parent :: "path \<Rightarrow> path" where
  "path_parent p = (if is_root p then p else butlast p)"

definition path_join :: "path \<Rightarrow> string \<Rightarrow> path" where
  "path_join base name = (if path_absolute name then path_of name else base @ path_of name)"

text \<open>A path that stays below the directory it is joined to.\<close>

definition path_inside :: "string \<Rightarrow> bool" where
  "path_inside name \<longleftrightarrow> \<not> path_absolute name \<and> ''..'' \<notin> set (path_of name)"

definition endswith :: "string \<Rightarrow> string \<Rightarrow> bool" where
  "endswith s t \<longleftrightarrow> length t \<le> length s \<and> drop (length s - length t) s = t"

definition startswith :: "string \<Rightarrow> string \<Rightarrow> bool" where
  "startswith s t \<longleftrightarrow> take (length t) s = t"

lemma path_inside_join:
  assumes "path_inside name"
  shows "\<exists>below. path_join base name = base @ below \<and> ''..'' \<notin> set below \<and> ''/'' \<notin> set below"
proof -
  have "''/'' \<notin> set (split_slash s)" for s
  proof -
    have "\<forall>p \<in> set (split_slash s). CHR ''/'' \<notin> set p"
      by (induction s) (auto split: list.splits)
    then show ?thesis by fastforce
  qed
  moreover have "path_root name = []" using assms by (simp add: path_inside_def path_root_def)
  ultimately show ?thesis using assms
    by (intro exI [of _ "path_of name"]) (auto simp: path_inside_def path_join_def path_of_def)
qed

section \<open>The binding\<close>

definition BINDING_SCHEMA :: string where "BINDING_SCHEMA = ''im2p-rtl-build-binding''"

definition OBJECTS :: "string list" where
  "OBJECTS = [''frontend_rtl_fixture.o'', ''rmd_rtl_fixture.o'', ''bound_rmd_rtl_fixture.o'', ''rmd-reference.o'',
     ''VIM2PGemminiWSHP1RtlTest__ALL.a'', ''verilated.o'', ''verilated_threads.o'']"

definition RUN_AWARE_BINARY :: string where
  "RUN_AWARE_BINARY = ''host-build/run-aware-rtl/VIM2PGemminiWSHP1RtlTest''"

definition REUSE_PROOFS :: "string list" where
  "REUSE_PROOFS = [''verified_source_inventory_sha256'', ''verified_probe_provenance_sha256'',
     ''verified_build_manifest_sha256'', ''verified_evidence_checksums_sha256'']"

definition mapping :: "jval \<Rightarrow> Record res" where
  "mapping v = (case v of JObj d \<Rightarrow> Inr d | _ \<Rightarrow> Inl (BindingError ''RTL build binding object missing''))"

lemma mapping_eq_Inr [res_simps]: "mapping v = Inr d \<longleftrightarrow> v = JObj d"
  by (auto simp: mapping_def split: jval.splits)

definition artifact_ok :: "string \<times> jval \<Rightarrow> bool" where
  "artifact_ok e \<longleftrightarrow> path_inside (fst e) \<and> is_sha256 (snd e)"

definition validate_binding :: "ext \<Rightarrow> Record \<Rightarrow> Record \<Rightarrow> unit res" where
  "validate_binding E binding contract =
     chk (rget binding ''schema'' = JStr BINDING_SCHEMA \<and> rget binding ''version'' = JInt 1 \<and>
          rget binding ''execution_kind'' \<in> {JStr ''FRESH_BUILD'', JStr ''VERIFIED_REUSE''})
       (BindingError ''RTL build binding schema/execution missing'') (
     bnd (mapping (rget binding ''hardware_contract'')) (\<lambda>recorded.
     case rget contract ''profile'' of
       JStr profile \<Rightarrow>
         bnd (validate_contract E recorded profile) (\<lambda>_.
         chk (py_eq (JObj recorded) (JObj contract)) (BindingError ''RTL build artifact hardware contract mismatch'') (
         bnd (mapping (rget binding ''fixture_source_sha256'')) (\<lambda>fixture_hashes.
         chk (fixture_hashes \<noteq> []) (BindingError ''RTL build fixture source binding missing'') (
         bnd (if rget binding ''execution_kind'' = JStr ''VERIFIED_REUSE''
              then mapr (\<lambda>name. chk (is_sha256 (rget binding name))
                     (BindingError (''RTL build verified reuse proof missing: '' @ name)) (Inr ())) REUSE_PROOFS
              else Inr []) (\<lambda>_.
         bnd (mapping (rget binding ''artifact_sha256'')) (\<lambda>artifacts.
         chk (artifacts \<noteq> [] \<and> list_ex (\<lambda>(name, _). endswith name ''.sv'') artifacts)
           (BindingError ''RTL build artifact closure missing'') (
         chk (list_all (\<lambda>name. has_key artifacts (''rtl-test-obj/'' @ name)) OBJECTS)
           (BindingError ''RTL build object closure missing'') (
         chk (has_key artifacts RUN_AWARE_BINARY) (BindingError ''run-aware RTL executable binding missing'') (
         chk (list_all artifact_ok artifacts) (BindingError ''RTL build artifact path/hash invalid'') (
         chk (py_eq (rget binding ''sha256'') (JStr (contract_digest E binding)))
           (BindingError ''RTL build binding digest mismatch'') (Inr ())))))))))))
     | _ \<Rightarrow> Inl (BindingError ''RTL build binding profile missing'')))"

lemma validate_binding_Inr:
  assumes "validate_binding E binding contract = Inr u"
  obtains recorded profile artifacts where "rget binding ''hardware_contract'' = JObj recorded"
    "rget contract ''profile'' = JStr profile" "validate_contract E recorded profile = Inr ()"
    "py_eq (JObj recorded) (JObj contract)" "rget binding ''artifact_sha256'' = JObj artifacts"
    "list_all artifact_ok artifacts" "rget binding ''sha256'' = JStr (contract_digest E binding)"
  using assms by (cases "rget contract ''profile''") (auto simp: validate_binding_def bnd_eq_Inr chk_eq_Inr mapping_eq_Inr)

end
