(* ===== verification/Corpus_Authority.thy ===== *)
theory Corpus_Authority
  imports Build_Binding Trace_Schema
begin

text \<open>
  The reviewed case corpus a certificate is checked against: \<^verbatim>\<open>sim/cycle/corpus_authority.py\<close> and
  \<^verbatim>\<open>sim/cycle/corpus_package.py\<close>. The file system, the parse tree of a JSON text (its pairs before the
  duplicate check) and the two git commands are the record \<open>corpus_env\<close>; everything computed from them is
  modelled. Where the code iterates over a set or compares sets the model compares the lists as sets.
\<close>

section \<open>Constants\<close>

definition MANIFEST_SHA256 :: "(string, string) dict" where
  "MANIFEST_SHA256 =
     [(''v2'', ''e6f4f482d51887b3d29260e5a8a5d3986ed8a5131881725810e34c5f14b45b4a''),
      (''v3'', ''7add3fd188167e11e047f36647e0a28ea567ef8a7dcc3f6c28971c58bac5bb18''),
      (''v4'', ''1d260ac7ff24ead5796fba52f9b47b7fe7f983dfed2650b706c67bb775b10dbf''),
      (''v5'', ''512de77742562bea32103caaca185b0c4a9c6c714965dd1def8d9cdf20107e14'')]"

definition manifest_sha :: "string \<Rightarrow> jval" where
  "manifest_sha version = (case map_of MANIFEST_SHA256 version of None \<Rightarrow> JNull | Some s \<Rightarrow> JStr s)"

definition LARGE_K :: "int list" where "LARGE_K = [32, 64, 96, 3072, 8256]"

definition CASE_FIELDS :: "string list" where
  "CASE_FIELDS = [''case'', ''shape'', ''tile'', ''timing'', ''raw'', ''provenance'']"

definition PROFILE_DIMS :: "(string \<times> int \<times> int) list" where
  "PROFILE_DIMS = [(profile_name b b d, b, d). b \<leftarrow> [4, 8], d \<leftarrow> [16, 32, 64]]"

definition PROFILES :: "string list" where
  "PROFILES = map fst PROFILE_DIMS"

definition GROUPS :: "string list" where
  "GROUPS = [''full_block0'', ''full_block1'', ''stripe_block0'', ''stripe_block1'']"

definition SOURCE_ROWS :: "(string, int \<times> int) dict" where
  "SOURCE_ROWS = [(''full_block0'', (60, 33)), (''full_block1'', (15, 15)), (''stripe_block0'', (20, 11)), (''stripe_block1'', (5, 5))]"

definition HISTORICAL_ROWS :: "(string, int \<times> int) dict" where
  "HISTORICAL_ROWS = [(''full_block0'', (81, 45)), (''full_block1'', (27, 27)), (''stripe_block0'', (27, 15)), (''stripe_block1'', (9, 9))]"

text \<open>\<^verbatim>\<open>f'captured-{i:03}'\<close>.\<close>

definition captured :: "nat \<Rightarrow> string" where
  "captured i = ''captured-'' @ replicate (3 - length (str_nat i)) (CHR ''0'') @ str_nat i"

section \<open>Files\<close>

record corpus_env =
  ce_base :: path
  ce_text :: "path \<Rightarrow> jval res"
  ce_file :: "path \<Rightarrow> string option"
  ce_git :: "path \<Rightarrow> string list \<Rightarrow> int \<times> string"

definition corpus_fail :: "string \<Rightarrow> 'a res" where
  "corpus_fail message = Inl (CorpusError (''independent corpus '' @ message))"

definition crequire :: "bool \<Rightarrow> string \<Rightarrow> 'a res \<Rightarrow> 'a res" where
  "crequire c message k = (if c then k else corpus_fail message)"

definition crequirer :: "bool res \<Rightarrow> string \<Rightarrow> 'a res \<Rightarrow> 'a res" where
  "crequirer c message k = bnd c (\<lambda>b. crequire b message k)"

lemma crequire_eq_Inr [res_simps]: "crequire c m k = Inr y \<longleftrightarrow> c \<and> k = Inr y"
  by (simp add: crequire_def corpus_fail_def)

lemma crequirer_eq_Inr [res_simps]: "crequirer c m k = Inr y \<longleftrightarrow> c = Inr True \<and> k = Inr y"
  by (auto simp: crequirer_def bnd_eq_Inr crequire_eq_Inr)

definition corpus_object :: "jval \<Rightarrow> string \<Rightarrow> Record res" where
  "corpus_object v message = (case v of JObj d \<Rightarrow> Inr d | _ \<Rightarrow> corpus_fail message)"

definition corpus_array :: "jval \<Rightarrow> string \<Rightarrow> jval list res" where
  "corpus_array v message = (case v of JArr xs \<Rightarrow> Inr xs | _ \<Rightarrow> corpus_fail message)"

lemma corpus_object_eq_Inr [res_simps]: "corpus_object v m = Inr d \<longleftrightarrow> v = JObj d"
  by (auto simp: corpus_object_def corpus_fail_def split: jval.splits)

lemma corpus_array_eq_Inr [res_simps]: "corpus_array v m = Inr xs \<longleftrightarrow> v = JArr xs"
  by (auto simp: corpus_array_def corpus_fail_def split: jval.splits)

definition corpus_unique :: "(string \<times> jval) list \<Rightarrow> Record res" where
  "corpus_unique pairs =
     foldm (\<lambda>result (key, value). crequire (\<not> has_key result key) (''duplicate JSON key: '' @ key)
       (Inr (AList.update key value result))) [] pairs"

definition read_manifest :: "corpus_env \<Rightarrow> path \<Rightarrow> Record res" where
  "read_manifest env p =
     bnd (ce_text env p) (\<lambda>raw. bnd (load_value corpus_unique raw) (\<lambda>v. corpus_object v ''manifest object missing''))"

definition file_digest :: "corpus_env \<Rightarrow> path \<Rightarrow> string res" where
  "file_digest env p = (case ce_file env p of None \<Rightarrow> Inl (OSError ''No such file'') | Some d \<Rightarrow> Inr d)"

definition manifest_path :: "corpus_env \<Rightarrow> string \<Rightarrow> path" where
  "manifest_path env version = ce_base env @ [''sim'', ''cycle'', ''corpus-authority-'' @ version @ ''.json'']"

text \<open>A digest of a file compared with a recorded value.\<close>

definition digest_is :: "corpus_env \<Rightarrow> path \<Rightarrow> jval \<Rightarrow> bool res" where
  "digest_is env p v = bnd (file_digest env p) (\<lambda>d. Inr (v = JStr d))"

definition source_ok :: "corpus_env \<Rightarrow> path \<Rightarrow> string \<Rightarrow> string \<times> jval \<Rightarrow> unit res" where
  "source_ok env base label entry =
     crequire (is_str (snd entry) \<and> path_inside (fst entry)) (label @ '' source invalid'') (
     crequire (map_option JStr (ce_file env (path_join base (fst entry))) = Some (snd entry))
       (label @ '' changed; review corpus revision: '' @ fst entry) (Inr ()))"

definition hash_sources :: "corpus_env \<Rightarrow> jval \<Rightarrow> path \<Rightarrow> string \<Rightarrow> unit res" where
  "hash_sources env hashes base label =
     bnd (corpus_object hashes (label @ '' authority missing'')) (\<lambda>d.
     crequire (d \<noteq> []) (label @ '' authority missing'') (
     bnd (mapr (source_ok env base label) d) (\<lambda>_. Inr ())))"

section \<open>Version 2\<close>

definition captured_ids :: "nat \<Rightarrow> jval" where
  "captured_ids n = JArr (map (\<lambda>i. JStr (captured i)) [1..<Suc n])"

definition large_k :: jval where
  "large_k = JArr (map JInt LARGE_K)"

definition object_rows :: "jval \<Rightarrow> nat option \<Rightarrow> string \<Rightarrow> Record list res" where
  "object_rows v count message =
     bnd (corpus_array v message) (\<lambda>xs.
     crequire ((count = None \<and> xs \<noteq> []) \<or> count = Some (length xs)) message (
     mapr (\<lambda>x. corpus_object x message) xs))"

text \<open>\<^verbatim>\<open>{row['case']: row for row in rows}\<close>.\<close>

definition by_id :: "Record list \<Rightarrow> (jval, Record) dict res" where
  "by_id rows =
     bnd (mapr (\<lambda>row. bnd (item row ''case'') (\<lambda>c.
            if hashable c then Inr (c, row) else Inl (TypeError ''unhashable type''))) rows) (\<lambda>pairs.
     Inr (dict_of pairs))"

definition lookup_row :: "(jval, Record) dict \<Rightarrow> string \<Rightarrow> Record res" where
  "lookup_row rows identity = (case map_of rows (JStr identity) of None \<Rightarrow> Inl (KeyError identity) | Some r \<Rightarrow> Inr r)"

text \<open>The identities of a residual group.\<close>

definition group_ids :: "Record \<Rightarrow> string \<Rightarrow> string list res" where
  "group_ids groups name =
     bnd (item groups name) (\<lambda>v. bnd (corpus_array v ''v2 residual case list missing'') (\<lambda>xs.
     mapr (\<lambda>x. case x of JStr s \<Rightarrow> Inr s | _ \<Rightarrow> corpus_fail ''v2 residual case list missing'') xs))"

definition rows_for :: "(string, int \<times> int) dict \<Rightarrow> string \<Rightarrow> int \<Rightarrow> int" where
  "rows_for table grp bits = (case map_of table grp of None \<Rightarrow> 0 | Some (a, b) \<Rightarrow> if bits = 4 then a else b)"

text \<open>One group of a profile: the shape and tile derived from the source, and the historical rows it replaces.\<close>

definition reviewed_group :: "(jval, Record) dict \<Rightarrow> Record \<Rightarrow> int \<Rightarrow> int \<Rightarrow> (string \<times> string list) \<Rightarrow> unit res" where
  "reviewed_group old_rows profile bits d gr =
     (let grp = fst gr; k = (if endswith grp ''block0'' then 32 else 5); m = rows_for SOURCE_ROWS grp bits in
      bnd (item profile grp) (\<lambda>pv. bnd (corpus_array pv ''v2 shape/tile missing'') (\<lambda>pair.
      crequire (length pair = 2 \<and> list_all (\<lambda>part. case part of JArr xs \<Rightarrow> length xs = 3 | _ \<Rightarrow> False) pair)
        ''v2 shape/tile missing'' (
      crequire (py_eq (pair ! 0) (JArr (map JInt [m, 3, k])) \<and>
                py_eq (pair ! 1) (JArr (map JInt [(m + d - 1) div d, 1, (k + d - 1) div d])))
        ''v2 source-derived shape/tile differs'' (
      bnd (mapr (\<lambda>identity. bnd (lookup_row old_rows identity) (\<lambda>historical.
         crequirer (allr [bnd (item historical ''provenance'') (\<lambda>v. Inr (py_eq v (JStr ''residual_hp1''))),
                          bnd (item historical ''shape'') (\<lambda>v.
                            Inr (py_eq v (JArr (map JInt [rows_for HISTORICAL_ROWS grp bits, 3, k]))))])
           ''v2 residual group identity differs'' (Inr ()))) (snd gr)) (\<lambda>_. Inr ()))))))"

definition reviewed_profile :: "Record \<Rightarrow> jval \<Rightarrow> (string \<times> string list) list \<Rightarrow> Record \<Rightarrow> unit res" where
  "reviewed_profile old ids groups profile =
     crequire (keys_are profile (''name'' # GROUPS)) ''v2 profile fields differ'' (
     case rget profile ''name'' of
       JStr name \<Rightarrow>
         (case map_of PROFILE_DIMS name of
            None \<Rightarrow> Inl IndexError
          | Some (bits, d) \<Rightarrow>
              bnd (item old name) (\<lambda>ov. bnd (corpus_array ov ''v1 fixed base identities differ'') (\<lambda>xs.
              crequire (length xs = 42) ''v1 fixed base identities differ'' (
              let rows = concat (map (\<lambda>x. case x of JObj r \<Rightarrow> [r] | _ \<Rightarrow> []) xs) in
              bnd (mapr (\<lambda>row. item row ''case'') rows) (\<lambda>cases.
              crequire (py_eq (JArr cases) ids) ''v1 fixed base identities differ'' (
              bnd (by_id rows) (\<lambda>old_rows.
              bnd (mapr (reviewed_group old_rows profile bits d) groups) (\<lambda>_. Inr ()))))))))
     | _ \<Rightarrow> corpus_fail ''v2 profile identity missing'')"

definition validate_reviewed_cases :: "corpus_env \<Rightarrow> Record \<Rightarrow> unit res" where
  "validate_reviewed_cases env document =
     bnd (item document ''captured_case_ids'') (\<lambda>ids.
     crequirer (allr [Inr (py_eq ids (captured_ids 42)), bnd (item document ''large_k'') (\<lambda>v. Inr (py_eq v large_k))])
       ''fixed identities differ'' (
     bnd (item document ''identity_groups'') (\<lambda>gv. bnd (corpus_object gv ''v2 residual groups differ'') (\<lambda>groups.
     crequire (keys_are groups GROUPS) ''v2 residual groups differ'' (
     bnd (mapr (\<lambda>name. bnd (group_ids groups name) (\<lambda>ids'. Inr (name, ids'))) GROUPS) (\<lambda>grouped.
     let all_ids = concat (map snd grouped) in
     crequire (length all_ids = 27 \<and> distinct all_ids \<and> set all_ids \<subseteq> set (map captured [1..<43]))
       ''v2 residual identities differ'' (
     bnd (item document ''profiles'') (\<lambda>pv. bnd (object_rows pv (Some 6) ''v2 profile map missing'') (\<lambda>profiles.
     let names = map (\<lambda>row. rget row ''name'') profiles in
     crequire (list_all is_str names \<and> distinct names \<and> set names = set (map JStr PROFILES)) ''v2 duplicate/missing profile'' (
     bnd (read_manifest env (manifest_path env ''v1'')) (\<lambda>base. bnd (item base ''profiles'') (\<lambda>ov.
     bnd (corpus_object ov ''v1 base profile map missing'') (\<lambda>old.
     crequire (keys_are old PROFILES) ''v1 base profile map missing'' (
     bnd (mapr (reviewed_profile old ids grouped) profiles) (\<lambda>_. Inr ())))))))))))))))"

end
