(* ===== verification/Corpus_Versions.thy ===== *)
theory Corpus_Versions
  imports Corpus_Authority
begin

text \<open>
  The versions of the corpus authority and the case lists they yield: \<^verbatim>\<open>_validate_v2\<close> to
  \<^verbatim>\<open>validate_v5\<close>, \<^verbatim>\<open>validate_package\<close>, \<^verbatim>\<open>authority\<close> and \<^verbatim>\<open>corpus\<close>.
\<close>

section \<open>Manifests\<close>

definition V2_FIELDS :: "string list" where
  "V2_FIELDS = [''schema'', ''version'', ''revision'', ''base_manifest_sha256'', ''producer_head'',
     ''producer_source_sha256'', ''selector_source_sha256'', ''fixture_source_sha256'',
     ''captured_case_ids'', ''large_k'', ''identity_groups'', ''profiles'']"

text \<open>The fields every authority document shares.\<close>

definition authority_head :: "Record \<Rightarrow> string list \<Rightarrow> int \<Rightarrow> string \<Rightarrow> bool" where
  "authority_head document fs version revision \<longleftrightarrow>
     keys_are document fs \<and> rget document ''schema'' = JStr ''im2p-cycle-corpus-authority'' \<and>
     py_eq (rget document ''version'') (JInt version) \<and> rget document ''revision'' = JStr revision"

definition RMD :: string where "RMD = ''ggml/src/ggml-gemmini/residual/rmd/''"
definition HOST :: string where "HOST = ''fpga/gemmini_hp1/host/''"

definition source_names_are :: "Record \<Rightarrow> string \<times> string list \<Rightarrow> unit res" where
  "source_names_are document fn =
     bnd (item document (fst fn)) (\<lambda>v.
     crequire (case v of JObj d \<Rightarrow> keys_are d (snd fn) | _ \<Rightarrow> False) (''v2 source closure differs: '' @ fst fn) (Inr ()))"

definition validate_v2 :: "corpus_env \<Rightarrow> Record \<Rightarrow> unit res" where
  "validate_v2 env document =
     crequirer (allr [Inr (authority_head document V2_FIELDS 2 ''ws-production-pinned-develop-row-pruned-v2''),
                      digest_is env (manifest_path env ''v1'') (rget document ''base_manifest_sha256''),
                      Inr (rget document ''producer_head'' = JStr ''71a8c0328cd436226b8ec5fad03adafac93940ed'')])
       ''v2 schema/source identity differs'' (
     crequire (py_eq (rget document ''captured_case_ids'') (captured_ids 42) \<and> py_eq (rget document ''large_k'') large_k)
       ''v2 fixed identities differ'' (
     bnd (read_manifest env (manifest_path env ''v1'')) (\<lambda>base.
     bnd (corpus_object (rget base ''fixture_source_sha256'') ''v1 fixture source map missing'') (\<lambda>base_fixture.
     bnd (mapr (source_names_are document)
       [(''producer_source_sha256'', map ((@) RMD) [''rmd-builder.cpp'', ''rmd-executor.cpp'', ''rmd-im2p-executor.cpp'']),
        (''selector_source_sha256'', [''RISC-V-DynDNN-gemmini-include/gemmini.h'']),
        (''fixture_source_sha256'', map fst base_fixture @ map ((@) HOST) [''frontend_rtl_fixture.hpp'',
           ''rmd_rtl_fixture.hpp'', ''bound_rmd_rtl_fixture.hpp'', ''rmd.cpp'', ''rmd.hpp''])]) (\<lambda>_.
     validate_reviewed_cases env document)))))"

definition V3_FIELDS :: "string list" where
  "V3_FIELDS = [''schema'', ''version'', ''revision'', ''base_manifest_sha256'', ''producer_base_head'',
     ''dependency_lock_sha256'', ''producer_source_sha256'', ''selector_source_sha256'', ''fixture_source_sha256'',
     ''captured_case_ids'', ''large_k'', ''observed_total'', ''retained_historical_case_ids'',
     ''moved_historical_residual_case_ids'', ''profiles'']"

text \<open>\<^verbatim>\<open>[row['case'] for row in source_rows if P row['provenance']]\<close>.\<close>

definition cases_where :: "(jval \<Rightarrow> bool) \<Rightarrow> Record list \<Rightarrow> jval list res" where
  "cases_where P rows =
     bnd (mapr (\<lambda>row. bnd (item row ''provenance'') (\<lambda>v.
            if P v then bnd (item row ''case'') (\<lambda>c. Inr [c]) else Inr [])) rows) (\<lambda>css. Inr (concat css))"

definition historical_partition :: "Record \<Rightarrow> jval list \<Rightarrow> jval list \<Rightarrow> string \<Rightarrow> unit res" where
  "historical_partition old retained moved name =
     bnd (item old name) (\<lambda>rv.
     bnd (object_rows rv (Some 42) ''v1 source profile missing'') (\<lambda>rows.
     crequirer (allr [
         bnd (cases_where (\<lambda>v. v \<noteq> JStr ''residual_hp1'') rows) (\<lambda>cs. Inr (py_eqs retained cs)),
         bnd (cases_where (\<lambda>v. v = JStr ''residual_hp1'') rows) (\<lambda>cs. Inr (py_eqs moved cs)),
         Inr (length retained = 15), Inr (length moved = 27)])
       ''v3 moved historical identities differ'' (Inr ())))"

definition validate_v3 :: "corpus_env \<Rightarrow> Record \<Rightarrow> unit res" where
  "validate_v3 env document =
     crequirer (allr [Inr (authority_head document V3_FIELDS 3 ''cycle-sim-c617-run-aware-base-gemm-v3''),
                      digest_is env (manifest_path env ''v1'') (rget document ''base_manifest_sha256''),
                      Inr (rget document ''producer_base_head'' = JStr ''c61702970df8b287b1ed75b3e51abab559021b51'')])
       ''v3 schema/source identity differs'' (
     bnd (read_manifest env (manifest_path env ''v2'')) (\<lambda>expected_sources.
     crequire (case (rget expected_sources ''fixture_source_sha256'', rget document ''fixture_source_sha256'',
                     rget document ''producer_source_sha256'') of
                 (JObj expected, JObj fixture, JObj producer) \<Rightarrow>
                   set (map fst fixture) = insert (HOST @ ''run_aware_rtl_driver.inc'') (set (map fst expected)) \<and>
                   set (map ((@) RMD) [''rmd-executor.cpp'', ''rmd-im2p-executor.cpp'', ''rmd-run-aware.cpp'', ''rmd-run-aware.hpp''])
                     \<subseteq> set (map fst producer)
               | _ \<Rightarrow> False) ''v3 source closure differs'' (
     crequire (py_eq (rget document ''captured_case_ids'') (captured_ids 15) \<and>
               py_eq (rget document ''observed_total'') (JInt 15) \<and> py_eq (rget document ''large_k'') large_k \<and>
               py_eq (rget document ''profiles'') (JArr (map JStr PROFILES))) ''v3 fixed current identities differ'' (
     bnd (read_manifest env (manifest_path env ''v1'')) (\<lambda>base. bnd (item base ''profiles'') (\<lambda>ov.
     bnd (corpus_object ov ''v3 historical partition missing'') (\<lambda>old.
     crequire (keys_are old PROFILES) ''v3 historical partition missing'' (
     bnd (corpus_array (rget document ''retained_historical_case_ids'') ''v3 historical partition missing'') (\<lambda>retained.
     bnd (corpus_array (rget document ''moved_historical_residual_case_ids'') ''v3 historical partition missing'') (\<lambda>moved.
     bnd (mapr (historical_partition old retained moved) PROFILES) (\<lambda>_. Inr ())))))))))))"

definition V4_FIELDS :: "string list" where
  "V4_FIELDS = [''schema'', ''version'', ''revision'', ''v3_manifest_sha256'', ''producer_base_head'',
     ''dependency_lock_sha256'', ''source_manifest_sha256'', ''embedded_package_authority_sha256'', ''producer_source_delta'']"

definition validate_v4 :: "Record \<Rightarrow> Record \<Rightarrow> unit res" where
  "validate_v4 document prior =
     crequire (authority_head document V4_FIELDS 4 ''cycle-sim-0e1-metrics-guard-base-gemm-v4'' \<and>
               rget document ''v3_manifest_sha256'' = manifest_sha ''v3'' \<and>
               rget document ''embedded_package_authority_sha256'' = manifest_sha ''v3'' \<and>
               rget document ''producer_base_head'' = JStr ''0e1c8976d97887ac9494323b99643145e7b5abae'')
       ''v4 schema/source identity differs'' (
     bnd (item prior ''producer_source_sha256'') (\<lambda>producer.
     crequirer (case (rget document ''producer_source_delta'', producer) of
         (JObj delta, JObj sources) \<Rightarrow>
           let name = RMD @ ''rmd-executor.cpp'' in
           allr [Inr (keys_are delta [''path'', ''previous_sha256'', ''sha256'', ''excluded_when'']),
                 Inr (rget delta ''path'' = JStr name),
                 bnd (item sources name) (\<lambda>previous. Inr (py_eq (rget delta ''previous_sha256'') previous)),
                 Inr (rget delta ''excluded_when'' = JStr ''GGML_GEMMINI_RESIDUAL_METRICS=0'')]
       | _ \<Rightarrow> Inr False) ''v4 reviewed producer delta differs'' (Inr ())))"

definition V5_FIELDS :: "string list" where
  "V5_FIELDS = [''schema'', ''version'', ''revision'', ''scope'', ''v4_manifest_sha256'', ''producer_base_head'',
     ''dependency_lock_sha256'', ''source_manifest_sha256'', ''embedded_package_authority_sha256'']"

definition validate_v5 :: "Record \<Rightarrow> unit res" where
  "validate_v5 document =
     crequire (authority_head document V5_FIELDS 5 ''cycle-sim-cbe-source-equivalent-base-gemm-v5'' \<and>
               rget document ''scope'' = JStr ''isolated-base-gemm-source-equivalent-package'' \<and>
               rget document ''v4_manifest_sha256'' = manifest_sha ''v4'' \<and>
               rget document ''embedded_package_authority_sha256'' = manifest_sha ''v3'' \<and>
               rget document ''producer_base_head'' = JStr ''cbe3530468c1e3d50aca3b4b3bd817fc6ea72158'')
       ''v5 schema/source identity differs'' (Inr ())"

section \<open>The candidate package\<close>

text \<open>\<^verbatim>\<open>path.parents[2]\<close>.\<close>

definition parents2 :: "path \<Rightarrow> path res" where
  "parents2 p = (if is_root p \<or> is_root (path_parent p) \<or> is_root (path_parent (path_parent p)) then Inl IndexError
     else Inr (path_parent (path_parent (path_parent p))))"

definition closure_of :: "Record \<Rightarrow> string \<times> string \<Rightarrow> (string \<times> jval) list res" where
  "closure_of document fp =
     bnd (item document (fst fp)) (\<lambda>v.
     bnd (corpus_object v ''candidate source closure missing'') (\<lambda>hashes.
     mapr (\<lambda>(name, digest). crequire (is_str digest) ''candidate source hash invalid'' (Inr (snd fp @ name, digest))) hashes))"

definition entry_is :: "Record \<Rightarrow> string \<times> jval \<Rightarrow> bool" where
  "entry_is files nd \<longleftrightarrow> (case rget files (fst nd) of JObj entry \<Rightarrow> py_eq (rget entry ''sha256'') (snd nd) | _ \<Rightarrow> False)"

definition validate_package :: "corpus_env \<Rightarrow> Record \<Rightarrow> path \<Rightarrow> path \<Rightarrow> unit res" where
  "validate_package env document llama_root selector_root =
     crequire (path_name llama_root = ''llama_cpp_gemmini'' \<and> path_name (path_parent llama_root) = ''source'' \<and>
               path_name (path_parent (path_parent llama_root)) = ''dependency'') ''candidate llama package layout differs'' (
     bnd (parents2 llama_root) (\<lambda>package.
     bnd (hash_sources env (JObj [(''sim/cycle/corpus-authority-v3.json'', manifest_sha ''v3'')]) (package @ [''source''])
            ''candidate authority'') (\<lambda>_.
     let lock_path = package @ [''dependency-lock.json'']; manifest = package @ [''source-manifest.json''] in
     crequirer (case ce_file env lock_path of None \<Rightarrow> Inr False
                | Some d \<Rightarrow> bnd (item document ''dependency_lock_sha256'') (\<lambda>v. Inr (v = JStr d)))
       ''candidate dependency lock differs'' (
     bnd (read_manifest env lock_path) (\<lambda>lock.
     crequirer (case rget lock ''repositories'' of
         JObj repositories \<Rightarrow>
           (case rget repositories ''llama_cpp_gemmini'' of
              JObj candidate \<Rightarrow> bnd (item document ''producer_base_head'') (\<lambda>h. Inr (py_eq (rget candidate ''head'') h))
            | _ \<Rightarrow> Inr False)
       | _ \<Rightarrow> Inr False) ''candidate base head differs'' (
     bnd (hash_sources env (rget document ''producer_source_sha256'') llama_root ''producer'') (\<lambda>_.
     bnd (hash_sources env (rget document ''selector_source_sha256'') selector_root ''selector'') (\<lambda>_.
     bnd (item document ''version'') (\<lambda>version.
     bnd (if py_eq version (JInt 5)
          then hash_sources env (rget document ''fixture_source_sha256'') (package @ [''source'']) ''candidate fixture''
          else Inr ()) (\<lambda>_.
     bnd (read_manifest env manifest) (\<lambda>source_manifest.
     crequirer (if py_in version [JInt 4, JInt 5]
                then bnd (file_digest env manifest) (\<lambda>d. bnd (item document ''source_manifest_sha256'') (\<lambda>v. Inr (v = JStr d)))
                else Inr True) ''candidate source manifest differs'' (
     bnd (corpus_object (rget source_manifest ''files'') ''candidate source manifest missing'') (\<lambda>files.
     bnd (mapr (closure_of document)
       [(''producer_source_sha256'', ''dependency/source/llama_cpp_gemmini/''), (''fixture_source_sha256'', ''source/'')]) (\<lambda>closures.
     let sources = dict_of ((''source/sim/cycle/corpus-authority-v3.json'', manifest_sha ''v3'') # concat closures) in
     crequire (list_all (entry_is files) sources) ''candidate source manifest closure differs'' (Inr ())))))))))))))))"

section \<open>The authority\<close>

definition manifest_document :: "corpus_env \<Rightarrow> string \<Rightarrow> Record res" where
  "manifest_document env version =
     crequirer (if has_key MANIFEST_SHA256 version then digest_is env (manifest_path env version) (manifest_sha version)
                else Inr True) (version @ '' manifest bytes changed; review new revision'') (
     read_manifest env (manifest_path env version))"

definition authority_v3 :: "corpus_env \<Rightarrow> Record res" where
  "authority_v3 env = bnd (manifest_document env ''v3'') (\<lambda>document. bnd (validate_v3 env document) (\<lambda>_. Inr document))"

definition authority_v4 :: "corpus_env \<Rightarrow> Record res" where
  "authority_v4 env =
     bnd (manifest_document env ''v4'') (\<lambda>document.
     bnd (authority_v3 env) (\<lambda>prior.
     bnd (validate_v4 document prior) (\<lambda>_.
     bnd (item prior ''producer_source_sha256'') (\<lambda>pv.
     bnd (item document ''producer_source_delta'') (\<lambda>dv.
     bnd (corpus_object pv ''v4 producer source map missing'') (\<lambda>producer.
     bnd (corpus_object dv ''v4 producer source map missing'') (\<lambda>delta.
     case (rget delta ''path'', rget delta ''sha256'') of
       (JStr changed_path, JStr changed_sha) \<Rightarrow>
         Inr (dict_of (prior @ document @
           [(''producer_source_sha256'', JObj (AList.update changed_path (JStr changed_sha) producer))]))
     | _ \<Rightarrow> corpus_fail ''v4 producer source digest missing'')))))))"

definition authority_v5 :: "corpus_env \<Rightarrow> Record res" where
  "authority_v5 env =
     bnd (manifest_document env ''v5'') (\<lambda>document.
     bnd (validate_v5 document) (\<lambda>_.
     bnd (authority_v4 env) (\<lambda>prior. Inr (dict_of (prior @ document)))))"

definition authority_document :: "corpus_env \<Rightarrow> string \<Rightarrow> Record res" where
  "authority_document env version =
     (if version = ''v1'' then manifest_document env ''v1''
      else if version = ''v2'' then
        bnd (manifest_document env ''v2'') (\<lambda>document. bnd (validate_v2 env document) (\<lambda>_. Inr document))
      else if version = ''v3'' then authority_v3 env
      else if version = ''v4'' then authority_v4 env
      else if version = ''v5'' then authority_v5 env
      else corpus_fail ''revision unsupported'')"

text \<open>\<^verbatim>\<open>str.strip\<close> on the output of a command.\<close>

definition is_space :: "char \<Rightarrow> bool" where
  "is_space c \<longleftrightarrow> (of_char c :: nat) \<in> {9, 10, 11, 12, 13, 28, 29, 30, 31, 32, 133, 160}"

definition strip :: "string \<Rightarrow> string" where
  "strip s = List.rev (dropWhile is_space (List.rev (dropWhile is_space s)))"

definition git_pinned :: "corpus_env \<Rightarrow> Record \<Rightarrow> path \<Rightarrow> unit res" where
  "git_pinned env document llama_root =
     (let head = ce_git env llama_root [''rev-parse'', ''HEAD''];
          dirty = ce_git env llama_root [''status'', ''--porcelain'', ''--untracked-files=no''] in
      crequirer (if fst head \<noteq> 0 \<or> fst dirty \<noteq> 0 then Inr False
                 else bnd (item document ''producer_head'') (\<lambda>v. Inr (v = JStr (strip (snd head)) \<and> strip (snd dirty) = [])))
        ''pinned producer HEAD/cleanliness differs'' (
      bnd (hash_sources env (rget document ''producer_source_sha256'') llama_root ''producer'') (\<lambda>_.
      hash_sources env (rget document ''selector_source_sha256'') (path_parent (ce_base env)) ''selector'')))"

definition authority :: "corpus_env \<Rightarrow> string \<Rightarrow> path option \<Rightarrow> path option \<Rightarrow> Record res" where
  "authority env version fixture_root llama_root =
     bnd (authority_document env version) (\<lambda>document.
     bnd (case fixture_root of None \<Rightarrow> Inr ()
          | Some base \<Rightarrow> hash_sources env (rget document ''fixture_source_sha256'') base ''fixture'') (\<lambda>_.
     bnd (case llama_root of None \<Rightarrow> Inr ()
          | Some base \<Rightarrow>
              if version = ''v2'' then git_pinned env document base
              else if version \<in> {''v3'', ''v4'', ''v5''} then validate_package env document base (path_parent (ce_base env))
              else Inr ()) (\<lambda>_. Inr document)))"

definition authority_reference :: "corpus_env \<Rightarrow> string \<Rightarrow> Record res" where
  "authority_reference env version =
     bnd (authority env version None None) (\<lambda>document.
     bnd (item document ''revision'') (\<lambda>revision.
     bnd (file_digest env (manifest_path env version)) (\<lambda>d.
     Inr [(''revision'', revision), (''sha256'', JStr d)])))"

end
