(* ===== verification/Corpus_Check.thy ===== *)
theory Corpus_Check
  imports Corpus_Versions
begin

text \<open>
  The case lists of a corpus and the check of a certificate against them: \<^verbatim>\<open>corpus\<close> and
  \<^verbatim>\<open>validate_corpus\<close> of \<^verbatim>\<open>sim/cycle/corpus_authority.py\<close>.
\<close>

section \<open>The corpus\<close>

type_synonym corpus = "(string, Record list) dict"

definition current_versions :: "string list" where
  "current_versions = [''v3'', ''v4'', ''v5'']"

definition base_rows :: "string \<times> jval \<Rightarrow> (string \<times> Record list) res" where
  "base_rows entry =
     bnd (object_rows (snd entry) None (''cases missing: '' @ fst entry)) (\<lambda>rows. Inr (fst entry, rows))"

text \<open>One retained historical case under its new number.\<close>

definition retained_row :: "(jval, Record) dict \<Rightarrow> nat \<times> jval \<Rightarrow> Record res" where
  "retained_row rows entry = (case snd entry of
     JStr historical \<Rightarrow>
       bnd (lookup_row rows historical) (\<lambda>row.
       Inr (AList.update ''captured_case'' (JInt (int (fst entry))) (AList.update ''case'' (JStr (captured (fst entry))) row)))
   | _ \<Rightarrow> corpus_fail ''v3 retained identity invalid'')"

definition retained_rows :: "jval list \<Rightarrow> string \<times> Record list \<Rightarrow> (string \<times> Record list) res" where
  "retained_rows retained entry =
     bnd (by_id (snd entry)) (\<lambda>rows.
     bnd (mapr (retained_row rows) (zip [1..<Suc (length retained)] retained)) (\<lambda>rows'. Inr (fst entry, rows')))"

text \<open>Version 2 writes the reviewed shape and tile into the row an identity denotes (the last one with it).\<close>

definition row_index :: "Record list \<Rightarrow> string \<Rightarrow> nat option" where
  "row_index rows identity =
     (case filter (\<lambda>i. rget (rows ! i) ''case'' = JStr identity) [0..<length rows] of [] \<Rightarrow> None | is \<Rightarrow> Some (last is))"

definition revise_row :: "jval list \<Rightarrow> Record list \<Rightarrow> jval \<Rightarrow> Record list res" where
  "revise_row pair rows v = (case v of
     JStr identity \<Rightarrow>
       (case row_index rows identity of
          None \<Rightarrow> Inl (KeyError identity)
        | Some i \<Rightarrow>
            (case pair of
               [shape, tile] \<Rightarrow> Inr (rows[i := AList.update ''tile'' tile (AList.update ''shape'' shape (rows ! i))])
             | _ \<Rightarrow> Inl (ValueError ''unpack'')))
   | _ \<Rightarrow> corpus_fail ''v2 group identity missing'')"

definition revise_group :: "Record \<Rightarrow> Record \<Rightarrow> Record list \<Rightarrow> string \<Rightarrow> Record list res" where
  "revise_group groups profile rows grp =
     bnd (item profile grp) (\<lambda>pv. bnd (item groups grp) (\<lambda>gv.
     bnd (corpus_array pv ''v2 group missing'') (\<lambda>pair.
     bnd (corpus_array gv ''v2 group missing'') (\<lambda>ids.
     foldm (revise_row pair) rows ids))))"

definition revise_profile :: "Record \<Rightarrow> corpus \<Rightarrow> jval \<Rightarrow> corpus res" where
  "revise_profile groups result v =
     bnd (corpus_object v ''v2 profile missing'') (\<lambda>profile.
     bnd (item profile ''name'') (\<lambda>nv. case nv of
       JStr name \<Rightarrow>
         (case map_of result name of
            None \<Rightarrow> Inl (KeyError name)
          | Some rows \<Rightarrow>
              bnd (by_id rows) (\<lambda>_.
              bnd (foldm (revise_group groups profile) rows GROUPS) (\<lambda>rows'. Inr (AList.update name rows' result))))
     | _ \<Rightarrow> corpus_fail ''v2 profile identity missing''))"

definition large_row :: "int \<Rightarrow> Record" where
  "large_row k =
     [(''case'', JStr (''large-k-'' @ str_int k)), (''shape'', JArr (map JInt [1, 1, k])), (''tile'', JArr (map JInt [1, 1, 3])),
      (''timing'', JArr (map JInt [3, 13, 17, 11, 5])), (''raw'', JBool False), (''provenance'', JStr ''synthetic_large_k'')]"

definition corpus_base :: "corpus_env \<Rightarrow> corpus res" where
  "corpus_base env =
     bnd (read_manifest env (manifest_path env ''v1'')) (\<lambda>base. bnd (item base ''profiles'') (\<lambda>pv.
     bnd (corpus_object pv ''profile map missing'') (\<lambda>profiles. mapr base_rows profiles)))"

definition corpus :: "corpus_env \<Rightarrow> string \<Rightarrow> corpus res" where
  "corpus env version =
     bnd (corpus_base env) (\<lambda>result.
     bnd (if version \<in> set current_versions then
            bnd (authority env version None None) (\<lambda>document.
            bnd (item document ''retained_historical_case_ids'') (\<lambda>rv.
            bnd (corpus_array rv ''v3 retained cases missing'') (\<lambda>retained.
            mapr (retained_rows retained) result)))
          else if version = ''v2'' then
            bnd (authority env ''v2'' None None) (\<lambda>document.
            bnd (item document ''identity_groups'') (\<lambda>gv. bnd (item document ''profiles'') (\<lambda>pv.
            bnd (corpus_object gv ''v2 groups/profiles missing'') (\<lambda>groups.
            bnd (corpus_array pv ''v2 groups/profiles missing'') (\<lambda>revisions.
            foldm (revise_profile groups) result revisions)))))
          else if version = ''v1'' then Inr result
          else corpus_fail ''revision unsupported'') (\<lambda>result'.
     Inr (map (\<lambda>(profile, rows). (profile, rows @ map large_row LARGE_K)) result')))"

section \<open>The check of a certificate\<close>

definition REVISIONS :: "(string, string) dict" where
  "REVISIONS = [(''cycle-sim-cbe-source-equivalent-base-gemm-v5'', ''v5''), (''cycle-sim-0e1-metrics-guard-base-gemm-v4'', ''v4''),
     (''cycle-sim-c617-run-aware-base-gemm-v3'', ''v3''), (''ws-production-pinned-develop-row-pruned-v2'', ''v2'')]"

definition corpus_version :: "Record \<Rightarrow> string" where
  "corpus_version document = (case rget document ''corpus_authority'' of
     JObj reference \<Rightarrow>
       (case rget reference ''revision'' of
          JStr s \<Rightarrow> (case map_of REVISIONS s of Some version \<Rightarrow> version | None \<Rightarrow> ''v1'')
        | _ \<Rightarrow> ''v1'')
   | _ \<Rightarrow> ''v1'')"

definition pinned_source :: "corpus_env \<Rightarrow> Record \<Rightarrow> unit res" where
  "pinned_source env document =
     bnd (authority env ''v2'' None None) (\<lambda>manifest.
     bnd (corpus_object (rget document ''llama_source'') ''pinned producer identity missing'') (\<lambda>source.
     crequire (keys_are source [''root'', ''head'']) ''pinned producer identity missing'' (
     crequirer (bnd (item manifest ''producer_head'') (\<lambda>h. Inr (py_eq (rget source ''head'') h \<and> is_str (rget source ''root''))))
       ''pinned producer identity missing'' (
     case rget source ''root'' of
       JStr r \<Rightarrow> bnd (authority env ''v2'' (Some (ce_base env)) (Some (path_of r))) (\<lambda>_. Inr ())
     | _ \<Rightarrow> Inr ()))))"

definition package_source :: "corpus_env \<Rightarrow> string \<Rightarrow> Record \<Rightarrow> unit res" where
  "package_source env version document =
     bnd (authority env version None None) (\<lambda>manifest.
     bnd (corpus_object (rget document ''llama_source'') ''candidate package identity missing'') (\<lambda>source.
     crequire (keys_are source [''root'', ''base_head'', ''source_manifest_sha256'', ''dependency_lock_sha256''])
       ''candidate package identity missing'' (
     case rget source ''root'' of
       JStr r \<Rightarrow>
         crequirer (allr [Inr (r \<noteq> []),
             bnd (item manifest ''producer_base_head'') (\<lambda>h. Inr (py_eq (rget source ''base_head'') h)),
             bnd (item manifest ''dependency_lock_sha256'') (\<lambda>d. Inr (py_eq (rget source ''dependency_lock_sha256'') d))])
           ''candidate package identity differs'' (
         bnd (authority env version (Some (ce_base env)) (Some (path_of r))) (\<lambda>_.
         bnd (parents2 (path_of r)) (\<lambda>package.
         crequire (is_str (rget source ''source_manifest_sha256'') \<and>
                   map_option JStr (ce_file env (package @ [''source-manifest.json''])) = Some (rget source ''source_manifest_sha256''))
           ''candidate source manifest differs'' (Inr ()))))
     | _ \<Rightarrow> corpus_fail ''candidate package identity differs'')))"

definition fixture_bound :: "Record \<Rightarrow> jval \<Rightarrow> unit res" where
  "fixture_bound fixture_hashes bv =
     bnd (corpus_object bv ''fixture build binding missing'') (\<lambda>binding.
     bnd (corpus_object (rget binding ''fixture_source_sha256'') ''fixture build binding missing'') (\<lambda>recorded.
     bnd (mapr (\<lambda>(name, digest).
        crequire (\<not> ((endswith name ''rtl_fixture.cpp'' \<or> endswith name ''test_ws_rtl.cpp'') \<and> \<not> py_eq (rget recorded name) digest))
          (''fixture build binding differs: '' @ name) (Inr ())) fixture_hashes) (\<lambda>_. Inr ())))"

definition fixtures_bound :: "corpus_env \<Rightarrow> string \<Rightarrow> Record \<Rightarrow> unit res" where
  "fixtures_bound env version document =
     bnd (authority env version None None) (\<lambda>manifest.
     bnd (item manifest ''fixture_source_sha256'') (\<lambda>fv.
     bnd (corpus_object fv ''fixture hash map missing'') (\<lambda>fixture_hashes.
     case rget document ''rtl_build_bindings'' of
       JObj bindings \<Rightarrow> bnd (mapr (\<lambda>(_, b). fixture_bound fixture_hashes b) bindings) (\<lambda>_. Inr ())
     | _ \<Rightarrow> Inr ())))"

definition corpus_identities :: "corpus \<Rightarrow> Record res" where
  "corpus_identities expected =
     mapr (\<lambda>(profile, rows). bnd (mapr (\<lambda>row. item row ''case'') rows) (\<lambda>ids. Inr (profile, JArr ids))) expected"

definition corpus_counts :: "corpus \<Rightarrow> Record" where
  "corpus_counts expected = map (\<lambda>(profile, rows). (profile, JInt (int (length rows) - int (length LARGE_K)))) expected"

definition denominators_ok :: "corpus_env \<Rightarrow> string \<Rightarrow> Record \<Rightarrow> unit res" where
  "denominators_ok env version document =
     bnd (authority env version None None) (\<lambda>manifest.
     bnd (item manifest ''observed_total'') (\<lambda>observed.
     crequirer (allr [Inr (py_eq (rget document ''observed_corpus_counts'') (JObj (map (\<lambda>p. (p, observed)) PROFILES))),
                      bnd (item manifest ''moved_historical_residual_case_ids'') (\<lambda>moved.
                        Inr (py_eq (rget document ''moved_historical_residual_case_ids'') moved))])
       ''v3 observed/moved denominator differs'' (Inr ())))"

definition FRAMINGS :: "string list" where
  "FRAMINGS = [''regression-tiles'', ''planner-blocks'']"

type_synonym case_key = "string \<times> string \<times> string"

text \<open>\<^verbatim>\<open>{(profile, row['case']): row ...}\<close>.\<close>

definition by_key :: "corpus \<Rightarrow> (string \<times> jval, Record) dict res" where
  "by_key expected =
     bnd (mapr (\<lambda>(profile, rows). bnd (by_id rows) (\<lambda>ids. Inr (map (\<lambda>(c, row). ((profile, c), row)) ids))) expected) (\<lambda>parts.
     Inr (dict_of (concat parts)))"

definition case_matches :: "Record \<Rightarrow> Record \<Rightarrow> bool res" where
  "case_matches row original =
     allr (map (\<lambda>field. bnd (item original field) (\<lambda>v. Inr (py_eq (rget row field) v))) CASE_FIELDS @
           [Inr (py_eq (rget row ''captured_case'') (rget original ''captured_case''))])"

definition corpus_case :: "(string \<times> jval, Record) dict \<Rightarrow> case_key list \<Rightarrow> jval \<Rightarrow> case_key list res" where
  "corpus_case rows seen v =
     bnd (corpus_object v ''result identity missing'') (\<lambda>row.
     case (rget row ''profile'', rget row ''framing'', rget row ''case'') of
       (JStr profile, JStr framing, JStr identity) \<Rightarrow>
         crequire ((profile, framing, identity) \<notin> set seen \<and> framing \<in> set FRAMINGS) ''duplicate/invalid result identity'' (
         crequire (\<not> list_ex (\<lambda>(name, _). list_ex (startswith name) [''expected_'', ''oracle_'', ''measured_'']) row)
           ''measured answer inserted as input'' (
         crequirer (case map_of rows (profile, JStr identity) of None \<Rightarrow> Inr False | Some original \<Rightarrow> case_matches row original)
           ''shape/tile/timing/provenance differs'' (
         Inr (seen @ [(profile, framing, identity)]))))
     | _ \<Rightarrow> corpus_fail ''result identity/framing missing'')"

definition expected_results :: "corpus \<Rightarrow> (string \<times> string \<times> jval) list" where
  "expected_results expected =
     concat (map (\<lambda>(profile, rows). concat (map (\<lambda>framing. map (\<lambda>row. (profile, framing, rget row ''case'')) rows) FRAMINGS)) expected)"

definition check_cases :: "corpus \<Rightarrow> Record \<Rightarrow> unit res" where
  "check_cases expected document =
     bnd (corpus_array (rget document ''cases'') ''case results missing'') (\<lambda>cases.
     bnd (by_key expected) (\<lambda>rows.
     bnd (foldm (corpus_case rows) [] cases) (\<lambda>seen.
     crequire (set (map (\<lambda>(p, f, c). (p, f, JStr c)) seen) = set (expected_results expected)) ''result coverage differs'' (Inr ()))))"

definition validate_corpus :: "corpus_env \<Rightarrow> Record \<Rightarrow> unit res" where
  "validate_corpus env document =
     (let version = corpus_version document in
      bnd (authority_reference env version) (\<lambda>reference.
      crequire (py_eq (rget document ''corpus_authority'') (JObj reference)) ''manifest/digest missing or different'' (
      bnd (if version = ''v2'' then pinned_source env document else Inr ()) (\<lambda>_.
      bnd (if version \<in> set current_versions then package_source env version document else Inr ()) (\<lambda>_.
      bnd (if version = ''v2'' \<or> version \<in> set current_versions then fixtures_bound env version document else Inr ()) (\<lambda>_.
      bnd (corpus env version) (\<lambda>expected.
      bnd (corpus_identities expected) (\<lambda>identities.
      crequire (py_eq (rget document ''expected_cases'') (JObj identities) \<and>
                py_eq (rget document ''captured_corpus_counts'') (JObj (corpus_counts expected))) ''identities/counts differ'' (
      bnd (if version \<in> set current_versions then denominators_ok env version document else Inr ()) (\<lambda>_.
      check_cases expected document))))))))))"

end
