(* ===== verification/Certificate_Values.thy ===== *)
theory Certificate_Values
  imports Trace_Schema
begin

text \<open>The typed accessors of \<^verbatim>\<open>sim/cycle/certificate_contract.py\<close>, which several components use.\<close>

definition cert_require :: "bool \<Rightarrow> string \<Rightarrow> 'a res \<Rightarrow> 'a res" where
  "cert_require c detail k = chk c (CertificateError (''certificate: '' @ detail)) k"

definition cert_requirer :: "bool res \<Rightarrow> string \<Rightarrow> 'a res \<Rightarrow> 'a res" where
  "cert_requirer c detail k = chkr c (CertificateError (''certificate: '' @ detail)) k"

lemma cert_require_eq_Inr [res_simps]: "cert_require c m k = Inr y \<longleftrightarrow> c \<and> k = Inr y"
  by (simp add: cert_require_def chk_eq_Inr)

lemma cert_requirer_eq_Inr [res_simps]: "cert_requirer c m k = Inr y \<longleftrightarrow> c = Inr True \<and> k = Inr y"
  by (simp add: cert_requirer_def chkr_eq_Inr)

definition certificate_object :: "jval \<Rightarrow> string \<Rightarrow> Record res" where
  "certificate_object v label = (case v of JObj d \<Rightarrow> Inr d
     | _ \<Rightarrow> Inl (CertificateError (''certificate: '' @ label @ '': object required'')))"

definition certificate_array :: "jval \<Rightarrow> string \<Rightarrow> jval list res" where
  "certificate_array v label = (case v of JArr xs \<Rightarrow> Inr xs
     | _ \<Rightarrow> Inl (CertificateError (''certificate: '' @ label @ '': array required'')))"

definition unique_strings :: "jval \<Rightarrow> string \<Rightarrow> string list res" where
  "unique_strings v label =
     bnd (certificate_array v label) (\<lambda>xs.
     bnd (mapr (\<lambda>x. case x of
            JStr s \<Rightarrow> cert_require (s \<noteq> []) (label @ '': nonempty strings required'') (Inr s)
          | _ \<Rightarrow> Inl (CertificateError (''certificate: '' @ label @ '': nonempty strings required''))) xs) (\<lambda>result.
     cert_require (result \<noteq> [] \<and> distinct result) (label @ '': empty or duplicate entries'') (Inr result)))"

definition cert_number :: "jval \<Rightarrow> string \<Rightarrow> int res" where
  "cert_number v label = (case v of
     JInt n \<Rightarrow> cert_require (n \<ge> 0) (label @ '': nonnegative integer required'') (Inr n)
   | _ \<Rightarrow> Inl (CertificateError (''certificate: '' @ label @ '': nonnegative integer required'')))"

definition digest_value :: "jval \<Rightarrow> string \<Rightarrow> string res" where
  "digest_value v label = (case v of
     JStr s \<Rightarrow> cert_require (hex_string 64 s) (label @ '': SHA256 required'') (Inr s)
   | _ \<Rightarrow> Inl (CertificateError (''certificate: '' @ label @ '': SHA256 required'')))"

lemma certificate_object_eq_Inr [res_simps]: "certificate_object v m = Inr d \<longleftrightarrow> v = JObj d"
  by (auto simp: certificate_object_def split: jval.splits)

lemma certificate_array_eq_Inr [res_simps]: "certificate_array v m = Inr xs \<longleftrightarrow> v = JArr xs"
  by (auto simp: certificate_array_def split: jval.splits)

lemma cert_number_eq_Inr [res_simps]: "cert_number v m = Inr n \<longleftrightarrow> v = JInt n \<and> n \<ge> 0"
  by (auto simp: cert_number_def cert_require_eq_Inr split: jval.splits)

lemma digest_value_eq_Inr [res_simps]: "digest_value v m = Inr s \<longleftrightarrow> v = JStr s \<and> hex_string 64 s"
  by (auto simp: digest_value_def cert_require_eq_Inr split: jval.splits)

lemma mapr_strings:
  "mapr (\<lambda>x. case x of JStr s \<Rightarrow> cert_require (s \<noteq> []) m (Inr s) | _ \<Rightarrow> Inl e) xs = Inr ss \<longleftrightarrow>
     xs = map JStr ss \<and> [] \<notin> set ss"
proof (induction xs arbitrary: ss)
  case (Cons x xs)
  show ?case
  proof (cases "\<exists>s. x = JStr s")
    case True
    then show ?thesis by (auto simp: bnd_eq_Inr cert_require_eq_Inr Cons.IH)
  next
    case False
    then show ?thesis by (cases x) auto
  qed
qed auto

lemma unique_strings_eq_Inr [res_simps]:
  "unique_strings v label = Inr ss \<longleftrightarrow> v = JArr (map JStr ss) \<and> [] \<notin> set ss \<and> ss \<noteq> [] \<and> distinct ss"
  unfolding unique_strings_def by (auto simp: bnd_eq_Inr certificate_array_eq_Inr cert_require_eq_Inr mapr_strings)

text \<open>\<^verbatim>\<open>read_document\<close> on the parse tree of a file: no object has a key twice.\<close>

definition unique_object :: "(string \<times> jval) list \<Rightarrow> Record res" where
  "unique_object pairs =
     foldm (\<lambda>result (key, value). cert_require (\<not> has_key result key) (''duplicate JSON key: '' @ key)
       (Inr (AList.update key value result))) [] pairs"

definition read_document :: "string \<Rightarrow> jval \<Rightarrow> Record res" where
  "read_document name raw = bnd (load_value unique_object raw) (\<lambda>v. certificate_object v name)"

end
