(* ===== verification/Certificate.thy ===== *)
theory Certificate
  imports Corpus_Check Certificate_Values
begin

text \<open>
  The single-GEMM cycle certificate: \<^verbatim>\<open>sim/cycle/certificate_contract.py\<close>. The digest of the model library is
  an argument; a check of a loop that may raise is a fold over the same list.
\<close>

section \<open>Constants\<close>

definition CERT_SCHEMA :: string where "CERT_SCHEMA = ''im2p-single-gemm-cycle-certificate''"
definition CERT_VERSION :: int where "CERT_VERSION = 2"
definition MARKER :: string where "MARKER = ''IM2P_SINGLE_GEMM_CYCLE_MODEL_CURRENT''"

definition SELECTED_EVENTS :: "string list" where
  "SELECTED_EVENTS = [''work'', ''load_issue'', ''execute_issue'', ''store_issue'', ''context'', ''load_dma'',
     ''read_request'', ''read_response'', ''scratchpad_read'', ''array_input'', ''raw_completed'',
     ''array_output'', ''accumulator_write'', ''accumulator_commit'', ''store_dma'',
     ''write_request'', ''write_completion'', ''loop_done'', ''logical_done'']"

definition COUNTERS :: "(string \<times> string) list" where
  "COUNTERS = [(''start'', ''start_cycle''), (''done'', ''done_cycle''), (''cycles'', ''total_cycles''),
     (''work_count'', ''logical_work_count''), (''loop_count'', ''loop_count''),
     (''load_req'', ''load_request_count''), (''load_resp'', ''load_response_count''),
     (''store_req'', ''store_request_count''), (''store_resp'', ''store_response_count''),
     (''scale_req'', ''scale_request_count''), (''scale_resp'', ''scale_response_count'')]"

definition TIMING :: Record where
  "TIMING = [(''revision'', JInt 1), (''backing_read_delay'', JInt 3), (''even_read_id_delay'', JInt 13),
     (''scale_read_extra_delay'', JInt 17), (''backing_write_delay'', JInt 11),
     (''read_ready_period'', JInt 5), (''backing_cycle_offset'', JInt 5), (''reserved'', JInt 0)]"

definition is_int :: "jval \<Rightarrow> bool" where
  "is_int v = (case v of JInt _ \<Rightarrow> True | _ \<Rightarrow> False)"

section \<open>The reference memory\<close>

definition validate_reference :: "ext \<Rightarrow> Record \<Rightarrow> unit res" where
  "validate_reference E document =
     cert_require (rget document ''id'' = JStr ''rtl-regression-reference-memory-v1'' \<and>
                   rget document ''scope'' = JStr ''isolated-work-accounting'' \<and>
                   rget document ''accepted_cycle'' = JInt 1) ''reference-memory scope/epoch mismatch'' (
     bnd (certificate_object (rget document ''timing'') ''reference timing'') (\<lambda>timing.
     cert_require (py_eq (JObj timing) (JObj TIMING) \<and> list_all (\<lambda>(_, v). is_int v) timing) ''reference-memory timing mismatch'' (
     bnd (certificate_object (rget document ''source_sha256'') ''reference sources'') (\<lambda>hashes.
     cert_require (keys_are hashes [''sim/cycle/c_api.cpp'', ''sim/cycle/timing_profile.hpp''])
       ''reference source closure missing'' (
     bnd (mapr (\<lambda>(_, v). digest_value v ''reference source'') hashes) (\<lambda>_.
     cert_require (py_eq (rget document ''sha256'') (JStr (contract_digest E document)))
       ''reference-memory hash mismatch'' (Inr ())))))))"

section \<open>One case\<close>

definition cert_positive :: "jval \<Rightarrow> string \<Rightarrow> bool res" where
  "cert_positive v label = bnd (cert_number v label) (\<lambda>n. Inr (n > 0))"

definition equal_counter :: "Record \<Rightarrow> Record \<Rightarrow> string \<times> string \<Rightarrow> unit res" where
  "equal_counter rtl model names =
     cert_requirer (bnd (cert_number (rget rtl (fst names)) (fst names)) (\<lambda>a.
         bnd (cert_number (rget model (snd names)) (snd names)) (\<lambda>b. Inr (a = b))))
       (''endpoint/counter mismatch: '' @ fst names) (Inr ())"

definition case_shape :: "Record \<Rightarrow> string \<Rightarrow> unit res" where
  "case_shape row name =
     bnd (certificate_array (rget row name) name) (\<lambda>xs.
     cert_requirer (allr (Inr (length xs = 3) # map (\<lambda>v. cert_positive v name) xs)) (''invalid '' @ name) (Inr ()))"

definition case_counters :: "Record \<Rightarrow> unit res" where
  "case_counters row =
     bnd (certificate_object (rget row ''rtl_summary'') ''RTL endpoint/counters'') (\<lambda>rtl.
     bnd (certificate_object (rget row ''model_summary'') ''model endpoint/counters'') (\<lambda>model.
     bnd (mapr (equal_counter rtl model) COUNTERS) (\<lambda>_.
     cert_requirer (allr [
         bnd (cert_number (rget model ''logical_work_count'') ''logical works'') (\<lambda>n. Inr (n = 1)),
         cert_positive (rget model ''total_cycles'') ''cycles'',
         bnd (cert_number (rget model ''done_cycle'') ''done'') (\<lambda>d.
           bnd (cert_number (rget model ''start_cycle'') ''start'') (\<lambda>s.
           bnd (item model ''total_cycles'') (\<lambda>t. Inr (py_eq (JInt (d - s)) t))))])
       ''invalid isolated endpoint convention'' (Inr ()))))"

definition case_events :: "Record \<Rightarrow> unit res" where
  "case_events row =
     bnd (certificate_object (rget row ''event_comparison'') ''event comparison'') (\<lambda>events.
     cert_requirer (allr [cert_positive (rget events ''model_event_count'') ''model events'',
                          Inr (py_eq (rget events ''model_event_count'') (rget events ''rtl_event_count''))])
       ''empty or mismatched event counts'' (
     bnd (cert_number (rget events ''rtl_event_count'') ''RTL events'') (\<lambda>_.
     cert_requirer (bnd (digest_value (rget events ''model_multiset_sha256'') ''model events'') (\<lambda>a.
         bnd (digest_value (rget events ''rtl_multiset_sha256'') ''RTL events'') (\<lambda>b. Inr (a = b))))
       ''event multiset mismatch'' (Inr ()))))"

definition cert_case :: "Record \<Rightarrow> case_key res" where
  "cert_case row = (case (rget row ''profile'', rget row ''framing'', rget row ''case'') of
     (JStr profile, JStr framing, JStr identity) \<Rightarrow>
       cert_require (profile \<noteq> [] \<and> framing \<noteq> [] \<and> identity \<noteq> []) ''case identity missing'' (
       cert_require (profile \<in> set PROFILES \<and> framing \<in> set FRAMINGS) ''case profile/framing unsupported'' (
       cert_require (rget row ''status'' = JStr ''PASS'' \<and> rget row ''rtl_admitted'' = JBool True \<and>
                     rget row ''model_attempted'' = JBool True \<and> rget row ''model_admitted'' = JBool True)
         ''case is not admitted/exact'' (
       cert_requirer (allr [Inr (rget row ''differences'' = JObj []), Inr (rget row ''first_event_difference'' = JNull),
                            Inr (rget row ''selected_event_multiset_exact'' = JBool True),
                            bnd (cert_number (rget row ''delta_cycles'') ''cycle delta'') (\<lambda>n. Inr (n = 0))])
         ''case mismatch'' (
       bnd (mapr (case_shape row) [''shape'', ''tile'']) (\<lambda>_.
       bnd (case_counters row) (\<lambda>_.
       bnd (case_events row) (\<lambda>_.
       bnd (certificate_object (rget row ''scale_ownership'') ''scale ownership'') (\<lambda>ownership.
       cert_requirer (allr [Inr (rget ownership ''status'' = JStr ''PASS''),
                            cert_positive (rget ownership ''submissions'') ''submissions''])
         ''scale ownership missing or failed'' (
       Inr (profile, framing, identity))))))))))
   | _ \<Rightarrow> Inl (CertificateError ''certificate: case identity missing''))"

section \<open>The certificate\<close>

definition cert_heading :: "corpus_env \<Rightarrow> Record \<Rightarrow> bool \<Rightarrow> unit res" where
  "cert_heading env document require_marker =
     cert_require (rget document ''schema'' = JStr CERT_SCHEMA \<and> rget document ''version'' = JInt CERT_VERSION)
       ''unsupported schema/version; regenerate certificate'' (
     cert_require (rget document ''status'' = JStr ''PASS'' \<and> rget document ''first_mismatch'' = JNull \<and>
                   has_key document ''first_mismatch'') ''certificate failed or incomplete'' (
     cert_require (if require_marker then rget document ''marker'' = JStr MARKER
                   else rget document ''marker'' \<in> {JNull, JStr MARKER}) ''current marker missing or invalid'' (
     cert_require (rget document ''scope'' = JStr ''isolated-work-accounting'' \<and>
                   rget document ''timing_profile'' = JStr ''rtl-regression'') ''unsupported timing scope/framing'' (
     cert_require (rget document ''execution_kind'' \<in> {JStr ''FRESH_RUN'', JStr ''REAGGREGATED_FROM_VERIFIED_EVIDENCE''})
       ''evidence execution kind required'' (
     bnd (mapr (authority_reference env) current_versions) (\<lambda>references.
     cert_require (py_in (rget document ''corpus_authority'') (map JObj references))
       ''current production requires reviewed independent corpus authority'' (Inr ())))))))"

definition cert_contracts :: "ext \<Rightarrow> string \<Rightarrow> Record \<Rightarrow> Record res" where
  "cert_contracts E library_sha document =
     bnd (unique_strings (rget document ''profiles'') ''profiles'') (\<lambda>profiles.
     bnd (unique_strings (rget document ''framings'') ''framings'') (\<lambda>framings.
     cert_require (set profiles = set PROFILES \<and> set framings = set FRAMINGS) ''profile/framing coverage incomplete'' (
     cert_requirer (bnd (digest_value (rget document ''model_library_sha256'') ''library'') (\<lambda>d. Inr (d = library_sha)))
       ''model library SHA256 mismatch'' (
     bnd (certificate_object (rget document ''hardware_contracts'') ''hardware contracts'') (\<lambda>contracts.
     cert_require (keys_are contracts PROFILES) ''hardware contract coverage incomplete'' (
     bnd (mapr (\<lambda>profile. bnd (item contracts profile) (\<lambda>v. bnd (certificate_object v profile) (\<lambda>c.
            validate_contract E c profile))) PROFILES) (\<lambda>_.
     Inr contracts)))))))"

definition cert_binding :: "ext \<Rightarrow> corpus_env \<Rightarrow> Record \<Rightarrow> Record \<Rightarrow> Record \<Rightarrow> string \<Rightarrow> unit res" where
  "cert_binding E env document contracts bindings profile =
     bnd (item bindings profile) (\<lambda>bv. bnd (certificate_object bv profile) (\<lambda>binding.
     bnd (item document ''execution_kind'') (\<lambda>execution_kind.
     let kind = (if execution_kind = JStr ''FRESH_RUN'' then ''FRESH_BUILD'' else ''VERIFIED_REUSE'') in
     cert_require (rget binding ''execution_kind'' = JStr kind) ''RTL build binding execution kind mismatch'' (
     bnd (item contracts profile) (\<lambda>cv. bnd (certificate_object cv profile) (\<lambda>contract.
     bnd (validate_binding E binding contract) (\<lambda>_.
     bnd (item document ''corpus_authority'') (\<lambda>corpus_authority.
     bnd (authority_reference env ''v5'') (\<lambda>v5.
     if py_eq corpus_authority (JObj v5)
     then cert_require (py_eq (rget binding ''llama_source'') (rget document ''llama_source''))
            (''RTL build package identity differs: '' @ profile) (Inr ())
     else Inr ())))))))))"

text \<open>The errors of the bindings and of the corpus are certificate errors.\<close>

definition as_certificate_error :: "'a res \<Rightarrow> 'a res" where
  "as_certificate_error r = (case r of
     Inl (BindingError m) \<Rightarrow> Inl (CertificateError (''certificate: '' @ m))
   | Inl (CorpusError m) \<Rightarrow> Inl (CertificateError (''certificate: '' @ m))
   | _ \<Rightarrow> r)"

lemma as_certificate_error_eq_Inr [res_simps]: "as_certificate_error r = Inr x \<longleftrightarrow> r = Inr x"
  by (auto simp: as_certificate_error_def split: sum.splits py_error.splits)

definition cert_bindings :: "ext \<Rightarrow> corpus_env \<Rightarrow> Record \<Rightarrow> Record \<Rightarrow> unit res" where
  "cert_bindings E env document contracts =
     bnd (certificate_object (rget document ''rtl_build_bindings'') ''RTL build bindings'') (\<lambda>bindings.
     cert_require (keys_are bindings PROFILES) ''RTL build binding coverage incomplete'' (
     as_certificate_error (
       bnd (mapr (cert_binding E env document contracts bindings) PROFILES) (\<lambda>_. validate_corpus env document))))"

text \<open>The expected cases of a profile, against the count of captured ones.\<close>

definition cert_expected :: "Record \<Rightarrow> Record \<Rightarrow> string \<Rightarrow> string list res" where
  "cert_expected expected captures profile =
     bnd (item captures profile) (\<lambda>cv. bnd (cert_number cv ''captured corpus count'') (\<lambda>count.
     cert_require (count > 0) ''captured corpus cannot be empty'' (
     bnd (item expected profile) (\<lambda>ev. bnd (unique_strings ev ''expected case IDs'') (\<lambda>identities.
     cert_require (int (length identities) = count + int (length LARGE_K))
       ''expected corpus differs from captured corpus count'' (Inr identities))))))"

definition expected_keys :: "string list list \<Rightarrow> case_key list" where
  "expected_keys identities =
     concat (map (\<lambda>(p, ids). concat (map (\<lambda>f. map (\<lambda>c. (p, f, c)) ids) FRAMINGS)) (zip PROFILES identities))"

definition cert_cases :: "Record \<Rightarrow> case_key list res" where
  "cert_cases document =
     bnd (certificate_object (rget document ''expected_cases'') ''expected corpus'') (\<lambda>expected.
     cert_require (keys_are expected PROFILES) ''expected corpus profile coverage incomplete'' (
     bnd (certificate_object (rget document ''captured_corpus_counts'') ''captured corpus counts'') (\<lambda>captures.
     cert_require (keys_are captures PROFILES) ''captured corpus profile coverage incomplete'' (
     bnd (mapr (cert_expected expected captures) PROFILES) (\<lambda>identities.
     bnd (certificate_array (rget document ''cases'') ''cases'') (\<lambda>cases.
     cert_require (cases \<noteq> []) ''empty corpus'' (
     bnd (mapr (\<lambda>v. bnd (certificate_object v ''case'') cert_case) cases) (\<lambda>keys.
     cert_require (distinct keys \<and> set keys = set (expected_keys identities)) ''missing/duplicate/extra corpus cases'' (
     Inr keys)))))))))"

definition cert_reuse :: "Record \<Rightarrow> nat \<Rightarrow> unit res" where
  "cert_reuse document count =
     bnd (item document ''execution_kind'') (\<lambda>kind.
     if kind = JStr ''REAGGREGATED_FROM_VERIFIED_EVIDENCE'' then
       bnd (certificate_object (rget document ''reuse_proof'') ''raw case reuse proof'') (\<lambda>proof.
       cert_requirer (allr [
           bnd (cert_number (rget proof ''raw_cases_reaggregated'') ''raw case count'') (\<lambda>n. Inr (n = int count)),
           Inr (rget proof ''same_model_library'' = JBool True \<and> rget proof ''fresh_rtl_execution'' = JBool False)])
         ''raw case reuse count/library/execution mismatch'' (Inr ()))
     else Inr ())"

definition cert_summary :: "case_key list \<Rightarrow> Record \<Rightarrow> string \<Rightarrow> unit res" where
  "cert_summary keys summaries framing =
     bnd (item summaries framing) (\<lambda>sv. bnd (certificate_object sv ''summary'') (\<lambda>summary.
     bnd (mapr (\<lambda>field.
        cert_requirer (bnd (cert_number (rget summary field) field) (\<lambda>n.
            Inr (n = int (length (filter (\<lambda>(_, f, _). f = framing) keys)))))
          ''aggregate count mismatch'' (Inr ()))
       [''cases_attempted'', ''cases_rtl_admitted'', ''cases_model_admitted'', ''cases_exact'']) (\<lambda>_.
     cert_requirer (bnd (cert_number (rget summary ''max_abs_delta_cycles'') ''maximum delta'') (\<lambda>n. Inr (n = 0)))
       ''nonzero cycle delta'' (Inr ()))))"

definition cert_mutation :: "Record \<Rightarrow> unit res" where
  "cert_mutation document =
     bnd (certificate_object (rget document ''event_mutation'') ''mutation gate'') (\<lambda>mutation.
     bnd (certificate_object (rget mutation ''mutations_rejected'') ''mutations rejected'') (\<lambda>rejected.
     cert_require (rget mutation ''status'' = JStr ''PASS'' \<and> rget mutation ''control_exact'' = JBool True \<and>
                   rget mutation ''endpoints_and_counters_unchanged'' = JBool True \<and>
                   keys_are rejected [''shift_non_endpoint_event'', ''delete_event'', ''duplicate_event''] \<and>
                   list_all (\<lambda>(_, v). v = JBool True) rejected) ''mandatory mutation gate incomplete'' (
     bnd (unique_strings (rget mutation ''selected_events'') ''mutation events'') (\<lambda>events.
     cert_require (set events = set SELECTED_EVENTS) ''mutation selected event coverage mismatch'' (Inr ())))))"

definition validate_certificate :: "ext \<Rightarrow> corpus_env \<Rightarrow> string \<Rightarrow> Record \<Rightarrow> bool \<Rightarrow> unit res" where
  "validate_certificate E env library_sha document require_marker =
     bnd (cert_heading env document require_marker) (\<lambda>_.
     bnd (cert_contracts E library_sha document) (\<lambda>contracts.
     bnd (cert_bindings E env document contracts) (\<lambda>_.
     bnd (certificate_object (rget document ''reference_memory'') ''reference memory'') (\<lambda>memory.
     bnd (validate_reference E memory) (\<lambda>_.
     bnd (unique_strings (rget document ''selected_events'') ''selected events'') (\<lambda>selected.
     cert_require (set selected = set SELECTED_EVENTS) ''selected event coverage mismatch'' (
     bnd (cert_cases document) (\<lambda>keys.
     bnd (cert_reuse document (length keys)) (\<lambda>_.
     bnd (certificate_object (rget document ''summaries'') ''summaries'') (\<lambda>summaries.
     cert_require (keys_are summaries FRAMINGS) ''summary framing coverage incomplete'' (
     bnd (mapr (cert_summary keys summaries) FRAMINGS) (\<lambda>_.
     cert_mutation document))))))))))))"

definition finalize_certificate :: "ext \<Rightarrow> corpus_env \<Rightarrow> string \<Rightarrow> Record \<Rightarrow> Record res" where
  "finalize_certificate E env library_sha document =
     bnd (validate_certificate E env library_sha document False) (\<lambda>_.
     let result = AList.update ''marker'' (JStr MARKER) document in
     bnd (validate_certificate E env library_sha result True) (\<lambda>_. Inr result))"

end
