(* ===== verification/Trace_Runs.thy ===== *)
theory Trace_Runs
  imports Trace_Schema
begin

text \<open>
  What an accepted run view means. The runs of a residual work name, block by block, the
  original K positions that survive compaction; the specification function \<open>expand_runs\<close>
  lists them. An accepted view describes exactly \<open>k\<close> such positions, in strictly
  increasing order and within the original K extent, and the row map is strictly sorted.
\<close>

section \<open>Bits of a mask\<close>

definition mask_bits :: "nat \<Rightarrow> nat list" where
  "mask_bits n = filter (\<lambda>i. odd (n div 2 ^ i)) [0..<bit_length n]"

lemma bit_length_pos: "n > 0 \<Longrightarrow> bit_length n = Suc (bit_length (n div 2))"
  by (simp add: bit_length.simps [of n])

lemma mask_bits_rec:
  assumes "n > 0"
  shows "mask_bits n = (if odd n then [0] else []) @ map Suc (mask_bits (n div 2))"
proof -
  have "[0..<bit_length n] = 0 # map Suc [0..<bit_length (n div 2)]"
    using assms by (simp add: bit_length_pos map_Suc_upt upt_conv_Cons del: upt_Suc)
  then show ?thesis
    by (simp add: mask_bits_def filter_map comp_def div_mult2_eq)
qed

lemma length_mask_bits: "length (mask_bits n) = bit_count n"
proof (induction n rule: bit_count.induct)
  case (1 n)
  show ?case
  proof (cases "n = 0")
    case True
    then show ?thesis by (simp add: mask_bits_def bit_count.simps bit_length.simps)
  next
    case False
    with 1 have "length (mask_bits (n div 2)) = bit_count (n div 2)" by simp
    with False show ?thesis
      by (simp add: mask_bits_rec bit_count.simps [of n] odd_iff_mod_2_eq_one even_iff_mod_2_eq_zero)
  qed
qed

lemma bit_length_le: "n < 2 ^ k \<Longrightarrow> bit_length n \<le> k"
proof (induction n arbitrary: k rule: bit_length.induct)
  case (1 n)
  show ?case
  proof (cases "n = 0")
    case True
    then show ?thesis by (simp add: bit_length.simps)
  next
    case False
    with "1.prems" obtain k' where k: "k = Suc k'" by (cases k) auto
    with "1.prems" have "n div 2 < 2 ^ k'" by simp
    with "1.IH" False k show ?thesis by (simp add: bit_length.simps [of n])
  qed
qed

lemma mask_bits_less: "i \<in> set (mask_bits n) \<Longrightarrow> i < bit_length n"
  by (simp add: mask_bits_def)

lemma sorted_mask_bits: "sorted_wrt (<) (mask_bits n)"
  unfolding mask_bits_def by (rule sorted_wrt_filter) simp

section \<open>The positions a run view describes\<close>

definition expand_span :: "RunSpan \<Rightarrow> int list" where
  "expand_span sp = map (\<lambda>i. original_block_id sp * 32 + int i) (mask_bits (nat (original_k_mask sp)))"

definition expand_runs :: "RunSpan list \<Rightarrow> int list" where
  "expand_runs spans = concat (map expand_span spans)"

text \<open>Invariant of the loop: the accepted prefix covers the compact interval up to the cursor
  and its positions are sorted, below the original extent and inside the blocks seen.\<close>

definition run_inv :: "int \<Rightarrow> RunSpan list \<times> int \<times> int \<Rightarrow> bool" where
  "run_inv original_k st = (case st of (spans, cursor, previous) \<Rightarrow>
     int (length (expand_runs spans)) = cursor \<and>
     sorted_wrt (<) (expand_runs spans) \<and>
     (\<forall>x \<in> set (expand_runs spans). 0 \<le> x \<and> x < original_k \<and> x < (previous + 1) * 32) \<and>
     sorted_wrt (\<lambda>a b. original_block_id a < original_block_id b) spans \<and>
     (\<forall>sp \<in> set spans. original_block_id sp \<le> previous) \<and>
     (\<forall>i < length spans. compact_k_begin (spans ! i) =
        (\<Sum>sp \<leftarrow> take i spans. compact_k_count sp)) \<and>
     cursor = (\<Sum>sp \<leftarrow> spans. compact_k_count sp))"

lemma run_step_Inr:
  assumes "run_step f original_k (spans, cursor, previous) raw = Inr st'"
  obtains sp where "st' = (spans @ [sp], cursor + compact_k_count sp, original_block_id sp)"
    "original_block_id sp > previous" "0 \<le> original_block_id sp"
    "0 < original_k_mask sp" "original_k_mask sp < 2 ^ 32"
    "int (bit_count (nat (original_k_mask sp))) = compact_k_count sp"
    "compact_k_begin sp = cursor" "0 < compact_k_count sp"
    "original_block_id sp * 32 + int (bit_length (nat (original_k_mask sp))) \<le> original_k"
proof -
  from assms obtain block mask count where
    st': "st' = (spans @ [\<lparr>original_block_id = block, original_k_mask = mask,
                    compact_k_begin = cursor, compact_k_count = count\<rparr>], cursor + count, block)"
    and c: "0 \<le> block" "block > previous" "0 < mask" "mask < 2 ^ 32" "0 < count"
      "int (bit_count (nat mask)) = count" "block * 32 + int (bit_length (nat mask)) \<le> original_k"
    by (auto simp: run_step_def res_simps)
  show ?thesis
    by (rule that [of "\<lparr>original_block_id = block, original_k_mask = mask,
                    compact_k_begin = cursor, compact_k_count = count\<rparr>"]) (use c in \<open>simp_all add: st'\<close>)
qed

lemma expand_span_bounds:
  assumes "x \<in> set (expand_span sp)" "original_k_mask sp < 2 ^ 32" "0 < original_k_mask sp"
  shows "original_block_id sp * 32 \<le> x" "x < (original_block_id sp + 1) * 32"
    "x < original_block_id sp * 32 + int (bit_length (nat (original_k_mask sp)))"
proof -
  from assms(1) obtain i where i: "i \<in> set (mask_bits (nat (original_k_mask sp)))"
    and x: "x = original_block_id sp * 32 + int i" by (auto simp: expand_span_def)
  have "nat (original_k_mask sp) < 2 ^ 32" using assms(2,3) by (simp add: nat_less_iff)
  then have "bit_length (nat (original_k_mask sp)) \<le> 32" by (rule bit_length_le)
  with mask_bits_less [OF i] x
  show "original_block_id sp * 32 \<le> x" "x < (original_block_id sp + 1) * 32"
    "x < original_block_id sp * 32 + int (bit_length (nat (original_k_mask sp)))" by auto
qed

lemma sorted_expand_span: "sorted_wrt (<) (expand_span sp)"
  unfolding expand_span_def sorted_wrt_map
  using sorted_mask_bits by (rule sorted_wrt_mono_rel [rotated]) simp

lemma length_expand_span: "length (expand_span sp) = bit_count (nat (original_k_mask sp))"
  by (simp add: expand_span_def length_mask_bits)

lemma expand_runs_snoc: "expand_runs (spans @ [sp]) = expand_runs spans @ expand_span sp"
  by (simp add: expand_runs_def)

lemma run_step_inv:
  assumes inv: "run_inv original_k st" and step: "run_step f original_k st raw = Inr st'"
  shows "run_inv original_k st'"
proof -
  obtain spans cursor previous where st: "st = (spans, cursor, previous)" by (cases st) auto
  from step obtain sp where st': "st' = (spans @ [sp], cursor + compact_k_count sp, original_block_id sp)"
    and blk: "original_block_id sp > previous" "0 \<le> original_block_id sp"
    and mask: "0 < original_k_mask sp" "original_k_mask sp < 2 ^ 32"
    and cnt: "int (bit_count (nat (original_k_mask sp))) = compact_k_count sp"
    and beg: "compact_k_begin sp = cursor"
    and ext: "original_block_id sp * 32 + int (bit_length (nat (original_k_mask sp))) \<le> original_k"
    unfolding st by (rule run_step_Inr)
  note inv' = inv [unfolded st run_inv_def, simplified]
  have old: "x < (original_block_id sp) * 32" if "x \<in> set (expand_runs spans)" for x
  proof -
    from inv' that have "x < (previous + 1) * 32" by auto
    moreover have "(previous + 1) * 32 \<le> original_block_id sp * 32" using blk(1) by simp
    ultimately show ?thesis by simp
  qed
  have new: "original_block_id sp * 32 \<le> y \<and> 0 \<le> y \<and> y < original_k \<and> y < (original_block_id sp + 1) * 32"
    if "y \<in> set (expand_span sp)" for y
    using expand_span_bounds [OF that mask(2,1)] ext blk(2) by auto
  have "sorted_wrt (<) (expand_runs (spans @ [sp]))"
    unfolding expand_runs_snoc sorted_wrt_append
    using inv' sorted_expand_span old new by (auto intro: less_le_trans)
  moreover have "\<forall>x \<in> set (expand_runs (spans @ [sp])). 0 \<le> x \<and> x < original_k \<and> x < (original_block_id sp + 1) * 32"
    unfolding expand_runs_snoc using inv' new old by fastforce
  moreover have "int (length (expand_runs (spans @ [sp]))) = cursor + compact_k_count sp"
    unfolding expand_runs_snoc using inv' cnt by (simp add: length_expand_span)
  moreover have "sorted_wrt (\<lambda>a b. original_block_id a < original_block_id b) (spans @ [sp])"
    using inv' blk by (auto simp: sorted_wrt_append)
  moreover have "\<forall>i < length (spans @ [sp]). compact_k_begin ((spans @ [sp]) ! i) =
        (\<Sum>sp \<leftarrow> take i (spans @ [sp]). compact_k_count sp)"
    using inv' beg by (auto simp: nth_append less_Suc_eq)
  moreover have "\<forall>s \<in> set (spans @ [sp]). original_block_id s \<le> original_block_id sp"
    using inv' blk by force
  ultimately show ?thesis using inv' by (simp add: st' run_inv_def)
qed

lemma run_inv_init: "run_inv original_k ([], 0, -1)"
  by (simp add: run_inv_def expand_runs_def)

section \<open>The row map\<close>

definition row_inv :: "int \<Rightarrow> int \<Rightarrow> RowIdentity list \<times> (int \<times> int) \<Rightarrow> bool" where
  "row_inv bits source_rows st = (case st of (mapped, prior) \<Rightarrow>
     sorted_wrt (\<lambda>a b. (lane_id a, source_row a) < (lane_id b, source_row b)) mapped \<and>
     (\<forall>x \<in> set mapped. 0 \<le> source_row x \<and> source_row x < source_rows \<and>
        0 \<le> lane_id x \<and> lane_id x \<le> 32 div bits \<and> (lane_id x, source_row x) \<le> prior))"

lemma row_step_inv:
  assumes "row_inv bits source_rows st" "row_step bits source_rows st raw = Inr st'"
  shows "row_inv bits source_rows st'"
proof -
  obtain mapped prior where st: "st = (mapped, prior)" by (cases st) auto
  from assms(2) obtain row lane where
    st': "st' = (mapped @ [\<lparr>source_row = row, lane_id = lane\<rparr>], (lane, row))"
    and c: "0 \<le> row" "0 \<le> lane" "row < source_rows" "lane < 32 div bits + 1" "prior < (lane, row)"
    unfolding st row_step_def prod.case by (auto simp only: res_simps)
  have below: "(lane_id x, source_row x) < (lane, row)" if "x \<in> set mapped" for x
  proof -
    from assms(1) that have "(lane_id x, source_row x) \<le> prior" unfolding st row_inv_def by blast
    then show ?thesis using c(5) by (rule le_less_trans)
  qed
  show ?thesis
    using assms(1) below c unfolding st st' row_inv_def
    by (auto simp: sorted_wrt_append simp del: less_prod_simp less_eq_prod_simp intro: order.strict_implies_order)
qed

lemma foldm_row_length:
  "foldm (row_step bits sr) st raws = Inr st' \<Longrightarrow> length (fst st') = length (fst st) + length raws"
  by (induction raws arbitrary: st) (auto simp: res_simps row_step_def split: prod.splits)

lemma foldm_run_length:
  "foldm (run_step f ok) st raws = Inr st' \<Longrightarrow> length (fst st') = length (fst st) + length raws"
  by (induction raws arbitrary: st) (auto simp: res_simps run_step_def split: prod.splits)

lemma parse_run_view_runs:
  assumes "parse_run_view r (bits, w, d) m n k = Inr (original_k, spans, rows)"
  shows "run_inv original_k (spans, k, original_block_id (last spans)) \<and> spans \<noteq> []"
proof -
  from assms obtain raw previous where
    fold: "foldm (run_step (32 div min d 32) original_k) ([], 0, -1) raw = Inr (spans, k, previous)"
    and ne: "raw \<noteq> []"
    by (auto simp: parse_run_view_def res_simps split: jval.splits)
  have inv: "run_inv original_k (spans, k, previous)"
    using fold run_inv_init by (rule foldm_invariant) (rule run_step_inv)
  have "case (spans, k, previous) of (sp, c, p) \<Rightarrow> sp \<noteq> [] \<longrightarrow> p = original_block_id (last sp)"
    by (rule foldm_invariant [OF fold, where P = "\<lambda>st. (case st of (sp, c, p) \<Rightarrow> sp \<noteq> [] \<longrightarrow> p = original_block_id (last sp))"])
      (auto elim!: run_step_Inr)
  moreover have "spans \<noteq> []"
    using foldm_run_length [OF fold] ne by auto
  ultimately show ?thesis using inv by simp
qed

lemma parse_run_view_rows:
  assumes "parse_run_view r (bits, w, d) m n k = Inr (original_k, spans, rows)"
  shows "\<exists>source_rows prior. rget r ''source_row_count'' = JInt source_rows \<and>
    row_inv bits source_rows (rows, prior) \<and> int (length rows) = m"
proof -
  from assms obtain source_rows prior raw where
    fold: "foldm (row_step bits source_rows) ([], (-1, -1)) raw = Inr (rows, prior)"
    and sr: "rget r ''source_row_count'' = JInt source_rows" and len: "int (length raw) = m"
    by (auto simp: parse_run_view_def res_simps)
  have "row_inv bits source_rows (rows, prior)"
    using fold by (rule foldm_invariant) (auto simp: row_inv_def [of _ _ "([], _)"] intro: row_step_inv)
  moreover have "int (length rows) = m" using foldm_row_length [OF fold] len by simp
  ultimately show ?thesis using sr by blast
qed

text \<open>C18. An accepted residual run view denotes exactly \<open>k\<close> original K positions, strictly
  increasing and inside the original extent; its compact intervals follow one another without
  gap or overlap from 0; its row map has one entry per row of the work, is strictly sorted by
  (lane, row) and stays inside the source stripe and the radix lanes of the profile.\<close>

theorem run_view_positions:
  assumes "parse_run_view r (bits, w, d) m n k = Inr (original_k, spans, rows)"
  shows "int (length (expand_runs spans)) = k \<and> sorted_wrt (<) (expand_runs spans) \<and>
    (\<forall>x \<in> set (expand_runs spans). 0 \<le> x \<and> x < original_k) \<and>
    (\<forall>i < length spans. compact_k_begin (spans ! i) = (\<Sum>sp \<leftarrow> take i spans. compact_k_count sp)) \<and>
    int (length rows) = m \<and>
    sorted_wrt (\<lambda>a b. (lane_id a, source_row a) < (lane_id b, source_row b)) rows \<and>
    (\<forall>x \<in> set rows. 0 \<le> lane_id x \<and> lane_id x \<le> 32 div bits)"
proof -
  from parse_run_view_runs [OF assms] have "run_inv original_k (spans, k, original_block_id (last spans))" ..
  moreover from parse_run_view_rows [OF assms] obtain sr prior where
    "row_inv bits sr (rows, prior)" "int (length rows) = m" by blast
  ultimately show ?thesis unfolding run_inv_def row_inv_def prod.case by blast
qed

definition run_view_example :: Record where
  "run_view_example =
     [(''original_k'', JInt 64),
      (''runs'', JArr [JObj [(''original_block_id'', JInt 0), (''original_k_mask'', JInt 5),
                             (''compact_k_begin'', JInt 0), (''compact_k_count'', JInt 2)],
                       JObj [(''original_block_id'', JInt 1), (''original_k_mask'', JInt 0x80000000),
                             (''compact_k_begin'', JInt 2), (''compact_k_count'', JInt 1)]]),
      (''row_map'', JArr [JObj [(''source_row'', JInt 3), (''lane_id'', JInt 0)],
                          JObj [(''source_row'', JInt 1), (''lane_id'', JInt 2)]]),
      (''source_row_count'', JInt 4), (''source_row_begin'', JInt 0)]"

definition run_view_example_result :: "int \<times> RunSpan list \<times> RowIdentity list" where
  "run_view_example_result =
     (64, [\<lparr>original_block_id = 0, original_k_mask = 5, compact_k_begin = 0, compact_k_count = 2\<rparr>,
           \<lparr>original_block_id = 1, original_k_mask = 0x80000000, compact_k_begin = 2, compact_k_count = 1\<rparr>],
      [\<lparr>source_row = 3, lane_id = 0\<rparr>, \<lparr>source_row = 1, lane_id = 2\<rparr>])"

lemma run_view_example_accepted:
  "parse_run_view run_view_example (8, 8, 16) 2 5 3 = Inr run_view_example_result"
  by (simp add: parse_run_view_def run_view_example_def run_view_example_result_def integer_def rget_def
      item_def array_or_def run_step_def row_step_def object_value_def keys_are_def bit_count.simps
      bit_length.simps U64_def require_def cong: run_congs)

lemma run_view_positions_witness:
  "parse_run_view run_view_example (8, 8, 16) 2 5 3 = Inr run_view_example_result \<and>
   sorted_wrt (<) (expand_runs (fst (snd run_view_example_result)))"
  using run_view_positions [OF run_view_example_accepted [unfolded run_view_example_result_def]]
  by (simp add: run_view_example_accepted run_view_example_result_def)

end
