(* ===== verification/Cycle_Cli.thy ===== *)
theory Cycle_Cli
  imports Trace_Runs
begin

text \<open>
  The cycle-model front end \<^verbatim>\<open>sim/cycle/cli.py\<close>: the checks on a request document, the view of the
  compact runs, and \<^verbatim>\<open>estimate\<close> / \<^verbatim>\<open>estimate_service\<close>. The C library and the resolution of the
  hardware profile are the parameter \<open>cycle_native\<close>; a ctypes structure is the dictionary of its
  fields.
\<close>

section \<open>Fields\<close>

definition HARDWARE_FIELDS :: "string list" where
  "HARDWARE_FIELDS = [''activation_bits'', ''weight_bits'', ''dim'', ''block_k'', ''accumulator_bits'', ''bank_count'',
     ''bank_rows'', ''accumulator_rows'', ''scratchpad_row_bytes'', ''accumulator_row_bytes'',
     ''scratchpad_read_delay'', ''accumulator_latency'']"

definition TIMING_FIELDS :: "string list" where
  "TIMING_FIELDS = [''revision'', ''backing_read_delay'', ''even_read_id_delay'', ''scale_read_extra_delay'',
     ''backing_write_delay'', ''read_ready_period'', ''backing_cycle_offset'', ''reserved'']"

definition REQUEST_U64 :: "string list" where
  "REQUEST_U64 = [''m'', ''n'', ''k'', ''tile_i'', ''tile_j'', ''tile_k'', ''activation_stride_bytes'',
     ''weight_stride_bytes'', ''output_stride_bytes'', ''scale_stride_elements'', ''accepted_cycle'', ''logical_work_id'']"

definition REQUEST_U32 :: "string list" where
  "REQUEST_U32 = [''submission'', ''record_events'', ''initial_scratchpad_half'', ''initial_accumulator_half'']"

definition RESULT_FIELDS :: "string list" where
  "RESULT_FIELDS = [''start_cycle'', ''done_cycle'', ''total_cycles'', ''logical_work_count'', ''loop_count'',
     ''planner_loop_count'', ''fragment_count'', ''load_request_count'', ''load_response_count'',
     ''store_request_count'', ''store_response_count'', ''scale_request_count'', ''scale_response_count'', ''event_count'']"

definition SERVICE_FIELDS :: "string list" where
  "SERVICE_FIELDS = [''abi_version'', ''struct_size'', ''result_ready_cycle'', ''final_scale_release_cycle'',
     ''resource_ready_cycle'', ''next_scratchpad_half'', ''next_accumulator_half'']"

definition object_fields :: "jval \<Rightarrow> string list \<Rightarrow> string \<Rightarrow> Record res" where
  "object_fields v allowed label = (case v of
     JObj d \<Rightarrow> chk (set (map fst d) \<subseteq> set allowed) (ValueError (''unknown '' @ label @ '' fields'')) (Inr d)
   | _ \<Rightarrow> Inl (ValueError (label @ '' must be a JSON object'')))"

definition cli_integer :: "jval \<Rightarrow> nat \<Rightarrow> string \<Rightarrow> int res" where
  "cli_integer v bits label = (case v of
     JInt n \<Rightarrow> chk (\<not> (n < 0 \<or> n \<ge> 2 ^ bits)) (ValueError (label @ '' must be an unsigned integer'')) (Inr n)
   | _ \<Rightarrow> Inl (ValueError (label @ '' must be an unsigned integer'')))"

definition RUN_KEYS :: "string list" where
  "RUN_KEYS = [''original_block_id'', ''original_k_mask'', ''compact_k_begin'', ''compact_k_count'']"

text \<open>One iteration of the loop over the runs; the state is (spans, cursor, previous).\<close>

definition compact_step :: "int \<Rightarrow> RunSpan list \<times> int \<times> int \<Rightarrow> jval \<Rightarrow> (RunSpan list \<times> int \<times> int) res" where
  "compact_step original_k st it =
     (case st of (spans, cursor, previous) \<Rightarrow>
     bnd (object_fields it RUN_KEYS ''run'') (\<lambda>fs.
     chk (length fs = 4) (ValueError ''incomplete run'') (
     bnd (item fs ''original_block_id'') (\<lambda>bv. bnd (cli_integer bv 32 ''original_block_id'') (\<lambda>block.
     bnd (item fs ''original_k_mask'') (\<lambda>mv. bnd (cli_integer mv 32 ''original_k_mask'') (\<lambda>mask.
     bnd (item fs ''compact_k_begin'') (\<lambda>gv. bnd (cli_integer gv 32 ''compact_k_begin'') (\<lambda>begin'.
     bnd (item fs ''compact_k_count'') (\<lambda>cv. bnd (cli_integer cv 32 ''compact_k_count'') (\<lambda>count.
     chk (block > previous \<and> count > 0 \<and> count \<le> 32 \<and> int (bit_count (nat mask)) = count \<and> begin' = cursor \<and>
          block * 32 + int (bit_length (nat mask)) \<le> original_k)
       (ValueError ''invalid compact run ownership or coverage'') (
     Inr (spans @ [\<lparr>original_block_id = block, original_k_mask = mask, compact_k_begin = begin',
                    compact_k_count = count\<rparr>], cursor + count, block)))))))))))))"

definition compact_run_view :: "Record \<Rightarrow> int \<Rightarrow> (int \<times> RunSpan list) option res" where
  "compact_run_view document k =
     (if rget document ''runs'' = JNull then
        chk (\<not> has_key document ''original_k'') (ValueError ''original_k requires runs'') (Inr None)
      else
        bnd (array_or (ValueError ''runs must be a nonempty array bounded by compact K'') (rget document ''runs'')) (\<lambda>raw.
        chk (0 < length raw \<and> int (length raw) \<le> k)
          (ValueError ''runs must be a nonempty array bounded by compact K'') (
        bnd (cli_integer (rget document ''original_k'') 32 ''original_k'') (\<lambda>original_k.
        bnd (foldm (compact_step original_k) ([], 0, -1) raw) (\<lambda>(spans, cursor, previous).
        chk (cursor = k) (ValueError ''runs do not cover compact K'') (
        Inr (Some (original_k, spans))))))))"

section \<open>Estimation\<close>

record cycle_answer =
  ca_status :: int
  ca_message :: string
  ca_result :: "(string, int) dict"
  ca_service :: "(string, int) dict"
  ca_events :: "(int \<times> Record) list"

record cycle_native =
  cn_hardware :: "string \<Rightarrow> (string, int) dict res"
  cn_timing_init :: "(string, int) dict"
  cn_limits_init :: "(string, int) dict"
  cn_request_init :: "(string, int) dict"
  cn_struct_size_ok :: bool
  cn_service_size :: int
  cn_create :: "(string, int) dict \<Rightarrow> (string, int) dict \<Rightarrow> (string, int) dict \<Rightarrow> bool"
  cn_estimate :: "bool \<Rightarrow> (string, int) dict \<Rightarrow> (string, int) dict \<Rightarrow> (string, int) dict \<Rightarrow> (string, int) dict \<Rightarrow>
     (int \<times> RunSpan list) option \<Rightarrow> cycle_answer"

definition matched_profile :: "jval \<Rightarrow> string res" where
  "matched_profile name = (case name of
     JStr s \<Rightarrow> chk (s \<in> set [profile_name b b d. b \<leftarrow> [4, 8], d \<leftarrow> [16, 32, 64]])
       (ValueError ''profile must name a supported matched Gemmini HP1 profile'') (Inr s)
   | _ \<Rightarrow> Inl (ValueError ''profile must name a supported matched Gemmini HP1 profile''))"

text \<open>\<^verbatim>\<open>doc.get(key, default)\<close>.\<close>

definition get_default :: "Record \<Rightarrow> string \<Rightarrow> jval \<Rightarrow> jval" where
  "get_default d k v = (case map_of d k of None \<Rightarrow> v | Some x \<Rightarrow> x)"

definition set_fields :: "nat \<Rightarrow> (string, int) dict \<Rightarrow> string \<times> jval \<Rightarrow> (string, int) dict res" where
  "set_fields bits cfg kv = bnd (cli_integer (snd kv) bits (fst kv)) (\<lambda>n. Inr (AList.update (fst kv) n cfg))"

definition set_request :: "(string, int) dict \<Rightarrow> string \<times> jval \<Rightarrow> (string, int) dict res" where
  "set_request request kv =
     bnd (if fst kv = ''submission''
          then (if snd kv = JStr ''planner-blocks'' then Inr (JInt 0)
                else if snd kv = JStr ''regression-tiles'' then Inr (JInt 1)
                else Inl (ValueError ''submission must be planner-blocks or regression-tiles''))
          else Inr (snd kv)) (\<lambda>v.
     set_fields (if fst kv \<in> set REQUEST_U64 then 64 else 32) request (fst kv, v))"

text \<open>A retrieved event with its alias of the submission index.\<close>

definition event_row :: "int \<times> Record \<Rightarrow> jval res" where
  "event_row ev =
     chk (fst ev = 0) (ValueError ''event retrieval failed'') (
     bnd (item (snd ev) ''loop'') (\<lambda>v. Inr (JObj (AList.update ''submission_index'' v (snd ev)))))"

definition field_ints :: "string list \<Rightarrow> (string, int) dict \<Rightarrow> Record" where
  "field_ints names d = map (\<lambda>k. (k, JInt (case map_of d k of None \<Rightarrow> 0 | Some n \<Rightarrow> n))) names"

definition estimate_answer :: "cycle_native \<Rightarrow> bool \<Rightarrow> jval \<Rightarrow> (Record \<times> cycle_answer) res" where
  "estimate_answer N service document =
     bnd (object_fields document [''profile'', ''timing_profile'', ''timing'', ''request'', ''limits'', ''original_k'', ''runs'']
            ''input'') (\<lambda>doc.
     bnd (matched_profile (rget doc ''profile'')) (\<lambda>name.
     chk (py_eq (get_default doc ''timing_profile'' (JStr ''rtl-regression'')) (JStr ''rtl-regression''))
       (ValueError ''unsupported timing profile'') (
     bnd (cn_hardware N name) (\<lambda>hardware.
     chk (cn_struct_size_ok N) (ValueError ''C library and Python binding ABI differ'') (
     bnd (object_fields (get_default doc ''timing'' (JObj []))
            (filter (\<lambda>k. k \<noteq> ''reserved'' \<and> k \<noteq> ''revision'') TIMING_FIELDS) ''timing'') (\<lambda>td.
     bnd (foldm (set_fields 32) (cn_timing_init N) td) (\<lambda>timing.
     bnd (object_fields (get_default doc ''limits'' (JObj [])) [''max_cycles'', ''max_fragments'', ''max_trace_events'']
            ''limits'') (\<lambda>ld.
     bnd (foldm (set_fields 64) (cn_limits_init N) ld) (\<lambda>limits.
     bnd (object_fields (rget doc ''request'') (REQUEST_U64 @ REQUEST_U32) ''request'') (\<lambda>data.
     chk (list_all (has_key data) [''m'', ''n'', ''k'']) (ValueError ''m, n, k are required'') (
     bnd (foldm set_request (cn_request_init N) data) (\<lambda>request.
     bnd (compact_run_view doc (case map_of request ''k'' of None \<Rightarrow> 0 | Some k \<Rightarrow> k)) (\<lambda>run_view.
     chk (cn_create N hardware timing limits)
       (ValueError ''C API rejected the resolved timing/hardware configuration'') (
     let answer = cn_estimate N service hardware timing limits request run_view in
     chk (ca_status answer = 0) (ValueError (''cycle model status: '' @ ca_message answer)) (
     bnd (mapr event_row (ca_events answer)) (\<lambda>trace.
     Inr ([(''status'', JStr ''PASS''), (''classification'', JStr ''cycle model result''), (''profile'', JStr name),
           (''timing_profile'', JStr ''rtl-regression''), (''value_free'', JBool True),
           (''resolved_hardware'', JObj (field_ints HARDWARE_FIELDS hardware)),
           (''timing'', JObj (field_ints (filter (\<lambda>k. k \<noteq> ''reserved'') TIMING_FIELDS) timing)),
           (''result'', JObj (field_ints RESULT_FIELDS (ca_result answer))), (''events'', JArr trace)],
          answer)))))))))))))))))"

definition estimate :: "cycle_native \<Rightarrow> jval \<Rightarrow> Record res" where
  "estimate N document = bnd (estimate_answer N False document) (\<lambda>(r, _). Inr r)"

definition estimate_service :: "cycle_native \<Rightarrow> Record \<Rightarrow> Record res" where
  "estimate_service N document =
     bnd (estimate_answer N True (JObj document)) (\<lambda>(r, answer).
     let service = field_ints SERVICE_FIELDS (ca_service answer) in
     chk (rget service ''abi_version'' = JInt 1 \<and> rget service ''struct_size'' = JInt (cn_service_size N))
       (ValueError ''C library and service binding ABI differ'') (
     Inr (r @ [(''service'', JObj service), (''service_scope'', JStr ''drained-single-work-reference-memory'')])))"

section \<open>The trace parser and the front end agree on compact runs\<close>

definition span_json :: "RunSpan \<Rightarrow> jval" where
  "span_json sp = JObj [(''original_block_id'', JInt (original_block_id sp)), (''original_k_mask'', JInt (original_k_mask sp)),
     (''compact_k_begin'', JInt (compact_k_begin sp)), (''compact_k_count'', JInt (compact_k_count sp))]"

text \<open>The condition a run must meet, given the cursor and the previous block.\<close>

definition span_ok :: "int \<Rightarrow> int \<Rightarrow> int \<Rightarrow> RunSpan \<Rightarrow> bool" where
  "span_ok original_k cursor previous sp \<longleftrightarrow>
     0 \<le> original_block_id sp \<and> original_block_id sp > previous \<and> 0 \<le> original_k_mask sp \<and> original_k_mask sp < 2 ^ 32 \<and>
     compact_k_count sp > 0 \<and> compact_k_count sp \<le> 32 \<and>
     int (bit_count (nat (original_k_mask sp))) = compact_k_count sp \<and> compact_k_begin sp = cursor \<and>
     original_block_id sp * 32 + int (bit_length (nat (original_k_mask sp))) \<le> original_k"

lemma compact_step_span:
  assumes "span_ok original_k cursor previous sp" "original_k < 2 ^ 32" "0 \<le> cursor" "cursor < 2 ^ 32"
  shows "compact_step original_k (spans, cursor, previous) (span_json sp) =
    Inr (spans @ [sp], cursor + compact_k_count sp, original_block_id sp)"
proof -
  have "original_block_id sp < 2 ^ 32" using assms(1,2) by (simp add: span_ok_def)
  then show ?thesis using assms
    by (simp add: compact_step_def span_json_def object_fields_def RUN_KEYS_def item_def cli_integer_def span_ok_def)
qed

text \<open>The spans a sequence of accepted runs leaves.\<close>

fun spans_ok :: "int \<Rightarrow> int \<Rightarrow> int \<Rightarrow> RunSpan list \<Rightarrow> bool" where
  "spans_ok original_k cursor previous [] \<longleftrightarrow> True"
| "spans_ok original_k cursor previous (s # ss) \<longleftrightarrow>
     span_ok original_k cursor previous s \<and> spans_ok original_k (cursor + compact_k_count s) (original_block_id s) ss"

definition spans_total :: "RunSpan list \<Rightarrow> int" where
  "spans_total ss = sum_list (map compact_k_count ss)"

lemma spans_total_simps [simp]: "spans_total [] = 0" "spans_total (s # ss) = compact_k_count s + spans_total ss"
  by (simp_all add: spans_total_def)

lemma spans_ok_total: "spans_ok original_k cursor previous ss \<Longrightarrow> 0 \<le> spans_total ss"
  by (induction ss arbitrary: cursor previous) (fastforce simp: span_ok_def)+

lemma compact_fold:
  assumes "spans_ok original_k cursor previous ss" "original_k < 2 ^ 32" "0 \<le> cursor" "cursor + spans_total ss < 2 ^ 32"
  shows "\<exists>p. foldm (compact_step original_k) (acc, cursor, previous) (map span_json ss) = Inr (acc @ ss, cursor + spans_total ss, p)"
  using assms
proof (induction ss arbitrary: acc cursor previous)
  case (Cons s ss)
  from Cons.prems(1) have s: "span_ok original_k cursor previous s"
    and ss: "spans_ok original_k (cursor + compact_k_count s) (original_block_id s) ss" by simp_all
  have n: "0 < compact_k_count s" "0 \<le> spans_total ss"
    using s spans_ok_total [OF ss] by (simp_all add: span_ok_def)
  have b: "cursor < 2 ^ 32" "0 \<le> cursor + compact_k_count s" "cursor + compact_k_count s + spans_total ss < 2 ^ 32"
    using n Cons.prems(3,4) by simp_all
  from Cons.IH [OF ss Cons.prems(2) b(2,3), of "acc @ [s]"] compact_step_span [OF s Cons.prems(2,3) b(1), of acc]
  show ?case by (simp add: add.assoc)
qed simp

lemma run_step_count: "run_step f original_k (spans, cursor, previous) raw = Inr st' \<Longrightarrow> compact_k_count (last (fst st')) \<le> 32"
  by (auto simp: run_step_def res_simps)

lemma run_fold:
  assumes "foldm (run_step f original_k) (acc, cursor, previous) raws = Inr (spans, cursor', previous')"
  shows "\<exists>ss. spans = acc @ ss \<and> cursor' = cursor + spans_total ss \<and> spans_ok original_k cursor previous ss \<and> length ss = length raws"
  using assms
proof (induction raws arbitrary: acc cursor previous)
  case (Cons r raws)
  from Cons.prems obtain st where st: "run_step f original_k (acc, cursor, previous) r = Inr st"
    and rest0: "foldm (run_step f original_k) st raws = Inr (spans, cursor', previous')" by (auto simp: bnd_eq_Inr)
  from run_step_Inr [OF st] obtain s where s0: "st = (acc @ [s], cursor + compact_k_count s, original_block_id s)"
    and s1: "original_block_id s > previous" "0 \<le> original_block_id s" "0 < original_k_mask s" "original_k_mask s < 2 ^ 32"
    "int (bit_count (nat (original_k_mask s))) = compact_k_count s" "compact_k_begin s = cursor" "0 < compact_k_count s"
    "original_block_id s * 32 + int (bit_length (nat (original_k_mask s))) \<le> original_k" by blast
  have s: "span_ok original_k cursor previous s" using s1 run_step_count [OF st] by (simp add: span_ok_def s0)
  note rest = rest0 [unfolded s0]
  from Cons.IH [OF rest] obtain ss where "spans = (acc @ [s]) @ ss" "cursor' = cursor + compact_k_count s + spans_total ss"
    "spans_ok original_k (cursor + compact_k_count s) (original_block_id s) ss" "length ss = length raws" by blast
  with s show ?case by (intro exI [of _ "s # ss"]) (simp add: add.assoc)
qed simp

end
