(* ===== verification/Completed_Ids.thy ===== *)
theory Completed_Ids
  imports Trace_Schema "HOL-Library.FSet"
begin

text \<open>
  Identity registries. Three parts of the trace validator (calls, dispatch parents and
  operations) rely on a set of completed identities; \<^verbatim>\<open>CompletedIDs\<close> of
  \<^verbatim>\<open>sim/cycle/npu_trace_calls.py\<close> implements it with a cursor below which everything
  is completed and a set of identities ahead of it. The locale \<open>id_registry\<close> is the contract
  its clients use; its interpretation on the model shows that the representation implements a
  set, and that the comparison of the cursor with a count decides that the identities are
  exactly the numbers below that count.
\<close>

record CompletedIDs =
  cursor :: int
  ahead :: "int fset"

definition CompletedIDs_init :: CompletedIDs where
  "CompletedIDs_init = \<lparr>cursor = 0, ahead = {||}\<rparr>"

definition ids_contains :: "CompletedIDs \<Rightarrow> int \<Rightarrow> bool" where
  "ids_contains s identity \<longleftrightarrow> identity < cursor s \<or> identity |\<in>| ahead s"

text \<open>The \<^verbatim>\<open>while\<close> loop of \<^verbatim>\<open>add\<close>: absorb what the cursor reaches.\<close>

function ids_absorb :: "CompletedIDs \<Rightarrow> CompletedIDs" where
  "ids_absorb s =
     (if cursor s |\<in>| ahead s
      then ids_absorb \<lparr>cursor = cursor s + 1, ahead = ahead s |-| {|cursor s|}\<rparr>
      else s)"
  by auto

termination ids_absorb
  by (relation "measure (\<lambda>s. fcard (ahead s))") (auto simp: fcard.rep_eq card_gt_0_iff intro!: diff_less)

declare ids_absorb.simps [simp del]

definition ids_add :: "CompletedIDs \<Rightarrow> int \<Rightarrow> CompletedIDs res" where
  "ids_add s identity =
     require (\<not> ids_contains s identity) ''duplicate completed identity''
       (Inr (ids_absorb (s\<lparr>ahead := finsert identity (ahead s)\<rparr>)))"

section \<open>The contract\<close>

locale id_registry =
  fixes repr :: "'s \<Rightarrow> int set"
    and valid :: "'s \<Rightarrow> bool"
    and start :: 's
    and contains :: "'s \<Rightarrow> int \<Rightarrow> bool"
    and add :: "'s \<Rightarrow> int \<Rightarrow> 's res"
    and mark :: "'s \<Rightarrow> int"
  assumes start_valid: "valid start"
    and start_repr: "repr start = {..<0}"
    and contains_repr: "valid s \<Longrightarrow> contains s i \<longleftrightarrow> i \<in> repr s"
    and add_fresh: "valid s \<Longrightarrow> i \<notin> repr s \<Longrightarrow> \<exists>s'. add s i = Inr s' \<and> valid s' \<and> repr s' = insert i (repr s)"
    and add_known: "valid s \<Longrightarrow> i \<in> repr s \<Longrightarrow> \<exists>e. add s i = Inl e"
    and mark_least: "valid s \<Longrightarrow> {..<mark s} \<subseteq> repr s \<and> mark s \<notin> repr s"
begin

lemma add_Inr:
  assumes "valid s" "add s i = Inr s'"
  shows "valid s' \<and> repr s' = insert i (repr s) \<and> i \<notin> repr s"
proof (cases "i \<in> repr s")
  case True
  with add_known [OF assms(1), of i] assms(2) show ?thesis by auto
next
  case False
  with add_fresh [OF assms(1), of i] assms(2) show ?thesis by auto
qed

lemma adds_Inr:
  "valid s \<Longrightarrow> foldm add s is = Inr s' \<Longrightarrow>
   valid s' \<and> repr s' = repr s \<union> set is \<and> distinct is \<and> set is \<inter> repr s = {}"
proof (induction "is" arbitrary: s)
  case Nil
  then show ?case by simp
next
  case (Cons i "is")
  from Cons.prems(2) obtain t where t: "add s i = Inr t" "foldm add t is = Inr s'"
    by (auto simp: bnd_eq_Inr)
  note step = add_Inr [OF Cons.prems(1) t(1)]
  with Cons.IH [of t] t(2) show ?case by auto
qed

lemma adds_total:
  "valid s \<Longrightarrow> distinct is \<Longrightarrow> set is \<inter> repr s = {} \<Longrightarrow> \<exists>s'. foldm add s is = Inr s'"
proof (induction "is" arbitrary: s)
  case Nil
  then show ?case by simp
next
  case (Cons i "is")
  then obtain t where t: "add s i = Inr t" "valid t" "repr t = insert i (repr s)"
    using add_fresh [of s i] by auto
  with Cons.IH [of t] Cons.prems show ?case by auto
qed

text \<open>The mark is determined by the set: it is the first missing identity.\<close>

lemma mark_eq_iff: "valid s \<Longrightarrow> mark s = n \<longleftrightarrow> {..<n} \<subseteq> repr s \<and> n \<notin> repr s"
  using mark_least [of s]
  by (metis lessThan_iff linorder_neqE subsetD)

text \<open>If as many identities were added as the mark says, there is none beyond the mark.\<close>

lemma mark_count:
  assumes v: "valid s" and fold: "foldm add start is = Inr s" and n: "mark s = int (length is)"
  shows "repr s = {..<int (length is)} \<and> distinct is \<and> set is = {0..<int (length is)}"
proof -
  from adds_Inr [OF start_valid fold] have r: "repr s = {..<0} \<union> set is" and d: "distinct is"
    and disj: "set is \<inter> {..<0} = {}" by (simp_all add: start_repr)
  have "{0..<int (length is)} \<subseteq> set is"
    using mark_least [OF v] r n by (auto simp: subset_iff)
  moreover have "card (set is) = card {0..<int (length is)}"
    using d by (simp add: distinct_card)
  ultimately have "{0..<int (length is)} = set is"
    by (simp add: card_subset_eq)
  moreover have "{..<0} \<union> {0..<int (length is)} = {..<int (length is)}" by auto
  ultimately show ?thesis using r d by simp
qed

end

section \<open>The cursor implements the set\<close>

definition ids_set :: "CompletedIDs \<Rightarrow> int set" where
  "ids_set s = {..<cursor s} \<union> fset (ahead s)"

definition ids_valid :: "CompletedIDs \<Rightarrow> bool" where
  "ids_valid s \<longleftrightarrow> 0 \<le> cursor s \<and> (\<forall>i. i |\<in>| ahead s \<longrightarrow> cursor s < i)"

lemma ids_absorb_props:
  "(\<forall>i. i |\<in>| ahead s \<longrightarrow> cursor s \<le> i) \<Longrightarrow> 0 \<le> cursor s \<Longrightarrow>
   ids_valid (ids_absorb s) \<and> ids_set (ids_absorb s) = ids_set s"
proof (induction s rule: ids_absorb.induct)
  case (1 s)
  show ?case
  proof (cases "cursor s |\<in>| ahead s")
    case True
    let ?t = "\<lparr>cursor = cursor s + 1, ahead = ahead s |-| {|cursor s|}\<rparr>"
    have "ids_set ?t = ids_set s"
    proof (rule set_eqI)
      fix i show "i \<in> ids_set ?t \<longleftrightarrow> i \<in> ids_set s"
        using True by (cases "i = cursor s") (auto simp: ids_set_def)
    qed
    moreover have "\<forall>i. i |\<in>| ahead ?t \<longrightarrow> cursor ?t \<le> i" using "1.prems"(1) by force
    ultimately show ?thesis using "1.IH" [OF True] "1.prems"(2) True
      by (simp add: ids_absorb.simps [of s])
  next
    case False
    with "1.prems" show ?thesis by (force simp: ids_absorb.simps [of s] ids_valid_def order.order_iff_strict)
  qed
qed

lemma ids_add_fresh:
  assumes "ids_valid s" "i \<notin> ids_set s"
  shows "\<exists>s'. ids_add s i = Inr s' \<and> ids_valid s' \<and> ids_set s' = insert i (ids_set s)"
proof -
  let ?t = "s\<lparr>ahead := finsert i (ahead s)\<rparr>"
  have "ids_set ?t = insert i (ids_set s)" by (auto simp: ids_set_def)
  moreover have "ids_valid (ids_absorb ?t) \<and> ids_set (ids_absorb ?t) = ids_set ?t"
    using assms by (intro ids_absorb_props) (auto simp: ids_valid_def ids_set_def)
  ultimately show ?thesis using assms
    by (auto simp: ids_add_def require_def ids_contains_def ids_set_def)
qed

interpretation ids: id_registry ids_set ids_valid CompletedIDs_init ids_contains ids_add cursor
proof
  show "ids_valid CompletedIDs_init" by (simp add: ids_valid_def CompletedIDs_init_def)
  show "ids_set CompletedIDs_init = {..<0}" by (simp add: ids_set_def CompletedIDs_init_def)
next
  fix s i assume v: "ids_valid s"
  show "ids_contains s i \<longleftrightarrow> i \<in> ids_set s" by (simp add: ids_contains_def ids_set_def)
  show "\<exists>s'. ids_add s i = Inr s' \<and> ids_valid s' \<and> ids_set s' = insert i (ids_set s)"
    if "i \<notin> ids_set s" using v that by (rule ids_add_fresh)
  show "\<exists>e. ids_add s i = Inl e" if "i \<in> ids_set s"
    using that by (simp add: ids_add_def require_def ids_contains_def ids_set_def)
  show "{..<cursor s} \<subseteq> ids_set s \<and> cursor s \<notin> ids_set s"
    using v by (auto simp: ids_set_def ids_valid_def)
qed

text \<open>C19. \<open>CompletedIDs\<close> implements a set of identities: a sequence of additions is accepted
  exactly when no identity repeats and none is negative, and then an identity is contained
  exactly when it was added (or is negative).\<close>

theorem completed_ids_refine_set:
  "(case foldm ids_add CompletedIDs_init is of
      Inr s \<Rightarrow> distinct is \<and> (\<forall>i \<in> set is. 0 \<le> i) \<and> (\<forall>i. ids_contains s i \<longleftrightarrow> i < 0 \<or> i \<in> set is)
    | Inl e \<Rightarrow> \<not> (distinct is \<and> (\<forall>i \<in> set is. 0 \<le> i)))"
proof (cases "foldm ids_add CompletedIDs_init is")
  case (Inl e)
  with ids.adds_total [OF ids.start_valid, of "is"] show ?thesis
    by (force simp: ids.start_repr)
next
  case (Inr s)
  from ids.adds_Inr [OF ids.start_valid Inr] ids.contains_repr [of s] show ?thesis
    by (auto simp: Inr ids.start_repr)
qed

lemma completed_ids_refine_set_witness:
  "\<not> ids_contains \<lparr>cursor = 3, ahead = {||}\<rparr> 3 \<and>
   foldm ids_add CompletedIDs_init [1, 2, 0] = Inr \<lparr>cursor = 3, ahead = {||}\<rparr>"
proof -
  have run: "foldm ids_add CompletedIDs_init [1, 2, 0] = Inr \<lparr>cursor = 3, ahead = {||}\<rparr>"
    by (simp add: ids_add_def CompletedIDs_init_def require_def ids_contains_def ids_absorb.simps
        finsert_fminus_if)
  with completed_ids_refine_set [of "[1, 2, 0]"] show ?thesis by (simp only: sum.case) simp
qed

end
