(* ===== verification/Trace_Integrity.thy ===== *)
theory Trace_Integrity
  imports Trace_Calls Trace_Runs
begin

text \<open>
  The trace validator \<^verbatim>\<open>TraceState\<close> of \<^verbatim>\<open>sim/cycle/npu_trace_integrity.py\<close>:
  one function per handler, \<open>consume\<close> dispatching on the record kind, and the readers
  \<open>read_records\<close> and \<open>start_trace\<close>.
\<close>

record Operation =
  op_works :: int
  op_node :: "int option"
  op_layer :: "string option"
  op_name :: "string option"
  dense_shape :: "(int \<times> int \<times> int) option"
  op_semantic :: "SemanticKey option"

definition Operation_init :: Operation where
  "Operation_init = \<lparr>op_works = 0, op_node = None, op_layer = None, op_name = None,
     dense_shape = None, op_semantic = None\<rparr>"

record Dispatch =
  dp_first :: Work
  next_row :: int
  next_stripe :: int

record TraceState =
  ts_run :: Run
  phases :: "Record list"
  pending :: "(int, Operation) dict"
  dispatches :: "(int, Dispatch) dict"
  dispatch_done :: CompletedIDs
  operation_done :: CompletedIDs
  ts_calls :: Calls
  ts_hosts :: Hosts
  operation_counts :: "(string, int) dict"
  work_counts :: "(string, int) dict"
  eligible_cpu :: int
  completed_operations :: int
  ended :: bool

definition TraceState_init :: "Run \<Rightarrow> TraceState" where
  "TraceState_init run = \<lparr>ts_run = run, phases = [], pending = [], dispatches = [],
     dispatch_done = CompletedIDs_init, operation_done = CompletedIDs_init, ts_calls = Calls_init,
     ts_hosts = Hosts_init, operation_counts = map (\<lambda>k. (k, 0)) CLASSES, work_counts = [],
     eligible_cpu = 0, completed_operations = 0, ended = False\<rparr>"

text \<open>\<^verbatim>\<open>Counter\<close>: \<^verbatim>\<open>c[k]\<close> is 0 for a missing key, \<^verbatim>\<open>total()\<close> sums the values.\<close>

definition counter_get :: "('k, int) dict \<Rightarrow> 'k \<Rightarrow> int" where
  "counter_get c k = (case map_of c k of None \<Rightarrow> 0 | Some n \<Rightarrow> n)"

definition counter_inc :: "('k, int) dict \<Rightarrow> 'k \<Rightarrow> ('k, int) dict" where
  "counter_inc c k = AList.update k (counter_get c k + 1) c"

definition counter_total :: "('k, int) dict \<Rightarrow> int" where
  "counter_total c = sum_list (map snd c)"

definition ts_operation :: "TraceState \<Rightarrow> int \<Rightarrow> (Operation \<times> TraceState) res" where
  "ts_operation st identity =
     require (\<not> ids_contains (operation_done st) identity) ''record after operation completion'' (
     case map_of (pending st) identity of
       Some op \<Rightarrow> Inr (op, st)
     | None \<Rightarrow> Inr (Operation_init, st\<lparr>pending := AList.update identity Operation_init (pending st)\<rparr>))"

definition phase_boundary :: "TraceState \<Rightarrow> unit res" where
  "phase_boundary st =
     require (pending st = [] \<and> dispatches st = []) ''incomplete operation/parent at phase boundary'' (
     bnd (calls_boundary (ts_calls st)) (\<lambda>_.
     bnd (hosts_boundary (ts_hosts st)) (\<lambda>_.
     require (cursor (operation_done st) = completed_operations st)
       ''registered operation identity crosses phase boundary'' (Inr ()))))"

definition ts_phase :: "TraceState \<Rightarrow> Record \<Rightarrow> TraceState res" where
  "ts_phase st r =
     bnd (phase_boundary st) (\<lambda>_.
     bnd (integer r ''phase_id'') (\<lambda>identity.
     require (identity = int (length (phases st))) ''nonmonotonic phase identity'' (
     bnd (integer r ''input_tokens'') (\<lambda>_.
     bnd (item r ''phase_kind'') (\<lambda>kind.
     bnd (item r ''decode_index'') (\<lambda>index.
     require (if identity = 0 then py_eq kind (JStr ''prefill'') \<and> py_eq index JNull
              else py_eq kind (JStr ''decode'') \<and> py_eq index (JInt (identity - 1)))
       ''invalid prefill/decode phase'' (
     bnd (opt_integer r ''decode_index'') (\<lambda>_.
     Inr (st\<lparr>phases := phases st @ [r]\<rparr>)))))))))"

text \<open>The part of \<^verbatim>\<open>TraceState.work\<close> on the operation the work belongs to.\<close>

definition work_operation :: "Operation \<Rightarrow> Work \<Rightarrow> Operation res" where
  "work_operation op w =
     require (op_node op \<in> {None, Some (w_node_id w)}) ''operation/node identity mismatch'' (
     require (op_layer op = None \<or> (op_layer op = Some (w_layer w) \<and> op_name op = Some (w_operation w)))
       ''work operation identity mismatch'' (
     let op1 = op\<lparr>op_node := Some (w_node_id w), op_layer := Some (w_layer w), op_name := Some (w_operation w)\<rparr>;
         shape = (w_parent_rows w, w_inputs w ! 1, w_inputs w ! 2) in
     if w_provenance w = ''dense_main'' then
       require (dense_shape op1 \<in> {None, Some shape}) ''dense operation shape mismatch''
         (Inr (op1\<lparr>dense_shape := Some shape\<rparr>))
     else Inr op1))"

text \<open>The fields that all works of one dispatch share.\<close>

definition dispatch_key :: "Work \<Rightarrow> int \<times> string \<times> string \<times> string \<times> string \<times> int \<times> int list \<times> int list" where
  "dispatch_key w = (w_operation_id w, w_layer w, w_operation w, w_provenance w, w_scope w,
     w_parent_rows w, take 2 (drop 1 (w_inputs w)), drop 6 (w_inputs w))"

text \<open>The part of \<^verbatim>\<open>TraceState.work\<close> on the dispatch (parent) the work belongs to.\<close>

definition work_dispatch :: "TraceState \<Rightarrow> Work \<Rightarrow> TraceState res" where
  "work_dispatch st w =
     require (\<not> ids_contains (dispatch_done st) (w_parent_id w)) ''work after completed parent'' (
     let d = (case map_of (dispatches st) (w_parent_id w) of
                Some d \<Rightarrow> d | None \<Rightarrow> \<lparr>dp_first = w, next_row = 0, next_stripe = 0\<rparr>) in
     require (dispatch_key w = dispatch_key (dp_first d)) ''dispatch parent/descriptor mismatch'' (
     require (w_row_begin w = next_row d) ''stripe overlap/gap'' (
     require (w_scope w \<noteq> ''stripe'' \<or> w_stripe_id w = Some (next_stripe d))
       ''duplicate/unordered stripe identity'' (
     let d1 = d\<lparr>next_row := next_row d + w_inputs w ! 0, next_stripe := next_stripe d + 1\<rparr> in
     if next_row d1 = w_parent_rows w then
       bnd (ids_add (dispatch_done st) (w_parent_id w)) (\<lambda>done.
       Inr (st\<lparr>dispatches := AList.delete (w_parent_id w) (dispatches st), dispatch_done := done\<rparr>))
     else Inr (st\<lparr>dispatches := AList.update (w_parent_id w) d1 (dispatches st)\<rparr>)))))"

definition ts_work :: "TraceState \<Rightarrow> Record \<Rightarrow> (TraceState \<times> Work) res" where
  "ts_work st r =
     bnd (parse_work r (ts_run st)) (\<lambda>w.
     bnd (hosts_before_work (ts_hosts st) r) (\<lambda>_.
     require (w_identity w = counter_total (work_counts st)) ''duplicate/gapped work identity'' (
     bnd (ts_operation st (w_operation_id w)) (\<lambda>(op, st1).
     bnd (work_operation op w) (\<lambda>op1.
     bnd (work_dispatch st1 w) (\<lambda>st2.
     bnd (calls_work (ts_calls st2) w) (\<lambda>calls.
     Inr (st2\<lparr>pending := AList.update (w_operation_id w) (op1\<lparr>op_works := op_works op1 + 1\<rparr>) (pending st2),
              ts_calls := calls,
              work_counts := counter_inc (work_counts st2) (w_provenance w)\<rparr>, w))))))))"

definition ts_call :: "TraceState \<Rightarrow> Record \<Rightarrow> TraceState res" where
  "ts_call st r =
     bnd (integer r ''operation_id'') (\<lambda>identity.
     bnd (ts_operation st identity) (\<lambda>(op, st1).
     bnd (integer r ''node_id'') (\<lambda>node.
     require (op_node op \<in> {None, Some node}) ''operation/call node mismatch'' (
     bnd (calls_stage (ts_calls st1) r) (\<lambda>calls.
     Inr (st1\<lparr>pending := AList.update identity (op\<lparr>op_node := Some node\<rparr>) (pending st1),
              ts_calls := calls\<rparr>))))))"

definition ts_host :: "TraceState \<Rightarrow> Record \<Rightarrow> TraceState res" where
  "ts_host st r = bnd (hosts_consume (ts_hosts st) r (ts_calls st)) (\<lambda>(hs, cs).
     Inr (st\<lparr>ts_hosts := hs, ts_calls := cs\<rparr>))"

text \<open>The checks of \<^verbatim>\<open>TraceState.complete_operation\<close> on the record, giving the
  classification.\<close>

definition completion_checks :: "Record \<Rightarrow> Operation \<Rightarrow> string res" where
  "completion_checks r op =
     bnd (item r ''status'') (\<lambda>status.
     require (py_eq status (JStr ''success'')) ''target operation failed'' (
     bnd (text_of r ''selected_target'') (\<lambda>classification.
     require (classification \<in> set CLASSES) ''unsupported operation classification'' (
     bnd (item r ''target_eligible'') (\<lambda>eligible.
     require (eligible = JBool True \<or> eligible = JBool False) ''target eligibility must be boolean'' (
     bnd (item r ''reason'') (\<lambda>reason.
     require (is_str reason) ''target selection reason must be string'' (
     bnd (integer r ''node_id'') (\<lambda>node.
     require (op_node op \<in> {None, Some node}) ''target operation/node mismatch'' (
     bnd (mapr (text_of r) [''layer'', ''operation'', ''actual_backend'', ''activation_type'', ''weight_type''])
       (\<lambda>texts.
     bnd (mapr (integer r) [''m'', ''n'', ''k'']) (\<lambda>shape.
     require ((classification = ''EXCLUDED'') = list_ex (\<lambda>v. v = 0) shape)
       ''only empty target operations are excluded'' (
     require (dense_shape op \<in> {None, Some (shape ! 0, shape ! 1, shape ! 2)})
       ''target operation/dense work shape mismatch'' (
     require (op_layer op = None \<or> (op_layer op = Some (texts ! 0) \<and> op_name op = Some (texts ! 1)))
       ''target operation/work identity mismatch'' (
     bnd (integer r ''npu_work_count'') (\<lambda>works.
     require (works = op_works op) ''operation work count mismatch'' (
     require ((classification = ''TARGET_NPU'') = (op_works op > 0)) ''operation route/work mismatch'' (
     Inr classification))))))))))))))))))"

definition ts_complete_operation :: "TraceState \<Rightarrow> Record \<Rightarrow> TraceState res" where
  "ts_complete_operation st0 r =
     bnd (integer r ''operation_id'') (\<lambda>identity.
     bnd (ts_operation st0 identity) (\<lambda>(op, st).
     bnd (completion_checks r op) (\<lambda>classification.
     require (\<not> list_ex (\<lambda>(_, d). w_operation_id (dp_first d) = identity) (dispatches st))
       ''operation completion lacks full stripe coverage'' (
     bnd (hosts_operation_complete (ts_hosts st) identity) (\<lambda>hosts.
     bnd (calls_operation_complete (ts_calls st) identity) (\<lambda>calls.
     bnd (item r ''target_eligible'') (\<lambda>eligible.
     bnd (ids_add (operation_done st) identity) (\<lambda>done.
     Inr (st\<lparr>ts_hosts := hosts, ts_calls := calls,
             eligible_cpu := eligible_cpu st +
               (if classification = ''ORDINARY_CPU'' \<and> eligible = JBool True then 1 else 0),
             operation_counts := counter_inc (operation_counts st) classification,
             completed_operations := completed_operations st + 1,
             pending := AList.delete identity (pending st),
             operation_done := done\<rparr>)))))))))"

definition expected_counts :: "TraceState \<Rightarrow> (string \<times> int) list" where
  "expected_counts st =
     [(''registered_operation_count'', completed_operations st),
      (''completed_operation_count'', completed_operations st),
      (''npu_work_count'', counter_total (work_counts st)),
      (''call_count'', cs_count (ts_calls st)),
      (''phase_count'', int (length (phases st))),
      (''host_stage_count'', h_count (ts_hosts st)),
      (''completed_host_stage_count'', h_completed (ts_hosts st)),
      (''potal_host_count'', counter_get (h_counts (ts_hosts st)) ''POTAL_HOST''),
      (''functional_emulation_count'', counter_get (h_counts (ts_hosts st)) ''FUNCTIONAL_EMULATION''),
      (''target_npu_count'', counter_get (operation_counts st) ''TARGET_NPU''),
      (''ordinary_cpu_count'', counter_get (operation_counts st) ''ORDINARY_CPU''),
      (''unsupported_count'', counter_get (operation_counts st) ''UNSUPPORTED''),
      (''excluded_count'', counter_get (operation_counts st) ''EXCLUDED'')]"

definition check_count :: "Record \<Rightarrow> unit \<Rightarrow> string \<times> int \<Rightarrow> unit res" where
  "check_count r u kv =
     bnd (integer r (fst kv)) (\<lambda>n. require (n = snd kv) (''independent run count mismatch: '' @ fst kv) (Inr ()))"

definition ts_end :: "TraceState \<Rightarrow> Record \<Rightarrow> TraceState res" where
  "ts_end st r =
     bnd (phase_boundary st) (\<lambda>_.
     bnd (item r ''status'') (\<lambda>status.
     bnd (item r ''reason'') (\<lambda>reason.
     require (phases st \<noteq> [] \<and> py_eq status (JStr ''success'') \<and> is_str reason) ''run incomplete/failed'' (
     bnd (foldm (check_count r) () (expected_counts st)) (\<lambda>_.
     require (cursor (operation_done st) = completed_operations st \<and> ahead (operation_done st) = {||})
       ''missing registered target operation'' (
     Inr (st\<lparr>ended := True\<rparr>)))))))"

text \<open>The semantic identity check of \<^verbatim>\<open>consume\<close>, for every record inside a phase.\<close>

definition check_semantic :: "TraceState \<Rightarrow> Record \<Rightarrow> TraceState res" where
  "check_semantic st r =
     require (phases st \<noteq> []) ''missing/stale phase'' (
     bnd (integer r ''phase_id'') (\<lambda>phase.
     require (phase = int (length (phases st)) - 1) ''missing/stale phase'' (
     bnd (semantic_key r) (\<lambda>key.
     bnd (item (last (phases st)) ''phase_kind'') (\<lambda>pk.
     bnd (item (last (phases st)) ''decode_index'') (\<lambda>di.
     require (py_eq pk (JStr (fst key)) \<and>
              py_eq di (case fst (snd key) of None \<Rightarrow> JNull | Some n \<Rightarrow> JInt n)) ''semantic phase mismatch'' (
     bnd (integer r ''operation_id'') (\<lambda>identity.
     bnd (ts_operation st identity) (\<lambda>(op, st1).
     require (op_semantic op \<in> {None, Some key}) ''operation semantic identity changed'' (
     Inr (st1\<lparr>pending := AList.update identity (op\<lparr>op_semantic := Some key\<rparr>) (pending st1)\<rparr>)))))))))))"

definition consume :: "TraceState \<Rightarrow> Record \<Rightarrow> (TraceState \<times> Work option) res" where
  "consume st r =
     bnd (item r ''run_id'') (\<lambda>rid.
     require (\<not> ended st \<and> py_eq rid (JStr (run_identity (ts_run st)))) ''record after run end or mixed run identity'' (
     bnd (item r ''collection_run_id'') (\<lambda>coll.
     require (py_eq coll (JInt (run_collection_id (ts_run st)))) ''mixed collection identity'' (
     bnd (item r ''run_config_id'') (\<lambda>config.
     require (py_eq config (JStr (run_run_config_id (ts_run st)))) ''mixed run configuration reference'' (
     bnd (text_of r ''kind'') (\<lambda>kind.
     bnd (if kind \<noteq> ''PHASE'' \<and> kind \<noteq> ''RUN_END'' then check_semantic st r else Inr st) (\<lambda>st1.
     if kind = ''NPU_WORK'' then bnd (ts_work st1 r) (\<lambda>(st2, w). Inr (st2, Some w))
     else bnd (if kind = ''PHASE'' then ts_phase st1 r
               else if kind = ''NPU_CALL'' then ts_call st1 r
               else if kind = ''HOST_STAGE'' then ts_host st1 r
               else if kind = ''TARGET_OPERATION'' then ts_complete_operation st1 r
               else if kind = ''RUN_END'' then ts_end st1 r
               else Inl (NpuTraceError ''npu-trace: duplicate RUN or unknown record kind''))
       (\<lambda>st2. Inr (st2, None))))))))))"

definition ts_summary :: "TraceState \<Rightarrow> Record res" where
  "ts_summary st =
     require (ended st) ''missing RUN_END'' (Inr
       [(''profile'', JStr (run_profile (ts_run st))), (''run_id'', JStr (run_identity (ts_run st))),
        (''collection_run_id'', JInt (run_collection_id (ts_run st))),
        (''run_config_id'', JStr (run_run_config_id (ts_run st))),
        (''npu_work_count'', JInt (counter_total (work_counts st))),
        (''dense_work_count'', JInt (counter_get (work_counts st) ''dense_main'')),
        (''residual_work_count'', JInt (counter_get (work_counts st) ''residual'')),
        (''phase_count'', JInt (int (length (phases st)))),
        (''operation_count'', JInt (completed_operations st)),
        (''operation_counts'', JObj (map (\<lambda>(k, n). (k, JInt n)) (operation_counts st))),
        (''eligible_cpu_operation_count'', JInt (eligible_cpu st)),
        (''call_count'', JInt (cs_count (ts_calls st))),
        (''host_stage_count'', JInt (h_count (ts_hosts st))),
        (''potal_host_count'', JInt (counter_get (h_counts (ts_hosts st)) ''POTAL_HOST'')),
        (''functional_emulation_count'', JInt (counter_get (h_counts (ts_hosts st)) ''FUNCTIONAL_EMULATION'')),
        (''target_operation_coverage'', JStr ''PASS''), (''target_work_validation'', JStr ''PASS''),
        (''hardware_contract_sha256'', JStr (run_contract_hash (ts_run st)))])"

text \<open>\<^verbatim>\<open>read_records\<close> on the decoded lines of the log (blank lines and the decoder are
  outside the model) and \<^verbatim>\<open>start_trace\<close>.\<close>

definition read_record :: "int \<times> Record list \<Rightarrow> jval \<Rightarrow> (int \<times> Record list) res" where
  "read_record st line =
     bnd (parse_record line) (\<lambda>r.
     bnd (integer r ''sequence'') (\<lambda>n.
     require (n = fst st) ''duplicate/gapped/nonmonotonic sequence'' (Inr (fst st + 1, snd st @ [r]))))"

definition read_records :: "jval list \<Rightarrow> Record list res" where
  "read_records lines = bnd (foldm read_record (0, []) lines) (\<lambda>(_, rs). Inr rs)"

definition start_trace :: "ext \<Rightarrow> Record list \<Rightarrow> (TraceState \<times> Record list) res" where
  "start_trace E records = (case records of
     [] \<Rightarrow> Inl (NpuTraceError ''npu-trace: empty log'')
   | r # rest \<Rightarrow> bnd (parse_run E r) (\<lambda>run. Inr (TraceState_init run, rest)))"

end
