(* ===== verification/Trace_Theorems.thy ===== *)
theory Trace_Theorems
  imports Trace_Integrity
begin

text \<open>
  What an accepted trace guarantees. The invariants relate the validator's state to the records
  and works already consumed; each handler preserves them, and at a phase boundary or at the end
  of the run they give the properties of the trace as a whole.
\<close>

section \<open>Inversion of the handlers\<close>

lemmas inv_only = bnd_eq_Inr require_eq_Inr integer_eq_Inr text_eq_Inr sum.inject prod.inject
  split_paired_Ex prod.case

definition trace_step :: "TraceState \<times> Work list \<Rightarrow> Record \<Rightarrow> (TraceState \<times> Work list) res" where
  "trace_step sw r = bnd (consume (fst sw) r) (\<lambda>(st', w).
     Inr (st', snd sw @ (case w of None \<Rightarrow> [] | Some w' \<Rightarrow> [w'])))"

definition trace_run :: "TraceState \<Rightarrow> Record list \<Rightarrow> (TraceState \<times> Work list) res" where
  "trace_run st rs = foldm trace_step (st, []) rs"

definition kind_is :: "string \<Rightarrow> Record \<Rightarrow> bool" where
  "kind_is k r \<longleftrightarrow> rget r ''kind'' = JStr k"

lemma consume_elim:
  assumes "consume st r = Inr (st', wo)"
  obtains
    (phase) "\<not> ended st" "kind_is ''PHASE'' r" "ts_phase st r = Inr st'" "wo = None"
  | (work) st1 w where "\<not> ended st" "kind_is ''NPU_WORK'' r" "check_semantic st r = Inr st1"
      "ts_work st1 r = Inr (st', w)" "wo = Some w"
  | (call) st1 where "\<not> ended st" "kind_is ''NPU_CALL'' r" "check_semantic st r = Inr st1"
      "ts_call st1 r = Inr st'" "wo = None"
  | (host) st1 where "\<not> ended st" "kind_is ''HOST_STAGE'' r" "check_semantic st r = Inr st1"
      "ts_host st1 r = Inr st'" "wo = None"
  | (complete) st1 where "\<not> ended st" "kind_is ''TARGET_OPERATION'' r" "check_semantic st r = Inr st1"
      "ts_complete_operation st1 r = Inr st'" "wo = None"
  | (end_run) "\<not> ended st" "kind_is ''RUN_END'' r" "ts_end st r = Inr st'" "wo = None"
proof -
  from assms obtain kind st1 where
    c: "\<not> ended st" "rget r ''kind'' = JStr kind"
      "(if kind \<noteq> ''PHASE'' \<and> kind \<noteq> ''RUN_END'' then check_semantic st r else Inr st) = Inr st1"
    and rest: "(if kind = ''NPU_WORK'' then bnd (ts_work st1 r) (\<lambda>(st2, w). Inr (st2, Some w))
     else bnd (if kind = ''PHASE'' then ts_phase st1 r
               else if kind = ''NPU_CALL'' then ts_call st1 r
               else if kind = ''HOST_STAGE'' then ts_host st1 r
               else if kind = ''TARGET_OPERATION'' then ts_complete_operation st1 r
               else if kind = ''RUN_END'' then ts_end st1 r
               else Inl (NpuTraceError ''npu-trace: duplicate RUN or unknown record kind''))
       (\<lambda>st2. Inr (st2, None))) = Inr (st', wo)"
    unfolding consume_def by (auto simp only: bnd_eq_Inr require_eq_Inr text_eq_Inr)
  consider "kind = ''NPU_WORK''" | "kind = ''PHASE''" | "kind = ''NPU_CALL''" | "kind = ''HOST_STAGE''"
    | "kind = ''TARGET_OPERATION''" | "kind = ''RUN_END''"
    using rest by (auto split: if_splits)
  then show ?thesis
  proof cases
    case 1
    with rest obtain w where "ts_work st1 r = Inr (st', w)" "wo = Some w" by (auto simp: bnd_eq_Inr)
    with c 1 show ?thesis by (intro work [of st1 w]) (auto simp: kind_is_def)
  next
    case 2
    with c rest show ?thesis by (intro phase) (auto simp: kind_is_def bnd_eq_Inr)
  next
    case 3
    with c rest show ?thesis by (intro call [of st1]) (auto simp: kind_is_def bnd_eq_Inr)
  next
    case 4
    with c rest show ?thesis by (intro host [of st1]) (auto simp: kind_is_def bnd_eq_Inr)
  next
    case 5
    with c rest show ?thesis by (intro complete [of st1]) (auto simp: kind_is_def bnd_eq_Inr)
  next
    case 6
    with c rest show ?thesis by (intro end_run) (auto simp: kind_is_def bnd_eq_Inr)
  qed
qed

lemma ts_operation_Inr:
  assumes "ts_operation st i = Inr (op, st')"
  shows "\<not> ids_contains (operation_done st) i \<and>
    (map_of (pending st) i = Some op \<and> st' = st \<or>
     map_of (pending st) i = None \<and> op = Operation_init \<and>
       st' = st\<lparr>pending := AList.update i Operation_init (pending st)\<rparr>)"
  using assms by (auto simp: ts_operation_def require_eq_Inr split: option.splits)

text \<open>The semantic check only touches the pending operations: it adds an untouched operation or
  records the semantic key of a known one.\<close>

lemma check_semantic_Inr:
  assumes "check_semantic st r = Inr st'"
  shows "\<exists>i op key. rget r ''operation_id'' = JInt i \<and> \<not> ids_contains (operation_done st) i \<and>
    (map_of (pending st) i = Some op \<or> map_of (pending st) i = None \<and> op = Operation_init) \<and>
    pending st' = AList.update i (op\<lparr>op_semantic := Some key\<rparr>) (pending st) \<and>
    st' = st\<lparr>pending := pending st'\<rparr>"
proof -
  from assms obtain i op key st1 where i: "rget r ''operation_id'' = JInt i"
    and op: "ts_operation st i = Inr (op, st1)"
    and st': "st' = st1\<lparr>pending := AList.update i (op\<lparr>op_semantic := Some key\<rparr>) (pending st1)\<rparr>"
    unfolding check_semantic_def by (auto simp only: inv_only)
  from ts_operation_Inr [OF op] show ?thesis
    using i st' by (intro exI [of _ i] exI [of _ op] exI [of _ key]) auto
qed

lemma ts_phase_Inr:
  assumes "ts_phase st r = Inr st'"
  shows "phase_boundary st = Inr () \<and> st' = st\<lparr>phases := phases st @ [r]\<rparr>"
  using assms unfolding ts_phase_def
  by (auto simp only: inv_only) simp_all

lemma ts_end_Inr:
  assumes "ts_end st r = Inr st'"
  shows "phase_boundary st = Inr () \<and> st' = st\<lparr>ended := True\<rparr> \<and> phases st \<noteq> [] \<and>
    foldm (check_count r) () (expected_counts st) = Inr () \<and> ahead (operation_done st) = {||}"
  using assms unfolding ts_end_def
  by (auto simp only: inv_only) simp_all

lemma ts_call_Inr:
  assumes "ts_call st r = Inr st'"
  shows "\<exists>i op st1 node calls. ts_operation st i = Inr (op, st1) \<and> calls_stage (ts_calls st) r = Inr calls \<and>
    st' = st1\<lparr>pending := AList.update i (op\<lparr>op_node := Some node\<rparr>) (pending st1), ts_calls := calls\<rparr>"
proof -
  from assms obtain i op st1 node calls where
    op: "ts_operation st i = Inr (op, st1)" and c: "calls_stage (ts_calls st1) r = Inr calls"
    and st': "st' = st1\<lparr>pending := AList.update i (op\<lparr>op_node := Some node\<rparr>) (pending st1), ts_calls := calls\<rparr>"
    unfolding ts_call_def by (auto simp only: inv_only)
  have "ts_calls st1 = ts_calls st" using ts_operation_Inr [OF op] by auto
  with op c st' show ?thesis by auto
qed

lemma ts_complete_Inr:
  assumes "ts_complete_operation st r = Inr st'"
  shows "\<exists>i op st1 cl hosts calls don. rget r ''operation_id'' = JInt i \<and> 0 \<le> i \<and>
    ts_operation st i = Inr (op, st1) \<and> completion_checks r op = Inr cl \<and>
    calls_operation_complete (ts_calls st1) i = Inr calls \<and>
    hosts_operation_complete (ts_hosts st1) i = Inr hosts \<and> ids_add (operation_done st1) i = Inr don \<and>
    (\<exists>e. st' = st1\<lparr>ts_hosts := hosts, ts_calls := calls, eligible_cpu := e,
             operation_counts := counter_inc (operation_counts st1) cl,
             completed_operations := completed_operations st1 + 1,
             pending := AList.delete i (pending st1), operation_done := don\<rparr>)"
  using assms unfolding ts_complete_operation_def
  by (auto simp only: inv_only) blast

lemma ts_work_Inr:
  assumes "ts_work st r = Inr (st', w)"
  shows "\<exists>op st1 op1 st2 calls. parse_work r (ts_run st) = Inr w \<and>
    w_identity w = counter_total (work_counts st) \<and>
    ts_operation st (w_operation_id w) = Inr (op, st1) \<and> work_operation op w = Inr op1 \<and>
    work_dispatch st1 w = Inr st2 \<and> calls_work (ts_calls st2) w = Inr calls \<and>
    st' = st2\<lparr>pending := AList.update (w_operation_id w) (op1\<lparr>op_works := op_works op1 + 1\<rparr>) (pending st2),
              ts_calls := calls, work_counts := counter_inc (work_counts st2) (w_provenance w)\<rparr>"
  using assms unfolding ts_work_def
  by (auto simp only: inv_only) blast

lemma work_dispatch_Inr:
  assumes "work_dispatch st w = Inr st'"
  obtains d where
    "\<not> ids_contains (dispatch_done st) (w_parent_id w)"
    "d = (case map_of (dispatches st) (w_parent_id w) of
            Some d \<Rightarrow> d | None \<Rightarrow> \<lparr>dp_first = w, next_row = 0, next_stripe = 0\<rparr>)"
    "dispatch_key w = dispatch_key (dp_first d)" "w_row_begin w = next_row d"
    "next_row d + w_inputs w ! 0 = w_parent_rows w \<and>
       (\<exists>don. ids_add (dispatch_done st) (w_parent_id w) = Inr don \<and>
         st' = st\<lparr>dispatches := AList.delete (w_parent_id w) (dispatches st), dispatch_done := don\<rparr>) \<or>
     next_row d + w_inputs w ! 0 \<noteq> w_parent_rows w \<and>
       st' = st\<lparr>dispatches := AList.update (w_parent_id w)
         (d\<lparr>next_row := next_row d + w_inputs w ! 0, next_stripe := next_stripe d + 1\<rparr>) (dispatches st)\<rparr>"
  using assms unfolding work_dispatch_def Let_def
  by (auto simp: bnd_eq_Inr require_eq_Inr split: if_splits)

lemma work_operation_works: "work_operation op w = Inr op1 \<Longrightarrow> op_works op1 = op_works op"
  by (auto simp: work_operation_def Let_def require_eq_Inr split: if_splits)


text \<open>Everything but the pending operations is left alone by the lookup and by the semantic
  check.\<close>

lemma ts_operation_frame: "ts_operation st i = Inr (op, st') \<Longrightarrow> \<exists>pend. st' = st\<lparr>pending := pend\<rparr>"
  by (auto dest!: ts_operation_Inr) (metis TraceState.surjective TraceState.update_convs(3))

lemma check_semantic_frame: "check_semantic st r = Inr st' \<Longrightarrow> \<exists>pend. st' = st\<lparr>pending := pend\<rparr>"
  by (auto dest!: check_semantic_Inr)

lemma ts_host_frame: "ts_host st r = Inr st' \<Longrightarrow>
    \<exists>hs cs. hosts_consume (ts_hosts st) r (ts_calls st) = Inr (hs, cs) \<and> st' = st\<lparr>ts_hosts := hs, ts_calls := cs\<rparr>"
  by (auto simp: ts_host_def bnd_eq_Inr)

section \<open>Dispatch coverage\<close>

text \<open>The works of a parent tile its rows from \<open>b\<close>; \<open>tile_end\<close> is where they stop.\<close>

fun tiles :: "int \<Rightarrow> Work list \<Rightarrow> bool" where
  "tiles b [] = True"
| "tiles b (w # ws) = (w_row_begin w = b \<and> tiles (b + w_inputs w ! 0) ws)"

definition tile_rows :: "Work list \<Rightarrow> int" where
  "tile_rows ws = (\<Sum>w \<leftarrow> ws. w_inputs w ! 0)"

definition parent_works :: "int \<Rightarrow> Work list \<Rightarrow> Work list" where
  "parent_works p ws = filter (\<lambda>w. w_parent_id w = p) ws"

lemma tiles_append: "tiles b (xs @ ys) \<longleftrightarrow> tiles b xs \<and> tiles (b + tile_rows xs) ys"
  by (induction xs arbitrary: b) (auto simp: tile_rows_def algebra_simps)

lemma tile_rows_simps [simp]: "tile_rows [] = 0" "tile_rows (xs @ ys) = tile_rows xs + tile_rows ys"
  "tile_rows [w] = w_inputs w ! 0"
  by (simp_all add: tile_rows_def)

lemma parent_works_snoc: "parent_works p (ws @ [w]) =
    (if w_parent_id w = p then parent_works p ws @ [w] else parent_works p ws)"
  by (simp add: parent_works_def)

text \<open>The works of one parent agree with each other, tile its rows from 0, and stop where the open
  dispatch says, or at the parent's last row when the parent is done.\<close>

definition parent_ok :: "Dispatch option \<Rightarrow> bool \<Rightarrow> Work list \<Rightarrow> bool" where
  "parent_ok od completed wp \<longleftrightarrow> tiles 0 wp \<and>
     (\<forall>a \<in> set wp. \<forall>b \<in> set wp. dispatch_key a = dispatch_key b) \<and>
     (case od of
        Some d \<Rightarrow> wp \<noteq> [] \<and> \<not> completed \<and> next_row d = tile_rows wp \<and> dp_first d \<in> set wp
      | None \<Rightarrow> wp \<noteq> [] \<longrightarrow> completed \<and> (\<forall>w \<in> set wp. tile_rows wp = w_parent_rows w))"

definition dispatch_inv :: "(int, Dispatch) dict \<Rightarrow> CompletedIDs \<Rightarrow> Work list \<Rightarrow> bool" where
  "dispatch_inv ds dn ws \<longleftrightarrow> ids_valid dn \<and>
     (\<forall>p. parent_ok (map_of ds p) (ids_contains dn p) (parent_works p ws))"

lemma dispatch_key_rows: "dispatch_key a = dispatch_key b \<Longrightarrow> w_parent_rows a = w_parent_rows b"
  by (simp add: dispatch_key_def)

text \<open>Appending a work that continues the tiling keeps the parent's part of the invariant.\<close>

lemma parent_ok_snoc:
  assumes ok: "parent_ok od False wp"
    and d: "d = (case od of Some d \<Rightarrow> d | None \<Rightarrow> \<lparr>dp_first = w, next_row = 0, next_stripe = 0\<rparr>)"
    and key: "dispatch_key w = dispatch_key (dp_first d)" and row: "w_row_begin w = next_row d"
  shows "next_row d + w_inputs w ! 0 = w_parent_rows w \<Longrightarrow> parent_ok None True (wp @ [w])"
    and "parent_ok (Some (d\<lparr>next_row := next_row d + w_inputs w ! 0, next_stripe := s\<rparr>)) False (wp @ [w])"
proof -
  have nr: "next_row d = tile_rows wp" and first: "dp_first d \<in> set (wp @ [w])"
    and first': "wp \<noteq> [] \<longrightarrow> dp_first d \<in> set wp"
    using ok d by (auto simp: parent_ok_def split: option.splits)
  have "\<forall>a \<in> set wp. dispatch_key a = dispatch_key w"
    using ok key first' unfolding parent_ok_def by (metis empty_iff empty_set)
  then have keys: "\<forall>a \<in> set (wp @ [w]). dispatch_key a = dispatch_key w" by simp
  have tl: "tiles 0 (wp @ [w])" using ok row nr by (simp add: parent_ok_def tiles_append)
  show "parent_ok (Some (d\<lparr>next_row := next_row d + w_inputs w ! 0, next_stripe := s\<rparr>)) False (wp @ [w])"
    using tl keys first nr by (simp add: parent_ok_def)
  assume "next_row d + w_inputs w ! 0 = w_parent_rows w"
  then have "tile_rows (wp @ [w]) = w_parent_rows w" using nr by simp
  then have "\<forall>a \<in> set (wp @ [w]). tile_rows (wp @ [w]) = w_parent_rows a"
    using keys dispatch_key_rows by metis
  then show "parent_ok None True (wp @ [w])"
    using tl keys unfolding parent_ok_def by (auto simp del: tile_rows_simps)
qed

lemma work_dispatch_inv:
  assumes inv: "dispatch_inv (dispatches st) (dispatch_done st) ws" and step: "work_dispatch st w = Inr st'"
  shows "dispatch_inv (dispatches st') (dispatch_done st') (ws @ [w])"
proof -
  let ?p = "w_parent_id w"
  from step obtain d where nd: "\<not> ids_contains (dispatch_done st) ?p"
    and d: "d = (case map_of (dispatches st) ?p of
            Some d \<Rightarrow> d | None \<Rightarrow> \<lparr>dp_first = w, next_row = 0, next_stripe = 0\<rparr>)"
    and key: "dispatch_key w = dispatch_key (dp_first d)" and row: "w_row_begin w = next_row d"
    and upd: "next_row d + w_inputs w ! 0 = w_parent_rows w \<and>
       (\<exists>don. ids_add (dispatch_done st) (w_parent_id w) = Inr don \<and>
         st' = st\<lparr>dispatches := AList.delete (w_parent_id w) (dispatches st), dispatch_done := don\<rparr>) \<or>
     next_row d + w_inputs w ! 0 \<noteq> w_parent_rows w \<and>
       st' = st\<lparr>dispatches := AList.update (w_parent_id w)
         (d\<lparr>next_row := next_row d + w_inputs w ! 0, next_stripe := next_stripe d + 1\<rparr>) (dispatches st)\<rparr>"
    by (rule work_dispatch_Inr)
  from inv have v: "ids_valid (dispatch_done st)"
    and ok: "\<And>p. parent_ok (map_of (dispatches st) p) (ids_contains (dispatch_done st) p) (parent_works p ws)"
    by (simp_all add: dispatch_inv_def)
  from ok [of ?p] nd have here: "parent_ok (map_of (dispatches st) ?p) False (parent_works ?p ws)" by simp
  note new = parent_ok_snoc [OF here d key row]
  show ?thesis using upd
  proof (elim disjE conjE exE)
    fix don assume full: "next_row d + w_inputs w ! 0 = w_parent_rows w"
      and add: "ids_add (dispatch_done st) ?p = Inr don"
      and st': "st' = st\<lparr>dispatches := AList.delete ?p (dispatches st), dispatch_done := don\<rparr>"
    from ids.add_Inr [OF v add] have v': "ids_valid don"
      and c': "\<And>q. ids_contains don q \<longleftrightarrow> q = ?p \<or> ids_contains (dispatch_done st) q"
      using ids.contains_repr v by auto
    show ?thesis using v' c' new(1) [OF full] ok
      by (simp add: dispatch_inv_def parent_works_snoc st')
  next
    assume "st' = st\<lparr>dispatches := AList.update ?p
         (d\<lparr>next_row := next_row d + w_inputs w ! 0, next_stripe := next_stripe d + 1\<rparr>) (dispatches st)\<rparr>"
    then show ?thesis using v nd new(2) ok by (simp add: dispatch_inv_def parent_works_snoc)
  qed
qed

lemma dispatch_inv_step:
  assumes "dispatch_inv (dispatches st) (dispatch_done st) ws" "trace_step (st, ws) r = Inr (st', ws')"
  shows "dispatch_inv (dispatches st') (dispatch_done st') ws'"
proof -
  from assms(2) obtain wo where c: "consume st r = Inr (st', wo)"
    and ws': "ws' = ws @ (case wo of None \<Rightarrow> [] | Some w \<Rightarrow> [w])"
    by (auto simp: trace_step_def bnd_eq_Inr)
  from c show ?thesis
  proof (cases rule: consume_elim)
    case phase
    then show ?thesis using assms(1) ws' ts_phase_Inr [of st r st'] by auto
  next
    case (work st1 w)
    from ts_work_Inr [OF work(4)] obtain op st2 st3 where
      "ts_operation st1 (w_operation_id w) = Inr (op, st2)" "work_dispatch st2 w = Inr st3"
      "dispatches st' = dispatches st3" "dispatch_done st' = dispatch_done st3" by auto
    then show ?thesis using work(5) ws' work_dispatch_inv [of st2 ws w st3] assms(1)
        check_semantic_frame [OF work(3)]
      by (auto dest!: ts_operation_frame)
  next
    case (call st1)
    then show ?thesis using assms(1) ws' check_semantic_frame [OF call(3)] ts_call_Inr [OF call(4)]
      by (auto dest!: ts_operation_frame)
  next
    case (host st1)
    then show ?thesis using assms(1) ws' check_semantic_frame [OF host(3)] ts_host_frame [OF host(4)] by auto
  next
    case (complete st1)
    then show ?thesis using assms(1) ws' check_semantic_frame [OF complete(3)] ts_complete_Inr [OF complete(4)]
      by (auto dest!: ts_operation_frame)
  next
    case end_run
    then show ?thesis using assms(1) ws' ts_end_Inr [of st r st'] by auto
  qed
qed


section \<open>Identities and counts\<close>

fun int_of :: "jval \<Rightarrow> int" where
  "int_of (JInt n) = n"
| "int_of _ = -1"

definition operation_of :: "Record \<Rightarrow> int" where
  "operation_of r = int_of (rget r ''operation_id'')"

definition completed_ids :: "Record list \<Rightarrow> int list" where
  "completed_ids rs = map operation_of (filter (kind_is ''TARGET_OPERATION'') rs)"

lemma completed_ids_snoc: "completed_ids (rs @ [r]) =
    completed_ids rs @ (if kind_is ''TARGET_OPERATION'' r then [operation_of r] else [])"
  by (simp add: completed_ids_def)

lemma counter_total_inc: "wf_dict c \<Longrightarrow> counter_total (counter_inc c k) = counter_total c + 1"
proof (induction c)
  case Nil
  then show ?case by (simp add: counter_total_def counter_inc_def counter_get_def)
next
  case (Cons kv c)
  obtain k' n where kv: "kv = (k', n)" by force
  show ?case
  proof (cases "k' = k")
    case True
    then show ?thesis using kv by (simp add: counter_total_def counter_inc_def counter_get_def)
  next
    case False
    with Cons kv show ?thesis
      by (simp add: counter_total_def counter_inc_def counter_get_def wf_dict_def)
  qed
qed

definition count_inv :: "Record list \<Rightarrow> TraceState \<times> Work list \<Rightarrow> bool" where
  "count_inv rs sw \<longleftrightarrow> (case sw of (st, ws) \<Rightarrow>
     foldm ids_add CompletedIDs_init (completed_ids rs) = Inr (operation_done st) \<and>
     completed_operations st = int (length (completed_ids rs)) \<and>
     phases st = filter (kind_is ''PHASE'') rs \<and>
     wf_dict (work_counts st) \<and> counter_total (work_counts st) = int (length ws) \<and>
     map w_identity ws = map int [0..<length ws] \<and>
     length ws = length (filter (kind_is ''NPU_WORK'') rs) \<and>
     (ended st \<longrightarrow> (\<exists>r. rs \<noteq> [] \<and> last rs = r \<and> kind_is ''RUN_END'' r)))"

lemma kind_is_unique: "kind_is a r \<Longrightarrow> kind_is b r \<longleftrightarrow> a = b"
  by (auto simp: kind_is_def)

lemma trace_step_consume:
  assumes "trace_step sw r = Inr sw'"
  obtains st ws st' wo where "sw = (st, ws)" "consume st r = Inr (st', wo)"
    "sw' = (st', ws @ (case wo of None \<Rightarrow> [] | Some w \<Rightarrow> [w]))"
proof -
  from assms obtain st' wo where "consume (fst sw) r = Inr (st', wo)"
    "sw' = (st', snd sw @ (case wo of None \<Rightarrow> [] | Some w \<Rightarrow> [w]))"
    by (auto simp: trace_step_def bnd_eq_Inr)
  then show ?thesis using that [of "fst sw" "snd sw"] by simp
qed

lemma work_dispatch_frame: "work_dispatch st w = Inr st' \<Longrightarrow>
    \<exists>ds dn. st' = st\<lparr>dispatches := ds, dispatch_done := dn\<rparr>"
  by (erule work_dispatch_Inr) (elim disjE conjE exE;
    metis TraceState.surjective TraceState.update_convs(4,5))

lemma count_inv_step:
  assumes inv: "count_inv rs sw" and step: "trace_step sw r = Inr sw'"
  shows "count_inv (rs @ [r]) sw'"
proof -
  from step obtain st ws st' wo where sw: "sw = (st, ws)" and c: "consume st r = Inr (st', wo)"
    and sw': "sw' = (st', ws @ (case wo of None \<Rightarrow> [] | Some w \<Rightarrow> [w]))"
    by (rule trace_step_consume)
  note defs = count_inv_def sw sw' completed_ids_snoc
  from c show ?thesis
  proof (cases rule: consume_elim)
    case phase
    then show ?thesis using inv ts_phase_Inr [of st r st'] by (auto simp: defs kind_is_unique [OF phase(2)])
  next
    case (work st1 w)
    from ts_work_Inr [OF work(4)] obtain op st2 st3 where
      w: "w_identity w = counter_total (work_counts st1)" and op: "ts_operation st1 (w_operation_id w) = Inr (op, st2)"
      and wd: "work_dispatch st2 w = Inr st3"
      and st': "operation_done st' = operation_done st3" "completed_operations st' = completed_operations st3"
        "phases st' = phases st3" "ended st' = ended st3"
        "work_counts st' = counter_inc (work_counts st3) (w_provenance w)" by auto
    have eqs: "operation_done st3 = operation_done st" "completed_operations st3 = completed_operations st"
      "phases st3 = phases st" "ended st3 = ended st" "work_counts st3 = work_counts st"
      "work_counts st1 = work_counts st"
      using work_dispatch_frame [OF wd] ts_operation_frame [OF op] check_semantic_frame [OF work(3)] by auto
    show ?thesis using inv work w st' eqs
      by (auto simp: defs kind_is_unique [OF work(2)] counter_total_inc) (simp add: counter_inc_def)
  next
    case (call st1)
    then show ?thesis using inv check_semantic_frame [OF call(3)] ts_call_Inr [OF call(4)]
      by (auto simp: defs kind_is_unique [OF call(2)] dest!: ts_operation_frame)
  next
    case (host st1)
    then show ?thesis using inv check_semantic_frame [OF host(3)] ts_host_frame [OF host(4)]
      by (auto simp: defs kind_is_unique [OF host(2)])
  next
    case (complete st1)
    from ts_complete_Inr [OF complete(4)] obtain i op st2 don where
      "rget r ''operation_id'' = JInt i" "ts_operation st1 i = Inr (op, st2)"
      "ids_add (operation_done st2) i = Inr don" "operation_done st' = don"
      "completed_operations st' = completed_operations st2 + 1" "phases st' = phases st2"
      "ended st' = ended st2" "work_counts st' = work_counts st2" by auto
    then show ?thesis using inv complete check_semantic_frame [OF complete(3)]
      by (auto simp: defs kind_is_unique [OF complete(2)] operation_of_def foldm_append dest!: ts_operation_frame)
  next
    case end_run
    then show ?thesis using inv ts_end_Inr [of st r st'] by (auto simp: defs kind_is_unique [OF end_run(2)])
  qed
qed

lemma count_inv_init: "count_inv [] (TraceState_init run, [])"
  by (simp add: count_inv_def completed_ids_def TraceState_init_def counter_total_def)

lemma trace_run_count_inv: "trace_run (TraceState_init run) rs = Inr sw \<Longrightarrow> count_inv rs sw"
  unfolding trace_run_def
  by (rule foldm_prefix_invariant [where P = count_inv]) (auto intro: count_inv_init count_inv_step)

lemma dispatch_inv_init: "dispatch_inv [] CompletedIDs_init []"
  by (simp add: dispatch_inv_def parent_ok_def parent_works_def ids.start_valid)

lemma trace_run_dispatch_inv:
  assumes "trace_run (TraceState_init run) rs = Inr (st, ws)"
  shows "dispatch_inv (dispatches st) (dispatch_done st) ws"
proof -
  let ?P = "\<lambda>sw. dispatch_inv (dispatches (fst sw)) (dispatch_done (fst sw)) (snd sw)"
  have "?P (st, ws)"
  proof (rule foldm_invariant [OF assms [unfolded trace_run_def], where P = ?P])
    show "?P (TraceState_init run, [])" using dispatch_inv_init by (simp add: TraceState_init_def)
    show "?P sw'" if "?P sw" "trace_step sw r = Inr sw'" for sw r sw'
      using that dispatch_inv_step [of "fst sw" "snd sw" r "fst sw'" "snd sw'"] by simp
  qed
  then show ?thesis by simp
qed

section \<open>The work count of an operation\<close>

definition works_of :: "int \<Rightarrow> Work list \<Rightarrow> int" where
  "works_of i ws = int (length (filter (\<lambda>w. w_operation_id w = i) ws))"

definition op_ok :: "Operation option \<Rightarrow> bool \<Rightarrow> int \<Rightarrow> bool" where
  "op_ok oop completed n \<longleftrightarrow> (case oop of
     Some op \<Rightarrow> op_works op = n \<and> \<not> completed
   | None \<Rightarrow> completed \<or> n = 0)"

definition op_inv :: "Record list \<Rightarrow> TraceState \<times> Work list \<Rightarrow> bool" where
  "op_inv rs sw \<longleftrightarrow> (case sw of (st, ws) \<Rightarrow>
     ids_valid (operation_done st) \<and>
     (\<forall>i. op_ok (map_of (pending st) i) (ids_contains (operation_done st) i) (works_of i ws)) \<and>
     (\<forall>r \<in> set rs. kind_is ''TARGET_OPERATION'' r \<longrightarrow> ids_contains (operation_done st) (operation_of r) \<and>
        rget r ''npu_work_count'' = JInt (works_of (operation_of r) ws) \<and>
        (rget r ''selected_target'' = JStr ''TARGET_NPU'' \<longleftrightarrow> works_of (operation_of r) ws > 0)))"

lemma completion_checks_works:
  assumes "completion_checks r op = Inr cl"
  shows "rget r ''npu_work_count'' = JInt (op_works op) \<and> rget r ''selected_target'' = JStr cl \<and>
    (cl = ''TARGET_NPU'' \<longleftrightarrow> op_works op > 0) \<and> cl \<in> set CLASSES"
  using assms unfolding completion_checks_def by (auto simp only: inv_only)

text \<open>Looking an operation up, or updating it without touching its work count, keeps the
  invariant.\<close>

lemma op_inv_pending:
  assumes inv: "op_inv rs (st, ws)" and i: "\<not> ids_contains (operation_done st) i"
    and op: "case map_of (pending st) i of Some op \<Rightarrow> op_works op' = op_works op | None \<Rightarrow> op_works op' = 0"
    and st': "pending st' = AList.update i op' (pending st)" "operation_done st' = operation_done st"
  shows "op_inv rs (st', ws)"
proof -
  have p: "op_ok (map_of (pending st) j) (ids_contains (operation_done st) j) (works_of j ws)" for j
    using inv by (simp add: op_inv_def)
  have "op_ok (Some op') (ids_contains (operation_done st) i) (works_of i ws)"
    using p [of i] i op by (auto simp: op_ok_def split: option.splits)
  then show ?thesis using inv p st' by (simp add: op_inv_def)
qed

lemma op_inv_same:
  "op_inv rs (st, ws) \<Longrightarrow> pending st' = pending st \<Longrightarrow> operation_done st' = operation_done st \<Longrightarrow> op_inv rs (st', ws)"
  by (simp add: op_inv_def)

lemma op_inv_record: "op_inv rs sw \<Longrightarrow> \<not> kind_is ''TARGET_OPERATION'' r \<Longrightarrow> op_inv (rs @ [r]) sw"
  by (auto simp: op_inv_def)

lemma ts_operation_op_inv:
  assumes "op_inv rs (st, ws)" "ts_operation st i = Inr (op, st')"
  shows "op_inv rs (st', ws) \<and> map_of (pending st') i = Some op"
  using ts_operation_Inr [OF assms(2)] assms(1)
  by (auto intro!: op_inv_pending [of rs st ws i Operation_init] simp: Operation_init_def [THEN arg_cong, of op_works])

lemma check_semantic_op_inv:
  assumes "op_inv rs (st, ws)" "check_semantic st r = Inr st'"
  shows "op_inv rs (st', ws)"
proof -
  from check_semantic_Inr [OF assms(2)] obtain i op key where c: "\<not> ids_contains (operation_done st) i"
    "map_of (pending st) i = Some op \<or> map_of (pending st) i = None \<and> op = Operation_init"
    "pending st' = AList.update i (op\<lparr>op_semantic := Some key\<rparr>) (pending st)"
    "st' = st\<lparr>pending := pending st'\<rparr>" by blast
  from c(4) have "operation_done st' = operation_done st"
    by (metis TraceState.ext_inject TraceState.surjective TraceState.update_convs(3))
  with c assms(1) show ?thesis
    by (auto intro!: op_inv_pending [of rs st ws i "op\<lparr>op_semantic := Some key\<rparr>"] simp: Operation_init_def)
qed

lemma works_of_snoc: "works_of i (ws @ [w]) = works_of i ws + (if w_operation_id w = i then 1 else 0)"
  by (simp add: works_of_def)

lemma op_inv_work:
  assumes inv: "op_inv rs (st, ws)" and op: "map_of (pending st) (w_operation_id w) = Some op"
    and op': "op_works op' = op_works op + 1"
    and st': "pending st' = AList.update (w_operation_id w) op' (pending st)" "operation_done st' = operation_done st"
  shows "op_inv rs (st', ws @ [w])"
proof -
  let ?i = "w_operation_id w"
  have p: "op_ok (map_of (pending st) i) (ids_contains (operation_done st) i) (works_of i ws)" for i
    using inv by (simp add: op_inv_def)
  from p [of ?i] op have i: "op_works op = works_of ?i ws" "\<not> ids_contains (operation_done st) ?i"
    by (simp_all add: op_ok_def)
  have "op_ok (map_of (pending st') i) (ids_contains (operation_done st) i) (works_of i (ws @ [w]))" for i
    using p [of i] i op' st'(1) by (cases "i = ?i") (auto simp: works_of_snoc op_ok_def)
  moreover have "works_of (operation_of r) (ws @ [w]) = works_of (operation_of r) ws"
    if "r \<in> set rs" "kind_is ''TARGET_OPERATION'' r" for r
  proof -
    from that inv have "ids_contains (operation_done st) (operation_of r)" by (simp add: op_inv_def)
    with i(2) show ?thesis by (auto simp: works_of_snoc)
  qed
  ultimately show ?thesis using inv st'(2) by (simp add: op_inv_def)
qed

lemma op_inv_complete:
  assumes inv: "op_inv rs (st, ws)" and op: "map_of (pending st) i = Some op"
    and r: "kind_is ''TARGET_OPERATION'' r" "operation_of r = i" "completion_checks r op = Inr cl"
    and don: "ids_add (operation_done st) i = Inr (operation_done st')"
    and st': "pending st' = AList.delete i (pending st)"
  shows "op_inv (rs @ [r]) (st', ws)"
proof -
  from inv have v: "ids_valid (operation_done st)" by (simp add: op_inv_def)
  from ids.add_Inr [OF v don] have v': "ids_valid (operation_done st')"
    and c': "\<And>q. ids_contains (operation_done st') q \<longleftrightarrow> q = i \<or> ids_contains (operation_done st) q"
    using ids.contains_repr v by auto
  have p: "op_ok (map_of (pending st) j) (ids_contains (operation_done st) j) (works_of j ws)" for j
    using inv by (simp add: op_inv_def)
  from p [of i] op have "op_works op = works_of i ws" by (simp add: op_ok_def)
  with completion_checks_works [OF r(3)] r(2)
  have new: "rget r ''npu_work_count'' = JInt (works_of (operation_of r) ws)"
    "rget r ''selected_target'' = JStr ''TARGET_NPU'' \<longleftrightarrow> works_of (operation_of r) ws > 0" by auto
  have "op_ok (map_of (pending st') j) (ids_contains (operation_done st') j) (works_of j ws)" for j
    using p [of j] c' st' by (cases "j = i") (auto simp: op_ok_def)
  then show ?thesis using inv v' c' r(2) new by (simp add: op_inv_def)
qed

lemma op_inv_step:
  assumes inv: "op_inv rs sw" and step: "trace_step sw r = Inr sw'"
  shows "op_inv (rs @ [r]) sw'"
proof -
  from step obtain st ws st' wo where sw: "sw = (st, ws)" and c: "consume st r = Inr (st', wo)"
    and sw': "sw' = (st', ws @ (case wo of None \<Rightarrow> [] | Some w \<Rightarrow> [w]))"
    by (rule trace_step_consume)
  note inv = inv [unfolded sw]
  from c show ?thesis
  proof (cases rule: consume_elim)
    case phase
    then show ?thesis using inv ts_phase_Inr [of st r st'] sw'
      by (auto intro!: op_inv_record elim!: op_inv_same simp: kind_is_def)
  next
    case (work st1 w)
    from ts_work_Inr [OF work(4)] obtain op st2 op1 st3 where
      op: "ts_operation st1 (w_operation_id w) = Inr (op, st2)" and op1: "work_operation op w = Inr op1"
      and wd: "work_dispatch st2 w = Inr st3"
      and st': "pending st' = AList.update (w_operation_id w) (op1\<lparr>op_works := op_works op1 + 1\<rparr>) (pending st3)"
        "operation_done st' = operation_done st3" by auto
    note o2 = ts_operation_op_inv [OF check_semantic_op_inv [OF inv work(3)] op]
    have "op_inv rs (st', ws @ [w])"
      by (rule op_inv_work [of rs st2 ws w op "op1\<lparr>op_works := op_works op1 + 1\<rparr>"])
        (use o2 st' work_dispatch_frame [OF wd] work_operation_works [OF op1] in auto)
    then show ?thesis using sw' work by (auto intro!: op_inv_record simp: kind_is_def)
  next
    case (call st1)
    from ts_call_Inr [OF call(4)] obtain i op st2 node where op: "ts_operation st1 i = Inr (op, st2)"
      and st': "pending st' = AList.update i (op\<lparr>op_node := Some node\<rparr>) (pending st2)"
        "operation_done st' = operation_done st2" by auto
    note o2 = ts_operation_op_inv [OF check_semantic_op_inv [OF inv call(3)] op]
    have "\<not> ids_contains (operation_done st2) i" using ts_operation_Inr [OF op] by auto
    then have "op_inv rs (st', ws)"
      by (rule op_inv_pending [OF o2 [THEN conjunct1], where op' = "op\<lparr>op_node := Some node\<rparr>"])
        (use o2 st' in auto)
    then show ?thesis using sw' call by (auto intro!: op_inv_record simp: kind_is_def)
  next
    case (host st1)
    have "op_inv rs (st', ws)" using check_semantic_op_inv [OF inv host(3)] ts_host_frame [OF host(4)]
      by (auto elim!: op_inv_same)
    then show ?thesis using sw' host by (auto intro!: op_inv_record simp: kind_is_def)
  next
    case (complete st1)
    from ts_complete_Inr [OF complete(4)] obtain i op st2 cl don where
      i: "rget r ''operation_id'' = JInt i" and op: "ts_operation st1 i = Inr (op, st2)"
      and cl: "completion_checks r op = Inr cl"
      and "ids_add (operation_done st2) i = Inr don" "operation_done st' = don"
        "pending st' = AList.delete i (pending st2)" by auto
    with ts_operation_op_inv [OF check_semantic_op_inv [OF inv complete(3)] op] complete(2)
    show ?thesis using sw' complete(5) i
      by (auto intro!: op_inv_complete [of rs st2 ws i op r cl st'] simp: operation_of_def)
  next
    case end_run
    then show ?thesis using inv ts_end_Inr [of st r st'] sw'
      by (auto intro!: op_inv_record elim!: op_inv_same simp: kind_is_def)
  qed
qed

lemma op_inv_init: "op_inv [] (TraceState_init run, [])"
  by (simp add: op_inv_def TraceState_init_def ids.start_valid op_ok_def works_of_def)

lemma trace_run_op_inv: "trace_run (TraceState_init run) rs = Inr sw \<Longrightarrow> op_inv rs sw"
  unfolding trace_run_def
  by (rule foldm_prefix_invariant [where P = op_inv]) (auto intro: op_inv_init op_inv_step)


section \<open>The end of a run\<close>

text \<open>A trace whose state has ended went through \<open>ts_end\<close> on its last record.\<close>

lemma trace_run_snoc:
  "trace_run st (rs @ [r]) = bnd (trace_run st rs) (\<lambda>sw. trace_step sw r)"
proof -
  have "trace_step sw r = bnd (trace_step sw r) Inr" for sw by (cases "trace_step sw r") simp_all
  then show ?thesis by (simp add: trace_run_def foldm_append)
qed

lemma trace_run_ended:
  assumes run: "trace_run (TraceState_init run) rs = Inr (st, ws)" and "ended st"
  obtains rs' r st0 where "rs = rs' @ [r]" "trace_run (TraceState_init run) rs' = Inr (st0, ws)"
    "ts_end st0 r = Inr st" "st = st0\<lparr>ended := True\<rparr>" "kind_is ''RUN_END'' r" "\<not> ended st0"
proof -
  from trace_run_count_inv [OF run] assms(2) have ne: "rs \<noteq> []" and k: "kind_is ''RUN_END'' (last rs)"
    by (auto simp: count_inv_def)
  let ?rs = "butlast rs" and ?r = "last rs"
  have "bnd (trace_run (TraceState_init run) ?rs) (\<lambda>sw. trace_step sw ?r) = Inr (st, ws)"
    using run ne trace_run_snoc [of "TraceState_init run" ?rs ?r] by simp
  then obtain sw where sw: "trace_run (TraceState_init run) ?rs = Inr sw" "trace_step sw ?r = Inr (st, ws)"
    unfolding bnd_eq_Inr by blast
  from sw(2) obtain st0 ws0 wo where s: "sw = (st0, ws0)" and c: "consume st0 ?r = Inr (st, wo)"
    and w: "ws = ws0 @ (case wo of None \<Rightarrow> [] | Some w \<Rightarrow> [w])"
    by (rule trace_step_consume) auto
  from c k have "ts_end st0 ?r = Inr st \<and> wo = None \<and> \<not> ended st0"
    by (cases rule: consume_elim) (simp_all add: kind_is_def)
  with sw(1) s w ne k show ?thesis using ts_end_Inr [of st0 ?r st] by (intro that [of ?rs ?r st0]) simp_all
qed

lemma phase_boundary_Inr: "phase_boundary st = Inr u \<Longrightarrow>
    pending st = [] \<and> dispatches st = [] \<and> cursor (operation_done st) = completed_operations st \<and>
    calls_boundary (ts_calls st) = Inr () \<and> hosts_boundary (ts_hosts st) = Inr ()"
  unfolding phase_boundary_def by (auto simp: bnd_eq_Inr require_eq_Inr)

lemma foldm_check_count:
  "foldm (check_count r) u kvs = Inr v \<Longrightarrow> (k, n) \<in> set kvs \<Longrightarrow> rget r k = JInt n"
  by (induction kvs arbitrary: u) (auto simp: bnd_eq_Inr check_count_def require_eq_Inr integer_eq_Inr)

text \<open>C1. At every accepted phase boundary (a phase record or the end of the run), the rows of
  every dispatch parent seen so far are covered exactly once: the works carrying that parent
  identity start at row 0, each begins where the previous one ended, and together they end at the
  parent's declared row count; all of them share the dispatch descriptor.\<close>

theorem trace_parents_tiled:
  assumes "trace_run (TraceState_init run) rs = Inr (st, ws)" and "phase_boundary st = Inr u"
    and "w \<in> set ws"
  shows "tiles 0 (parent_works (w_parent_id w) ws) \<and>
    tile_rows (parent_works (w_parent_id w) ws) = w_parent_rows w \<and>
    (\<forall>v \<in> set (parent_works (w_parent_id w) ws). dispatch_key v = dispatch_key w)"
proof -
  from assms(3) have w: "w \<in> set (parent_works (w_parent_id w) ws)" by (simp add: parent_works_def)
  have "parent_ok None (ids_contains (dispatch_done st) (w_parent_id w)) (parent_works (w_parent_id w) ws)"
    using trace_run_dispatch_inv [OF assms(1)] phase_boundary_Inr [OF assms(2)]
    by (metis dispatch_inv_def map_of.simps(1))
  with w show ?thesis unfolding parent_ok_def option.case by (metis empty_iff empty_set)
qed


text \<open>C16. Each target operation record accepted in a trace carries as \<^verbatim>\<open>npu_work_count\<close> the number
  of works of the whole trace that belong to it (none can follow its completion), and it is
  classified \<^verbatim>\<open>TARGET_NPU\<close> exactly when that number is positive.\<close>

theorem trace_operation_work_count:
  assumes "trace_run (TraceState_init run) rs = Inr (st, ws)"
    and "r \<in> set rs" and "kind_is ''TARGET_OPERATION'' r"
  shows "rget r ''npu_work_count'' = JInt (works_of (operation_of r) ws) \<and>
    (rget r ''selected_target'' = JStr ''TARGET_NPU'' \<longleftrightarrow> works_of (operation_of r) ws > 0)"
  using trace_run_op_inv [OF assms(1)] assms(2,3) by (simp add: op_inv_def)


section \<open>The stages of a call along a trace\<close>

definition call_of :: "Record \<Rightarrow> int" where
  "call_of r = int_of (rget r ''call_id'')"

definition call_stages :: "int \<Rightarrow> Record list \<Rightarrow> string list" where
  "call_stages i rs = map stage_of (filter (\<lambda>r. kind_is ''NPU_CALL'' r \<and> call_of r = i) rs)"

text \<open>What the history of call \<open>i\<close> is, given its stages in the validator's state, whether it is
  completed and whether it was declared.\<close>

definition call_ok :: "string list option \<Rightarrow> bool \<Rightarrow> bool \<Rightarrow> string list \<Rightarrow> bool" where
  "call_ok active completed declared hist \<longleftrightarrow>
     (case active of
        Some ss \<Rightarrow> ss = hist \<and> stage_seq hist \<and> \<not> completed \<and> declared
      | None \<Rightarrow> if completed then declared \<and> stage_seq hist \<and> last hist = ''CONTINUATION''
                else \<not> declared \<and> hist = [])"

definition call_inv :: "Record list \<Rightarrow> Calls \<Rightarrow> bool" where
  "call_inv rs cs \<longleftrightarrow> ids_valid (cs_done cs) \<and> 0 \<le> cs_count cs \<and>
     (\<forall>i \<ge> 0. call_ok (stages_map cs i) (ids_contains (cs_done cs) i) (i < cs_count cs) (call_stages i rs))"

lemma call_stages_snoc: "call_stages i (rs @ [r]) =
    call_stages i rs @ (if kind_is ''NPU_CALL'' r \<and> call_of r = i then [stage_of r] else [])"
  by (simp add: call_stages_def)

lemma call_inv_frame:
  "call_inv rs cs \<Longrightarrow> stages_map cs' = stages_map cs \<and> cs_done cs' = cs_done cs \<and> cs_count cs' = cs_count cs \<Longrightarrow>
   \<not> kind_is ''NPU_CALL'' r \<Longrightarrow> call_inv (rs @ [r]) cs'"
  by (simp add: call_inv_def call_stages_snoc)

lemma prepare_first: "stage_seq [''PREPARE'']"
  by (simp add: stage_seq_def ORDER_def)

lemma calls_stage_inv:
  assumes inv: "call_inv rs cs" and step: "calls_stage cs r = Inr cs'" and k: "kind_is ''NPU_CALL'' r"
  shows "call_inv (rs @ [r]) cs'"
proof -
  from step obtain i stage ss where i: "rget r ''call_id'' = JInt i" "0 \<le> i" and stage: "stage_of r = stage" "stage \<in> set ORDER"
    and nd: "\<not> ids_contains (cs_done cs) i"
    and new: "(stages_map cs i = Some ss \<and> cs_count cs' = cs_count cs) \<or>
     (stages_map cs i = None \<and> ss = [] \<and> stage = ''PREPARE'' \<and> i = cs_count cs \<and> cs_count cs' = cs_count cs + 1)"
    and ord: "ss = [] \<or> index_of ORDER stage > index_of ORDER (last ss)"
    and upd: "(if stage = ''CONTINUATION''
      then stages_map cs' = (stages_map cs)(i := None) \<and> ids_add (cs_done cs) i = Inr (cs_done cs')
      else stages_map cs' = (stages_map cs)(i := Some (ss @ [stage])) \<and> cs_done cs' = cs_done cs)"
    by (rule calls_stage_Inr)
  from inv have v: "ids_valid (cs_done cs)" and c0: "0 \<le> cs_count cs"
    and ok: "\<And>j. 0 \<le> j \<Longrightarrow> call_ok (stages_map cs j) (ids_contains (cs_done cs) j) (j < cs_count cs) (call_stages j rs)"
    by (simp_all add: call_inv_def)
  have h: "ss = call_stages i rs"
    using ok [OF i(2)] nd new by (auto simp: call_ok_def)
  have seq: "stage_seq (ss @ [stage])"
  proof (cases "ss = []")
    case True
    with ok [OF i(2)] nd new have "stage = ''PREPARE''" by (auto simp: call_ok_def stage_seq_def)
    with True prepare_first show ?thesis by simp
  next
    case False
    with ok [OF i(2)] nd new have "stage_seq ss" by (auto simp: call_ok_def)
    with ord False stage(2) show ?thesis by (auto intro: stage_seq_snoc)
  qed
  have cnt: "i < cs_count cs'" "cs_count cs \<le> cs_count cs'" using ok [OF i(2)] nd new by (auto simp: call_ok_def)
  have lt: "j < cs_count cs' \<longleftrightarrow> j < cs_count cs" if "j \<noteq> i" for j using new that by auto
  have don: "ids_valid (cs_done cs')"
    "ids_contains (cs_done cs') j \<longleftrightarrow> (stage = ''CONTINUATION'' \<and> j = i) \<or> ids_contains (cs_done cs) j" for j
  proof -
    show "ids_valid (cs_done cs')" using upd v ids.add_Inr by (auto split: if_splits)
    show "ids_contains (cs_done cs') j \<longleftrightarrow> (stage = ''CONTINUATION'' \<and> j = i) \<or> ids_contains (cs_done cs) j"
    proof (cases "stage = ''CONTINUATION''")
      case True
      with upd ids.add_Inr [OF v] have "ids_valid (cs_done cs')" "ids_set (cs_done cs') = insert i (ids_set (cs_done cs))" by auto
      with True v ids.contains_repr show ?thesis by auto
    next
      case False
      with upd show ?thesis by simp
    qed
  qed
  have "call_ok (stages_map cs' j) (ids_contains (cs_done cs') j) (j < cs_count cs') (call_stages j (rs @ [r]))"
    if "0 \<le> j" for j
  proof (cases "j = i")
    case True
    have hist: "call_stages i (rs @ [r]) = ss @ [stage]"
      using h k i(1) stage(1) by (simp add: call_stages_snoc call_of_def)
    show ?thesis unfolding True hist using seq cnt(1) don(2) [of i] upd nd
      by (cases "stage = ''CONTINUATION''") (simp_all add: call_ok_def)
  next
    case False
    have "stages_map cs' j = stages_map cs j" using upd False by (auto split: if_splits)
    moreover have "call_stages j (rs @ [r]) = call_stages j rs"
      using False i(1) by (simp add: call_stages_snoc call_of_def)
    ultimately show ?thesis using ok [OF that] don(2) [of j] lt [OF False] False by simp
  qed
  then show ?thesis using don(1) c0 cnt(2) by (simp add: call_inv_def)
qed

lemma call_inv_step:
  assumes inv: "call_inv rs (ts_calls (fst sw))" and step: "trace_step sw r = Inr sw'"
  shows "call_inv (rs @ [r]) (ts_calls (fst sw'))"
proof -
  from step obtain st ws st' wo where sw: "sw = (st, ws)" and c: "consume st r = Inr (st', wo)"
    and sw': "sw' = (st', ws @ (case wo of None \<Rightarrow> [] | Some w \<Rightarrow> [w]))"
    by (rule trace_step_consume)
  have inv: "call_inv rs (ts_calls st)" using inv sw by simp
  have "call_inv (rs @ [r]) (ts_calls st')" using c
  proof (cases rule: consume_elim)
    case phase
    then show ?thesis using inv ts_phase_Inr [of st r st'] by (auto intro!: call_inv_frame simp: kind_is_def)
  next
    case (work st1 w)
    from ts_work_Inr [OF work(4)] obtain op st2 st3 where
      op: "ts_operation st1 (w_operation_id w) = Inr (op, st2)" and wd: "work_dispatch st2 w = Inr st3"
      and cw: "calls_work (ts_calls st3) w = Inr (ts_calls st')" by auto
    have "ts_calls st3 = ts_calls st"
      using work_dispatch_frame [OF wd] ts_operation_frame [OF op] check_semantic_frame [OF work(3)] by auto
    with calls_work_frame [OF cw] inv work(2) show ?thesis by (auto intro!: call_inv_frame simp: kind_is_def)
  next
    case (call st1)
    from ts_call_Inr [OF call(4)] have "calls_stage (ts_calls st1) r = Inr (ts_calls st')" by auto
    with check_semantic_frame [OF call(3)] inv call(2) show ?thesis by (auto intro: calls_stage_inv)
  next
    case (host st1)
    from ts_host_frame [OF host(4)] check_semantic_frame [OF host(3)] obtain hs where
      "hosts_consume (ts_hosts st) r (ts_calls st) = Inr (hs, ts_calls st')" by auto
    with hosts_consume_frame inv host(2) show ?thesis by (auto intro!: call_inv_frame simp: kind_is_def)
  next
    case (complete st1)
    from ts_complete_Inr [OF complete(4)] obtain i op st2 where
      op: "ts_operation st1 i = Inr (op, st2)" and co: "calls_operation_complete (ts_calls st2) i = Inr (ts_calls st')"
      by auto
    have "ts_calls st2 = ts_calls st" using ts_operation_frame [OF op] check_semantic_frame [OF complete(3)] by auto
    with calls_operation_complete_frame [OF co] inv complete(2) show ?thesis
      by (auto intro!: call_inv_frame simp: kind_is_def)
  next
    case end_run
    then show ?thesis using inv ts_end_Inr [of st r st'] by (auto intro!: call_inv_frame simp: kind_is_def)
  qed
  then show ?thesis using sw' by simp
qed

lemma call_inv_init: "call_inv [] Calls_init"
  by (simp add: call_inv_def Calls_init_def ids_valid_def call_ok_def stages_map_def call_stages_def
      ids_contains_def CompletedIDs_init_def)

lemma trace_run_call_inv:
  assumes "trace_run (TraceState_init run) rs = Inr (st, ws)"
  shows "call_inv rs (ts_calls st)"
proof -
  have "call_inv rs (ts_calls (fst (st, ws)))"
    by (rule foldm_prefix_invariant [OF assms [unfolded trace_run_def],
          where P = "\<lambda>ps sw. call_inv ps (ts_calls (fst sw))"])
      (auto intro: call_inv_step simp: TraceState_init_def call_inv_init)
  then show ?thesis by simp
qed

text \<open>C14. The calls of an accepted trace, at a phase boundary: call identities are \<open>0, ..., n-1\<close>
  where \<open>n\<close> is the validator's call count; every one of them went through a strictly increasing
  sequence of the declared stages that starts with PREPARE and ends with CONTINUATION, and no
  other identity has a stage.\<close>

theorem trace_call_stages:
  assumes "trace_run (TraceState_init run) rs = Inr (st, ws)" and "phase_boundary st = Inr u" and "0 \<le> i"
  shows "if i < cs_count (ts_calls st)
    then stage_seq (call_stages i rs) \<and> last (call_stages i rs) = ''CONTINUATION''
    else call_stages i rs = []"
proof -
  have "stages_map (ts_calls st) i = None"
    using phase_boundary_Inr [OF assms(2)]
    by (simp add: calls_boundary_def require_eq_Inr stages_map_def)
  with trace_run_call_inv [OF assms(1)] assms(3) show ?thesis
    by (auto simp: call_inv_def call_ok_def split: if_splits)
qed

end
