(* ===== verification/Npu_Replay.thy ===== *)
theory Npu_Replay
  imports Cycle_Cli Trace_Theorems
begin

text \<open>
  Replay of a validated trace on the cycle model: \<^verbatim>\<open>sim/cycle/npu_trace.py\<close>. Each work is turned into a
  request document, estimated (through a bounded cache keyed by the digest of the work's view) and
  accounted per layer and per phase. What the code reads from files before the loop (certificates,
  library, digests) is the record \<open>replay_artifacts\<close>; the snapshots and links of the output files are not
  modelled.
\<close>

section \<open>Documents\<close>

definition REPLAY_MAX_CYCLES :: int where "REPLAY_MAX_CYCLES = 100000000"

definition validate_trace :: "ext \<Rightarrow> jval list \<Rightarrow> Record res" where
  "validate_trace E lines =
     bnd (read_records lines) (\<lambda>records.
     bnd (start_trace E records) (\<lambda>(st, rest).
     bnd (foldm (\<lambda>st r. bnd (consume st r) (\<lambda>(st', _). Inr st')) st rest) (\<lambda>st'.
     bnd (ts_summary st') (\<lambda>summary.
     Inr (dict_of (summary @ [(''validation_scope'', JStr ''STRUCTURAL_ONLY''), (''cycle_model_validation'', JStr ''NOT_CHECKED'')]))))))"

definition model_request :: "Work \<Rightarrow> Record" where
  "model_request work =
     zip ([''m'', ''n'', ''k'', ''tile_i'', ''tile_j'', ''tile_k''] @ drop 6 INPUT_KEYS) (map JInt (w_inputs work)) @
     [(''accepted_cycle'', JInt 1), (''logical_work_id'', JInt (w_identity work)),
      (''submission'', JStr ''planner-blocks''), (''record_events'', JInt 0)]"

definition model_document :: "string \<Rightarrow> Work \<Rightarrow> Record res" where
  "model_document profile work =
     (let document = [(''profile'', JStr profile), (''limits'', JObj [(''max_cycles'', JInt REPLAY_MAX_CYCLES)]),
                      (''request'', JObj (model_request work))] in
      if w_provenance work = ''residual'' then
        require (w_original_k work \<noteq> None \<and> w_runs work \<noteq> [])
          ''legacy block-local residual trace cannot be current run-aware work'' (
        Inr (document @ [(''original_k'', JInt (the (w_original_k work))), (''runs'', JArr (map span_json (w_runs work)))]))
      else Inr document)"

definition work_view_json :: "Work \<Rightarrow> Record" where
  "work_view_json work =
     [(''inputs'', JArr (map JInt (w_inputs work))),
      (''original_k'', case w_original_k work of None \<Rightarrow> JNull | Some k \<Rightarrow> JInt k),
      (''runs'', JArr (map (\<lambda>s. JArr [JInt (original_block_id s), JInt (original_k_mask s), JInt (compact_k_begin s),
                                   JInt (compact_k_count s)]) (w_runs work))),
      (''row_map'', JArr (map (\<lambda>r. JArr [JInt (source_row r), JInt (lane_id r)]) (w_row_map work))),
      (''residual_work_revision'', case w_residual_work_revision work of None \<Rightarrow> JNull | Some s \<Rightarrow> JStr s)]"

definition work_binding :: "ext \<Rightarrow> Work \<Rightarrow> string" where
  "work_binding E work = sha256_hex E (dumps E True (JObj (work_view_json work)))"

section \<open>Replay\<close>

record replay_artifacts =
  ra_certificate :: Record
  ra_library_sha256 :: string
  ra_certificate_sha256 :: string
  ra_transition_sha256 :: "string option"
  ra_run_scope :: "string option"
  ra_run_certificate_sha256 :: "string option"
  ra_hardware_contract :: "string \<Rightarrow> Record res"

definition opt_str :: "string option \<Rightarrow> jval" where
  "opt_str s = (case s of None \<Rightarrow> JNull | Some t \<Rightarrow> JStr t)"

definition replay_identities :: "replay_artifacts \<Rightarrow> Run \<Rightarrow> Record res" where
  "replay_identities art run =
     bnd (item (ra_certificate art) ''schema'') (\<lambda>schema.
     bnd (item (ra_certificate art) ''version'') (\<lambda>version.
     Inr [(''profile'', JStr (run_profile run)), (''cycle_library_sha256'', JStr (ra_library_sha256 art)),
          (''certificate_sha256'', JStr (ra_certificate_sha256 art)), (''certificate_schema'', schema),
          (''certificate_version'', version), (''transition_certificate_sha256'', opt_str (ra_transition_sha256 art)),
          (''producer_execution_kind'', JStr ''CPU_FUNCTIONAL''), (''target_work_validation'', JStr ''PASS''),
          (''cycle_model_validation'', JStr ''CURRENT_CERTIFIED''),
          (''actual_rtl_acceptance_in_collection'', JStr ''NOT_APPLICABLE''),
          (''run_aware_certificate_sha256'', opt_str (ra_run_certificate_sha256 art)),
          (''run_aware_certificate_scope'', opt_str (ra_run_scope art)),
          (''accounting_kind'', JStr ''isolated-work-accounting''), (''cycle_unit'', JStr ''cycles'')]))"

record replay_state =
  rs_trace :: TraceState
  rs_cache :: "(string, Record) dict"
  rs_lines :: "string list"
  rs_per_layer :: "(string, int) dict"
  rs_per_phase :: "(int, int) dict"
  rs_large_k :: "((string \<times> int \<times> int list), Record) dict"

text \<open>\<^verbatim>\<open>defaultdict(int)\<close>: reading and adding.\<close>

definition dd_get :: "('k, int) dict \<Rightarrow> 'k \<Rightarrow> int" where
  "dd_get d k = (case map_of d k of None \<Rightarrow> 0 | Some n \<Rightarrow> n)"

definition dd_add :: "('k, int) dict \<Rightarrow> 'k \<Rightarrow> int \<Rightarrow> ('k, int) dict" where
  "dd_add d k n = AList.update k (dd_get d k + n) d"

text \<open>The answer of the model for a document, checked.\<close>

definition modeled :: "cycle_native \<Rightarrow> string \<Rightarrow> Work \<Rightarrow> Record res" where
  "modeled N profile work =
     bnd (model_document profile work) (\<lambda>document.
     bnd (estimate N (JObj document)) (\<lambda>answer.
     require (py_eq (rget answer ''status'') (JStr ''PASS'')) ''cycle model rejected target work'' (
     bnd (item answer ''result'') object_value)))"

text \<open>The bounded cache: at 4096 entries the oldest one is dropped.\<close>

definition cached_result :: "ext \<Rightarrow> cycle_native \<Rightarrow> string \<Rightarrow> (string, Record) dict \<Rightarrow> Work \<Rightarrow>
    (Record \<times> (string, Record) dict) res" where
  "cached_result E N profile cache work =
     (let binding = work_binding E work in
      case map_of cache binding of
        Some result \<Rightarrow> Inr (result, cache)
      | None \<Rightarrow> bnd (modeled N profile work) (\<lambda>result.
          let cache' = (if length cache = 4096 then tl cache else cache) in
          Inr (result, AList.update binding result cache')))"

definition large_entry :: "Work \<Rightarrow> int \<Rightarrow> Record \<Rightarrow> Record res" where
  "large_entry work cycles result =
     bnd (integer result ''planner_loop_count'') (\<lambda>planner.
     bnd (integer result ''loop_count'') (\<lambda>loops.
     bnd (integer result ''fragment_count'') (\<lambda>fragments.
     bnd (integer result ''scale_request_count'') (\<lambda>scale.
     Inr [(''layer'', JStr (w_layer work)), (''phase_id'', JInt (w_phase work)),
          (''shape'', JArr (map JInt (take 3 (w_inputs work)))),
          (''tile_counts'', JArr (map JInt (take 3 (drop 3 (w_inputs work))))), (''model_status'', JStr ''PASS''),
          (''isolated_cycles_per_work'', JInt cycles), (''work_count'', JInt 0), (''planner_loop_count'', JInt planner),
          (''submission_count'', JInt loops), (''fragment_count'', JInt fragments), (''scale_request_count'', JInt scale)]))))"

definition large_step :: "((string \<times> int \<times> int list), Record) dict \<Rightarrow> Work \<Rightarrow> int \<Rightarrow> Record \<Rightarrow>
    ((string \<times> int \<times> int list), Record) dict res" where
  "large_step large work cycles result =
     (if w_inputs work ! 2 \<ge> 3072 then
        let key = (w_layer work, w_phase work, w_inputs work) in
        bnd (case map_of large key of Some e \<Rightarrow> Inr e | None \<Rightarrow> large_entry work cycles result) (\<lambda>entry.
        bnd (integer entry ''work_count'') (\<lambda>n.
        Inr (AList.update key (AList.update ''work_count'' (JInt (n + 1)) entry) large)))
      else Inr large)"

text \<open>Accounting of one work; \<open>find\<close> gives its modelled result.\<close>

definition account :: "ext \<Rightarrow> replay_artifacts \<Rightarrow> Record \<Rightarrow> Record \<Rightarrow> Work \<Rightarrow> Record \<Rightarrow> replay_state \<Rightarrow> replay_state res" where
  "account E art identities r work result st =
     bnd (item r ''sequence'') (\<lambda>seq.
     let row = dict_of (r @ identities @
           [(''schema'', JStr ''im2p-npu-cycle-result''), (''kind'', JStr ''NPU_WORK_RESULT''), (''trace_sequence'', seq),
            (''sequence'', JInt (w_identity work)), (''run_view_sha256'', JStr (work_binding E work)),
            (''modeled'', JObj result)]) in
     bnd (integer result ''total_cycles'') (\<lambda>cycles.
     bnd (large_step (rs_large_k st) work cycles result) (\<lambda>large.
     Inr (st\<lparr>rs_lines := rs_lines st @ [dumps E True (JObj row)],
             rs_per_layer := dd_add (rs_per_layer st) (w_layer work) cycles,
             rs_per_phase := dd_add (rs_per_phase st) (w_phase work) cycles,
             rs_large_k := large\<rparr>))))"

definition residual_checks :: "replay_artifacts \<Rightarrow> Work \<Rightarrow> unit res" where
  "residual_checks art work =
     require (w_provenance work \<noteq> ''residual'' \<or> w_runs work \<noteq> [])
       ''legacy block-local residual trace cannot be upgraded to run-aware replay'' (
     require (w_provenance work \<noteq> ''residual'' \<or> ra_run_scope art = Some ''PRODUCTION_GENERATED'')
       ''production-generated run-aware certificate required for current residual replay'' (Inr ()))"

text \<open>One record of the loop.\<close>

definition replay_step :: "ext \<Rightarrow> cycle_native \<Rightarrow> replay_artifacts \<Rightarrow> Record \<Rightarrow> replay_state \<Rightarrow> Record \<Rightarrow> replay_state res" where
  "replay_step E N art identities st r =
     bnd (consume (rs_trace st) r) (\<lambda>(trace, wo).
     let st1 = st\<lparr>rs_trace := trace\<rparr> in
     case wo of None \<Rightarrow> Inr st1
     | Some work \<Rightarrow>
         bnd (residual_checks art work) (\<lambda>_.
         bnd (cached_result E N (run_profile (ts_run trace)) (rs_cache st1) work) (\<lambda>(result, cache).
         account E art identities r work result (st1\<lparr>rs_cache := cache\<rparr>))))"

definition phase_sums :: "TraceState \<Rightarrow> (int, int) dict \<Rightarrow> (string \<times> jval) list" where
  "phase_sums trace per_phase =
     map (\<lambda>i. (str_int i, JInt (dd_get per_phase i))) (map int [0..<length (phases trace)])"

definition decode_sums :: "ext \<Rightarrow> TraceState \<Rightarrow> (int, int) dict \<Rightarrow> (string \<times> jval) list" where
  "decode_sums E trace per_phase =
     concat (map (\<lambda>(i, p). if py_eq (rget p ''phase_kind'') (JStr ''decode'')
                           then [(py_str E (rget p ''decode_index''), JInt (dd_get per_phase (int i)))] else [])
       (zip [0..<length (phases trace)] (phases trace)))"

definition replay_summary :: "ext \<Rightarrow> replay_artifacts \<Rightarrow> Record \<Rightarrow> replay_state \<Rightarrow> Record res" where
  "replay_summary E art identities st =
     bnd (ts_summary (rs_trace st)) (\<lambda>summary.
     bnd (item (ra_certificate art) ''reference_memory'') (\<lambda>memory.
     let trace = rs_trace st; per_phase = rs_per_phase st in
     Inr (dict_of (summary @ identities @
       [(''schema'', JStr ''im2p-npu-cycle-summary''), (''version'', JInt 2), (''status'', JStr ''PASS''),
        (''trace_schema'', JStr SCHEMA), (''trace_version'', JInt (run_trace_version (ts_run trace))),
        (''residual_work_revision'', opt_str (run_residual_work_revision (ts_run trace))),
        (''producer_integration_validation'',
           JStr (if truthy (rget summary ''residual_work_count'') then ''NOT_CERTIFIED_BY_FIXTURE'' else ''NOT_APPLICABLE'')),
        (''producer_execution_kind'', JStr ''CPU_FUNCTIONAL''), (''validation_scope'', JStr ''CURRENT_CERTIFIED''),
        (''cycle_model_validation'', JStr ''CURRENT_CERTIFIED''),
        (''actual_rtl_acceptance_in_collection'', JStr ''NOT_APPLICABLE''),
        (''accounting_kind'', JStr ''isolated-work-accounting''), (''measured_answer_injection'', JBool False),
        (''reference_memory'', memory), (''isolated_cycle_sum'', JInt (sum_list (map snd per_phase))),
        (''per_layer_cycle_sums'', JObj (sort_key fst (map (\<lambda>(k, n). (k, JInt n)) (rs_per_layer st)))),
        (''prefill_cycle_sum'', JInt (dd_get per_phase 0)),
        (''per_phase_cycle_sums'', JObj (phase_sums trace per_phase)),
        (''per_decode_token_cycle_sums'', JObj (dict_of (decode_sums E trace per_phase))),
        (''large_k_works'', JArr (map (\<lambda>(_, e). JObj e) (rs_large_k st))),
        (''software_limits'', JObj [(''max_cycles_per_work'', JInt REPLAY_MAX_CYCLES)]),
        (''not_modeled'', JArr [JStr ''CPU/NPU scheduling'', JStr ''pipeline overlap'', JStr ''system timeline'',
                                JStr ''TTFT/TPOT'', JStr ''frequency conversion''])]))))"

definition replay_start :: "TraceState \<Rightarrow> replay_state" where
  "replay_start st = \<lparr>rs_trace = st, rs_cache = [], rs_lines = [], rs_per_layer = [], rs_per_phase = [], rs_large_k = []\<rparr>"

definition contracts_ok :: "ext \<Rightarrow> replay_artifacts \<Rightarrow> Run \<Rightarrow> unit res" where
  "contracts_ok E art run =
     bnd (item (ra_certificate art) ''hardware_contracts'') (\<lambda>cv.
     bnd (object_value cv) (\<lambda>contracts.
     bnd (object_value (rget contracts (run_profile run))) (\<lambda>model.
     bnd (compatible E (run_contract run) model) (\<lambda>_.
     bnd (ra_hardware_contract art (run_profile run)) (\<lambda>current.
     compatible E (run_contract run) current)))))"

definition replay_records :: "ext \<Rightarrow> cycle_native \<Rightarrow> replay_artifacts \<Rightarrow> TraceState \<Rightarrow> Record list \<Rightarrow>
    (string list \<times> Record) res" where
  "replay_records E N art st0 rest =
     bnd (contracts_ok E art (ts_run st0)) (\<lambda>_.
     bnd (replay_identities art (ts_run st0)) (\<lambda>identities.
     bnd (foldm (replay_step E N art identities) (replay_start st0) rest) (\<lambda>st.
     bnd (replay_summary E art identities st) (\<lambda>summary. Inr (rs_lines st, summary)))))"

definition replay :: "ext \<Rightarrow> cycle_native \<Rightarrow> replay_artifacts \<Rightarrow> jval list \<Rightarrow> (string list \<times> Record) res" where
  "replay E N art lines =
     bnd (read_records lines) (\<lambda>records.
     bnd (start_trace E records) (\<lambda>(st0, rest). replay_records E N art st0 rest))"

end
