(* ===== verification/Trace_Example.thy ===== *)
theory Trace_Example
  imports Trace_Theorems
begin

text \<open>
  A complete accepted trace: one prefill phase, one target operation that runs on the NPU as a
  single FULL call with one work, and the end of the run. The properties of accepted traces are
  applied to it.
\<close>

definition ex_run :: Run where
  "ex_run = \<lparr>run_identity = ''r'', run_collection_id = 7, run_run_config_id = ''c'',
     run_profile = ''a8w8-d16-hp1'', run_widths_dim = (8, 8, 16), run_contract = ex_contract,
     run_contract_hash = ''h'', run_trace_version = 2, run_residual_work_revision = Some RUN_REVISION\<rparr>"

definition ex_common :: "string \<Rightarrow> Record" where
  "ex_common kind = [(''kind'', JStr kind), (''run_id'', JStr ''r''), (''collection_run_id'', JInt 7),
     (''run_config_id'', JStr ''c''), (''version'', JInt 2), (''phase_id'', JInt 0), (''operation_id'', JInt 0),
     (''node_id'', JInt 3), (''semantic_phase_kind'', JStr ''prefill''), (''semantic_decode_index'', JNull),
     (''semantic_graph_occurrence'', JInt 0), (''semantic_node_ordinal'', JInt 0), (''sequence'', JInt 0)]"

definition ex_phase :: Record where
  "ex_phase = ex_common ''PHASE'' @ [(''input_tokens'', JInt 4), (''phase_kind'', JStr ''prefill''),
     (''decode_index'', JNull)]"

definition ex_call :: "string \<Rightarrow> jval list \<Rightarrow> Record" where
  "ex_call stage required = ex_common ''NPU_CALL'' @ [(''call_id'', JInt 0), (''parent_id'', JInt 0),
     (''call_kind'', JStr ''FULL''), (''stage'', JStr stage), (''required_work_ids'', JArr required)]"

definition ex_work :: Record where
  "ex_work = ex_common ''NPU_WORK'' @ [(''parent_id'', JInt 0), (''call_id'', JInt 0), (''work_id'', JInt 0),
     (''parent_m'', JInt 4), (''row_begin'', JInt 0), (''row_count'', JInt 4),
     (''production_geometry_version'', JInt 1), (''block_size'', JInt 32), (''vector_op'', JInt 5),
     (''output_domain'', JInt 2), (''work_context'', JInt 0), (''source_row_begin'', JInt 0),
     (''source_row_count'', JInt 4), (''column_begin'', JInt 0), (''group_index'', JInt 0),
     (''stripe_id'', JNull), (''host_slot'', JNull), (''original_block_id'', JNull),
     (''activation_bits'', JInt 8), (''weight_bits'', JInt 8), (''dim'', JInt 16),
     (''hardware_contract_sha256'', JStr ''h''),
     (''m'', JInt 4), (''n'', JInt 8), (''k'', JInt 32), (''tile_i_count'', JInt 1), (''tile_j_count'', JInt 1),
     (''tile_k_count'', JInt 1), (''activation_stride_bytes'', JInt 32), (''weight_stride_bytes'', JInt 8),
     (''output_stride_bytes'', JInt 32), (''scale_stride_elements'', JInt 8),
     (''rmd_raw'', JBool False), (''host_integer_block_multiply'', JBool False),
     (''provenance'', JStr ''dense_main''), (''scope'', JStr ''full''), (''original_k'', JNull),
     (''runs'', JArr []), (''row_map'', JArr []), (''residual_work_revision'', JNull),
     (''layer'', JStr ''l0''), (''operation'', JStr ''op''), (''required_host_stage_ids'', JArr [])]"

definition ex_complete :: Record where
  "ex_complete = ex_common ''TARGET_OPERATION'' @ [(''status'', JStr ''success''),
     (''selected_target'', JStr ''TARGET_NPU''), (''target_eligible'', JBool True), (''reason'', JStr []),
     (''layer'', JStr ''l0''), (''operation'', JStr ''op''), (''actual_backend'', JStr ''npu''),
     (''activation_type'', JStr ''q8''), (''weight_type'', JStr ''q8''), (''m'', JInt 4), (''n'', JInt 8),
     (''k'', JInt 32), (''npu_work_count'', JInt 1)]"

definition ex_end :: Record where
  "ex_end = ex_common ''RUN_END'' @ [(''status'', JStr ''success''), (''reason'', JStr []),
     (''registered_operation_count'', JInt 1), (''completed_operation_count'', JInt 1),
     (''npu_work_count'', JInt 1), (''call_count'', JInt 1), (''phase_count'', JInt 1),
     (''host_stage_count'', JInt 0), (''completed_host_stage_count'', JInt 0), (''potal_host_count'', JInt 0),
     (''functional_emulation_count'', JInt 0), (''target_npu_count'', JInt 1), (''ordinary_cpu_count'', JInt 0),
     (''unsupported_count'', JInt 0), (''excluded_count'', JInt 0)]"

definition ex_trace :: "Record list" where
  "ex_trace = [ex_phase, ex_call ''PREPARE'' [], ex_call ''INVOKE'' [], ex_work,
     ex_call ''COMPLETE_REQUIRED'' [JInt 0], ex_call ''CONTINUATION'' [], ex_complete, ex_end]"

definition ex_works :: "Work list" where
  "ex_works = [\<lparr>w_phase = 0, w_operation_id = 0, w_parent_id = 0, w_node_id = 3, w_call_id = 0, w_identity = 0,
     w_layer = ''l0'', w_operation = ''op'', w_provenance = ''dense_main'', w_scope = ''full'', w_parent_rows = 4,
     w_row_begin = 0, w_stripe_id = None, w_inputs = [4, 8, 32, 1, 1, 1, 32, 8, 32, 8], w_original_k = None,
     w_runs = [], w_row_map = [], w_residual_work_revision = None\<rparr>]"

lemma ex_phase_fields:
  "map_of ex_phase ''kind'' = Some (JStr ''PHASE'')"
  "map_of ex_phase ''run_id'' = Some (JStr ''r'')"
  "map_of ex_phase ''collection_run_id'' = Some (JInt 7)"
  "map_of ex_phase ''run_config_id'' = Some (JStr ''c'')"
  "map_of ex_phase ''version'' = Some (JInt 2)"
  "map_of ex_phase ''phase_id'' = Some (JInt 0)"
  "map_of ex_phase ''operation_id'' = Some (JInt 0)"
  "map_of ex_phase ''node_id'' = Some (JInt 3)"
  "map_of ex_phase ''semantic_phase_kind'' = Some (JStr ''prefill'')"
  "map_of ex_phase ''semantic_decode_index'' = Some (JNull)"
  "map_of ex_phase ''semantic_graph_occurrence'' = Some (JInt 0)"
  "map_of ex_phase ''semantic_node_ordinal'' = Some (JInt 0)"
  "map_of ex_phase ''input_tokens'' = Some (JInt 4)"
  "map_of ex_phase ''phase_kind'' = Some (JStr ''prefill'')"
  "map_of ex_phase ''decode_index'' = Some (JNull)"
  by (unfold ex_phase_def ex_common_def append.simps) (rule map_of_hit | (rule map_of_skip, simp))+

lemma ex_call_fields:
  "map_of (ex_call stage required) ''kind'' = Some (JStr ''NPU_CALL'')"
  "map_of (ex_call stage required) ''run_id'' = Some (JStr ''r'')"
  "map_of (ex_call stage required) ''collection_run_id'' = Some (JInt 7)"
  "map_of (ex_call stage required) ''run_config_id'' = Some (JStr ''c'')"
  "map_of (ex_call stage required) ''version'' = Some (JInt 2)"
  "map_of (ex_call stage required) ''phase_id'' = Some (JInt 0)"
  "map_of (ex_call stage required) ''operation_id'' = Some (JInt 0)"
  "map_of (ex_call stage required) ''node_id'' = Some (JInt 3)"
  "map_of (ex_call stage required) ''semantic_phase_kind'' = Some (JStr ''prefill'')"
  "map_of (ex_call stage required) ''semantic_decode_index'' = Some (JNull)"
  "map_of (ex_call stage required) ''semantic_graph_occurrence'' = Some (JInt 0)"
  "map_of (ex_call stage required) ''semantic_node_ordinal'' = Some (JInt 0)"
  "map_of (ex_call stage required) ''call_id'' = Some (JInt 0)"
  "map_of (ex_call stage required) ''parent_id'' = Some (JInt 0)"
  "map_of (ex_call stage required) ''call_kind'' = Some (JStr ''FULL'')"
  "map_of (ex_call stage required) ''stage'' = Some (JStr stage)"
  "map_of (ex_call stage required) ''required_work_ids'' = Some (JArr required)"
  by (unfold ex_call_def ex_common_def append.simps) (rule map_of_hit | (rule map_of_skip, simp))+

lemma ex_work_fields:
  "map_of ex_work ''kind'' = Some (JStr ''NPU_WORK'')"
  "map_of ex_work ''run_id'' = Some (JStr ''r'')"
  "map_of ex_work ''collection_run_id'' = Some (JInt 7)"
  "map_of ex_work ''run_config_id'' = Some (JStr ''c'')"
  "map_of ex_work ''version'' = Some (JInt 2)"
  "map_of ex_work ''phase_id'' = Some (JInt 0)"
  "map_of ex_work ''operation_id'' = Some (JInt 0)"
  "map_of ex_work ''node_id'' = Some (JInt 3)"
  "map_of ex_work ''semantic_phase_kind'' = Some (JStr ''prefill'')"
  "map_of ex_work ''semantic_decode_index'' = Some (JNull)"
  "map_of ex_work ''semantic_graph_occurrence'' = Some (JInt 0)"
  "map_of ex_work ''semantic_node_ordinal'' = Some (JInt 0)"
  "map_of ex_work ''parent_id'' = Some (JInt 0)"
  "map_of ex_work ''call_id'' = Some (JInt 0)"
  "map_of ex_work ''work_id'' = Some (JInt 0)"
  "map_of ex_work ''parent_m'' = Some (JInt 4)"
  "map_of ex_work ''row_begin'' = Some (JInt 0)"
  "map_of ex_work ''row_count'' = Some (JInt 4)"
  "map_of ex_work ''production_geometry_version'' = Some (JInt 1)"
  "map_of ex_work ''block_size'' = Some (JInt 32)"
  "map_of ex_work ''vector_op'' = Some (JInt 5)"
  "map_of ex_work ''output_domain'' = Some (JInt 2)"
  "map_of ex_work ''work_context'' = Some (JInt 0)"
  "map_of ex_work ''source_row_begin'' = Some (JInt 0)"
  "map_of ex_work ''source_row_count'' = Some (JInt 4)"
  "map_of ex_work ''column_begin'' = Some (JInt 0)"
  "map_of ex_work ''group_index'' = Some (JInt 0)"
  "map_of ex_work ''stripe_id'' = Some (JNull)"
  "map_of ex_work ''host_slot'' = Some (JNull)"
  "map_of ex_work ''original_block_id'' = Some (JNull)"
  "map_of ex_work ''activation_bits'' = Some (JInt 8)"
  "map_of ex_work ''weight_bits'' = Some (JInt 8)"
  "map_of ex_work ''dim'' = Some (JInt 16)"
  "map_of ex_work ''hardware_contract_sha256'' = Some (JStr ''h'')"
  "map_of ex_work ''m'' = Some (JInt 4)"
  "map_of ex_work ''n'' = Some (JInt 8)"
  "map_of ex_work ''k'' = Some (JInt 32)"
  "map_of ex_work ''tile_i_count'' = Some (JInt 1)"
  "map_of ex_work ''tile_j_count'' = Some (JInt 1)"
  "map_of ex_work ''tile_k_count'' = Some (JInt 1)"
  "map_of ex_work ''activation_stride_bytes'' = Some (JInt 32)"
  "map_of ex_work ''weight_stride_bytes'' = Some (JInt 8)"
  "map_of ex_work ''output_stride_bytes'' = Some (JInt 32)"
  "map_of ex_work ''scale_stride_elements'' = Some (JInt 8)"
  "map_of ex_work ''rmd_raw'' = Some (JBool False)"
  "map_of ex_work ''host_integer_block_multiply'' = Some (JBool False)"
  "map_of ex_work ''provenance'' = Some (JStr ''dense_main'')"
  "map_of ex_work ''scope'' = Some (JStr ''full'')"
  "map_of ex_work ''original_k'' = Some (JNull)"
  "map_of ex_work ''runs'' = Some (JArr [])"
  "map_of ex_work ''row_map'' = Some (JArr [])"
  "map_of ex_work ''residual_work_revision'' = Some (JNull)"
  "map_of ex_work ''layer'' = Some (JStr ''l0'')"
  "map_of ex_work ''operation'' = Some (JStr ''op'')"
  "map_of ex_work ''required_host_stage_ids'' = Some (JArr [])"
  by (unfold ex_work_def ex_common_def append.simps) (rule map_of_hit | (rule map_of_skip, simp))+

lemma ex_complete_fields:
  "map_of ex_complete ''kind'' = Some (JStr ''TARGET_OPERATION'')"
  "map_of ex_complete ''run_id'' = Some (JStr ''r'')"
  "map_of ex_complete ''collection_run_id'' = Some (JInt 7)"
  "map_of ex_complete ''run_config_id'' = Some (JStr ''c'')"
  "map_of ex_complete ''version'' = Some (JInt 2)"
  "map_of ex_complete ''phase_id'' = Some (JInt 0)"
  "map_of ex_complete ''operation_id'' = Some (JInt 0)"
  "map_of ex_complete ''node_id'' = Some (JInt 3)"
  "map_of ex_complete ''semantic_phase_kind'' = Some (JStr ''prefill'')"
  "map_of ex_complete ''semantic_decode_index'' = Some (JNull)"
  "map_of ex_complete ''semantic_graph_occurrence'' = Some (JInt 0)"
  "map_of ex_complete ''semantic_node_ordinal'' = Some (JInt 0)"
  "map_of ex_complete ''status'' = Some (JStr ''success'')"
  "map_of ex_complete ''selected_target'' = Some (JStr ''TARGET_NPU'')"
  "map_of ex_complete ''target_eligible'' = Some (JBool True)"
  "map_of ex_complete ''reason'' = Some (JStr [])"
  "map_of ex_complete ''layer'' = Some (JStr ''l0'')"
  "map_of ex_complete ''operation'' = Some (JStr ''op'')"
  "map_of ex_complete ''actual_backend'' = Some (JStr ''npu'')"
  "map_of ex_complete ''activation_type'' = Some (JStr ''q8'')"
  "map_of ex_complete ''weight_type'' = Some (JStr ''q8'')"
  "map_of ex_complete ''m'' = Some (JInt 4)"
  "map_of ex_complete ''n'' = Some (JInt 8)"
  "map_of ex_complete ''k'' = Some (JInt 32)"
  "map_of ex_complete ''npu_work_count'' = Some (JInt 1)"
  by (unfold ex_complete_def ex_common_def append.simps) (rule map_of_hit | (rule map_of_skip, simp))+

lemma ex_end_fields:
  "map_of ex_end ''kind'' = Some (JStr ''RUN_END'')"
  "map_of ex_end ''run_id'' = Some (JStr ''r'')"
  "map_of ex_end ''collection_run_id'' = Some (JInt 7)"
  "map_of ex_end ''run_config_id'' = Some (JStr ''c'')"
  "map_of ex_end ''version'' = Some (JInt 2)"
  "map_of ex_end ''phase_id'' = Some (JInt 0)"
  "map_of ex_end ''operation_id'' = Some (JInt 0)"
  "map_of ex_end ''node_id'' = Some (JInt 3)"
  "map_of ex_end ''semantic_phase_kind'' = Some (JStr ''prefill'')"
  "map_of ex_end ''semantic_decode_index'' = Some (JNull)"
  "map_of ex_end ''semantic_graph_occurrence'' = Some (JInt 0)"
  "map_of ex_end ''semantic_node_ordinal'' = Some (JInt 0)"
  "map_of ex_end ''status'' = Some (JStr ''success'')"
  "map_of ex_end ''reason'' = Some (JStr [])"
  "map_of ex_end ''registered_operation_count'' = Some (JInt 1)"
  "map_of ex_end ''completed_operation_count'' = Some (JInt 1)"
  "map_of ex_end ''npu_work_count'' = Some (JInt 1)"
  "map_of ex_end ''call_count'' = Some (JInt 1)"
  "map_of ex_end ''phase_count'' = Some (JInt 1)"
  "map_of ex_end ''host_stage_count'' = Some (JInt 0)"
  "map_of ex_end ''completed_host_stage_count'' = Some (JInt 0)"
  "map_of ex_end ''potal_host_count'' = Some (JInt 0)"
  "map_of ex_end ''functional_emulation_count'' = Some (JInt 0)"
  "map_of ex_end ''target_npu_count'' = Some (JInt 1)"
  "map_of ex_end ''ordinary_cpu_count'' = Some (JInt 0)"
  "map_of ex_end ''unsupported_count'' = Some (JInt 0)"
  "map_of ex_end ''excluded_count'' = Some (JInt 0)"
  by (unfold ex_end_def ex_common_def append.simps) (rule map_of_hit | (rule map_of_skip, simp))+

lemmas ex_fields = ex_phase_fields ex_call_fields ex_work_fields ex_complete_fields ex_end_fields

lemmas ex_eval = integer_def rget_def item_def text_of_def opt_integer_def U64_def require_def requirer_def Let_def
  array_or_def

lemma ex_work_parsed: "parse_work ex_work ex_run = Inr (hd ex_works)"
  by (simp add: parse_work_def ex_work_fields ex_run_def ex_works_def ex_eval INPUT_KEYS_def work_view_def
      cong: run_congs)


section \<open>The states along the trace\<close>

definition ex_key :: SemanticKey where
  "ex_key = (''prefill'', None, 0, 0)"

definition ex_pending :: "int \<Rightarrow> Operation" where
  "ex_pending n = \<lparr>op_works = n, op_node = Some 3, op_layer = (if n = 0 then None else Some ''l0''),
     op_name = (if n = 0 then None else Some ''op''), dense_shape = (if n = 0 then None else Some (4, 8, 32)),
     op_semantic = Some ex_key\<rparr>"

definition ex_calls :: "string list \<Rightarrow> int fset \<Rightarrow> int fset \<Rightarrow> Calls" where
  "ex_calls stages works required =
     \<lparr>cs_active = [(0, \<lparr>c_operation = 0, c_node = 3, c_parent = Some 0, c_kind = ''FULL'', c_stages = stages,
        c_works = works, c_required = required\<rparr>)],
      cs_done = CompletedIDs_init, cs_count = 1, work_operations = (if works = {||} then [] else [(0, 0)]),
      operation_works = (if works = {||} then [] else [(0, {|0|})]), call_operations = [(0, 0)],
      parent_operations = [(0, 0)], host_declared_parents = {||}\<rparr>"

definition ex_state :: "Calls \<Rightarrow> int \<Rightarrow> TraceState" where
  "ex_state calls n = (TraceState_init ex_run)\<lparr>phases := [ex_phase], pending := [(0, ex_pending n)],
     ts_calls := calls, dispatch_done := \<lparr>cursor = n, ahead = {||}\<rparr>,
     work_counts := (if n = 0 then [] else [(''dense_main'', n)])\<rparr>"

definition ex_calls_done :: Calls where
  "ex_calls_done = (ex_calls [] {|0|} {||})\<lparr>cs_active := [], cs_done := \<lparr>cursor = 1, ahead = {||}\<rparr>\<rparr>"

definition ex_final :: TraceState where
  "ex_final = (ex_state (Calls_init\<lparr>cs_done := \<lparr>cursor = 1, ahead = {||}\<rparr>, cs_count := 1\<rparr>) 1)\<lparr>pending := [],
     operation_done := \<lparr>cursor = 1, ahead = {||}\<rparr>, completed_operations := 1,
     operation_counts := [(''TARGET_NPU'', 1), (''ORDINARY_CPU'', 0), (''UNSUPPORTED'', 0), (''EXCLUDED'', 0)]\<rparr>"

lemmas ex_states = TraceState_init_def ex_run_def ex_state_def ex_calls_def ex_pending_def ex_key_def Calls_init_def
  Hosts_init_def CompletedIDs_init_def Operation_init_def

lemma ex_step_phase: "consume (TraceState_init ex_run) ex_phase = Inr ((TraceState_init ex_run)\<lparr>phases := [ex_phase]\<rparr>, None)"
  by (simp add: consume_def ex_phase_fields ex_eval ex_states ts_phase_def phase_boundary_def calls_boundary_def
      hosts_boundary_def cong: run_congs)

lemmas ex_consume = consume_def ex_eval ex_fields check_semantic_def ts_operation_def semantic_key_def
  ids_contains_def ex_key_def

lemma ex_step_prepare:
  "consume ((TraceState_init ex_run)\<lparr>phases := [ex_phase]\<rparr>) (ex_call ''PREPARE'' []) =
     Inr (ex_state (ex_calls [''PREPARE''] {||} {||}) 0, None)"
  by (simp add: ex_consume ex_states ts_call_def calls_stage_def KINDS_def ORDER_def call_lookup_def call_parent_def
      id_list_def call_adopt_def call_append_def cong: run_congs)

lemma ex_step_invoke:
  "consume (ex_state (ex_calls [''PREPARE''] {||} {||}) 0) (ex_call ''INVOKE'' []) =
     Inr (ex_state (ex_calls [''PREPARE'', ''INVOKE''] {||} {||}) 0, None)"
  by (simp add: ex_consume ex_states ts_call_def calls_stage_def KINDS_def ORDER_def call_lookup_def call_parent_def
      id_list_def call_adopt_def call_append_def cong: run_congs)

lemma ex_step_work:
  "consume (ex_state (ex_calls [''PREPARE'', ''INVOKE''] {||} {||}) 0) ex_work =
     Inr (ex_state (ex_calls [''PREPARE'', ''INVOKE''] {|0|} {||}) 1, Some (hd ex_works))"
proof -
  have run: "ts_run (ex_state calls n) = ex_run" for calls n by (simp add: ex_state_def TraceState_init_def)
  have sem: "check_semantic (ex_state (ex_calls [''PREPARE'', ''INVOKE''] {||} {||}) 0) ex_work =
      Inr (ex_state (ex_calls [''PREPARE'', ''INVOKE''] {||} {||}) 0)"
    by (simp add: ex_consume ex_states cong: run_congs)
  have work: "ts_work (ex_state (ex_calls [''PREPARE'', ''INVOKE''] {||} {||}) 0) ex_work =
      Inr (ex_state (ex_calls [''PREPARE'', ''INVOKE''] {|0|} {||}) 1, hd ex_works)"
    unfolding ts_work_def run ex_work_parsed
    by (simp add: hosts_before_work_def references_def id_list_def ex_eval ex_work_fields ex_states ex_works_def
        counter_total_def ts_operation_def ids_contains_def work_operation_def work_dispatch_def dispatch_key_def
        ids_add_def ids_absorb.simps calls_work_def scope_kind_def counter_inc_def counter_get_def cong: run_congs)
  have e: "ended (ex_state calls n) = False" for calls n by (simp add: ex_state_def TraceState_init_def)
  have r: "run_identity ex_run = ''r''" "run_collection_id ex_run = 7" "run_run_config_id ex_run = ''c''"
    by (simp_all add: ex_run_def)
  show ?thesis unfolding consume_def run e r
    by (simp add: ex_eval ex_work_fields sem work cong: run_congs)
qed

lemma ex_step_required:
  "consume (ex_state (ex_calls [''PREPARE'', ''INVOKE''] {|0|} {||}) 1) (ex_call ''COMPLETE_REQUIRED'' [JInt 0]) =
     Inr (ex_state (ex_calls [''PREPARE'', ''INVOKE'', ''COMPLETE_REQUIRED''] {|0|} {|0|}) 1, None)"
  by (simp add: ex_consume ex_states ts_call_def calls_stage_def KINDS_def ORDER_def call_lookup_def call_parent_def
      id_list_def call_adopt_def call_append_def cong: run_congs)

lemma ex_step_continuation:
  "consume (ex_state (ex_calls [''PREPARE'', ''INVOKE'', ''COMPLETE_REQUIRED''] {|0|} {|0|}) 1) (ex_call ''CONTINUATION'' []) =
     Inr (ex_state ex_calls_done 1, None)"
  by (simp add: ex_consume ex_states ex_calls_done_def ts_call_def calls_stage_def KINDS_def ORDER_def call_lookup_def
      call_parent_def call_continue_def ids_add_def ids_absorb.simps fcard.rep_eq
      id_list_def call_adopt_def call_append_def cong: run_congs)

lemma ex_step_complete: "consume (ex_state ex_calls_done 1) ex_complete = Inr (ex_final, None)"
  by (simp add: ex_consume ex_states ex_calls_done_def ex_final_def ts_complete_operation_def completion_checks_def
      CLASSES_def hosts_operation_complete_def calls_operation_complete_def del_key_def has_key_def
      ids_add_def ids_absorb.simps counter_inc_def counter_get_def sorted_list_of_fset.rep_eq cong: run_congs)

lemma ex_step_end: "consume ex_final ex_end = Inr (ex_final\<lparr>ended := True\<rparr>, None)"
  by (simp add: ex_consume ex_states ex_final_def ts_end_def phase_boundary_def calls_boundary_def hosts_boundary_def
      expected_counts_def check_count_def counter_total_def counter_get_def cong: run_congs)

lemma ex_trace_accepted:
  "trace_run (TraceState_init ex_run) ex_trace = Inr (ex_final\<lparr>ended := True\<rparr>, ex_works)"
  by (simp add: trace_run_def ex_trace_def trace_step_def ex_step_phase ex_step_prepare ex_step_invoke ex_step_work
      ex_step_required ex_step_continuation ex_step_complete ex_step_end) (simp add: ex_works_def)

lemma ex_boundary: "phase_boundary (ex_final\<lparr>ended := True\<rparr>) = Inr ()"
  by (simp add: ex_final_def ex_states phase_boundary_def calls_boundary_def hosts_boundary_def require_def)

lemma trace_parents_tiled_witness: "tile_rows (parent_works 0 ex_works) = 4"
  using trace_parents_tiled [OF ex_trace_accepted ex_boundary, of "hd ex_works"] by (simp add: ex_works_def)


lemma trace_operation_work_count_witness: "works_of 0 ex_works = 1"
  using trace_operation_work_count [OF ex_trace_accepted, of ex_complete]
  by (simp add: ex_trace_def kind_is_def operation_of_def rget_def ex_complete_fields)

lemma trace_call_stages_witness: "last (call_stages 0 ex_trace) = ''CONTINUATION''"
  using trace_call_stages [OF ex_trace_accepted ex_boundary, of 0]
  by (simp add: ex_final_def ex_state_def)

end
