(* ===== verification/Replay_Theorems.thy ===== *)
theory Replay_Theorems
  imports Npu_Replay Trace_Example "HOL-Library.Multiset"
begin

text \<open>
  Properties of the replay: every work the trace validator accepts is a well-formed request of the
  cycle model, the cache changes no output, and the accounting adds up.
\<close>

section \<open>Accepted works are well-formed requests\<close>

lemma parse_work_inputs:
  assumes "parse_work r run = Inr w"
  shows "mapr (integer r) INPUT_KEYS = Inr (w_inputs w)"
    and "w_identity w \<in> {0..<2 ^ 64}"
    and "integer r ''phase_id'' = Inr (w_phase w)"
    and "\<exists>scope. work_view r run (w_provenance w) scope (w_inputs w ! 0) (w_inputs w ! 1) (w_inputs w ! 2) =
      Inr (w_original_k w, w_runs w, w_row_map w, w_residual_work_revision w)"
proof -
  from assms [unfolded parse_work_def Let_def bnd_eq_Inr require_eq_Inr requirer_eq_Inr split_def sum.inject]
  obtain vals provenance scope view ids rows begin' stripe layer op where
    v: "mapr (integer r) INPUT_KEYS = Inr vals"
    and view: "work_view r run provenance scope (vals ! 0) (vals ! 1) (vals ! 2) = Inr view"
    and ids: "mapr (integer r) [''phase_id'', ''operation_id'', ''parent_id'', ''node_id'', ''call_id'', ''work_id''] = Inr ids"
    and w: "\<lparr>w_phase = ids ! 0, w_operation_id = ids ! 1, w_parent_id = ids ! 2, w_node_id = ids ! 3,
          w_call_id = ids ! 4, w_identity = ids ! 5, w_layer = layer, w_operation = op,
          w_provenance = provenance, w_scope = scope, w_parent_rows = rows, w_row_begin = begin',
          w_stripe_id = stripe, w_inputs = vals, w_original_k = fst view, w_runs = fst (snd view),
          w_row_map = fst (snd (snd view)), w_residual_work_revision = snd (snd (snd view))\<rparr> = w"
    by (elim exE conjE) (rule that; assumption)
  show "mapr (integer r) INPUT_KEYS = Inr (w_inputs w)" using v by (simp add: w [symmetric])
  show "w_identity w \<in> {0..<2 ^ 64}" using ids by (auto simp: w [symmetric] bnd_eq_Inr integer_eq_Inr U64_def)
  show "integer r ''phase_id'' = Inr (w_phase w)" using ids by (auto simp: w [symmetric] bnd_eq_Inr)
  show "\<exists>scope. work_view r run (w_provenance w) scope (w_inputs w ! 0) (w_inputs w ! 1) (w_inputs w ! 2) =
      Inr (w_original_k w, w_runs w, w_row_map w, w_residual_work_revision w)"
    using view by (simp add: w [symmetric] exI [of _ scope])
qed

lemma work_view_spans:
  assumes "work_view r run provenance scope m n k = Inr (ok, runs, rows, revision)" and "runs \<noteq> []"
  obtains k0 where "ok = Some k0" "0 < k0" "k0 < 2 ^ 32" "spans_ok k0 0 (-1) runs" "spans_total runs = k"
    "int (length runs) \<le> k" "k < 2 ^ 32"
proof -
  obtain bits wb d where wd: "run_widths_dim run = (bits, wb, d)" by (metis prod_cases3)
  from assms obtain k0 rows' where v: "parse_run_view r (bits, wb, d) m n k = Inr (k0, runs, rows')" and ok: "ok = Some k0"
    by (auto simp: work_view_def wd bnd_eq_Inr require_eq_Inr requirer_eq_Inr split: if_splits prod.splits)
  from v [unfolded parse_run_view_def prod.case bnd_eq_Inr require_eq_Inr split_def sum.inject prod.inject]
  obtain raws st where b: "0 < k0 \<and> k0 \<le> 2 ^ 32 - 1 \<and> 0 < m \<and> m \<le> 2 ^ 32 - 1 \<and> 0 < n \<and> n \<le> 2 ^ 32 - 1 \<and> 0 < k \<and> k \<le> 2 ^ 32 - 1"
    and len: "0 < length raws \<and> int (length raws) \<le> k"
    and f: "foldm (run_step (32 div min d 32) k0) ([], 0, -1) raws = Inr st" and c: "fst (snd st) = k" "fst st = runs"
    by (elim exE conjE) (rule that; simp)
  obtain previous where "st = (runs, k, previous)" using c by (cases st) auto
  with run_fold [OF f [unfolded this]] len b ok show thesis by (intro that [of k0]) auto
qed


section \<open>The cache is transparent\<close>

text \<open>The works a trace yields before its first error.\<close>

fun trace_works :: "TraceState \<Rightarrow> Record list \<Rightarrow> Work list" where
  "trace_works st [] = []"
| "trace_works st (r # rs) = (case consume st r of
     Inl _ \<Rightarrow> []
   | Inr (st', wo) \<Rightarrow> (case wo of None \<Rightarrow> [] | Some w \<Rightarrow> [w]) @ trace_works st' rs)"

lemma trace_run_works_acc:
  "foldm trace_step (st, acc) rs = Inr (st', ws) \<Longrightarrow> ws = acc @ trace_works st rs"
proof (induction rs arbitrary: st acc)
  case (Cons r rs)
  then obtain st1 wo where c: "consume st r = Inr (st1, wo)"
    and rest: "foldm trace_step (st1, acc @ (case wo of None \<Rightarrow> [] | Some w \<Rightarrow> [w])) rs = Inr (st', ws)"
    by (cases "consume st r") (auto simp: trace_step_def [of "(st, acc)" r])
  from Cons.IH [OF rest] c show ?case by (simp split: option.splits)
qed simp

lemma trace_run_works: "trace_run st rs = Inr (st', ws) \<Longrightarrow> trace_works st rs = ws"
  using trace_run_works_acc [of st "[]" rs st' ws] by (simp add: trace_run_def)

text \<open>The loop without a cache: every work is estimated.\<close>

definition direct_step :: "cycle_native \<Rightarrow> ext \<Rightarrow> replay_artifacts \<Rightarrow> Record \<Rightarrow> replay_state \<Rightarrow> Record \<Rightarrow> replay_state res" where
  "direct_step N E art identities st r =
     bnd (consume (rs_trace st) r) (\<lambda>(trace, wo).
     let st1 = st\<lparr>rs_trace := trace\<rparr> in
     case wo of None \<Rightarrow> Inr st1
     | Some work \<Rightarrow>
         bnd (residual_checks art work) (\<lambda>_.
         bnd (modeled N (run_profile (ts_run trace)) work) (\<lambda>result.
         account E art identities r work result st1)))"

definition replay_direct :: "ext \<Rightarrow> cycle_native \<Rightarrow> replay_artifacts \<Rightarrow> TraceState \<Rightarrow> Record list \<Rightarrow>
    (string list \<times> Record) res" where
  "replay_direct E N art st0 rest =
     bnd (contracts_ok E art (ts_run st0)) (\<lambda>_.
     bnd (replay_identities art (ts_run st0)) (\<lambda>identities.
     bnd (foldm (direct_step N E art identities) (replay_start st0) rest) (\<lambda>st.
     bnd (replay_summary E art identities st) (\<lambda>summary. Inr (rs_lines st, summary)))))"

definition cache_ok :: "ext \<Rightarrow> cycle_native \<Rightarrow> string \<Rightarrow> Work set \<Rightarrow> (string, Record) dict \<Rightarrow> bool" where
  "cache_ok E N p W cache \<longleftrightarrow> (\<forall>(b, res) \<in> set cache. \<exists>w \<in> W. work_binding E w = b \<and> modeled N p w = Inr res)"

definition binding_determines :: "ext \<Rightarrow> cycle_native \<Rightarrow> string \<Rightarrow> Work set \<Rightarrow> bool" where
  "binding_determines E N p W \<longleftrightarrow>
     (\<forall>w \<in> W. \<forall>w' \<in> W. work_binding E w = work_binding E w' \<longrightarrow> modeled N p w = modeled N p w')"

lemma set_update_subset: "set (AList.update k v d) \<subseteq> insert (k, v) (set d)"
  by (induction d) auto

lemma cached_result_direct:
  assumes "cache_ok E N p W cache" and "w \<in> W" and "binding_determines E N p W"
  shows "case cached_result E N p cache w of
      Inl e \<Rightarrow> modeled N p w = Inl e
    | Inr (res, cache') \<Rightarrow> modeled N p w = Inr res \<and> cache_ok E N p W cache'"
proof (cases "map_of cache (work_binding E w)")
  case (Some res)
  then obtain w' where "w' \<in> W" "work_binding E w' = work_binding E w" "modeled N p w' = Inr res"
    using assms(1) by (auto simp: cache_ok_def dest!: map_of_SomeD)
  with assms(2,3) have "modeled N p w = Inr res" by (metis binding_determines_def)
  with Some assms(1) show ?thesis by (simp add: cached_result_def Let_def)
next
  case None
  show ?thesis
  proof (cases "modeled N p w")
    case (Inl e)
    with None show ?thesis by (simp add: cached_result_def Let_def)
  next
    case (Inr res)
    let ?c = "if length cache = 4096 then tl cache else cache"
    have "set ?c \<subseteq> set cache" by (auto dest: list.set_sel(2) [rotated] intro: list.set_sel(2))
    then have "cache_ok E N p W (AList.update (work_binding E w) res ?c)"
      using assms(1,2) Inr set_update_subset [of "work_binding E w" res ?c] unfolding cache_ok_def by blast
    with None Inr show ?thesis by (simp add: cached_result_def Let_def)
  qed
qed

lemma account_cache:
  "account E art ids r w res (st\<lparr>rs_cache := c\<rparr>) = bnd (account E art ids r w res st) (\<lambda>t. Inr (t\<lparr>rs_cache := c\<rparr>))"
  by (auto simp: account_def bnd_def Let_def split: sum.splits)

text \<open>What a record leaves alone: the run, and the phases before it.\<close>

lemma consume_frame:
  assumes "consume st r = Inr (st', wo)"
  shows "ts_run st' = ts_run st \<and> (\<exists>ps. phases st' = phases st @ ps) \<and>
    (\<forall>w. wo = Some w \<longrightarrow> phases st' \<noteq> [] \<and> w_phase w = int (length (phases st')) - 1)"
  using assms
proof (cases rule: consume_elim)
  case phase
  then show ?thesis using ts_phase_Inr by fastforce
next
  case (work st1 w)
  obtain pend where st1: "st1 = st\<lparr>pending := pend\<rparr>" using check_semantic_frame [OF work(3)] by blast
  from ts_work_Inr [OF work(4)] obtain op st2 op1 st3 calls where
    pw: "parse_work r (ts_run st1) = Inr w" and op: "ts_operation st1 (w_operation_id w) = Inr (op, st2)"
    and wd: "work_dispatch st2 w = Inr st3"
    and st': "st' = st3\<lparr>pending := AList.update (w_operation_id w) (op1\<lparr>op_works := op_works op1 + 1\<rparr>) (pending st3),
              ts_calls := calls, work_counts := counter_inc (work_counts st3) (w_provenance w)\<rparr>" by blast
  obtain pend2 where st2: "st2 = st1\<lparr>pending := pend2\<rparr>" using ts_operation_frame [OF op] by blast
  have st3: "ts_run st3 = ts_run st2 \<and> phases st3 = phases st2"
    using wd by (auto elim!: work_dispatch_Inr)
  from work(3) have ph: "phases st \<noteq> []" "integer r ''phase_id'' = Inr (int (length (phases st)) - 1)"
    by (auto simp: check_semantic_def bnd_eq_Inr require_eq_Inr)
  from parse_work_inputs(3) [OF pw] ph(2) have "w_phase w = int (length (phases st)) - 1" by simp
  then show ?thesis using st' st3 st2 st1 ph(1) work(5) by simp
next
  case (call st1)
  then show ?thesis using check_semantic_frame [OF call(3)] ts_call_Inr [OF call(4)] ts_operation_frame by fastforce
next
  case (host st1)
  then show ?thesis using check_semantic_frame [OF host(3)] ts_host_frame [OF host(4)] by auto
next
  case (complete st1)
  then show ?thesis using check_semantic_frame [OF complete(3)] ts_complete_Inr [OF complete(4)] ts_operation_frame by fastforce
next
  case end_run
  then show ?thesis using ts_end_Inr by fastforce
qed

lemma step_direct:
  assumes "cache_ok E N p W (rs_cache s)" and "binding_determines E N p W" and "p = run_profile (ts_run (rs_trace s))"
    and "\<forall>st' w. consume (rs_trace s) r = Inr (st', Some w) \<longrightarrow> w \<in> W"
  shows "case replay_step E N art ids s r of
      Inl e \<Rightarrow> direct_step N E art ids (s\<lparr>rs_cache := []\<rparr>) r = Inl e
    | Inr t \<Rightarrow> direct_step N E art ids (s\<lparr>rs_cache := []\<rparr>) r = Inr (t\<lparr>rs_cache := []\<rparr>) \<and> cache_ok E N p W (rs_cache t) \<and>
        (\<exists>wo. consume (rs_trace s) r = Inr (rs_trace t, wo))"
proof (cases "consume (rs_trace s) r")
  case (Inl e)
  then show ?thesis by (simp add: replay_step_def direct_step_def)
next
  case (Inr c)
  obtain st' wo where c: "c = (st', wo)" by (cases c)
  show ?thesis
  proof (cases wo)
    case None
    with Inr c assms(1) show ?thesis by (simp add: replay_step_def direct_step_def Let_def)
  next
    case (Some w)
    with Inr c assms(4) have w: "w \<in> W" by blast
    have p: "run_profile (ts_run st') = p" using consume_frame [OF Inr [unfolded c]] assms(3) by simp
    note cr = cached_result_direct [OF assms(1) w assms(2)]
    show ?thesis
    proof (cases "cached_result E N p (rs_cache s) w")
      case (Inl e)
      with cr Inr c Some p show ?thesis
        by (cases "residual_checks art w") (simp_all add: replay_step_def direct_step_def Let_def)
    next
      case (Inr rc)
      obtain res cache' where rc: "rc = (res, cache')" by (cases rc)
      from cr Inr rc have m: "modeled N p w = Inr res" and ok: "cache_ok E N p W cache'" by simp_all
      let ?s = "s\<lparr>rs_cache := [], rs_trace := st'\<rparr>"
      have swap: "s\<lparr>rs_trace := st', rs_cache := cache'\<rparr> = ?s\<lparr>rs_cache := cache'\<rparr>" by simp
      have acc: "account E art ids r w res (s\<lparr>rs_trace := st', rs_cache := cache'\<rparr>) =
          bnd (account E art ids r w res ?s) (\<lambda>t. Inr (t\<lparr>rs_cache := cache'\<rparr>))"
        unfolding swap by (rule account_cache)
      have same: "rs_cache t = [] \<and> rs_trace t = st'" if "account E art ids r w res ?s = Inr t" for t
        using that by (auto simp: account_def bnd_eq_Inr Let_def)
      have t: "t\<lparr>rs_cache := []\<rparr> = t" if "rs_cache t = []" for t :: replay_state using that by (cases t) simp
      have rs: "replay_step E N art ids s r = bnd (residual_checks art w) (\<lambda>_.
          account E art ids r w res (s\<lparr>rs_trace := st', rs_cache := cache'\<rparr>))"
        using \<open>consume (rs_trace s) r = Inr c\<close> c Some p Inr rc by (simp add: replay_step_def Let_def)
      have ds: "direct_step N E art ids (s\<lparr>rs_cache := []\<rparr>) r = bnd (residual_checks art w) (\<lambda>_. account E art ids r w res ?s)"
        using \<open>consume (rs_trace s) r = Inr c\<close> c Some p m by (simp add: direct_step_def Let_def)
      show ?thesis
      proof (cases "residual_checks art w")
        case (Inl e)
        then show ?thesis by (simp add: rs ds)
      next
        case u: (Inr u)
        show ?thesis
        proof (cases "account E art ids r w res ?s")
          case (Inl e)
          with u show ?thesis by (simp add: rs ds acc)
        next
          case (Inr t')
          from same [OF Inr] t have "t'\<lparr>rs_cache := []\<rparr> = t'" "rs_trace t' = st'" by auto
          with u Inr ok show ?thesis using \<open>consume (rs_trace s) r = Inr c\<close> c by (simp add: rs ds acc)
        qed
      qed
    qed
  qed
qed

lemma foldm_direct:
  assumes "cache_ok E N p W (rs_cache s)" and "binding_determines E N p W" and "p = run_profile (ts_run (rs_trace s))"
    and "set (trace_works (rs_trace s) rs) \<subseteq> W"
  shows "bnd (foldm (replay_step E N art ids) s rs) (\<lambda>t. Inr (t\<lparr>rs_cache := []\<rparr>)) =
    foldm (direct_step N E art ids) (s\<lparr>rs_cache := []\<rparr>) rs"
  using assms
proof (induction rs arbitrary: s)
  case Nil
  then show ?case by simp
next
  case (Cons r rs)
  have w: "\<forall>st' w. consume (rs_trace s) r = Inr (st', Some w) \<longrightarrow> w \<in> W" using Cons.prems(4) by auto
  note step = step_direct [OF Cons.prems(1-3) w, where art = art and ids = ids]
  show ?case
  proof (cases "replay_step E N art ids s r")
    case (Inl e)
    with step show ?thesis by simp
  next
    case (Inr t)
    with step obtain wo where d: "direct_step N E art ids (s\<lparr>rs_cache := []\<rparr>) r = Inr (t\<lparr>rs_cache := []\<rparr>)"
      and ok: "cache_ok E N p W (rs_cache t)" and c: "consume (rs_trace s) r = Inr (rs_trace t, wo)" by auto
    have "set (trace_works (rs_trace t) rs) \<subseteq> W" using Cons.prems(4) c by simp
    moreover have "p = run_profile (ts_run (rs_trace t))" using Cons.prems(3) consume_frame [OF c] by simp
    ultimately show ?thesis using Cons.IH [OF ok Cons.prems(2)] Inr d by simp
  qed
qed


section \<open>The accounting adds up\<close>

lemma dd_add_sum: "distinct (map fst d) \<Longrightarrow> sum_list (map snd (dd_add d k n)) = sum_list (map snd d) + n"
proof (induction d)
  case (Cons kv d)
  obtain a b where kv: "kv = (a, b)" by (cases kv)
  show ?case
  proof (cases "a = k")
    case True
    then show ?thesis by (simp add: kv dd_add_def dd_get_def)
  next
    case False
    then have "dd_add (kv # d) k n = (a, b) # dd_add d k n" by (simp add: kv dd_add_def dd_get_def)
    then show ?thesis using Cons by (simp add: kv)
  qed
qed (simp add: dd_add_def dd_get_def)

lemma dd_add_keys: "distinct (map fst d) \<Longrightarrow> distinct (map fst (dd_add d k n))" "set (map fst (dd_add d k n)) = insert k (set (map fst d))"
  by (auto simp: dd_add_def distinct_update update_keys)

lemma dd_get_sum:
  assumes "distinct (map fst d)" "set (map fst d) \<subseteq> S" "finite S"
  shows "(\<Sum>i\<in>S. dd_get d i) = sum_list (map snd d)"
  using assms
proof (induction d)
  case (Cons kv d)
  obtain a b where kv: "kv = (a, b)" by (cases kv)
  with Cons.prems have a: "a \<in> S" "map_of d a = None" by (auto simp: map_of_eq_None_iff)
  have "(\<Sum>i\<in>S. dd_get (kv # d) i) = (\<Sum>i\<in>S. dd_get d i + (if i = a then b else 0))"
    by (rule sum.cong) (use a in \<open>auto simp: kv dd_get_def\<close>)
  also have "\<dots> = (\<Sum>i\<in>S. dd_get d i) + b" using a Cons.prems(3) by (simp add: sum.distrib)
  finally show ?case using Cons by (simp add: kv)
qed (simp add: dd_get_def)

definition replay_inv :: "TraceState \<Rightarrow> Record list \<Rightarrow> replay_state \<Rightarrow> bool" where
  "replay_inv st0 ps s \<longleftrightarrow>
     (\<exists>ws. trace_run st0 ps = Inr (rs_trace s, ws) \<and> length (rs_lines s) = length ws) \<and>
     distinct (map fst (rs_per_layer s)) \<and> distinct (map fst (rs_per_phase s)) \<and>
     sum_list (map snd (rs_per_layer s)) = sum_list (map snd (rs_per_phase s)) \<and>
     set (map fst (rs_per_phase s)) \<subseteq> {0..<int (length (phases (rs_trace s)))}"

lemma account_Inr:
  assumes "account E art ids r w res st = Inr t"
  shows "\<exists>cycles line. rs_trace t = rs_trace st \<and> rs_lines t = rs_lines st @ [line] \<and>
    rs_per_layer t = dd_add (rs_per_layer st) (w_layer w) cycles \<and> rs_per_phase t = dd_add (rs_per_phase st) (w_phase w) cycles"
  using assms by (auto simp: account_def bnd_eq_Inr Let_def)

lemma replay_step_Inr:
  assumes "replay_step E N art ids s r = Inr t"
  shows "\<exists>wo. consume (rs_trace s) r = Inr (rs_trace t, wo) \<and>
    (case wo of
       None \<Rightarrow> rs_lines t = rs_lines s \<and> rs_per_layer t = rs_per_layer s \<and> rs_per_phase t = rs_per_phase s
     | Some w \<Rightarrow> \<exists>cycles line. rs_lines t = rs_lines s @ [line] \<and>
         rs_per_layer t = dd_add (rs_per_layer s) (w_layer w) cycles \<and> rs_per_phase t = dd_add (rs_per_phase s) (w_phase w) cycles)"
proof -
  from assms obtain st' wo where c: "consume (rs_trace s) r = Inr (st', wo)"
    by (auto simp: replay_step_def bnd_eq_Inr)
  show ?thesis
  proof (cases wo)
    case None
    with c assms show ?thesis by (auto simp: replay_step_def Let_def)
  next
    case (Some w)
    with c assms obtain res cache' where "account E art ids r w res (s\<lparr>rs_trace := st', rs_cache := cache'\<rparr>) = Inr t"
      by (auto simp: replay_step_def Let_def bnd_eq_Inr)
    from account_Inr [OF this] c Some show ?thesis by auto
  qed
qed

lemma trace_run_extend: "trace_run st0 ps = Inr (st, ws) \<Longrightarrow> consume st r = Inr (st', wo) \<Longrightarrow>
    trace_run st0 (ps @ [r]) = Inr (st', ws @ (case wo of None \<Rightarrow> [] | Some w \<Rightarrow> [w]))"
  by (simp add: trace_run_def foldm_append trace_step_def [of "(st, ws)" r])

lemma replay_inv_step:
  assumes "replay_inv st0 ps s" and "replay_step E N art ids s r = Inr t"
  shows "replay_inv st0 (ps @ [r]) t"
proof -
  from replay_step_Inr [OF assms(2)] obtain wo where c: "consume (rs_trace s) r = Inr (rs_trace t, wo)"
    and upd: "case wo of
       None \<Rightarrow> rs_lines t = rs_lines s \<and> rs_per_layer t = rs_per_layer s \<and> rs_per_phase t = rs_per_phase s
     | Some w \<Rightarrow> \<exists>cycles line. rs_lines t = rs_lines s @ [line] \<and>
         rs_per_layer t = dd_add (rs_per_layer s) (w_layer w) cycles \<and> rs_per_phase t = dd_add (rs_per_phase s) (w_phase w) cycles"
    by blast
  from assms(1) obtain ws where ws: "trace_run st0 ps = Inr (rs_trace s, ws)" "length (rs_lines s) = length ws"
    and d: "distinct (map fst (rs_per_layer s))" "distinct (map fst (rs_per_phase s))"
    and sums: "sum_list (map snd (rs_per_layer s)) = sum_list (map snd (rs_per_phase s))"
    and keys: "set (map fst (rs_per_phase s)) \<subseteq> {0..<int (length (phases (rs_trace s)))}"
    by (auto simp: replay_inv_def)
  from consume_frame [OF c] obtain qs where qs: "phases (rs_trace t) = phases (rs_trace s) @ qs"
    and w: "\<And>w. wo = Some w \<Longrightarrow> phases (rs_trace t) \<noteq> [] \<and> w_phase w = int (length (phases (rs_trace t))) - 1" by blast
  have keys': "set (map fst (rs_per_phase s)) \<subseteq> {0..<int (length (phases (rs_trace t)))}" using keys qs by fastforce
  note run = trace_run_extend [OF ws(1) c]
  show ?thesis
  proof (cases wo)
    case None
    with upd run ws d sums keys' show ?thesis by (simp add: replay_inv_def)
  next
    case (Some v)
    with upd obtain cycles line where u: "rs_lines t = rs_lines s @ [line]"
      "rs_per_layer t = dd_add (rs_per_layer s) (w_layer v) cycles" "rs_per_phase t = dd_add (rs_per_phase s) (w_phase v) cycles"
      by auto
    have "w_phase v \<in> {0..<int (length (phases (rs_trace t)))}"
      using w [OF Some] by (cases "phases (rs_trace t)") auto
    with u Some run ws d sums keys' show ?thesis
      by (simp add: replay_inv_def dd_add_sum dd_add_keys del: set_map)
  qed
qed

lemma dict_of_last: "map_of (dict_of ps) k = map_of (rev ps) k"
proof -
  have "map_of (foldl (\<lambda>d (k, v). AList.update k v d) acc ps) k = (case map_of (rev ps) k of None \<Rightarrow> map_of acc k | Some v \<Rightarrow> Some v)" for acc
    by (induction ps arbitrary: acc) (auto simp: map_add_def split: option.splits)
  from this [of "[]"] show ?thesis by (simp add: dict_of_def split: option.splits)
qed

definition int_of_json :: "jval \<Rightarrow> int" where
  "int_of_json v = (case v of JInt n \<Rightarrow> n | _ \<Rightarrow> 0)"

lemma summary_fields:
  assumes "replay_summary E art ids st = Inr summary"
  shows "ended (rs_trace st)" "rget summary ''isolated_cycle_sum'' = JInt (sum_list (map snd (rs_per_phase st)))"
    "rget summary ''per_layer_cycle_sums'' = JObj (sort_key fst (map (\<lambda>(k, n). (k, JInt n)) (rs_per_layer st)))"
    "rget summary ''per_phase_cycle_sums'' = JObj (phase_sums (rs_trace st) (rs_per_phase st))"
  using assms by (auto simp: replay_summary_def bnd_eq_Inr ts_summary_def require_eq_Inr Let_def rget_def dict_of_last)

lemma sort_key_sum: "sum_list (map f (sort_key g xs)) = sum_list (map f xs)" for f :: "'a \<Rightarrow> int"
  by (metis mset_map mset_sort sum_mset_sum_list)

lemma layer_sum: "sum_list (map (int_of_json \<circ> snd) (sort_key fst (map (\<lambda>(k, n). (k, JInt n)) d))) = sum_list (map snd d)"
  unfolding sort_key_sum by (simp add: comp_def int_of_json_def split_def)

lemma phase_sum:
  assumes "distinct (map fst d)" "set (map fst d) \<subseteq> {0..<int (length (phases trace))}"
  shows "sum_list (map (int_of_json \<circ> snd) (phase_sums trace d)) = sum_list (map snd d)"
proof -
  let ?is = "map int [0..<length (phases trace)]"
  have "sum_list (map (int_of_json \<circ> snd) (phase_sums trace d)) = sum_list (map (dd_get d) ?is)"
    by (simp add: phase_sums_def comp_def int_of_json_def)
  also have "\<dots> = (\<Sum>i \<in> set ?is. dd_get d i)" by (rule sum_list_distinct_conv_sum_set) (simp add: distinct_map)
  also have "set ?is = {0..<int (length (phases trace))}" by (auto simp: image_iff) (metis zero_le_imp_eq_int of_nat_less_iff atLeastLessThan_iff le0)
  finally show ?thesis using dd_get_sum [OF assms] by (simp add: comp_def)
qed


section \<open>A replayed trace\<close>

definition ex_native :: cycle_native where
  "ex_native = \<lparr>cn_hardware = (\<lambda>_. Inr []), cn_timing_init = [], cn_limits_init = [], cn_request_init = [],
     cn_struct_size_ok = True, cn_service_size = 40, cn_create = (\<lambda>_ _ _. True),
     cn_estimate = (\<lambda>_ _ _ _ request _. \<lparr>ca_status = 0, ca_message = [], ca_result = [(''total_cycles'', 40)],
       ca_service = [], ca_events = []\<rparr>)\<rparr>"

definition ex_artifacts :: replay_artifacts where
  "ex_artifacts = \<lparr>ra_certificate = [(''schema'', JStr ''s''), (''version'', JInt 1), (''reference_memory'', JNull),
       (''hardware_contracts'', JObj [(''a8w8-d16-hp1'', JObj ex_contract)])],
     ra_library_sha256 = ''l'', ra_certificate_sha256 = ''c'', ra_transition_sha256 = None, ra_run_scope = None,
     ra_run_certificate_sha256 = None, ra_hardware_contract = (\<lambda>_. Inr ex_contract)\<rparr>"



lemma replay_step_None: "consume (rs_trace s) r = Inr (t, None) \<Longrightarrow> replay_step E N art ids s r = Inr (s\<lparr>rs_trace := t\<rparr>)"
  by (simp add: replay_step_def Let_def)

lemma ex_modeled: "\<exists>res. modeled ex_native ''a8w8-d16-hp1'' (hd ex_works) = Inr res \<and> rget res ''total_cycles'' = JInt 40"
proof -
  have p: "''a8w8-d16-hp1'' \<in> set [profile_name b b d. b \<leftarrow> [4, 8], d \<leftarrow> [16, 32, 64]]" by code_simp
  then have p: "matched_profile (JStr ''a8w8-d16-hp1'') = Inr ''a8w8-d16-hp1''" by (simp only: matched_profile_def jval.case chk_def if_True)
  show ?thesis
    by (simp add: modeled_def model_document_def estimate_def estimate_answer_def object_fields_def p
        ex_native_def ex_works_def rget_def get_default_def set_fields_def set_request_def cli_integer_def model_request_def
        INPUT_KEYS_def REQUEST_U64_def REQUEST_U32_def has_key_def compact_run_view_def REPLAY_MAX_CYCLES_def
        require_def item_def object_value_def field_ints_def RESULT_FIELDS_def Let_def cong: run_congs)
qed

lemma ex_account:
  assumes "rget res ''total_cycles'' = JInt 40"
  shows "\<exists>t. account ex_ext ex_artifacts ids ex_work (hd ex_works) res st = Inr t \<and> rs_trace t = rs_trace st"
proof -
  have "item ex_work ''sequence'' = Inr (JInt 0)" by (simp add: item_def ex_work_def ex_common_def)
  moreover have "integer res ''total_cycles'' = Inr 40" using assms by (simp add: integer_def U64_def)
  moreover have "large_step (rs_large_k st) (hd ex_works) 40 res = Inr (rs_large_k st)"
    by (simp add: large_step_def ex_works_def)
  ultimately show ?thesis by (simp add: account_def Let_def)
qed

lemma ex_replay_work:
  assumes "consume (rs_trace s) ex_work = Inr (t, Some (hd ex_works))" and "run_profile (ts_run t) = ''a8w8-d16-hp1''"
    and "rs_cache s = []"
  shows "\<exists>s'. replay_step ex_ext ex_native ex_artifacts ids s ex_work = Inr s' \<and> rs_trace s' = t"
proof -
  obtain res where m: "modeled ex_native ''a8w8-d16-hp1'' (hd ex_works) = Inr res" and r: "rget res ''total_cycles'' = JInt 40"
    using ex_modeled by blast
  have "residual_checks ex_artifacts (hd ex_works) = Inr ()" by (simp add: residual_checks_def ex_works_def require_def)
  moreover obtain s' where "account ex_ext ex_artifacts ids ex_work (hd ex_works) res
      (s\<lparr>rs_trace := t, rs_cache := AList.update (work_binding ex_ext (hd ex_works)) res []\<rparr>) = Inr s'" "rs_trace s' = t"
    using ex_account [OF r] by fastforce
  ultimately show ?thesis using assms m by (simp add: replay_step_def cached_result_def Let_def)
qed

lemma ex_replay_loop:
  "\<exists>s. foldm (replay_step ex_ext ex_native ex_artifacts ids) (replay_start (TraceState_init ex_run)) ex_trace = Inr s \<and>
     rs_trace s = ex_final\<lparr>ended := True\<rparr>"
proof -
  let ?s0 = "replay_start (TraceState_init ex_run)"
  let ?w = "ex_state (ex_calls [''PREPARE'', ''INVOKE''] {|0|} {||}) 1"
  have profile: "run_profile (ts_run (ex_state c n)) = ''a8w8-d16-hp1''" for c n by (simp add: ex_state_def TraceState_init_def ex_run_def)
  obtain s4 where s4: "replay_step ex_ext ex_native ex_artifacts ids
      (?s0\<lparr>rs_trace := ex_state (ex_calls [''PREPARE'', ''INVOKE''] {||} {||}) 0\<rparr>) ex_work = Inr s4" "rs_trace s4 = ?w"
    using ex_replay_work [of "?s0\<lparr>rs_trace := ex_state (ex_calls [''PREPARE'', ''INVOKE''] {||} {||}) 0\<rparr>" ?w ids] ex_step_work profile
    by (auto simp: replay_start_def)
  have "rs_trace ?s0 = TraceState_init ex_run" by (simp add: replay_start_def)
  then show ?thesis
    using s4 by (simp add: ex_trace_def replay_step_None ex_step_phase ex_step_prepare ex_step_invoke ex_step_required
        ex_step_continuation ex_step_complete ex_step_end)
qed

lemma ex_contracts_ok: "contracts_ok ex_ext ex_artifacts ex_run = Inr ()"
proof -
  have "rget ex_contract ''profile'' = JStr ''a8w8-d16-hp1''" "rget ex_contract ''sha256'' = JStr ''h''"
    by (simp_all add: ex_contract_def rget_def)
  then have "compatible ex_ext ex_contract ex_contract = Inr ()" by (simp add: compatible_def ex_contract_valid)
  then show ?thesis by (simp add: contracts_ok_def ex_artifacts_def item_def object_value_def rget_def ex_run_def)
qed

lemma ex_replay: "\<exists>lines summary. replay_records ex_ext ex_native ex_artifacts (TraceState_init ex_run) ex_trace = Inr (lines, summary)"
proof -
  have run: "ts_run (TraceState_init ex_run) = ex_run" by (simp add: TraceState_init_def)
  obtain ids where ids: "replay_identities ex_artifacts ex_run = Inr ids"
    by (simp add: replay_identities_def ex_artifacts_def item_def)
  obtain s where s: "foldm (replay_step ex_ext ex_native ex_artifacts ids) (replay_start (TraceState_init ex_run)) ex_trace = Inr s"
    "rs_trace s = ex_final\<lparr>ended := True\<rparr>" using ex_replay_loop by blast
  have "\<exists>summary. replay_summary ex_ext ex_artifacts ids s = Inr summary"
    by (simp add: replay_summary_def s(2) ts_summary_def require_def item_def Let_def) (simp add: ex_artifacts_def)
  with s ids ex_contracts_ok show ?thesis by (auto simp: replay_records_def run)
qed


end
