(* ===== verification/Certificate_Theorems.thy ===== *)
theory Certificate_Theorems
  imports Certificate Replay_Theorems
begin

text \<open>
  What a validated certificate is: its cases are the reviewed corpus under both framings, each exactly once and
  each exact. Decoding with a duplicate check is the identity on documents without duplicate keys.
\<close>

section \<open>Decoding\<close>

fun unique_keys :: "jval \<Rightarrow> bool"
  and unique_keys_list :: "jval list \<Rightarrow> bool"
  and unique_keys_pairs :: "(string \<times> jval) list \<Rightarrow> bool" where
  "unique_keys (JArr xs) = unique_keys_list xs"
| "unique_keys (JObj ps) = (distinct (map fst ps) \<and> unique_keys_pairs ps)"
| "unique_keys v = True"
| "unique_keys_list [] = True"
| "unique_keys_list (x # xs) = (unique_keys x \<and> unique_keys_list xs)"
| "unique_keys_pairs [] = True"
| "unique_keys_pairs ((k, v) # ps) = (unique_keys v \<and> unique_keys_pairs ps)"

text \<open>A hook that refuses repeated keys and keeps the pairs otherwise.\<close>

definition strict_hook :: "((string \<times> jval) list \<Rightarrow> Record res) \<Rightarrow> bool" where
  "strict_hook h \<longleftrightarrow> (\<forall>ps d. h ps = Inr d \<longleftrightarrow> distinct (map fst ps) \<and> d = ps)"

lemma load_strict:
  "strict_hook h \<Longrightarrow> load_value h v = Inr w \<longleftrightarrow> unique_keys v \<and> w = v"
  "strict_hook h \<Longrightarrow> load_values h vs = Inr ws \<longleftrightarrow> unique_keys_list vs \<and> ws = vs"
  "strict_hook h \<Longrightarrow> load_pairs h ps = Inr qs \<longleftrightarrow> unique_keys_pairs ps \<and> qs = ps"
proof (induction h v and h vs and h ps arbitrary: w and ws and qs rule: load_value_load_values_load_pairs.induct)
qed (auto simp: bnd_eq_Inr strict_hook_def)

lemma strict_fold:
  assumes "\<And>d k v d'. f d (k, v) = Inr d' \<longleftrightarrow> \<not> has_key d k \<and> d' = AList.update k v d"
  shows "strict_hook (foldm f [])"
proof -
  have "foldm f acc ps = Inr d \<longleftrightarrow> distinct (map fst (acc @ ps)) \<and> d = acc @ ps"
    if "distinct (map fst acc)" for acc ps d
    using that
  proof (induction ps arbitrary: acc)
    case (Cons p ps)
    obtain k v where p: "p = (k, v)" by force
    show ?case
    proof (cases "k \<in> set (map fst acc)")
      case True
      then show ?thesis using assms by (auto simp: p bnd_eq_Inr has_key_def)
    next
      case False
      then have "f acc p = Inr (acc @ [(k, v)])" using assms by (simp add: p has_key_def keys_update_new)
      then show ?thesis using Cons.IH [of "acc @ [(k, v)]"] Cons.prems False by (simp add: p)
    qed
  qed auto
  then show ?thesis by (simp add: strict_hook_def)
qed

lemma strict_hooks: "strict_hook unique_object" "strict_hook corpus_unique"
proof -
  have "strict_hook (foldm (\<lambda>result (key, value). cert_require (\<not> has_key result key) (''duplicate JSON key: '' @ key)
       (Inr (AList.update key value result))) [])" by (rule strict_fold) (auto simp: cert_require_eq_Inr)
  moreover have "strict_hook (foldm (\<lambda>result (key, value). crequire (\<not> has_key result key) (''duplicate JSON key: '' @ key)
       (Inr (AList.update key value result))) [])" by (rule strict_fold) (auto simp: crequire_eq_Inr)
  ultimately show "strict_hook unique_object" "strict_hook corpus_unique"
    by (simp_all only: strict_hook_def unique_object_def corpus_unique_def simp_thms)
qed

text \<open>Reading a certificate document succeeds exactly on the objects no part of which repeats a key, and returns
  them as they are.\<close>

theorem read_document_iff: "read_document name raw = Inr d \<longleftrightarrow> raw = JObj d \<and> unique_keys raw"
  by (auto simp: read_document_def bnd_eq_Inr load_strict [OF strict_hooks(1)] certificate_object_eq_Inr)

section \<open>The authority and its case list\<close>

definition current_ids :: "string list" where
  "current_ids = map captured [1..<16] @ map (\<lambda>k. ''large-k-'' @ str_int k) LARGE_K"

lemma mapr_in: "mapr f xs = Inr ys \<Longrightarrow> x \<in> set xs \<Longrightarrow> \<exists>y. f x = Inr y"
  by (induction xs arbitrary: ys) (auto simp: bnd_eq_Inr)

lemma allr_True: "allr cs = Inr True \<longleftrightarrow> (\<forall>c \<in> set cs. c = Inr True)"
  by (induction cs) (auto split: sum.splits)

lemma historical_partition_length:
  assumes "historical_partition old retained moved name = Inr u"
  shows "length retained = 15"
  using assms unfolding historical_partition_def bnd_eq_Inr crequirer_eq_Inr allr_True by auto

lemma current_ids_eq: "current_ids = [''captured-001'', ''captured-002'', ''captured-003'', ''captured-004'', ''captured-005'',
   ''captured-006'', ''captured-007'', ''captured-008'', ''captured-009'', ''captured-010'', ''captured-011'', ''captured-012'',
   ''captured-013'', ''captured-014'', ''captured-015'', ''large-k-32'', ''large-k-64'', ''large-k-96'', ''large-k-3072'', ''large-k-8256'']"
proof -
  have "[1..<16] = [1,2,3,4,5,6,7,8,9,10,11,12,13,14,15]" by (simp add: upt_rec)
  then show ?thesis
    by (simp add: numeral_2_eq_2 bit_Suc_0_iff current_ids_def captured_def LARGE_K_def str_int_def str_nat.simps
        digit_char_def char_of_def numeral_nat(1) del: of_char_of)
qed

lemma validate_v3_Inr:
  assumes "validate_v3 env d = Inr u"
  shows "\<exists>retained. rget d ''retained_historical_case_ids'' = JArr retained \<and> length retained = 15"
    "rget d ''revision'' = JStr ''cycle-sim-c617-run-aware-base-gemm-v3''"
proof -
  note v = assms [unfolded validate_v3_def bnd_eq_Inr crequire_eq_Inr crequirer_eq_Inr corpus_array_eq_Inr sum.inject]
  then obtain retained moved old us where r: "rget d ''retained_historical_case_ids'' = JArr retained"
    and m: "mapr (historical_partition old retained moved) PROFILES = Inr us" by blast
  have "''a4w4-d16-hp1'' \<in> set PROFILES" by code_simp
  from mapr_in [OF m this] obtain us' where "historical_partition old retained moved ''a4w4-d16-hp1'' = Inr us'" by blast
  then have "length retained = 15" by (rule historical_partition_length)
  with r show "\<exists>retained. rget d ''retained_historical_case_ids'' = JArr retained \<and> length retained = 15" by blast
  from v have "allr [Inr (authority_head d V3_FIELDS 3 ''cycle-sim-c617-run-aware-base-gemm-v3''),
                      digest_is env (manifest_path env ''v1'') (rget d ''base_manifest_sha256''),
                      Inr (rget d ''producer_base_head'' = JStr ''c61702970df8b287b1ed75b3e51abab559021b51'')] = Inr True" by blast
  then have "authority_head d V3_FIELDS 3 ''cycle-sim-c617-run-aware-base-gemm-v3''" unfolding allr_True by simp
  then show "rget d ''revision'' = JStr ''cycle-sim-c617-run-aware-base-gemm-v3''" unfolding authority_head_def by blast
qed

lemma rget_override:
  "rget (dict_of (a @ b)) k = (if has_key b k then rget (dict_of b) k else rget (dict_of a) k)"
proof -
  have "map_of (rev b) k = None \<longleftrightarrow> \<not> has_key b k" by (simp add: map_of_eq_None_iff has_key_def)
  then show ?thesis by (auto simp: rget_def dict_of_last map_add_def split: option.splits)
qed

lemma dict_of_keys: "distinct (map fst (dict_of ps))" "fst ` set (dict_of ps) = fst ` set ps"
proof -
  have "distinct (map fst acc) \<Longrightarrow> distinct (map fst (foldl (\<lambda>d (k, v). AList.update k v d) acc ps)) \<and>
      fst ` set (foldl (\<lambda>d (k, v). AList.update k v d) acc ps) = fst ` set acc \<union> fst ` set ps" for acc
    by (induction ps arbitrary: acc) (simp_all add: distinct_update split_beta)
  from this [of "[]"] show "distinct (map fst (dict_of ps))" "fst ` set (dict_of ps) = fst ` set ps"
    by (simp_all add: dict_of_def)
qed

lemma rget_dict_of: "distinct (map fst d) \<Longrightarrow> rget (dict_of d) k = rget d k"
  using dict_of_distinct [of "[]" d] by (simp add: dict_of_def)

lemma manifest_document_distinct: "manifest_document env version = Inr d \<Longrightarrow> distinct (map fst d)"
  by (auto simp: manifest_document_def read_manifest_def bnd_eq_Inr crequirer_eq_Inr corpus_object_eq_Inr
      load_strict [OF strict_hooks(2)])

text \<open>The documents of the current versions: fifteen retained cases, and the revision of the version.\<close>

definition current_document :: "Record \<Rightarrow> string \<Rightarrow> bool" where
  "current_document d revision \<longleftrightarrow> distinct (map fst d) \<and>
     (\<exists>retained. rget d ''retained_historical_case_ids'' = JArr retained \<and> length retained = 15) \<and>
     rget d ''revision'' = JStr revision"

lemma authority_v3_current: "authority_v3 env = Inr d \<Longrightarrow> current_document d ''cycle-sim-c617-run-aware-base-gemm-v3''"
  unfolding authority_v3_def bnd_eq_Inr current_document_def
  using validate_v3_Inr manifest_document_distinct by blast

lemma current_document_override:
  assumes "current_document prior r" and "keys_are document fs" and "''retained_historical_case_ids'' \<notin> set fs"
    and "''revision'' \<in> set fs" and "rget document ''revision'' = JStr revision" and "distinct (map fst document)"
    and "\<not> has_key extra ''retained_historical_case_ids''" and "\<not> has_key extra ''revision''"
  shows "current_document (dict_of (prior @ document @ extra)) revision"
proof -
  have key: "has_key (document @ extra) k \<longleftrightarrow> k \<in> set fs" if "\<not> has_key extra k" for k
    using assms(2) that by (auto simp: has_key_def keys_are_def)
  have "rget (dict_of (document @ extra)) ''revision'' = JStr revision"
    using assms(5,6,8) by (simp add: rget_override rget_dict_of)
  with assms(1,3,4,7,8) show ?thesis
    by (simp add: current_document_def dict_of_keys rget_override [of prior] key rget_dict_of)
qed

lemma authority_v4_current:
  assumes "authority_v4 env = Inr d"
  shows "current_document d ''cycle-sim-0e1-metrics-guard-base-gemm-v4''"
proof -
  from assms [unfolded authority_v4_def bnd_eq_Inr]
  obtain document prior producer delta u where m: "manifest_document env ''v4'' = Inr document" and p: "authority_v3 env = Inr prior"
    and v: "validate_v4 document prior = Inr u"
    and c: "(case (rget delta ''path'', rget delta ''sha256'') of
       (JStr changed_path, JStr changed_sha) \<Rightarrow>
         Inr (dict_of (prior @ document @
           [(''producer_source_sha256'', JObj (AList.update changed_path (JStr changed_sha) producer))]))
     | _ \<Rightarrow> corpus_fail ''v4 producer source digest missing'') = Inr d"
    by blast
  from c have d: "\<exists>e. d = dict_of (prior @ document @ [(''producer_source_sha256'', e)])"
    by (cases "rget delta ''path''"; cases "rget delta ''sha256''") (auto simp: corpus_fail_def)
  from v have "authority_head document V4_FIELDS 4 ''cycle-sim-0e1-metrics-guard-base-gemm-v4''"
    unfolding validate_v4_def crequire_eq_Inr by blast
  then have h: "keys_are document V4_FIELDS" "rget document ''revision'' = JStr ''cycle-sim-0e1-metrics-guard-base-gemm-v4''"
    unfolding authority_head_def by blast+
  from d obtain e where d: "d = dict_of (prior @ document @ [(''producer_source_sha256'', e)])" by blast
  show ?thesis unfolding d
    by (rule current_document_override [OF authority_v3_current [OF p] h(1) _ _ h(2) manifest_document_distinct [OF m]])
       (simp_all add: V4_FIELDS_def has_key_def)
qed

lemma authority_v5_current:
  assumes "authority_v5 env = Inr d"
  shows "current_document d ''cycle-sim-cbe-source-equivalent-base-gemm-v5''"
proof -
  from assms [unfolded authority_v5_def bnd_eq_Inr]
  obtain document prior u where m: "manifest_document env ''v5'' = Inr document" and p: "authority_v4 env = Inr prior"
    and v: "validate_v5 document = Inr u" and d: "d = dict_of (prior @ document @ [])" by auto
  from v have "authority_head document V5_FIELDS 5 ''cycle-sim-cbe-source-equivalent-base-gemm-v5''"
    unfolding validate_v5_def crequire_eq_Inr by blast
  then have h: "keys_are document V5_FIELDS" "rget document ''revision'' = JStr ''cycle-sim-cbe-source-equivalent-base-gemm-v5''"
    unfolding authority_head_def by blast+
  show ?thesis unfolding d
    by (rule current_document_override [OF authority_v4_current [OF p] h(1) _ _ h(2) manifest_document_distinct [OF m]])
       (simp_all add: V5_FIELDS_def has_key_def)
qed

definition revision_of_version :: "string \<Rightarrow> string" where
  "revision_of_version version = (if version = ''v3'' then ''cycle-sim-c617-run-aware-base-gemm-v3''
     else if version = ''v4'' then ''cycle-sim-0e1-metrics-guard-base-gemm-v4''
     else ''cycle-sim-cbe-source-equivalent-base-gemm-v5'')"

lemma authority_current:
  assumes "authority env version None None = Inr d" and "version \<in> set current_versions"
  shows "current_document d (revision_of_version version)"
proof -
  have "authority_document env version = Inr d" using assms(1) by (auto simp: authority_def bnd_eq_Inr)
  with assms(2) show ?thesis
    using authority_v3_current authority_v4_current authority_v5_current
    by (auto simp: current_versions_def authority_document_def revision_of_version_def)
qed

lemma mapr_map:
  "mapr f xs = Inr ys \<Longrightarrow> (\<And>x y. x \<in> set xs \<Longrightarrow> f x = Inr y \<Longrightarrow> g y = h x) \<Longrightarrow> map g ys = map h xs"
  by (induction xs arbitrary: ys) (auto simp: bnd_eq_Inr)

lemma mapr_all:
  "mapr f xs = Inr ys \<Longrightarrow> (\<And>x y. x \<in> set xs \<Longrightarrow> f x = Inr y \<Longrightarrow> P y) \<Longrightarrow> \<forall>y \<in> set ys. P y"
  by (induction xs arbitrary: ys) (fastforce simp: bnd_eq_Inr)+

definition row_ids :: "Record list \<Rightarrow> jval list" where
  "row_ids rows = map (\<lambda>r. rget r ''case'') rows"

lemma retained_row_case: "retained_row rows (i, v) = Inr r \<Longrightarrow> rget r ''case'' = JStr (captured i)"
  by (auto simp: retained_row_def bnd_eq_Inr rget_def corpus_fail_def split: jval.splits)

lemma retained_rows_ids:
  assumes "retained_rows retained entry = Inr e"
  shows "row_ids (snd e) = map (\<lambda>i. JStr (captured i)) [1..<Suc (length retained)]"
proof -
  from assms obtain rows where m: "mapr (retained_row rows) (zip [1..<Suc (length retained)] retained) = Inr (snd e)"
    by (auto simp: retained_rows_def bnd_eq_Inr)
  have "row_ids (snd e) = map (\<lambda>x. JStr (captured (fst x))) (zip [1..<Suc (length retained)] retained)"
    unfolding row_ids_def by (rule mapr_map [OF m]) (auto dest: retained_row_case)
  also have "\<dots> = map (\<lambda>i. JStr (captured i)) (map fst (zip [1..<Suc (length retained)] retained))"
    by (simp only: map_map comp_def)
  also have "map fst (zip [1..<Suc (length retained)] retained) = [1..<Suc (length retained)]"
    by (rule map_fst_zip) (simp del: upt_Suc)
  finally show ?thesis .
qed

lemma corpus_current:
  assumes "corpus env version = Inr c" and "version \<in> set current_versions" and "(profile, rows) \<in> set c"
  shows "row_ids rows = map JStr current_ids"
proof -
  from assms(1,2) obtain d result result' retained where a: "authority env version None None = Inr d"
    and r: "rget d ''retained_historical_case_ids'' = JArr retained"
    and m: "mapr (retained_rows retained) result = Inr result'"
    and c: "c = map (\<lambda>(profile, rows). (profile, rows @ map large_row LARGE_K)) result'"
    by (auto simp: corpus_def bnd_eq_Inr item_eq_Inr corpus_array_eq_Inr)
  have n: "length retained = 15" using authority_current [OF a assms(2)] r by (simp add: current_document_def)
  from assms(3) c obtain rows' where rows': "(profile, rows') \<in> set result'" "rows = rows' @ map large_row LARGE_K" by auto
  have "\<forall>e \<in> set result'. row_ids (snd e) = map (\<lambda>i. JStr (captured i)) [1..<16]"
    using m by (rule mapr_all) (simp add: retained_rows_ids n)
  with rows' have "row_ids rows' = map (\<lambda>i. JStr (captured i)) [1..<16]" by fastforce
  with rows'(2) show ?thesis
    by (simp add: row_ids_def current_ids_def comp_def large_row_def rget_def)
qed

lemma corpus_identities_current:
  assumes "corpus env version = Inr c" and "version \<in> set current_versions" and "corpus_identities c = Inr ids"
  shows "map_of ids profile = Some v \<Longrightarrow> v = JArr (map JStr current_ids)"
proof -
  have "\<forall>e \<in> set ids. snd e = JArr (map JStr current_ids)"
    using assms(3) unfolding corpus_identities_def
  proof (rule mapr_all)
    fix e y assume e: "e \<in> set c" and y: "(case e of (profile, rows) \<Rightarrow> bnd (mapr (\<lambda>row. item row ''case'') rows)
        (\<lambda>ids. Inr (profile, JArr ids))) = Inr y"
    obtain p rows where pr: "e = (p, rows)" by force
    from y pr obtain vs where vs: "mapr (\<lambda>row. item row ''case'') rows = Inr vs" and s: "snd y = JArr vs"
      by (auto simp: bnd_eq_Inr)
    from vs have "map (\<lambda>x. x) vs = map (\<lambda>r. rget r ''case'') rows" by (rule mapr_map) (simp add: item_eq_Inr)
    with corpus_current [OF assms(1,2)] e pr s show "snd y = JArr (map JStr current_ids)" by (simp add: row_ids_def)
  qed
  then show "map_of ids profile = Some v \<Longrightarrow> v = JArr (map JStr current_ids)" by (auto dest!: map_of_SomeD)
qed

section \<open>Equality with a document of distinct keys\<close>

lemma py_eqd_iff: "py_eqd d e \<longleftrightarrow> (\<forall>(k, v) \<in> set d. \<exists>w. map_of e k = Some w \<and> py_eq v w)"
  by (induction d) (auto split: option.splits)

lemma py_eqs_strings: "py_eqs vs (map JStr ss) \<longleftrightarrow> vs = map JStr ss"
  by (induction vs arbitrary: ss) (auto split: list.splits)

lemma py_eq_strings: "py_eq v (JArr (map JStr ss)) \<longleftrightarrow> v = JArr (map JStr ss)"
  by (cases v) (auto simp: num_eq_def py_eqs_strings)

lemma unique_keys_rget: "unique_keys_pairs d \<Longrightarrow> unique_keys (rget d k)"
  by (induction d) (auto simp: rget_def)

lemma py_eq_object: "py_eq v (JObj e) \<longleftrightarrow> (\<exists>d. v = JObj d \<and> length d = length e \<and> py_eqd d e)"
  by (cases v) (auto simp: num_eq_def)

lemma same_keys:
  assumes "py_eq (JObj d) (JObj e)" and "distinct (map fst d)" and "distinct (map fst e)"
  shows "set (map fst d) = set (map fst e)"
proof (rule card_subset_eq)
  show "set (map fst d) \<subseteq> set (map fst e)"
  proof
    fix k assume "k \<in> set (map fst d)"
    then obtain v where "(k, v) \<in> set d" by auto
    then have "\<exists>w. map_of e k = Some w" using assms(1) by (fastforce simp: py_eqd_iff)
    then show "k \<in> set (map fst e)" using map_of_eq_None_iff [of e k] by (auto simp del: not_None_eq)
  qed
  show "card (set (map fst d)) = card (set (map fst e))"
    using assms distinct_card [of "map fst d"] distinct_card [of "map fst e"] by simp
qed simp

section \<open>The version of a current certificate\<close>

lemma authority_reference_current:
  assumes "authority_reference env version = Inr r" and "version \<in> set current_versions"
  shows "\<exists>sha. r = [(''revision'', JStr (revision_of_version version)), (''sha256'', sha)]"
proof -
  from assms(1) obtain d v s where a: "authority env version None None = Inr d" and i: "item d ''revision'' = Inr v"
    and r: "r = [(''revision'', v), (''sha256'', JStr s)]" by (auto simp: authority_reference_def bnd_eq_Inr)
  from i have "rget d ''revision'' = v" by (simp add: item_eq_Inr)
  with authority_current [OF a assms(2)] have "v = JStr (revision_of_version version)" by (simp add: current_document_def)
  with r show ?thesis by simp
qed

lemma corpus_version_current:
  assumes "py_eq (rget document ''corpus_authority'') (JObj [(''revision'', JStr (revision_of_version version)), (''sha256'', sha)])"
    and "version \<in> set current_versions" and "unique_keys (rget document ''corpus_authority'')"
  shows "corpus_version document = version"
proof -
  from assms(1) obtain d where d: "rget document ''corpus_authority'' = JObj d"
    and e: "py_eq (JObj d) (JObj [(''revision'', JStr (revision_of_version version)), (''sha256'', sha)])"
    by (auto simp: py_eq_object)
  from assms(3) d have dist: "distinct (map fst d)" by simp
  from same_keys [OF e dist] have "''revision'' \<in> set (map fst d)" by simp
  then obtain v where v: "map_of d ''revision'' = Some v" by (auto simp: in_set_conv_nth dest!: weak_map_of_SomeI)
  have "\<forall>(k, v) \<in> set d. \<exists>w. map_of [(''revision'', JStr (revision_of_version version)), (''sha256'', sha)] k = Some w \<and> py_eq v w"
    using e unfolding py_eq.simps jval.case py_eqd_iff by (rule conjunct2)
  from bspec [OF this map_of_SomeD [OF v]] have "py_eq v (JStr (revision_of_version version))" by simp
  then have "rget d ''revision'' = JStr (revision_of_version version)" using v by simp
  moreover have "map_of REVISIONS (revision_of_version version) = Some version"
    using assms(2) by (auto simp: current_versions_def revision_of_version_def REVISIONS_def)
  ultimately show ?thesis by (simp add: corpus_version_def d)
qed

lemma heading_current:
  assumes "cert_heading env document m = Inr u" and "unique_keys (JObj document)"
  shows "corpus_version document \<in> set current_versions"
proof -
  from assms(1) obtain refs where m: "mapr (authority_reference env) current_versions = Inr refs"
    and i: "py_in (rget document ''corpus_authority'') (map JObj refs)"
    unfolding cert_heading_def bnd_eq_Inr cert_require_eq_Inr by blast
  have "\<forall>r \<in> set refs. \<exists>version \<in> set current_versions. \<exists>sha. r = [(''revision'', JStr (revision_of_version version)), (''sha256'', sha)]"
    using m by (rule mapr_all) (use authority_reference_current in blast)
  then obtain version sha where "version \<in> set current_versions"
    "py_eq (rget document ''corpus_authority'') (JObj [(''revision'', JStr (revision_of_version version)), (''sha256'', sha)])"
    using i by (auto simp: py_in_def list_ex_iff)
  moreover have "unique_keys (rget document ''corpus_authority'')" using assms(2) by (simp add: unique_keys_rget)
  ultimately show ?thesis using corpus_version_current by metis
qed

section \<open>The cases of a certificate\<close>

text \<open>A case on which the model and the RTL agree.\<close>

definition exact_case :: "Record \<Rightarrow> bool" where
  "exact_case row \<longleftrightarrow> rget row ''delta_cycles'' = JInt 0 \<and> rget row ''differences'' = JObj [] \<and>
     (\<exists>rtl model. rget row ''rtl_summary'' = JObj rtl \<and> rget row ''model_summary'' = JObj model \<and>
        (\<forall>(left, right) \<in> set COUNTERS. \<exists>n. rget rtl left = JInt n \<and> rget model right = JInt n \<and> 0 \<le> n) \<and>
        rget model ''logical_work_count'' = JInt 1 \<and>
        (\<exists>start finish. rget model ''start_cycle'' = JInt start \<and> rget model ''done_cycle'' = JInt finish \<and>
           rget model ''total_cycles'' = JInt (finish - start) \<and> start < finish)) \<and>
     (\<exists>events digest. rget row ''event_comparison'' = JObj events \<and> hex_string 64 digest \<and>
        rget events ''model_multiset_sha256'' = JStr digest \<and> rget events ''rtl_multiset_sha256'' = JStr digest)"

lemma case_counters_Inr:
  assumes "case_counters row = Inr u"
  shows "\<exists>rtl model. rget row ''rtl_summary'' = JObj rtl \<and> rget row ''model_summary'' = JObj model \<and>
        (\<forall>(left, right) \<in> set COUNTERS. \<exists>n. rget rtl left = JInt n \<and> rget model right = JInt n \<and> 0 \<le> n) \<and>
        rget model ''logical_work_count'' = JInt 1 \<and>
        (\<exists>start finish. rget model ''start_cycle'' = JInt start \<and> rget model ''done_cycle'' = JInt finish \<and>
           rget model ''total_cycles'' = JInt (finish - start) \<and> start < finish)"
proof -
  from assms obtain rtl model us where o: "rget row ''rtl_summary'' = JObj rtl" "rget row ''model_summary'' = JObj model"
    and m: "mapr (equal_counter rtl model) COUNTERS = Inr us"
    and a: "bnd (cert_number (rget model ''logical_work_count'') ''logical works'') (\<lambda>n. Inr (n = 1)) = Inr True"
      "cert_positive (rget model ''total_cycles'') ''cycles'' = Inr True"
      "bnd (cert_number (rget model ''done_cycle'') ''done'') (\<lambda>d.
           bnd (cert_number (rget model ''start_cycle'') ''start'') (\<lambda>s.
           bnd (item model ''total_cycles'') (\<lambda>t. Inr (py_eq (JInt (d - s)) t)))) = Inr True"
    unfolding case_counters_def bnd_eq_Inr [of "certificate_object _ _"] bnd_eq_Inr [of "mapr _ _"] certificate_object_eq_Inr cert_requirer_eq_Inr
      allr_True list.set ball_simps by blast
  have "\<forall>x \<in> set COUNTERS. \<exists>n. rget rtl (fst x) = JInt n \<and> rget model (snd x) = JInt n \<and> 0 \<le> n"
  proof
    fix x assume "x \<in> set COUNTERS"
    from mapr_in [OF m this] show "\<exists>n. rget rtl (fst x) = JInt n \<and> rget model (snd x) = JInt n \<and> 0 \<le> n"
      by (auto simp: equal_counter_def cert_requirer_eq_Inr bnd_eq_Inr cert_number_eq_Inr)
  qed
  moreover from a obtain t where t: "rget model ''total_cycles'' = JInt t" "t > 0"
    by (auto simp: cert_positive_def bnd_eq_Inr cert_number_eq_Inr)
  moreover from a(3) t obtain s d where "rget model ''start_cycle'' = JInt s" "rget model ''done_cycle'' = JInt d" "d - s = t"
    by (auto simp: bnd_eq_Inr cert_number_eq_Inr item_eq_Inr)
  ultimately show ?thesis using o a(1) by (auto simp: bnd_eq_Inr cert_number_eq_Inr)
qed

lemma case_events_Inr:
  assumes "case_events row = Inr u"
  shows "\<exists>events digest. rget row ''event_comparison'' = JObj events \<and> hex_string 64 digest \<and>
        rget events ''model_multiset_sha256'' = JStr digest \<and> rget events ''rtl_multiset_sha256'' = JStr digest"
  using assms unfolding case_events_def bnd_eq_Inr certificate_object_eq_Inr cert_requirer_eq_Inr digest_value_eq_Inr by auto

lemma cert_case_strings:
  assumes "cert_case row = Inr key"
  shows "\<exists>p f i. rget row ''profile'' = JStr p \<and> rget row ''framing'' = JStr f \<and> rget row ''case'' = JStr i"
proof (cases "rget row ''profile''")
  case p: (JStr p)
  show ?thesis
  proof (cases "rget row ''framing''")
    case f: (JStr f)
    show ?thesis
    proof (cases "rget row ''case''")
      case (JStr i)
      with p f show ?thesis by blast
    qed (use assms in \<open>simp_all only: cert_case_def prod.case jval.case p f sum.distinct\<close>)
  qed (use assms in \<open>simp_all only: cert_case_def prod.case jval.case p sum.distinct\<close>)
qed (use assms in \<open>simp_all only: cert_case_def prod.case jval.case sum.distinct\<close>)

lemma cert_case_Inr:
  assumes "cert_case row = Inr key"
  shows "exact_case row"
proof -
  from cert_case_strings [OF assms] obtain p f i
    where r: "rget row ''profile'' = JStr p" "rget row ''framing'' = JStr f" "rget row ''case'' = JStr i" by blast
  from assms have "\<exists>u. case_counters row = Inr u" "\<exists>u. case_events row = Inr u"
    "allr [Inr (rget row ''differences'' = JObj []), Inr (rget row ''first_event_difference'' = JNull),
           Inr (rget row ''selected_event_multiset_exact'' = JBool True),
           bnd (cert_number (rget row ''delta_cycles'') ''cycle delta'') (\<lambda>n. Inr (n = 0))] = Inr True"
    unfolding cert_case_def r prod.case jval.case bnd_eq_Inr [of "case_counters _"] bnd_eq_Inr [of "case_events _"]
      bnd_eq_Inr [of "mapr _ _"] bnd_eq_Inr [of "certificate_object _ _"] cert_require_eq_Inr cert_requirer_eq_Inr by blast+
  then show ?thesis
    using case_counters_Inr case_events_Inr unfolding exact_case_def allr_True by (auto simp: bnd_eq_Inr cert_number_eq_Inr)
qed

lemma cert_case_key:
  assumes "cert_case row = Inr (p, f, c)"
  shows "rget row ''profile'' = JStr p" "rget row ''framing'' = JStr f" "rget row ''case'' = JStr c"
proof -
  from cert_case_strings [OF assms] obtain p' f' c'
    where r: "rget row ''profile'' = JStr p'" "rget row ''framing'' = JStr f'" "rget row ''case'' = JStr c'" by blast
  from assms have "(p', f', c') = (p, f, c)"
    unfolding cert_case_def r prod.case jval.case bnd_eq_Inr [of "case_counters _"] bnd_eq_Inr [of "case_events _"]
      bnd_eq_Inr [of "mapr _ _"] bnd_eq_Inr [of "certificate_object _ _"] cert_require_eq_Inr cert_requirer_eq_Inr sum.inject by blast
  with r show "rget row ''profile'' = JStr p" "rget row ''framing'' = JStr f" "rget row ''case'' = JStr c" by simp_all
qed

text \<open>The keys a current certificate must have: every profile, framing and identity.\<close>

definition current_keys :: "case_key set" where
  "current_keys = set PROFILES \<times> set FRAMINGS \<times> set current_ids"

lemma card_current_keys: "card current_keys = 240"
proof -
  have "distinct PROFILES" "length PROFILES = 6" "distinct FRAMINGS" "length FRAMINGS = 2"
    by code_simp+
  moreover have "distinct current_ids" "length current_ids = 20" by (simp_all add: current_ids_eq)
  ultimately show ?thesis
    using distinct_card [of PROFILES] distinct_card [of FRAMINGS] distinct_card [of current_ids]
    by (simp add: current_keys_def card_cartesian_product)
qed

lemma set_expected_keys: "set (expected_keys (map (\<lambda>_. current_ids) PROFILES)) = current_keys"
proof -
  have "zip PROFILES (map (\<lambda>_. current_ids) PROFILES) = map (\<lambda>p. (p, current_ids)) PROFILES"
    by (simp add: zip_map2 zip_same_conv_map)
  then show ?thesis by (auto simp: expected_keys_def current_keys_def)
qed

lemma cert_cases_current:
  assumes "cert_cases document = Inr keys" and "validate_corpus env document = Inr u"
    and "corpus_version document \<in> set current_versions"
  shows "\<exists>rows. rget document ''cases'' = JArr (map JObj rows) \<and> mapr cert_case rows = Inr keys \<and>
    distinct keys \<and> set keys = current_keys"
proof -
  from assms(2) obtain c ids where c: "corpus env (corpus_version document) = Inr c" and ids: "corpus_identities c = Inr ids"
    and eq: "py_eq (rget document ''expected_cases'') (JObj ids)"
    unfolding validate_corpus_def Let_def bnd_eq_Inr crequire_eq_Inr by blast
  from assms(1) obtain expected captures idss cases where e: "rget document ''expected_cases'' = JObj expected"
    and m: "mapr (cert_expected expected captures) PROFILES = Inr idss" and cases: "rget document ''cases'' = JArr cases"
    and k: "mapr (\<lambda>v. bnd (certificate_object v ''case'') cert_case) cases = Inr keys"
    and keys: "distinct keys" "set keys = set (expected_keys idss)"
    unfolding cert_cases_def bnd_eq_Inr [of "mapr _ _"] bnd_eq_Inr [of "certificate_object _ _"] bnd_eq_Inr [of "certificate_array _ _"]
      cert_require_eq_Inr certificate_object_eq_Inr certificate_array_eq_Inr sum.inject by blast
  have "map (\<lambda>x. x) idss = map (\<lambda>_. current_ids) PROFILES"
    using m
  proof (rule mapr_map)
    fix p is' assume "cert_expected expected captures p = Inr is'"
    then obtain ev where ev: "map_of expected p = Some ev" "ev = JArr (map JStr is')"
      by (auto simp: cert_expected_def bnd_eq_Inr cert_require_eq_Inr item_eq_Inr unique_strings_eq_Inr)
    have "\<forall>(k, v) \<in> set expected. \<exists>w. map_of ids k = Some w \<and> py_eq v w"
      using eq unfolding e py_eq.simps jval.case py_eqd_iff by (rule conjunct2)
    from bspec [OF this map_of_SomeD [OF ev(1)]] obtain w where "map_of ids p = Some w" "py_eq ev w" by auto
    with corpus_identities_current [OF c assms(3) ids] have "py_eq ev (JArr (map JStr current_ids))" by blast
    then have "map JStr is' = map JStr current_ids" using ev(2) by (simp only: py_eq_strings jval.inject)
    then show "is' = current_ids" by (simp add: inj_map_eq_map inj_on_def)
  qed
  then have "idss = map (\<lambda>_. current_ids) PROFILES" by simp
  with keys set_expected_keys have "set keys = current_keys" by simp
  moreover have "\<exists>rows. cases = map JObj rows \<and> mapr cert_case rows = Inr keys"
    using k
  proof (induction cases arbitrary: keys)
    case (Cons v cases)
    from Cons.prems obtain r key ks where "v = JObj r" "cert_case r = Inr key" "keys = key # ks"
      "mapr (\<lambda>v. bnd (certificate_object v ''case'') cert_case) cases = Inr ks"
      by (auto simp: bnd_eq_Inr certificate_object_eq_Inr)
    with Cons.IH [of ks] obtain rows where "v # cases = map JObj (r # rows)" "mapr cert_case (r # rows) = Inr keys" by auto
    then show ?case by (intro exI [of _ "r # rows"] conjI)
  qed simp
  ultimately show ?thesis using cases keys(1) by blast
qed

lemma validate_certificate_Inr:
  assumes "validate_certificate E env sha document m = Inr u"
  obtains v w keys where "cert_heading env document m = Inr v" "validate_corpus env document = Inr w" "cert_cases document = Inr keys"
  using assms unfolding validate_certificate_def cert_bindings_def bnd_eq_Inr cert_require_eq_Inr as_certificate_error_eq_Inr by blast

section \<open>Properties\<close>

text \<open>C8. A certificate that is read and validated is complete and exact: it has 240 cases, for every profile, framing
  and reviewed identity exactly one, and each records an RTL run and a model run with equal endpoints, counters and
  event digests and a zero cycle difference.\<close>

theorem certificate_complete:
  assumes "read_document name raw = Inr document" and "validate_certificate E env sha document m = Inr ()"
  shows "\<exists>rows. rget document ''cases'' = JArr (map JObj rows) \<and> length rows = 240 \<and> list_all exact_case rows \<and>
    (\<forall>profile \<in> set PROFILES. \<forall>framing \<in> set FRAMINGS. \<forall>identity \<in> set current_ids.
       \<exists>!i. i < 240 \<and> rget (rows ! i) ''profile'' = JStr profile \<and> rget (rows ! i) ''framing'' = JStr framing \<and>
            rget (rows ! i) ''case'' = JStr identity)"
proof -
  from assms(1) have "unique_keys (JObj document)"
    by (auto simp: read_document_def bnd_eq_Inr load_strict [OF strict_hooks(1)] certificate_object_eq_Inr)
  moreover from assms(2) obtain v w keys where h: "cert_heading env document m = Inr v" "validate_corpus env document = Inr w"
    "cert_cases document = Inr keys" by (rule validate_certificate_Inr)
  ultimately have "corpus_version document \<in> set current_versions" using heading_current by blast
  from cert_cases_current [OF h(3,2) this] obtain rows where rows: "rget document ''cases'' = JArr (map JObj rows)"
    and k: "mapr cert_case rows = Inr keys" and d: "distinct keys" "set keys = current_keys" by blast
  have n: "length rows = 240" "length keys = 240"
    using distinct_card [OF d(1)] d(2) card_current_keys mapr_length [OF k] by simp_all
  have at: "cert_case (rows ! i) = Inr (keys ! i)" if "i < 240" for i
    using k that n by (simp add: mapr_Inr_iff list_all2_conv_all_nth)
  have key: "rget (rows ! i) ''profile'' = JStr p \<and> rget (rows ! i) ''framing'' = JStr f \<and> rget (rows ! i) ''case'' = JStr c
      \<longleftrightarrow> keys ! i = (p, f, c)" if "i < 240" for i p f c
    using cert_case_key at [OF that] by (metis jval.inject(4) prod_cases3)
  have "\<exists>!i. i < 240 \<and> keys ! i = (p, f, c)" if "p \<in> set PROFILES" "f \<in> set FRAMINGS" "c \<in> set current_ids" for p f c
  proof -
    have "(p, f, c) \<in> set keys" using that d(2) by (simp add: current_keys_def)
    then obtain i where "i < 240" "keys ! i = (p, f, c)" using n(2) by (auto simp: in_set_conv_nth)
    then show ?thesis using nth_eq_iff_index_eq [OF d(1)] n(2) by metis
  qed
  moreover have "list_all exact_case rows"
    unfolding list_all_length n(1) using at cert_case_Inr by blast
  ultimately show ?thesis using rows n(1) key by (intro exI [of _ rows]) (simp cong: conj_cong)
qed

text \<open>The marker is read by one check only.\<close>

lemma marker_frame:
  assumes "k \<noteq> ''marker''"
  shows "rget (AList.update ''marker'' v d) k = rget d k" "item (AList.update ''marker'' v d) k = item d k"
    "has_key (AList.update ''marker'' v d) k \<longleftrightarrow> has_key d k"
  using assms by (simp_all add: rget_def item_def has_key_map_of)

lemma corpus_marker:
  "corpus_version (AList.update ''marker'' v d) = corpus_version d"
  "pinned_source env (AList.update ''marker'' v d) = pinned_source env d"
  "package_source env version (AList.update ''marker'' v d) = package_source env version d"
  "fixtures_bound env version (AList.update ''marker'' v d) = fixtures_bound env version d"
  "denominators_ok env version (AList.update ''marker'' v d) = denominators_ok env version d"
  "check_cases expected (AList.update ''marker'' v d) = check_cases expected d"
  by (simp_all add: corpus_version_def pinned_source_def package_source_def fixtures_bound_def denominators_ok_def
      check_cases_def marker_frame)

lemma validate_corpus_marker: "validate_corpus env (AList.update ''marker'' v d) = validate_corpus env d"
  by (simp add: validate_corpus_def corpus_marker marker_frame cong: if_cong)

lemma cert_binding_marker: "cert_binding E env (AList.update ''marker'' v d) = cert_binding E env d"
  by (intro ext) (simp add: cert_binding_def marker_frame cong: if_cong)

lemma cert_marker:
  "cert_contracts E sha (AList.update ''marker'' v d) = cert_contracts E sha d"
  "cert_bindings E env (AList.update ''marker'' v d) c = cert_bindings E env d c"
  "cert_cases (AList.update ''marker'' v d) = cert_cases d"
  "cert_reuse (AList.update ''marker'' v d) n = cert_reuse d n"
  "cert_mutation (AList.update ''marker'' v d) = cert_mutation d"
  by (simp_all add: cert_contracts_def cert_bindings_def cert_cases_def cert_reuse_def cert_mutation_def marker_frame
      validate_corpus_marker cert_binding_marker cong: if_cong)

lemma cert_heading_marker:
  assumes "cert_heading env d False = Inr u"
  shows "cert_heading env (AList.update ''marker'' (JStr MARKER) d) True = Inr u"
proof -
  have "rget (AList.update ''marker'' (JStr MARKER) d) ''marker'' = JStr MARKER" by (simp add: rget_def)
  with assms show ?thesis
    unfolding cert_heading_def cert_require_eq_Inr bnd_eq_Inr by (simp add: marker_frame)
qed

text \<open>Finalising a certificate succeeds exactly when the certificate without its marker is valid, and only sets the
  marker: the second validation never refuses what the first accepted.\<close>

theorem finalize_certificate_iff:
  "finalize_certificate E env sha d = Inr r \<longleftrightarrow>
     validate_certificate E env sha d False = Inr () \<and> r = AList.update ''marker'' (JStr MARKER) d"
proof -
  have "validate_certificate E env sha (AList.update ''marker'' (JStr MARKER) d) True = Inr ()"
    if v: "validate_certificate E env sha d False = Inr ()"
  proof -
    from v obtain u where "cert_heading env d False = Inr u" by (auto simp: validate_certificate_def bnd_eq_Inr)
    with cert_heading_marker have "cert_heading env (AList.update ''marker'' (JStr MARKER) d) True = cert_heading env d False" by simp
    with v show ?thesis by (simp add: validate_certificate_def cert_marker marker_frame)
  qed
  then show ?thesis by (auto simp: finalize_certificate_def bnd_eq_Inr Let_def)
qed

section \<open>The reviewed cases\<close>

lemma map_of_dict_of: "map_of (dict_of ps) k = Some v \<Longrightarrow> (k, v) \<in> set ps"
  by (auto simp: dict_of_last dest!: map_of_SomeD)

lemma by_id_in:
  assumes "by_id rows = Inr d" and "(k, row) \<in> set d"
  shows "row \<in> set rows"
proof -
  from assms(1) obtain pairs where m: "mapr (\<lambda>row. bnd (item row ''case'') (\<lambda>c.
      if hashable c then Inr (c, row) else Inl (TypeError ''unhashable type''))) rows = Inr pairs" and d: "d = dict_of pairs"
    by (auto simp: by_id_def bnd_eq_Inr)
  have "map snd pairs = map (\<lambda>r. r) rows" using m by (rule mapr_map) (auto simp: bnd_eq_Inr split: if_splits)
  moreover have "map_of d k = Some row" using assms(2) dict_of_keys(1) [of pairs] by (simp add: d)
  then have "(k, row) \<in> set pairs" unfolding d by (rule map_of_dict_of)
  ultimately show ?thesis by (metis image_eqI list.map_ident list.set_map snd_conv)
qed

lemma by_key_in:
  assumes "by_key expected = Inr d" and "map_of d (profile, c) = Some original"
  shows "\<exists>originals. (profile, originals) \<in> set expected \<and> original \<in> set originals"
proof -
  from assms(1) obtain parts where m: "mapr (\<lambda>(profile, rows). bnd (by_id rows) (\<lambda>ids.
      Inr (map (\<lambda>(c, row). ((profile, c), row)) ids))) expected = Inr parts" and d: "d = dict_of (concat parts)"
    by (auto simp: by_key_def bnd_eq_Inr)
  have all: "\<forall>part \<in> set parts. \<forall>((p, c), row) \<in> set part. \<exists>originals. (p, originals) \<in> set expected \<and> row \<in> set originals"
    using m by (rule mapr_all) (auto simp: bnd_eq_Inr, blast dest: by_id_in)
  from map_of_dict_of [OF assms(2) [unfolded d]] obtain part where "part \<in> set parts" "((profile, c), original) \<in> set part" by auto
  with all show ?thesis by fastforce
qed

definition reviewed_row :: "corpus \<Rightarrow> Record \<Rightarrow> bool" where
  "reviewed_row expected row \<longleftrightarrow>
     (\<exists>profile originals original. (profile, originals) \<in> set expected \<and> original \<in> set originals \<and>
        rget row ''profile'' = JStr profile \<and> (\<forall>field \<in> set CASE_FIELDS. py_eq (rget row field) (rget original field))) \<and>
     (\<forall>(name, v) \<in> set row. \<not> startswith name ''expected_'' \<and> \<not> startswith name ''oracle_'' \<and> \<not> startswith name ''measured_'')"

definition row_key :: "Record \<Rightarrow> jval \<times> jval \<times> jval" where
  "row_key r = (rget r ''profile'', rget r ''framing'', rget r ''case'')"

lemma corpus_case_Inr:
  assumes "corpus_case d seen v = Inr seen'"
  obtains row p f c original where "v = JObj row" "row_key row = (JStr p, JStr f, JStr c)" "(p, f, c) \<notin> set seen"
    "seen' = seen @ [(p, f, c)]" "map_of d (p, JStr c) = Some original" "case_matches row original = Inr True"
    "\<forall>(name, v) \<in> set row. \<not> startswith name ''expected_'' \<and> \<not> startswith name ''oracle_'' \<and> \<not> startswith name ''measured_''"
proof -
  from assms obtain row where v: "v = JObj row" by (auto simp: corpus_case_def bnd_eq_Inr corpus_object_eq_Inr)
  have b: "bnd (corpus_object (JObj row) m) k = k row" for m and k :: "Record \<Rightarrow> case_key list res"
    by (simp add: corpus_object_def)
  note a = assms [unfolded corpus_case_def v b]
  have "\<exists>p f c. row_key row = (JStr p, JStr f, JStr c)"
  proof (cases "rget row ''profile''")
    case p: (JStr p)
    show ?thesis
    proof (cases "rget row ''framing''")
      case f: (JStr f)
      show ?thesis
      proof (cases "rget row ''case''")
        case (JStr i)
        with p f show ?thesis by (simp add: row_key_def)
      qed (use a in \<open>simp_all only: prod.case jval.case corpus_fail_def p f sum.distinct\<close>)
    qed (use a in \<open>simp_all only: prod.case jval.case corpus_fail_def p sum.distinct\<close>)
  qed (use a in \<open>simp_all only: prod.case jval.case corpus_fail_def sum.distinct\<close>)
  then obtain p f c where r: "rget row ''profile'' = JStr p" "rget row ''framing'' = JStr f" "rget row ''case'' = JStr c"
    by (auto simp: row_key_def)
  from a [unfolded r prod.case jval.case crequire_eq_Inr crequirer_eq_Inr sum.inject] show thesis
    using that [OF v, of p f c] r by (auto simp: row_key_def list_ex_iff split: option.splits)
qed

text \<open>C38. The reviewed corpus decides what a certificate may contain: every case of a validated document repeats the
  shape, tile, timing, kind and provenance of the reviewed case of its profile and identity, is listed once, and
  carries no field that would inject an expected, oracle or measured answer.\<close>

theorem corpus_cases_reviewed:
  assumes "validate_corpus env document = Inr ()"
  shows "\<exists>expected rows. corpus env (corpus_version document) = Inr expected \<and> rget document ''cases'' = JArr (map JObj rows) \<and>
    distinct (map row_key rows) \<and> list_all (reviewed_row expected) rows"
proof -
  from assms obtain expected where e: "corpus env (corpus_version document) = Inr expected" and ch: "check_cases expected document = Inr ()"
    unfolding validate_corpus_def Let_def bnd_eq_Inr crequire_eq_Inr by blast
  from ch obtain cases d seen where c: "rget document ''cases'' = JArr cases" and d: "by_key expected = Inr d"
    and f: "foldm (corpus_case d) [] cases = Inr seen"
    by (auto simp: check_cases_def bnd_eq_Inr corpus_array_eq_Inr)
  have "\<exists>rows. cases = map JObj rows \<and> map row_key rows = map (\<lambda>(p, f, c). (JStr p, JStr f, JStr c)) seen \<and> distinct seen \<and>
      list_all (reviewed_row expected) rows"
    using f
  proof (rule foldm_prefix_invariant [where P = "\<lambda>ps seen. \<exists>rows. ps = map JObj rows \<and>
      map row_key rows = map (\<lambda>(p, f, c). (JStr p, JStr f, JStr c)) seen \<and> distinct seen \<and> list_all (reviewed_row expected) rows"])
    fix ps s x s'
    assume "\<exists>rows. ps = map JObj rows \<and> map row_key rows = map (\<lambda>(p, f, c). (JStr p, JStr f, JStr c)) s \<and> distinct s \<and>
        list_all (reviewed_row expected) rows"
      and x: "corpus_case d s x = Inr s'"
    then obtain rows where rows: "ps = map JObj rows" "map row_key rows = map (\<lambda>(p, f, c). (JStr p, JStr f, JStr c)) s"
      "distinct s" "list_all (reviewed_row expected) rows" by blast
    from x obtain row p f c original where r: "x = JObj row" "row_key row = (JStr p, JStr f, JStr c)" "(p, f, c) \<notin> set s"
      "s' = s @ [(p, f, c)]" "map_of d (p, JStr c) = Some original" "case_matches row original = Inr True"
      "\<forall>(name, v) \<in> set row. \<not> startswith name ''expected_'' \<and> \<not> startswith name ''oracle_'' \<and> \<not> startswith name ''measured_''"
      by (rule corpus_case_Inr)
    from r(6) have "\<forall>field \<in> set CASE_FIELDS. py_eq (rget row field) (rget original field)"
      by (auto simp: case_matches_def allr_True bnd_eq_Inr item_eq_Inr)
    with by_key_in [OF d r(5)] r(2,7) have "reviewed_row expected row" unfolding reviewed_row_def row_key_def by blast
    with rows r show "\<exists>rows. ps @ [x] = map JObj rows \<and> map row_key rows = map (\<lambda>(p, f, c). (JStr p, JStr f, JStr c)) s' \<and>
        distinct s' \<and> list_all (reviewed_row expected) rows"
      by (intro exI [of _ "rows @ [row]"]) simp
  qed simp
  then obtain rows where rows: "cases = map JObj rows" "map row_key rows = map (\<lambda>(p, f, c). (JStr p, JStr f, JStr c)) seen"
    "distinct seen" "list_all (reviewed_row expected) rows" by blast
  have "distinct (map row_key rows)"
    unfolding rows(2) using rows(3) by (auto simp: distinct_map inj_on_def)
  with e c rows show ?thesis by blast
qed

end
