(* ===== verification/Corpus_Example.thy ===== *)
theory Corpus_Example
  imports Certificate_Theorems
begin

text \<open>The files of a reviewed corpus of version 3 and of a package that matches it: the authority accepts them, and yields the case list the certificate example is checked against.\<close>

section \<open>The corpus files\<close>

definition zz :: jval where "zz = JStr ''z''"

definition ex_base_row :: "nat \<Rightarrow> Record" where
  "ex_base_row i =
     [(''captured_case'', JInt (int i)), (''case'', JStr (captured i)),
      (''provenance'', JStr (if i < 16 then ''dense'' else ''residual_hp1'')), (''raw'', JBool False),
      (''shape'', JArr [JInt 2, JInt 3, JInt 64]), (''tile'', JArr [JInt 1, JInt 1, JInt 4]),
      (''timing'', JArr (map JInt [3, 13, 17, 11, 5]))]"

definition ex_base_rows :: "Record list" where
  "ex_base_rows = map ex_base_row [1..<43]"

definition ex_v1 :: Record where
  "ex_v1 = [(''fixture_source_sha256'', JObj []), (''profiles'', JObj (map (\<lambda>p. (p, JArr (map JObj ex_base_rows))) PROFILES))]"

definition ex_v2 :: Record where
  "ex_v2 = [(''fixture_source_sha256'', JObj [])]"

definition ex_retained :: "jval list" where
  "ex_retained = map (\<lambda>i. JStr (captured i)) [1..<16]"

definition ex_moved :: "jval list" where
  "ex_moved = map (\<lambda>i. JStr (captured i)) [16..<43]"

definition ex_v3 :: Record where
  "ex_v3 =
     [(''schema'', JStr ''im2p-cycle-corpus-authority''), (''version'', JInt 3),
      (''revision'', JStr ''cycle-sim-c617-run-aware-base-gemm-v3''), (''base_manifest_sha256'', zz),
      (''producer_base_head'', JStr ''c61702970df8b287b1ed75b3e51abab559021b51''), (''dependency_lock_sha256'', zz),
      (''producer_source_sha256'', JObj (map (\<lambda>n. (RMD @ n, zz)) [''rmd-executor.cpp'', ''rmd-im2p-executor.cpp'', ''rmd-run-aware.cpp'', ''rmd-run-aware.hpp''])),
      (''selector_source_sha256'', JObj [(''h'', zz)]),
      (''fixture_source_sha256'', JObj [(HOST @ ''run_aware_rtl_driver.inc'', zz)]),
      (''captured_case_ids'', captured_ids 15), (''large_k'', large_k), (''observed_total'', JInt 15),
      (''retained_historical_case_ids'', JArr ex_retained),
      (''moved_historical_residual_case_ids'', JArr ex_moved),
      (''profiles'', JArr (map JStr PROFILES))]"

definition ex_v4 :: Record where
  "ex_v4 =
     [(''schema'', JStr ''im2p-cycle-corpus-authority''), (''version'', JInt 4),
      (''revision'', JStr ''cycle-sim-0e1-metrics-guard-base-gemm-v4''), (''v3_manifest_sha256'', manifest_sha ''v3''),
      (''producer_base_head'', JStr ''0e1c8976d97887ac9494323b99643145e7b5abae''), (''dependency_lock_sha256'', zz),
      (''source_manifest_sha256'', zz), (''embedded_package_authority_sha256'', manifest_sha ''v3''),
      (''producer_source_delta'', JObj [(''path'', JStr (RMD @ ''rmd-executor.cpp'')), (''previous_sha256'', zz), (''sha256'', zz),
         (''excluded_when'', JStr ''GGML_GEMMINI_RESIDUAL_METRICS=0'')])]"

definition ex_v5 :: Record where
  "ex_v5 =
     [(''schema'', JStr ''im2p-cycle-corpus-authority''), (''version'', JInt 5),
      (''revision'', JStr ''cycle-sim-cbe-source-equivalent-base-gemm-v5''),
      (''scope'', JStr ''isolated-base-gemm-source-equivalent-package''), (''v4_manifest_sha256'', manifest_sha ''v4''),
      (''producer_base_head'', JStr ''cbe3530468c1e3d50aca3b4b3bd817fc6ea72158''), (''dependency_lock_sha256'', zz),
      (''source_manifest_sha256'', zz), (''embedded_package_authority_sha256'', manifest_sha ''v3'')]"

definition ex_package :: path where
  "ex_package = [''/'', ''p'']"

definition ex_lock :: Record where
  "ex_lock = [(''repositories'', JObj [(''llama_cpp_gemmini'', JObj [(''head'', JStr ''c61702970df8b287b1ed75b3e51abab559021b51'')])])]"

definition package_files :: Record where
  "package_files = (
     (''source/sim/cycle/corpus-authority-v3.json'', JObj [(''sha256'', manifest_sha ''v3'')]) #
     (''source/'' @ HOST @ ''run_aware_rtl_driver.inc'', JObj [(''sha256'', zz)]) #
     map (\<lambda>n. (''dependency/source/llama_cpp_gemmini/'' @ RMD @ n, JObj [(''sha256'', zz)]))
       [''rmd-executor.cpp'', ''rmd-im2p-executor.cpp'', ''rmd-run-aware.cpp'', ''rmd-run-aware.hpp''])"

definition ex_source_manifest :: Record where
  "ex_source_manifest = [(''files'', JObj package_files)]"

definition ex_cycle :: path where "ex_cycle = [''/'', ''w'', ''sim'', ''cycle'']"

definition ex_digests :: "(path \<times> string) list" where
  "ex_digests = [(ex_cycle @ [''corpus-authority-v3.json''], ''v3''), (ex_cycle @ [''corpus-authority-v4.json''], ''v4''),
     (ex_cycle @ [''corpus-authority-v5.json''], ''v5''),
     (ex_package @ [''source'', ''sim'', ''cycle'', ''corpus-authority-v3.json''], ''v3'')]"

definition ex_corpus_env :: corpus_env where
  "ex_corpus_env = \<lparr>ce_base = [''/'', ''w''],
     ce_text = (\<lambda>p. case map_of [(ex_cycle @ [''corpus-authority-v1.json''], ex_v1), (ex_cycle @ [''corpus-authority-v2.json''], ex_v2),
         (ex_cycle @ [''corpus-authority-v3.json''], ex_v3), (ex_cycle @ [''corpus-authority-v4.json''], ex_v4),
         (ex_cycle @ [''corpus-authority-v5.json''], ex_v5), (ex_package @ [''dependency-lock.json''], ex_lock),
         (ex_package @ [''source-manifest.json''], ex_source_manifest)] p of
       None \<Rightarrow> Inl (OSError ''No such file'') | Some d \<Rightarrow> Inr (JObj d)),
     ce_file = (\<lambda>p. case map_of ex_digests p of
       None \<Rightarrow> Some ''z'' | Some version \<Rightarrow> map_of MANIFEST_SHA256 version),
     ce_git = (\<lambda>_ _. (0, []))\<rparr>"

lemma read_manifest_strict:
  "ce_text env p = Inr (JObj d) \<Longrightarrow> unique_keys (JObj d) \<Longrightarrow> read_manifest env p = Inr d"
proof -
  assume t: "ce_text env p = Inr (JObj d)" and u: "unique_keys (JObj d)"
  have "load_value corpus_unique (JObj d) = Inr (JObj d)" using u load_strict(1) [OF strict_hooks(2)] by blast
  with t show ?thesis by (simp add: read_manifest_def corpus_object_def del: load_value.simps)
qed

lemma unique_keys_rows: "unique_keys_list (map (\<lambda>x. JObj (f x)) xs) \<longleftrightarrow> (\<forall>x \<in> set xs. unique_keys (JObj (f x)))"
  by (induction xs) auto

lemma unique_keys_map: "unique_keys_pairs (map (\<lambda>k. (k, v)) ks) \<longleftrightarrow> ks = [] \<or> unique_keys v"
  by (induction ks) auto

lemma unique_keys_strings: "unique_keys_list (map (\<lambda>x. JStr (f x)) xs)" "unique_keys_list (map (\<lambda>x. JInt (g x)) ns)"
  by (induction xs, simp_all) (induction ns, simp_all)

lemma PROFILES_eq: "PROFILES = [''a4w4-d16-hp1'', ''a4w4-d32-hp1'', ''a4w4-d64-hp1'', ''a8w8-d16-hp1'', ''a8w8-d32-hp1'', ''a8w8-d64-hp1'']"
  by code_simp

lemma ex_unique:
  "unique_keys (JObj ex_v1)" "unique_keys (JObj ex_v2)" "unique_keys (JObj ex_v3)" "unique_keys (JObj ex_v4)" "unique_keys (JObj ex_v5)"
  "unique_keys (JObj ex_lock)" "unique_keys (JObj ex_source_manifest)"
  by (simp_all add: ex_v1_def ex_v2_def ex_v3_def ex_v4_def ex_v5_def ex_lock_def ex_source_manifest_def package_files_def ex_base_rows_def
      unique_keys_rows unique_keys_map unique_keys_strings ex_base_row_def PROFILES_eq ex_retained_def ex_moved_def captured_ids_def large_k_def
      zz_def manifest_sha_def MANIFEST_SHA256_def comp_def RMD_def HOST_def)

lemma ex_text:
  "ce_text ex_corpus_env (manifest_path ex_corpus_env ''v1'') = Inr (JObj ex_v1)"
  "ce_text ex_corpus_env (manifest_path ex_corpus_env ''v2'') = Inr (JObj ex_v2)"
  "ce_text ex_corpus_env (manifest_path ex_corpus_env ''v3'') = Inr (JObj ex_v3)"
  "ce_text ex_corpus_env (manifest_path ex_corpus_env ''v4'') = Inr (JObj ex_v4)"
  "ce_text ex_corpus_env (manifest_path ex_corpus_env ''v5'') = Inr (JObj ex_v5)"
  "ce_text ex_corpus_env (ex_package @ [''dependency-lock.json'']) = Inr (JObj ex_lock)"
  "ce_text ex_corpus_env (ex_package @ [''source-manifest.json'']) = Inr (JObj ex_source_manifest)"
  by (simp_all add: ex_corpus_env_def manifest_path_def ex_cycle_def ex_package_def)

lemma ex_digest:
  "file_digest ex_corpus_env (manifest_path ex_corpus_env ''v1'') = Inr ''z''"
  "version \<in> {''v3'', ''v4'', ''v5''} \<Longrightarrow>
     map_option JStr (ce_file ex_corpus_env (manifest_path ex_corpus_env version)) = Some (manifest_sha version)"
  by (auto simp: file_digest_def ex_corpus_env_def ex_digests_def manifest_path_def ex_cycle_def ex_package_def MANIFEST_SHA256_def manifest_sha_def)

lemmas ex_reads = read_manifest_strict [OF ex_text(1) ex_unique(1)] read_manifest_strict [OF ex_text(2) ex_unique(2)]
  read_manifest_strict [OF ex_text(3) ex_unique(3)] read_manifest_strict [OF ex_text(4) ex_unique(4)]
  read_manifest_strict [OF ex_text(5) ex_unique(5)] read_manifest_strict [OF ex_text(6) ex_unique(6)]
  read_manifest_strict [OF ex_text(7) ex_unique(7)]

lemma ex_manifests:
  "manifest_document ex_corpus_env ''v3'' = Inr ex_v3"
  "manifest_document ex_corpus_env ''v4'' = Inr ex_v4"
  "manifest_document ex_corpus_env ''v5'' = Inr ex_v5"
proof -
  have "digest_is ex_corpus_env (manifest_path ex_corpus_env version) (manifest_sha version) = Inr True"
    if "version \<in> {''v3'', ''v4'', ''v5''}" for version
    using ex_digest(2) [OF that] by (auto simp: digest_is_def file_digest_def split: option.splits)
  then show "manifest_document ex_corpus_env ''v3'' = Inr ex_v3" "manifest_document ex_corpus_env ''v4'' = Inr ex_v4"
    "manifest_document ex_corpus_env ''v5'' = Inr ex_v5"
    by (simp_all add: manifest_document_def crequirer_def crequire_def ex_reads)
qed

section \<open>Version 3\<close>

lemma mapr_pure: "(\<And>x. x \<in> set xs \<Longrightarrow> f x = Inr (g x)) \<Longrightarrow> mapr f xs = Inr (map g xs)"
  by (induction xs) auto

lemma map_of_keys: "k \<in> set ks \<Longrightarrow> map_of (map (\<lambda>k. (k, h k)) ks) k = Some (h k)"
  by (induction ks) auto

lemma cases_where_base:
  "cases_where P (map ex_base_row ns) =
     Inr (map (\<lambda>i. JStr (captured i)) (filter (\<lambda>i. P (JStr (if i < 16 then ''dense'' else ''residual_hp1''))) ns))"
proof -
  let ?P = "\<lambda>i. P (JStr (if i < 16 then ''dense'' else ''residual_hp1''))"
  have item: "item (ex_base_row i) ''provenance'' = Inr (JStr (if i < 16 then ''dense'' else ''residual_hp1''))"
    "item (ex_base_row i) ''case'' = Inr (JStr (captured i))" for i
    by (simp_all add: ex_base_row_def item_def)
  have "mapr (\<lambda>row. bnd (item row ''provenance'') (\<lambda>v. if P v then bnd (item row ''case'') (\<lambda>c. Inr [c]) else Inr []))
      (map ex_base_row ns) = Inr (map (\<lambda>i. if ?P i then [JStr (captured i)] else []) ns)"
    by (induction ns) (simp_all add: item)
  moreover have "concat (map (\<lambda>i. if ?P i then [JStr (captured i)] else []) ns) =
      map (\<lambda>i. JStr (captured i)) (filter ?P ns)" by (induction ns) simp_all
  ultimately show ?thesis by (simp add: cases_where_def)
qed

lemma filter_below: "filter (\<lambda>i. i < 16) [1..<43] = [1..<16]" "filter (\<lambda>i. \<not> i < 16) [1..<43] = [16..<(43::nat)]"
  by (simp_all add: upt_rec)

lemma ex_base_length: "length ex_base_rows = 42" by (simp add: ex_base_rows_def)

lemma ex_object_rows: "object_rows (JArr (map JObj ex_base_rows)) (Some 42) m = Inr ex_base_rows"
  "object_rows (JArr (map JObj ex_base_rows)) None m = Inr ex_base_rows"
proof -
  have "mapr (\<lambda>x. corpus_object x m) (map JObj rs) = Inr rs" for rs by (induction rs) (simp_all add: corpus_object_def)
  then show "object_rows (JArr (map JObj ex_base_rows)) (Some 42) m = Inr ex_base_rows"
    "object_rows (JArr (map JObj ex_base_rows)) None m = Inr ex_base_rows"
    using ex_base_length by (auto simp: object_rows_def corpus_array_def crequire_def)
qed

lemma captured_eqs: "py_eqs (map (\<lambda>i. JStr (captured i)) ns) (map (\<lambda>i. JStr (captured i)) ns)"
  using py_eqs_strings [of "map JStr (map captured ns)" "map captured ns"] by (simp add: comp_def)

lemma ex_cases_where:
  "cases_where (\<lambda>v. v \<noteq> JStr ''residual_hp1'') ex_base_rows = Inr ex_retained"
  "cases_where (\<lambda>v. v = JStr ''residual_hp1'') ex_base_rows = Inr ex_moved"
proof -
  have "(JStr (if i < 16 then ''dense'' else ''residual_hp1'') \<noteq> JStr ''residual_hp1'') = (i < 16)" for i :: nat by simp
  moreover have "(JStr (if i < 16 then ''dense'' else ''residual_hp1'') = JStr ''residual_hp1'') = (\<not> i < 16)" for i :: nat by simp
  ultimately show "cases_where (\<lambda>v. v \<noteq> JStr ''residual_hp1'') ex_base_rows = Inr ex_retained"
    "cases_where (\<lambda>v. v = JStr ''residual_hp1'') ex_base_rows = Inr ex_moved"
    unfolding ex_base_rows_def cases_where_base by (simp_all only: filter_below ex_retained_def ex_moved_def)
qed

lemma ex_partition:
  assumes "map_of old name = Some (JArr (map JObj ex_base_rows))"
  shows "historical_partition old ex_retained ex_moved name = Inr ()"
proof -
  have "length ex_retained = 15" "length ex_moved = 27" by (simp_all add: ex_retained_def ex_moved_def)
  moreover have "py_eqs ex_retained ex_retained" "py_eqs ex_moved ex_moved"
    unfolding ex_retained_def ex_moved_def by (rule captured_eqs)+
  ultimately show ?thesis using assms
    by (simp add: historical_partition_def item_def ex_object_rows crequirer_def crequire_def ex_cases_where)
qed

lemma py_eqs_refl: "\<forall>v \<in> set vs. py_eq v v \<Longrightarrow> py_eqs vs vs"
  by (induction vs) auto

lemma captured_refl: "py_eq (captured_ids n) (captured_ids n)"
  using captured_eqs [of "[1..<Suc n]"] by (simp add: captured_ids_def del: upt_Suc)

lemma int_array_refl: "py_eq (JArr (map JInt ns)) (JArr (map JInt ns))"
  by (simp add: py_eqs_refl num_eq_def)

lemma rget_v3:
  "rget ex_v3 ''captured_case_ids'' = captured_ids 15" "rget ex_v3 ''large_k'' = large_k"
  "rget ex_v3 ''observed_total'' = JInt 15" "rget ex_v3 ''profiles'' = JArr (map JStr PROFILES)"
  "rget ex_v3 ''retained_historical_case_ids'' = JArr ex_retained"
  "rget ex_v3 ''moved_historical_residual_case_ids'' = JArr ex_moved"
  by (simp_all add: rget_def ex_v3_def del: upt_Suc)

lemma ex_validate_v3: "validate_v3 ex_corpus_env ex_v3 = Inr ()"
proof -
  have h: "authority_head ex_v3 V3_FIELDS 3 ''cycle-sim-c617-run-aware-base-gemm-v3''"
    by (simp add: authority_head_def ex_v3_def V3_FIELDS_def keys_are_def rget_def num_eq_def del: upt_Suc)
  have b: "digest_is ex_corpus_env (manifest_path ex_corpus_env ''v1'') (rget ex_v3 ''base_manifest_sha256'') = Inr True"
    using ex_digest(1) by (simp add: digest_is_def ex_v3_def rget_def zz_def)
  have p: "rget ex_v3 ''producer_base_head'' = JStr ''c61702970df8b287b1ed75b3e51abab559021b51''"
    by (simp add: rget_def ex_v3_def)
  have sources: "(case (rget ex_v2 ''fixture_source_sha256'', rget ex_v3 ''fixture_source_sha256'', rget ex_v3 ''producer_source_sha256'') of
                 (JObj expected, JObj fixture, JObj producer) \<Rightarrow>
                   set (map fst fixture) = insert (HOST @ ''run_aware_rtl_driver.inc'') (set (map fst expected)) \<and>
                   set (map ((@) RMD) [''rmd-executor.cpp'', ''rmd-im2p-executor.cpp'', ''rmd-run-aware.cpp'', ''rmd-run-aware.hpp''])
                     \<subseteq> set (map fst producer)
               | _ \<Rightarrow> False)"
    by (simp add: rget_def ex_v2_def ex_v3_def del: upt_Suc)
  have fixed: "py_eq (rget ex_v3 ''captured_case_ids'') (captured_ids 15) \<and>
               py_eq (rget ex_v3 ''observed_total'') (JInt 15) \<and> py_eq (rget ex_v3 ''large_k'') large_k \<and>
               py_eq (rget ex_v3 ''profiles'') (JArr (map JStr PROFILES))"
    unfolding rget_v3 large_k_def
    using captured_refl int_array_refl py_eq_strings by (simp add: num_eq_def del: py_eq.simps)
  have old: "rget ex_v1 ''profiles'' = JObj (map (\<lambda>p. (p, JArr (map JObj ex_base_rows))) PROFILES)"
      "item ex_v1 ''profiles'' = Inr (JObj (map (\<lambda>p. (p, JArr (map JObj ex_base_rows))) PROFILES))"
    by (simp_all add: rget_def item_def ex_v1_def)
  have keys: "keys_are (map (\<lambda>p. (p, JArr (map JObj ex_base_rows))) PROFILES) PROFILES"
    by (simp add: keys_are_def comp_def)
  have "mapr (historical_partition (map (\<lambda>p. (p, JArr (map JObj ex_base_rows))) PROFILES) ex_retained ex_moved) PROFILES =
      Inr (map (\<lambda>_. ()) PROFILES)"
    by (rule mapr_pure) (simp add: ex_partition map_of_keys)
  then show ?thesis
    unfolding validate_v3_def using h b p sources fixed keys
    by (simp add: crequirer_def crequire_def ex_reads old corpus_object_def corpus_array_def rget_v3(5,6) del: upt_Suc py_eq.simps)
qed

lemma ex_authority_v3: "authority_v3 ex_corpus_env = Inr ex_v3"
  by (simp add: authority_v3_def ex_manifests ex_validate_v3)

lemma ex_authority_v4: "\<exists>d. authority_v4 ex_corpus_env = Inr d"
proof -
  have v3: "item ex_v3 ''producer_source_sha256'' = Inr (JObj (map (\<lambda>n. (RMD @ n, zz))
      [''rmd-executor.cpp'', ''rmd-im2p-executor.cpp'', ''rmd-run-aware.cpp'', ''rmd-run-aware.hpp'']))"
    by (simp add: item_def ex_v3_def del: list.map)
  have v: "validate_v4 ex_v4 ex_v3 = Inr ()"
    by (simp add: validate_v4_def v3 crequire_def crequirer_def authority_head_def)
       (simp add: ex_v4_def V4_FIELDS_def keys_are_def rget_def num_eq_def item_def manifest_sha_def MANIFEST_SHA256_def zz_def)
  show ?thesis
    by (simp add: authority_v4_def ex_manifests ex_authority_v3 v v3 corpus_object_def)
       (simp add: ex_v4_def item_def rget_def zz_def)
qed

lemma ex_authority_v5: "\<exists>d. authority_v5 ex_corpus_env = Inr d"
proof -
  have "validate_v5 ex_v5 = Inr ()"
    by (simp add: validate_v5_def crequire_def authority_head_def)
       (simp add: ex_v5_def V5_FIELDS_def keys_are_def rget_def num_eq_def manifest_sha_def MANIFEST_SHA256_def)
  then show ?thesis using ex_authority_v4 by (auto simp: authority_v5_def ex_manifests)
qed

definition ex_reference :: "string \<Rightarrow> Record" where
  "ex_reference version = [(''revision'', JStr (revision_of_version version)), (''sha256'', manifest_sha version)]"

lemma ex_authority_reference:
  assumes "version \<in> set current_versions"
  shows "authority_reference ex_corpus_env version = Inr (ex_reference version)"
proof -
  from assms have "\<exists>d. authority ex_corpus_env version None None = Inr d"
    using ex_authority_v3 ex_authority_v4 ex_authority_v5
    by (auto simp: authority_def authority_document_def current_versions_def)
  then obtain d where d: "authority ex_corpus_env version None None = Inr d" by blast
  from authority_current [OF this assms] have "rget d ''revision'' = JStr (revision_of_version version)"
    by (simp add: current_document_def)
  then have i: "item d ''revision'' = Inr (JStr (revision_of_version version))"
    by (auto simp: rget_def item_def split: option.splits)
  have "\<exists>s. file_digest ex_corpus_env (manifest_path ex_corpus_env version) = Inr s \<and> JStr s = manifest_sha version"
    using ex_digest(2) [of version] assms by (auto simp: file_digest_def current_versions_def split: option.splits)
  then show ?thesis using d i by (auto simp: authority_reference_def ex_reference_def)
qed

section \<open>The package\<close>

definition ex_root :: string where "ex_root = ''/p/dependency/source/llama_cpp_gemmini''"

lemma ex_root_path: "path_of ex_root = [''/'', ''p'', ''dependency'', ''source'', ''llama_cpp_gemmini'']"
  by (simp add: ex_root_def path_of_def path_root_def path_absolute_def)

text \<open>Every file of the package that is not one of the manifests has the digest \<open>z\<close>.\<close>

lemma ex_file: "path_name p \<notin> {''corpus-authority-v3.json'', ''corpus-authority-v4.json'', ''corpus-authority-v5.json''} \<Longrightarrow>
    ce_file ex_corpus_env p = Some ''z''"
proof -
  let ?names = "{''corpus-authority-v3.json'', ''corpus-authority-v4.json'', ''corpus-authority-v5.json''}"
  assume p: "path_name p \<notin> ?names"
  have "path_name ` fst ` set ex_digests \<subseteq> ?names"
    by (simp add: ex_digests_def ex_cycle_def ex_package_def path_name_def is_root_def)
  with p have "map_of ex_digests p = None" by (auto simp: map_of_eq_None_iff)
  then show ?thesis by (simp add: ex_corpus_env_def)
qed

lemma ex_hash_sources:
  assumes "ds \<noteq> []" and "\<And>name. name \<in> set ds \<Longrightarrow> path_inside name \<and>
     path_name (base @ path_of name) \<notin> {''corpus-authority-v3.json'', ''corpus-authority-v4.json'', ''corpus-authority-v5.json''}"
  shows "hash_sources ex_corpus_env (JObj (map (\<lambda>n. (n, zz)) ds)) base label = Inr ()"
proof -
  have "mapr (source_ok ex_corpus_env base label) (map (\<lambda>n. (n, zz)) ds) = Inr (map (\<lambda>_. ()) ds)"
  proof (rule mapr_map_Inr)
    fix n assume "n \<in> set ds"
    then have "path_inside n" "ce_file ex_corpus_env (base @ path_of n) = Some ''z''" using assms(2) ex_file by auto
    then show "source_ok ex_corpus_env base label (n, zz) = Inr ()"
      by (simp add: source_ok_def crequire_def zz_def path_join_def path_inside_def)
  qed
  then show ?thesis using assms(1) by (simp add: hash_sources_def corpus_object_def crequire_def)
qed

definition ex_producer :: "string list" where
  "ex_producer = map ((@) RMD) [''rmd-executor.cpp'', ''rmd-im2p-executor.cpp'', ''rmd-run-aware.cpp'', ''rmd-run-aware.hpp'']"

lemma ex_v3_sources:
  "rget ex_v3 ''producer_source_sha256'' = JObj (map (\<lambda>n. (n, zz)) ex_producer)"
  "rget ex_v3 ''selector_source_sha256'' = JObj (map (\<lambda>n. (n, zz)) [''h''])"
  "rget ex_v3 ''fixture_source_sha256'' = JObj (map (\<lambda>n. (n, zz)) [HOST @ ''run_aware_rtl_driver.inc''])"
  by (simp_all add: rget_def ex_v3_def ex_producer_def)

lemma ex_names:
  "list_all path_inside (''h'' # (HOST @ ''run_aware_rtl_driver.inc'') # ex_producer)"
  "list_all (\<lambda>n. path_name (path_of n) \<notin> {''corpus-authority-v3.json'', ''corpus-authority-v4.json'', ''corpus-authority-v5.json''} \<and>
     \<not> is_root (path_of n)) (''h'' # (HOST @ ''run_aware_rtl_driver.inc'') # ex_producer)"
  by (simp_all add: HOST_def RMD_def ex_producer_def path_inside_def path_of_def path_root_def path_absolute_def path_name_def is_root_def)

lemma path_name_append: "\<not> is_root q \<Longrightarrow> ''/'' \<notin> set q \<Longrightarrow> path_name (p @ q) = path_name q"
  by (cases q rule: rev_cases) (auto simp: path_name_def is_root_def append_eq_Cons_conv)

lemma ex_hash_v3:
  "hash_sources ex_corpus_env (JObj (map (\<lambda>n. (n, zz)) [HOST @ ''run_aware_rtl_driver.inc''])) base label = Inr ()"
  "hash_sources ex_corpus_env (JObj (map (\<lambda>n. (n, zz)) ex_producer)) base label = Inr ()"
  "hash_sources ex_corpus_env (JObj (map (\<lambda>n. (n, zz)) [''h''])) base label = Inr ()"
proof -
  have inside: "''/'' \<notin> set (path_of n)" if "path_inside n" for n
    using path_inside_join [OF that, of "[]"] that by (auto simp: path_inside_def path_join_def)
  have "path_inside n \<and> path_name (base @ path_of n) \<notin> {''corpus-authority-v3.json'', ''corpus-authority-v4.json'', ''corpus-authority-v5.json''}"
    if "n \<in> set (''h'' # (HOST @ ''run_aware_rtl_driver.inc'') # ex_producer)" for n
  proof -
    from ex_names that have "path_inside n" "\<not> is_root (path_of n)"
      "path_name (path_of n) \<notin> {''corpus-authority-v3.json'', ''corpus-authority-v4.json'', ''corpus-authority-v5.json''}"
      by (auto simp only: list_all_iff)
    then show ?thesis using path_name_append inside by metis
  qed
  then show "hash_sources ex_corpus_env (JObj (map (\<lambda>n. (n, zz)) [HOST @ ''run_aware_rtl_driver.inc''])) base label = Inr ()"
    "hash_sources ex_corpus_env (JObj (map (\<lambda>n. (n, zz)) ex_producer)) base label = Inr ()"
    "hash_sources ex_corpus_env (JObj (map (\<lambda>n. (n, zz)) [''h''])) base label = Inr ()"
    by (intro ex_hash_sources; simp add: ex_producer_def)+
qed

lemma closure_of_files:
  assumes "item d k = Inr (JObj (map (\<lambda>n. (n, zz)) ns))"
  shows "closure_of d (k, prefix) = Inr (map (\<lambda>n. (prefix @ n, zz)) ns)"
proof -
  have "mapr (\<lambda>(name, digest). crequire (is_str digest) message (Inr (prefix @ name, digest))) (map (\<lambda>n. (n, zz)) ns) =
      Inr (map (\<lambda>n. (prefix @ n, zz)) ns)" for message
    by (induction ns) (simp_all add: crequire_def zz_def)
  then show ?thesis by (simp add: closure_of_def assms corpus_object_def)
qed

lemma ex_closures:
  "mapr (closure_of ex_v3) [(''producer_source_sha256'', ''dependency/source/llama_cpp_gemmini/''), (''fixture_source_sha256'', ''source/'')] =
     Inr [map (\<lambda>n. (''dependency/source/llama_cpp_gemmini/'' @ n, zz)) ex_producer,
          map (\<lambda>n. (''source/'' @ n, zz)) [HOST @ ''run_aware_rtl_driver.inc'']]"
proof -
  have i: "item ex_v3 ''producer_source_sha256'' = Inr (JObj (map (\<lambda>n. (n, zz)) ex_producer))"
    "item ex_v3 ''fixture_source_sha256'' = Inr (JObj (map (\<lambda>n. (n, zz)) [HOST @ ''run_aware_rtl_driver.inc'']))"
    using ex_v3_sources(1,3) by (auto simp: item_def rget_def split: option.splits)
  show ?thesis by (simp only: mapr.simps closure_of_files [OF i(1)] closure_of_files [OF i(2)] bnd_def sum.case)
qed

lemma ex_entries:
  "list_all (entry_is package_files)
     (dict_of ((''source/sim/cycle/corpus-authority-v3.json'', manifest_sha ''v3'') # concat
       [map (\<lambda>n. (''dependency/source/llama_cpp_gemmini/'' @ n, zz)) ex_producer,
          map (\<lambda>n. (''source/'' @ n, zz)) [HOST @ ''run_aware_rtl_driver.inc'']]))"
proof -
  have "distinct (map fst ((''source/sim/cycle/corpus-authority-v3.json'', manifest_sha ''v3'') # concat
       [map (\<lambda>n. (''dependency/source/llama_cpp_gemmini/'' @ n, zz)) ex_producer,
          map (\<lambda>n. (''source/'' @ n, zz)) [HOST @ ''run_aware_rtl_driver.inc'']]))"
    by (simp add: ex_producer_def HOST_def RMD_def)
  from dict_of_distinct [of "[]", simplified, OF this] show ?thesis
    unfolding dict_of_def
    by (simp add: package_files_def rget_def entry_is_def ex_producer_def HOST_def RMD_def zz_def manifest_sha_def MANIFEST_SHA256_def)
qed

lemma ex_package_authority:
  "hash_sources ex_corpus_env (JObj [(''sim/cycle/corpus-authority-v3.json'', manifest_sha ''v3'')]) (ex_package @ [''source'']) label = Inr ()"
  by (simp add: hash_sources_def corpus_object_def crequire_def source_ok_def manifest_sha_def MANIFEST_SHA256_def path_join_def
      path_inside_def path_absolute_def path_of_def path_root_def)
     (simp add: ex_corpus_env_def ex_digests_def ex_cycle_def ex_package_def MANIFEST_SHA256_def)

lemma ex_parents: "parents2 (path_of ex_root) = Inr ex_package"
  "path_name (path_of ex_root) = ''llama_cpp_gemmini''" "path_name (path_parent (path_of ex_root)) = ''source''"
  "path_name (path_parent (path_parent (path_of ex_root))) = ''dependency''"
  by (simp_all add: ex_root_path parents2_def ex_package_def is_root_def path_parent_def path_name_def)

lemma ex_package_files:
  "ce_file ex_corpus_env (ex_package @ [''dependency-lock.json'']) = Some ''z''"
  "ce_file ex_corpus_env (ex_package @ [''source-manifest.json'']) = Some ''z''"
  by (rule ex_file; simp add: ex_package_def path_name_def is_root_def)+

lemma ex_v3_items:
  "item ex_v3 ''dependency_lock_sha256'' = Inr zz" "item ex_v3 ''producer_base_head'' = Inr (JStr ''c61702970df8b287b1ed75b3e51abab559021b51'')"
  "item ex_v3 ''version'' = Inr (JInt 3)"
  by (simp_all add: item_def ex_v3_def)

lemma ex_validate_package: "validate_package ex_corpus_env ex_v3 (path_of ex_root) base = Inr ()"
proof -
  have lock: "rget ex_lock ''repositories'' = JObj [(''llama_cpp_gemmini'', JObj [(''head'', JStr ''c61702970df8b287b1ed75b3e51abab559021b51'')])]"
    by (simp add: ex_lock_def rget_def)
  have files: "rget ex_source_manifest ''files'' = JObj package_files" by (simp add: ex_source_manifest_def rget_def)
  have v: "py_eq (JInt 3) (JInt 5) = False" "py_in (JInt 3) [JInt 4, JInt 5] = False"
    by (simp_all add: py_in_def num_eq_def)
  show ?thesis
    unfolding validate_package_def ex_parents ex_package_authority ex_v3_sources ex_hash_v3 Let_def ex_package_files ex_reads lock files
      ex_v3_items ex_closures bnd_def sum.case crequire_def crequirer_def option.case corpus_object_def jval.case v
      if_False
    using ex_entries by (simp add: zz_def rget_def)
qed

lemma ex_authority: "authority ex_corpus_env ''v3'' None None = Inr ex_v3"
  "authority ex_corpus_env ''v3'' (Some (ce_base ex_corpus_env)) (Some (path_of ex_root)) = Inr ex_v3"
  by (simp_all add: authority_def authority_document_def ex_authority_v3 ex_v3_sources(3) ex_hash_v3(1) ex_validate_package del: list.map)

section \<open>The case list\<close>

definition decimal :: "string \<Rightarrow> nat" where
  "decimal s = foldl (\<lambda>n c. 10 * n + (of_char c - 48)) 0 s"

lemma decimal_str_nat: "decimal (str_nat n) = n"
proof (induction n rule: str_nat.induct)
  case (1 n)
  have d: "of_char (digit_char k) - 48 = k" if "k < 10" for k using that by (simp add: digit_char_def)
  show ?case
  proof (cases "n < 10")
    case True
    with d show ?thesis by (subst str_nat.simps) (simp add: decimal_def)
  next
    case False
    with 1 d [of "n mod 10"] show ?thesis by (subst str_nat.simps) (simp add: decimal_def)
  qed
qed

lemma decimal_zeros: "decimal (replicate k (CHR ''0'') @ s) = decimal s"
proof -
  have "foldl (\<lambda>n c. 10 * n + (of_char c - 48)) (0::nat) (replicate k (CHR ''0'')) = 0" by (induction k) simp_all
  then show ?thesis by (simp add: decimal_def)
qed

lemma captured_inj: "captured i = captured j \<Longrightarrow> i = j"
  unfolding captured_def using decimal_str_nat decimal_zeros by (metis append_same_eq same_append_eq)

definition ex_case_rows :: "Record list" where
  "ex_case_rows = map ex_base_row [1..<16] @ map large_row LARGE_K"

definition ex_corpus :: corpus where
  "ex_corpus = map (\<lambda>p. (p, ex_case_rows)) PROFILES"

lemma ex_base_case: "item (ex_base_row i) ''case'' = Inr (JStr (captured i))"
  by (simp add: item_def ex_base_row_def)

lemma ex_by_id: "by_id ex_base_rows = Inr (map (\<lambda>i. (JStr (captured i), ex_base_row i)) [1..<43])"
proof -
  have "mapr (\<lambda>row. bnd (item row ''case'') (\<lambda>c. if hashable c then Inr (c, row) else Inl (TypeError ''unhashable type'')))
      (map ex_base_row ns) = Inr (map (\<lambda>i. (JStr (captured i), ex_base_row i)) ns)" for ns
    by (rule mapr_map_Inr) (simp add: ex_base_case)
  moreover have "dict_of (map (\<lambda>i. (JStr (captured i), ex_base_row i)) ns) = map (\<lambda>i. (JStr (captured i), ex_base_row i)) ns"
    if "distinct ns" for ns
    using dict_of_distinct [of "[]" "map (\<lambda>i. (JStr (captured i), ex_base_row i)) ns"] that captured_inj
    by (simp add: dict_of_def comp_def distinct_map inj_on_def)
  ultimately show ?thesis by (simp add: by_id_def ex_base_rows_def del: upt_Suc)
qed

lemma ex_retained_row:
  assumes "1 \<le> i" "i < 43"
  shows "retained_row (map (\<lambda>i. (JStr (captured i), ex_base_row i)) [1..<43]) (i, JStr (captured i)) = Inr (ex_base_row i)"
proof -
  have "map_of (map (\<lambda>i. (JStr (captured i), ex_base_row i)) ns) (JStr (captured i)) = Some (ex_base_row i)" if "i \<in> set ns" for ns
    using that by (induction ns) (auto dest: captured_inj)
  from this [of "[1..<43]"] assms show ?thesis
    by (simp add: retained_row_def lookup_row_def del: upt_Suc) (simp add: ex_base_row_def)
qed

lemma ex_retained_rows: "retained_rows ex_retained (p, ex_base_rows) = Inr (p, map ex_base_row [1..<16])"
proof -
  have z: "zip [1..<Suc (length ex_retained)] ex_retained = map (\<lambda>i. (i, JStr (captured i))) [1..<16]"
    by (simp add: ex_retained_def zip_map2 zip_same_conv_map del: upt_Suc)
  have "mapr (retained_row (map (\<lambda>i. (JStr (captured i), ex_base_row i)) [1..<43])) (map (\<lambda>i. (i, JStr (captured i))) [1..<16]) =
      Inr (map ex_base_row [1..<16])"
    by (rule mapr_map_Inr) (rule ex_retained_row; simp)
  then show ?thesis unfolding retained_rows_def snd_conv fst_conv ex_by_id z bnd_def sum.case by simp
qed

lemma ex_corpus_v3: "corpus ex_corpus_env ''v3'' = Inr ex_corpus"
proof -
  have "item ex_v1 ''profiles'' = Inr (JObj (map (\<lambda>p. (p, JArr (map JObj ex_base_rows))) PROFILES))"
    by (simp add: item_def ex_v1_def)
  moreover have "mapr base_rows (map (\<lambda>p. (p, JArr (map JObj ex_base_rows))) ps) = Inr (map (\<lambda>p. (p, ex_base_rows)) ps)" for ps
    by (rule mapr_map_Inr) (simp add: base_rows_def ex_object_rows)
  ultimately have base: "corpus_base ex_corpus_env = Inr (map (\<lambda>p. (p, ex_base_rows)) PROFILES)"
    by (simp add: corpus_base_def ex_reads corpus_object_def)
  have i: "item ex_v3 ''retained_historical_case_ids'' = Inr (JArr ex_retained)"
    using rget_v3(5) by (auto simp: item_def rget_def split: option.splits)
  have m: "mapr (retained_rows ex_retained) (map (\<lambda>p. (p, ex_base_rows)) ps) = Inr (map (\<lambda>p. (p, map ex_base_row [1..<16])) ps)" for ps
    by (rule mapr_map_Inr) (rule ex_retained_rows)
  show ?thesis
    by (simp add: corpus_def base ex_authority i corpus_array_def m current_versions_def ex_corpus_def ex_case_rows_def comp_def del: upt_Suc)
qed

end
