(* ===== verification/Certificate_Example.thy ===== *)
theory Certificate_Example
  imports Corpus_Example
begin

text \<open>A complete certificate over the reviewed corpus of version 3, on which the properties are applied.\<close>

section \<open>Contracts and bindings\<close>

type_synonym profile_entry = "string \<times> int \<times> int"

fun ex_entry :: "profile_entry \<Rightarrow> bool" where
  "ex_entry (p, b, d) \<longleftrightarrow> p = profile_name b b d"

definition hex0 :: jval where "hex0 = JStr (replicate 64 (CHR ''0''))"

fun ex_facts_for :: "profile_entry \<Rightarrow> Record" where
  "ex_facts_for (p, b, d) =
     [(''activation_bits'', JInt b), (''weight_bits'', JInt b), (''dim'', JInt d)] @
     map (\<lambda>k. (k, JNull)) [''packing'', ''block_size'', ''accumulator_bits'', ''array_partial_bits'', ''numerical_revision'', ''scu'',
       ''fragment_limit''] @
     [(''memory'', JObj (map (\<lambda>k. (k, JInt 1)) [''bank_count'', ''bank_rows'', ''accumulator_rows'', ''scratchpad_row_bytes'',
         ''accumulator_row_bytes'', ''scratchpad_total_bytes'', ''accumulator_total_bytes''])),
      (''fixed_latencies'', JObj [(''scratchpad_read_delay'', JInt 4), (''accumulator_latency'', JInt 2)])] @
     map (\<lambda>k. (k, JNull)) [''scale_entries'', ''external_stride_units'', ''tile_units'', ''lowering_revision'',
       ''scale_mapping_revision'', ''saturation_order'']"

fun ex_hashes_for :: "profile_entry \<Rightarrow> Record" where
  "ex_hashes_for (p, b, d) = (''config/gemmini_host_memory_contracts/'' @ p @ ''.json'', hex0) #
     map (\<lambda>p. (p, hex0)) (HARDWARE_PATHS @ [''src/gemmini/src/main/scala/a/A.scala'', ''src/gemmini/control/src/main/scala/a/A.scala'',
        ''src/gemmini/upstream/src/main/scala/a/A.scala'', ''src/gemmini/patches/a.patch''])"

definition ex_contract_for :: "profile_entry \<Rightarrow> Record" where
  "ex_contract_for e = [(''schema'', JStr ''im2p-hardware-lowering-contract''), (''version'', JInt 1),
     (''profile'', JStr (fst e)), (''facts'', JObj (ex_facts_for e)), (''source_sha256'', JObj (ex_hashes_for e)), (''sha256'', JStr ''h'')]"

lemma ex_digest_h: "contract_digest ex_ext d = ''h''" by (simp add: contract_digest_def ex_ext_def)

lemma hex0_sha: "is_sha256 hex0" by (simp add: hex0_def is_sha256_def hex_string_def is_hex_def list_all_iff)

lemma ex_contract_for_valid:
  assumes "ex_entry e"
  shows "validate_contract ex_ext (ex_contract_for e) (fst e) = Inr ()"
proof -
  obtain p b d where e: "e = (p, b, d)" by (cases e)
  have facts: "keys_are (ex_facts_for e) FACT_KEYS" by (simp only: e ex_facts_for.simps FACT_KEYS_def keys_are_def map_append list.map fst_conv append.simps)
  have f: "rget (ex_facts_for e) ''activation_bits'' = JInt b" "rget (ex_facts_for e) ''weight_bits'' = JInt b"
    "rget (ex_facts_for e) ''dim'' = JInt d"
    "rget (ex_facts_for e) ''memory'' = JObj (map (\<lambda>k. (k, JInt 1)) [''bank_count'', ''bank_rows'', ''accumulator_rows'', ''scratchpad_row_bytes'',
         ''accumulator_row_bytes'', ''scratchpad_total_bytes'', ''accumulator_total_bytes''])"
    "rget (ex_facts_for e) ''fixed_latencies'' = JObj [(''scratchpad_read_delay'', JInt 4), (''accumulator_latency'', JInt 2)]"
    by (simp_all add: e rget_def)
  have hashes: "set (HARDWARE_PATHS @ [''config/gemmini_host_memory_contracts/'' @ p @ ''.json'']) \<subseteq> set (map fst (ex_hashes_for e))"
    "list_all (\<lambda>(k, v). is_sha256 v) (ex_hashes_for e)"
    using hex0_sha by (auto simp: e list_all_iff)
  have "list_ex (\<lambda>(q, v). fnmatchcase pattern q) (ex_hashes_for e)" if "pattern \<in> set HARDWARE_GLOBS" for pattern
  proof -
    have "fnmatchcase ''src/gemmini/src/main/scala/**/*.scala'' ''src/gemmini/src/main/scala/a/A.scala''"
      "fnmatchcase ''src/gemmini/control/src/main/scala/**/*.scala'' ''src/gemmini/control/src/main/scala/a/A.scala''"
      "fnmatchcase ''src/gemmini/upstream/src/main/scala/**/*.scala'' ''src/gemmini/upstream/src/main/scala/a/A.scala''"
      "fnmatchcase ''src/gemmini/patches/*.patch'' ''src/gemmini/patches/a.patch''"
      by code_simp+
    with that show ?thesis by (auto simp: e HARDWARE_GLOBS_def simp del: fnmatchcase.simps)
  qed
  then have globs: "list_all (\<lambda>pattern. list_ex (\<lambda>(p, v). fnmatchcase pattern p) (ex_hashes_for e)) HARDWARE_GLOBS"
    by (simp add: list_all_iff)
  have c: "rget (ex_contract_for e) ''schema'' = JStr ''im2p-hardware-lowering-contract''" "rget (ex_contract_for e) ''version'' = JInt 1"
    "rget (ex_contract_for e) ''profile'' = JStr (fst e)" "rget (ex_contract_for e) ''facts'' = JObj (ex_facts_for e)"
    "rget (ex_contract_for e) ''source_sha256'' = JObj (ex_hashes_for e)" "rget (ex_contract_for e) ''sha256'' = JStr ''h''"
    "keys_are (ex_contract_for e) [''schema'', ''version'', ''profile'', ''facts'', ''source_sha256'', ''sha256'']"
    by (simp_all add: ex_contract_for_def rget_def keys_are_def)
  have name: "fst e = ''a'' @ str_int b @ ''w'' @ str_int b @ ''-d'' @ str_int d @ ''-hp1''"
    using assms by (simp add: e profile_name_def)
  have memory: "set [''bank_count'', ''bank_rows'', ''accumulator_rows'', ''scratchpad_row_bytes'',
               ''accumulator_row_bytes'', ''scratchpad_total_bytes'', ''accumulator_total_bytes'']
            \<subseteq> set (map fst (map (\<lambda>k. (k, JInt 1)) [''bank_count'', ''bank_rows'', ''accumulator_rows'', ''scratchpad_row_bytes'',
         ''accumulator_row_bytes'', ''scratchpad_total_bytes'', ''accumulator_total_bytes'']))"
    by (simp only: map_map comp_def fst_conv list.map_ident subset_refl)
  have latency: "keys_are [(''scratchpad_read_delay'', JInt 4), (''accumulator_latency'', JInt 2)] [''scratchpad_read_delay'', ''accumulator_latency'']"
    by (simp add: keys_are_def)
  have h: "set (HARDWARE_PATHS @ [''config/gemmini_host_memory_contracts/'' @ fst e @ ''.json'']) \<subseteq> set (map fst (ex_hashes_for e)) \<and>
      list_all (\<lambda>(k, v). is_sha256 v) (ex_hashes_for e)"
    using hashes by (simp only: e fst_conv)
  show ?thesis
    unfolding validate_contract_def contract_mapping_def c f jval.case py_str.simps bnd_def sum.case chk_def ex_digest_h
    using facts globs memory latency h c(7) name by (simp only: if_True py_eq.simps simp_thms)
qed

lemma py_eq_object_refl:
  assumes "distinct (map fst d)" and "\<And>k v. (k, v) \<in> set d \<Longrightarrow> py_eq v v"
  shows "py_eq (JObj d) (JObj d)"
  using assms by (auto simp: py_eqd_iff)

lemma ex_unique_facts: "unique_keys (JObj (ex_facts_for e))"
  by (cases e) simp

lemma ex_unique_hashes: "unique_keys (JObj (ex_hashes_for e))"
  by (cases e) (simp add: HARDWARE_PATHS_def hex0_def)

lemma ex_unique_contract: "unique_keys (JObj (ex_contract_for e))"
  using ex_unique_facts [of e] ex_unique_hashes [of e] by (simp add: ex_contract_for_def)

lemma ex_contract_refl: "py_eq (JObj (ex_contract_for e)) (JObj (ex_contract_for e))"
proof -
  obtain p b d where e: "e = (p, b, d)" by (cases e)
  have facts: "py_eq (JObj (ex_facts_for e)) (JObj (ex_facts_for e))"
  proof (rule py_eq_object_refl)
    show "distinct (map fst (ex_facts_for e))" using ex_unique_facts [of e] by simp
    fix k v assume "(k, v) \<in> set (ex_facts_for e)"
    then show "py_eq v v" by (auto simp: e num_eq_def)
  qed
  have hashes: "py_eq (JObj (ex_hashes_for e)) (JObj (ex_hashes_for e))"
  proof (rule py_eq_object_refl)
    show "distinct (map fst (ex_hashes_for e))" using ex_unique_hashes [of e] by simp
    fix k v assume "(k, v) \<in> set (ex_hashes_for e)"
    then show "py_eq v v" by (auto simp: e hex0_def)
  qed
  show ?thesis
  proof (rule py_eq_object_refl)
    show "distinct (map fst (ex_contract_for e))" by (simp add: ex_contract_for_def)
    fix k v assume "(k, v) \<in> set (ex_contract_for e)"
    then show "py_eq v v" using facts hashes by (auto simp: ex_contract_for_def num_eq_def simp del: py_eq.simps(4))
  qed
qed

definition built_artifacts :: Record where
  "built_artifacts = map (\<lambda>n. (n, hex0)) (''m.sv'' # RUN_AWARE_BINARY # map ((@) ''rtl-test-obj/'') OBJECTS)"

definition ex_binding_for :: "profile_entry \<Rightarrow> Record" where
  "ex_binding_for e = [(''schema'', JStr BINDING_SCHEMA), (''version'', JInt 1), (''execution_kind'', JStr ''FRESH_BUILD''),
     (''hardware_contract'', JObj (ex_contract_for e)), (''fixture_source_sha256'', JObj [(HOST @ ''run_aware_rtl_driver.inc'', zz)]),
     (''artifact_sha256'', JObj built_artifacts), (''sha256'', JStr ''h'')]"

lemma built_artifacts_ok:
  "list_ex (\<lambda>(name, _). endswith name ''.sv'') built_artifacts" "list_all artifact_ok built_artifacts"
  "list_all (\<lambda>name. has_key built_artifacts (''rtl-test-obj/'' @ name)) OBJECTS" "has_key built_artifacts RUN_AWARE_BINARY"
  "built_artifacts \<noteq> []"
proof -
  have "path_inside ''m.sv''" "path_inside RUN_AWARE_BINARY" "list_all (\<lambda>n. path_inside (''rtl-test-obj/'' @ n)) OBJECTS"
    by (simp_all add: path_inside_def path_absolute_def path_of_def path_root_def RUN_AWARE_BINARY_def OBJECTS_def)
  then show "list_all artifact_ok built_artifacts"
    using hex0_sha by (auto simp: built_artifacts_def artifact_ok_def list_all_iff)
  show "list_ex (\<lambda>(name, _). endswith name ''.sv'') built_artifacts" by (simp add: built_artifacts_def endswith_def)
  show "list_all (\<lambda>name. has_key built_artifacts (''rtl-test-obj/'' @ name)) OBJECTS" "has_key built_artifacts RUN_AWARE_BINARY"
    "built_artifacts \<noteq> []"
    by (auto simp: built_artifacts_def has_key_def list_all_iff)
qed

lemma ex_binding_rget:
  "rget (ex_binding_for e) ''schema'' = JStr BINDING_SCHEMA" "rget (ex_binding_for e) ''version'' = JInt 1"
  "rget (ex_binding_for e) ''execution_kind'' = JStr ''FRESH_BUILD''"
  "rget (ex_binding_for e) ''hardware_contract'' = JObj (ex_contract_for e)"
  "rget (ex_binding_for e) ''fixture_source_sha256'' = JObj [(HOST @ ''run_aware_rtl_driver.inc'', zz)]"
  "rget (ex_binding_for e) ''artifact_sha256'' = JObj built_artifacts" "rget (ex_binding_for e) ''sha256'' = JStr ''h''"
  by (simp_all add: ex_binding_for_def rget_def)

lemma ex_binding_valid:
  assumes "ex_entry e"
  shows "validate_binding ex_ext (ex_binding_for e) (ex_contract_for e) = Inr ()"
proof -
  have p: "rget (ex_contract_for e) ''profile'' = JStr (fst e)" by (simp add: ex_contract_for_def rget_def)
  have k: "JStr ''FRESH_BUILD'' \<in> {JStr ''FRESH_BUILD'', JStr ''VERIFIED_REUSE''}" "(JStr ''FRESH_BUILD'' = JStr ''VERIFIED_REUSE'') = False"
    "([(HOST @ ''run_aware_rtl_driver.inc'', zz)] \<noteq> []) = True" "py_eq (JStr ''h'') (JStr ''h'')" by simp_all
  show ?thesis
    unfolding validate_binding_def ex_binding_rget p mapping_def jval.case ex_contract_for_valid [OF assms] bnd_def sum.case chk_def ex_digest_h
    using k built_artifacts_ok ex_contract_refl [of e] by (simp only: if_True if_False simp_thms sum.case)
qed

section \<open>The cases\<close>

definition ex_rtl :: Record where
  "ex_rtl = map (\<lambda>e. (fst e, JInt (if fst e = ''start'' then 1 else if fst e = ''done'' then 11 else if fst e = ''cycles'' then 10 else 1))) COUNTERS"

definition ex_model :: Record where
  "ex_model = map (\<lambda>e. (snd e, JInt (if fst e = ''start'' then 1 else if fst e = ''done'' then 11 else if fst e = ''cycles'' then 10 else 1))) COUNTERS"

definition ex_outcome :: Record where
  "ex_outcome = [(''status'', JStr ''PASS''), (''rtl_admitted'', JBool True), (''model_attempted'', JBool True),
     (''model_admitted'', JBool True), (''differences'', JObj []), (''first_event_difference'', JNull),
     (''selected_event_multiset_exact'', JBool True), (''delta_cycles'', JInt 0), (''rtl_summary'', JObj ex_rtl),
     (''model_summary'', JObj ex_model),
     (''event_comparison'', JObj [(''model_event_count'', JInt 7), (''rtl_event_count'', JInt 7),
        (''model_multiset_sha256'', hex0), (''rtl_multiset_sha256'', hex0)]),
     (''scale_ownership'', JObj [(''status'', JStr ''PASS''), (''submissions'', JInt 2)])]"

definition ex_case :: "string \<Rightarrow> string \<Rightarrow> Record \<Rightarrow> Record" where
  "ex_case p f r = (''profile'', JStr p) # (''framing'', JStr f) # ex_outcome @ r"

definition ex_id :: "Record \<Rightarrow> string" where
  "ex_id r = (case rget r ''case'' of JStr s \<Rightarrow> s | _ \<Rightarrow> [])"

text \<open>What the checks need of a reviewed row.\<close>

definition ex_row_ok :: "Record \<Rightarrow> bool" where
  "ex_row_ok r \<longleftrightarrow> rget r ''case'' = JStr (ex_id r) \<and> ex_id r \<noteq> [] \<and>
     (\<exists>a b c. rget r ''shape'' = JArr [JInt a, JInt b, JInt c] \<and> a > 0 \<and> b > 0 \<and> c > 0) \<and>
     (\<exists>a b c. rget r ''tile'' = JArr [JInt a, JInt b, JInt c] \<and> a > 0 \<and> b > 0 \<and> c > 0) \<and>
     unique_keys (JObj r) \<and> set (map fst r) \<subseteq> set (''captured_case'' # CASE_FIELDS) \<and> set CASE_FIELDS \<subseteq> set (map fst r) \<and>
     (\<forall>(k, v) \<in> set r. py_eq v v)"

lemma captured_nonempty: "captured i \<noteq> []" by (simp add: captured_def)

lemma ex_rows_ok: "r \<in> set ex_case_rows \<Longrightarrow> ex_row_ok r"
proof -
  have "ex_row_ok (ex_base_row i)" for i
    by (simp add: ex_row_ok_def ex_base_row_def rget_def ex_id_def CASE_FIELDS_def captured_nonempty num_eq_def)
  moreover have "ex_row_ok (large_row k)" if "k > 0" for k
    using that by (simp add: ex_row_ok_def large_row_def rget_def ex_id_def CASE_FIELDS_def num_eq_def)
  moreover have "\<forall>k \<in> set LARGE_K. k > 0" by (simp add: LARGE_K_def)
  moreover assume "r \<in> set ex_case_rows"
  ultimately show ?thesis by (auto simp: ex_case_rows_def simp del: upt_Suc)
qed

lemma ex_ids: "map ex_id ex_case_rows = current_ids"
  by (simp add: ex_case_rows_def current_ids_def ex_id_def ex_base_row_def large_row_def rget_def del: upt_Suc)

lemma ex_case_rget:
  "rget (ex_case p f r) ''profile'' = JStr p" "rget (ex_case p f r) ''framing'' = JStr f"
  "\<And>k. map_of ex_outcome k = Some v \<Longrightarrow> k \<noteq> ''profile'' \<Longrightarrow> k \<noteq> ''framing'' \<Longrightarrow> rget (ex_case p f r) k = v"
  "k \<in> set (''captured_case'' # CASE_FIELDS) \<Longrightarrow> rget (ex_case p f r) k = rget r k"
proof -
  have "\<forall>k \<in> set (''captured_case'' # CASE_FIELDS). map_of ex_outcome k = None \<and> k \<noteq> ''profile'' \<and> k \<noteq> ''framing''"
    by (simp add: ex_outcome_def CASE_FIELDS_def)
  then have "k \<in> set (''captured_case'' # CASE_FIELDS) \<Longrightarrow> map_of ex_outcome k = None \<and> k \<noteq> ''profile'' \<and> k \<noteq> ''framing''"
    by (rule bspec)
  then show "k \<in> set (''captured_case'' # CASE_FIELDS) \<Longrightarrow> rget (ex_case p f r) k = rget r k"
    by (simp only: rget_def ex_case_def map_of.simps fst_conv snd_conv fun_upd_apply if_False map_of_append map_add_def option.case)
qed (simp_all add: rget_def ex_case_def map_add_def)

lemma ex_case_row:
  "rget (ex_case p f r) ''case'' = rget r ''case''" "rget (ex_case p f r) ''shape'' = rget r ''shape''"
  "rget (ex_case p f r) ''tile'' = rget r ''tile''" "rget (ex_case p f r) ''captured_case'' = rget r ''captured_case''"
  by (rule ex_case_rget(4); simp add: CASE_FIELDS_def)+

lemma ex_case_outcome:
  "rget (ex_case p f r) ''status'' = JStr ''PASS''" "rget (ex_case p f r) ''rtl_admitted'' = JBool True"
  "rget (ex_case p f r) ''model_attempted'' = JBool True" "rget (ex_case p f r) ''model_admitted'' = JBool True"
  "rget (ex_case p f r) ''differences'' = JObj []" "rget (ex_case p f r) ''first_event_difference'' = JNull"
  "rget (ex_case p f r) ''selected_event_multiset_exact'' = JBool True" "rget (ex_case p f r) ''delta_cycles'' = JInt 0"
  "rget (ex_case p f r) ''rtl_summary'' = JObj ex_rtl" "rget (ex_case p f r) ''model_summary'' = JObj ex_model"
  "rget (ex_case p f r) ''event_comparison'' = JObj [(''model_event_count'', JInt 7), (''rtl_event_count'', JInt 7),
        (''model_multiset_sha256'', hex0), (''rtl_multiset_sha256'', hex0)]"
  "rget (ex_case p f r) ''scale_ownership'' = JObj [(''status'', JStr ''PASS''), (''submissions'', JInt 2)]"
  by (simp_all add: rget_def ex_case_def ex_outcome_def)

lemma ex_case_shape:
  assumes "rget row name = JArr [JInt a, JInt b, JInt c]" "a > 0" "b > 0" "c > 0"
  shows "case_shape row name = Inr ()"
  using assms by (simp add: case_shape_def certificate_array_def cert_requirer_def chkr_def chk_def cert_positive_def cert_number_def cert_require_def)

lemma map_of_entries: "distinct (map g es) \<Longrightarrow> e \<in> set es \<Longrightarrow> map_of (map (\<lambda>e. (g e, h e)) es) (g e) = Some (h e)"
  by (induction es) (auto simp: image_iff)

lemma ex_case_counters: "case_counters (ex_case p f r) = Inr ()"
proof -
  have keys: "distinct (map fst COUNTERS)" "distinct (map snd COUNTERS)" by (simp_all add: COUNTERS_def)
  define n where "n x = (if x = ''start'' then 1 else if x = ''done'' then 11 else if x = ''cycles'' then 10 else 1 :: int)" for x
  have at: "rget ex_rtl (fst e) = JInt (n (fst e)) \<and> rget ex_model (snd e) = JInt (n (fst e))" if "e \<in> set COUNTERS" for e
    unfolding rget_def ex_rtl_def ex_model_def n_def [symmetric]
    using map_of_entries [OF keys(1) that, of "\<lambda>e. JInt (n (fst e))"] map_of_entries [OF keys(2) that, of "\<lambda>e. JInt (n (fst e))"]
    by (simp only: option.case simp_thms)
  have "mapr (equal_counter ex_rtl ex_model) COUNTERS = Inr (map (\<lambda>_. ()) COUNTERS)"
  proof (rule mapr_pure)
    fix e assume "e \<in> set COUNTERS"
    from at [OF this] show "equal_counter ex_rtl ex_model e = Inr ()"
      by (simp add: equal_counter_def n_def cert_requirer_def chkr_def chk_def cert_number_def cert_require_def)
  qed
  moreover have "rget ex_model ''logical_work_count'' = JInt 1" "rget ex_model ''total_cycles'' = JInt 10" "rget ex_model ''done_cycle'' = JInt 11"
    "rget ex_model ''start_cycle'' = JInt 1" "item ex_model ''total_cycles'' = Inr (JInt 10)"
    by (simp_all add: ex_model_def COUNTERS_def rget_def item_def)
  ultimately show ?thesis
    by (simp add: case_counters_def ex_case_outcome certificate_object_def cert_requirer_def chkr_def chk_def cert_positive_def
        cert_number_def cert_require_def num_eq_def)
qed

lemma hex0_digest: "digest_value hex0 m = Inr (replicate 64 (CHR ''0''))"
  using hex0_sha by (simp add: digest_value_def hex0_def is_sha256_def cert_require_def chk_def)

lemma ex_case_events: "case_events (ex_case p f r) = Inr ()"
  unfolding case_events_def ex_case_outcome
  by (simp add: certificate_object_def cert_requirer_def chkr_def chk_def cert_positive_def
        cert_number_def cert_require_def num_eq_def rget_def hex0_digest)

lemma ex_cert_case:
  assumes "ex_row_ok r" and "p \<in> set PROFILES" and "f \<in> set FRAMINGS"
  shows "cert_case (ex_case p f r) = Inr (p, f, ex_id r)"
proof -
  have ne: "p \<noteq> []" "f \<noteq> []" using assms(2,3) by (auto simp: PROFILES_eq FRAMINGS_def)
  from assms(1) obtain a b c a' b' c' where r: "rget r ''case'' = JStr (ex_id r)" "ex_id r \<noteq> []"
    "rget r ''shape'' = JArr [JInt a, JInt b, JInt c]" "a > 0" "b > 0" "c > 0"
    "rget r ''tile'' = JArr [JInt a', JInt b', JInt c']" "a' > 0" "b' > 0" "c' > 0"
    by (auto simp: ex_row_ok_def)
  have shapes: "mapr (case_shape (ex_case p f r)) [''shape'', ''tile''] = Inr [(), ()]"
    using ex_case_shape [of "ex_case p f r" "''shape''" a b c] ex_case_shape [of "ex_case p f r" "''tile''" a' b' c'] r
    by (simp add: ex_case_row)
  show ?thesis
    unfolding cert_case_def ex_case_rget ex_case_row ex_case_outcome r shapes ex_case_counters ex_case_events
    using ne r(2) assms(2,3) by (simp add: cert_require_def cert_requirer_def chkr_def chk_def cert_number_def certificate_object_def
        rget_def cert_positive_def)
qed

section \<open>All cases\<close>

definition ex_grid :: "(string \<times> string \<times> Record) list" where
  "ex_grid = List.product PROFILES (List.product FRAMINGS ex_case_rows)"

definition ex_cases :: "jval list" where
  "ex_cases = map (\<lambda>(p, f, r). JObj (ex_case p f r)) ex_grid"

fun ex_key :: "string \<times> string \<times> Record \<Rightarrow> case_key" where
  "ex_key (p, f, r) = (p, f, ex_id r)"

definition ex_keys :: "case_key list" where
  "ex_keys = map ex_key ex_grid"

lemma ex_ids_distinct: "distinct (map ex_id ex_case_rows)" "distinct ex_case_rows" "inj_on ex_id (set ex_case_rows)"
proof -
  show "distinct (map ex_id ex_case_rows)" unfolding ex_ids by (simp add: current_ids_eq)
  then show "distinct ex_case_rows" "inj_on ex_id (set ex_case_rows)" by (simp_all add: distinct_map)
qed

lemma small_lists: "distinct PROFILES" "length PROFILES = 6" "distinct FRAMINGS" "length FRAMINGS = 2"
  by (simp_all add: PROFILES_eq FRAMINGS_def)

lemma ex_keys_distinct: "distinct ex_keys"
proof -
  have "distinct ex_grid" unfolding ex_grid_def using small_lists ex_ids_distinct by (simp add: distinct_product)
  moreover have "inj_on ex_key (set ex_grid)"
    using ex_ids_distinct(3) by (auto simp: inj_on_def ex_grid_def)
  ultimately show ?thesis by (simp add: ex_keys_def distinct_map)
qed

lemma ex_keys_set: "set ex_keys = current_keys"
proof -
  have "set current_ids = ex_id ` set ex_case_rows" using ex_ids by (metis list.set_map)
  then show ?thesis by (force simp: ex_keys_def ex_grid_def current_keys_def)
qed

lemma ex_keys_length: "length ex_keys = 240"
  using distinct_card [OF ex_keys_distinct] ex_keys_set card_current_keys by simp

lemma ex_cert_cases: "mapr (\<lambda>v. bnd (certificate_object v m) cert_case) ex_cases = Inr ex_keys"
  unfolding ex_cases_def ex_keys_def
proof (rule mapr_map_Inr)
  fix g assume "g \<in> set ex_grid"
  then show "bnd (certificate_object (case g of (p, f, r) \<Rightarrow> JObj (ex_case p f r)) m) cert_case = Inr (ex_key g)"
    by (auto simp: ex_grid_def certificate_object_def intro!: ex_cert_case ex_rows_ok)
qed

lemma ex_framing_count:
  assumes "framing \<in> set FRAMINGS"
  shows "length (filter (\<lambda>(_, f, _). f = framing) ex_keys) = 120"
proof -
  have "set (filter (\<lambda>(_, f, _). f = framing) ex_keys) = set PROFILES \<times> {framing} \<times> set current_ids"
    using assms by (auto simp: ex_keys_set current_keys_def)
  moreover have "card (set PROFILES) = 6" using small_lists distinct_card by metis
  moreover have "card (set current_ids) = 20" using distinct_card [of current_ids] by (simp add: current_ids_eq)
  ultimately have "card (set (filter (\<lambda>(_, f, _). f = framing) ex_keys)) = 120" by (simp add: card_cartesian_product)
  then show ?thesis using distinct_card [of "filter (\<lambda>(_, f, _). f = framing) ex_keys"] ex_keys_distinct by simp
qed

section \<open>Against the corpus\<close>

lemma ex_row_case: "r \<in> set ex_case_rows \<Longrightarrow> rget r ''case'' = JStr (ex_id r)"
  using ex_rows_ok by (simp add: ex_row_ok_def)

lemma item_rget: "rget d k = v \<Longrightarrow> v \<noteq> JNull \<Longrightarrow> item d k = Inr v"
  by (auto simp: item_def rget_def split: option.splits)

lemma dict_of_id: "distinct (map fst ps) \<Longrightarrow> dict_of ps = ps"
  using dict_of_distinct [of "[]" ps] by (simp add: dict_of_def)

lemma ex_case_by_id: "by_id ex_case_rows = Inr (map (\<lambda>r. (JStr (ex_id r), r)) ex_case_rows)"
proof -
  have "mapr (\<lambda>row. bnd (item row ''case'') (\<lambda>c. if hashable c then Inr (c, row) else Inl (TypeError ''unhashable type'')))
      ex_case_rows = Inr (map (\<lambda>r. (JStr (ex_id r), r)) ex_case_rows)"
    by (rule mapr_pure) (simp add: item_rget [OF ex_row_case])
  moreover have "distinct (map fst (map (\<lambda>r. (JStr (ex_id r), r)) ex_case_rows))"
    using ex_ids_distinct(1) by (auto simp: comp_def distinct_map inj_on_def)
  ultimately show ?thesis by (simp add: by_id_def dict_of_id)
qed

definition ex_by_key :: "(string \<times> jval, Record) dict" where
  "ex_by_key = map (\<lambda>(p, r). ((p, JStr (ex_id r)), r)) (List.product PROFILES ex_case_rows)"

lemma ex_by_key: "by_key ex_corpus = Inr ex_by_key"
proof -
  have "mapr (\<lambda>(profile, rows). bnd (by_id rows) (\<lambda>ids. Inr (map (\<lambda>(c, row). ((profile, c), row)) ids))) ex_corpus =
      Inr (map (\<lambda>p. map (\<lambda>r. ((p, JStr (ex_id r)), r)) ex_case_rows) PROFILES)"
    unfolding ex_corpus_def by (rule mapr_map_Inr) (simp add: ex_case_by_id comp_def)
  moreover have "concat (map (\<lambda>p. map (\<lambda>r. ((p, JStr (ex_id r)), r)) ex_case_rows) PROFILES) = ex_by_key"
    by (simp add: ex_by_key_def product_concat_map map_concat comp_def)
  moreover have "distinct (map fst ex_by_key)"
    using small_lists ex_ids_distinct(2,3)
    by (auto simp: ex_by_key_def comp_def distinct_map distinct_product inj_on_def)
  ultimately show ?thesis by (simp add: by_key_def dict_of_id)
qed

lemma ex_by_key_at:
  assumes "p \<in> set PROFILES" and "r \<in> set ex_case_rows"
  shows "map_of ex_by_key (p, JStr (ex_id r)) = Some r"
proof (rule map_of_is_SomeI)
  show "distinct (map fst ex_by_key)"
    using small_lists ex_ids_distinct(2,3)
    by (auto simp: ex_by_key_def comp_def distinct_map distinct_product inj_on_def)
  show "((p, JStr (ex_id r)), r) \<in> set ex_by_key" using assms by (force simp: ex_by_key_def)
qed

lemma ex_case_names:
  assumes "ex_row_ok r"
  shows "\<not> list_ex (\<lambda>(name, _). list_ex (startswith name) [''expected_'', ''oracle_'', ''measured_'']) (ex_case p f r)"
proof -
  have "\<forall>n \<in> set (''profile'' # ''framing'' # map fst ex_outcome @ ''captured_case'' # CASE_FIELDS).
      \<not> startswith n ''expected_'' \<and> \<not> startswith n ''oracle_'' \<and> \<not> startswith n ''measured_''"
    by (simp add: ex_outcome_def CASE_FIELDS_def startswith_def)
  moreover have "set (map fst (ex_case p f r)) \<subseteq> set (''profile'' # ''framing'' # map fst ex_outcome @ ''captured_case'' # CASE_FIELDS)"
    using assms by (auto simp: ex_row_ok_def ex_case_def)
  ultimately have "\<forall>n \<in> set (map fst (ex_case p f r)). \<not> startswith n ''expected_'' \<and> \<not> startswith n ''oracle_'' \<and> \<not> startswith n ''measured_''"
    by (meson subsetD)
  then show ?thesis unfolding list_ex_iff by fastforce
qed

lemma ex_row_refl:
  assumes "ex_row_ok r"
  shows "py_eq (rget r k) (rget r k)"
  using assms by (auto simp: ex_row_ok_def rget_def split: option.splits dest: map_of_SomeD)

lemma ex_case_matches:
  assumes "ex_row_ok r"
  shows "case_matches (ex_case p f r) r = Inr True"
proof -
  have "bnd (item r k) (\<lambda>v. Inr (py_eq (rget (ex_case p f r) k) v)) = Inr True" if "k \<in> set CASE_FIELDS" for k
  proof -
    have "k \<in> set (map fst r)" using that assms by (auto simp: ex_row_ok_def)
    then obtain v where v: "map_of r k = Some v" by (metis map_of_eq_None_iff not_None_eq list.set_map)
    moreover have "rget (ex_case p f r) k = rget r k" using that by (intro ex_case_rget(4)) simp
    ultimately show ?thesis using ex_row_refl [OF assms, of k] by (simp add: item_def rget_def)
  qed
  then show ?thesis
    using ex_row_refl [OF assms, of "''captured_case''"]
    unfolding case_matches_def allr_True by (auto simp: ex_case_row)
qed

lemma ex_corpus_case:
  assumes "(p, f, r) \<in> set ex_grid" and "(p, f, ex_id r) \<notin> set seen"
  shows "corpus_case ex_by_key seen (JObj (ex_case p f r)) = Inr (seen @ [(p, f, ex_id r)])"
proof -
  from assms(1) have g: "p \<in> set PROFILES" "f \<in> set FRAMINGS" "r \<in> set ex_case_rows" by (auto simp: ex_grid_def)
  have ok: "ex_row_ok r" using g(3) by (rule ex_rows_ok)
  show ?thesis
    unfolding corpus_case_def corpus_object_def jval.case bnd_def sum.case ex_case_rget ex_case_row ex_row_case [OF g(3)] prod.case
      crequire_def crequirer_def ex_by_key_at [OF g(1,3)] option.case ex_case_matches [OF ok]
    using assms(2) g(2) ex_case_names [OF ok] by (simp only: simp_thms if_True)
qed

lemma ex_corpus_cases: "foldm (corpus_case ex_by_key) [] ex_cases = Inr ex_keys"
proof -
  have "foldm (corpus_case ex_by_key) seen (map (\<lambda>(p, f, r). JObj (ex_case p f r)) gs) = Inr (seen @ map ex_key gs)"
    if "distinct (seen @ map ex_key gs)" "set gs \<subseteq> set ex_grid" for seen gs
    using that
  proof (induction gs arbitrary: seen)
    case (Cons g gs)
    obtain p f r where g: "g = (p, f, r)" by (cases g)
    have "corpus_case ex_by_key seen (JObj (ex_case p f r)) = Inr (seen @ [(p, f, ex_id r)])"
      using Cons.prems by (intro ex_corpus_case) (auto simp: g)
    with Cons.IH [of "seen @ [(p, f, ex_id r)]"] Cons.prems show ?case by (simp add: g)
  qed simp
  from this [of "[]" ex_grid] ex_keys_distinct show ?thesis by (simp add: ex_cases_def ex_keys_def)
qed

lemma ex_expected_results: "set (map (\<lambda>(p, f, c). (p, f, JStr c)) ex_keys) = set (expected_results ex_corpus)"
proof -
  have "set (expected_results ex_corpus) = set PROFILES \<times> set FRAMINGS \<times> (\<lambda>r. rget r ''case'') ` set ex_case_rows"
    by (force simp: expected_results_def ex_corpus_def)
  moreover have "(\<lambda>r. rget r ''case'') ` set ex_case_rows = JStr ` set current_ids"
    unfolding ex_ids [symmetric] using ex_row_case by (force simp: image_iff)
  moreover have "set (map (\<lambda>(p, f, c). (p, f, JStr c)) ex_keys) = set PROFILES \<times> set FRAMINGS \<times> JStr ` set current_ids"
    unfolding list.set_map ex_keys_set current_keys_def by (force simp: image_iff)
  ultimately show ?thesis by simp
qed

lemma ex_check_cases:
  assumes "rget d ''cases'' = JArr ex_cases"
  shows "check_cases ex_corpus d = Inr ()"
  using ex_expected_results by (simp add: check_cases_def assms corpus_array_def ex_by_key ex_corpus_cases crequire_def)

section \<open>The document\<close>

definition ex_contracts :: Record where
  "ex_contracts = map (\<lambda>e. (fst e, JObj (ex_contract_for e))) PROFILE_DIMS"

definition ex_bindings :: Record where
  "ex_bindings = map (\<lambda>e. (fst e, JObj (ex_binding_for e))) PROFILE_DIMS"

definition ex_memory :: Record where
  "ex_memory = [(''id'', JStr ''rtl-regression-reference-memory-v1''), (''scope'', JStr ''isolated-work-accounting''),
     (''accepted_cycle'', JInt 1), (''timing'', JObj TIMING),
     (''source_sha256'', JObj [(''sim/cycle/c_api.cpp'', hex0), (''sim/cycle/timing_profile.hpp'', hex0)]), (''sha256'', JStr ''h'')]"

definition ex_summary :: Record where
  "ex_summary = map (\<lambda>k. (k, JInt 120)) [''cases_attempted'', ''cases_rtl_admitted'', ''cases_model_admitted'', ''cases_exact''] @
     [(''max_abs_delta_cycles'', JInt 0)]"

definition ex_events :: jval where "ex_events = JArr (map JStr SELECTED_EVENTS)"

definition ex_mutation :: Record where
  "ex_mutation = [(''status'', JStr ''PASS''), (''control_exact'', JBool True), (''endpoints_and_counters_unchanged'', JBool True),
     (''mutations_rejected'', JObj (map (\<lambda>k. (k, JBool True)) [''shift_non_endpoint_event'', ''delete_event'', ''duplicate_event''])),
     (''selected_events'', ex_events)]"

definition ex_source :: Record where
  "ex_source = [(''root'', JStr ex_root), (''base_head'', JStr ''c61702970df8b287b1ed75b3e51abab559021b51''),
     (''source_manifest_sha256'', zz), (''dependency_lock_sha256'', zz)]"

definition of_profiles :: "jval \<Rightarrow> jval" where
  "of_profiles v = JObj (map (\<lambda>p. (p, v)) PROFILES)"

definition ex_document :: Record where
  "ex_document = [(''schema'', JStr CERT_SCHEMA), (''version'', JInt CERT_VERSION), (''status'', JStr ''PASS''), (''first_mismatch'', JNull),
     (''marker'', JStr MARKER), (''scope'', JStr ''isolated-work-accounting''), (''timing_profile'', JStr ''rtl-regression''),
     (''execution_kind'', JStr ''FRESH_RUN''), (''corpus_authority'', JObj (ex_reference ''v3'')),
     (''profiles'', JArr (map JStr PROFILES)), (''framings'', JArr (map JStr FRAMINGS)), (''model_library_sha256'', hex0),
     (''hardware_contracts'', JObj ex_contracts), (''rtl_build_bindings'', JObj ex_bindings), (''reference_memory'', JObj ex_memory),
     (''selected_events'', ex_events), (''expected_cases'', of_profiles (JArr (map JStr current_ids))),
     (''captured_corpus_counts'', of_profiles (JInt 15)), (''observed_corpus_counts'', of_profiles (JInt 15)),
     (''moved_historical_residual_case_ids'', JArr ex_moved), (''cases'', JArr ex_cases),
     (''summaries'', JObj (map (\<lambda>f. (f, JObj ex_summary)) FRAMINGS)), (''event_mutation'', JObj ex_mutation),
     (''llama_source'', JObj ex_source)]"

lemma doc_rget:
  "rget ex_document ''schema'' = JStr CERT_SCHEMA" "rget ex_document ''version'' = JInt CERT_VERSION"
  "rget ex_document ''status'' = JStr ''PASS''" "rget ex_document ''first_mismatch'' = JNull" "has_key ex_document ''first_mismatch''"
  "rget ex_document ''marker'' = JStr MARKER" "rget ex_document ''scope'' = JStr ''isolated-work-accounting''"
  "rget ex_document ''timing_profile'' = JStr ''rtl-regression''" "rget ex_document ''execution_kind'' = JStr ''FRESH_RUN''"
  "rget ex_document ''corpus_authority'' = JObj (ex_reference ''v3'')" "rget ex_document ''profiles'' = JArr (map JStr PROFILES)"
  "rget ex_document ''framings'' = JArr (map JStr FRAMINGS)" "rget ex_document ''model_library_sha256'' = hex0"
  "rget ex_document ''hardware_contracts'' = JObj ex_contracts" "rget ex_document ''rtl_build_bindings'' = JObj ex_bindings"
  "rget ex_document ''reference_memory'' = JObj ex_memory" "rget ex_document ''selected_events'' = ex_events"
  "rget ex_document ''expected_cases'' = of_profiles (JArr (map JStr current_ids))"
  "rget ex_document ''captured_corpus_counts'' = of_profiles (JInt 15)" "rget ex_document ''observed_corpus_counts'' = of_profiles (JInt 15)"
  "rget ex_document ''moved_historical_residual_case_ids'' = JArr ex_moved" "rget ex_document ''cases'' = JArr ex_cases"
  "rget ex_document ''summaries'' = JObj (map (\<lambda>f. (f, JObj ex_summary)) FRAMINGS)" "rget ex_document ''event_mutation'' = JObj ex_mutation"
  "rget ex_document ''llama_source'' = JObj ex_source" "item ex_document ''execution_kind'' = Inr (JStr ''FRESH_RUN'')"
  "item ex_document ''corpus_authority'' = Inr (JObj (ex_reference ''v3''))"
  by (simp_all add: ex_document_def rget_def item_def has_key_def)

lemma ex_corpus_version: "corpus_version ex_document = ''v3''"
  unfolding corpus_version_def doc_rget jval.case by (simp add: ex_reference_def rget_def revision_of_version_def REVISIONS_def)

lemma ex_reference_refl: "py_eq (JObj (ex_reference v)) (JObj (ex_reference v))"
  by (rule py_eq_object_refl) (auto simp: ex_reference_def manifest_sha_def split: option.splits)

lemma of_profiles_refl: "py_eq v v \<Longrightarrow> py_eq (of_profiles v) (of_profiles v)"
  unfolding of_profiles_def using small_lists(1) by (intro py_eq_object_refl) (auto simp: comp_def)

lemma unique_strings_Inr: "[] \<notin> set ss \<Longrightarrow> ss \<noteq> [] \<Longrightarrow> distinct ss \<Longrightarrow> unique_strings (JArr (map JStr ss)) m = Inr ss"
  by (simp add: unique_strings_eq_Inr)

lemma ex_strings:
  "unique_strings (JArr (map JStr PROFILES)) m = Inr PROFILES" "unique_strings (JArr (map JStr FRAMINGS)) m = Inr FRAMINGS"
  "unique_strings ex_events m = Inr SELECTED_EVENTS" "unique_strings (JArr (map JStr current_ids)) m = Inr current_ids"
proof -
  show "unique_strings (JArr (map JStr PROFILES)) m = Inr PROFILES" by (rule unique_strings_Inr) (simp_all add: PROFILES_eq)
  show "unique_strings (JArr (map JStr FRAMINGS)) m = Inr FRAMINGS" by (rule unique_strings_Inr) (simp_all add: FRAMINGS_def)
  show "unique_strings ex_events m = Inr SELECTED_EVENTS"
    unfolding ex_events_def by (rule unique_strings_Inr) (simp_all add: SELECTED_EVENTS_def)
  show "unique_strings (JArr (map JStr current_ids)) m = Inr current_ids"
    by (rule unique_strings_Inr) (simp_all add: current_ids_eq)
qed

lemma profile_dims: "map fst PROFILE_DIMS = PROFILES" "\<forall>e \<in> set PROFILE_DIMS. ex_entry e" "distinct (map fst PROFILE_DIMS)"
proof -
  show "map fst PROFILE_DIMS = PROFILES" by (simp add: PROFILES_def)
  then show "distinct (map fst PROFILE_DIMS)" using small_lists(1) by simp
  show "\<forall>e \<in> set PROFILE_DIMS. ex_entry e" by (auto simp: PROFILE_DIMS_def)
qed

lemma item_entries: "distinct (map g es) \<Longrightarrow> e \<in> set es \<Longrightarrow> item (map (\<lambda>e. (g e, h e)) es) (g e) = Inr (h e)"
  by (simp add: item_def map_of_entries)

lemma ex_profile_items:
  assumes "e \<in> set PROFILE_DIMS"
  shows "item ex_contracts (fst e) = Inr (JObj (ex_contract_for e))" "item ex_bindings (fst e) = Inr (JObj (ex_binding_for e))"
  unfolding ex_contracts_def ex_bindings_def
  using item_entries [OF profile_dims(3) assms, of "\<lambda>e. JObj (ex_contract_for e)"]
    item_entries [OF profile_dims(3) assms, of "\<lambda>e. JObj (ex_binding_for e)"] by blast+

lemma keys_of_profiles: "keys_are (map (\<lambda>e. (fst e, h e)) PROFILE_DIMS) PROFILES"
  by (simp add: keys_are_def comp_def flip: profile_dims(1))

lemma mapr_profiles:
  "(\<And>e. e \<in> set PROFILE_DIMS \<Longrightarrow> f (fst e) = Inr (g e)) \<Longrightarrow> mapr f PROFILES = Inr (map g PROFILE_DIMS)"
  unfolding profile_dims(1) [symmetric] by (rule mapr_map_Inr)

lemma ex_heading: "cert_heading ex_corpus_env ex_document True = Inr ()"
proof -
  have "mapr (authority_reference ex_corpus_env) current_versions = Inr (map ex_reference current_versions)"
    by (rule mapr_pure) (rule ex_authority_reference)
  moreover have "py_in (JObj (ex_reference ''v3'')) (map JObj (map ex_reference current_versions))"
    using ex_reference_refl [of "''v3''"] by (simp add: py_in_def current_versions_def del: py_eq.simps)
  ultimately show ?thesis
    unfolding cert_heading_def doc_rget cert_require_def chk_def by (simp add: doc_rget(5))
qed

lemma ex_cert_contracts: "cert_contracts ex_ext (replicate 64 (CHR ''0'')) ex_document = Inr ex_contracts"
proof -
  have "mapr (\<lambda>profile. bnd (item ex_contracts profile) (\<lambda>v. bnd (certificate_object v profile) (\<lambda>c.
            validate_contract ex_ext c profile))) PROFILES = Inr (map (\<lambda>_. ()) PROFILE_DIMS)"
    using profile_dims(2) by (intro mapr_profiles) (simp add: ex_profile_items certificate_object_def ex_contract_for_valid)
  moreover have "keys_are ex_contracts PROFILES" unfolding ex_contracts_def by (rule keys_of_profiles)
  ultimately show ?thesis
    unfolding cert_contracts_def doc_rget ex_strings hex0_digest certificate_object_def jval.case bnd_def sum.case
    by (simp add: cert_require_def cert_requirer_def chkr_def chk_def)
qed

lemma ex_cert_binding:
  assumes "e \<in> set PROFILE_DIMS"
  shows "cert_binding ex_ext ex_corpus_env ex_document ex_contracts ex_bindings (fst e) = Inr ()"
proof -
  have v5: "authority_reference ex_corpus_env ''v5'' = Inr (ex_reference ''v5'')"
    by (rule ex_authority_reference) (simp add: current_versions_def)
  have ne: "py_eq (JObj (ex_reference ''v3'')) (JObj (ex_reference ''v5'')) = False"
    by (simp add: ex_reference_def revision_of_version_def)
  have e: "ex_entry e" using assms profile_dims(2) by blast
  show ?thesis
    unfolding cert_binding_def ex_profile_items [OF assms] certificate_object_def jval.case doc_rget ex_binding_rget bnd_def sum.case
      ex_binding_valid [OF e] v5 ne Let_def if_False
    by (simp add: cert_require_def chk_def)
qed

lemma ex_package_source: "package_source ex_corpus_env ''v3'' ex_document = Inr ()"
proof -
  have s: "rget ex_source ''root'' = JStr ex_root" "rget ex_source ''base_head'' = JStr ''c61702970df8b287b1ed75b3e51abab559021b51''"
    "rget ex_source ''source_manifest_sha256'' = zz" "rget ex_source ''dependency_lock_sha256'' = zz"
    "keys_are ex_source [''root'', ''base_head'', ''source_manifest_sha256'', ''dependency_lock_sha256'']"
    by (simp_all add: ex_source_def rget_def keys_are_def)
  have "ex_root \<noteq> []" by (simp add: ex_root_def)
  then show ?thesis
    unfolding package_source_def ex_authority doc_rget corpus_object_def jval.case bnd_def sum.case s crequire_def crequirer_def
      ex_v3_items ex_parents ex_package_files
    by (simp add: s(5) zz_def)
qed

lemma ex_fixtures_bound: "fixtures_bound ex_corpus_env ''v3'' ex_document = Inr ()"
proof -
  have i: "item ex_v3 ''fixture_source_sha256'' = Inr (JObj [(HOST @ ''run_aware_rtl_driver.inc'', zz)])"
    using item_rget [OF ex_v3_sources(3)] by simp
  have n: "\<not> endswith (HOST @ ''run_aware_rtl_driver.inc'') ''rtl_fixture.cpp''" "\<not> endswith (HOST @ ''run_aware_rtl_driver.inc'') ''test_ws_rtl.cpp''"
    by (simp_all add: endswith_def HOST_def)
  have b: "fixture_bound [(HOST @ ''run_aware_rtl_driver.inc'', zz)] (JObj (ex_binding_for e)) = Inr ()" for e
    unfolding fixture_bound_def corpus_object_def jval.case bnd_def sum.case ex_binding_rget by (simp add: crequire_def n)
  have m: "mapr (\<lambda>(_, b). fixture_bound [(HOST @ ''run_aware_rtl_driver.inc'', zz)] b) ex_bindings = Inr (map (\<lambda>_. ()) PROFILE_DIMS)"
    unfolding ex_bindings_def by (rule mapr_map_Inr) (simp add: b)
  show ?thesis
    unfolding fixtures_bound_def ex_authority doc_rget corpus_object_def jval.case bnd_def sum.case i m by simp
qed

lemma ex_identities: "corpus_identities ex_corpus = Inr (map (\<lambda>p. (p, JArr (map JStr current_ids))) PROFILES)"
proof -
  have "mapr (\<lambda>row. item row ''case'') ex_case_rows = Inr (map (\<lambda>r. JStr (ex_id r)) ex_case_rows)"
    by (rule mapr_pure) (simp add: item_rget [OF ex_row_case])
  moreover have "map (\<lambda>r. JStr (ex_id r)) ex_case_rows = map JStr current_ids"
    unfolding ex_ids [symmetric] by simp
  ultimately have "mapr (\<lambda>row. item row ''case'') ex_case_rows = Inr (map JStr current_ids)" by simp
  then show ?thesis unfolding corpus_identities_def ex_corpus_def by (intro mapr_map_Inr) simp
qed

lemma ex_counts: "JObj (corpus_counts ex_corpus) = of_profiles (JInt 15)"
proof -
  have "length ex_case_rows = 20" using arg_cong [OF ex_ids, of length] by (simp add: current_ids_eq)
  then show ?thesis by (simp add: corpus_counts_def ex_corpus_def of_profiles_def LARGE_K_def)
qed

lemma ex_denominators: "denominators_ok ex_corpus_env ''v3'' ex_document = Inr ()"
proof -
  have i: "item ex_v3 ''observed_total'' = Inr (JInt 15)" "item ex_v3 ''moved_historical_residual_case_ids'' = Inr (JArr ex_moved)"
    using item_rget [OF rget_v3(3)] item_rget [OF rget_v3(6)] by simp_all
  have "py_eq (JArr ex_moved) (JArr ex_moved)" using captured_eqs by (simp add: ex_moved_def del: upt_Suc)
  moreover have "py_eq (of_profiles (JInt 15)) (JObj (map (\<lambda>p. (p, JInt 15)) PROFILES))"
    using of_profiles_refl [of "JInt 15"] by (simp add: of_profiles_def num_eq_def)
  ultimately show ?thesis
    unfolding denominators_ok_def ex_authority bnd_def sum.case i doc_rget by (simp add: crequirer_def crequire_def del: py_eq.simps)
qed

lemma ex_validate_corpus: "validate_corpus ex_corpus_env ex_document = Inr ()"
proof -
  have v: "(''v3'' = ''v2'') = False" "(''v3'' \<in> set current_versions) = True" "(''v3'' = ''v2'' \<or> ''v3'' \<in> set current_versions) = True"
    by (simp_all add: current_versions_def)
  have r: "authority_reference ex_corpus_env ''v3'' = Inr (ex_reference ''v3'')"
    by (rule ex_authority_reference) (simp add: current_versions_def)
  have c: "py_eq (of_profiles (JArr (map JStr current_ids))) (JObj (map (\<lambda>p. (p, JArr (map JStr current_ids))) PROFILES))"
    using of_profiles_refl [of "JArr (map JStr current_ids)"] py_eq_strings [of "JArr (map JStr current_ids)" current_ids]
    by (simp add: of_profiles_def del: py_eq.simps)
  have n: "py_eq (of_profiles (JInt 15)) (JObj (corpus_counts ex_corpus))"
    unfolding ex_counts by (rule of_profiles_refl) (simp add: num_eq_def)
  show ?thesis
    unfolding validate_corpus_def ex_corpus_version Let_def r bnd_def sum.case doc_rget crequire_def v if_True if_False
      ex_package_source ex_fixtures_bound ex_corpus_v3 ex_identities ex_denominators ex_check_cases [OF doc_rget(22)]
    using c n ex_reference_refl [of "''v3''"] by (simp only: if_True simp_thms sum.case)
qed

lemma ex_cert_bindings: "cert_bindings ex_ext ex_corpus_env ex_document ex_contracts = Inr ()"
proof -
  have "mapr (cert_binding ex_ext ex_corpus_env ex_document ex_contracts ex_bindings) PROFILES = Inr (map (\<lambda>_. ()) PROFILE_DIMS)"
    by (rule mapr_profiles) (rule ex_cert_binding)
  moreover have "keys_are ex_bindings PROFILES" unfolding ex_bindings_def by (rule keys_of_profiles)
  ultimately show ?thesis
    unfolding cert_bindings_def doc_rget certificate_object_def jval.case bnd_def sum.case cert_require_def chk_def
    by (simp add: ex_validate_corpus as_certificate_error_def)
qed

lemma ex_reference_memory: "validate_reference ex_ext ex_memory = Inr ()"
proof -
  have t: "py_eq (JObj TIMING) (JObj TIMING)" "list_all (\<lambda>(_, v). is_int v) TIMING"
    by (rule py_eq_object_refl) (auto simp: TIMING_def num_eq_def is_int_def)
  have m: "rget ex_memory ''id'' = JStr ''rtl-regression-reference-memory-v1''" "rget ex_memory ''scope'' = JStr ''isolated-work-accounting''"
    "rget ex_memory ''accepted_cycle'' = JInt 1" "rget ex_memory ''timing'' = JObj TIMING"
    "rget ex_memory ''source_sha256'' = JObj [(''sim/cycle/c_api.cpp'', hex0), (''sim/cycle/timing_profile.hpp'', hex0)]"
    "rget ex_memory ''sha256'' = JStr ''h''"
    by (simp_all add: ex_memory_def rget_def)
  show ?thesis
    unfolding validate_reference_def m certificate_object_def jval.case bnd_def sum.case cert_require_def chk_def ex_digest_h
    using t by (simp add: keys_are_def hex0_digest bnd_def del: py_eq.simps(4))
qed

lemma ex_cert_cases_doc: "cert_cases ex_document = Inr ex_keys"
proof -
  have i: "item (map (\<lambda>p. (p, v)) PROFILES) p = Inr v" if "p \<in> set PROFILES" for p and v :: jval
    using that by (simp add: item_def map_of_keys)
  have "length current_ids = 20" by (simp add: current_ids_eq)
  then have e: "mapr (cert_expected (map (\<lambda>p. (p, JArr (map JStr current_ids))) PROFILES) (map (\<lambda>p. (p, JInt 15)) PROFILES)) PROFILES =
      Inr (map (\<lambda>_. current_ids) PROFILES)"
    by (intro mapr_pure) (simp add: cert_expected_def i cert_number_def cert_require_def chk_def ex_strings LARGE_K_def)
  have k: "keys_are (map (\<lambda>p. (p, v)) PROFILES) PROFILES" for v :: jval by (simp add: keys_are_def comp_def)
  have ne: "ex_cases \<noteq> []" using ex_keys_length by (auto simp: ex_cases_def ex_keys_def)
  have s: "set ex_keys = set (expected_keys (map (\<lambda>_. current_ids) PROFILES))" by (simp only: ex_keys_set set_expected_keys)
  show ?thesis
    unfolding cert_cases_def doc_rget of_profiles_def certificate_object_def certificate_array_def jval.case bnd_def sum.case cert_require_def chk_def
      e ex_cert_cases [unfolded certificate_object_def bnd_def]
    using k ne s ex_keys_distinct by (simp only: if_True simp_thms)
qed

lemma ex_cert_summaries: "mapr (cert_summary ex_keys (map (\<lambda>f. (f, JObj ex_summary)) FRAMINGS)) FRAMINGS = Inr (map (\<lambda>_. ()) FRAMINGS)"
proof (rule mapr_pure)
  fix f assume f: "f \<in> set FRAMINGS"
  have s: "rget ex_summary ''cases_attempted'' = JInt 120" "rget ex_summary ''cases_rtl_admitted'' = JInt 120"
    "rget ex_summary ''cases_model_admitted'' = JInt 120" "rget ex_summary ''cases_exact'' = JInt 120"
    "rget ex_summary ''max_abs_delta_cycles'' = JInt 0"
    by (simp_all add: ex_summary_def rget_def)
  have "item (map (\<lambda>f. (f, JObj ex_summary)) FRAMINGS) f = Inr (JObj ex_summary)" using f by (simp add: item_def map_of_keys)
  then show "cert_summary ex_keys (map (\<lambda>f. (f, JObj ex_summary)) FRAMINGS) f = Inr ()"
    by (simp add: cert_summary_def certificate_object_def s ex_framing_count [OF f] cert_requirer_def chkr_def chk_def cert_number_def
        cert_require_def)
qed

lemma ex_cert_mutation: "cert_mutation ex_document = Inr ()"
proof -
  have m: "rget ex_mutation ''status'' = JStr ''PASS''" "rget ex_mutation ''control_exact'' = JBool True"
    "rget ex_mutation ''endpoints_and_counters_unchanged'' = JBool True"
    "rget ex_mutation ''mutations_rejected'' = JObj (map (\<lambda>k. (k, JBool True)) [''shift_non_endpoint_event'', ''delete_event'', ''duplicate_event''])"
    "rget ex_mutation ''selected_events'' = ex_events"
    by (simp_all add: ex_mutation_def rget_def)
  show ?thesis
    unfolding cert_mutation_def doc_rget certificate_object_def jval.case m ex_strings bnd_def sum.case cert_require_def chk_def
    by (simp add: keys_are_def)
qed

lemma ex_certificate: "validate_certificate ex_ext ex_corpus_env (replicate 64 (CHR ''0'')) ex_document True = Inr ()"
proof -
  have k: "keys_are (map (\<lambda>f. (f, JObj ex_summary)) FRAMINGS) FRAMINGS" by (simp add: keys_are_def comp_def)
  have r: "cert_reuse ex_document n = Inr ()" for n by (simp add: cert_reuse_def doc_rget)
  show ?thesis
    unfolding validate_certificate_def ex_heading ex_cert_contracts ex_cert_bindings doc_rget certificate_object_def jval.case bnd_def sum.case
      ex_reference_memory ex_strings ex_cert_cases_doc r ex_cert_summaries ex_cert_mutation cert_require_def chk_def
    using k by (simp only: if_True simp_thms)
qed

section \<open>Reading it\<close>

lemma unique_keys_entries: "unique_keys_pairs (map (\<lambda>e. (g e, h e)) es) \<longleftrightarrow> (\<forall>e \<in> set es. unique_keys (h e))"
  by (induction es) auto

lemma unique_keys_append: "unique_keys_pairs (ps @ qs) \<longleftrightarrow> unique_keys_pairs ps \<and> unique_keys_pairs qs"
  by (induction ps) auto

lemma unique_keys_case: "ex_row_ok r \<Longrightarrow> unique_keys (JObj (ex_case p f r))"
proof -
  assume ok: "ex_row_ok r"
  have "set (map fst r) \<inter> set (''profile'' # ''framing'' # map fst ex_outcome) = {}"
  proof -
    have "\<forall>k \<in> set (''captured_case'' # CASE_FIELDS). k \<notin> set (''profile'' # ''framing'' # map fst ex_outcome)"
      by (simp add: CASE_FIELDS_def ex_outcome_def)
    then show ?thesis using ok unfolding ex_row_ok_def by blast
  qed
  moreover have "unique_keys (JObj ((''profile'', JStr p) # (''framing'', JStr f) # ex_outcome))"
    by (simp add: ex_outcome_def ex_rtl_def ex_model_def COUNTERS_def hex0_def)
  moreover have "unique_keys (JObj r)" using ok by (simp add: ex_row_ok_def)
  ultimately show ?thesis by (auto simp: ex_case_def unique_keys_append)
qed

lemma ex_unique_cases: "unique_keys (JArr ex_cases)"
proof -
  have "unique_keys_list (map (\<lambda>(p, f, r). JObj (ex_case p f r)) gs)" if "set gs \<subseteq> set ex_grid" for gs
    using that
  proof (induction gs)
    case (Cons g gs)
    obtain p f r where g: "g = (p, f, r)" by (cases g)
    with Cons.prems have "r \<in> set ex_case_rows" by (auto simp: ex_grid_def)
    with Cons unique_keys_case [OF ex_rows_ok] show ?case by (simp add: g del: unique_keys.simps)
  qed simp
  then show ?thesis by (simp add: ex_cases_def)
qed

lemma unique_keys_names: "unique_keys (JArr (map JStr ss))"
  using unique_keys_strings(1) [of "\<lambda>s. s" ss] by simp

lemma ex_unique_binding: "unique_keys (JObj (ex_binding_for e))"
proof -
  have "unique_keys (JObj built_artifacts)"
    by (simp add: built_artifacts_def RUN_AWARE_BINARY_def OBJECTS_def hex0_def)
  with ex_unique_contract [of e] show ?thesis
    by (simp add: ex_binding_for_def zz_def del: unique_keys.simps(2)) (simp add: zz_def)
qed

lemma ex_document_unique: "unique_keys (JObj ex_document)"
proof -
  have "unique_keys (JObj ex_contracts)" "unique_keys (JObj ex_bindings)"
    unfolding ex_contracts_def ex_bindings_def
    using profile_dims(3) ex_unique_contract ex_unique_binding
    by (simp_all only: unique_keys.simps(2) unique_keys_entries map_map comp_def fst_conv) simp_all
  moreover have "unique_keys (JObj ex_memory)" by (simp add: ex_memory_def TIMING_def hex0_def)
  moreover have "unique_keys ex_events" unfolding ex_events_def by (rule unique_keys_names)
  moreover have "unique_keys (JObj ex_mutation)" using \<open>unique_keys ex_events\<close> by (simp add: ex_mutation_def)
  moreover have "unique_keys (of_profiles v)" if "unique_keys v" for v
    using small_lists(1) that by (simp add: of_profiles_def comp_def unique_keys_map)
  moreover have "unique_keys (JArr ex_moved)" unfolding ex_moved_def unique_keys.simps by (rule unique_keys_strings)
  moreover have "unique_keys (JObj (map (\<lambda>f. (f, JObj ex_summary)) FRAMINGS))" by (simp add: FRAMINGS_def ex_summary_def)
  moreover have "unique_keys (JObj ex_source)" by (simp add: ex_source_def zz_def)
  moreover have "unique_keys (JObj (ex_reference ''v3''))" by (simp add: ex_reference_def manifest_sha_def MANIFEST_SHA256_def)
  moreover have "distinct (map fst ex_document)" by (simp add: ex_document_def)
  moreover note ex_unique_cases unique_keys_names
  moreover have "unique_keys hex0" by (simp add: hex0_def)
  moreover have "unique_keys (JObj d)" if "distinct (map fst d)" "\<forall>e \<in> set d. unique_keys (snd e)" for d
    using that unique_keys_entries [of fst snd d] by simp
  ultimately show ?thesis by (simp add: ex_document_def del: unique_keys.simps(1,2))
qed

lemma ex_read: "read_document ''certificate'' (JObj ex_document) = Inr ex_document"
  using ex_document_unique load_strict(1) [OF strict_hooks(1), of "JObj ex_document" "JObj ex_document"]
  by (simp add: read_document_def certificate_object_def del: load_value.simps unique_keys.simps)

lemma certificate_complete_witness:
  "\<exists>rows. rget ex_document ''cases'' = JArr (map JObj rows) \<and> length rows = 240 \<and> list_all exact_case rows"
  using certificate_complete [OF ex_read ex_certificate] by blast

lemma corpus_cases_reviewed_witness:
  "\<exists>rows. rget ex_document ''cases'' = JArr (map JObj rows) \<and> distinct (map row_key rows) \<and> list_all (reviewed_row ex_corpus) rows"
  using corpus_cases_reviewed [OF ex_validate_corpus] unfolding ex_corpus_version ex_corpus_v3 by auto

end
