(* ===== verification/Lifecycle.thy ===== *)
theory Lifecycle
  imports Semantic_Graph "HOL-Library.Word"
begin

unbundle bit_operations_syntax

text \<open>
  The producer lifecycle of \<^verbatim>\<open>sim/cycle/execution_lifecycle.py\<close> and the forced one of
  \<^verbatim>\<open>execution_forced_lifecycle.py\<close>: the events of a run are read in order against the semantic graph and projected to
  the barriers, entry dependencies and sampling steps of the execution. The local variables of the reader are a record;
  every kind of event has its step.
\<close>

definition ensurer :: "bool res \<Rightarrow> string \<Rightarrow> 'a res \<Rightarrow> 'a res" where
  "ensurer c detail k = chkr c (ExecutionError (''execution: '' @ detail)) k"

lemma ensurer_eq_Inr [res_simps]: "ensurer c d k = Inr y \<longleftrightarrow> c = Inr True \<and> k = Inr y"
  by (simp add: ensurer_def chkr_eq_Inr)

lemma ensurer_simps [simp]: "ensurer (Inr b) d k = ensure b d k" "ensurer (Inl e) d k = Inl e"
  by (simp_all add: ensurer_def ensure_def)

text \<open>Conditions that may raise: two integers compared, an integer field with a given value, two phase keys.\<close>

definition int_is :: "Record \<Rightarrow> string \<Rightarrow> int \<Rightarrow> bool res" where
  "int_is r key n = bnd (integer r key) (\<lambda>v. Inr (v = n))"

definition positive :: "Record \<Rightarrow> string \<Rightarrow> bool res" where
  "positive r key = bnd (integer r key) (\<lambda>v. Inr (v > 0))"

definition phase_is :: "Record \<Rightarrow> Record \<Rightarrow> bool res" where
  "phase_is a b = bnd (phase_key a) (\<lambda>x. bnd (phase_key b) (\<lambda>y. Inr (x = y)))"

definition nth_item :: "'a list \<Rightarrow> nat \<Rightarrow> 'a res" where
  "nth_item xs i = (if i < length xs then Inr (xs ! i) else Inl IndexError)"

lemma int_is_True [res_simps]: "int_is r key n = Inr True \<longleftrightarrow> integer r key = Inr n"
  by (auto simp: int_is_def bnd_eq_Inr)

lemma phase_is_True [res_simps]: "phase_is a b = Inr True \<longleftrightarrow> (\<exists>k. phase_key a = Inr k \<and> phase_key b = Inr k)"
  by (auto simp: phase_is_def bnd_eq_Inr)

lemma nth_item_eq [res_simps]: "nth_item xs i = Inr x \<longleftrightarrow> i < length xs \<and> xs ! i = x"
  by (auto simp: nth_item_def)

section \<open>Identities\<close>

definition encoded_key :: "ext \<Rightarrow> SemanticKey \<Rightarrow> string" where
  "encoded_key E key = (case key of (phase, decode, graph, ordinal) \<Rightarrow>
     dumps E False (JArr [JStr phase, (case decode of None \<Rightarrow> JNull | Some d \<Rightarrow> JInt d), JInt graph, JInt ordinal]))"

definition operation_id :: "ext \<Rightarrow> SemanticKey \<Rightarrow> string" where
  "operation_id E key = ''operation:'' @ encoded_key E key"

definition graph_begin_id :: "nat \<Rightarrow> string" where
  "graph_begin_id i = ''graph:'' @ str_nat i @ '':begin''"

definition graph_end_id :: "nat \<Rightarrow> string" where
  "graph_end_id i = ''graph:'' @ str_nat i @ '':end''"

definition dispatch_begin_id :: "nat \<Rightarrow> string" where
  "dispatch_begin_id i = ''dispatch:'' @ str_nat i @ '':begin''"

definition dispatch_end_id :: "nat \<Rightarrow> string" where
  "dispatch_end_id i = ''dispatch:'' @ str_nat i @ '':end''"

definition request_begin_id :: string where
  "request_begin_id = ''application:request:begin''"

text \<open>The operations of one graph, in node order.\<close>

definition row_operations :: "ext \<Rightarrow> Record \<Rightarrow> string list res" where
  "row_operations E row =
     bnd (item row ''nodes'') (\<lambda>nv. bnd (array nv) (\<lambda>nodes.
     mapr (\<lambda>ordinal. bnd (phase_key row) (\<lambda>ph. bnd (integer row ''graph_occurrence'') (\<lambda>g.
       Inr (operation_id E (fst ph, snd ph, g, int ordinal))))) [0..<length nodes]))"

definition graph_operations :: "ext \<Rightarrow> Manifest \<Rightarrow> string list list res" where
  "graph_operations E graph = mapr (row_operations E) (mf_graphs graph)"

text \<open>The FNV-1a hash of a token, over its four little-endian bytes.\<close>

definition fnv_step :: "int \<Rightarrow> 64 word \<Rightarrow> nat \<Rightarrow> 64 word" where
  "fnv_step token value shift = (value XOR word_of_int ((token div 2 ^ shift) mod 256)) * 1099511628211"

definition fnv_hash :: "int \<Rightarrow> 64 word" where
  "fnv_hash token = foldl (fnv_step token) 14695981039346656037 [0, 8, 16, 24]"

definition hex16 :: "64 word \<Rightarrow> string" where
  "hex16 w = map (\<lambda>i. hex_digit (nat (uint w div 16 ^ i mod 16))) (rev [0..<16])"

definition token_fingerprint :: "int \<Rightarrow> string" where
  "token_fingerprint token = ''fnv1a64-le-i32:'' @ hex16 (fnv_hash token)"

section \<open>The reader\<close>

record barrier =
  ba_node :: string
  ba_phase :: string
  ba_dependencies :: "string list"

record sample_step =
  ss_index :: nat
  ss_logits_ready :: string
  ss_next_entries :: "string list"

record lifecycle =
  lc_entries :: "(string, string list) dict"
  lc_barriers :: "barrier list"
  lc_samples :: "Record list"
  lc_phases :: "Record list"
  lc_parents :: "Record list"
  lc_owners :: "Record list"
  lc_prefill :: "Record list"
  lc_request :: bool
  lc_parent_of :: "(int, Record) dict"
  lc_run :: "Record option"
  lc_active :: "Record option"
  lc_cursor :: nat
  lc_dispatches :: nat
  lc_ended :: bool

record LifecycleProjection =
  lp_entries :: "(string, string list) dict"
  lp_barriers :: "barrier list"
  lp_steps :: "sample_step list"
  lp_samples :: nat
  lp_parents :: "Record list"
  lp_owners :: "Record list"
  lp_prefill :: "Record list"

definition lifecycle_start :: lifecycle where
  "lifecycle_start = \<lparr>lc_entries = [], lc_barriers = [], lc_samples = [], lc_phases = [], lc_parents = [], lc_owners = [],
     lc_prefill = [], lc_request = False, lc_parent_of = [], lc_run = None, lc_active = None, lc_cursor = 0, lc_dispatches = 0,
     lc_ended = False\<rparr>"

definition EVENT_COMMON :: "string list" where
  "EVENT_COMMON = [''schema'', ''version'', ''kind'', ''sequence'']"

text \<open>A record whose fields were checked has the values read with \<open>rget\<close>.\<close>

definition pipeline_run :: "Record \<Rightarrow> bool" where
  "pipeline_run run \<longleftrightarrow> rget run ''target_mode_scope'' = JStr ''STRIPE_PIPELINE_ONLY''"

definition event_framing :: "lifecycle \<Rightarrow> nat \<Rightarrow> int \<Rightarrow> Record \<Rightarrow> bool res" where
  "event_framing st sequence version r =
     allr [Inr (\<not> lc_ended st \<and> py_eq (rget r ''schema'') (JStr ''potal-execution-lifecycle'') \<and> version \<in> {1, 3}),
           int_is r ''sequence'' (int sequence),
           Inr (case lc_run st of None \<Rightarrow> True | Some run \<Rightarrow> version = (if pipeline_run run then 3 else 1))]"

definition event_run :: "Manifest \<Rightarrow> nat \<Rightarrow> int \<Rightarrow> lifecycle \<Rightarrow> Record \<Rightarrow> lifecycle res" where
  "event_run graph sequence version st r =
     bnd (fields_of r (EVENT_COMMON @ [''source_role'', ''source_commit'', ''expected_samples'', ''execution_policy'',
        ''graph_policy'', ''operation_exit_policy'', ''target_mode_scope'', ''requires_binary_manifest_binding''] @
        (if version = 3 then [''producer_ownership_source'', ''actual_rtl_acceptance_in_collection'', ''workspace_slot_domain'',
           ''target_npu_slot_domain''] else []))) (\<lambda>_.
     ensure (sequence = 0 \<and> rget r ''source_role'' = JStr ''potal_collection'' \<and>
             rget r ''execution_policy'' = JStr ''blocking-llama-decode-synchronize-v1'' \<and>
             rget r ''graph_policy'' = JStr ''semantic-session-completes-before-next-graph-v1'' \<and>
             rget r ''operation_exit_policy'' = JStr ''ALL_MEMBER_COMPLETIONS'' \<and>
             rget r ''target_mode_scope'' = JStr (if version = 3 then ''STRIPE_PIPELINE_ONLY'' else ''FULL_ONLY'') \<and>
             rget r ''requires_binary_manifest_binding'' = JBool True) ''unsupported producer lifecycle policy'' (
     ensure (version = 3 \<longrightarrow> rget r ''producer_ownership_source'' = JStr ''CPU_FUNCTIONAL'' \<and>
             rget r ''actual_rtl_acceptance_in_collection'' = JStr ''NOT_APPLICABLE'' \<and>
             rget r ''workspace_slot_domain'' = JStr ''EXSIA_SCRATCH'' \<and>
             rget r ''target_npu_slot_domain'' = JStr ''UNDECLARED'')
       ''pipeline collection cannot claim RTL acceptance or NPU slot ownership'' (
     ensurer (bnd (item (mf_run graph) ''producer'') (\<lambda>pv. bnd (object_value pv) (\<lambda>producer. bnd (item producer ''git_commit'') (\<lambda>commit.
         if py_eq (rget r ''source_commit'') commit
         then bnd (integer r ''expected_samples'') (\<lambda>n. bnd (item (mf_run graph) ''workload'') (\<lambda>wv. bnd (object_value wv) (\<lambda>workload.
              int_is workload ''generated_tokens'' n)))
         else Inr False)))) ''producer source/sample configuration mismatch'' (
     Inr (st\<lparr>lc_run := Some r\<rparr>)))))"

definition event_phase :: "Manifest \<Rightarrow> lifecycle \<Rightarrow> Record \<Rightarrow> lifecycle res" where
  "event_phase graph st r =
     bnd (fields_of r (EVENT_COMMON @ [''phase_kind'', ''decode_index'', ''graph_begin'', ''phase_ordinal''])) (\<lambda>_.
     ensurer (allr [Inr (lc_run st \<noteq> None \<and> lc_active st = None), int_is r ''phase_ordinal'' (int (length (lc_phases st))),
                    int_is r ''graph_begin'' (int (lc_cursor st)), Inr (length (lc_samples st) = length (lc_phases st))])
       ''invalid phase boundary'' (
     ensurer (if length (lc_phases st) < length (mf_phases graph)
              then phase_is r (mf_phases graph ! length (lc_phases st)) else Inr False) ''lifecycle/semantic phase mismatch'' (
     Inr (st\<lparr>lc_phases := lc_phases st @ [r]\<rparr>))))"

definition event_request :: "int \<Rightarrow> lifecycle \<Rightarrow> Record \<Rightarrow> lifecycle res" where
  "event_request version st r =
     bnd (fields_of r (EVENT_COMMON @ [''request_id'', ''phase_kind'', ''decode_index'', ''graph_begin''])) (\<lambda>_.
     ensurer (allr [Inr (version = 3 \<and> \<not> lc_request st \<and> length (lc_phases st) = 1 \<and> lc_active st = None \<and> lc_dispatches st = 0),
                    int_is r ''request_id'' 0,
                    Inr (rget r ''phase_kind'' = JStr ''prefill'' \<and> rget r ''decode_index'' = JNull), int_is r ''graph_begin'' 0])
       ''invalid pipeline request start'' (
     Inr (st\<lparr>lc_request := True,
             lc_barriers := lc_barriers st @ [\<lparr>ba_node = request_begin_id, ba_phase = ''0'', ba_dependencies = []\<rparr>]\<rparr>)))"

definition event_prefill :: "int \<Rightarrow> lifecycle \<Rightarrow> Record \<Rightarrow> lifecycle res" where
  "event_prefill version st r =
     bnd (fields_of r (EVENT_COMMON @ [''batch_index'', ''dispatch_id'', ''graph_begin'', ''phase_kind'', ''decode_index''])) (\<lambda>_.
     ensurer (allr [Inr (version = 3 \<and> lc_request st \<and> lc_active st = None \<and> lc_phases st \<noteq> [] \<and>
                         rget (last (lc_phases st)) ''phase_kind'' = JStr ''prefill''),
                    int_is r ''batch_index'' (int (length (lc_prefill st))), int_is r ''dispatch_id'' (int (lc_dispatches st)),
                    int_is r ''graph_begin'' (int (lc_cursor st)),
                    Inr (rget r ''phase_kind'' = JStr ''prefill'' \<and> rget r ''decode_index'' = JNull)])
       ''invalid pipeline prefill preparation boundary'' (
     Inr (st\<lparr>lc_prefill := lc_prefill st @ [[(''batch_index'', rget r ''batch_index''), (''dispatch_id'', rget r ''dispatch_id''),
        (''graph_begin'', rget r ''graph_begin'')]]\<rparr>)))"

definition event_begin :: "int \<Rightarrow> lifecycle \<Rightarrow> Record \<Rightarrow> lifecycle res" where
  "event_begin version st r =
     bnd (fields_of r (EVENT_COMMON @ [''dispatch_id'', ''graph_begin'', ''phase_kind'', ''decode_index''])) (\<lambda>_.
     ensurer (allr [Inr (lc_phases st \<noteq> [] \<and> lc_active st = None), int_is r ''dispatch_id'' (int (lc_dispatches st)),
                    int_is r ''graph_begin'' (int (lc_cursor st)), phase_is r (last (lc_phases st))])
       ''invalid dispatch begin'' (
     ensure (version = 3 \<and> rget r ''phase_kind'' = JStr ''prefill'' \<longrightarrow>
             lc_request st \<and> length (lc_prefill st) = lc_dispatches st + 1) ''prefill dispatch lacks measured batch preparation'' (
     Inr (st\<lparr>lc_active := Some r\<rparr>))))"

text \<open>One graph of a dispatch: its entry barrier waits for the predecessor, every operation of the graph waits for the
  entry barrier, the leaving barrier waits for every operation and is the next predecessor.\<close>

definition enter_operation :: "string \<Rightarrow> (string, string list) dict \<Rightarrow> string \<Rightarrow> (string, string list) dict res" where
  "enter_operation enter entries operation =
     ensure (\<not> has_key entries operation) ''duplicate graph operation membership'' (Inr (AList.update operation [enter] entries))"

definition dispatch_graph :: "Manifest \<Rightarrow> string list list \<Rightarrow> Record \<Rightarrow> string \<Rightarrow>
    (string, string list) dict \<times> barrier list \<times> string \<Rightarrow> nat \<Rightarrow> ((string, string list) dict \<times> barrier list \<times> string) res" where
  "dispatch_graph graph operations r phase acc index =
     (case acc of (entries, barriers, predecessor) \<Rightarrow>
      ensurer (phase_is (mf_graphs graph ! index) r) ''dispatch graph phase differs'' (
      bnd (foldm (enter_operation (graph_begin_id index)) entries (operations ! index)) (\<lambda>entries'.
      Inr (entries',
           barriers @ [\<lparr>ba_node = graph_begin_id index, ba_phase = phase, ba_dependencies = [predecessor]\<rparr>,
                       \<lparr>ba_node = graph_end_id index, ba_phase = phase, ba_dependencies = operations ! index\<rparr>],
           graph_end_id index))))"

definition event_end :: "Manifest \<Rightarrow> string list list \<Rightarrow> lifecycle \<Rightarrow> Record \<Rightarrow> lifecycle res" where
  "event_end graph operations st r =
     bnd (fields_of r (EVENT_COMMON @ [''dispatch_id'', ''graph_end'', ''status'', ''synchronized'', ''phase_kind'', ''decode_index''])) (\<lambda>_.
     ensurer (allr [Inr (lc_active st \<noteq> None), int_is r ''dispatch_id'' (int (lc_dispatches st)),
                    Inr (py_eq (rget r ''status'') (JInt 0) \<and> rget r ''synchronized'' = JBool True), phase_is r (the (lc_active st))])
       ''unsynchronized/failed dispatch'' (
     bnd (integer r ''graph_end'') (\<lambda>stop.
     ensure (int (lc_cursor st) < stop \<and> stop \<le> int (length (mf_graphs graph))) ''missing/extra dispatched semantic graph'' (
     let n = lc_dispatches st;
         phase = str_int (int (length (lc_phases st)) - 1);
         begin_barrier = \<lparr>ba_node = dispatch_begin_id n, ba_phase = phase,
           ba_dependencies = (if n = 0 then [] else [dispatch_end_id (n - 1)])\<rparr> in
     bnd (foldm (dispatch_graph graph operations r phase) (lc_entries st, lc_barriers st @ [begin_barrier], dispatch_begin_id n)
            [lc_cursor st..<nat stop]) (\<lambda>acc. case acc of (entries, barriers, predecessor) \<Rightarrow>
     Inr (st\<lparr>lc_entries := entries,
             lc_barriers := barriers @ [\<lparr>ba_node = dispatch_end_id n, ba_phase = phase, ba_dependencies = [predecessor]\<rparr>],
             lc_cursor := nat stop, lc_active := None, lc_dispatches := n + 1\<rparr>))))))"

definition event_sample :: "lifecycle \<Rightarrow> Record \<Rightarrow> lifecycle res" where
  "event_sample st r =
     bnd (fields_of r (EVENT_COMMON @ [''sample_index'', ''token_id'', ''graph_end'', ''dispatch_id'', ''token_ready'',
        ''phase_kind'', ''decode_index''])) (\<lambda>_.
     ensurer (allr [Inr (lc_active st = None \<and> lc_phases st \<noteq> []), int_is r ''sample_index'' (int (length (lc_samples st))),
                    Inr (length (lc_samples st) + 1 = length (lc_phases st) \<and> rget r ''token_ready'' = JBool True),
                    int_is r ''dispatch_id'' (int (lc_dispatches st) - 1), int_is r ''graph_end'' (int (lc_cursor st)),
                    phase_is r (last (lc_phases st))])
       ''sample lacks completed logits dispatch'' (
     Inr (st\<lparr>lc_samples := lc_samples st @ [r]\<rparr>)))"

section \<open>Pipeline declarations\<close>

text \<open>\<^verbatim>\<open>type(value) is int and value >= 0\<close>; \<^verbatim>\<open>len(xs) == len(set(xs))\<close> and \<^verbatim>\<open>set(xs) == set(ys)\<close>, which raise
  on values that cannot be set members.\<close>

fun is_index :: "jval \<Rightarrow> bool" where
  "is_index (JInt n) = (n \<ge> 0)"
| "is_index _ = False"

fun py_distinct :: "jval list \<Rightarrow> bool" where
  "py_distinct [] = True"
| "py_distinct (v # vs) = (\<not> py_in v vs \<and> py_distinct vs)"

definition set_of :: "jval list \<Rightarrow> jval list res" where
  "set_of vs = (if list_all hashable vs then Inr vs else Inl (TypeError ''unhashable type''))"

definition same_set :: "jval list \<Rightarrow> jval list \<Rightarrow> bool" where
  "same_set vs ws \<longleftrightarrow> list_all (\<lambda>v. py_in v ws) vs \<and> list_all (\<lambda>w. py_in w vs) ws"

definition collection_done :: "int \<Rightarrow> lifecycle \<Rightarrow> bool res" where
  "collection_done version st =
     (if version = 3 \<and> lc_run st \<noteq> None \<and> lc_active st = None
      then int_is (the (lc_run st)) ''expected_samples'' (int (length (lc_samples st))) else Inr False)"

definition PIPELINE_PARENT_FIELDS :: "string list" where
  "PIPELINE_PARENT_FIELDS = [''phase_id'', ''operation_id'', ''parent_id'', ''required_work_ids'',
     ''production_geometry_version'', ''scope'', ''activation_bits'', ''weight_bits'', ''dim'', ''parent_m'', ''n'', ''k'',
     ''tile_i_count'', ''tile_j_count'', ''tile_k_count'', ''fence_call_id'', ''fence_required_work_ids'', ''residual_bindings'']"

definition event_parent :: "int \<Rightarrow> lifecycle \<Rightarrow> Record \<Rightarrow> lifecycle res" where
  "event_parent version st r =
     ensurer (collection_done version st) ''pipeline parent outside completed collection'' (
     bnd (fields_of r (EVENT_COMMON @ PIPELINE_PARENT_FIELDS)) (\<lambda>_.
     bnd (integer r ''operation_id'') (\<lambda>operation.
     bnd (array (rget r ''required_work_ids'')) (\<lambda>works.
     ensurer (allr ([Inr (\<not> has_key (lc_parent_of st) operation),
                     bnd (integer r ''phase_id'') (\<lambda>v. Inr (v < int (length (lc_phases st)))),
                     int_is r ''production_geometry_version'' 1,
                     Inr (rget r ''scope'' = JStr ''STREAM'' \<and>
                          py_in (rget r ''activation_bits'') [JInt 4, JInt 8] \<and> py_in (rget r ''weight_bits'') [JInt 4, JInt 8] \<and>
                          py_in (rget r ''dim'') [JInt 16, JInt 32, JInt 64])] @
                    map (positive r) [''parent_m'', ''n'', ''k'', ''tile_i_count'', ''tile_j_count'', ''tile_k_count''] @
                    [Inr (works \<noteq> []), bnd (set_of works) (\<lambda>ws. Inr (py_distinct ws)), Inr (list_all is_index works),
                     bnd (integer r ''fence_call_id'') (\<lambda>v. Inr (v \<ge> 0)),
                     bnd (array (rget r ''fence_required_work_ids'')) (\<lambda>fv. bnd (set_of fv) (\<lambda>fence. Inr (same_set fence works))),
                     Inr (\<exists>vs. rget r ''residual_bindings'' = JArr vs)])) ''invalid pipeline parent geometry or work set'' (
     Inr (st\<lparr>lc_parent_of := AList.update operation r (lc_parent_of st), lc_parents := lc_parents st @ [r]\<rparr>))))))"

definition PIPELINE_OWNER_FIELDS :: "string list" where
  "PIPELINE_OWNER_FIELDS = [''producer_sequence'', ''phase_id'', ''operation_id'', ''parent_id'', ''work_id'',
     ''producer_run_id'', ''stripe_id'', ''workspace_slot'', ''target_npu_slot'', ''row_begin'', ''row_end'', ''resource'',
     ''transition'', ''rmd_packet'', ''direct_residual'', ''required_work_ids'', ''required_call_ids'', ''observed_call_id'',
     ''source_owner'', ''source_location'']"

definition owner_rows :: "Record \<Rightarrow> Record \<Rightarrow> bool res" where
  "owner_rows r parent =
     bnd (integer r ''row_begin'') (\<lambda>a. bnd (integer r ''row_end'') (\<lambda>b.
     if a < b then bnd (integer parent ''parent_m'') (\<lambda>m. Inr (b \<le> m)) else Inr False))"

definition event_owner :: "int \<Rightarrow> lifecycle \<Rightarrow> Record \<Rightarrow> lifecycle res" where
  "event_owner version st r =
     chk (lc_run st \<noteq> None) (ValueError ''pipeline owner has no run'') (
     ensurer (if lc_parents st = [] then Inr False else collection_done version st) ''pipeline owner outside completed collection'' (
     bnd (fields_of r (EVENT_COMMON @ PIPELINE_OWNER_FIELDS)) (\<lambda>_.
     bnd (integer r ''operation_id'') (\<lambda>operation.
     case map_of (lc_parent_of st) operation of
       None \<Rightarrow> Inl (ValueError ''pipeline owner has no declared parent'')
     | Some parent \<Rightarrow>
         bnd (array (rget parent ''required_work_ids'')) (\<lambda>members.
         ensurer (allr [int_is r ''producer_sequence'' (int (length (lc_owners st))),
                        bnd (integer r ''phase_id'') (\<lambda>v. Inr (py_eq (JInt v) (rget parent ''phase_id''))),
                        bnd (integer r ''parent_id'') (\<lambda>v. Inr (py_eq (JInt v) (rget parent ''parent_id''))),
                        bnd (integer r ''work_id'') (\<lambda>v. Inr (py_in (JInt v) members)),
                        bnd (integer r ''workspace_slot'') (\<lambda>v. Inr (v \<in> {0, 1})),
                        Inr (rget r ''target_npu_slot'' = JNull), owner_rows r parent,
                        Inr (py_in (rget r ''source_owner'') [JStr ''IM2P.sim'', JStr ''llama.cpp-gemmini''] \<and>
                             is_str (rget r ''source_location'') \<and> truthy (rget r ''source_location'')),
                        bnd (array (rget r ''required_work_ids'')) (\<lambda>vs. Inr (list_all (\<lambda>v. (\<exists>n. v = JInt n) \<and> py_in v members) vs)),
                        bnd (array (rget r ''required_call_ids'')) (\<lambda>vs. Inr (list_all is_index vs)),
                        Inr (rget r ''observed_call_id'' = JNull \<or> is_index (rget r ''observed_call_id''))])
           ''pipeline owner identity or slot mismatch'' (
         Inr (st\<lparr>lc_owners := lc_owners st @ [r]\<rparr>)))))))"

definition event_run_end :: "Manifest \<Rightarrow> lifecycle \<Rightarrow> Record \<Rightarrow> lifecycle res" where
  "event_run_end graph st r =
     bnd (fields_of r (EVENT_COMMON @ [''success'', ''samples'', ''phases'', ''dispatches'', ''graphs''])) (\<lambda>_.
     ensurer (if lc_run st \<noteq> None \<and> lc_active st = None \<and> rget r ''success'' = JBool True
              then allr [int_is r ''samples'' (int (length (lc_samples st))),
                         int_is (the (lc_run st)) ''expected_samples'' (int (length (lc_samples st))),
                         bnd (integer r ''phases'') (\<lambda>n. Inr (n = int (length (lc_phases st)) \<and> length (lc_phases st) = length (mf_phases graph))),
                         int_is r ''dispatches'' (int (lc_dispatches st)),
                         bnd (integer r ''graphs'') (\<lambda>n. Inr (n = int (lc_cursor st) \<and> lc_cursor st = length (mf_graphs graph)))]
              else Inr False) ''incomplete producer lifecycle coverage'' (
     Inr (st\<lparr>lc_ended := True\<rparr>)))"

definition event_step :: "Manifest \<Rightarrow> string list list \<Rightarrow> lifecycle \<Rightarrow> nat \<times> Record \<Rightarrow> lifecycle res" where
  "event_step graph operations st entry =
     (let sequence = fst entry; r = snd entry in
      bnd (integer r ''version'') (\<lambda>version.
      ensurer (event_framing st sequence version r) ''invalid lifecycle framing'' (
      bnd (item r ''kind'') (\<lambda>kind.
      if kind = JStr ''RUN'' then event_run graph sequence version st r
      else if kind = JStr ''PHASE'' then event_phase graph st r
      else if kind = JStr ''REQUEST_START'' then event_request version st r
      else if kind = JStr ''PREFILL_BATCH_READY'' then event_prefill version st r
      else if kind = JStr ''DISPATCH_BEGIN'' then event_begin version st r
      else if kind = JStr ''DISPATCH_END'' then event_end graph operations st r
      else if kind = JStr ''SAMPLE'' then event_sample st r
      else if kind = JStr ''PIPELINE_PARENT'' then event_parent version st r
      else if kind = JStr ''PIPELINE_OWNER'' then event_owner version st r
      else if kind = JStr ''RUN_END'' then event_run_end graph st r
      else Inl (ExecutionError (''execution: '' @ ''unknown producer lifecycle event''))))))"

section \<open>The projection\<close>

text \<open>What a sampled token starts: the entries of the next phase, whose input must be that token.\<close>

definition next_entries :: "Manifest \<Rightarrow> string list list \<Rightarrow> lifecycle \<Rightarrow> nat \<Rightarrow> Record \<Rightarrow> string list res" where
  "next_entries graph operations st index sample =
     (if index + 1 < length (lc_samples st)
      then bnd (nth_item (mf_phases graph) (index + 1)) (\<lambda>following.
           ensurer (bnd (item following ''input_tokens'') (\<lambda>n.
                if py_eq n (JInt 1)
                then bnd (item following ''token_fingerprint'') (\<lambda>fp. bnd (integer sample ''token_id'') (\<lambda>token.
                     Inr (py_eq fp (JStr (token_fingerprint token)))))
                else Inr False)) ''sample token / next decode input trajectory mismatch'' (
           bnd (nth_item (lc_phases st) (index + 1)) (\<lambda>phase. bnd (integer phase ''graph_begin'') (\<lambda>g.
           nth_item operations (nat g)))))
      else Inr [])"

definition sample_step_of :: "Manifest \<Rightarrow> string list list \<Rightarrow> lifecycle \<Rightarrow> nat \<times> Record \<Rightarrow> sample_step res" where
  "sample_step_of graph operations st entry =
     bnd (next_entries graph operations st (fst entry) (snd entry)) (\<lambda>successors.
     bnd (integer (snd entry) ''dispatch_id'') (\<lambda>d.
     Inr \<lparr>ss_index = fst entry, ss_logits_ready = dispatch_end_id (nat d), ss_next_entries = successors\<rparr>))"

definition project_lifecycle :: "ext \<Rightarrow> Record list \<Rightarrow> Manifest \<Rightarrow> LifecycleProjection res" where
  "project_lifecycle E events graph =
     bnd (graph_operations E graph) (\<lambda>operations.
     bnd (foldm (event_step graph operations) lifecycle_start (zip [0..<length events] events)) (\<lambda>st.
     ensure (lc_ended st \<and> lc_run st \<noteq> None) ''producer lifecycle did not finish'' (
     ensure (pipeline_run (the (lc_run st)) \<longrightarrow> lc_request st \<and> lc_prefill st \<noteq> []) ''pipeline request/preparation coverage missing'' (
     bnd (mapr (sample_step_of graph operations st) (zip [0..<length (lc_samples st)] (lc_samples st))) (\<lambda>steps.
     Inr \<lparr>lp_entries = lc_entries st, lp_barriers = lc_barriers st, lp_steps = steps, lp_samples = length (lc_samples st),
          lp_parents = lc_parents st, lp_owners = lc_owners st, lp_prefill = lc_prefill st\<rparr>)))))"

end
