(* ===== verification/Fingerprint.thy ===== *)
theory Fingerprint
  imports Lifecycle
begin

text \<open>The token fingerprint of the lifecycle distinguishes all tokens of 32 bits: the FNV-1a hash of four bytes has no
  collision, although its arithmetic wraps around at 64 bits.\<close>

section \<open>Hexadecimal digits\<close>

lemma hex_digit_inj: "i < 16 \<Longrightarrow> j < 16 \<Longrightarrow> hex_digit i = hex_digit j \<Longrightarrow> i = j"
proof -
  assume ij: "i < 16" "j < 16" and e: "hex_digit i = hex_digit j"
  have v: "(of_char (hex_digit k) :: nat) = (if k < 10 then 48 + k else 87 + k)" if "k < 16" for k
    using that by (simp add: hex_digit_def)
  from arg_cong [OF e, of "of_char :: char \<Rightarrow> nat"] show "i = j"
    unfolding v [OF ij(1)] v [OF ij(2)] using ij by (simp split: if_splits)
qed

lemma digits16_inj: "(x :: int) \<ge> 0 \<Longrightarrow> y \<ge> 0 \<Longrightarrow> x < 16 ^ n \<Longrightarrow> y < 16 ^ n \<Longrightarrow>
    (\<And>i. i < n \<Longrightarrow> x div 16 ^ i mod 16 = y div 16 ^ i mod 16) \<Longrightarrow> x = y"
proof (induction n arbitrary: x y)
  case (Suc n)
  have "x div 16 = y div 16"
  proof (rule Suc.IH)
    show "x div 16 div 16 ^ i mod 16 = y div 16 div 16 ^ i mod 16" if "i < n" for i
      using Suc.prems(5) [of "Suc i"] that by (simp add: zdiv_zmult2_eq)
  qed (use Suc.prems in \<open>auto simp: div_less_iff_less_mult pos_imp_zdiv_nonneg_iff\<close>)
  moreover have "x mod 16 = y mod 16" using Suc.prems(5) [of 0] by simp
  ultimately show ?case by (metis div_mult_mod_eq)
qed auto

lemma hex16_inj: "hex16 v = hex16 w \<Longrightarrow> v = w"
proof -
  assume e: "hex16 v = hex16 w"
  have "uint v = uint w"
  proof (rule digits16_inj [where n = 16])
    fix i :: nat assume "i < 16"
    then have "i \<in> set (rev [0..<16])" by simp
    then have "hex_digit (nat (uint v div 16 ^ i mod 16)) = hex_digit (nat (uint w div 16 ^ i mod 16))"
      using e unfolding hex16_def map_eq_conv by blast
    then have "nat (uint v div 16 ^ i mod 16) = nat (uint w div 16 ^ i mod 16)"
      by (rule hex_digit_inj [rotated 2]) (simp_all add: nat_less_iff)
    then show "uint v div 16 ^ i mod 16 = uint w div 16 ^ i mod 16"
      by (simp add: eq_nat_nat_iff)
  qed (use uint_lt2p [of v] uint_lt2p [of w] in simp_all)
  then show "v = w" by (simp add: word_uint_eq_iff)
qed

section \<open>One step of the hash\<close>

lemma xor_byte_div: "0 \<le> b \<Longrightarrow> b < 256 \<Longrightarrow> uint ((w :: 64 word) XOR word_of_int b) div 256 = uint w div 256"
proof -
  assume b: "0 \<le> b" "b < 256"
  have "uint (word_of_int b :: 64 word) = b" using b by (simp add: uint_word_of_int)
  then have "uint (w XOR word_of_int b) = uint w XOR b" by (simp add: uint_xor)
  moreover have "drop_bit 8 (uint w XOR b) = drop_bit 8 (uint w) XOR drop_bit 8 b" by simp
  moreover have "drop_bit 8 b = 0" using b by (simp add: drop_bit_eq_div)
  ultimately show ?thesis by (simp add: drop_bit_eq_div)
qed

lemma near: "(x :: int) div 256 = y div 256 \<Longrightarrow> \<bar>x - y\<bar> \<le> 255"
  by presburger

lemma byte_inj: "0 \<le> b \<Longrightarrow> b < 256 \<Longrightarrow> 0 \<le> c \<Longrightarrow> c < 256 \<Longrightarrow> (w :: 64 word) XOR word_of_int b = w XOR word_of_int c \<Longrightarrow> b = c"
proof -
  assume bc: "0 \<le> b" "b < 256" "0 \<le> c" "c < 256" and "w XOR word_of_int b = w XOR word_of_int c"
  then have "w XOR (w XOR word_of_int b) = w XOR (w XOR word_of_int c)" by simp
  then have "word_of_int b = (word_of_int c :: 64 word)" by (simp only: xor.assoc [symmetric] xor_self_eq xor.left_neutral)
  then have "uint (word_of_int b :: 64 word) = uint (word_of_int c :: 64 word)" by simp
  then show "b = c" using bc by (simp add: uint_word_of_int)
qed

lemma times_prime: "\<exists>k. uint ((x :: 64 word) * 1099511628211) = uint x * 1099511628211 - k * 2 ^ 64"
proof -
  have "uint (x * 1099511628211) = (uint x * 1099511628211) mod 2 ^ 64"
    by (simp add: uint_word_ariths)
  then show ?thesis by (metis minus_div_mult_eq_mod)
qed

lemma times_prime_inj: "(x :: 64 word) * 1099511628211 = y * 1099511628211 \<Longrightarrow> x = y"
proof -
  have i: "(1099511628211 :: 64 word) * 14886173955864302971 = 1" by simp
  assume "x * 1099511628211 = y * 1099511628211"
  then have "x * (1099511628211 * 14886173955864302971) = y * (1099511628211 * 14886173955864302971)"
    by (simp only: mult.assoc [symmetric])
  then show "x = y" unfolding i by simp
qed

section \<open>No collision\<close>

lemma small_multiple: "(m :: int) * z = l \<Longrightarrow> \<bar>l\<bar> < m \<Longrightarrow> z = 0"
proof (rule ccontr)
  assume e: "m * z = l" "\<bar>l\<bar> < m" and "z \<noteq> 0"
  then have "1 \<le> \<bar>z\<bar>" "m > 0" by linarith+
  then have "m * 1 \<le> m * \<bar>z\<bar>" by (intro mult_left_mono) simp_all
  also have "\<dots> = \<bar>l\<bar>" using e(1) \<open>m > 0\<close> by (simp add: abs_mult flip: e(1))
  finally show False using e(2) by simp
qed

text \<open>An odd multiple of a small number is no multiple of \<open>2 ^ 24\<close>.\<close>

lemma odd_multiple: "2 ^ 24 * q = (435 :: int) * z \<Longrightarrow> \<bar>z\<bar> < 2 ^ 24 \<Longrightarrow> z = 0"
proof -
  assume e: "2 ^ 24 * q = 435 * z" and z: "\<bar>z\<bar> < 2 ^ 24"
  have "coprime (2 :: int) 435" by (simp only: coprime_left_2_iff_odd) simp
  then have "coprime (2 ^ 24 :: int) 435" by (simp only: coprime_power_left_iff simp_thms)
  moreover have "2 ^ 24 dvd 435 * z" using e by (metis dvd_triv_left)
  ultimately have "2 ^ 24 dvd z" by (simp only: coprime_dvd_mult_right_iff)
  then obtain y where y: "2 ^ 24 * y = z" by (auto elim: dvdE)
  from small_multiple [OF this z] y show "z = 0" by simp
qed

lemma cube_split:
  fixes d s t e k :: int
  assumes "((d * 1099511628211 + s) * 1099511628211 + t) * 1099511628211 - e = k * 2 ^ 64"
  shows "\<exists>q. 2 ^ 40 * (2 ^ 24 * q - (567675 * d + 870 * s + t)) = 82312875 * d + 189225 * s + 435 * t - e"
proof -
  have "d * 1329227997362564068125063396651957931 + s * 1208925820571204291060521 + t * 1099511628211 - e = k * 18446744073709551616"
    using assms by (simp add: algebra_simps)
  then have "1099511627776 * (16777216 * (k - d * 72057594123452416 - s * 65536) - (567675 * d + 870 * s + t)) = 82312875 * d + 189225 * s + 435 * t - e"
    by (simp add: algebra_simps)
  then show ?thesis by (intro exI [of _ "k - d * 72057594123452416 - s * 65536"]) simp
qed

lemma small_split:
  fixes d s t e c q :: int
  assumes b: "\<bar>d\<bar> \<le> 255" "\<bar>s\<bar> \<le> 510" "\<bar>t\<bar> \<le> 510" "\<bar>e\<bar> \<le> 255"
    and l: "189225 * (435 * d + s) + 435 * t = e" and c: "2 ^ 24 * q = 189225 * d + 870 * (435 * d + s) + t"
  shows "d = 0 \<and> s = 0 \<and> t = 0 \<and> e = 0"
proof -
  have b': "t \<le> 510" "- 510 \<le> t" "e \<le> 255" "- 255 \<le> e" using b(3,4) by linarith+
  define u where "u = 435 * d + s"
  have l': "189225 * u + 435 * t = e" using l by (simp only: u_def)
  have c': "2 ^ 24 * q = 189225 * d + 870 * u + t" using c by (simp only: u_def)
  have "u < 2" "- 2 < u" using l' b' by linarith+
  then have "u = 0 \<or> u = 1 \<or> u = - 1" by linarith
  then show ?thesis
  proof (elim disjE)
    assume u: "u = 0"
    with l' have "435 * t = e" by simp
    with small_multiple [OF this] b(4) have t: "t = 0" "e = 0" by simp_all
    have "2 ^ 24 * q = 435 * (435 * d)" using c' u t(1) by simp
    from odd_multiple [OF this] b(1) have "d = 0" by simp
    with u t show ?thesis by (simp add: u_def)
  next
    assume u: "u = 1"
    with l' have "435 * (435 + t) = e" by simp
    with small_multiple [OF this] b(4) have t: "t = - 435" by simp
    have "2 ^ 24 * q = 435 * (435 * d + 1)" using c' u t by simp
    moreover from b(1) have "\<bar>435 * d + 1\<bar> < 2 ^ 24" by simp
    ultimately have "435 * d + 1 = 0" by (rule odd_multiple)
    then have m: "435 * d = - 1" by simp
    from small_multiple [OF m] have "d = 0" by simp
    with m have False by simp
    then show ?thesis ..
  next
    assume u: "u = - 1"
    with l' have "435 * (t - 435) = e" by simp
    with small_multiple [OF this] b(4) have t: "t = 435" by simp
    have "2 ^ 24 * q = 435 * (435 * d - 1)" using c' u t by simp
    moreover from b(1) have "\<bar>435 * d - 1\<bar> < 2 ^ 24" by simp
    ultimately have "435 * d - 1 = 0" by (rule odd_multiple)
    then have m: "435 * d = 1" by simp
    from small_multiple [OF m] have "d = 0" by simp
    with m have False by simp
    then show ?thesis ..
  qed
qed

lemma no_collision:
  fixes d s t e k :: int
  assumes b: "\<bar>d\<bar> \<le> 255" "\<bar>s\<bar> \<le> 510" "\<bar>t\<bar> \<le> 510" "\<bar>e\<bar> \<le> 255"
    and eq: "((d * 1099511628211 + s) * 1099511628211 + t) * 1099511628211 - e = k * 2 ^ 64"
  shows "d = 0 \<and> s = 0 \<and> t = 0 \<and> e = 0"
proof -
  have b': "d \<le> 255" "- 255 \<le> d" "s \<le> 510" "- 510 \<le> s" "t \<le> 510" "- 510 \<le> t" "e \<le> 255" "- 255 \<le> e"
    using b by linarith+
  from cube_split [OF eq] obtain q where
    q: "2 ^ 40 * (2 ^ 24 * q - (567675 * d + 870 * s + t)) = 82312875 * d + 189225 * s + 435 * t - e" by blast
  have "82312875 * d + 189225 * s + 435 * t - e < 1099511627776" "- 1099511627776 < 82312875 * d + 189225 * s + 435 * t - e"
    using b' by linarith+
  then have "\<bar>82312875 * d + 189225 * s + 435 * t - e\<bar> < 2 ^ 40" by simp
  from small_multiple [OF q this] have c: "2 ^ 24 * q = 567675 * d + 870 * s + t" by (simp only: right_minus_eq)
  with q have l: "82312875 * d + 189225 * s + 435 * t = e" by simp
  show ?thesis
  proof (rule small_split [OF b])
    show "189225 * (435 * d + s) + 435 * t = e" using l by (simp add: algebra_simps)
    show "2 ^ 24 * q = 189225 * d + 870 * (435 * d + s) + t" using c by (simp add: algebra_simps)
  qed
qed

definition byte :: "int \<Rightarrow> nat \<Rightarrow> int" where
  "byte token shift = (token div 2 ^ shift) mod 256"

lemma fnv_step_byte: "fnv_step token h shift = (h XOR word_of_int (byte token shift)) * 1099511628211"
  by (simp add: fnv_step_def byte_def)

lemma byte_bounds: "0 \<le> byte a k" "byte a k < 256"
  by (simp_all add: byte_def)

lemma bytes_determine:
  assumes "0 \<le> a" "a < 2 ^ 32" "0 \<le> b" "b < 2 ^ 32"
    and "byte a 0 = byte b 0" "byte a 8 = byte b 8" "byte a 16 = byte b 16" "byte a 24 = byte b 24"
  shows "a = b"
proof -
  have digits: "x = x mod 256 + 256 * ((x div 256) mod 256 + 256 * ((x div 65536) mod 256 + 256 * (x div 16777216)))" for x :: int
  proof -
    have "x div 65536 = x div 256 div 256" "x div 16777216 = x div 256 div 256 div 256"
      by (simp_all add: zdiv_zmult2_eq [symmetric])
    then show ?thesis by (metis div_mult_mod_eq add.commute mult.commute)
  qed
  have "x = byte x 0 + 256 * (byte x 8 + 256 * (byte x 16 + 256 * byte x 24))" if x: "0 \<le> x" "x < 2 ^ 32" for x :: int
  proof -
    have "0 \<le> x div 16777216" "x div 16777216 < 256" using x by (simp_all add: pos_imp_zdiv_nonneg_iff)
    then have "x div 16777216 = byte x 24" by (simp add: byte_def)
    moreover have "x mod 256 = byte x 0" "(x div 256) mod 256 = byte x 8" "(x div 65536) mod 256 = byte x 16"
      by (simp_all add: byte_def)
    ultimately show ?thesis using digits [of x] by (simp only:)
  qed
  from this [OF assms(1,2)] this [OF assms(3,4)] assms(5-8) show ?thesis by (simp only:)
qed

text \<open>The difference of two hashes after a step, up to a multiple of \<open>2 ^ 64\<close>.\<close>

lemma step_difference:
  fixes h h' :: "64 word"
  assumes "0 \<le> b" "b < 256" "0 \<le> c" "c < 256"
  defines "g \<equiv> h XOR word_of_int b" and "g' \<equiv> h' XOR word_of_int c"
  obtains s where "uint g - uint g' = uint h - uint h' + s" "\<bar>s\<bar> \<le> 510"
proof -
  have "\<bar>uint g - uint h\<bar> \<le> 255" "\<bar>uint g' - uint h'\<bar> \<le> 255"
    using assms by (simp_all add: near xor_byte_div)
  then show thesis using that [of "(uint g - uint h) - (uint g' - uint h')"] by linarith
qed

lemma fnv_hash_inj:
  assumes ab: "0 \<le> a" "a < 2 ^ 32" "0 \<le> b" "b < 2 ^ 32" and hash: "fnv_hash a = fnv_hash b"
  shows "a = b"
proof -
  define p :: int where "p = 1099511628211"
  define x1 where "x1 = (14695981039346656037 :: 64 word) XOR word_of_int (byte a 0)"
  define x2 where "x2 = (x1 * 1099511628211) XOR word_of_int (byte a 8)"
  define x3 where "x3 = (x2 * 1099511628211) XOR word_of_int (byte a 16)"
  define x4 where "x4 = (x3 * 1099511628211) XOR word_of_int (byte a 24)"
  define y1 where "y1 = (14695981039346656037 :: 64 word) XOR word_of_int (byte b 0)"
  define y2 where "y2 = (y1 * 1099511628211) XOR word_of_int (byte b 8)"
  define y3 where "y3 = (y2 * 1099511628211) XOR word_of_int (byte b 16)"
  define y4 where "y4 = (y3 * 1099511628211) XOR word_of_int (byte b 24)"
  have "x4 * 1099511628211 = y4 * 1099511628211"
    using hash by (simp add: fnv_hash_def fnv_step_byte x1_def x2_def x3_def x4_def y1_def y2_def y3_def y4_def)
  then have x4: "x4 = y4" by (rule times_prime_inj)
  note bb = byte_bounds
  obtain k1 k1' where k1: "uint (x1 * 1099511628211) = uint x1 * p - k1 * 2 ^ 64" "uint (y1 * 1099511628211) = uint y1 * p - k1' * 2 ^ 64"
    using times_prime [of x1] times_prime [of y1] unfolding p_def by blast
  obtain k2 k2' where k2: "uint (x2 * 1099511628211) = uint x2 * p - k2 * 2 ^ 64" "uint (y2 * 1099511628211) = uint y2 * p - k2' * 2 ^ 64"
    using times_prime [of x2] times_prime [of y2] unfolding p_def by blast
  obtain k3 k3' where k3: "uint (x3 * 1099511628211) = uint x3 * p - k3 * 2 ^ 64" "uint (y3 * 1099511628211) = uint y3 * p - k3' * 2 ^ 64"
    using times_prime [of x3] times_prime [of y3] unfolding p_def by blast
  define d where "d = uint x1 - uint y1"
  have d: "\<bar>d\<bar> \<le> 255" unfolding d_def x1_def y1_def by (rule near) (simp add: xor_byte_div bb)
  obtain s where s: "uint x2 - uint y2 = uint (x1 * 1099511628211) - uint (y1 * 1099511628211) + s" "\<bar>s\<bar> \<le> 510"
    unfolding x2_def y2_def by (rule step_difference [OF bb bb])
  obtain t where t: "uint x3 - uint y3 = uint (x2 * 1099511628211) - uint (y2 * 1099511628211) + t" "\<bar>t\<bar> \<le> 510"
    unfolding x3_def y3_def by (rule step_difference [OF bb bb])
  define e where "e = uint (x3 * 1099511628211) - uint (y3 * 1099511628211)"
  have "uint (x3 * 1099511628211) div 256 = uint (y3 * 1099511628211) div 256"
    using arg_cong [OF x4, of "\<lambda>w. uint w div 256"] by (simp add: x4_def y4_def xor_byte_div bb)
  then have e: "\<bar>e\<bar> \<le> 255" unfolding e_def by (rule near)
  have "((d * p + s) * p + t) * p - e = ((k1 - k1') * p * p + (k2 - k2') * p + (k3 - k3')) * 2 ^ 64"
    using s(1) t(1) unfolding e_def d_def k1 k2 k3 by algebra
  from no_collision [OF d s(2) t(2) e this [unfolded p_def]] have z: "d = 0" "s = 0" "t = 0" by simp_all
  have e1: "x1 = y1" using z(1) by (simp add: d_def word_uint_eq_iff)
  have e2: "x2 = y2" using s(1) z(2) unfolding e1 by (simp add: word_uint_eq_iff del: One_nat_def)
  have e3: "x3 = y3" using t(1) z(3) unfolding e2 by (simp add: word_uint_eq_iff)
  have "byte a 0 = byte b 0" using e1 unfolding x1_def y1_def by (rule byte_inj [OF bb bb])
  moreover have "byte a 8 = byte b 8" using e2 unfolding x2_def y2_def e1 by (rule byte_inj [OF bb bb])
  moreover have "byte a 16 = byte b 16" using e3 unfolding x3_def y3_def e2 by (rule byte_inj [OF bb bb])
  moreover have "byte a 24 = byte b 24" using x4 unfolding x4_def y4_def e3 by (rule byte_inj [OF bb bb])
  ultimately show ?thesis using bytes_determine [OF ab] by simp
qed

lemma token_fingerprint_injective:
  assumes "0 \<le> a" "a < 2 ^ 32" "0 \<le> b" "b < 2 ^ 32" and "token_fingerprint a = token_fingerprint b"
  shows "a = b"
  using assms fnv_hash_inj hex16_inj unfolding token_fingerprint_def by blast

text \<open>C39. The fingerprint the lifecycle compares identifies the token: two tokens of 32 bits have the same fingerprint only if
  they are equal, so a phase whose input fingerprint matches a sampled token has that very token as its input.\<close>

theorem token_fingerprint_inj:
  assumes "0 \<le> a" "a < 2 ^ 32" "0 \<le> b" "b < 2 ^ 32"
  shows "token_fingerprint a = token_fingerprint b \<longleftrightarrow> a = b"
  using token_fingerprint_injective [OF assms] by blast

theorem token_fingerprint_inj_witness: "token_fingerprint 70000 \<noteq> token_fingerprint 4294967295"
  using token_fingerprint_inj [of 70000 4294967295] by simp

end
