(* ===== verification/Forced_Lifecycle.thy ===== *)
theory Forced_Lifecycle
  imports Fingerprint
begin

text \<open>
  The forced run of the paired collection: \<^verbatim>\<open>sim/cycle/execution_forced_lifecycle.py\<close> and the pairing of the two
  collections in \<^verbatim>\<open>reconstruct_pairing.py\<close>. The forced run feeds declared tokens instead of sampling.
\<close>

definition PAPER_TOKENS :: nat where "PAPER_TOKENS = 128"

definition SMOKE_TOKENS :: nat where "SMOKE_TOKENS = 1"

record forced =
  fl_tokens :: "int list"
  fl_phases :: "Record list"
  fl_active :: "Record option"
  fl_cursor :: nat
  fl_dispatches :: nat
  fl_ended :: bool
  fl_started :: bool

definition forced_start :: forced where
  "forced_start = \<lparr>fl_tokens = [], fl_phases = [], fl_active = None, fl_cursor = 0, fl_dispatches = 0, fl_ended = False,
     fl_started = False\<rparr>"

definition forced_run :: "Record \<Rightarrow> nat \<Rightarrow> nat \<Rightarrow> forced \<Rightarrow> Record \<Rightarrow> forced res" where
  "forced_run producer generated sequence st r =
     bnd (fields_of r (EVENT_COMMON @ [''source_role'', ''source_commit'', ''expected_samples'', ''execution_policy'',
        ''graph_policy'', ''operation_exit_policy'', ''target_mode_scope'', ''requires_binary_manifest_binding'',
        ''execution_kind'', ''trajectory_source'', ''expected_tokens'', ''performance_scope''])) (\<lambda>_.
     ensurer (if sequence = 0 \<and> rget r ''source_role'' = JStr ''full_cpu''
              then bnd (item producer ''git_commit'') (\<lambda>commit.
                   allr [Inr (py_eq (rget r ''source_commit'') commit \<and> rget r ''execution_kind'' = JStr ''FORCED_CPU_COST_ONLY'' \<and>
                              rget r ''trajectory_source'' = JStr ''POTAL''),
                         int_is r ''expected_tokens'' (int generated), int_is r ''expected_samples'' 0,
                         Inr (rget r ''performance_scope'' = JStr ''ORDINARY_CPU_COST_ONLY'' \<and>
                              rget r ''target_mode_scope'' = JStr ''CPU_ONLY'' \<and>
                              rget r ''execution_policy'' = JStr ''blocking-llama-decode-synchronize-v1'' \<and>
                              rget r ''graph_policy'' = JStr ''semantic-session-completes-before-next-graph-v1'' \<and>
                              rget r ''operation_exit_policy'' = JStr ''ALL_MEMBER_COMPLETIONS'' \<and>
                              rget r ''requires_binary_manifest_binding'' = JBool True)])
              else Inr False) ''invalid forced cost-only producer scope'' (
     Inr (st\<lparr>fl_started := True\<rparr>)))"

definition forced_phase :: "Manifest \<Rightarrow> forced \<Rightarrow> Record \<Rightarrow> forced res" where
  "forced_phase graph st r =
     bnd (fields_of r (EVENT_COMMON @ [''phase_kind'', ''decode_index'', ''graph_begin'', ''phase_ordinal''])) (\<lambda>_.
     ensurer (allr [Inr (fl_started st \<and> fl_active st = None), int_is r ''phase_ordinal'' (int (length (fl_phases st))),
                    int_is r ''graph_begin'' (int (fl_cursor st)),
                    Inr (length (fl_tokens st) = length (fl_phases st) \<and> length (fl_phases st) < length (mf_phases graph)),
                    phase_is r (mf_phases graph ! length (fl_phases st))]) ''forced semantic phase coverage mismatch'' (
     Inr (st\<lparr>fl_phases := fl_phases st @ [r]\<rparr>)))"

definition forced_begin :: "forced \<Rightarrow> Record \<Rightarrow> forced res" where
  "forced_begin st r =
     bnd (fields_of r (EVENT_COMMON @ [''dispatch_id'', ''graph_begin'', ''phase_kind'', ''decode_index''])) (\<lambda>_.
     ensurer (allr [Inr (fl_phases st \<noteq> [] \<and> fl_active st = None), int_is r ''dispatch_id'' (int (fl_dispatches st)),
                    int_is r ''graph_begin'' (int (fl_cursor st)), phase_is r (last (fl_phases st))])
       ''invalid forced dispatch begin'' (
     Inr (st\<lparr>fl_active := Some r\<rparr>)))"

definition forced_end :: "Manifest \<Rightarrow> forced \<Rightarrow> Record \<Rightarrow> forced res" where
  "forced_end graph st r =
     bnd (fields_of r (EVENT_COMMON @ [''dispatch_id'', ''graph_end'', ''status'', ''synchronized'', ''phase_kind'', ''decode_index''])) (\<lambda>_.
     ensurer (allr [Inr (fl_active st \<noteq> None), int_is r ''dispatch_id'' (int (fl_dispatches st)), int_is r ''status'' 0,
                    Inr (rget r ''synchronized'' = JBool True), phase_is r (the (fl_active st))]) ''failed forced dispatch'' (
     bnd (integer r ''graph_end'') (\<lambda>stop.
     ensurer (if int (fl_cursor st) < stop \<and> stop \<le> int (length (mf_graphs graph))
              then allr (map (\<lambda>row. phase_is row r) (drop (fl_cursor st) (take (nat stop) (mf_graphs graph))))
              else Inr False) ''forced graph window mismatch'' (
     Inr (st\<lparr>fl_cursor := nat stop, fl_dispatches := fl_dispatches st + 1, fl_active := None\<rparr>)))))"

definition forced_token :: "nat \<Rightarrow> forced \<Rightarrow> Record \<Rightarrow> forced res" where
  "forced_token generated st r =
     bnd (fields_of r (EVENT_COMMON @ [''token_index'', ''token_id'', ''graph_end'', ''dispatch_id'', ''token_ready'',
        ''actual_sampling'', ''phase_kind'', ''decode_index''])) (\<lambda>_.
     ensurer (allr [Inr (fl_active st = None \<and> fl_phases st \<noteq> []), int_is r ''token_index'' (int (length (fl_tokens st))),
                    Inr (length (fl_tokens st) < generated \<and> length (fl_phases st) = length (fl_tokens st) + 1),
                    int_is r ''graph_end'' (int (fl_cursor st)), int_is r ''dispatch_id'' (int (fl_dispatches st) - 1),
                    Inr (rget r ''token_ready'' = JBool True \<and> rget r ''actual_sampling'' = JBool False),
                    phase_is r (last (fl_phases st))]) ''forced token must not claim sampling'' (
     bnd (integer r ''token_id'') (\<lambda>token. Inr (st\<lparr>fl_tokens := fl_tokens st @ [token]\<rparr>))))"

definition forced_run_end :: "Manifest \<Rightarrow> nat \<Rightarrow> forced \<Rightarrow> Record \<Rightarrow> forced res" where
  "forced_run_end graph generated st r =
     bnd (fields_of r (EVENT_COMMON @ [''success'', ''samples'', ''phases'', ''dispatches'', ''graphs'', ''forced_tokens'',
        ''completed_tokens''])) (\<lambda>_.
     ensurer (allr [Inr (fl_started st \<and> fl_active st = None \<and> rget r ''success'' = JBool True), int_is r ''samples'' 0,
                    bnd (integer r ''forced_tokens'') (\<lambda>a. bnd (integer r ''completed_tokens'') (\<lambda>b.
                      Inr (a = b \<and> b = int (length (fl_tokens st)) \<and> length (fl_tokens st) = generated))),
                    bnd (integer r ''phases'') (\<lambda>n. Inr (n = int (length (fl_phases st)) \<and>
                      length (fl_phases st) = length (mf_phases graph) \<and> length (mf_phases graph) = generated)),
                    int_is r ''dispatches'' (int (fl_dispatches st)),
                    bnd (integer r ''graphs'') (\<lambda>n. Inr (n = int (fl_cursor st) \<and> fl_cursor st = length (mf_graphs graph)))])
       ''forced completion requires every declared token and zero sampling'' (
     Inr (st\<lparr>fl_ended := True\<rparr>)))"

definition forced_step :: "Manifest \<Rightarrow> Record \<Rightarrow> nat \<Rightarrow> forced \<Rightarrow> nat \<times> Record \<Rightarrow> forced res" where
  "forced_step graph producer generated st entry =
     (let sequence = fst entry; r = snd entry in
      ensurer (allr [Inr (\<not> fl_ended st \<and> py_eq (rget r ''schema'') (JStr ''potal-execution-lifecycle'')),
                     int_is r ''version'' 2, int_is r ''sequence'' (int sequence)]) ''invalid forced lifecycle framing'' (
      bnd (item r ''kind'') (\<lambda>kind.
      if kind = JStr ''RUN'' then forced_run producer generated sequence st r
      else if kind = JStr ''PHASE'' then forced_phase graph st r
      else if kind = JStr ''DISPATCH_BEGIN'' then forced_begin st r
      else if kind = JStr ''DISPATCH_END'' then forced_end graph st r
      else if kind = JStr ''FORCED_TOKEN'' then forced_token generated st r
      else if kind = JStr ''RUN_END'' then forced_run_end graph generated st r
      else Inl (ExecutionError (''execution: '' @ ''forced cost-only lifecycle cannot contain sampling or unknown events'')))))"

definition forced_scope :: "Manifest \<Rightarrow> Record \<Rightarrow> nat \<Rightarrow> bool res" where
  "forced_scope graph producer generated =
     bnd (item (mf_run graph) ''source_role'') (\<lambda>role.
     if role = JStr ''FULL_CPU'' \<and> rget producer ''execution_kind'' = JStr ''FORCED_CPU_COST_ONLY'' \<and>
        rget producer ''trajectory_source'' = JStr ''POTAL'' \<and> generated \<in> {PAPER_TOKENS, SMOKE_TOKENS}
     then bnd (item (mf_run graph) ''workload'') (\<lambda>wv. bnd (object_value wv) (\<lambda>w. int_is w ''generated_tokens'' (int generated)))
     else Inr False)"

definition forced_input :: "Manifest \<Rightarrow> nat \<times> int \<Rightarrow> unit res" where
  "forced_input graph entry =
     bnd (nth_item (mf_phases graph) (fst entry + 1)) (\<lambda>following.
     ensurer (bnd (item following ''token_fingerprint'') (\<lambda>fp.
        if py_eq fp (JStr (token_fingerprint (snd entry)))
        then bnd (item following ''input_tokens'') (\<lambda>n. Inr (py_eq n (JInt 1))) else Inr False))
       ''forced decode input fingerprint differs'' (Inr ()))"

definition validate_forced_lifecycle :: "Record list \<Rightarrow> Manifest \<Rightarrow> int list \<Rightarrow> int list res" where
  "validate_forced_lifecycle events graph expected =
     bnd (item (mf_run graph) ''producer'') (\<lambda>pv. bnd (object_value pv) (\<lambda>producer.
     let generated = length expected in
     ensurer (forced_scope graph producer generated)
       ''forced lifecycle requires paired FullCPU cost-only scope and 128 PoTal tokens (or the 1-token diagnostic smoke)'' (
     bnd (foldm (forced_step graph producer generated) forced_start (zip [0..<length events] events)) (\<lambda>st.
     ensure (fl_ended st \<and> fl_tokens st = expected) ''forced token trajectory differs from the declared PoTal IDs'' (
     bnd (mapr (forced_input graph) (zip [0..<length (fl_tokens st) - 1] (butlast (fl_tokens st)))) (\<lambda>_. Inr (fl_tokens st)))))))"

section \<open>Pairing\<close>

definition declared_generation :: "Record \<Rightarrow> int res" where
  "declared_generation provenance =
     (if \<not> has_key provenance ''requested_generated_tokens'' then Inr (int PAPER_TOKENS) else
      bnd (integer provenance ''requested_generated_tokens'') (\<lambda>generated.
      require (generated = int PAPER_TOKENS \<or> (generated = int SMOKE_TOKENS \<and> rget provenance ''diagnostic_smoke'' = JBool True))
        ''declared generation must be the 128-token contract or the declared 1-token diagnostic smoke'' (Inr generated)))"

text \<open>\<^verbatim>\<open>a.get(k) == b.get(k) == v\<close>.\<close>

definition both_are :: "Record \<Rightarrow> Record \<Rightarrow> string \<Rightarrow> jval \<Rightarrow> bool" where
  "both_are a b key v \<longleftrightarrow> py_eq (rget a key) (rget b key) \<and> py_eq (rget b key) v"

definition native_pair :: "Record \<Rightarrow> Record \<Rightarrow> bool" where
  "native_pair full potal \<longleftrightarrow> rget full ''source_role'' = JStr ''FULL_CPU'' \<and> rget potal ''source_role'' = JStr ''POTAL_COLLECTION''"

definition RECIPE :: jval where "RECIPE = JStr ''wikitext2-test-256x128-greedy-seed1234-v1''"

definition free_identity :: "Record \<Rightarrow> Record \<Rightarrow> string \<Rightarrow> unit res" where
  "free_identity full potal name =
     requirer (bnd (text_of full name) (\<lambda>digest. Inr (hex_string 64 digest \<and> py_eq (rget full name) (rget potal name))))
       (''free-generation identity mismatch: '' @ name @ ''; use forced PoTal-trajectory FullCPU cost-only recollection'') (Inr ())"

definition validate_free_pair :: "Record \<Rightarrow> Record \<Rightarrow> unit res" where
  "validate_free_pair full potal =
     bnd (item full ''command_arguments'') (\<lambda>a. bnd (item potal ''command_arguments'') (\<lambda>b.
     require (py_eq a b) ''normalized collection arguments differ'' (
     if both_are full potal ''version'' (JInt 1) then Inr () else
     require (both_are full potal ''version'' (JInt 2) \<and> native_pair full potal)
       ''free-generation pairing requires matching current native provenance'' (
     require (both_are full potal ''execution_kind'' (JStr ''FREE_GENERATION'') \<and>
              both_are full potal ''actual_sampler_calls'' (JInt 128) \<and> both_are full potal ''decode_calls'' (JInt 127))
       ''free-generation pairing requires complete actual sampling'' (
     require (both_are full potal ''recipe_id'' RECIPE) ''free-generation pairing recipe mismatch'' (
     requirer (bnd (integer full ''chunk_id'') (\<lambda>x. int_is potal ''chunk_id'' x)) ''free-generation chunk mismatch'' (
     bnd (mapr (free_identity full potal) [''model_sha256'', ''input_tokens_sha256'', ''output_tokens_sha256'']) (\<lambda>_. Inr ()))))))))"

definition forced_identity :: "Record \<Rightarrow> Record \<Rightarrow> string \<Rightarrow> unit res" where
  "forced_identity full potal name =
     require (has_key full name \<and> py_eq (rget full name) (rget potal name)) (''forced pairing identity mismatch: '' @ name) (Inr ())"

definition application_digest :: "Record \<Rightarrow> jval res" where
  "application_digest potal =
     bnd (object_value (rget potal ''artifacts'')) (\<lambda>artifacts.
     bnd (object_value (rget artifacts ''application_endpoints'')) (\<lambda>endpoints. Inr (rget endpoints ''sha256'')))"

text \<open>The forced command is the sampled one with the option that names the token file.\<close>

definition forced_command :: "ext \<Rightarrow> Record \<Rightarrow> Record \<Rightarrow> Record \<Rightarrow> unit res" where
  "forced_command E full potal pairing =
     bnd (item full ''command_arguments'') (\<lambda>v. bnd (array v) (\<lambda>arguments.
     let option = JStr ''--forced-token-ids'' in
     require (length (filter (\<lambda>a. a = option) arguments) = 1) ''forced command lacks unique bound input'' (
     let index = length (takeWhile (\<lambda>a. a \<noteq> option) arguments) in
     require (index + 1 < length arguments \<and>
              arguments ! (index + 1) = JStr (''sha256:'' @ py_str E (rget pairing ''forced_file_sha256'')))
       ''forced command input hash mismatch'' (
     bnd (item potal ''command_arguments'') (\<lambda>pv. bnd (array pv) (\<lambda>expected.
     require (py_eqs (take index arguments @ drop (index + 2) arguments) expected)
       ''non-trajectory collection arguments differ'' (Inr ())))))))"

definition validate_forced_pair :: "ext \<Rightarrow> Record \<Rightarrow> Record \<Rightarrow> string \<Rightarrow> unit res" where
  "validate_forced_pair E full potal provenance_sha256 =
     require (py_eq (rget full ''version'') (JInt 2) \<and> py_eq (rget potal ''version'') (JInt 2) \<and> native_pair full potal)
       ''forced pairing requires current native FullCPU/PoTal provenance'' (
     bnd (declared_generation potal) (\<lambda>generated.
     bnd (declared_generation full) (\<lambda>n.
     require (n = generated) ''forced pairing generation length differs'' (
     require (rget full ''trajectory_source'' = JStr ''POTAL'' \<and> py_eq (rget full ''actual_sampler_calls'') (JInt 0) \<and>
              py_eq (rget potal ''actual_sampler_calls'') (JInt generated) \<and>
              both_are full potal ''decode_calls'' (JInt (generated - 1)))
       ''forced pairing must not count CPU sampling as actual generation'' (
     require (both_are full potal ''recipe_id'' RECIPE) ''forced pairing recipe mismatch'' (
     bnd (object_value (rget full ''paired_trajectory'')) (\<lambda>pairing.
     require (rget pairing ''schema'' = JStr ''potal-paired-trajectory'' \<and> py_eq (rget pairing ''version'') (JInt 1) \<and>
              rget pairing ''execution_kind'' = JStr ''FORCED_CPU_COST_ONLY'' \<and> rget pairing ''trajectory_source'' = JStr ''POTAL'')
       ''missing explicit forced trajectory contract'' (
     requirer (if rget pairing ''source_potal_provenance_sha256'' = JStr provenance_sha256
               then bnd (application_digest potal) (\<lambda>d. Inr (py_eq (rget pairing ''source_potal_application_sha256'') d))
               else Inr False) ''forced input is not bound to this PoTal collection'' (
     bnd (mapr (forced_identity full potal) [''chunk_id'', ''model_sha256'', ''input_tokens_sha256'', ''output_tokens_sha256'']) (\<lambda>_.
     require (py_eq (rget pairing ''token_vector_sha256'') (rget full ''output_tokens_sha256'') \<and>
              py_eq (rget pairing ''input_tokens_sha256'') (rget full ''input_tokens_sha256'')) ''forced token digest mismatch'' (
     forced_command E full potal pairing)))))))))))"

definition validate_source_pair :: "ext \<Rightarrow> Record \<Rightarrow> Record \<Rightarrow> string \<Rightarrow> unit res" where
  "validate_source_pair E full potal provenance_sha256 =
     (if rget full ''execution_kind'' \<noteq> JStr ''FORCED_CPU_COST_ONLY'' then validate_free_pair full potal
      else validate_forced_pair E full potal provenance_sha256)"

text \<open>The comparison of the fingerprints stops at the first difference.\<close>

fun same_fingerprints :: "(Record \<times> Record) list \<Rightarrow> bool res" where
  "same_fingerprints [] = Inr True"
| "same_fingerprints ((left, right) # pairs) =
     bnd (item left ''token_fingerprint'') (\<lambda>a. bnd (item right ''token_fingerprint'') (\<lambda>b.
     if py_eq a b then same_fingerprints pairs else Inr False))"

definition validate_forced_phases :: "Manifest \<Rightarrow> Manifest \<Rightarrow> unit res" where
  "validate_forced_phases full potal =
     require (length (mf_phases full) = length (mf_phases potal)) ''forced phase coverage mismatch'' (
     requirer (same_fingerprints (zip (mf_phases full) (mf_phases potal)))
       ''forced FullCPU/PoTal actual decode input trajectory differs'' (Inr ()))"

end
