(* ===== verification/Cpu_Timing.thy ===== *)
theory Cpu_Timing
  imports Forced_Lifecycle
begin

text \<open>
  Measured CPU intervals: the timing contracts of \<^verbatim>\<open>sim/cycle/reconstruct_timing.py\<close> and the index of the
  reconstruction, class \<^verbatim>\<open>CpuIndex\<close> of \<^verbatim>\<open>reconstruct_cpu.py\<close>. Its SQLite tables are lists of rows; a unique
  index is a test before the insertion.
\<close>

section \<open>Timing contracts\<close>

definition NAMED_TIMING_FIELDS :: "string list" where
  "NAMED_TIMING_FIELDS = [''cpu_work_cycles'', ''cpu_work_cycles_source'', ''cpu_work_cycles_unit'', ''cpu_work_cycles_valid'',
     ''cpu_work_cycles_reason'', ''thread_cpu_ns'', ''thread_cpu_valid'', ''thread_cpu_reason'', ''host_elapsed_ns'',
     ''host_elapsed_valid'', ''host_elapsed_reason'', ''host_start_ns'', ''host_end_ns'', ''host_execution_id'', ''thread_id'',
     ''interval_class'']"

definition HOST_CORE_FIELDS :: "string list" where
  "HOST_CORE_FIELDS = [''host_cpu_core_start'', ''host_cpu_core_end'', ''cpu_migrated'', ''cpu_work_cycles_scope'',
     ''cpu_work_cycles_sample_reason'']"

definition CLOCKS :: "(string \<times> string) list" where
  "CLOCKS = [(''host_tick'', ''tick''), (''riscv_cycle'', ''cycle''), (''linux_perf_cpu_cycles'', ''cycle''),
     (''thread_cpu_clock'', ''nanosecond''), (''steady_clock'', ''nanosecond'')]"

text \<open>\<^verbatim>\<open>isinstance(v, str) and bool(v)\<close>.\<close>

definition reason_given :: "jval \<Rightarrow> bool" where
  "reason_given v \<longleftrightarrow> is_str v \<and> truthy v"

definition valid_measurement :: "Record \<Rightarrow> unit res" where
  "valid_measurement r =
     require (rget r ''valid'' = JBool True \<and> rget r ''cpu_service'' = JBool True) ''required CPU service measurement invalid/excluded'' (
     bnd (integer r ''start'') (\<lambda>start. bnd (integer r ''end'') (\<lambda>stop. bnd (integer r ''delta'') (\<lambda>delta.
     require (stop \<ge> start \<and> delta = stop - start) ''CPU interval endpoint/delta mismatch'' (
     bnd (text_of r ''source'') (\<lambda>source. bnd (text_of r ''unit'') (\<lambda>clock_unit.
     require ((source, clock_unit) \<in> set CLOCKS) ''unknown CPU clock source/unit'' (
     require (\<not> has_key r ''operation_success'' \<or> rget r ''operation_success'' = JBool True) ''host operation failed'' (Inr ())))))))))"

definition DURATION_KEYS :: "string list" where
  "DURATION_KEYS = [''source'', ''unit'', ''start'', ''end'', ''delta'', ''valid'', ''worker_id'', ''worker_count'', ''reason'',
     ''sample_reason'', ''source_line'']"

definition select_keys :: "string list \<Rightarrow> Record \<Rightarrow> Record" where
  "select_keys ks r = map (\<lambda>k. (k, rget r k)) (filter (has_key r) ks)"

definition duration_sample :: "Record \<Rightarrow> Record res" where
  "duration_sample r =
     bnd (item r ''op'') (\<lambda>op. Inr (select_keys (DURATION_KEYS @ NAMED_TIMING_FIELDS @ HOST_CORE_FIELDS) r @ [(''stage'', op)]))"

definition core_ok :: "jval \<Rightarrow> bool" where
  "core_ok core \<longleftrightarrow> core = JNull \<or> is_index core"

definition validate_host_cores :: "Record \<Rightarrow> unit res" where
  "validate_host_cores r =
     (if list_all (\<lambda>k. \<not> has_key r k) HOST_CORE_FIELDS then Inr () else
      require (list_all (has_key r) HOST_CORE_FIELDS) ''incomplete host core timing fields'' (
      let first = rget r ''host_cpu_core_start''; final = rget r ''host_cpu_core_end''; migrated = rget r ''cpu_migrated'' in
      require (core_ok first \<and> core_ok final) ''malformed host CPU core id'' (
      require (if first = JNull \<or> final = JNull \<or> rget r ''thread_id'' = JNull then migrated = JNull
               else migrated = JBool (\<not> py_eq first final)) ''host CPU migration flag differs from its cores'' (
      require (py_eq (rget r ''cpu_work_cycles_scope'') (if rget r ''cpu_work_cycles_valid'' = JBool True then JStr ''user+kernel'' else JNull))
        ''CPU cycle scope must be user+kernel for valid cycles'' (Inr ())))))"

definition cycles_metric :: "Record \<Rightarrow> bool res" where
  "cycles_metric r =
     (if rget r ''cpu_work_cycles_valid'' = JBool True
      then bnd (integer r ''cpu_work_cycles'') (\<lambda>_. Inr (reason_given (rget r ''cpu_work_cycles_source'') \<and> rget r ''cpu_work_cycles_reason'' = JNull))
      else Inr (rget r ''cpu_work_cycles'' = JNull \<and> rget r ''cpu_work_cycles_source'' = JNull \<and> reason_given (rget r ''cpu_work_cycles_reason'')))"

definition thread_metric :: "Record \<Rightarrow> bool res" where
  "thread_metric r =
     (if rget r ''thread_cpu_valid'' = JBool True
      then bnd (integer r ''thread_cpu_ns'') (\<lambda>_. Inr (rget r ''thread_cpu_reason'' = JNull))
      else Inr (rget r ''thread_cpu_ns'' = JNull \<and> reason_given (rget r ''thread_cpu_reason'')))"

definition host_metric :: "Record \<Rightarrow> bool res" where
  "host_metric r =
     (if rget r ''host_elapsed_valid'' = JBool True
      then bnd (integer r ''host_start_ns'') (\<lambda>start. bnd (integer r ''host_end_ns'') (\<lambda>stop.
           allr [Inr (stop \<ge> start), int_is r ''host_elapsed_ns'' (stop - start), Inr (rget r ''host_elapsed_reason'' = JNull),
                 bnd (integer r ''thread_id'') (\<lambda>_. Inr True)]))
      else Inr (rget r ''host_elapsed_ns'' = JNull \<and> rget r ''host_start_ns'' = JNull \<and> rget r ''host_end_ns'' = JNull \<and>
                rget r ''thread_id'' = JNull \<and> reason_given (rget r ''host_elapsed_reason'')))"

definition validate_named_timing :: "Record \<Rightarrow> int option \<Rightarrow> unit res" where
  "validate_named_timing r host =
     require (list_all (has_key r) NAMED_TIMING_FIELDS) ''incomplete named timing contract'' (
     require (is_bool (rget r ''cpu_work_cycles_valid'') \<and> rget r ''cpu_work_cycles_unit'' = JStr ''cycle'') ''invalid CPU work-cycle metric'' (
     requirer (cycles_metric r) ''invalid CPU work-cycle metric'' (
     require (is_bool (rget r ''thread_cpu_valid'')) ''invalid thread CPU metric'' (
     requirer (thread_metric r) ''invalid thread CPU metric'' (
     requirer (if is_bool (rget r ''host_elapsed_valid'') then bnd (text_of r ''host_execution_id'') (\<lambda>_. Inr True) else Inr False)
       ''invalid host elapsed metric'' (
     requirer (host_metric r) ''invalid host elapsed metric'' (
     require (rget r ''interval_class'' = JStr (if host \<noteq> None then ''CANONICAL_ADDITIVE'' else ''PER_WORKER_CPU_WORK''))
       ''invalid timing interval class'' (
     require ((host \<noteq> None \<and> rget r ''host_elapsed_valid'' = JBool True) \<or>
              (host = None \<and> (rget r ''cpu_work_cycles_valid'' = JBool True \<or> rget r ''thread_cpu_valid'' = JBool True)))
       ''authoritative timing metric unavailable'' (
     validate_host_cores r)))))))))"

section \<open>The index\<close>

record cpu_sample =
  cs_role :: string
  cs_semantic :: string
  cs_stage :: string
  cs_worker :: "int option"
  cs_workers :: "int option"
  cs_host :: "int option"
  cs_body :: Record

text \<open>A canonical interval: execution, thread, start and end.\<close>

type_synonym host_interval = "string \<times> int \<times> int \<times> int"

record CpuIndex =
  ci_target :: Manifest
  ci_observations :: "(string, int) dict"
  ci_samples :: "cpu_sample list"
  ci_intervals :: "host_interval list"

definition CpuIndex_init :: "Manifest \<Rightarrow> CpuIndex" where
  "CpuIndex_init target = \<lparr>ci_target = target, ci_observations = [], ci_samples = [], ci_intervals = []\<rparr>"

definition observe_cpu_count :: "string \<Rightarrow> CpuIndex \<Rightarrow> CpuIndex" where
  "observe_cpu_count name ci = ci\<lparr>ci_observations :=
     AList.update name ((case map_of (ci_observations ci) name of None \<Rightarrow> 0 | Some n \<Rightarrow> n) + 1) (ci_observations ci)\<rparr>"

text \<open>The column type is a signed 64-bit integer.\<close>

definition sqlite_int :: "int \<Rightarrow> bool" where
  "sqlite_int n \<longleftrightarrow> - (2 ^ 63) \<le> n \<and> n < 2 ^ 63"

definition TOO_LARGE :: py_error where
  "TOO_LARGE = OverflowError ''Python int too large to convert to SQLite INTEGER''"

definition interval_row :: "host_interval \<Rightarrow> bool" where
  "interval_row row \<longleftrightarrow> (case row of (_, thread, start, stop) \<Rightarrow> sqlite_int thread \<and> sqlite_int start \<and> sqlite_int stop)"

definition insert_intervals :: "host_interval list \<Rightarrow> CpuIndex \<Rightarrow> CpuIndex res" where
  "insert_intervals rows ci = chk (list_all interval_row rows) TOO_LARGE (Inr (ci\<lparr>ci_intervals := ci_intervals ci @ rows\<rparr>))"

text \<open>The two unique indexes: \<^verbatim>\<open>host_identity\<close> and \<^verbatim>\<open>worker_identity\<close>.\<close>

definition sample_conflict :: "cpu_sample \<Rightarrow> cpu_sample \<Rightarrow> bool" where
  "sample_conflict a b \<longleftrightarrow> cs_role a = cs_role b \<and>
     (if cs_host a \<noteq> None then cs_host a = cs_host b
      else cs_host b = None \<and> cs_semantic a = cs_semantic b \<and> cs_stage a = cs_stage b \<and> cs_worker a \<noteq> None \<and> cs_worker a = cs_worker b)"

definition opt_sqlite :: "int option \<Rightarrow> bool" where
  "opt_sqlite v \<longleftrightarrow> (case v of None \<Rightarrow> True | Some n \<Rightarrow> sqlite_int n)"

definition insert_sample :: "cpu_sample \<Rightarrow> CpuIndex \<Rightarrow> CpuIndex res" where
  "insert_sample row ci =
     chk (opt_sqlite (cs_worker row) \<and> opt_sqlite (cs_workers row) \<and> opt_sqlite (cs_host row)) TOO_LARGE (
     chk (\<not> list_ex (sample_conflict row) (ci_samples ci)) (ValueError ''duplicate/ambiguous CPU interval identity'') (
     Inr (ci\<lparr>ci_samples := ci_samples ci @ [row]\<rparr>)))"

section \<open>Loading a log\<close>

definition lower_char :: "char \<Rightarrow> char" where
  "lower_char c = (let n = (of_char c :: nat) in
     if (65 \<le> n \<and> n \<le> 90) \<or> (192 \<le> n \<and> n \<le> 222 \<and> n \<noteq> 215) then char_of (n + 32) else c)"

definition CPU_STAGE_ALIASES :: "(string, string) dict" where
  "CPU_STAGE_ALIASES = [(''SOFT_MAX'', ''cpu.softmax''), (''SOFT_MAX_BACK'', ''cpu.softmax_back'')]"

definition canonical_stage :: "string \<Rightarrow> string" where
  "canonical_stage logical = (case map_of CPU_STAGE_ALIASES logical of None \<Rightarrow> ''cpu.'' @ map lower_char logical | Some s \<Rightarrow> s)"

definition STORED_KEYS :: "string list" where
  "STORED_KEYS = [''source'', ''unit'', ''start'', ''end'', ''delta'', ''valid'', ''worker_id'', ''worker_count'', ''reason'', ''sample_reason'',
     ''op'', ''cpu_service'', ''cpu_service_exclusion'', ''duration_role'', ''operation_success''] @ NAMED_TIMING_FIELDS @ HOST_CORE_FIELDS"

definition compact_ok :: "Record \<Rightarrow> bool" where
  "compact_ok r \<longleftrightarrow> py_in (rget r ''kind'') [JStr ''cpu'', JStr ''segment''] \<and> rget r ''duration_role'' = JStr ''OBSERVATION_ONLY'' \<and>
     rget r ''exclusion_reason'' = JStr ''outside_collection'' \<and> rget r ''host_stage_id'' = JNull \<and> rget r ''semantic_phase_kind'' = JNull"

definition opt_get :: "Record \<Rightarrow> string \<Rightarrow> int option res" where
  "opt_get r key = (if rget r key = JNull then Inr None else bnd (integer r key) (\<lambda>n. Inr (Some n)))"

text \<open>\<^verbatim>\<open>raise ValueError(f'{path.name}:{source_line}:{op}: {error}')\<close>.\<close>

fun relocate :: "string \<Rightarrow> nat \<Rightarrow> string \<Rightarrow> 'a res \<Rightarrow> 'a res" where
  "relocate name line op (Inl (NpuTraceError m)) = Inl (ValueError (name @ '':'' @ str_nat line @ '':'' @ op @ '': '' @ m))"
| "relocate name line op (Inl (ValueError m)) = Inl (ValueError (name @ '':'' @ str_nat line @ '':'' @ op @ '': '' @ m))"
| "relocate name line op r = r"

text \<open>The state of a load: the index and the intervals not yet written.\<close>

type_synonym cpu_load = "CpuIndex \<times> host_interval list"

definition flush_batch :: "cpu_load \<Rightarrow> cpu_load res" where
  "flush_batch st = (if length (snd st) = 8192 then bnd (insert_intervals (snd st) (fst st)) (\<lambda>ci. Inr (ci, [])) else Inr st)"

definition potal_interval :: "Record \<Rightarrow> cpu_load \<Rightarrow> cpu_load res" where
  "potal_interval r st =
     bnd (text_of r ''host_execution_id'') (\<lambda>e. bnd (integer r ''thread_id'') (\<lambda>t.
     bnd (integer r ''host_start_ns'') (\<lambda>a. bnd (integer r ''host_end_ns'') (\<lambda>b. flush_batch (fst st, snd st @ [(e, t, a, b)])))))"

definition worker_vector :: "Manifest \<Rightarrow> SemanticKey \<Rightarrow> int option \<Rightarrow> int option \<Rightarrow> unit res" where
  "worker_vector manifest key worker workers =
     (case (worker, workers) of
        (Some w, Some n) \<Rightarrow>
          require (n > 0 \<and> w < n) ''invalid CPU worker vector identity'' (
          bnd (item (mf_run manifest) ''workload'') (\<lambda>wv. bnd (object_value wv) (\<lambda>workload.
          bnd (item workload (if fst key = ''prefill'' then ''cpu_batch'' else ''cpu'')) (\<lambda>cv. bnd (object_value cv) (\<lambda>cpu.
          bnd (integer cpu ''threads'') (\<lambda>threads.
          require (n \<le> threads) ''CPU workers exceed declared thread configuration'' (Inr ())))))))
      | _ \<Rightarrow> Inl (NpuTraceError (''npu-trace: '' @ ''invalid CPU worker vector identity'')))"

definition store_sample :: "ext \<Rightarrow> string \<Rightarrow> Manifest \<Rightarrow> nat \<Rightarrow> SemanticKey \<Rightarrow> string \<Rightarrow> int option \<Rightarrow> Record \<Rightarrow> cpu_load \<Rightarrow> cpu_load res" where
  "store_sample E role manifest line key op host r st =
     bnd (opt_get r ''worker_id'') (\<lambda>worker. bnd (opt_get r ''worker_count'') (\<lambda>workers.
     bnd (if host = None then worker_vector manifest key worker workers else Inr ()) (\<lambda>_.
     bnd (insert_sample \<lparr>cs_role = role, cs_semantic = encoded_key E key, cs_stage = op, cs_worker = worker, cs_workers = workers,
            cs_host = host, cs_body = sort_key fst (select_keys STORED_KEYS r @ [(''source_line'', JInt (int line))])\<rparr> (fst st)) (\<lambda>ci.
     Inr (ci, snd st)))))"

definition OBSERVED_CLASSES :: "string list" where
  "OBSERVED_CLASSES = [''PER_WORKER_CPU_WORK'', ''FUNCTIONAL_EMULATION'', ''WAIT'', ''NON_ADDITIVE'', ''STRUCTURAL'', ''DIAGNOSTIC'']"

definition counted :: "string \<Rightarrow> cpu_load \<Rightarrow> cpu_load" where
  "counted name st = (observe_cpu_count name (fst st), snd st)"

text \<open>An interval with duration authority.\<close>

definition owned_interval :: "ext \<Rightarrow> string \<Rightarrow> string \<Rightarrow> Manifest \<Rightarrow> nat \<Rightarrow> SemanticKey \<Rightarrow> string \<Rightarrow> int option \<Rightarrow> Record \<Rightarrow> cpu_load \<Rightarrow> cpu_load res" where
  "owned_interval E name role manifest line key duration host r st =
     bnd (text_of r ''op'') (\<lambda>op.
     bnd (item (the (map_of (mf_nodes manifest) key)) ''payload'') (\<lambda>pv. bnd (object_value pv) (\<lambda>payload.
     bnd (text_of payload ''op'') (\<lambda>logical.
     if host = None \<and> op \<noteq> canonical_stage logical
     then requirer (if role = ''FULL_CPU''
                    then (case map_of (mf_executions (ci_target (fst st))) key of
                            None \<Rightarrow> Inl (KeyError ''execution'')
                          | Some x \<Rightarrow> bnd (item x ''execution_class'') (\<lambda>c. Inr (py_in c [JStr ''TARGET_NPU'', JStr ''EXCLUDED''])))
                    else Inr False) ''unclassified CPU service stage'' (Inr (counted (role @ '':noncanonical'') st))
     else
       require (host = None \<or> role = ''POTAL_COLLECTION'') ''FullCPU cannot own PoTal host stages'' (
       require (duration = ''POTAL_HOST'' \<longrightarrow> host \<noteq> None) ''PoTal host cost lacks declared stage identity'' (
       bnd (relocate name line op (validate_named_timing r host)) (\<lambda>_.
       bnd (if duration = ''POTAL_HOST'' then potal_interval r st else Inr st) (\<lambda>st'.
       store_sample E role manifest line key op host r st'))))))))"

definition load_interval :: "ext \<Rightarrow> string \<Rightarrow> string \<Rightarrow> Manifest \<Rightarrow> nat \<Rightarrow> Record \<Rightarrow> cpu_load \<Rightarrow> cpu_load res" where
  "load_interval E name role manifest line r st =
     bnd (semantic_key r) (\<lambda>key.
     requirer (if has_key (mf_nodes manifest) key
               then bnd (item (mf_run manifest) ''run_config_id'') (\<lambda>c. Inr (py_eq (rget r ''run_config_id'') c \<and> rget r ''source_role'' = JStr role))
               else Inr False) ''unknown CPU semantic identity/run/source'' (
     bnd (text_of r ''duration_role'') (\<lambda>duration.
     require (rget r ''duration_source'' = JStr role) ''CPU duration source mismatch'' (
     require (duration \<in> {if role = ''FULL_CPU'' then ''ORDINARY_CPU_REFERENCE'' else ''POTAL_HOST'', ''OBSERVATION_ONLY''})
       ''CPU duration ownership mismatch'' (
     bnd (opt_get r ''host_stage_id'') (\<lambda>host.
     if duration = ''OBSERVATION_ONLY''
     then bnd (text_of r ''interval_class'') (\<lambda>c.
          require (c \<in> set OBSERVED_CLASSES) ''invalid non-authoritative interval class'' (Inr (counted (role @ '':'' @ c) st)))
     else owned_interval E name role manifest line key duration host r st))))))"

definition load_record :: "ext \<Rightarrow> string \<Rightarrow> string \<Rightarrow> Manifest \<Rightarrow> cpu_load \<Rightarrow> nat \<times> Record \<Rightarrow> cpu_load res" where
  "load_record E name role manifest st entry =
     (case entry of (line, r) \<Rightarrow>
      if rget r ''schema'' = JNull
      then require (compact_ok r) ''unclassified compact CPU telemetry''
             (Inr (counted (role @ '':compact_'' @ py_str E (rget r ''kind'')) st))
      else
        require (rget r ''schema'' = JStr ''gemmini.cycle'' \<and> rget r ''version'' = JInt 2) ''unsupported CPU CycleLog schema/version'' (
        if rget r ''record_type'' \<noteq> JStr ''CYCLE_INTERVAL''
        then require (\<not> py_in (rget r ''duration_role'') [JStr ''ORDINARY_CPU_REFERENCE'', JStr ''POTAL_HOST''] \<and> rget r ''host_stage_id'' = JNull)
               ''non-interval telemetry cannot claim reconstruction duration authority'' (Inr (counted (role @ '':telemetry'') st))
        else if rget r ''exclusion_reason'' = JStr ''outside_collection''
        then require (rget r ''duration_role'' = JStr ''OBSERVATION_ONLY'') ''outside-collection record claimed duration authority''
               (Inr (counted (role @ '':outside_collection'') st))
        else load_interval E name role manifest line r st))"

definition CpuIndex_load :: "ext \<Rightarrow> string \<Rightarrow> Record list \<Rightarrow> Manifest \<Rightarrow> CpuIndex \<Rightarrow> CpuIndex res" where
  "CpuIndex_load E name records manifest ci =
     bnd (text_of (mf_run manifest) ''source_role'') (\<lambda>role.
     bnd (foldm (load_record E name role manifest) (ci, []) (zip [1..<length records + 1] records)) (\<lambda>st.
     if snd st = [] then Inr (fst st) else insert_intervals (snd st) (fst st)))"

section \<open>Queries\<close>

text \<open>The window query: the intervals of positive length of one thread in the order of start and end, each against the
  largest end before it.\<close>

fun prior_overlap :: "int option \<Rightarrow> (int \<times> int) list \<Rightarrow> bool" where
  "prior_overlap prior [] = False"
| "prior_overlap prior ((start, stop) # rows) =
     ((case prior of None \<Rightarrow> False | Some p \<Rightarrow> start < p) \<or>
      prior_overlap (Some (case prior of None \<Rightarrow> stop | Some p \<Rightarrow> max p stop)) rows)"

definition thread_rows :: "host_interval list \<Rightarrow> string \<times> int \<Rightarrow> (int \<times> int) list" where
  "thread_rows intervals thread =
     sort (map (\<lambda>(_, _, a, b). (a, b)) (filter (\<lambda>(e, t, a, b). (e, t) = thread \<and> b > a) intervals))"

definition validate_host_additivity :: "CpuIndex \<Rightarrow> CpuIndex res" where
  "validate_host_additivity ci =
     require (\<not> list_ex (\<lambda>thread. prior_overlap None (thread_rows (ci_intervals ci) thread)) (map (\<lambda>(e, t, a, b). (e, t)) (ci_intervals ci)))
       ''positive canonical host interval overlap'' (Inr (ci\<lparr>ci_intervals := []\<rparr>))"

text \<open>\<^verbatim>\<open>ORDER BY stage,worker\<close>: sorted by worker, then stably by stage.\<close>

definition ordinary_rows :: "CpuIndex \<Rightarrow> string \<Rightarrow> cpu_sample list" where
  "ordinary_rows ci semantic =
     sort_key cs_stage (sort_key (\<lambda>s. the (cs_worker s))
       (filter (\<lambda>s. cs_role s = ''FULL_CPU'' \<and> cs_semantic s = semantic \<and> cs_host s = None) (ci_samples ci)))"

definition group_add :: "(string, Record list) dict \<Rightarrow> string \<Rightarrow> Record \<Rightarrow> (string, Record list) dict" where
  "group_add groups key r = AList.update key ((case map_of groups key of None \<Rightarrow> [] | Some rs \<Rightarrow> rs) @ [r]) groups"

definition ordinary_row :: "(string, Record list) dict \<Rightarrow> Record \<Rightarrow> (string, Record list) dict res" where
  "ordinary_row groups r =
     bnd (item r ''duration_role'') (\<lambda>role.
     require (role = JStr ''ORDINARY_CPU_REFERENCE'') ''ordinary cost is not FullCPU reference'' (
     bnd (valid_measurement r) (\<lambda>_. bnd (text_of r ''op'') (\<lambda>op. Inr (group_add groups op r)))))"

definition worker_group :: "string \<times> Record list \<Rightarrow> unit res" where
  "worker_group g =
     bnd (integer (hd (snd g)) ''worker_count'') (\<lambda>workers.
     requirer (bnd (allr (map (\<lambda>r. int_is r ''worker_count'' workers) (snd g))) (\<lambda>same.
        if same then bnd (mapr (\<lambda>r. integer r ''worker_id'') (snd g)) (\<lambda>ids. Inr (ids = map int [0..<nat workers])) else Inr False))
       ''incomplete/ambiguous worker vector'' (Inr ()))"

definition CpuIndex_ordinary :: "ext \<Rightarrow> CpuIndex \<Rightarrow> SemanticKey \<Rightarrow> Record list res" where
  "CpuIndex_ordinary E ci key =
     (let records = map cs_body (ordinary_rows ci (encoded_key E key)) in
      require (records \<noteq> []) ''missing FullCPU ordinary reference cost'' (
      bnd (foldm ordinary_row [] records) (\<lambda>groups.
      bnd (mapr worker_group groups) (\<lambda>_. Inr records))))"

definition host_row :: "CpuIndex \<Rightarrow> int \<Rightarrow> cpu_sample option" where
  "host_row ci identity = find (\<lambda>s. cs_role s = ''POTAL_COLLECTION'' \<and> cs_host s = Some identity) (ci_samples ci)"

definition drop_host :: "int \<Rightarrow> CpuIndex \<Rightarrow> CpuIndex" where
  "drop_host identity ci = ci\<lparr>ci_samples := filter (\<lambda>s. \<not> (cs_role s = ''POTAL_COLLECTION'' \<and> cs_host s = Some identity)) (ci_samples ci)\<rparr>"

definition host_identity :: "ext \<Rightarrow> Record \<Rightarrow> cpu_sample \<Rightarrow> bool res" where
  "host_identity E r row = bnd (semantic_key r) (\<lambda>key. Inr (cs_semantic row = encoded_key E key))"

definition host_checks :: "ext \<Rightarrow> Record \<Rightarrow> cpu_sample option \<Rightarrow> unit res" where
  "host_checks E r row =
     (case row of None \<Rightarrow> Inr () | Some s \<Rightarrow>
        requirer (host_identity E r s) ''host measurement semantic identity mismatch'' (
        requirer (bnd (item (cs_body s) ''op'') (\<lambda>a. bnd (item r ''stage_name'') (\<lambda>b. Inr (py_eq a b)))) ''host stage name mismatch'' (Inr ())))"

definition host_measurement :: "ext \<Rightarrow> Record \<Rightarrow> int \<Rightarrow> cpu_sample option \<Rightarrow> Record res" where
  "host_measurement E r identity row =
     (case row of
        None \<Rightarrow> Inl (NpuTraceError (''npu-trace: missing measured PoTal host stage id='' @ str_int identity @ '' stage='' @ py_str E (rget r ''stage_name'')))
      | Some s \<Rightarrow>
        requirer (bnd (item (cs_body s) ''duration_role'') (\<lambda>a.
                  if a = JStr ''POTAL_HOST'' then bnd (item (cs_body s) ''op'') (\<lambda>x. bnd (item r ''stage_name'') (\<lambda>y. Inr (py_eq x y))) else Inr False))
          ''host stage measurement ownership/name mismatch'' (
        bnd (valid_measurement (cs_body s)) (\<lambda>_. Inr (cs_body s))))"

definition emulation_unmeasured :: "cpu_sample option \<Rightarrow> unit res" where
  "emulation_unmeasured row =
     (case row of None \<Rightarrow> Inr () | Some s \<Rightarrow>
        requirer (bnd (item (cs_body s) ''duration_role'') (\<lambda>a. Inr (a = JStr ''OBSERVATION_ONLY'' \<and> rget (cs_body s) ''cpu_service'' = JBool False)))
          ''functional emulation claimed target CPU cost'' (Inr ()))"

definition CpuIndex_host :: "ext \<Rightarrow> Record \<Rightarrow> CpuIndex \<Rightarrow> (Record option \<times> CpuIndex) res" where
  "CpuIndex_host E r ci =
     bnd (integer r ''host_stage_id'') (\<lambda>identity.
     chk (sqlite_int identity) TOO_LARGE (
     let row = host_row ci identity in
     bnd (host_checks E r row) (\<lambda>_.
     bnd (item r ''execution_class'') (\<lambda>c.
     if c = JStr ''FUNCTIONAL_EMULATION''
     then bnd (emulation_unmeasured row) (\<lambda>_. Inr (None, drop_host identity ci))
     else bnd (host_measurement E r identity row) (\<lambda>m. Inr (Some m, drop_host identity ci))))))"

definition CpuIndex_finish :: "CpuIndex \<Rightarrow> CpuIndex res" where
  "CpuIndex_finish ci =
     require (list_all (\<lambda>s. cs_host s = None) (ci_samples ci)) ''unexplained extra host measurement'' (validate_host_additivity ci)"

end
