(* ===== verification/Cpu_Theorems.thy ===== *)
theory Cpu_Theorems
  imports Cpu_Timing
begin

text \<open>The window query of the index decides disjointness, and the index never holds two measurements of one identity.\<close>

section \<open>Symmetric relations and sorting\<close>

lemma sorted_wrt_insort:
  assumes sym: "\<And>x y. R x y \<longleftrightarrow> R y x"
  shows "sorted_wrt R (insort_key f x xs) \<longleftrightarrow> (\<forall>y \<in> set xs. R x y) \<and> sorted_wrt R xs"
  by (induction xs) (use sym in \<open>auto simp: set_insort_key\<close>)

lemma sorted_wrt_sort:
  assumes sym: "\<And>x y. R x y \<longleftrightarrow> R y x"
  shows "sorted_wrt R (sort_key f xs) \<longleftrightarrow> sorted_wrt R xs"
  by (induction xs) (simp_all add: sorted_wrt_insort [OF sym])

lemma sorted_wrt_filter_iff: "sorted_wrt R (filter P xs) \<longleftrightarrow> sorted_wrt (\<lambda>x y. P x \<and> P y \<longrightarrow> R x y) xs"
  by (induction xs) auto

lemma sorted_wrt_iff:
  "(\<And>x y. x \<in> set xs \<Longrightarrow> y \<in> set xs \<Longrightarrow> R x y \<longleftrightarrow> S x y) \<Longrightarrow> sorted_wrt R xs \<longleftrightarrow> sorted_wrt S xs"
  by (induction xs) auto

section \<open>Overlap\<close>

definition apart :: "int \<times> int \<Rightarrow> int \<times> int \<Rightarrow> bool" where
  "apart x y \<longleftrightarrow> snd x \<le> fst y \<or> snd y \<le> fst x"

lemma apart_sym: "apart x y \<longleftrightarrow> apart y x"
  by (auto simp: apart_def)

text \<open>On sorted intervals of positive length the running maximum of the ends finds every overlap.\<close>

lemma prior_overlap_from:
  assumes "sorted rows" and "\<forall>x \<in> set rows. fst x < snd x" and "\<forall>x \<in> set rows. q \<le> fst x" and "q < p"
  shows "prior_overlap (Some p) rows \<longleftrightarrow> \<not> ((\<forall>x \<in> set rows. p \<le> fst x) \<and> sorted_wrt apart rows)"
  using assms
proof (induction rows arbitrary: p q)
  case (Cons x rows)
  obtain a b where x: "x = (a, b)" by fastforce
  from Cons.prems x have ab: "a < b" and q: "q \<le> a" and s: "sorted rows" and pos: "\<forall>y \<in> set rows. fst y < snd y" by simp_all
  from Cons.prems(1) x have le: "\<forall>y \<in> set rows. a \<le> fst y" by (auto simp: less_eq_prod_def)
  have apart_iff: "(\<forall>y \<in> set rows. apart x y) \<longleftrightarrow> (\<forall>y \<in> set rows. b \<le> fst y)"
    using ab le pos x by (fastforce simp: apart_def)
  show ?case
  proof (cases "a < p")
    case True
    then show ?thesis by (auto simp: x)
  next
    case False
    then have m: "max p b = b" using ab by simp
    from Cons.IH [OF s pos le ab] have "prior_overlap (Some b) rows \<longleftrightarrow> \<not> ((\<forall>y \<in> set rows. b \<le> fst y) \<and> sorted_wrt apart rows)" .
    moreover have "\<forall>y \<in> set rows. p \<le> fst y" using le False by fastforce
    ultimately show ?thesis using False m apart_iff by (simp add: x)
  qed
qed simp

lemma prior_overlap_iff:
  assumes "sorted rows" and "\<forall>x \<in> set rows. fst x < snd x"
  shows "prior_overlap None rows \<longleftrightarrow> \<not> sorted_wrt apart rows"
proof (cases rows)
  case (Cons x rest)
  obtain a b where x: "x = (a, b)" by fastforce
  from assms Cons x have ab: "a < b" and s: "sorted rest" and pos: "\<forall>y \<in> set rest. fst y < snd y" by simp_all
  from assms(1) Cons x have le: "\<forall>y \<in> set rest. a \<le> fst y" by (auto simp: less_eq_prod_def)
  have "(\<forall>y \<in> set rest. apart x y) \<longleftrightarrow> (\<forall>y \<in> set rest. b \<le> fst y)"
    using ab le pos x by (fastforce simp: apart_def)
  then show ?thesis using prior_overlap_from [OF s pos le ab] by (simp add: Cons x)
qed simp

fun row_thread :: "host_interval \<Rightarrow> string \<times> int" where
  "row_thread (e, t, a, b) = (e, t)"

fun row_span :: "host_interval \<Rightarrow> int \<times> int" where
  "row_span (e, t, a, b) = (a, b)"

text \<open>Two rows of one thread that both took time do not overlap.\<close>

definition rows_apart :: "host_interval \<Rightarrow> host_interval \<Rightarrow> bool" where
  "rows_apart x y \<longleftrightarrow> (row_thread x = row_thread y \<and> fst (row_span x) < snd (row_span x) \<and> fst (row_span y) < snd (row_span y) \<longrightarrow>
     apart (row_span x) (row_span y))"

lemma thread_rows_alt:
  "thread_rows rows thread = sort (map row_span (filter (\<lambda>x. row_thread x = thread \<and> fst (row_span x) < snd (row_span x)) rows))"
  unfolding thread_rows_def by (rule arg_cong [where f = sort], induction rows) auto

lemma thread_overlap:
  "prior_overlap None (thread_rows rows thread) \<longleftrightarrow>
     \<not> sorted_wrt (\<lambda>x y. row_thread x = thread \<and> row_thread y = thread \<longrightarrow> rows_apart x y) rows"
proof -
  define P where "P x \<longleftrightarrow> row_thread x = thread \<and> fst (row_span x) < snd (row_span x)" for x
  have r: "thread_rows rows thread = sort (map row_span (filter P rows))" by (simp add: thread_rows_alt P_def [abs_def])
  have "\<forall>x \<in> set (thread_rows rows thread). fst x < snd x" by (auto simp: r P_def)
  then have "prior_overlap None (thread_rows rows thread) \<longleftrightarrow> \<not> sorted_wrt apart (map row_span (filter P rows))"
    by (subst prior_overlap_iff) (simp_all add: r sorted_wrt_sort [OF apart_sym])
  also have "sorted_wrt apart (map row_span (filter P rows)) \<longleftrightarrow> sorted_wrt (\<lambda>x y. row_thread x = thread \<and> row_thread y = thread \<longrightarrow> rows_apart x y) rows"
    unfolding sorted_wrt_map sorted_wrt_filter_iff
    by (rule sorted_wrt_iff) (auto simp: P_def rows_apart_def)
  finally show ?thesis .
qed

lemma sorted_wrt_all: "(\<forall>t \<in> set ts. sorted_wrt (R t) xs) \<longleftrightarrow> sorted_wrt (\<lambda>x y. \<forall>t \<in> set ts. R t x y) xs"
  by (induction xs) auto

text \<open>C40. The additivity check on the measured host intervals accepts exactly the tables in which no two intervals of positive
  length of one thread overlap, in whatever order they were loaded.\<close>

theorem host_additivity_iff:
  "(\<exists>ci'. validate_host_additivity ci = Inr ci') \<longleftrightarrow> sorted_wrt rows_apart (ci_intervals ci)"
proof -
  define rows where "rows = ci_intervals ci"
  have t: "map (\<lambda>(e, t, a, b). (e, t)) rows = map row_thread rows" by (induction rows) auto
  have "(\<exists>ci'. validate_host_additivity ci = Inr ci') \<longleftrightarrow> (\<forall>thread \<in> set (map row_thread rows). \<not> prior_overlap None (thread_rows rows thread))"
    unfolding validate_host_additivity_def rows_def [symmetric] t by (simp add: require_eq_Inr list_ex_iff)
  also have "\<dots> \<longleftrightarrow> sorted_wrt (\<lambda>x y. \<forall>thread \<in> set (map row_thread rows). row_thread x = thread \<and> row_thread y = thread \<longrightarrow> rows_apart x y) rows"
    by (simp only: thread_overlap not_not sorted_wrt_all)
  also have "\<dots> \<longleftrightarrow> sorted_wrt rows_apart rows"
    by (rule sorted_wrt_iff) (auto simp: rows_apart_def)
  finally show ?thesis by (simp add: rows_def)
qed

section \<open>Identities\<close>

definition index_ok :: "CpuIndex \<Rightarrow> bool" where
  "index_ok ci \<longleftrightarrow> sorted_wrt (\<lambda>a b. \<not> sample_conflict b a) (ci_samples ci) \<and>
     (\<forall>s \<in> set (ci_samples ci). cs_host s = None \<longrightarrow> (\<exists>w n. cs_worker s = Some w \<and> cs_workers s = Some n \<and> w < n))"

lemma index_ok_samples: "ci_samples ci' = ci_samples ci \<Longrightarrow> index_ok ci \<Longrightarrow> index_ok ci'"
  by (simp add: index_ok_def)

lemma insert_sample_ok:
  assumes "insert_sample row ci = Inr ci'" and "index_ok ci"
    and "cs_host row = None \<Longrightarrow> \<exists>w n. cs_worker row = Some w \<and> cs_workers row = Some n \<and> w < n"
  shows "index_ok ci'"
proof -
  from assms(1) have "ci' = ci\<lparr>ci_samples := ci_samples ci @ [row]\<rparr>" "\<forall>s \<in> set (ci_samples ci). \<not> sample_conflict row s"
    by (auto simp: insert_sample_def chk_eq_Inr list_ex_iff)
  with assms(2,3) show ?thesis by (auto simp: index_ok_def sorted_wrt_append)
qed

lemma insert_intervals_samples: "insert_intervals rows ci = Inr ci' \<Longrightarrow> ci_samples ci' = ci_samples ci"
  by (auto simp: insert_intervals_def chk_eq_Inr)

lemma store_sample_ok:
  assumes "store_sample E role manifest line key op host r st = Inr st'" and "index_ok (fst st)"
  shows "index_ok (fst st')"
proof -
  from assms(1) obtain worker workers u ci where w: "(if host = None then worker_vector manifest key worker workers else Inr ()) = Inr u"
    and i: "insert_sample \<lparr>cs_role = role, cs_semantic = encoded_key E key, cs_stage = op, cs_worker = worker, cs_workers = workers,
            cs_host = host, cs_body = sort_key fst (select_keys STORED_KEYS r @ [(''source_line'', JInt (int line))])\<rparr> (fst st) = Inr ci"
    and st': "st' = (ci, snd st)"
    unfolding store_sample_def bnd_eq_Inr sum.inject by blast
  have "\<exists>w n. worker = Some w \<and> workers = Some n \<and> w < n" if "host = None"
    using w that by (auto simp: worker_vector_def require_eq_Inr split: option.splits)
  with insert_sample_ok [OF i assms(2)] show ?thesis by (simp add: st')
qed

lemma potal_interval_samples:
  assumes "potal_interval r st = Inr st'"
  shows "ci_samples (fst st') = ci_samples (fst st)"
  using assms insert_intervals_samples by (auto simp: potal_interval_def flush_batch_def bnd_eq_Inr split: if_splits)

lemma counted_samples [simp]: "ci_samples (fst (counted name st)) = ci_samples (fst st)"
  by (simp add: counted_def observe_cpu_count_def)

lemma load_record_ok:
  assumes "load_record E name role manifest st entry = Inr st'" and ok: "index_ok (fst st)"
  shows "index_ok (fst st')"
proof -
  have c: "index_ok (fst (counted n st))" for n by (rule index_ok_samples [OF _ ok]) simp
  have o: "index_ok (fst st')" if own: "owned_interval E name role manifest line key duration host r st = Inr st'" for line key duration host r
  proof (cases "\<exists>n. st' = counted n st")
    case False
    from own obtain op logical where b: "(if host = None \<and> op \<noteq> canonical_stage logical
       then requirer (if role = ''FULL_CPU''
                    then (case map_of (mf_executions (ci_target (fst st))) key of
                            None \<Rightarrow> Inl (KeyError ''execution'')
                          | Some x \<Rightarrow> bnd (item x ''execution_class'') (\<lambda>c. Inr (py_in c [JStr ''TARGET_NPU'', JStr ''EXCLUDED''])))
                    else Inr False) ''unclassified CPU service stage'' (Inr (counted (role @ '':noncanonical'') st))
       else
       require (host = None \<or> role = ''POTAL_COLLECTION'') ''FullCPU cannot own PoTal host stages'' (
       require (duration = ''POTAL_HOST'' \<longrightarrow> host \<noteq> None) ''PoTal host cost lacks declared stage identity'' (
       bnd (relocate name line op (validate_named_timing r host)) (\<lambda>_.
       bnd (if duration = ''POTAL_HOST'' then potal_interval r st else Inr st) (\<lambda>st'.
       store_sample E role manifest line key op host r st'))))) = Inr st'"
      unfolding owned_interval_def bnd_eq_Inr by blast
    have "\<not> (host = None \<and> op \<noteq> canonical_stage logical)"
    proof
      assume h: "host = None \<and> op \<noteq> canonical_stage logical"
      from b [unfolded if_P [OF h] requirer_eq_Inr] have "Inr (counted (role @ '':noncanonical'') st) = (Inr st' :: cpu_load res)" ..
      with False show False by auto
    qed
    with b obtain st1 where "(if duration = ''POTAL_HOST'' then potal_interval r st else Inr st) = Inr st1"
      and s: "store_sample E role manifest line key op host r st1 = Inr st'"
      by (simp only: if_False require_eq_Inr bnd_eq_Inr) blast
    then have "index_ok (fst st1)" using potal_interval_samples index_ok_samples ok by (auto split: if_splits)
    from store_sample_ok [OF s this] show ?thesis .
  qed (use c in auto)
  obtain line r where e: "entry = (line, r)" by fastforce
  from assms(1) consider n where "st' = counted n st" | "load_interval E name role manifest line r st = Inr st'"
    unfolding load_record_def e prod.case by (auto simp: require_eq_Inr split: if_splits)
  then show ?thesis
  proof cases
    case 2
    then obtain key duration host where b: "(if duration = ''OBSERVATION_ONLY''
       then bnd (text_of r ''interval_class'') (\<lambda>c.
          require (c \<in> set OBSERVED_CLASSES) ''invalid non-authoritative interval class'' (Inr (counted (role @ '':'' @ c) st)))
       else owned_interval E name role manifest line key duration host r st) = Inr st'"
      unfolding load_interval_def bnd_eq_Inr requirer_eq_Inr require_eq_Inr by blast
    show ?thesis
    proof (cases "duration = ''OBSERVATION_ONLY''")
      case True
      from b [unfolded if_P [OF True] bnd_eq_Inr require_eq_Inr] c show ?thesis by blast
    next
      case False
      from b [unfolded if_not_P [OF False]] show ?thesis by (rule o)
    qed
  qed (use c in simp)
qed

text \<open>Whatever logs are loaded, no measurement of the index repeats the identity of another one, and every ordinary measurement
  has a place in its worker vector.\<close>

theorem load_index_ok:
  assumes "CpuIndex_load E name records manifest ci = Inr ci'" and "index_ok ci"
  shows "index_ok ci'"
proof -
  from assms(1) obtain role st where f: "foldm (load_record E name role manifest) (ci, []) (zip [1..<length records + 1] records) = Inr st"
    and e: "(if snd st = [] then Inr (fst st) else insert_intervals (snd st) (fst st)) = Inr ci'"
    unfolding CpuIndex_load_def bnd_eq_Inr by blast
  have "index_ok (fst st)"
    by (rule foldm_invariant [where P = "\<lambda>st. index_ok (fst st)", OF f]) (use assms(2) load_record_ok in auto)
  then show ?thesis using e insert_intervals_samples index_ok_samples by (auto split: if_splits)
qed

end
