(* ===== verification/Scheduler.thy ===== *)
theory Scheduler
  imports Exec_Services "HOL-Library.Product_Lexorder" "HOL-Library.List_Lexorder" "HOL-Library.Char_ord"
begin

text \<open>
  The scheduler of \<^verbatim>\<open>sim/cycle/scheduler.py\<close>: environment gates, the resource engine
  \<^verbatim>\<open>ServiceExecutor\<close> and the selection loop of \<open>schedule\<close>. Times are exact
  fractions of a nanosecond.

  The timing provider is the record \<open>timing_provider\<close> of the operations the scheduler calls on
  it; its class replaces the \<^verbatim>\<open>isinstance\<close> tests. The clock selection read from the clock
  artifact and the digests of the scheduler's own source files are arguments.
\<close>

record Scenario =
  npu_frequency_hz :: int
  sc_scope :: string
  clock_artifact :: "string option"
  sc_profile :: string

datatype provider_class = TableProvider | CycleProvider | DiagnosticProvider | SequenceProvider

record admission =
  ad_production :: bool
  ad_profile :: string
  ad_work_count :: int
  ad_validation_scope :: string
  ad_certificate_sha256 :: string
  ad_record :: Record

record StatefulWindow =
  win_work :: NpuWork
  win_offered_cycle :: int
  win_accepted_cycle :: int
  win_result_ready_cycle :: int
  win_final_scale_release_cycle :: int
  win_resource_ready_cycle :: int
  win_next_scratchpad_half :: int
  win_next_accumulator_half :: int
  win_max_tag_occupancy :: int
  win_max_row_occupancy :: int
  win_admission :: admission

record 'p timing_provider =
  tp_class :: provider_class
  tp_admission :: "admission option"
  tp_requests :: "string list"
  tp_scope :: string
  tp_completed :: "'p \<Rightarrow> string set"
  tp_previous :: "'p \<Rightarrow> int"
  tp_estimate :: "'p \<Rightarrow> NpuWork \<Rightarrow> int \<Rightarrow> (NpuService \<times> 'p) res"
  tp_execute :: "'p \<Rightarrow> NpuWork \<Rightarrow> int \<Rightarrow> (StatefulWindow \<times> 'p) res"
  tp_verify_complete :: "'p \<Rightarrow> unit res"

definition stateful :: "'p timing_provider \<Rightarrow> bool" where
  "stateful P \<longleftrightarrow> tp_class P \<in> {DiagnosticProvider, SequenceProvider}"

record ScheduledNode =
  sn_identity :: string
  accepted_ns :: rat
  result_ready_ns :: rat
  resource_ready_ns :: rat
  worker_intervals :: "WorkerService list"
  accepted_cycle :: "int option"
  evidence_id :: "string option"
  request_available_ns :: "rat option"
  port_offer_ns :: "rat option"
  final_scale_release_ns :: "rat option"

fun milestone :: "ScheduledNode \<Rightarrow> Milestone \<Rightarrow> rat" where
  "milestone sn ACCEPTED = accepted_ns sn"
| "milestone sn RESULT_READY = result_ready_ns sn"
| "milestone sn RESOURCE_READY = resource_ready_ns sn"

record ScheduleResult =
  sr_nodes :: "ScheduledNode list"
  sr_scope :: string
  service_validation_scope :: string
  service_binding_record :: Record
  source_binding :: "Record option"

section \<open>Gates\<close>

definition validation_scope :: "'p timing_provider \<Rightarrow> string" where
  "validation_scope P = (if stateful P
     then (case tp_admission P of Some a \<Rightarrow> ad_validation_scope a | None \<Rightarrow> [])
     else tp_scope P)"

text \<open>The part of \<^verbatim>\<open>validate_environment\<close> for a reconstructed schedule.\<close>

definition validate_reconstructed ::
  "(string \<Rightarrow> string \<Rightarrow> int res) \<Rightarrow> string \<Rightarrow> 'p timing_provider \<Rightarrow> Scenario \<Rightarrow> unit res" where
  "validate_reconstructed load_selection scope P sc =
     (case clock_artifact sc of
        None \<Rightarrow> Inl (ExecutionError ''execution: validated clock artifact required'')
      | Some artifact \<Rightarrow>
     bnd (case (tp_class P, tp_admission P) of
            (SequenceProvider, Some a) \<Rightarrow>
              ensure (ad_production a \<and> ad_profile a = sc_profile sc \<and> ad_work_count a = int (length (tp_requests P)))
                ''stateful certificate profile/work coverage differs from schedule'' (Inr ())
          | (CycleProvider, Some a) \<Rightarrow>
              ensure (ad_profile a = sc_profile sc \<and> ad_work_count a = int (length (tp_requests P)))
                ''service certificate profile/work coverage differs from schedule'' (Inr ())
          | _ \<Rightarrow> Inl (ExecutionError ''execution: validated current-source drained-sequence service certificate required''))
       (\<lambda>_.
     ensure (scope = ''BOUND_DATASET'') ''real reconstruction requires bound dataset'' (
     bnd (load_selection artifact (sc_profile sc)) (\<lambda>frequency.
     ensure (frequency = npu_frequency_hz sc) ''clock frequency mismatch'' (Inr ())))))"

definition validate_environment ::
  "(string \<Rightarrow> string \<Rightarrow> int res) \<Rightarrow> string \<Rightarrow> 'p timing_provider \<Rightarrow> Scenario \<Rightarrow> unit res" where
  "validate_environment load_selection scope P sc =
     ensure (npu_frequency_hz sc > 0) ''positive NPU frequency required'' (
     ensure (sc_scope sc \<in> {''SYNTHETIC'', ''RECONSTRUCTED'', ''STATEFUL_DIAGNOSTIC''}) ''unknown schedule scope'' (
     ensure (tp_class P \<noteq> DiagnosticProvider \<or> sc_scope sc = ''STATEFUL_DIAGNOSTIC'')
       ''stateful diagnostic provider requires diagnostic scenario'' (
     ensure (tp_class P \<noteq> SequenceProvider \<or>
             (sc_scope sc = ''RECONSTRUCTED'' \<and> (case tp_admission P of Some a \<Rightarrow> ad_production a | None \<Rightarrow> False)))
       ''typed production stateful admission and reconstructed scenario required'' (
     ensure (sc_scope sc \<noteq> ''STATEFUL_DIAGNOSTIC'' \<or>
             (tp_class P = DiagnosticProvider \<and>
              (case tp_admission P of
                 Some a \<Rightarrow> \<not> ad_production a \<and> ad_profile a = sc_profile sc \<and>
                   int (length (tp_requests P)) = ad_work_count a
               | None \<Rightarrow> False) \<and>
              clock_artifact sc = None \<and> scope = ''BOUND_DATASET''))
       ''source-bound diagnostic provider, trace and test clock required'' (
     if sc_scope sc = ''RECONSTRUCTED'' then validate_reconstructed load_selection scope P sc else Inr ())))))"

definition service_binding :: "'p timing_provider \<Rightarrow> Scenario \<Rightarrow> Record res" where
  "service_binding P sc =
     (if sc_scope sc = ''SYNTHETIC'' then Inr [(''scope'', JStr ''SYNTHETIC_ONLY'')]
      else if sc_scope sc = ''STATEFUL_DIAGNOSTIC'' then
        (case (tp_class P, tp_admission P) of
           (DiagnosticProvider, Some a) \<Rightarrow>
             Inr (dict_of ([(''scope'', JStr ''DIAGNOSTIC_STATEFUL_SEQUENCE''),
                            (''npu_frequency_hz'', JInt (npu_frequency_hz sc))] @ ad_record a))
         | _ \<Rightarrow> Inl (ExecutionError ''execution: typed stateful diagnostic binding required''))
      else (case (tp_class P, tp_admission P) of
          (SequenceProvider, Some a) \<Rightarrow>
            if ad_production a
            then Inr (dict_of ([(''scope'', JStr ''CURRENT_STATEFUL_SEQUENCE''),
                                (''npu_frequency_hz'', JInt (npu_frequency_hz sc))] @ ad_record a))
            else Inl (ExecutionError ''execution: certified service binding required'')
        | (CycleProvider, Some a) \<Rightarrow>
            Inr (dict_of ([(''scope'', JStr ''CURRENT_CERTIFIED_SEQUENCE'')] @ ad_record a))
        | _ \<Rightarrow> Inl (ExecutionError ''execution: certified service binding required'')))"

text \<open>Checks of a CPU node against its service, made by the gate and again by the engine.\<close>

definition cpu_lookup :: "Services \<Rightarrow> Node \<Rightarrow> CpuService res" where
  "cpu_lookup services node =
     bnd (service_id node) (\<lambda>s.
     case map_of (sv_cpu services) s of None \<Rightarrow> Inl (KeyError s) | Some cpu \<Rightarrow>
     ensure (nd_kind node \<noteq> APPLICATION_CPU \<or> cpu_source cpu = ''APPLICATION_CPU'')
       ''application sampling requires PoTal application source'' (
     ensure (set (nd_resources node) = set (map ws_resource (cpu_workers cpu)))
       ''CPU worker/resource mismatch'' (Inr cpu)))"

definition cpu_kind :: "Kind \<Rightarrow> bool" where
  "cpu_kind k \<longleftrightarrow> k = CPU \<or> k = APPLICATION_CPU"

definition check_cpu_node :: "Services \<Rightarrow> Node \<Rightarrow> unit res" where
  "check_cpu_node services node =
     (if cpu_kind (nd_kind node) then bnd (cpu_lookup services node) (\<lambda>_. Inr ()) else Inr ())"

definition gate :: "(string \<Rightarrow> string \<Rightarrow> int res) \<Rightarrow> ExecutionIR \<Rightarrow> Services \<Rightarrow> 'p timing_provider \<Rightarrow> Scenario \<Rightarrow> unit res" where
  "gate load_selection ir services P sc =
     bnd (validate_environment load_selection (ir_scope ir) P sc) (\<lambda>_.
     let cpu_ids = map nd_service (filter (\<lambda>n. cpu_kind (nd_kind n)) (ir_nodes ir));
         npu_ids = map nd_service (filter (\<lambda>n. nd_kind n = NPU) (ir_nodes ir)) in
     ensure (set cpu_ids = Some ` set (map fst (sv_cpu services))) ''missing/extra CPU service'' (
     ensure (set npu_ids = Some ` set (map fst (sv_npu services))) ''missing/extra NPU service'' (
     ensure (\<not> stateful P \<or> set npu_ids = Some ` set (tp_requests P))
       ''scheduled NPU work does not equal bound trace work'' (
     bnd (mapr (check_cpu_node services) (ir_nodes ir)) (\<lambda>_.
     Inr ())))))"

section \<open>The engine\<close>

record 'p engine =
  resource_free :: "(string, rat) dict"
  en_provider :: 'p

definition cycle_ns :: "Scenario \<Rightarrow> rat" where
  "cycle_ns sc = 1000000000 / of_int (npu_frequency_hz sc)"

text \<open>\<^verbatim>\<open>max(values, default=d)\<close>.\<close>

definition max_default :: "rat \<Rightarrow> rat list \<Rightarrow> rat" where
  "max_default d xs = (case xs of [] \<Rightarrow> d | x # ys \<Rightarrow> foldl max x ys)"

definition free_at :: "'p engine \<Rightarrow> string \<Rightarrow> rat" where
  "free_at eng r = (case map_of (resource_free eng) r of None \<Rightarrow> 0 | Some t \<Rightarrow> t)"

definition earliest :: "'p timing_provider \<Rightarrow> Scenario \<Rightarrow> 'p engine \<Rightarrow> Node \<Rightarrow> rat \<Rightarrow> rat" where
  "earliest P sc eng node now =
     (let available = max_default 0 (map (free_at eng) (nd_resources node));
          ready = max now available;
          ready' = (if nd_kind node = NPU \<and> stateful P
                    then max ready (of_int (tp_previous P (en_provider eng)) * cycle_ns sc) else ready)
      in if nd_kind node = NPU then of_int \<lceil>ready' / cycle_ns sc\<rceil> * cycle_ns sc else ready')"

definition assign_all :: "(string \<times> rat) list \<Rightarrow> (string, rat) dict \<Rightarrow> (string, rat) dict" where
  "assign_all kvs d = foldl (\<lambda>d (k, v). AList.update k v d) d kvs"

text \<open>\<^verbatim>\<open>int(now / cycle_ns)\<close> truncates towards zero.\<close>

definition trunc :: "rat \<Rightarrow> int" where
  "trunc x = (if x < 0 then \<lceil>x\<rceil> else \<lfloor>x\<rfloor>)"

text \<open>The three cases of \<^verbatim>\<open>ServiceExecutor.execute\<close>.\<close>

definition execute_cpu :: "Services \<Rightarrow> 'p engine \<Rightarrow> Node \<Rightarrow> rat \<Rightarrow> (ScheduledNode \<times> 'p engine) res" where
  "execute_cpu services eng node now =
     bnd (cpu_lookup services node) (\<lambda>cpu.
     let workers = cpu_workers cpu;
         free = assign_all (map (\<lambda>w. (ws_resource w, now + ws_duration_ns w)) workers) (resource_free eng);
         eng' = eng\<lparr>resource_free := free\<rparr>;
         ends = map (\<lambda>w. free_at eng' (ws_resource w)) workers in
     if workers = [] then Inl (ValueError ''max() arg is an empty sequence'') else
     let done = max_default 0 ends in
     Inr (\<lparr>sn_identity = nd_identity node, accepted_ns = now, result_ready_ns = done, resource_ready_ns = done,
           worker_intervals = workers, accepted_cycle = None, evidence_id = None, request_available_ns = None,
           port_offer_ns = None, final_scale_release_ns = None\<rparr>, eng'))"

definition npu_lookup :: "Services \<Rightarrow> Node \<Rightarrow> NpuWork res" where
  "npu_lookup services node =
     bnd (service_id node) (\<lambda>s.
     case map_of (sv_npu services) s of None \<Rightarrow> Inl (KeyError s) | Some w \<Rightarrow> Inr w)"

definition reserve :: "'p engine \<Rightarrow> Node \<Rightarrow> rat \<Rightarrow> 'p \<Rightarrow> 'p engine" where
  "reserve eng node t p =
     \<lparr>resource_free = assign_all (map (\<lambda>r. (r, t)) (nd_resources node)) (resource_free eng), en_provider = p\<rparr>"

definition execute_npu :: "'p timing_provider \<Rightarrow> Scenario \<Rightarrow> Services \<Rightarrow> 'p engine \<Rightarrow> Node \<Rightarrow> rat \<Rightarrow>
    (ScheduledNode \<times> 'p engine) res" where
  "execute_npu P sc services eng node now =
     bnd (npu_lookup services node) (\<lambda>work.
     ensure (sc_scope sc \<noteq> ''RECONSTRUCTED'' \<or> nw_profile work = sc_profile sc) ''NPU work/clock profile mismatch'' (
     let c = cycle_ns sc; offered = trunc (now / c) in
     if stateful P then
       bnd (tp_execute P (en_provider eng) work offered) (\<lambda>(win, p).
       let released = of_int (win_resource_ready_cycle win) * c in
       Inr (\<lparr>sn_identity = nd_identity node, accepted_ns = of_int (win_accepted_cycle win) * c,
             result_ready_ns = of_int (win_result_ready_cycle win) * c, resource_ready_ns = released,
             worker_intervals = [], accepted_cycle = Some (win_accepted_cycle win),
             evidence_id = Some (ad_certificate_sha256 (win_admission win)), request_available_ns = None,
             port_offer_ns = Some (of_int (win_offered_cycle win) * c),
             final_scale_release_ns = Some (of_int (win_final_scale_release_cycle win) * c)\<rparr>,
            reserve eng node released p))
     else
       bnd (tp_estimate P (en_provider eng) work offered) (\<lambda>(s, p).
       let released = now + of_int (resource_ready_cycles s) * c in
       Inr (\<lparr>sn_identity = nd_identity node, accepted_ns = now,
             result_ready_ns = now + of_int (result_ready_cycles s) * c, resource_ready_ns = released,
             worker_intervals = [], accepted_cycle = Some offered, evidence_id = Some (ns_evidence_id s),
             request_available_ns = None, port_offer_ns = None, final_scale_release_ns = None\<rparr>,
            reserve eng node released p))))"

definition execute_structural :: "'p engine \<Rightarrow> Node \<Rightarrow> rat \<Rightarrow> (ScheduledNode \<times> 'p engine) res" where
  "execute_structural eng node now =
     ensure (nd_resources node = [] \<and> nd_service node = None) ''structural/excluded node has target service'' (
     Inr (\<lparr>sn_identity = nd_identity node, accepted_ns = now, result_ready_ns = now, resource_ready_ns = now,
           worker_intervals = [], accepted_cycle = None, evidence_id = None, request_available_ns = None,
           port_offer_ns = None, final_scale_release_ns = None\<rparr>, eng))"

definition execute :: "'p timing_provider \<Rightarrow> Scenario \<Rightarrow> Services \<Rightarrow> 'p engine \<Rightarrow> Node \<Rightarrow> rat \<Rightarrow> rat option \<Rightarrow>
    (ScheduledNode \<times> 'p engine) res" where
  "execute P sc services eng node now request_available =
     ensure (now = earliest P sc eng node now) ''cannot reserve a future resource for unready work'' (
     bnd (if cpu_kind (nd_kind node) then execute_cpu services eng node now
          else if nd_kind node = NPU then execute_npu P sc services eng node now
          else execute_structural eng node now) (\<lambda>(sn, eng').
     Inr (sn\<lparr>request_available_ns := (if stateful P then request_available else None)\<rparr>, eng')))"

definition complete_provider :: "'p timing_provider \<Rightarrow> Scenario \<Rightarrow> 'p \<Rightarrow> unit res" where
  "complete_provider P sc p =
     (if stateful P then tp_verify_complete P p
      else if sc_scope sc = ''RECONSTRUCTED''
      then ensure (tp_class P = CycleProvider \<and> tp_completed P p = set (tp_requests P))
             ''scheduled NPU work does not equal bound trace work'' (Inr ())
      else Inr ())"

section \<open>The selection loop\<close>

datatype 'p scan_result = Idle "rat list" | Started Node ScheduledNode "'p engine"

definition resolved :: "(string, ScheduledNode) dict \<Rightarrow> Node \<Rightarrow> bool" where
  "resolved completed node \<longleftrightarrow> list_all (\<lambda>e. has_key completed (dep_node e)) (nd_dependencies node)"

definition ready_time :: "(string, ScheduledNode) dict \<Rightarrow> Node \<Rightarrow> rat" where
  "ready_time completed node =
     max_default 0 (map (\<lambda>e. milestone (the (map_of completed (dep_node e))) (dep_milestone e)) (nd_dependencies node))"

text \<open>The \<^verbatim>\<open>for\<close> loop over the pending nodes, up to the first one that starts.\<close>

fun scan :: "'p timing_provider \<Rightarrow> Scenario \<Rightarrow> Services \<Rightarrow> 'p engine \<Rightarrow> (string, ScheduledNode) dict \<Rightarrow> rat \<Rightarrow>
    rat list \<Rightarrow> Node list \<Rightarrow> 'p scan_result res" where
  "scan P sc services eng completed now future [] = Inr (Idle future)"
| "scan P sc services eng completed now future (node # nodes) =
     (if \<not> resolved completed node then scan P sc services eng completed now future nodes
      else let ready = ready_time completed node;
               e = earliest P sc eng node (max now ready) in
        if e > now then scan P sc services eng completed now (future @ [e]) nodes
        else bnd (execute P sc services eng node now (Some ready)) (\<lambda>(sn, eng'). Inr (Started node sn eng')))"

definition selection :: "(string, Node) dict \<Rightarrow> Node list" where
  "selection pend = sort_key (\<lambda>n. (nd_order n, nd_identity n)) (map snd pend)"

definition min_list :: "rat list \<Rightarrow> rat" where
  "min_list xs = foldl min (hd xs) (tl xs)"

text \<open>The \<^verbatim>\<open>while\<close> loop; not returning is the value \<open>None\<close>.\<close>

partial_function (option) schedule_loop :: "'p timing_provider \<Rightarrow> Scenario \<Rightarrow> Services \<Rightarrow> (string, Node) dict \<Rightarrow>
    (string, ScheduledNode) dict \<Rightarrow> 'p engine \<Rightarrow> rat \<Rightarrow> ((string, ScheduledNode) dict \<times> 'p engine) res option" where
  "schedule_loop P sc services pend completed eng now =
     (if pend = [] then Some (Inr (completed, eng))
      else case scan P sc services eng completed now [] (selection pend) of
        Inl e \<Rightarrow> Some (Inl e)
      | Inr (Idle future) \<Rightarrow>
          if future = [] then Some (Inl (ExecutionError ''execution: execution stalled: unresolved causal/resource dependency''))
          else schedule_loop P sc services pend completed eng (min_list future)
      | Inr (Started node sn eng') \<Rightarrow>
          schedule_loop P sc services (AList.delete (nd_identity node) pend)
            (AList.update (nd_identity node) sn completed) eng' now)"

declare schedule_loop.simps [code]

text \<open>\<open>schedule\<close>: \<open>src\<close> is the source binding computed for a stateful provider.\<close>

definition schedule :: "(string \<Rightarrow> string \<Rightarrow> int res) \<Rightarrow> Record \<Rightarrow> ExecutionIR \<Rightarrow> Services \<Rightarrow> 'p timing_provider \<Rightarrow>
    'p \<Rightarrow> Scenario \<Rightarrow> ScheduleResult res option" where
  "schedule load_selection src ir services P p sc =
     (case gate load_selection ir services P sc of
        Inl e \<Rightarrow> Some (Inl e)
      | Inr _ \<Rightarrow>
     (case schedule_loop P sc services (map (\<lambda>n. (nd_identity n, n)) (ir_nodes ir)) []
             \<lparr>resource_free = [], en_provider = p\<rparr> 0 of
        None \<Rightarrow> None
      | Some r \<Rightarrow> Some (bnd r (\<lambda>(completed, eng).
          bnd (complete_provider P sc (en_provider eng)) (\<lambda>_.
          bnd (service_binding P sc) (\<lambda>binding.
          Inr \<lparr>sr_nodes = map snd completed, sr_scope = sc_scope sc,
               service_validation_scope = validation_scope P, service_binding_record = binding,
               source_binding = (if stateful P then Some src else None)\<rparr>))))))"

end
