(* ===== verification/Schedule_Theorems.thy ===== *)
theory Schedule_Theorems
  imports Scheduler
begin

text \<open>
  Correctness of the scheduler. The locale \<open>timing_contract\<close> states what the engine relies on in
  a timing provider; inside it, the engine's step and the loop invariant are proved once.
\<close>

section \<open>Arithmetic of the engine\<close>

lemma foldl_max_ge: "a \<le> foldl max (a :: rat) xs" "x \<in> set xs \<Longrightarrow> x \<le> foldl max a xs"
proof -
  have ge: "a \<le> foldl max a xs" for a :: rat and xs
    by (induction xs arbitrary: a) (auto intro: order_trans [OF max.cobounded1])
  show "a \<le> foldl max a xs" by (rule ge)
  show "x \<in> set xs \<Longrightarrow> x \<le> foldl max a xs"
    by (induction xs arbitrary: a) (auto intro: order_trans [OF max.cobounded2 ge])
qed

lemma foldl_max_in: "foldl max (a :: rat) xs \<in> insert a (set xs)"
proof (induction xs arbitrary: a)
  case (Cons x xs)
  from Cons.IH [of "max a x"] show ?case by (auto simp: max_def split: if_splits)
qed simp

lemma max_default_ge: "x \<in> set xs \<Longrightarrow> x \<le> max_default d xs"
  by (cases xs) (auto simp: max_default_def intro: foldl_max_ge)

lemma max_default_in: "xs \<noteq> [] \<Longrightarrow> max_default d xs \<in> set xs"
  using foldl_max_in by (cases xs) (auto simp: max_default_def)

lemma min_list_in: "xs \<noteq> [] \<Longrightarrow> min_list xs \<in> set xs"
proof -
  have in_min: "foldl min (a :: rat) ys \<in> insert a (set ys)" for a ys
  proof (induction ys arbitrary: a)
    case (Cons y ys)
    from Cons.IH [of "min a y"] show ?case by (auto simp: min_def split: if_splits)
  qed simp
  assume "xs \<noteq> []"
  then show ?thesis using in_min [of "hd xs" "tl xs"] by (cases xs) (auto simp: min_list_def)
qed

lemma cycle_ns_pos: "npu_frequency_hz sc > 0 \<Longrightarrow> cycle_ns sc > 0"
  by (simp add: cycle_ns_def)

text \<open>Alignment to a clock edge.\<close>

definition align :: "rat \<Rightarrow> rat \<Rightarrow> rat" where
  "align c t = of_int \<lceil>t / c\<rceil> * c"

lemma align_ge: "c > 0 \<Longrightarrow> t \<le> align c t"
proof -
  assume c: "c > 0"
  have "t = t / c * c" using c by simp
  also have "\<dots> \<le> of_int \<lceil>t / c\<rceil> * c" using c by (intro mult_right_mono) (simp_all add: le_of_int_ceiling)
  finally show ?thesis by (simp add: align_def)
qed

lemma align_fix: "c > 0 \<Longrightarrow> align c (align c t) = align c t"
  by (simp add: align_def)

text \<open>The lower bound the engine puts on a node, whatever the time.\<close>

definition bound :: "'p timing_provider \<Rightarrow> Scenario \<Rightarrow> 'p engine \<Rightarrow> Node \<Rightarrow> rat" where
  "bound P sc eng node =
     (let available = max_default 0 (map (free_at eng) (nd_resources node)) in
      if nd_kind node = NPU \<and> stateful P
      then max available (of_int (tp_previous P (en_provider eng)) * cycle_ns sc) else available)"

lemma earliest_bound: "earliest P sc eng node now =
    (if nd_kind node = NPU then align (cycle_ns sc) (max now (bound P sc eng node)) else max now (bound P sc eng node))"
  by (simp add: earliest_def bound_def Let_def align_def max.assoc)

lemma earliest_ge: "npu_frequency_hz sc > 0 \<Longrightarrow> max now (bound P sc eng node) \<le> earliest P sc eng node now"
  by (simp add: earliest_bound align_ge cycle_ns_pos del: max.bounded_iff)

lemma earliest_now: "npu_frequency_hz sc > 0 \<Longrightarrow> now \<le> earliest P sc eng node now"
  using earliest_ge [of sc now P eng node] by simp

lemma earliest_free: "npu_frequency_hz sc > 0 \<Longrightarrow> r \<in> set (nd_resources node) \<Longrightarrow>
    free_at eng r \<le> earliest P sc eng node now"
proof -
  assume f: "npu_frequency_hz sc > 0" and r: "r \<in> set (nd_resources node)"
  have "free_at eng r \<le> max_default 0 (map (free_at eng) (nd_resources node))"
    using r by (intro max_default_ge) simp
  also have "\<dots> \<le> bound P sc eng node" by (simp add: bound_def Let_def)
  also have "\<dots> \<le> earliest P sc eng node now" using earliest_ge [OF f, of now P eng node] by simp
  finally show ?thesis .
qed

text \<open>A node whose earliest time is computed once keeps it: asking again at that time gives it back.\<close>

lemma earliest_idem:
  assumes "npu_frequency_hz sc > 0" "e = earliest P sc eng node t"
  shows "earliest P sc eng node e = e"
proof -
  have "bound P sc eng node \<le> e" using assms earliest_ge [of sc t P eng node] by simp
  then have m: "max e (bound P sc eng node) = e" by simp
  show ?thesis using assms align_fix [OF cycle_ns_pos [OF assms(1)]]
    unfolding earliest_bound m by (simp add: earliest_bound split: if_splits)
qed

section \<open>One pass over the pending nodes\<close>

lemma scan_Idle:
  assumes "scan P sc services eng completed now future nodes = Inr (Idle future')"
  shows "(\<forall>n \<in> set nodes. resolved completed n \<longrightarrow>
       earliest P sc eng n (max now (ready_time completed n)) > now \<and>
       earliest P sc eng n (max now (ready_time completed n)) \<in> set future') \<and>
    set future \<subseteq> set future' \<and>
    (\<forall>t \<in> set future'. t \<in> set future \<or> (\<exists>n \<in> set nodes. resolved completed n \<and>
       t = earliest P sc eng n (max now (ready_time completed n))))"
  using assms
proof (induction nodes arbitrary: future)
  case Nil
  then show ?case by simp
next
  case (Cons n nodes)
  let ?e = "earliest P sc eng n (max now (ready_time completed n))"
  show ?case
  proof (cases "resolved completed n")
    case False
    with Cons show ?thesis by simp
  next
    case True
    show ?thesis
    proof (cases "?e > now")
      case True
      with \<open>resolved completed n\<close> Cons.prems Cons.IH [of "future @ [?e]"] show ?thesis
        by (auto simp: Let_def)
    next
      case False
      with True Cons.prems show ?thesis by (auto simp: Let_def bnd_eq_Inr)
    qed
  qed
qed

lemma scan_Started:
  assumes "scan P sc services eng completed now future nodes = Inr (Started n sn eng')"
  shows "n \<in> set nodes \<and> resolved completed n \<and> earliest P sc eng n (max now (ready_time completed n)) \<le> now \<and>
    execute P sc services eng n now (Some (ready_time completed n)) = Inr (sn, eng')"
  using assms
  by (induction nodes arbitrary: future) (auto simp: Let_def bnd_eq_Inr split: if_splits)

lemma scan_Inl:
  assumes "scan P sc services eng completed now future nodes = Inl e"
  shows "\<exists>n \<in> set nodes. resolved completed n \<and> earliest P sc eng n (max now (ready_time completed n)) \<le> now \<and>
    execute P sc services eng n now (Some (ready_time completed n)) = Inl e"
  using assms
  by (induction nodes arbitrary: future) (auto simp: Let_def bnd_eq_Inl split: if_splits)

lemma set_selection: "set (selection pend) = snd ` set pend"
  by (simp add: selection_def)

text \<open>After the clock has moved to the least future time some node can start.\<close>

lemma scan_after_advance:
  assumes f: "npu_frequency_hz sc > 0"
    and idle: "scan P sc services eng completed now [] nodes = Inr (Idle future)" and ne: "future \<noteq> []"
  shows "scan P sc services eng completed (min_list future) [] nodes \<noteq> Inr (Idle future')"
proof
  let ?t = "min_list future"
  assume idle': "scan P sc services eng completed ?t [] nodes = Inr (Idle future')"
  from min_list_in [OF ne] scan_Idle [OF idle] obtain n where n: "n \<in> set nodes" "resolved completed n"
    and t: "?t = earliest P sc eng n (max now (ready_time completed n))" by auto
  have "ready_time completed n \<le> ?t" using earliest_now [OF f, of "max now (ready_time completed n)" P eng n] t by simp
  then have "max ?t (ready_time completed n) = ?t" by simp
  with earliest_idem [OF f t] have "earliest P sc eng n (max ?t (ready_time completed n)) = ?t" by simp
  with scan_Idle [OF idle'] n show False by auto
qed


section \<open>The loop rule\<close>

definition pend_inv :: "ExecutionIR \<Rightarrow> (string, ScheduledNode) dict \<Rightarrow> (string, Node) dict \<Rightarrow> bool" where
  "pend_inv ir completed pend \<longleftrightarrow> wf_dict pend \<and> wf_dict completed \<and>
     (\<forall>(i, n) \<in> set pend. i = nd_identity n \<and> n \<in> set (ir_nodes ir)) \<and>
     fst ` set pend \<union> fst ` set completed = nd_identity ` set (ir_nodes ir) \<and>
     fst ` set pend \<inter> fst ` set completed = {}"

lemma pend_inv_resolved:
  assumes "valid_ir ir" "pend_inv ir completed pend" "pend \<noteq> []"
  shows "\<exists>n \<in> set (selection pend). resolved completed n"
proof -
  let ?S = "snd ` set pend"
  have S: "?S \<noteq> {}" "?S \<subseteq> set (ir_nodes ir)" using assms(2,3) by (auto simp: pend_inv_def)
  have ids: "nd_identity ` ?S = fst ` set pend"
    using assms(2) unfolding pend_inv_def by (force simp: image_iff)
  from valid_ir_minimal [OF assms(1) S] ids obtain n where n: "n \<in> ?S"
    and d: "\<forall>e \<in> set (nd_dependencies n). dep_node e \<notin> fst ` set pend" by auto
  have "valid_node (ir_nodes ir) n" using assms(1) n S(2) by (auto simp: valid_ir_def)
  then have "\<forall>e \<in> set (nd_dependencies n). dep_node e \<in> nd_identity ` set (ir_nodes ir)"
    by (simp add: valid_node_def)
  moreover have U: "fst ` set pend \<union> fst ` set completed = nd_identity ` set (ir_nodes ir)"
    using assms(2) unfolding pend_inv_def by (elim conjE)
  ultimately have "\<forall>e \<in> set (nd_dependencies n). dep_node e \<in> fst ` set completed"
    using d by (metis Un_iff)
  then have "resolved completed n" by (simp add: resolved_def list_all_iff has_key_def)
  with n show ?thesis by (auto simp: set_selection)
qed

lemma set_keys_delete: "fst ` set (AList.delete k d) = fst ` set d - {k}"
  by (metis delete_keys set_map set_removeAll)

lemma pend_inv_step:
  assumes inv: "pend_inv ir completed pend" and n: "n \<in> snd ` set pend"
  shows "pend_inv ir (AList.update (nd_identity n) sn completed) (AList.delete (nd_identity n) pend) \<and>
    length (AList.delete (nd_identity n) pend) < length pend \<and>
    AList.update (nd_identity n) sn completed = completed @ [(nd_identity n, sn)]"
proof -
  have wf: "wf_dict pend" "wf_dict completed"
    and pn: "\<forall>(i, n) \<in> set pend. i = nd_identity n \<and> n \<in> set (ir_nodes ir)"
    and un: "fst ` set pend \<union> fst ` set completed = nd_identity ` set (ir_nodes ir)"
    and dis: "fst ` set pend \<inter> fst ` set completed = {}"
    using inv unfolding pend_inv_def by blast+
  from pn n have k: "nd_identity n \<in> fst ` set pend" by force
  with dis have new: "nd_identity n \<notin> fst ` set completed" by (metis disjoint_iff)
  from k obtain p where "p \<in> set pend" "fst p = nd_identity n" by auto
  then have "length (AList.delete (nd_identity n) pend) < length pend"
    unfolding AList.delete_eq by (intro length_filter_less [of p]) (auto split: prod.splits)
  moreover have "\<forall>(i, m) \<in> set (AList.delete (nd_identity n) pend). i = nd_identity m \<and> m \<in> set (ir_nodes ir)"
    using pn by (auto simp: AList.delete_eq)
  moreover have "AList.update (nd_identity n) sn completed = completed @ [(nd_identity n, sn)]"
    using new by (intro keys_update_new) simp
  moreover have "fst ` set (AList.delete (nd_identity n) pend) \<union> fst ` set (AList.update (nd_identity n) sn completed) =
      nd_identity ` set (ir_nodes ir)"
    unfolding set_keys_delete set_keys_update using k unfolding un [symmetric] by blast
  moreover have "fst ` set (AList.delete (nd_identity n) pend) \<inter> fst ` set (AList.update (nd_identity n) sn completed) = {}"
    unfolding set_keys_delete set_keys_update using dis by auto
  moreover have "wf_dict (AList.delete (nd_identity n) pend)" "wf_dict (AList.update (nd_identity n) sn completed)"
    using wf by simp_all
  ultimately show ?thesis unfolding pend_inv_def by blast
qed

text \<open>Every invariant that survives a passing of time and the start of a ready node holds at the end.
  The loop returns: a pass that starts nothing moves the clock to a time at which the next pass
  does, and a pass never finds the graph stuck. If it raises, the error is the engine's.\<close>

lemma schedule_loop_rule:
  assumes f: "npu_frequency_hz sc > 0" and ir: "valid_ir ir"
    and pinv: "pend_inv ir completed pend" and I: "I completed pend eng now"
    and adv: "\<And>completed pend eng now t. I completed pend eng now \<Longrightarrow> now \<le> t \<Longrightarrow> I completed pend eng t"
    and step: "\<And>completed pend eng now n sn eng'. I completed pend eng now \<Longrightarrow> pend_inv ir completed pend \<Longrightarrow>
      n \<in> snd ` set pend \<Longrightarrow> resolved completed n \<Longrightarrow> ready_time completed n \<le> now \<Longrightarrow>
      now = earliest P sc eng n now \<Longrightarrow>
      execute P sc services eng n now (Some (ready_time completed n)) = Inr (sn, eng') \<Longrightarrow>
      I (completed @ [(nd_identity n, sn)]) (AList.delete (nd_identity n) pend) eng' now"
  shows "\<exists>r. schedule_loop P sc services pend completed eng now = Some r \<and>
    (case r of
       Inl e \<Rightarrow> \<exists>completed' pend' eng' now' n. I completed' pend' eng' now' \<and> pend_inv ir completed' pend' \<and>
         n \<in> snd ` set pend' \<and> resolved completed' n \<and> now' = earliest P sc eng' n now' \<and>
         execute P sc services eng' n now' (Some (ready_time completed' n)) = Inl e
     | Inr (completed', eng') \<Rightarrow> pend_inv ir completed' [] \<and> (\<exists>now'. I completed' [] eng' now'))"
    (is "\<exists>r. _ \<and> ?Q r")
  using pinv I
proof (induction "length pend" arbitrary: pend completed eng now rule: less_induct)
  case less
  have start: "\<exists>r. schedule_loop P sc services pend completed eng t = Some r \<and> ?Q r"
    if ne: "pend \<noteq> []" and It: "I completed pend eng t"
      and nidle: "\<And>fut. scan P sc services eng completed t [] (selection pend) \<noteq> Inr (Idle fut)" for t
  proof (cases "scan P sc services eng completed t [] (selection pend)")
    case (Inl e)
    from scan_Inl [OF Inl] obtain n where n: "n \<in> snd ` set pend" "resolved completed n"
      "earliest P sc eng n (max t (ready_time completed n)) \<le> t"
      "execute P sc services eng n t (Some (ready_time completed n)) = Inl e" by (auto simp: set_selection)
    have "max t (ready_time completed n) = t"
      using earliest_now [OF f, of "max t (ready_time completed n)" P eng n] n(3) by simp
    with n(3) earliest_now [OF f, of t P eng n] have "t = earliest P sc eng n t" by simp
    then have "?Q (Inl e)" unfolding sum.case using n(1,2,4) less.prems(1) It by blast
    moreover have "schedule_loop P sc services pend completed eng t = Some (Inl e)"
      using Inl ne by (simp add: schedule_loop.simps [of P sc services pend])
    ultimately show ?thesis by blast
  next
    case (Inr r)
    with nidle obtain n sn eng' where st: "r = Started n sn eng'" by (cases r) auto
    from scan_Started [OF Inr [unfolded st]] have n: "n \<in> snd ` set pend" "resolved completed n"
      "earliest P sc eng n (max t (ready_time completed n)) \<le> t"
      "execute P sc services eng n t (Some (ready_time completed n)) = Inr (sn, eng')" by (auto simp: set_selection)
    have m: "max t (ready_time completed n) = t"
      using earliest_now [OF f, of "max t (ready_time completed n)" P eng n] n(3) by simp
    with n(3) earliest_now [OF f, of t P eng n] have e: "t = earliest P sc eng n t" by simp
    note ps = pend_inv_step [OF less.prems(1) n(1), of sn]
    then have upd: "AList.update (nd_identity n) sn completed = completed @ [(nd_identity n, sn)]" by blast
    have "ready_time completed n \<le> t" using m by (simp add: max_def split: if_splits)
    from step [OF It less.prems(1) n(1,2) this e n(4)] ps [unfolded upd]
    have "\<exists>r. schedule_loop P sc services (AList.delete (nd_identity n) pend)
        (AList.update (nd_identity n) sn completed) eng' t = Some r \<and> ?Q r"
      unfolding upd by (intro less.hyps) blast+
    with Inr st ne show ?thesis by (simp add: schedule_loop.simps [of P sc services pend])
  qed
  show ?case
  proof (cases "pend = []")
    case True
    with less.prems have "?Q (Inr (completed, eng))" by auto
    moreover have "schedule_loop P sc services pend completed eng now = Some (Inr (completed, eng))"
      unfolding True by (simp add: schedule_loop.simps [of P sc services "[]"])
    ultimately show ?thesis by blast
  next
    case False
    show ?thesis
    proof (cases "\<exists>fut. scan P sc services eng completed now [] (selection pend) = Inr (Idle fut)")
      case True
      then obtain fut where idle: "scan P sc services eng completed now [] (selection pend) = Inr (Idle fut)" by blast
      from pend_inv_resolved [OF ir less.prems(1) False] scan_Idle [OF idle] have ne: "fut \<noteq> []" by fastforce
      have "now \<le> min_list fut" using min_list_in [OF ne] scan_Idle [OF idle] by fastforce
      with adv less.prems(2) have "I completed pend eng (min_list fut)" by blast
      from start [OF False this scan_after_advance [OF f idle ne]] idle ne False
      show ?thesis by (simp add: schedule_loop.simps [of P sc services pend completed eng now])
    next
      case False
      with start [OF \<open>pend \<noteq> []\<close> less.prems(2)] show ?thesis by blast
    qed
  qed
qed


section \<open>One step of the engine\<close>

text \<open>The time a node is offered to its resources, and the time it gives a resource back.\<close>

definition start_ns :: "ScheduledNode \<Rightarrow> rat" where
  "start_ns sn = (case port_offer_ns sn of None \<Rightarrow> accepted_ns sn | Some t \<Rightarrow> t)"

definition release_ns :: "ScheduledNode \<Rightarrow> string \<Rightarrow> rat" where
  "release_ns sn r = (case find (\<lambda>w. ws_resource w = r) (worker_intervals sn) of
     Some w \<Rightarrow> accepted_ns sn + ws_duration_ns w | None \<Rightarrow> resource_ready_ns sn)"

definition step_ok :: "Scenario \<Rightarrow> 'p engine \<Rightarrow> Node \<Rightarrow> rat \<Rightarrow> ScheduledNode \<Rightarrow> 'p engine \<Rightarrow> bool" where
  "step_ok sc eng node now sn eng' \<longleftrightarrow>
     sn_identity sn = nd_identity node \<and> start_ns sn = now \<and>
     now \<le> accepted_ns sn \<and> accepted_ns sn \<le> result_ready_ns sn \<and> result_ready_ns sn \<le> resource_ready_ns sn \<and>
     (\<forall>r \<in> set (nd_resources node). free_at eng' r = release_ns sn r \<and> now \<le> release_ns sn r \<and>
        release_ns sn r \<le> resource_ready_ns sn) \<and>
     (\<forall>r. r \<notin> set (nd_resources node) \<longrightarrow> free_at eng' r = free_at eng r) \<and>
     (nd_kind node = NPU \<longrightarrow> (\<exists>k. accepted_cycle sn = Some k \<and> accepted_ns sn = of_int k * cycle_ns sc \<and>
        result_ready_ns sn > accepted_ns sn))"

lemma map_of_assign_all:
  "distinct (map fst kvs) \<Longrightarrow> map_of (assign_all kvs d) k = (case map_of kvs k of None \<Rightarrow> map_of d k | Some v \<Rightarrow> Some v)"
  unfolding assign_all_def
proof (induction kvs arbitrary: d)
  case (Cons kv kvs)
  obtain k' v where kv: "kv = (k', v)" by force
  have "map_of kvs k' = None" using Cons.prems kv by (simp add: map_of_eq_None_iff)
  then show ?case using Cons kv by (auto split: option.splits)
qed simp

lemma find_resource:
  "w \<in> set ws \<Longrightarrow> distinct (map ws_resource ws) \<Longrightarrow> find (\<lambda>v. ws_resource v = ws_resource w) ws = Some w"
  by (induction ws) (auto simp: image_iff)

lemma map_of_workers:
  "w \<in> set ws \<Longrightarrow> distinct (map ws_resource ws) \<Longrightarrow> map_of (map (\<lambda>w. (ws_resource w, f w)) ws) (ws_resource w) = Some (f w)"
  by (induction ws) (auto simp: image_iff)

lemma cpu_lookup_Inr:
  assumes "cpu_lookup services node = Inr cpu"
  shows "(\<exists>s. (s, cpu) \<in> set (sv_cpu services)) \<and> set (nd_resources node) = ws_resource ` set (cpu_workers cpu)"
proof -
  from assms obtain s where "map_of (sv_cpu services) s = Some cpu"
    "set (nd_resources node) = ws_resource ` set (cpu_workers cpu)"
    by (auto simp: cpu_lookup_def bnd_eq_Inr ensure_eq_Inr split: option.splits)
  then show ?thesis by (auto dest: map_of_SomeD)
qed

lemma execute_cpu_ok:
  assumes ex: "execute_cpu services eng node now = Inr (sn, eng')" and vs: "valid_services services"
    and k: "nd_kind node \<noteq> NPU"
  shows "step_ok sc eng node now sn eng' \<and> en_provider eng' = en_provider eng"
proof -
  from ex obtain cpu where cpu: "cpu_lookup services node = Inr cpu" by (auto simp: execute_cpu_def bnd_eq_Inr)
  let ?ws = "cpu_workers cpu"
  let ?eng = "eng\<lparr>resource_free := assign_all (map (\<lambda>w. (ws_resource w, now + ws_duration_ns w)) ?ws) (resource_free eng)\<rparr>"
  let ?ends = "map (\<lambda>w. free_at ?eng (ws_resource w)) ?ws"
  from cpu_lookup_Inr [OF cpu] vs have v: "valid_cpu cpu"
    and res: "set (nd_resources node) = ws_resource ` set ?ws" by (auto simp: valid_services_def)
  then have d: "distinct (map ws_resource ?ws)" and ne: "?ws \<noteq> []" and pos: "\<forall>w \<in> set ?ws. 0 \<le> ws_duration_ns w"
    by (simp_all add: valid_cpu_def)
  have eng': "eng' = ?eng" and sn: "sn = \<lparr>sn_identity = nd_identity node, accepted_ns = now,
      result_ready_ns = max_default 0 ?ends, resource_ready_ns = max_default 0 ?ends, worker_intervals = ?ws,
      accepted_cycle = None, evidence_id = None, request_available_ns = None, port_offer_ns = None,
      final_scale_release_ns = None\<rparr>"
    using ex ne by (auto simp: execute_cpu_def cpu Let_def)
  have dk: "distinct (map fst (map (\<lambda>w. (ws_resource w, now + ws_duration_ns w)) ?ws))"
    using d by (simp add: comp_def)
  have free: "free_at ?eng (ws_resource w) = now + ws_duration_ns w" if "w \<in> set ?ws" for w
    using that d by (simp add: free_at_def map_of_assign_all [OF dk] map_of_workers)
  have other: "free_at ?eng r = free_at eng r" if "r \<notin> ws_resource ` set ?ws" for r
  proof -
    have "map_of (map (\<lambda>w. (ws_resource w, now + ws_duration_ns w)) ?ws) r = None"
      using that by (auto simp: map_of_eq_None_iff image_iff)
    then show ?thesis by (simp add: free_at_def map_of_assign_all [OF dk])
  qed
  have rel: "release_ns sn (ws_resource w) = now + ws_duration_ns w" if "w \<in> set ?ws" for w
    using find_resource [OF that d] by (simp add: release_ns_def sn)
  have le: "now + ws_duration_ns w \<le> max_default 0 ?ends" if "w \<in> set ?ws" for w
  proof -
    have "free_at ?eng (ws_resource w) \<in> set ?ends" using that by simp
    from max_default_ge [OF this] free [OF that] show ?thesis by simp
  qed
  obtain w0 where w0: "w0 \<in> set ?ws" using ne by (cases ?ws) auto
  have "now \<le> max_default 0 ?ends" using le [OF w0] pos w0 by force
  then show ?thesis using res free rel le pos other k eng'
    by (auto simp: step_ok_def start_ns_def sn)
qed

lemma execute_structural_ok:
  assumes "execute_structural eng node now = Inr (sn, eng')" and "nd_kind node \<noteq> NPU"
  shows "step_ok sc eng node now sn eng' \<and> en_provider eng' = en_provider eng"
  using assms by (auto simp: execute_structural_def ensure_eq_Inr step_ok_def start_ns_def)

lemma reserve_free:
  assumes "distinct (nd_resources node)"
  shows "free_at (reserve eng node t p) r = (if r \<in> set (nd_resources node) then t else free_at eng r)"
proof -
  have "map_of (map (\<lambda>r. (r, t)) rs) r = (if r \<in> set rs then Some t else None)" for rs by (induction rs) auto
  then show ?thesis using assms by (simp add: free_at_def reserve_def map_of_assign_all comp_def)
qed

text \<open>A time that is its own earliest time for an NPU node is a clock edge.\<close>

lemma npu_edge:
  assumes f: "npu_frequency_hz sc > 0" and e: "now = earliest P sc eng node now" and k: "nd_kind node = NPU"
    and nn: "0 \<le> now"
  shows "of_int (trunc (now / cycle_ns sc)) * cycle_ns sc = now"
proof -
  let ?c = "cycle_ns sc"
  from e k have "now = of_int \<lceil>max now (bound P sc eng node) / ?c\<rceil> * ?c"
    by (simp add: earliest_bound align_def)
  then obtain m where m: "now = of_int m * ?c" by blast
  then have "now / ?c = of_int m" using cycle_ns_pos [OF f] by simp
  with m show ?thesis by (simp add: trunc_def)
qed

lemma start_ns_request: "start_ns (sn\<lparr>request_available_ns := x\<rparr>) = start_ns sn"
  by (cases "port_offer_ns sn") (simp_all add: start_ns_def)

lemma release_ns_request: "release_ns (sn\<lparr>request_available_ns := x\<rparr>) r = release_ns sn r"
  by (cases "find (\<lambda>w. ws_resource w = r) (worker_intervals sn)") (simp_all add: release_ns_def)

lemma step_ok_request: "step_ok sc eng node now (sn\<lparr>request_available_ns := x\<rparr>) eng' = step_ok sc eng node now sn eng'"
  by (simp add: step_ok_def start_ns_request release_ns_request)

section \<open>What a schedule promises\<close>

text \<open>A schedule of a set of nodes: each entry belongs to one node and its times are in order; its
  start is not before the required milestone of any dependency, which is in the schedule; NPU
  entries are accepted on a clock edge; starts never decrease; and a resource is started again only
  after every earlier entry that used it has released it.\<close>

definition entry_ok :: "Scenario \<Rightarrow> ScheduledNode list \<Rightarrow> Node \<Rightarrow> ScheduledNode \<Rightarrow> bool" where
  "entry_ok sc sns n sn \<longleftrightarrow>
     0 \<le> start_ns sn \<and> start_ns sn \<le> accepted_ns sn \<and> accepted_ns sn \<le> result_ready_ns sn \<and>
     result_ready_ns sn \<le> resource_ready_ns sn \<and>
     (\<forall>e \<in> set (nd_dependencies n). \<exists>d \<in> set sns. sn_identity d = dep_node e \<and>
        milestone d (dep_milestone e) \<le> start_ns sn) \<and>
     (nd_kind n = NPU \<longrightarrow> (\<exists>k. accepted_cycle sn = Some k \<and> accepted_ns sn = of_int k * cycle_ns sc))"

definition exclusive :: "Node list \<Rightarrow> ScheduledNode \<Rightarrow> ScheduledNode \<Rightarrow> bool" where
  "exclusive nodes a b \<longleftrightarrow> start_ns a \<le> start_ns b \<and>
     (\<forall>n \<in> set nodes. \<forall>m \<in> set nodes. sn_identity a = nd_identity n \<longrightarrow> sn_identity b = nd_identity m \<longrightarrow>
        (\<forall>r \<in> set (nd_resources n) \<inter> set (nd_resources m). release_ns a r \<le> start_ns b))"

definition schedule_prefix :: "Scenario \<Rightarrow> Node list \<Rightarrow> ScheduledNode list \<Rightarrow> bool" where
  "schedule_prefix sc nodes sns \<longleftrightarrow>
     (\<forall>n \<in> set nodes. \<forall>sn \<in> set sns. sn_identity sn = nd_identity n \<longrightarrow> entry_ok sc sns n sn) \<and>
     sorted_wrt (exclusive nodes) sns"

definition valid_schedule :: "Scenario \<Rightarrow> Node list \<Rightarrow> ScheduledNode list \<Rightarrow> bool" where
  "valid_schedule sc nodes sns \<longleftrightarrow> distinct (map sn_identity sns) \<and>
     set (map sn_identity sns) = set (map nd_identity nodes) \<and> schedule_prefix sc nodes sns"

section \<open>What the engine relies on\<close>

locale timing_contract =
  fixes P :: "'p timing_provider" and provider_ok :: "'p \<Rightarrow> bool"
  assumes estimate_window: "provider_ok p \<Longrightarrow> tp_estimate P p w c = Inr (s, p') \<Longrightarrow>
      0 < result_ready_cycles s \<and> result_ready_cycles s \<le> resource_ready_cycles s \<and> provider_ok p'"
    and execute_window: "provider_ok p \<Longrightarrow> tp_execute P p w c = Inr (win, p') \<Longrightarrow>
      win_offered_cycle win = c \<and> c \<le> win_accepted_cycle win \<and>
      win_accepted_cycle win < win_result_ready_cycle win \<and>
      win_result_ready_cycle win \<le> win_resource_ready_cycle win \<and> provider_ok p'"
begin

lemma execute_npu_ok:
  assumes ex: "execute_npu P sc services eng node now = Inr (sn, eng')"
    and f: "npu_frequency_hz sc > 0" and k: "nd_kind node = NPU" and nn: "0 \<le> now"
    and e: "now = earliest P sc eng node now" and d: "distinct (nd_resources node)" and p: "provider_ok (en_provider eng)"
  shows "step_ok sc eng node now sn eng' \<and> provider_ok (en_provider eng')"
proof -
  let ?c = "cycle_ns sc" and ?o = "trunc (now / cycle_ns sc)"
  have c: "?c > 0" using f by (rule cycle_ns_pos)
  have edge: "of_int ?o * ?c = now" using f e k nn by (rule npu_edge)
  show ?thesis
  proof (cases "stateful P")
    case True
    with ex obtain work win p' where
      win: "tp_execute P (en_provider eng) work ?o = Inr (win, p')"
      and sn: "sn = \<lparr>sn_identity = nd_identity node, accepted_ns = of_int (win_accepted_cycle win) * ?c,
             result_ready_ns = of_int (win_result_ready_cycle win) * ?c,
             resource_ready_ns = of_int (win_resource_ready_cycle win) * ?c,
             worker_intervals = [], accepted_cycle = Some (win_accepted_cycle win),
             evidence_id = Some (ad_certificate_sha256 (win_admission win)), request_available_ns = None,
             port_offer_ns = Some (of_int (win_offered_cycle win) * ?c),
             final_scale_release_ns = Some (of_int (win_final_scale_release_cycle win) * ?c)\<rparr>"
      and eng': "eng' = reserve eng node (of_int (win_resource_ready_cycle win) * ?c) p'"
      by (auto simp: execute_npu_def bnd_eq_Inr ensure_eq_Inr Let_def)
    note w = execute_window [OF p win]
    have m: "of_int a * ?c \<le> of_int b * ?c" if "a \<le> b" for a b using that c by (simp add: mult_right_mono)
    have "now \<le> of_int (win_accepted_cycle win) * ?c" using m [of ?o "win_accepted_cycle win"] w edge by simp
    moreover have "of_int (win_accepted_cycle win) * ?c < of_int (win_result_ready_cycle win) * ?c"
      using w c by simp
    moreover have "of_int (win_result_ready_cycle win) * ?c \<le> of_int (win_resource_ready_cycle win) * ?c"
      using w by (intro m) simp
    ultimately show ?thesis using w edge d
      by (auto simp: step_ok_def start_ns_def release_ns_def sn eng' reserve_free)
        (simp_all add: reserve_def)
  next
    case False
    with ex obtain work s p' where
      s: "tp_estimate P (en_provider eng) work ?o = Inr (s, p')"
      and sn: "sn = \<lparr>sn_identity = nd_identity node, accepted_ns = now,
             result_ready_ns = now + of_int (result_ready_cycles s) * ?c,
             resource_ready_ns = now + of_int (resource_ready_cycles s) * ?c,
             worker_intervals = [], accepted_cycle = Some ?o, evidence_id = Some (ns_evidence_id s),
             request_available_ns = None, port_offer_ns = None, final_scale_release_ns = None\<rparr>"
      and eng': "eng' = reserve eng node (now + of_int (resource_ready_cycles s) * ?c) p'"
      by (auto simp: execute_npu_def bnd_eq_Inr ensure_eq_Inr Let_def)
    note w = estimate_window [OF p s]
    have "0 < of_int (result_ready_cycles s) * ?c" using w c by simp
    moreover have "of_int (result_ready_cycles s) * ?c \<le> of_int (resource_ready_cycles s) * ?c"
      using w c by (simp add: mult_right_mono)
    ultimately show ?thesis using w edge d
      by (auto simp: step_ok_def start_ns_def release_ns_def sn eng' reserve_free)
        (simp_all add: reserve_def)
  qed
qed

lemma execute_ok:
  assumes ex: "execute P sc services eng node now ra = Inr (sn, eng')" and vs: "valid_services services"
    and f: "npu_frequency_hz sc > 0" and nn: "0 \<le> now" and d: "distinct (nd_resources node)"
    and p: "provider_ok (en_provider eng)"
  shows "step_ok sc eng node now sn eng' \<and> provider_ok (en_provider eng')"
proof -
  from ex obtain sn0 where e: "now = earliest P sc eng node now"
    and sn: "sn = sn0\<lparr>request_available_ns := (if stateful P then ra else None)\<rparr>"
    and run: "(if cpu_kind (nd_kind node) then execute_cpu services eng node now
          else if nd_kind node = NPU then execute_npu P sc services eng node now
          else execute_structural eng node now) = Inr (sn0, eng')"
    by (auto simp: execute_def bnd_eq_Inr ensure_eq_Inr)
  have "step_ok sc eng node now sn0 eng' \<and> provider_ok (en_provider eng')"
  proof (cases "cpu_kind (nd_kind node)")
    case True
    with run execute_cpu_ok [OF _ vs, of eng node now sn0 eng' sc] p show ?thesis by (auto simp: cpu_kind_def)
  next
    case False
    show ?thesis
    proof (cases "nd_kind node = NPU")
      case True
      with run False execute_npu_ok [OF _ f True nn e d p] show ?thesis by simp
    next
      case F: False
      with run False execute_structural_ok [OF _ F, of eng now sn0 eng' sc] p show ?thesis by simp
    qed
  qed
  then show ?thesis by (simp add: sn step_ok_request)
qed

text \<open>The loop invariant.\<close>

definition sched_inv :: "Scenario \<Rightarrow> ExecutionIR \<Rightarrow> (string, ScheduledNode) dict \<Rightarrow> (string, Node) dict \<Rightarrow>
    'p engine \<Rightarrow> rat \<Rightarrow> bool" where
  "sched_inv sc ir completed pend eng now \<longleftrightarrow> 0 \<le> now \<and> provider_ok (en_provider eng) \<and>
     (\<forall>(i, sn) \<in> set completed. sn_identity sn = i \<and> start_ns sn \<le> now) \<and>
     (\<forall>n \<in> set (ir_nodes ir). \<forall>(i, sn) \<in> set completed. i = nd_identity n \<longrightarrow>
        (\<forall>r \<in> set (nd_resources n). release_ns sn r \<le> free_at eng r)) \<and>
     schedule_prefix sc (ir_nodes ir) (map snd completed)"

lemma sched_inv_adv: "sched_inv sc ir completed pend eng now \<Longrightarrow> now \<le> t \<Longrightarrow> sched_inv sc ir completed pend eng t"
  unfolding sched_inv_def by (fastforce intro: order_trans)

lemma sched_inv_step:
  assumes inv: "sched_inv sc ir completed pend eng now" and pinv: "pend_inv ir completed pend"
    and ir: "valid_ir ir" and vs: "valid_services services" and f: "npu_frequency_hz sc > 0"
    and n: "n \<in> snd ` set pend" and rs: "resolved completed n" and rt: "ready_time completed n \<le> now"
    and e: "now = earliest P sc eng n now"
    and ex: "execute P sc services eng n now ra = Inr (sn, eng')"
  shows "sched_inv sc ir (completed @ [(nd_identity n, sn)]) (AList.delete (nd_identity n) pend) eng' now"
proof -
  let ?sns = "map snd completed" and ?nodes = "ir_nodes ir"
  have nn: "0 \<le> now" and p: "provider_ok (en_provider eng)"
    and ids: "\<forall>(i, sn) \<in> set completed. sn_identity sn = i \<and> start_ns sn \<le> now"
    and free: "\<forall>n \<in> set ?nodes. \<forall>(i, sn) \<in> set completed. i = nd_identity n \<longrightarrow>
        (\<forall>r \<in> set (nd_resources n). release_ns sn r \<le> free_at eng r)"
    and pre: "schedule_prefix sc ?nodes ?sns"
    using inv unfolding sched_inv_def by blast+
  have nodes: "n \<in> set ?nodes" using pinv n unfolding pend_inv_def by fastforce
  have dn: "distinct (map nd_identity ?nodes)" and vn: "valid_node ?nodes n"
    using ir nodes by (simp_all add: valid_ir_def)
  have uniq: "m = n" if "m \<in> set ?nodes" "nd_identity m = nd_identity n" for m
    using dn that nodes by (auto simp: distinct_map inj_on_def)
  from execute_ok [OF ex vs f nn _ p] vn have ok: "step_ok sc eng n now sn eng'" and p': "provider_ok (en_provider eng')"
    by (simp_all add: valid_node_def)
  note ok = ok [unfolded step_ok_def]
  have ok_id: "sn_identity sn = nd_identity n" and ok_start: "start_ns sn = now" using ok by blast+
  have entry: "entry_ok sc (?sns @ [sn]) n sn"
  proof -
    have "\<exists>d \<in> set (?sns @ [sn]). sn_identity d = dep_node x \<and> milestone d (dep_milestone x) \<le> start_ns sn"
      if x: "x \<in> set (nd_dependencies n)" for x
    proof -
      from rs x have "dep_node x \<in> fst ` set completed" by (simp add: resolved_def list_all_iff has_key_def)
      then obtain d where d: "map_of completed (dep_node x) = Some d" by (metis map_of_eq_None_iff not_None_eq)
      then have m: "(dep_node x, d) \<in> set completed" by (rule map_of_SomeD)
      have "milestone d (dep_milestone x) \<le> ready_time completed n"
        unfolding ready_time_def using x d by (intro max_default_ge) force
      with rt have "milestone d (dep_milestone x) \<le> now" by simp
      moreover have "sn_identity d = dep_node x" using bspec [OF ids m] by simp
      moreover have "d \<in> set (?sns @ [sn])" using m by force
      ultimately show ?thesis using ok by blast
    qed
    with ok nn show ?thesis by (auto simp: entry_ok_def)
  qed
  have old: "entry_ok sc (?sns @ [sn]) m s" if "m \<in> set ?nodes" "s \<in> set ?sns" "sn_identity s = nd_identity m" for m s
    using pre that unfolding schedule_prefix_def entry_ok_def by (metis (no_types, lifting) Un_iff set_append)
  have excl: "exclusive ?nodes s sn" if "s \<in> set ?sns" for s
  proof -
    from that obtain i where s: "(i, s) \<in> set completed" by auto
    have st: "start_ns s \<le> start_ns sn" using s ids ok_start by auto
    have rel: "release_ns s r \<le> start_ns sn"
      if "a \<in> set ?nodes" "sn_identity s = nd_identity a" "r \<in> set (nd_resources a)" "r \<in> set (nd_resources n)" for a r
    proof -
      have "release_ns s r \<le> free_at eng r" using free s ids that by fastforce
      also have "\<dots> \<le> earliest P sc eng n now" using earliest_free [OF f that(4)] .
      finally show ?thesis using e ok_start by simp
    qed
    show ?thesis unfolding exclusive_def
    proof (intro conjI ballI impI)
      show "start_ns s \<le> start_ns sn" by (rule st)
      fix a b r assume a: "a \<in> set ?nodes" "b \<in> set ?nodes" "sn_identity s = nd_identity a"
        and b: "sn_identity sn = nd_identity b" and r: "r \<in> set (nd_resources a) \<inter> set (nd_resources b)"
      have "b = n" using uniq [OF a(2)] b ok_id by simp
      with rel [OF a(1,3)] r show "release_ns s r \<le> start_ns sn" by simp
    qed
  qed
  have "schedule_prefix sc ?nodes (?sns @ [sn])"
    unfolding schedule_prefix_def
  proof (intro conjI ballI impI)
    show "sorted_wrt (exclusive ?nodes) (?sns @ [sn])"
      using pre excl by (simp add: schedule_prefix_def sorted_wrt_append)
    fix m s assume m: "m \<in> set ?nodes" "s \<in> set (?sns @ [sn])" "sn_identity s = nd_identity m"
    show "entry_ok sc (?sns @ [sn]) m s"
    proof (cases "s = sn")
      case True
      with uniq [OF m(1)] m(3) ok_id have "m = n" by simp
      with entry True show ?thesis by simp
    next
      case False
      with m(2) have "s \<in> set ?sns" by simp
      with m show ?thesis by (intro old)
    qed
  qed
  moreover have "release_ns s r \<le> free_at eng' r" if "a \<in> set ?nodes" "(nd_identity a, s) \<in> set completed" "r \<in> set (nd_resources a)" for a s r
  proof -
    have le: "release_ns s r \<le> free_at eng r" using free that by fastforce
    show ?thesis
    proof (cases "r \<in> set (nd_resources n)")
      case True
      then have "free_at eng r \<le> now" using earliest_free [OF f True, of eng P now] e by simp
      with le ok True show ?thesis by (metis order_trans)
    next
      case False
      with le ok show ?thesis by simp
    qed
  qed
  moreover have "release_ns sn r \<le> free_at eng' r" if "a \<in> set ?nodes" "nd_identity a = nd_identity n" "r \<in> set (nd_resources a)" for a r
    using uniq [OF that(1,2)] that(3) ok by simp
  ultimately show ?thesis unfolding sched_inv_def using nn p' ids ok by auto
qed

text \<open>The loop from the start.\<close>

lemma schedule_loop_valid:
  assumes ir: "valid_ir ir" and vs: "valid_services services" and f: "npu_frequency_hz sc > 0" and p: "provider_ok p"
  shows "\<exists>r. schedule_loop P sc services (map (\<lambda>n. (nd_identity n, n)) (ir_nodes ir)) []
       \<lparr>resource_free = [], en_provider = p\<rparr> 0 = Some r \<and>
    (case r of
       Inl e \<Rightarrow> \<exists>eng now n ready. n \<in> set (ir_nodes ir) \<and> provider_ok (en_provider eng) \<and> 0 \<le> now \<and>
         now = earliest P sc eng n now \<and> execute P sc services eng n now ready = Inl e
     | Inr (completed, eng) \<Rightarrow> valid_schedule sc (ir_nodes ir) (map snd completed) \<and> provider_ok (en_provider eng))"
proof -
  let ?pend = "map (\<lambda>n. (nd_identity n, n)) (ir_nodes ir)"
  have pinv: "pend_inv ir [] ?pend"
    using ir by (auto simp: pend_inv_def wf_dict_def valid_ir_def comp_def image_iff)
  have inv: "sched_inv sc ir [] ?pend \<lparr>resource_free = [], en_provider = p\<rparr> 0"
    using p by (simp add: sched_inv_def schedule_prefix_def)
  have "\<exists>r. schedule_loop P sc services ?pend [] \<lparr>resource_free = [], en_provider = p\<rparr> 0 = Some r \<and>
    (case r of
       Inl e \<Rightarrow> \<exists>completed' pend' eng' now' n. sched_inv sc ir completed' pend' eng' now' \<and> pend_inv ir completed' pend' \<and>
         n \<in> snd ` set pend' \<and> resolved completed' n \<and> now' = earliest P sc eng' n now' \<and>
         execute P sc services eng' n now' (Some (ready_time completed' n)) = Inl e
     | Inr (completed', eng') \<Rightarrow> pend_inv ir completed' [] \<and> (\<exists>now'. sched_inv sc ir completed' [] eng' now'))"
  proof (rule schedule_loop_rule [where I = "sched_inv sc ir", OF f ir pinv inv])
    show "sched_inv sc ir c pd en t" if "sched_inv sc ir c pd en nw" "nw \<le> t" for c pd en nw t
      using that by (rule sched_inv_adv)
    show "sched_inv sc ir (c @ [(nd_identity n, sn)]) (AList.delete (nd_identity n) pd) en' nw"
      if "sched_inv sc ir c pd en nw" "pend_inv ir c pd" "n \<in> snd ` set pd" "resolved c n" "ready_time c n \<le> nw"
        "nw = earliest P sc en n nw" "execute P sc services en n nw (Some (ready_time c n)) = Inr (sn, en')"
      for c pd en nw n sn en'
      by (rule sched_inv_step [OF that(1,2) ir vs f that(3-7)])
  qed
  then obtain r where r: "schedule_loop P sc services ?pend [] \<lparr>resource_free = [], en_provider = p\<rparr> 0 = Some r"
    and q: "case r of
       Inl e \<Rightarrow> \<exists>completed' pend' eng' now' n. sched_inv sc ir completed' pend' eng' now' \<and> pend_inv ir completed' pend' \<and>
         n \<in> snd ` set pend' \<and> resolved completed' n \<and> now' = earliest P sc eng' n now' \<and>
         execute P sc services eng' n now' (Some (ready_time completed' n)) = Inl e
     | Inr (completed', eng') \<Rightarrow> pend_inv ir completed' [] \<and> (\<exists>now'. sched_inv sc ir completed' [] eng' now')"
    by blast
  show ?thesis
  proof (cases r)
    case (Inl e)
    from q [unfolded Inl] obtain completed' pend' eng' now' n where "sched_inv sc ir completed' pend' eng' now'"
      "pend_inv ir completed' pend'" "n \<in> snd ` set pend'" "now' = earliest P sc eng' n now'"
      "execute P sc services eng' n now' (Some (ready_time completed' n)) = Inl e"
      unfolding sum.case by blast
    moreover from this have "n \<in> set (ir_nodes ir)" unfolding pend_inv_def by fastforce
    ultimately show ?thesis using r Inl by (auto simp: sched_inv_def)
  next
    case (Inr ce)
    obtain completed eng where ce: "ce = (completed, eng)" by force
    with q Inr have pi: "pend_inv ir completed []" and "\<exists>now. sched_inv sc ir completed [] eng now" by auto
    then have ids: "map sn_identity (map snd completed) = map fst completed"
      and "schedule_prefix sc (ir_nodes ir) (map snd completed)" and ok: "provider_ok (en_provider eng)"
      by (auto simp: sched_inv_def)
    moreover have "distinct (map fst completed)" "fst ` set completed = nd_identity ` set (ir_nodes ir)"
      using pi by (simp_all add: pend_inv_def wf_dict_def)
    ultimately have "valid_schedule sc (ir_nodes ir) (map snd completed)"
      unfolding valid_schedule_def ids by simp
    with r Inr ce ok show ?thesis by simp
  qed
qed

end


section \<open>The acceptance-phase table as a provider\<close>

definition phase_table_provider :: "PhaseTable \<Rightarrow> unit timing_provider" where
  "phase_table_provider t =
     \<lparr>tp_class = TableProvider, tp_admission = None, tp_requests = [], tp_scope = ''SYNTHETIC_ONLY'',
      tp_completed = (\<lambda>_. {}), tp_previous = (\<lambda>_. 0),
      tp_estimate = (\<lambda>p w c. bnd (pt_estimate t w c) (\<lambda>s. Inr (s, p))),
      tp_execute = (\<lambda>_ _ _. Inl (TypeError ''no stateful execution'')), tp_verify_complete = (\<lambda>_. Inr ())\<rparr>"

text \<open>The samples of a table are constructed services.\<close>

definition valid_table :: "PhaseTable \<Rightarrow> bool" where
  "valid_table t \<longleftrightarrow> (\<forall>(k, s) \<in> set (pt_samples t). NpuService_check s = Inr s)"

lemma pt_estimate_valid: "valid_table t \<Longrightarrow> pt_estimate t w c = Inr s \<Longrightarrow> NpuService_check s = Inr s"
  by (auto simp: pt_estimate_def ensure_eq_Inr valid_table_def split: option.splits dest!: map_of_SomeD)

interpretation pt: timing_contract "phase_table_provider t" "\<lambda>_. valid_table t" for t
proof
  fix p :: unit and w c s p'
  assume v: "valid_table t" and "tp_estimate (phase_table_provider t) p w c = Inr (s, p')"
  then have "pt_estimate t w c = Inr s" by (auto simp: phase_table_provider_def bnd_eq_Inr)
  from pt_estimate_valid [OF v this]
  show "0 < result_ready_cycles s \<and> result_ready_cycles s \<le> resource_ready_cycles s \<and> valid_table t"
    using v by (simp add: NpuService_check_def ensure_eq_Inr)
qed (simp add: phase_table_provider_def)

section \<open>Properties of \<open>schedule\<close>\<close>

lemma gate_frequency: "gate ld ir services P sc = Inr u \<Longrightarrow> npu_frequency_hz sc > 0"
  by (auto simp: gate_def validate_environment_def bnd_eq_Inr ensure_eq_Inr)

lemma schedule_result_valid:
  assumes "timing_contract P provider_ok" and "provider_ok p" and "valid_ir ir" and "valid_services services"
    and "schedule load_selection src ir services P p sc = Some (Inr result)"
  shows "valid_schedule sc (ir_nodes ir) (sr_nodes result) \<and>
    (\<exists>p'. provider_ok p' \<and> complete_provider P sc p' = Inr ())"
proof -
  from assms(5) obtain u where g: "gate load_selection ir services P sc = Inr u"
    by (auto simp: schedule_def split: sum.splits)
  from timing_contract.schedule_loop_valid [OF assms(1,3,4) gate_frequency [OF g] assms(2)]
  obtain r where r: "schedule_loop P sc services (map (\<lambda>n. (nd_identity n, n)) (ir_nodes ir)) []
       \<lparr>resource_free = [], en_provider = p\<rparr> 0 = Some r"
    and q: "case r of
       Inl e \<Rightarrow> \<exists>eng now n ready. n \<in> set (ir_nodes ir) \<and> provider_ok (en_provider eng) \<and> 0 \<le> now \<and>
         now = earliest P sc eng n now \<and> execute P sc services eng n now ready = Inl e
     | Inr (completed, eng) \<Rightarrow> valid_schedule sc (ir_nodes ir) (map snd completed) \<and> provider_ok (en_provider eng)" by blast
  from assms(5) g r obtain completed eng where "r = Inr (completed, eng)" "sr_nodes result = map snd completed"
    "complete_provider P sc (en_provider eng) = Inr ()"
    by (auto simp: schedule_def bnd_eq_Inr)
  with q show ?thesis by auto
qed

lemma schedule_outcome:
  assumes "timing_contract P provider_ok" and "provider_ok p" and "valid_ir ir" and "valid_services services"
  shows "\<exists>r. schedule load_selection src ir services P p sc = Some r \<and>
    (\<forall>e. r = Inl e \<longrightarrow>
       gate load_selection ir services P sc = Inl e \<or>
       (\<exists>eng now n ready. n \<in> set (ir_nodes ir) \<and> 0 \<le> now \<and> now = earliest P sc eng n now \<and>
          execute P sc services eng n now ready = Inl e) \<or>
       (\<exists>p'. complete_provider P sc p' = Inl e) \<or> service_binding P sc = Inl e)"
proof (cases "gate load_selection ir services P sc")
  case (Inl e)
  then show ?thesis by (simp add: schedule_def)
next
  case (Inr u)
  from timing_contract.schedule_loop_valid [OF assms(1,3,4) gate_frequency [OF Inr] assms(2)]
  obtain r where r: "schedule_loop P sc services (map (\<lambda>n. (nd_identity n, n)) (ir_nodes ir)) []
       \<lparr>resource_free = [], en_provider = p\<rparr> 0 = Some r"
    and q: "case r of
       Inl e \<Rightarrow> \<exists>eng now n ready. n \<in> set (ir_nodes ir) \<and> provider_ok (en_provider eng) \<and> 0 \<le> now \<and>
         now = earliest P sc eng n now \<and> execute P sc services eng n now ready = Inl e
     | Inr (completed, eng) \<Rightarrow> valid_schedule sc (ir_nodes ir) (map snd completed) \<and> provider_ok (en_provider eng)" by blast
  show ?thesis
  proof (cases r)
    case (Inl e)
    from q [unfolded Inl] have "\<exists>eng now n ready. n \<in> set (ir_nodes ir) \<and> 0 \<le> now \<and>
        now = earliest P sc eng n now \<and> execute P sc services eng n now ready = Inl e" unfolding sum.case by blast
    then show ?thesis using Inr r Inl by (simp add: schedule_def)
  next
    case I: (Inr ce)
    obtain completed eng where ce: "ce = (completed, eng)" by force
    have s: "schedule load_selection src ir services P p sc =
        Some (bnd (complete_provider P sc (en_provider eng)) (\<lambda>_. bnd (service_binding P sc) (\<lambda>binding.
          Inr \<lparr>sr_nodes = map snd completed, sr_scope = sc_scope sc, service_validation_scope = validation_scope P,
               service_binding_record = binding, source_binding = (if stateful P then Some src else None)\<rparr>)))"
      using Inr r I ce by (simp add: schedule_def)
    show ?thesis unfolding s by (auto simp: bnd_eq_Inl)
  qed
qed

text \<open>C2. A schedule that is returned is valid, for every provider that keeps the timing contract:
  every node of the graph is scheduled exactly once; its start, acceptance, result and release are
  in order; it starts no earlier than the required milestone of each of its dependencies; NPU work
  is accepted on an edge of the NPU clock; starts never decrease in the order of the result; and a
  resource is never given to a node before all earlier users have released it.\<close>

theorem schedule_valid:
  assumes "timing_contract P provider_ok" and "provider_ok p" and "valid_ir ir" and "valid_services services"
    and "schedule load_selection src ir services P p sc = Some (Inr result)"
  shows "valid_schedule sc (ir_nodes ir) (sr_nodes result)"
  using schedule_result_valid [OF assms] by blast

text \<open>C5. \<open>schedule\<close> returns on every valid graph: the loop never runs forever and never reports a
  stall. An error it raises is one of the gate, of the engine on a node that is ready at that
  time, or of the completion checks.\<close>

theorem schedule_returns:
  assumes "timing_contract P provider_ok" and "provider_ok p" and "valid_ir ir" and "valid_services services"
  shows "\<exists>r. schedule load_selection src ir services P p sc = Some r \<and>
    (\<forall>e. r = Inl e \<longrightarrow>
       gate load_selection ir services P sc = Inl e \<or>
       (\<exists>eng now n ready. n \<in> set (ir_nodes ir) \<and> 0 \<le> now \<and> now = earliest P sc eng n now \<and>
          execute P sc services eng n now ready = Inl e) \<or>
       (\<exists>p'. complete_provider P sc p' = Inl e) \<or> service_binding P sc = Inl e)"
  using assms by (rule schedule_outcome)

text \<open>A table that has a sample for every NPU work of the services at every acceptance phase.\<close>

definition table_covers :: "PhaseTable \<Rightarrow> Services \<Rightarrow> bool" where
  "table_covers t services \<longleftrightarrow> pt_period t > 0 \<and>
     (\<forall>(i, w) \<in> set (sv_npu services). \<forall>k \<in> {0..<pt_period t}.
        map_of (pt_samples t) (nw_profile w, nw_request_sha256 w, k) \<noteq> None)"

lemma gate_cpu:
  assumes "gate ld ir services P sc = Inr u" "n \<in> set (ir_nodes ir)" "cpu_kind (nd_kind n)"
  shows "\<exists>cpu. cpu_lookup services n = Inr cpu"
proof -
  from assms(1) [unfolded gate_def Let_def bnd_eq_Inr ensure_eq_Inr] obtain us where
    "mapr (check_cpu_node services) (ir_nodes ir) = Inr us" by (elim exE conjE)
  from mapr_mem [OF this assms(2)] assms(3) show ?thesis by (auto simp: check_cpu_node_def bnd_eq_Inr)
qed

lemma gate_npu:
  assumes "gate ld ir services P sc = Inr u" "n \<in> set (ir_nodes ir)" "nd_kind n = NPU"
  shows "\<exists>i w. npu_lookup services n = Inr w \<and> (i, w) \<in> set (sv_npu services)"
proof -
  from assms(1) [unfolded gate_def Let_def bnd_eq_Inr ensure_eq_Inr]
  have "set (map nd_service (filter (\<lambda>n. nd_kind n = NPU) (ir_nodes ir))) = Some ` set (map fst (sv_npu services))"
    by (elim exE conjE)
  moreover have "nd_service n \<in> set (map nd_service (filter (\<lambda>n. nd_kind n = NPU) (ir_nodes ir)))"
    using assms(2,3) by simp
  ultimately have "nd_service n \<in> Some ` set (map fst (sv_npu services))" by simp
  then obtain s w where "nd_service n = Some s" "map_of (sv_npu services) s = Some w"
    by (auto simp: map_of_eq_None_iff dest!: weak_map_of_SomeI)
  then show ?thesis by (auto simp: npu_lookup_def service_id_def dest: map_of_SomeD)
qed

lemma gate_table: "gate ld ir services (phase_table_provider t) sc = Inr u \<Longrightarrow> sc_scope sc = ''SYNTHETIC''"
  by (auto simp: gate_def validate_environment_def validate_reconstructed_def phase_table_provider_def bnd_eq_Inr
      ensure_eq_Inr split: option.splits)

lemma execute_table_total:
  assumes g: "gate ld ir services (phase_table_provider t) sc = Inr u" and n: "n \<in> set (ir_nodes ir)"
    and ir: "valid_ir ir" and vs: "valid_services services" and cov: "table_covers t services"
    and e: "now = earliest (phase_table_provider t) sc eng n now"
  shows "execute (phase_table_provider t) sc services eng n now ready \<noteq> Inl err"
proof -
  have st: "\<not> stateful (phase_table_provider t)" by (simp add: stateful_def phase_table_provider_def)
  have vn: "valid_node (ir_nodes ir) n" using ir n by (simp add: valid_ir_def)
  consider "cpu_kind (nd_kind n)" | "nd_kind n = NPU" | "\<not> service_kind (nd_kind n)"
    by (auto simp: cpu_kind_def service_kind_def)
  then show ?thesis
  proof cases
    case 1
    from gate_cpu [OF g n 1] obtain cpu where cpu: "cpu_lookup services n = Inr cpu" by blast
    with cpu_lookup_Inr [OF cpu] vs have "cpu_workers cpu \<noteq> []" by (auto simp: valid_services_def valid_cpu_def)
    with 1 cpu e show ?thesis by (simp add: execute_def execute_cpu_def Let_def ensure_def)
  next
    case 2
    from gate_npu [OF g n 2] obtain i w where w: "npu_lookup services n = Inr w" "(i, w) \<in> set (sv_npu services)" by blast
    have "trunc (now / cycle_ns sc) mod pt_period t \<in> {0..<pt_period t}"
      using cov by (simp add: table_covers_def)
    with cov w(2) have "map_of (pt_samples t) (nw_profile w, nw_request_sha256 w, trunc (now / cycle_ns sc) mod pt_period t) \<noteq> None"
      unfolding table_covers_def by blast
    then obtain s where "pt_estimate t w (trunc (now / cycle_ns sc)) = Inr s"
      using cov by (auto simp: table_covers_def pt_estimate_def)
    then show ?thesis using 2 w(1) e st gate_table [OF g]
      by (simp add: execute_def execute_npu_def cpu_kind_def ensure_def phase_table_provider_def stateful_def Let_def)
  next
    case 3
    with vn have "nd_resources n = []" "nd_service n = None" by (simp_all add: valid_node_def)
    with 3 e show ?thesis
      by (auto simp: execute_def execute_structural_def ensure_def service_kind_def cpu_kind_def)
  qed
qed

lemma schedule_table_result:
  assumes "valid_ir ir" and "valid_services services" and "valid_table t" and "table_covers t services"
    and g: "gate load_selection ir services (phase_table_provider t) sc = Inr u"
  shows "\<exists>result. schedule load_selection src ir services (phase_table_provider t) () sc = Some (Inr result) \<and>
    valid_schedule sc (ir_nodes ir) (sr_nodes result)"
proof -
  let ?P = "phase_table_provider t"
  have st: "\<not> stateful ?P" by (simp add: stateful_def phase_table_provider_def)
  from schedule_outcome [OF pt.timing_contract_axioms assms(3,1,2), of load_selection src "()" sc]
  obtain r where r: "schedule load_selection src ir services ?P () sc = Some r"
    and err: "\<forall>e. r = Inl e \<longrightarrow> gate load_selection ir services ?P sc = Inl e \<or>
       (\<exists>eng now n ready. n \<in> set (ir_nodes ir) \<and> 0 \<le> now \<and> now = earliest ?P sc eng n now \<and>
          execute ?P sc services eng n now ready = Inl e) \<or>
       (\<exists>p'. complete_provider ?P sc p' = Inl e) \<or> service_binding ?P sc = Inl e" by blast
  have "r \<noteq> Inl e" for e
  proof
    assume "r = Inl e"
    with err have "gate load_selection ir services ?P sc = Inl e \<or>
       (\<exists>eng now n ready. n \<in> set (ir_nodes ir) \<and> 0 \<le> now \<and> now = earliest ?P sc eng n now \<and>
          execute ?P sc services eng n now ready = Inl e) \<or>
       (\<exists>p'. complete_provider ?P sc p' = Inl e) \<or> service_binding ?P sc = Inl e" by blast
    moreover have "complete_provider ?P sc p' \<noteq> Inl e" for p'
      using st gate_table [OF g] by (simp add: complete_provider_def)
    moreover have "service_binding ?P sc \<noteq> Inl e" using gate_table [OF g] by (simp add: service_binding_def)
    ultimately show False using g execute_table_total [OF g _ assms(1,2,4)] by auto
  qed
  then obtain result where "r = Inr result" by (cases r) auto
  with r schedule_result_valid [OF pt.timing_contract_axioms assms(3,1,2)] show ?thesis by blast
qed

text \<open>C17. With a table that covers every work and acceptance phase, a graph and services that pass the
  gate always get a schedule, and it is valid.\<close>

theorem schedule_table_total:
  assumes "valid_ir ir" and "valid_services services" and "valid_table t" and "table_covers t services"
    and g: "gate load_selection ir services (phase_table_provider t) sc = Inr u"
  shows "\<exists>result. schedule load_selection src ir services (phase_table_provider t) () sc = Some (Inr result) \<and>
    valid_schedule sc (ir_nodes ir) (sr_nodes result)"
  using assms by (rule schedule_table_result)

section \<open>An example\<close>

definition ex_cpu_node :: Node where
  "ex_cpu_node = \<lparr>nd_identity = ''cpu:0'', nd_kind = CPU, nd_operation = ''op'', nd_phase = ''prefill'', nd_order = 0,
     nd_dependencies = [], nd_service = Some ''s0'', nd_resources = [''core:0'']\<rparr>"

definition ex_npu_node :: Node where
  "ex_npu_node = \<lparr>nd_identity = ''npu:0'', nd_kind = NPU, nd_operation = ''op'', nd_phase = ''prefill'', nd_order = 1,
     nd_dependencies = [\<lparr>dep_node = ''cpu:0'', dep_milestone = RESULT_READY\<rparr>], nd_service = Some ''s1'',
     nd_resources = [''npu:0'']\<rparr>"

definition ex_ir :: ExecutionIR where
  "ex_ir = \<lparr>ir_nodes = [ex_cpu_node, ex_npu_node], ir_scope = ''SYNTHETIC'', ir_source_sha256 = ''x''\<rparr>"

definition ex_services :: Services where
  "ex_services = \<lparr>sv_cpu = [(''s0'', \<lparr>cpu_source = ''FULL_CPU'', cpu_policy = ''THREAD_CPU_NS_GANG'',
       cpu_workers = [\<lparr>ws_resource = ''core:0'', ws_duration_ns = 21 / 2, ws_worker_id = Some 0,
         ws_source = ''thread_cpu_clock'', ws_unit = ''nanosecond'', ws_quantity = 10, ws_frequency_hz = None,
         ws_measurement = [], ws_resource_identity = None\<rparr>]\<rparr>)],
     sv_npu = [(''s1'', \<lparr>nw_identity = ''s1'', nw_request_sha256 = ''r'', nw_profile = ''p''\<rparr>)]\<rparr>"

definition ex_table :: PhaseTable where
  "ex_table = \<lparr>pt_period = 1, pt_samples = [((''p'', ''r'', 0),
     \<lparr>result_ready_cycles = 3, resource_ready_cycles = 5, ns_evidence_id = ''e''\<rparr>)]\<rparr>"

definition ex_scenario :: Scenario where
  "ex_scenario = \<lparr>npu_frequency_hz = 1000000000, sc_scope = ''SYNTHETIC'', clock_artifact = None, sc_profile = []\<rparr>"

definition no_clock :: "string \<Rightarrow> string \<Rightarrow> int res" where
  "no_clock path profile = Inl (ValueError path)"

lemma ex_ir_valid: "valid_ir ex_ir"
proof -
  have "ExecutionIR_check ex_ir = Inr ex_ir"
    by (simp add: ExecutionIR_check_def ex_ir_def ex_cpu_node_def ex_npu_node_def check_node_def service_kind_def
        dependency_graph_def static_order_ok.simps blocked_def)
  then show ?thesis by (simp add: ExecutionIR_check_Inr)
qed

lemma ex_services_valid: "valid_services ex_services"
  by (simp add: valid_services_def ex_services_def valid_cpu_def CPU_SOURCES_def)

lemma ex_table_valid: "valid_table ex_table" "table_covers ex_table ex_services"
  by (simp_all add: valid_table_def table_covers_def ex_table_def ex_services_def NpuService_check_def)

lemma ex_gate: "gate no_clock ex_ir ex_services (phase_table_provider ex_table) ex_scenario = Inr ()"
  by (simp add: gate_def validate_environment_def ex_ir_def ex_cpu_node_def ex_npu_node_def ex_services_def
      ex_scenario_def phase_table_provider_def stateful_def cpu_kind_def check_cpu_node_def cpu_lookup_def service_id_def)

lemma schedule_table_total_witness:
  "\<exists>result. schedule no_clock [] ex_ir ex_services (phase_table_provider ex_table) () ex_scenario = Some (Inr result) \<and>
     valid_schedule ex_scenario (ir_nodes ex_ir) (sr_nodes result)"
  by (rule schedule_table_total [OF ex_ir_valid ex_services_valid ex_table_valid ex_gate])

lemma schedule_valid_witness:
  "\<exists>result. schedule no_clock [] ex_ir ex_services (phase_table_provider ex_table) () ex_scenario = Some (Inr result) \<and>
     valid_schedule ex_scenario (ir_nodes ex_ir) (sr_nodes result)"
proof -
  obtain result where r: "schedule no_clock [] ex_ir ex_services (phase_table_provider ex_table) () ex_scenario = Some (Inr result)"
    using schedule_table_result [OF ex_ir_valid ex_services_valid ex_table_valid ex_gate] by blast
  from schedule_valid [OF pt.timing_contract_axioms ex_table_valid(1) ex_ir_valid ex_services_valid r] r
  show ?thesis by blast
qed

lemma schedule_returns_witness:
  "\<exists>r. schedule no_clock [] ex_ir ex_services (phase_table_provider ex_table) () ex_scenario = Some r"
  using schedule_returns [OF pt.timing_contract_axioms ex_table_valid(1) ex_ir_valid ex_services_valid] by blast

end
