(* ===== verification/Exec_Example.thy ===== *)
theory Exec_Example
  imports Schedule_Theorems
begin


definition ex_worker_document :: Record where
  "ex_worker_document =
     [(''worker_id'', JInt 0), (''resource'', JStr ''core:0''), (''cpu_work_cycles'', JInt 30),
      (''cpu_work_cycles_valid'', JBool True), (''cpu_work_cycles_unit'', JStr ''cycle''),
      (''cpu_frequency_hz'', JInt 2000000000), (''cpu_work_cycles_source'', JStr ''riscv_cycle'')]"

definition ex_service_document :: Record where
  "ex_service_document =
     [(''schema'', JStr ''im2p-execution-services''), (''version'', JInt 1),
      (''cpu'', JObj [(''s0'', JObj [(''source'', JStr ''FULL_CPU''), (''policy'', JStr ''CPU_WORK_CYCLES_GANG''),
         (''workers'', JArr [JObj ex_worker_document])])]),
      (''npu'', JObj [(''s1'', JObj [(''request_sha256'', JStr ''r''), (''profile'', JStr ''p'')])])]"

definition ex_parsed_services :: Services where
  "ex_parsed_services =
     \<lparr>sv_cpu = [(''s0'', \<lparr>cpu_source = ''FULL_CPU'', cpu_policy = ''CPU_WORK_CYCLES_GANG'',
        cpu_workers = [\<lparr>ws_resource = ''core:0'', ws_duration_ns = 15, ws_worker_id = Some 0,
          ws_source = ''riscv_cycle'', ws_unit = ''cycle'', ws_quantity = 30, ws_frequency_hz = Some 2000000000,
          ws_measurement = ex_worker_document, ws_resource_identity = None\<rparr>]\<rparr>)],
      sv_npu = [(''s1'', \<lparr>nw_identity = ''s1'', nw_request_sha256 = ''r'', nw_profile = ''p''\<rparr>)]\<rparr>"

lemma ex_worker: "cpu_worker E ''FULL_CPU'' ''CPU_WORK_CYCLES_GANG'' (JObj ex_worker_document) =
    Inr (hd (cpu_workers (snd (hd (sv_cpu ex_parsed_services)))))"
  by (simp add: cpu_worker_def policy_metric_def policy_clock_def ex_worker_document_def ex_parsed_services_def
      object_value_def ensure_def integer_def U64_def rget_def text_of_def py_in_def)

lemma ex_parse_services: "parse_services E ex_service_document = Inr ex_parsed_services"
  by (simp add: parse_services_def ex_service_document_def fields_eq_Inr keys_are_def item_def ensure_def integer_def
      U64_def rget_def object_value_def parse_cpu_def parse_npu_def cpu_service_def text_of_def CPU_POLICIES_def
      array_def ex_worker CpuService_check_def CPU_SOURCES_def ex_parsed_services_def fields_of_def require_def cong: run_congs)

lemma parse_services_valid_witness: "valid_services ex_parsed_services"
  using parse_services_valid [OF ex_parse_services] by blast

end
