(* ===== verification/Lifecycle_Theorems.thy ===== *)
theory Lifecycle_Theorems
  imports Lifecycle Graph_Theorems
begin

text \<open>What the projection of an accepted lifecycle promises: the operations of the graphs are entered exactly once and in
  the order of the graphs.\<close>

section \<open>Identities\<close>

lemma graph_ids_inj [simp]:
  "graph_begin_id i = graph_begin_id j \<longleftrightarrow> i = j" "graph_end_id i = graph_end_id j \<longleftrightarrow> i = j"
  "dispatch_begin_id i = dispatch_begin_id j \<longleftrightarrow> i = j" "dispatch_end_id i = dispatch_end_id j \<longleftrightarrow> i = j"
  by (auto simp: graph_begin_id_def graph_end_id_def dispatch_begin_id_def dispatch_end_id_def dest: str_nat_inj)

lemma last_ids:
  "last (graph_begin_id i) = CHR ''n''" "last (graph_end_id i) = CHR ''d''"
  "last (dispatch_begin_id i) = CHR ''n''" "last (dispatch_end_id i) = CHR ''d''"
  by (simp_all add: graph_begin_id_def graph_end_id_def dispatch_begin_id_def dispatch_end_id_def)

lemma hd_ids:
  "hd (graph_begin_id i) = CHR ''g''" "hd (graph_end_id i) = CHR ''g''"
  "hd (dispatch_begin_id i) = CHR ''d''" "hd (dispatch_end_id i) = CHR ''d''" "hd request_begin_id = CHR ''a''"
  by (simp_all add: graph_begin_id_def graph_end_id_def dispatch_begin_id_def dispatch_end_id_def request_begin_id_def)

lemma ids_differ [simp]:
  "graph_begin_id i \<noteq> graph_end_id j" "graph_begin_id i \<noteq> dispatch_begin_id j" "graph_begin_id i \<noteq> dispatch_end_id j"
  "graph_begin_id i \<noteq> request_begin_id" "graph_end_id i \<noteq> graph_begin_id j" "graph_end_id i \<noteq> dispatch_begin_id j"
  "graph_end_id i \<noteq> dispatch_end_id j" "graph_end_id i \<noteq> request_begin_id" "dispatch_begin_id i \<noteq> graph_begin_id j"
  "dispatch_begin_id i \<noteq> graph_end_id j" "dispatch_begin_id i \<noteq> dispatch_end_id j" "dispatch_begin_id i \<noteq> request_begin_id"
  "dispatch_end_id i \<noteq> graph_begin_id j" "dispatch_end_id i \<noteq> graph_end_id j" "dispatch_end_id i \<noteq> dispatch_begin_id j"
  "dispatch_end_id i \<noteq> request_begin_id"
  by (rule notI, drule arg_cong [where f = "\<lambda>s. (hd s, last s)"], simp add: last_ids hd_ids)+

section \<open>The order the projection imposes\<close>

definition barrier_ids :: "barrier list \<Rightarrow> string set" where
  "barrier_ids bs = ba_node ` set bs"

text \<open>\<open>(x, y)\<close>: \<open>y\<close> waits for \<open>x\<close>.\<close>

definition waits :: "(string, string list) dict \<Rightarrow> barrier list \<Rightarrow> (string \<times> string) set" where
  "waits entries bs = {(d, ba_node b) |d b. b \<in> set bs \<and> d \<in> set (ba_dependencies b)} \<union>
     {(d, op) |d op ds. (op, ds) \<in> set entries \<and> d \<in> set ds}"

fun barriers_ordered :: "(string, string list) dict \<Rightarrow> string set \<Rightarrow> barrier list \<Rightarrow> bool" where
  "barriers_ordered entries earlier [] = True"
| "barriers_ordered entries earlier (b # bs) =
     ((\<forall>d \<in> set (ba_dependencies b). d \<in> earlier \<or> (\<exists>e \<in> earlier. (d, [e]) \<in> set entries)) \<and>
      barriers_ordered entries (insert (ba_node b) earlier) bs)"

lemma barrier_ids_simps [simp]:
  "barrier_ids [] = {}" "barrier_ids (b # bs) = insert (ba_node b) (barrier_ids bs)"
  "barrier_ids (bs @ cs) = barrier_ids bs \<union> barrier_ids cs"
  by (auto simp: barrier_ids_def)

lemma barriers_ordered_append:
  "barriers_ordered entries earlier (bs @ cs) \<longleftrightarrow>
     barriers_ordered entries earlier bs \<and> barriers_ordered entries (earlier \<union> barrier_ids bs) cs"
  by (induction bs arbitrary: earlier) (simp_all add: Un_insert_left Un_insert_right conj_assoc)

lemma barriers_ordered_mono:
  "barriers_ordered entries earlier bs \<Longrightarrow> set entries \<subseteq> set entries' \<Longrightarrow> barriers_ordered entries' earlier bs"
proof (induction bs arbitrary: earlier)
  case (Cons b bs)
  then show ?case by (simp, blast)
qed simp

lemma waits_mono: "set entries \<subseteq> set entries' \<Longrightarrow> set bs \<subseteq> set bs' \<Longrightarrow> waits entries bs \<subseteq> waits entries' bs'"
  by (auto simp: waits_def)

text \<open>What the graphs before \<open>k\<close> have added.\<close>

definition graphs_entered :: "string list list \<Rightarrow> nat \<Rightarrow> (string, string list) dict \<Rightarrow> barrier list \<Rightarrow> bool" where
  "graphs_entered operations k entries bs \<longleftrightarrow>
     map fst entries = concat (take k operations) \<and> distinct (map fst entries) \<and>
     (\<forall>i < k. \<forall>op \<in> set (operations ! i). (op, [graph_begin_id i]) \<in> set entries) \<and>
     barriers_ordered entries {} bs \<and> distinct (map ba_node bs) \<and>
     (\<forall>i < k. \<forall>op \<in> set (operations ! i). (op, graph_end_id i) \<in> waits entries bs) \<and>
     (\<forall>i. i + 1 < k \<longrightarrow> (graph_end_id i, graph_begin_id (i + 1)) \<in> (waits entries bs)\<^sup>+)"

lemma enter_operations:
  "foldm (enter_operation e) entries ops = Inr entries' \<Longrightarrow> distinct (map fst entries) \<Longrightarrow>
     entries' = entries @ map (\<lambda>op. (op, [e])) ops \<and> distinct (map fst entries')"
proof (induction ops arbitrary: entries)
  case Nil
  then show ?case by simp
next
  case (Cons op ops)
  from Cons.prems(1) obtain entries1 where e1: "enter_operation e entries op = Inr entries1" "foldm (enter_operation e) entries1 ops = Inr entries'"
    unfolding foldm.simps(2) bnd_eq_Inr by blast
  then have "op \<notin> set (map fst entries)" and f: "foldm (enter_operation e) (AList.update op [e] entries) ops = Inr entries'"
    by (simp_all add: enter_operation_def [of e entries op] ensure_eq_Inr has_key_def)
  then have u: "AList.update op [e] entries = entries @ [(op, [e])]" by (simp add: keys_update_new)
  from Cons.prems(2) \<open>op \<notin> set (map fst entries)\<close> have "distinct (map fst (entries @ [(op, [e])]))" by simp
  from Cons.IH [OF f [unfolded u] this] show ?case by (metis append_assoc append_Cons append_Nil list.map(2))
qed

text \<open>Inside a dispatch: \<open>pred\<close> is the barrier the next graph waits for.\<close>

definition dispatch_inv :: "string list list \<Rightarrow> string set \<Rightarrow> string set \<Rightarrow> nat \<Rightarrow> (string, string list) dict \<times> barrier list \<times> string \<Rightarrow> bool" where
  "dispatch_inv operations keep other k acc \<longleftrightarrow>
     (case acc of (entries, bs, pred) \<Rightarrow>
        graphs_entered operations k entries bs \<and> pred \<in> barrier_ids bs \<and> keep \<subseteq> barrier_ids bs \<and>
        barrier_ids bs \<subseteq> other \<union> graph_begin_id ` {..<k} \<union> graph_end_id ` {..<k} \<and>
        (k > 0 \<longrightarrow> (graph_end_id (k - 1), pred) \<in> (waits entries bs)\<^sup>*))"

lemma dispatch_graph_step:
  assumes inv: "dispatch_inv operations keep other k acc" and step: "dispatch_graph graph operations r phase acc k = Inr acc'"
    and k: "k < length operations" and other: "\<And>i. graph_begin_id i \<notin> other" "\<And>i. graph_end_id i \<notin> other"
  shows "dispatch_inv operations keep other (Suc k) acc'"
proof -
  obtain entries bs pred where acc: "acc = (entries, bs, pred)" by (cases acc) auto
  define ops where "ops = operations ! k"
  define new where "new = [\<lparr>ba_node = graph_begin_id k, ba_phase = phase, ba_dependencies = [pred]\<rparr>,
    \<lparr>ba_node = graph_end_id k, ba_phase = phase, ba_dependencies = ops\<rparr>]"
  from inv acc have g: "graphs_entered operations k entries bs" and p: "pred \<in> barrier_ids bs"
    and ids: "barrier_ids bs \<subseteq> other \<union> graph_begin_id ` {..<k} \<union> graph_end_id ` {..<k}"
    and chain: "k > 0 \<longrightarrow> (graph_end_id (k - 1), pred) \<in> (waits entries bs)\<^sup>*"
    by (simp_all add: dispatch_inv_def)
  have take: "take (Suc k) operations = take k operations @ [ops]" using k by (simp add: ops_def take_Suc_conv_app_nth)
  from step acc obtain entries' where f: "foldm (enter_operation (graph_begin_id k)) entries ops = Inr entries'"
    and acc': "acc' = (entries', bs @ new, graph_end_id k)"
    unfolding acc dispatch_graph_def prod.case ensurer_eq_Inr bnd_eq_Inr new_def ops_def by blast
  from g have d: "distinct (map fst entries)" unfolding graphs_entered_def by blast
  from enter_operations [OF f d] have e': "entries' = entries @ map (\<lambda>op. (op, [graph_begin_id k])) ops"
    and d': "distinct (map fst entries')" by blast+
  have mono: "waits entries bs \<subseteq> waits entries' (bs @ new)" by (rule waits_mono) (auto simp: e')
  have fresh: "graph_begin_id k \<notin> barrier_ids bs" "graph_end_id k \<notin> barrier_ids bs"
    using ids other by auto
  have new_waits: "(pred, graph_begin_id k) \<in> waits entries' (bs @ new)"
    "op \<in> set ops \<Longrightarrow> (op, graph_end_id k) \<in> waits entries' (bs @ new)" for op
    by (force simp: waits_def new_def)+
  have "graphs_entered operations (Suc k) entries' (bs @ new)"
    unfolding graphs_entered_def
  proof (intro conjI)
    show "map fst entries' = concat (take (Suc k) operations)"
      using g by (simp add: graphs_entered_def e' take comp_def)
    show "distinct (map fst entries')" by (rule d')
    show "\<forall>i < Suc k. \<forall>op \<in> set (operations ! i). (op, [graph_begin_id i]) \<in> set entries'"
      using g by (auto simp: graphs_entered_def e' ops_def less_Suc_eq)
    show "barriers_ordered entries' {} (bs @ new)"
      using g p by (auto simp: graphs_entered_def barriers_ordered_append new_def e' intro: barriers_ordered_mono)
    show "distinct (map ba_node (bs @ new))"
      using g fresh by (auto simp: graphs_entered_def new_def barrier_ids_def)
    show "\<forall>i < Suc k. \<forall>op \<in> set (operations ! i). (op, graph_end_id i) \<in> waits entries' (bs @ new)"
      using g mono new_waits(2) by (auto simp: graphs_entered_def ops_def less_Suc_eq)
    show "\<forall>i. i + 1 < Suc k \<longrightarrow> (graph_end_id i, graph_begin_id (i + 1)) \<in> (waits entries' (bs @ new))\<^sup>+"
    proof (intro allI impI)
      fix i assume i: "i + 1 < Suc k"
      show "(graph_end_id i, graph_begin_id (i + 1)) \<in> (waits entries' (bs @ new))\<^sup>+"
      proof (cases "i + 1 < k")
        case True
        with g have "(graph_end_id i, graph_begin_id (i + 1)) \<in> (waits entries bs)\<^sup>+" by (simp add: graphs_entered_def)
        then show ?thesis using mono by (meson trancl_mono)
      next
        case False
        with i have i: "i + 1 = k" "k - 1 = i" "k > 0" by linarith+
        with chain have "(graph_end_id i, pred) \<in> (waits entries' (bs @ new))\<^sup>*" using rtrancl_mono [OF mono] by auto
        then show ?thesis using new_waits(1) i(1) by (meson rtrancl_into_trancl1)
      qed
    qed
  qed
  moreover have "barrier_ids (bs @ new) \<subseteq> other \<union> graph_begin_id ` {..<Suc k} \<union> graph_end_id ` {..<Suc k}"
    using ids by (auto simp: new_def)
  moreover have "keep \<subseteq> barrier_ids (bs @ new)" using inv acc by (auto simp: dispatch_inv_def)
  ultimately show ?thesis by (simp add: dispatch_inv_def acc' new_def)
qed

lemma dispatch_graphs:
  assumes "foldm (dispatch_graph graph operations r phase) acc [k..<m] = Inr acc'" and "k \<le> m" and "m \<le> length operations"
    and "dispatch_inv operations keep other k acc" and "\<And>i. graph_begin_id i \<notin> other" "\<And>i. graph_end_id i \<notin> other"
  shows "dispatch_inv operations keep other m acc'"
  using assms
proof (induction "m - k" arbitrary: k acc)
  case 0
  then show ?case by simp
next
  case (Suc x)
  then have k: "k < m" by linarith
  then have "[k..<m] = k # [Suc k..<m]" by (simp add: upt_rec)
  with Suc.prems(1) obtain acc1 where s: "dispatch_graph graph operations r phase acc k = Inr acc1"
    "foldm (dispatch_graph graph operations r phase) acc1 [Suc k..<m] = Inr acc'" by (auto simp: bnd_eq_Inr)
  have "dispatch_inv operations keep other (Suc k) acc1"
    using dispatch_graph_step [OF Suc.prems(4) s(1)] k Suc.prems by simp
  then show ?case using Suc.hyps(1) [of "Suc k" acc1] Suc.hyps(2) s(2) k Suc.prems by simp
qed

section \<open>The invariant of the reader\<close>

definition events_of :: "string \<Rightarrow> Record list \<Rightarrow> Record list" where
  "events_of kind events = filter (\<lambda>r. rget r ''kind'' = JStr kind) events"

definition order_inv :: "string list list \<Rightarrow> lifecycle \<Rightarrow> bool" where
  "order_inv operations st \<longleftrightarrow>
     lc_cursor st \<le> length operations \<and> graphs_entered operations (lc_cursor st) (lc_entries st) (lc_barriers st) \<and>
     barrier_ids (lc_barriers st) \<subseteq> (if lc_request st then {request_begin_id} else {}) \<union> dispatch_begin_id ` {..<lc_dispatches st} \<union>
       dispatch_end_id ` {..<lc_dispatches st} \<union> graph_begin_id ` {..<lc_cursor st} \<union> graph_end_id ` {..<lc_cursor st} \<and>
     dispatch_end_id ` {..<lc_dispatches st} \<subseteq> barrier_ids (lc_barriers st) \<and>
     (lc_dispatches st = 0 \<longrightarrow> lc_cursor st = 0) \<and>
     (lc_dispatches st > 0 \<longrightarrow> lc_cursor st > 0 \<and>
        (graph_end_id (lc_cursor st - 1), dispatch_end_id (lc_dispatches st - 1)) \<in> (waits (lc_entries st) (lc_barriers st))\<^sup>*)"

definition sample_inv :: "lifecycle \<Rightarrow> bool" where
  "sample_inv st \<longleftrightarrow> (\<forall>s \<in> set (lc_samples st). \<exists>d < lc_dispatches st. integer s ''dispatch_id'' = Inr (int d))"

lemma order_inv_start: "order_inv operations lifecycle_start"
  by (simp add: order_inv_def lifecycle_start_def graphs_entered_def)

lemma order_inv_cong:
  "order_inv operations st \<Longrightarrow> lc_cursor st' = lc_cursor st \<Longrightarrow> lc_entries st' = lc_entries st \<Longrightarrow> lc_barriers st' = lc_barriers st \<Longrightarrow>
     lc_request st' = lc_request st \<Longrightarrow> lc_dispatches st' = lc_dispatches st \<Longrightarrow> order_inv operations st'"
  by (simp add: order_inv_def)

lemma graphs_entered_append:
  assumes "graphs_entered operations k entries bs" and "ba_node b \<notin> barrier_ids bs"
    and "\<forall>d \<in> set (ba_dependencies b). d \<in> barrier_ids bs"
  shows "graphs_entered operations k entries (bs @ [b])"
proof -
  have "waits entries bs \<subseteq> waits entries (bs @ [b])" by (rule waits_mono) auto
  moreover from this have "(waits entries bs)\<^sup>+ \<subseteq> (waits entries (bs @ [b]))\<^sup>+" by (meson subrelI trancl_mono)
  moreover have "barriers_ordered entries {} (bs @ [b])"
    using assms by (simp add: graphs_entered_def barriers_ordered_append)
  moreover have "distinct (map ba_node (bs @ [b]))"
    using assms(1,2) by (auto simp: graphs_entered_def barrier_ids_def)
  ultimately show ?thesis using assms(1) unfolding graphs_entered_def by blast
qed

lemma event_request_inv:
  assumes "order_inv operations st" and "event_request version st r = Inr st'"
  shows "order_inv operations st'"
proof -
  define b where "b = \<lparr>ba_node = request_begin_id, ba_phase = ''0'', ba_dependencies = []\<rparr>"
  from assms(2) have st': "st' = st\<lparr>lc_request := True, lc_barriers := lc_barriers st @ [b]\<rparr>" and r: "\<not> lc_request st"
    and d: "lc_dispatches st = 0"
    by (auto simp: event_request_def bnd_eq_Inr ensurer_eq_Inr b_def allr_eq_True simp del: allr.simps(2))
  from assms(1) d have "lc_cursor st = 0" by (simp add: order_inv_def)
  then have e: "barrier_ids (lc_barriers st) = {}" using assms(1) r d by (simp add: order_inv_def)
  have g: "graphs_entered operations (lc_cursor st) (lc_entries st) (lc_barriers st)" using assms(1) by (simp add: order_inv_def)
  have "graphs_entered operations (lc_cursor st) (lc_entries st) (lc_barriers st @ [b])"
    by (rule graphs_entered_append [OF g]) (simp_all add: b_def e)
  then show ?thesis using d e assms(1) by (simp add: order_inv_def st' b_def)
qed

lemma event_end_parts:
  assumes "event_end graph operations st r = Inr st'"
  obtains stop phase entries bs pred where "lc_cursor st < stop" "stop \<le> length (mf_graphs graph)"
    "foldm (dispatch_graph graph operations r phase) (lc_entries st, lc_barriers st @ [\<lparr>ba_node = dispatch_begin_id (lc_dispatches st), ba_phase = phase,
       ba_dependencies = (if lc_dispatches st = 0 then [] else [dispatch_end_id (lc_dispatches st - 1)])\<rparr>], dispatch_begin_id (lc_dispatches st))
       [lc_cursor st..<stop] = Inr (entries, bs, pred)"
    "st' = st\<lparr>lc_entries := entries,
       lc_barriers := bs @ [\<lparr>ba_node = dispatch_end_id (lc_dispatches st), ba_phase = phase, ba_dependencies = [pred]\<rparr>],
       lc_cursor := stop, lc_active := None, lc_dispatches := lc_dispatches st + 1\<rparr>"
proof -
  from assms obtain n entries bs pred where n: "int (lc_cursor st) < n \<and> n \<le> int (length (mf_graphs graph))"
    and f: "foldm (dispatch_graph graph operations r (str_int (int (length (lc_phases st)) - 1))) (lc_entries st, lc_barriers st @
        [\<lparr>ba_node = dispatch_begin_id (lc_dispatches st), ba_phase = str_int (int (length (lc_phases st)) - 1),
       ba_dependencies = (if lc_dispatches st = 0 then [] else [dispatch_end_id (lc_dispatches st - 1)])\<rparr>], dispatch_begin_id (lc_dispatches st))
       [lc_cursor st..<nat n] = Inr (entries, bs, pred)"
    and st': "st' = st\<lparr>lc_entries := entries, lc_barriers := bs @ [\<lparr>ba_node = dispatch_end_id (lc_dispatches st),
         ba_phase = str_int (int (length (lc_phases st)) - 1), ba_dependencies = [pred]\<rparr>],
       lc_cursor := nat n, lc_active := None, lc_dispatches := lc_dispatches st + 1\<rparr>"
    unfolding event_end_def Let_def bnd_eq_Inr ensurer_eq_Inr ensure_eq_Inr by (clarsimp split: prod.splits)
  then show thesis using that [of "nat n"] by fastforce
qed

lemma event_end_inv:
  assumes inv: "order_inv operations st" and step: "event_end graph operations st r = Inr st'"
    and len: "length operations = length (mf_graphs graph)"
  shows "order_inv operations st'"
proof -
  define n c where "n = lc_dispatches st" and "c = lc_cursor st"
  from event_end_parts [OF step] obtain m phase entries bs pred where m: "c < m" "m \<le> length operations"
    and f: "foldm (dispatch_graph graph operations r phase) (lc_entries st, lc_barriers st @ [\<lparr>ba_node = dispatch_begin_id n, ba_phase = phase,
       ba_dependencies = (if n = 0 then [] else [dispatch_end_id (n - 1)])\<rparr>], dispatch_begin_id n) [c..<m] = Inr (entries, bs, pred)"
    and st': "st' = st\<lparr>lc_entries := entries,
       lc_barriers := bs @ [\<lparr>ba_node = dispatch_end_id n, ba_phase = phase, ba_dependencies = [pred]\<rparr>],
       lc_cursor := m, lc_active := None, lc_dispatches := n + 1\<rparr>"
    unfolding len n_def c_def by metis
  define b where "b = \<lparr>ba_node = dispatch_begin_id n, ba_phase = phase, ba_dependencies = (if n = 0 then [] else [dispatch_end_id (n - 1)])\<rparr>"
  define other where "other = (if lc_request st then {request_begin_id} else {}) \<union> dispatch_begin_id ` {..n} \<union> dispatch_end_id ` {..<n}"
  have o: "graph_begin_id i \<notin> other" "graph_end_id i \<notin> other" for i by (auto simp: other_def)
  from inv have g: "graphs_entered operations c (lc_entries st) (lc_barriers st)" and de: "dispatch_end_id ` {..<n} \<subseteq> barrier_ids (lc_barriers st)"
    and ids: "barrier_ids (lc_barriers st) \<subseteq> (if lc_request st then {request_begin_id} else {}) \<union> dispatch_begin_id ` {..<n} \<union>
       dispatch_end_id ` {..<n} \<union> graph_begin_id ` {..<c} \<union> graph_end_id ` {..<c}"
    and z: "n = 0 \<longrightarrow> c = 0" and ch: "n > 0 \<longrightarrow> (graph_end_id (c - 1), dispatch_end_id (n - 1)) \<in> (waits (lc_entries st) (lc_barriers st))\<^sup>*"
    by (simp_all add: order_inv_def n_def c_def)
  have fresh: "dispatch_begin_id n \<notin> barrier_ids (lc_barriers st)" using ids by (auto split: if_splits)
  have g1: "graphs_entered operations c (lc_entries st) (lc_barriers st @ [b])"
    using de by (intro graphs_entered_append [OF g]) (auto simp: b_def fresh)
  have "(graph_end_id (c - 1), dispatch_begin_id n) \<in> (waits (lc_entries st) (lc_barriers st @ [b]))\<^sup>*" if "c > 0"
  proof -
    have n: "n > 0" using z that by auto
    have "waits (lc_entries st) (lc_barriers st) \<subseteq> waits (lc_entries st) (lc_barriers st @ [b])" by (rule waits_mono) auto
    then have "(graph_end_id (c - 1), dispatch_end_id (n - 1)) \<in> (waits (lc_entries st) (lc_barriers st @ [b]))\<^sup>*"
      using ch n rtrancl_mono by blast
    moreover have "(dispatch_end_id (n - 1), dispatch_begin_id n) \<in> waits (lc_entries st) (lc_barriers st @ [b])"
      using n by (force simp: waits_def b_def)
    ultimately show ?thesis by (rule rtrancl_into_rtrancl)
  qed
  then have "dispatch_inv operations (dispatch_end_id ` {..<n}) other c (lc_entries st, lc_barriers st @ [b], dispatch_begin_id n)"
    using g1 ids de by (auto simp: dispatch_inv_def b_def other_def split: if_splits)
  from dispatch_graphs [OF f [folded b_def] less_imp_le [OF m(1)] m(2) this o]
  have d: "graphs_entered operations m entries bs" "pred \<in> barrier_ids bs"
    "barrier_ids bs \<subseteq> other \<union> graph_begin_id ` {..<m} \<union> graph_end_id ` {..<m}"
    "m > 0 \<longrightarrow> (graph_end_id (m - 1), pred) \<in> (waits entries bs)\<^sup>*"
    "dispatch_end_id ` {..<n} \<subseteq> barrier_ids bs"
    by (simp_all add: dispatch_inv_def)
  define b' where "b' = \<lparr>ba_node = dispatch_end_id n, ba_phase = phase, ba_dependencies = [pred]\<rparr>"
  have fresh': "dispatch_end_id n \<notin> barrier_ids bs" using d(3) by (auto simp: other_def split: if_splits)
  have g2: "graphs_entered operations m entries (bs @ [b'])"
    using d(2) by (intro graphs_entered_append [OF d(1)]) (auto simp: b'_def fresh')
  have w: "waits entries bs \<subseteq> waits entries (bs @ [b'])" by (rule waits_mono) auto
  from d(4) m(1) have "(graph_end_id (m - 1), pred) \<in> (waits entries bs)\<^sup>*" by simp
  then have "(graph_end_id (m - 1), pred) \<in> (waits entries (bs @ [b']))\<^sup>*" by (rule subsetD [OF rtrancl_mono [OF w]])
  moreover have "(pred, dispatch_end_id n) \<in> waits entries (bs @ [b'])" by (force simp: waits_def b'_def)
  ultimately have ch': "(graph_end_id (m - 1), dispatch_end_id n) \<in> (waits entries (bs @ [b']))\<^sup>*" by (rule rtrancl_into_rtrancl)
  from d(5) have de': "dispatch_end_id ` {..<Suc n} \<subseteq> barrier_ids (bs @ [b'])" by (auto simp: b'_def lessThan_Suc)
  have "barrier_ids (bs @ [b']) \<subseteq> (if lc_request st then {request_begin_id} else {}) \<union> dispatch_begin_id ` {..<Suc n} \<union>
       dispatch_end_id ` {..<Suc n} \<union> graph_begin_id ` {..<m} \<union> graph_end_id ` {..<m}"
    using d(3) by (auto simp: other_def b'_def less_Suc_eq_le lessThan_Suc_atMost split: if_splits)
  moreover have "lc_request st' = lc_request st" "lc_entries st' = entries" "lc_barriers st' = bs @ [b']" "lc_cursor st' = m"
    "lc_dispatches st' = Suc n"
    by (simp_all add: st' b'_def)
  ultimately show ?thesis using g2 ch' de' m unfolding order_inv_def
    by (simp only: diff_Suc_1 zero_less_Suc nat.distinct) simp
qed

text \<open>What the other events change.\<close>

lemma event_run_frame:
  assumes "event_run graph n version st r = Inr st'"
  shows "st' = st\<lparr>lc_run := Some r\<rparr> \<and> (\<exists>w k. rget (mf_run graph) ''workload'' = JObj w \<and> integer w ''generated_tokens'' = Inr k \<and>
    integer r ''expected_samples'' = Inr k)"
proof -
  have obj: "object_value v = Inr d \<longleftrightarrow> v = JObj d" for v d by (simp add: object_value_def split: jval.splits)
  from assms show ?thesis
    unfolding event_run_def bnd_eq_Inr ensurer_eq_Inr ensure_eq_Inr
    by (clarsimp simp: obj bnd_eq_Inr item_eq_Inr int_is_True split: if_splits)
qed

lemma event_phase_frame:
  "event_phase graph st r = Inr st' \<Longrightarrow> st' = st\<lparr>lc_phases := lc_phases st @ [r]\<rparr> \<and> length (lc_samples st) = length (lc_phases st)"
  unfolding event_phase_def bnd_eq_Inr ensurer_eq_Inr by (clarsimp simp: allr_eq_True simp del: allr.simps(2))

lemma event_request_frame:
  "event_request version st r = Inr st' \<Longrightarrow> \<exists>bs. st' = st\<lparr>lc_request := True, lc_barriers := bs\<rparr>"
  unfolding event_request_def bnd_eq_Inr ensurer_eq_Inr by blast

lemma event_prefill_frame:
  "event_prefill version st r = Inr st' \<Longrightarrow> \<exists>x. st' = st\<lparr>lc_prefill := x\<rparr>"
  unfolding event_prefill_def bnd_eq_Inr ensurer_eq_Inr by blast

lemma event_begin_frame: "event_begin version st r = Inr st' \<Longrightarrow> st' = st\<lparr>lc_active := Some r\<rparr>"
  unfolding event_begin_def bnd_eq_Inr ensurer_eq_Inr ensure_eq_Inr by blast

lemma event_sample_frame:
  "event_sample st r = Inr st' \<Longrightarrow> st' = st\<lparr>lc_samples := lc_samples st @ [r]\<rparr> \<and> length (lc_samples st) + 1 = length (lc_phases st) \<and>
     integer r ''dispatch_id'' = Inr (int (lc_dispatches st) - 1)"
  unfolding event_sample_def bnd_eq_Inr ensurer_eq_Inr by (clarsimp simp: allr_eq_True int_is_True simp del: allr.simps(2))

lemma event_parent_frame:
  "event_parent version st r = Inr st' \<Longrightarrow> \<exists>x y. st' = st\<lparr>lc_parent_of := x, lc_parents := y\<rparr>"
  unfolding event_parent_def bnd_eq_Inr ensurer_eq_Inr by blast

lemma event_owner_frame:
  "event_owner version st r = Inr st' \<Longrightarrow> \<exists>x. st' = st\<lparr>lc_owners := x\<rparr>"
  unfolding event_owner_def bnd_eq_Inr ensurer_eq_Inr chk_eq_Inr by (auto simp: bnd_eq_Inr ensurer_eq_Inr split: option.splits)

lemma event_run_end_frame:
  "event_run_end graph st r = Inr st' \<Longrightarrow> st' = st\<lparr>lc_ended := True\<rparr> \<and> lc_run st \<noteq> None \<and>
     integer (the (lc_run st)) ''expected_samples'' = Inr (int (length (lc_samples st))) \<and>
     length (lc_phases st) = length (mf_phases graph) \<and> lc_cursor st = length (mf_graphs graph)"
  unfolding event_run_end_def bnd_eq_Inr ensurer_eq_Inr
  by (clarsimp simp: allr_eq_True int_is_True bnd_eq_Inr simp del: allr.simps(2) split: if_splits)

definition reader_inv :: "Manifest \<Rightarrow> string list list \<Rightarrow> Record list \<Rightarrow> lifecycle \<Rightarrow> bool" where
  "reader_inv graph operations events st \<longleftrightarrow>
     order_inv operations st \<and> sample_inv st \<and> lc_samples st = events_of ''SAMPLE'' events \<and> lc_phases st = events_of ''PHASE'' events \<and>
     length (lc_phases st) \<in> {length (lc_samples st), length (lc_samples st) + 1} \<and>
     (\<forall>run. lc_run st = Some run \<longrightarrow> (\<exists>w k. rget (mf_run graph) ''workload'' = JObj w \<and> integer w ''generated_tokens'' = Inr k \<and>
        integer run ''expected_samples'' = Inr k)) \<and>
     (lc_ended st \<longrightarrow> lc_run st \<noteq> None \<and> integer (the (lc_run st)) ''expected_samples'' = Inr (int (length (lc_samples st))) \<and>
        length (lc_phases st) = length (mf_phases graph) \<and> lc_cursor st = length (mf_graphs graph))"

lemma events_of_snoc: "events_of kind (events @ [r]) = events_of kind events @ (if rget r ''kind'' = JStr kind then [r] else [])"
  by (simp add: events_of_def)

lemma event_end_frame:
  assumes "event_end graph operations st r = Inr st'"
  shows "\<exists>a b c. st' = st\<lparr>lc_entries := a, lc_barriers := b, lc_cursor := c, lc_active := None, lc_dispatches := lc_dispatches st + 1\<rparr>"
  using event_end_parts [OF assms] by metis

lemma if_elim: "(if a then x else y) = z \<Longrightarrow> (a \<Longrightarrow> x = z \<Longrightarrow> P) \<Longrightarrow> (y = z \<Longrightarrow> P) \<Longrightarrow> P"
  by (simp split: if_splits)

lemma event_step_cases:
  assumes "event_step graph operations st (n, r) = Inr st'"
  obtains version where "\<not> lc_ended st" "rget r ''kind'' = JStr ''RUN''" "event_run graph n version st r = Inr st'"
  | "\<not> lc_ended st" "rget r ''kind'' = JStr ''PHASE''" "event_phase graph st r = Inr st'"
  | version where "\<not> lc_ended st" "rget r ''kind'' = JStr ''REQUEST_START''" "event_request version st r = Inr st'"
  | version where "\<not> lc_ended st" "rget r ''kind'' = JStr ''PREFILL_BATCH_READY''" "event_prefill version st r = Inr st'"
  | version where "\<not> lc_ended st" "rget r ''kind'' = JStr ''DISPATCH_BEGIN''" "event_begin version st r = Inr st'"
  | "\<not> lc_ended st" "rget r ''kind'' = JStr ''DISPATCH_END''" "event_end graph operations st r = Inr st'"
  | "\<not> lc_ended st" "rget r ''kind'' = JStr ''SAMPLE''" "event_sample st r = Inr st'"
  | version where "\<not> lc_ended st" "rget r ''kind'' = JStr ''PIPELINE_PARENT''" "event_parent version st r = Inr st'"
  | version where "\<not> lc_ended st" "rget r ''kind'' = JStr ''PIPELINE_OWNER''" "event_owner version st r = Inr st'"
  | "\<not> lc_ended st" "rget r ''kind'' = JStr ''RUN_END''" "event_run_end graph st r = Inr st'"
proof -
  from assms obtain version kind where "event_framing st n version r = Inr True" and k: "map_of r ''kind'' = Some kind"
    and b: "(if kind = JStr ''RUN'' then event_run graph n version st r
      else if kind = JStr ''PHASE'' then event_phase graph st r
      else if kind = JStr ''REQUEST_START'' then event_request version st r
      else if kind = JStr ''PREFILL_BATCH_READY'' then event_prefill version st r
      else if kind = JStr ''DISPATCH_BEGIN'' then event_begin version st r
      else if kind = JStr ''DISPATCH_END'' then event_end graph operations st r
      else if kind = JStr ''SAMPLE'' then event_sample st r
      else if kind = JStr ''PIPELINE_PARENT'' then event_parent version st r
      else if kind = JStr ''PIPELINE_OWNER'' then event_owner version st r
      else if kind = JStr ''RUN_END'' then event_run_end graph st r
      else Inl (ExecutionError (''execution: '' @ ''unknown producer lifecycle event''))) = Inr st'"
    unfolding event_step_def Let_def fst_conv snd_conv bnd_eq_Inr ensurer_eq_Inr item_eq_Inr by blast
  then have e: "\<not> lc_ended st" and "kind = rget r ''kind''"
    by (simp_all add: event_framing_def allr_eq_True del: allr.simps(2))
  from b [unfolded this(2)] show thesis
    by (elim if_elim) ((rule that [OF e], assumption, assumption) | (erule sum.distinct(1) [THEN notE]))+
qed

lemma sample_inv_frame: "sample_inv st \<Longrightarrow> lc_samples st' = lc_samples st \<Longrightarrow> lc_dispatches st \<le> lc_dispatches st' \<Longrightarrow> sample_inv st'"
  by (simp add: sample_inv_def) (meson order_less_le_trans)

lemma event_step_inv:
  assumes inv: "reader_inv graph operations events st" and step: "event_step graph operations st (n, r) = Inr st'"
    and len: "length operations = length (mf_graphs graph)"
  shows "reader_inv graph operations (events @ [r]) st'"
proof -
  from inv have o: "order_inv operations st" and s: "sample_inv st" and r: "lc_samples st = events_of ''SAMPLE'' events"
    "lc_phases st = events_of ''PHASE'' events" "length (lc_phases st) \<in> {length (lc_samples st), length (lc_samples st) + 1}"
    and run: "\<forall>run. lc_run st = Some run \<longrightarrow> (\<exists>w k. rget (mf_run graph) ''workload'' = JObj w \<and> integer w ''generated_tokens'' = Inr k \<and>
        integer run ''expected_samples'' = Inr k)"
    unfolding reader_inv_def by blast+
  note e = events_of_snoc
  from step show ?thesis
  proof (cases rule: event_step_cases)
    case (1 version)
    from event_run_frame [OF this(3)] have st': "st' = st\<lparr>lc_run := Some r\<rparr>"
      and g: "\<exists>w k. rget (mf_run graph) ''workload'' = JObj w \<and> integer w ''generated_tokens'' = Inr k \<and> integer r ''expected_samples'' = Inr k"
      by blast+
    have "order_inv operations st'" "sample_inv st'" using o s by (simp_all add: st' order_inv_cong [OF o] sample_inv_frame [OF s])
    then show ?thesis using 1(1,2) r g by (simp add: reader_inv_def st' e)
  next
    case 2
    from event_phase_frame [OF this(3)] have st': "st' = st\<lparr>lc_phases := lc_phases st @ [r]\<rparr>" "length (lc_samples st) = length (lc_phases st)" by blast+
    have "order_inv operations st'" "sample_inv st'" by (simp_all add: st' order_inv_cong [OF o] sample_inv_frame [OF s])
    then show ?thesis using 2(1,2) r st'(2) run by (simp add: reader_inv_def st'(1) e)
  next
    case (3 version)
    from event_request_frame [OF this(3)] obtain bs where st': "st' = st\<lparr>lc_request := True, lc_barriers := bs\<rparr>" by blast
    have "order_inv operations st'" by (rule event_request_inv [OF o 3(3)])
    moreover have "sample_inv st'" by (simp add: st' sample_inv_frame [OF s])
    ultimately show ?thesis using 3(1,2) r run by (simp add: reader_inv_def st' e)
  next
    case (4 version)
    from event_prefill_frame [OF this(3)] obtain x where st': "st' = st\<lparr>lc_prefill := x\<rparr>" by blast
    have "order_inv operations st'" "sample_inv st'" by (simp_all add: st' order_inv_cong [OF o] sample_inv_frame [OF s])
    then show ?thesis using 4(1,2) r run by (simp add: reader_inv_def st' e)
  next
    case (5 version)
    from event_begin_frame [OF this(3)] have st': "st' = st\<lparr>lc_active := Some r\<rparr>" .
    have "order_inv operations st'" "sample_inv st'" by (simp_all add: st' order_inv_cong [OF o] sample_inv_frame [OF s])
    then show ?thesis using 5(1,2) r run by (simp add: reader_inv_def st' e)
  next
    case 6
    from event_end_frame [OF this(3)] obtain a b c where
      st': "st' = st\<lparr>lc_entries := a, lc_barriers := b, lc_cursor := c, lc_active := None, lc_dispatches := lc_dispatches st + 1\<rparr>" by blast
    have "order_inv operations st'" by (rule event_end_inv [OF o 6(3) len])
    moreover have "sample_inv st'" by (simp add: st' sample_inv_frame [OF s])
    ultimately show ?thesis using 6(1,2) r run by (simp add: reader_inv_def st' e)
  next
    case 7
    from event_sample_frame [OF this(3)] have st': "st' = st\<lparr>lc_samples := lc_samples st @ [r]\<rparr>"
      and d: "length (lc_samples st) + 1 = length (lc_phases st)" "integer r ''dispatch_id'' = Inr (int (lc_dispatches st) - 1)" by blast+
    from d(2) have "0 \<le> int (lc_dispatches st) - 1" by (auto simp: integer_def split: jval.splits if_splits)
    then have "integer r ''dispatch_id'' = Inr (int (lc_dispatches st - 1)) \<and> lc_dispatches st - 1 < lc_dispatches st"
      using d(2) by (simp add: of_nat_diff)
    then have "sample_inv st'" using s unfolding sample_inv_def st' by auto
    moreover have "order_inv operations st'" by (simp add: st' order_inv_cong [OF o])
    ultimately show ?thesis using 7(1,2) r d(1) run by (simp add: reader_inv_def st' e)
  next
    case (8 version)
    from event_parent_frame [OF this(3)] obtain x y where st': "st' = st\<lparr>lc_parent_of := x, lc_parents := y\<rparr>" by blast
    have "order_inv operations st'" "sample_inv st'" by (simp_all add: st' order_inv_cong [OF o] sample_inv_frame [OF s])
    then show ?thesis using 8(1,2) r run by (simp add: reader_inv_def st' e)
  next
    case (9 version)
    from event_owner_frame [OF this(3)] obtain x where st': "st' = st\<lparr>lc_owners := x\<rparr>" by blast
    have "order_inv operations st'" "sample_inv st'" by (simp_all add: st' order_inv_cong [OF o] sample_inv_frame [OF s])
    then show ?thesis using 9(1,2) r run by (simp add: reader_inv_def st' e)
  next
    case 10
    from event_run_end_frame [OF this(3)] have st': "st' = st\<lparr>lc_ended := True\<rparr>" and c: "lc_run st \<noteq> None"
      "integer (the (lc_run st)) ''expected_samples'' = Inr (int (length (lc_samples st)))"
      "length (lc_phases st) = length (mf_phases graph)" "lc_cursor st = length (mf_graphs graph)" by blast+
    have "order_inv operations st'" "sample_inv st'" by (simp_all add: st' order_inv_cong [OF o] sample_inv_frame [OF s])
    then show ?thesis using 10(1,2) r run c by (simp add: reader_inv_def st' e)
  qed
qed

lemma reader_inv_end:
  assumes f: "foldm (event_step graph operations) lifecycle_start (zip [0..<length events] events) = Inr st"
    and len: "length operations = length (mf_graphs graph)"
  shows "reader_inv graph operations events st"
proof -
  have "reader_inv graph operations (take (length events) events) st"
  proof (rule foldm_indexed [where P = "\<lambda>i st. reader_inv graph operations (take i events) st", OF f])
    show "reader_inv graph operations (take 0 events) lifecycle_start"
      by (simp add: reader_inv_def order_inv_start sample_inv_def events_of_def) (simp add: lifecycle_start_def)
  next
    fix i s s' assume "i < length events" "reader_inv graph operations (take i events) s" "event_step graph operations s (i, events ! i) = Inr s'"
    then show "reader_inv graph operations (take (Suc i) events) s'"
      using event_step_inv [OF _ _ len] by (simp add: take_Suc_conv_app_nth)
  qed
  then show ?thesis by simp
qed

section \<open>The projection is an order of the operations\<close>

definition projection_orders :: "string list list \<Rightarrow> LifecycleProjection \<Rightarrow> bool" where
  "projection_orders operations p \<longleftrightarrow>
     map fst (lp_entries p) = concat operations \<and> distinct (concat operations) \<and>
     barriers_ordered (lp_entries p) {} (lp_barriers p) \<and> distinct (map ba_node (lp_barriers p)) \<and>
     (\<forall>i j. i < j \<and> j < length operations \<and> (\<forall>k \<in> {i<..<j}. operations ! k \<noteq> []) \<longrightarrow>
        (\<forall>a \<in> set (operations ! i). \<forall>b \<in> set (operations ! j). (a, b) \<in> (waits (lp_entries p) (lp_barriers p))\<^sup>+))"

definition projection_samples :: "Manifest \<Rightarrow> string list list \<Rightarrow> Record list \<Rightarrow> LifecycleProjection \<Rightarrow> bool" where
  "projection_samples graph operations events p \<longleftrightarrow>
     (\<exists>w. rget (mf_run graph) ''workload'' = JObj w \<and> integer w ''generated_tokens'' = Inr (int (lp_samples p))) \<and>
     length (lp_steps p) = lp_samples p \<and> length (mf_phases graph) \<in> {lp_samples p, lp_samples p + 1} \<and>
     (\<forall>i < lp_samples p. ss_logits_ready (lp_steps p ! i) \<in> barrier_ids (lp_barriers p)) \<and>
     (\<forall>i. Suc i < lp_samples p \<longrightarrow>
        (\<exists>token g. integer (events_of ''SAMPLE'' events ! i) ''token_id'' = Inr token \<and>
           rget (mf_phases graph ! Suc i) ''token_fingerprint'' = JStr (token_fingerprint token) \<and>
           integer (events_of ''PHASE'' events ! Suc i) ''graph_begin'' = Inr (int g) \<and> g < length operations \<and>
           ss_next_entries (lp_steps p ! i) = operations ! g))"

lemma graphs_chain:
  assumes g: "graphs_entered operations n entries bs" and ij: "i < j" "j < n"
    and ne: "\<And>k. i < k \<Longrightarrow> k < j \<Longrightarrow> operations ! k \<noteq> []"
  shows "(graph_end_id i, graph_begin_id j) \<in> (waits entries bs)\<^sup>+"
  using ij ne
proof (induction j)
  case 0
  then show ?case by simp
next
  case (Suc j)
  from g Suc.prems have c: "(graph_end_id j, graph_begin_id (Suc j)) \<in> (waits entries bs)\<^sup>+" by (simp add: graphs_entered_def)
  show ?case
  proof (cases "i = j")
    case True
    with c show ?thesis by simp
  next
    case False
    with Suc.prems have "i < j" and o: "operations ! j \<noteq> []" by simp_all
    with Suc have p: "(graph_end_id i, graph_begin_id j) \<in> (waits entries bs)\<^sup>+" by simp
    from o obtain op where op: "op \<in> set (operations ! j)" by (meson list.set_intros(1) neq_Nil_conv last_in_set)
    have "(op, [graph_begin_id j]) \<in> set entries" "(op, graph_end_id j) \<in> waits entries bs"
      using g op Suc.prems(2) by (simp_all add: graphs_entered_def)
    then have "(graph_begin_id j, op) \<in> (waits entries bs)\<^sup>+" "(op, graph_end_id j) \<in> (waits entries bs)\<^sup>+"
      by (force simp: waits_def)+
    with p c show ?thesis by (meson trancl_trans)
  qed
qed

lemma graphs_entered_orders:
  assumes g: "graphs_entered operations (length operations) entries bs" and "lp_entries p = entries" "lp_barriers p = bs"
  shows "projection_orders operations p"
proof -
  have "(a, b) \<in> (waits entries bs)\<^sup>+" if ij: "i < j" "j < length operations" "\<forall>k \<in> {i<..<j}. operations ! k \<noteq> []"
    and ab: "a \<in> set (operations ! i)" "b \<in> set (operations ! j)" for i j a b
  proof -
    have "(graph_end_id i, graph_begin_id j) \<in> (waits entries bs)\<^sup>+" using graphs_chain [OF g ij(1,2)] ij(3) by simp
    moreover have "(a, graph_end_id i) \<in> waits entries bs" using g ij ab by (simp add: graphs_entered_def)
    moreover have "(b, [graph_begin_id j]) \<in> set entries" using g ij ab by (simp add: graphs_entered_def)
    then have "(graph_begin_id j, b) \<in> waits entries bs" by (force simp: waits_def)
    ultimately show ?thesis by (meson trancl_into_trancl trancl_into_trancl2)
  qed
  moreover have "map fst entries = concat operations" "distinct (map fst entries)" "barriers_ordered entries {} bs" "distinct (map ba_node bs)"
    using g unfolding graphs_entered_def take_all [OF order_refl] by blast+
  ultimately show ?thesis unfolding projection_orders_def assms(2,3) by metis
qed

lemma sample_steps:
  assumes m: "mapr (sample_step_of graph operations st) (zip [0..<length (lc_samples st)] (lc_samples st)) = Inr steps"
    and i: "i < length (lc_samples st)"
  obtains d where "integer (lc_samples st ! i) ''dispatch_id'' = Inr d" "ss_logits_ready (steps ! i) = dispatch_end_id (nat d)"
    "next_entries graph operations st i (lc_samples st ! i) = Inr (ss_next_entries (steps ! i))"
proof -
  from m i have "sample_step_of graph operations st (i, lc_samples st ! i) = Inr (steps ! i)"
    unfolding mapr_Inr_iff by (auto dest: list_all2_nthD [where p = i])
  then show thesis using that unfolding sample_step_of_def fst_conv snd_conv bnd_eq_Inr
    by (metis (no_types, lifting) sample_step.select_convs(2,3) sum.inject(2))
qed

lemma next_entries_parts:
  assumes "next_entries graph operations st i sample = Inr next" and "Suc i < length (lc_samples st)"
  obtains token g where "integer sample ''token_id'' = Inr token" "rget (mf_phases graph ! Suc i) ''token_fingerprint'' = JStr (token_fingerprint token)"
    "integer (lc_phases st ! Suc i) ''graph_begin'' = Inr (int g)" "g < length operations" "next = operations ! g"
proof -
  from assms obtain following phase g where f: "following = mf_phases graph ! Suc i" and p: "phase = lc_phases st ! Suc i"
    and t: "bnd (item following ''input_tokens'') (\<lambda>n. if py_eq n (JInt 1)
                then bnd (item following ''token_fingerprint'') (\<lambda>fp. bnd (integer sample ''token_id'') (\<lambda>token.
                     Inr (py_eq fp (JStr (token_fingerprint token)))))
                else Inr False) = Inr True"
    and g: "integer phase ''graph_begin'' = Inr g" "nat g < length operations" "next = operations ! nat g"
    unfolding next_entries_def by (auto simp: bnd_eq_Inr ensurer_eq_Inr nth_item_eq)
  from t obtain token where "integer sample ''token_id'' = Inr token" "rget following ''token_fingerprint'' = JStr (token_fingerprint token)"
    unfolding bnd_eq_Inr item_eq_Inr by (auto simp: bnd_eq_Inr item_eq_Inr split: if_splits)
  moreover have "g \<ge> 0" using g(1) by (auto simp: integer_def split: jval.splits if_splits)
  ultimately show thesis using that [of token "nat g"] f p g by simp
qed

text \<open>The exception the statement makes is real: a graph without operations gets a leaving barrier that waits for nothing, so
  the graphs after it are not ordered behind the graphs before it.\<close>

lemma empty_graph_barrier:
  assumes "operations ! i = []" and "phase_is (mf_graphs graph ! i) r = Inr True"
  shows "dispatch_graph graph operations r phase (entries, bs, pred) i =
    Inr (entries, bs @ [\<lparr>ba_node = graph_begin_id i, ba_phase = phase, ba_dependencies = [pred]\<rparr>,
                        \<lparr>ba_node = graph_end_id i, ba_phase = phase, ba_dependencies = []\<rparr>], graph_end_id i)"
  using assms by (simp add: dispatch_graph_def)

lemma lifecycle_projection:
  assumes p: "project_lifecycle E events graph = Inr p"
  shows "\<exists>operations. graph_operations E graph = Inr operations \<and> projection_orders operations p \<and>
    projection_samples graph operations events p"
proof -
  from p obtain operations st steps where ops: "graph_operations E graph = Inr operations"
    and f: "foldm (event_step graph operations) lifecycle_start (zip [0..<length events] events) = Inr st"
    and ended: "lc_ended st" and m: "mapr (sample_step_of graph operations st) (zip [0..<length (lc_samples st)] (lc_samples st)) = Inr steps"
    and p: "p = \<lparr>lp_entries = lc_entries st, lp_barriers = lc_barriers st, lp_steps = steps, lp_samples = length (lc_samples st),
          lp_parents = lc_parents st, lp_owners = lc_owners st, lp_prefill = lc_prefill st\<rparr>"
    unfolding project_lifecycle_def by (auto simp: bnd_eq_Inr ensure_eq_Inr)
  from ops have len: "length operations = length (mf_graphs graph)" by (simp add: graph_operations_def mapr_length)
  from reader_inv_end [OF f len] have inv: "reader_inv graph operations events st" .
  then have c: "lc_cursor st = length operations" using ended len by (simp add: reader_inv_def)
  from inv have "graphs_entered operations (length operations) (lc_entries st) (lc_barriers st)"
    by (simp add: reader_inv_def order_inv_def c)
  then have "projection_orders operations p" by (rule graphs_entered_orders) (simp_all add: p)
  moreover have "projection_samples graph operations events p"
    unfolding projection_samples_def
  proof (intro conjI allI impI)
    show "\<exists>w. rget (mf_run graph) ''workload'' = JObj w \<and> integer w ''generated_tokens'' = Inr (int (lp_samples p))"
      using inv ended unfolding reader_inv_def p by auto
    show "length (lp_steps p) = lp_samples p" using mapr_length [OF m] by (simp add: p)
    show "length (mf_phases graph) \<in> {lp_samples p, lp_samples p + 1}"
      using inv ended unfolding reader_inv_def p by auto
  next
    fix i assume i: "i < lp_samples p"
    then have i': "i < length (lc_samples st)" by (simp add: p)
    from sample_steps [OF m i'] obtain d where d: "integer (lc_samples st ! i) ''dispatch_id'' = Inr d"
      "ss_logits_ready (steps ! i) = dispatch_end_id (nat d)" by metis
    have "sample_inv st" using inv by (simp add: reader_inv_def)
    moreover have "lc_samples st ! i \<in> set (lc_samples st)" using i' by simp
    ultimately obtain k where "k < lc_dispatches st" "integer (lc_samples st ! i) ''dispatch_id'' = Inr (int k)"
      unfolding sample_inv_def by blast
    then have "nat d < lc_dispatches st" using d(1) by simp
    moreover have "dispatch_end_id ` {..<lc_dispatches st} \<subseteq> barrier_ids (lc_barriers st)" using inv by (simp add: reader_inv_def order_inv_def)
    ultimately show "ss_logits_ready (lp_steps p ! i) \<in> barrier_ids (lp_barriers p)" using d(2) by (auto simp: p)
  next
    fix i assume i: "Suc i < lp_samples p"
    then have i': "Suc i < length (lc_samples st)" by (simp add: p)
    then have "i < length (lc_samples st)" by simp
    from sample_steps [OF m this] have "next_entries graph operations st i (lc_samples st ! i) = Inr (ss_next_entries (steps ! i))" by metis
    from next_entries_parts [OF this i'] inv show "\<exists>token g. integer (events_of ''SAMPLE'' events ! i) ''token_id'' = Inr token \<and>
        rget (mf_phases graph ! Suc i) ''token_fingerprint'' = JStr (token_fingerprint token) \<and>
        integer (events_of ''PHASE'' events ! Suc i) ''graph_begin'' = Inr (int g) \<and> g < length operations \<and>
        ss_next_entries (lp_steps p ! i) = operations ! g"
      unfolding reader_inv_def p LifecycleProjection.simps by metis
  qed
  ultimately show ?thesis using ops by blast
qed


end
