(* ===== verification/Forced_Theorems.thy ===== *)
theory Forced_Theorems
  imports Forced_Lifecycle Lifecycle_Theorems
begin

text \<open>What an accepted forced run says of its tokens, alone and paired with a sampled run.\<close>

lemma same_fingerprints_nth:
  "same_fingerprints ps = Inr True \<Longrightarrow> i < length ps \<Longrightarrow>
     \<exists>a b. map_of (fst (ps ! i)) ''token_fingerprint'' = Some a \<and> map_of (snd (ps ! i)) ''token_fingerprint'' = Some b \<and> py_eq a b"
proof (induction ps arbitrary: i rule: same_fingerprints.induct)
  case (2 left right pairs)
  then show ?case by (cases i) (auto simp: bnd_eq_Inr item_eq_Inr split: if_splits)
qed simp

lemma forced_input_fingerprint:
  assumes "forced_input graph (i, token) = Inr u"
  shows "i + 1 < length (mf_phases graph) \<and> rget (mf_phases graph ! (i + 1)) ''token_fingerprint'' = JStr (token_fingerprint token) \<and>
    py_eq (rget (mf_phases graph ! (i + 1)) ''input_tokens'') (JInt 1)"
  using assms unfolding forced_input_def
  by (auto simp: bnd_eq_Inr ensurer_eq_Inr nth_item_eq item_eq_Inr split: if_splits)

lemma forced_trajectory:
  assumes "validate_forced_lifecycle events graph expected = Inr tokens"
  shows "tokens = expected" and "length tokens \<in> {PAPER_TOKENS, SMOKE_TOKENS}"
    and "i + 1 < length tokens \<Longrightarrow> i + 1 < length (mf_phases graph) \<and>
      rget (mf_phases graph ! (i + 1)) ''token_fingerprint'' = JStr (token_fingerprint (tokens ! i)) \<and>
      py_eq (rget (mf_phases graph ! (i + 1)) ''input_tokens'') (JInt 1)"
proof -
  from assms obtain producer us where s: "forced_scope graph producer (length expected) = Inr True" and t: "tokens = expected"
    and m: "mapr (forced_input graph) (zip [0..<length tokens - 1] (butlast tokens)) = Inr us"
    unfolding validate_forced_lifecycle_def Let_def by (auto simp: bnd_eq_Inr ensurer_eq_Inr ensure_eq_Inr)
  from t show "tokens = expected" .
  from s t show "length tokens \<in> {PAPER_TOKENS, SMOKE_TOKENS}"
    unfolding forced_scope_def by (auto simp: bnd_eq_Inr split: if_splits)
  assume i: "i + 1 < length tokens"
  from m i have "forced_input graph (i, butlast tokens ! i) = Inr (us ! i)"
    unfolding mapr_Inr_iff by (auto dest: list_all2_nthD [where p = i])
  moreover have "butlast tokens ! i = tokens ! i" using i by (simp add: nth_butlast)
  ultimately show "i + 1 < length (mf_phases graph) \<and>
      rget (mf_phases graph ! (i + 1)) ''token_fingerprint'' = JStr (token_fingerprint (tokens ! i)) \<and>
      py_eq (rget (mf_phases graph ! (i + 1)) ''input_tokens'') (JInt 1)"
    using forced_input_fingerprint by metis
qed

text \<open>The forced run of a pair was fed exactly the tokens the sampled run produced.\<close>

theorem forced_tokens_sampled:
  assumes sampled: "project_lifecycle E events potal = Inr p" and forced: "validate_forced_lifecycle fevents full expected = Inr tokens"
    and paired: "validate_forced_phases full potal = Inr ()" and i: "i + 1 < lp_samples p" "i + 1 < length tokens"
    and t: "integer (events_of ''SAMPLE'' events ! i) ''token_id'' = Inr token" and b: "token < 2 ^ 32" "0 \<le> tokens ! i" "tokens ! i < 2 ^ 32"
  shows "tokens ! i = token"
proof -
  from lifecycle_projection [OF sampled] obtain operations where "projection_samples potal operations events p" by blast
  with i(1) t have s: "rget (mf_phases potal ! (i + 1)) ''token_fingerprint'' = JStr (token_fingerprint token)"
    and n: "length (mf_phases potal) \<in> {lp_samples p, lp_samples p + 1}"
    unfolding projection_samples_def by auto
  from forced_trajectory(3) [OF forced i(2)] have f: "i + 1 < length (mf_phases full)"
    "rget (mf_phases full ! (i + 1)) ''token_fingerprint'' = JStr (token_fingerprint (tokens ! i))" by blast+
  from paired have l: "length (mf_phases full) = length (mf_phases potal)"
    and sf: "same_fingerprints (zip (mf_phases full) (mf_phases potal)) = Inr True"
    by (auto simp: validate_forced_phases_def require_eq_Inr requirer_eq_Inr)
  have "i + 1 < length (zip (mf_phases full) (mf_phases potal))" using f(1) l by simp
  from same_fingerprints_nth [OF sf this] f(1) l
  obtain x y where "map_of (mf_phases full ! (i + 1)) ''token_fingerprint'' = Some x" "map_of (mf_phases potal ! (i + 1)) ''token_fingerprint'' = Some y"
    "py_eq x y" by auto
  then have "token_fingerprint (tokens ! i) = token_fingerprint token" using s f(2) by (simp add: rget_def)
  moreover have "0 \<le> token" using t by (auto simp: integer_def split: jval.splits if_splits)
  ultimately show ?thesis using token_fingerprint_injective b by blast
qed

end
