(* ===== verification/Lifecycle_Example.thy ===== *)
theory Lifecycle_Example
  imports Lifecycle_Theorems
begin

text \<open>A lifecycle of one phase with two graphs in one dispatch and one sampled token.\<close>

definition le_event :: "string \<Rightarrow> int \<Rightarrow> Record \<Rightarrow> Record" where
  "le_event kind n r = [(''schema'', JStr ''potal-execution-lifecycle''), (''version'', JInt 1), (''kind'', JStr kind), (''sequence'', JInt n)] @ r"

definition le_phase :: Record where
  "le_phase = [(''phase_kind'', JStr ''prefill''), (''decode_index'', JNull)]"

definition le_run :: Record where
  "le_run = le_event ''RUN'' 0 [(''source_role'', JStr ''potal_collection''), (''source_commit'', JStr ''abc''), (''expected_samples'', JInt 1),
     (''execution_policy'', JStr ''blocking-llama-decode-synchronize-v1''),
     (''graph_policy'', JStr ''semantic-session-completes-before-next-graph-v1''),
     (''operation_exit_policy'', JStr ''ALL_MEMBER_COMPLETIONS''), (''target_mode_scope'', JStr ''FULL_ONLY''),
     (''requires_binary_manifest_binding'', JBool True)]"

definition le_phase_event :: Record where
  "le_phase_event = le_event ''PHASE'' 1 (le_phase @ [(''graph_begin'', JInt 0), (''phase_ordinal'', JInt 0)])"

definition le_begin :: Record where
  "le_begin = le_event ''DISPATCH_BEGIN'' 2 (le_phase @ [(''dispatch_id'', JInt 0), (''graph_begin'', JInt 0)])"

definition le_end :: Record where
  "le_end = le_event ''DISPATCH_END'' 3 (le_phase @ [(''dispatch_id'', JInt 0), (''graph_end'', JInt 2), (''status'', JInt 0),
     (''synchronized'', JBool True)])"

definition le_sample :: Record where
  "le_sample = le_event ''SAMPLE'' 4 (le_phase @ [(''sample_index'', JInt 0), (''token_id'', JInt 7), (''graph_end'', JInt 2),
     (''dispatch_id'', JInt 0), (''token_ready'', JBool True)])"

definition le_run_end :: Record where
  "le_run_end = le_event ''RUN_END'' 5 [(''success'', JBool True), (''samples'', JInt 1), (''phases'', JInt 1), (''dispatches'', JInt 1),
     (''graphs'', JInt 2)]"

definition le_graph_row :: "int \<Rightarrow> Record" where
  "le_graph_row i = le_phase @ [(''graph_occurrence'', JInt i), (''nodes'', JArr [JNull])]"

definition le_graph :: Manifest where
  "le_graph = \<lparr>mf_run = [(''producer'', JObj [(''git_commit'', JStr ''abc'')]), (''workload'', JObj [(''generated_tokens'', JInt 1)])],
     mf_phases = [le_phase], mf_graphs = [le_graph_row 0, le_graph_row 1], mf_nodes = [], mf_executions = [], mf_edges = []\<rparr>"

definition le_op :: "ext \<Rightarrow> int \<Rightarrow> string" where
  "le_op E i = operation_id E (''prefill'', None, i, 0)"

lemma le_op_distinct [simp]: "le_op E 0 \<noteq> le_op E 1" "le_op E 1 \<noteq> le_op E 0"
  by (simp_all add: le_op_def operation_id_def encoded_key_def str_int_def str_nat.simps digit_char_def)

lemmas le_reads = rget_def item_def integer_def text_of_def U64_def opt_integer_def phase_key_def require_def le_event_def le_phase_def

lemma le_operations: "graph_operations E le_graph = Inr [[le_op E 0], [le_op E 1]]"
  by (simp add: graph_operations_def le_graph_def le_graph_row_def row_operations_def array_def le_reads le_op_def)

text \<open>The state after the first \<open>i\<close> events.\<close>

definition le_state :: "ext \<Rightarrow> nat \<Rightarrow> lifecycle" where
  "le_state E i = \<lparr>lc_entries = (if i \<ge> 4 then [(le_op E 0, [graph_begin_id 0]), (le_op E 1, [graph_begin_id 1])] else []),
     lc_barriers = (if i \<ge> 4 then
       [\<lparr>ba_node = dispatch_begin_id 0, ba_phase = ''0'', ba_dependencies = []\<rparr>,
        \<lparr>ba_node = graph_begin_id 0, ba_phase = ''0'', ba_dependencies = [dispatch_begin_id 0]\<rparr>,
        \<lparr>ba_node = graph_end_id 0, ba_phase = ''0'', ba_dependencies = [le_op E 0]\<rparr>,
        \<lparr>ba_node = graph_begin_id 1, ba_phase = ''0'', ba_dependencies = [graph_end_id 0]\<rparr>,
        \<lparr>ba_node = graph_end_id 1, ba_phase = ''0'', ba_dependencies = [le_op E 1]\<rparr>,
        \<lparr>ba_node = dispatch_end_id 0, ba_phase = ''0'', ba_dependencies = [graph_end_id 1]\<rparr>] else []),
     lc_samples = (if i \<ge> 5 then [le_sample] else []), lc_phases = (if i \<ge> 2 then [le_phase_event] else []), lc_parents = [], lc_owners = [],
     lc_prefill = [], lc_request = False, lc_parent_of = [], lc_run = (if i \<ge> 1 then Some le_run else None),
     lc_active = (if i = 3 then Some le_begin else None), lc_cursor = (if i \<ge> 4 then 2 else 0), lc_dispatches = (if i \<ge> 4 then 1 else 0),
     lc_ended = (i \<ge> 6)\<rparr>"

definition le_events :: "Record list" where
  "le_events = [le_run, le_phase_event, le_begin, le_end, le_sample, le_run_end]"

lemma le_fields:
  "keys_are le_run (EVENT_COMMON @ [''source_role'', ''source_commit'', ''expected_samples'', ''execution_policy'',
        ''graph_policy'', ''operation_exit_policy'', ''target_mode_scope'', ''requires_binary_manifest_binding''])"
  "keys_are le_phase_event (EVENT_COMMON @ [''phase_kind'', ''decode_index'', ''graph_begin'', ''phase_ordinal''])"
  "keys_are le_run_end (EVENT_COMMON @ [''success'', ''samples'', ''phases'', ''dispatches'', ''graphs''])"
  by (simp_all add: keys_are_def EVENT_COMMON_def le_run_def le_phase_event_def le_run_end_def le_event_def le_phase_def)

lemma le_fields':
  "keys_are le_begin (EVENT_COMMON @ [''dispatch_id'', ''graph_begin'', ''phase_kind'', ''decode_index''])"
  "keys_are le_end (EVENT_COMMON @ [''dispatch_id'', ''graph_end'', ''status'', ''synchronized'', ''phase_kind'', ''decode_index''])"
  "keys_are le_sample (EVENT_COMMON @ [''sample_index'', ''token_id'', ''graph_end'', ''dispatch_id'', ''token_ready'',
        ''phase_kind'', ''decode_index''])"
  by (simp_all add: keys_are_def EVENT_COMMON_def le_begin_def le_end_def le_sample_def le_event_def le_phase_def insert_commute)

lemma le_framing:
  "event_framing lifecycle_start 0 1 le_run = Inr True" "event_framing (le_state E (Suc 0)) (Suc 0) 1 le_phase_event = Inr True"
  "event_framing (le_state E 2) 2 1 le_begin = Inr True" "event_framing (le_state E 3) 3 1 le_end = Inr True"
  "event_framing (le_state E 4) 4 1 le_sample = Inr True" "event_framing (le_state E 5) 5 1 le_run_end = Inr True"
  by (simp_all add: event_framing_def int_is_def lifecycle_start_def le_state_def pipeline_run_def)
    (simp_all add: le_run_def le_phase_event_def le_begin_def le_end_def le_sample_def le_run_end_def le_reads)

lemma le_kinds:
  "integer le_run ''version'' = Inr 1" "item le_run ''kind'' = Inr (JStr ''RUN'')"
  "integer le_phase_event ''version'' = Inr 1" "item le_phase_event ''kind'' = Inr (JStr ''PHASE'')"
  "integer le_begin ''version'' = Inr 1" "item le_begin ''kind'' = Inr (JStr ''DISPATCH_BEGIN'')"
  "integer le_end ''version'' = Inr 1" "item le_end ''kind'' = Inr (JStr ''DISPATCH_END'')"
  "integer le_sample ''version'' = Inr 1" "item le_sample ''kind'' = Inr (JStr ''SAMPLE'')"
  "integer le_run_end ''version'' = Inr 1" "item le_run_end ''kind'' = Inr (JStr ''RUN_END'')"
  by (simp_all add: le_run_def le_phase_event_def le_begin_def le_end_def le_sample_def le_run_end_def le_reads)

lemma le_step0: "event_step le_graph ops lifecycle_start (0, le_run) = Inr (le_state E 1)"
proof -
  have "event_run le_graph 0 1 lifecycle_start le_run = Inr (le_state E 1)"
    unfolding event_run_def
    by (simp add: fields_ok le_fields, simp add: le_run_def int_is_def le_graph_def le_reads object_value_def, simp add: le_state_def
      lifecycle_start_def le_run_def le_event_def)
  then show ?thesis by (simp add: event_step_def le_kinds le_framing)
qed

lemma le_step1: "event_step le_graph ops (le_state E 1) (1, le_phase_event) = Inr (le_state E 2)"
proof -
  have "event_phase le_graph (le_state E 1) le_phase_event = Inr (le_state E 2)"
    unfolding event_phase_def
    by (simp add: fields_ok le_fields, simp add: le_state_def le_graph_def, simp add: le_state_def le_graph_def le_phase_event_def int_is_def phase_is_def le_reads)
  then show ?thesis by (simp add: event_step_def le_kinds le_framing)
qed

lemma le_step2: "event_step le_graph ops (le_state E 2) (2, le_begin) = Inr (le_state E 3)"
proof -
  have "event_begin 1 (le_state E 2) le_begin = Inr (le_state E 3)"
    unfolding event_begin_def
    by (simp add: fields_ok le_fields', simp add: le_state_def, simp add: le_state_def le_phase_event_def le_begin_def int_is_def phase_is_def le_reads)
  then show ?thesis by (simp add: event_step_def le_kinds le_framing)
qed

lemma le_rows: "phase_is (mf_graphs le_graph ! 0) le_end = Inr True" "phase_is (mf_graphs le_graph ! Suc 0) le_end = Inr True"
  "phase_is le_end le_begin = Inr True"
  by (simp_all add: phase_is_def le_graph_def le_graph_row_def le_end_def le_begin_def le_reads)

lemma le_step3: "event_step le_graph [[le_op E 0], [le_op E 1]] (le_state E 3) (3, le_end) = Inr (le_state E 4)"
proof -
  have r: "int_is le_end ''dispatch_id'' 0 = Inr True" "rget le_end ''status'' = JInt 0" "rget le_end ''synchronized'' = JBool True"
    "integer le_end ''graph_end'' = Inr 2" "length (mf_graphs le_graph) = 2"
    by (simp_all add: le_end_def int_is_def le_reads le_graph_def)
  have z: "str_int 0 = ''0''" by code_simp
  have "[0..<2::nat] = [0, Suc 0]" by (simp add: upt_rec)
  then have "event_end le_graph [[le_op E 0], [le_op E 1]] (le_state E 3) le_end = Inr (le_state E 4)"
    unfolding event_end_def
    by (simp add: fields_ok le_fields' le_state_def r le_rows Let_def dispatch_graph_def enter_operation_def has_key_def z)
  then show ?thesis by (simp add: event_step_def le_kinds le_framing)
qed

lemma le_step4: "event_step le_graph ops (le_state E 4) (4, le_sample) = Inr (le_state E 5)"
proof -
  have "event_sample (le_state E 4) le_sample = Inr (le_state E 5)"
    unfolding event_sample_def
    by (simp add: fields_ok le_fields', simp add: le_state_def, simp add: le_state_def le_phase_event_def le_sample_def int_is_def phase_is_def le_reads)
  then show ?thesis by (simp add: event_step_def le_kinds le_framing)
qed

lemma le_step5: "event_step le_graph ops (le_state E 5) (5, le_run_end) = Inr (le_state E 6)"
proof -
  have "event_run_end le_graph (le_state E 5) le_run_end = Inr (le_state E 6)"
    unfolding event_run_end_def
    by (simp add: fields_ok le_fields, simp add: le_state_def le_graph_def, simp add: le_state_def le_graph_def le_run_end_def le_run_def int_is_def le_reads)
  then show ?thesis by (simp add: event_step_def le_kinds le_framing)
qed

lemma le_projection:
  "\<exists>p. project_lifecycle E le_events le_graph = Inr p \<and> lp_samples p = 1 \<and> length (lp_barriers p) = 6"
proof -
  have "foldm (event_step le_graph [[le_op E 0], [le_op E 1]]) lifecycle_start (zip [0..<length le_events] le_events) = Inr (le_state E 6)"
  proof -
    have "zip [0..<length le_events] le_events = [(0, le_run), (1, le_phase_event), (2, le_begin), (3, le_end), (4, le_sample), (5, le_run_end)]"
      by (simp add: le_events_def upt_rec)
    then show ?thesis
      by (simp add: le_step0 [where E = E] le_step1 le_step2 le_step3 le_step4 le_step5 del: One_nat_def)
  qed
  moreover have "mapr (sample_step_of le_graph [[le_op E 0], [le_op E 1]] (le_state E 6)) (zip [0..<length (lc_samples (le_state E 6))]
      (lc_samples (le_state E 6))) = Inr [\<lparr>ss_index = 0, ss_logits_ready = dispatch_end_id 0, ss_next_entries = []\<rparr>]"
    by (simp add: le_state_def sample_step_of_def next_entries_def le_sample_def le_reads)
  moreover have "lc_ended (le_state E 6)" "lc_run (le_state E 6) = Some le_run" "\<not> pipeline_run le_run"
    by (simp_all add: le_state_def pipeline_run_def le_run_def le_reads)
  ultimately show ?thesis by (simp add: project_lifecycle_def le_operations, simp add: le_state_def)
qed


end
