(* ===== verification/Numerical.thy ===== *)
theory Numerical
  imports Py_Base "HOL-Library.Word"
begin

text \<open>
  The bit-accurate dot-product reference: \<^verbatim>\<open>scripts/numerical_reference.py\<close> with the profile
  table of \<^verbatim>\<open>scripts/im2p_config.py\<close> (whose input \<^verbatim>\<open>config/im2p_profiles.json\<close> is
  the constant \<open>im2p_profiles\<close>; what it reads of the generated files is the argument
  \<open>files\<close>). Every intermediate value is computed exactly, observed, then wrapped to the datapath
  width. The main result: when no observation overflows, the wrapped computation returns the exact
  scaled dot product.
\<close>

unbundle bit_operations_syntax

section \<open>Profiles\<close>

record profile_source =
  ps_schema :: int
  ps_dimensions :: "int list"
  integer_accumulator_bits :: "(string, int) dict"
  logical_capacity_bytes :: int
  ps_memory_backend :: string
  ps_memory_read_latency :: int
  ps_memory_latency_contract :: string
  ps_scale_carrier_bits :: int
  ps_scale_storage_bytes :: int
  ps_numerical_semantics_revision :: string

definition im2p_profiles :: profile_source where
  "im2p_profiles = \<lparr>ps_schema = 1, ps_dimensions = [16, 32, 64],
     integer_accumulator_bits = [(''4'', 32), (''8'', 32), (''16'', 64)], logical_capacity_bytes = 65536,
     ps_memory_backend = ''column-banked-sync-bram'', ps_memory_read_latency = 1,
     ps_memory_latency_contract = ''serialized-rmw-v1'', ps_scale_carrier_bits = 32, ps_scale_storage_bytes = 4,
     ps_numerical_semantics_revision = ''signed-scu-sat-v2''\<rparr>"

text \<open>What the file system says: whether the generated files hold what would be generated now, the
  digest of the source files and of the generated text.\<close>

record config_files =
  generated_current :: bool
  config_fingerprint :: string
  generated_sha256 :: string

record ProfileConfig =
  activation_bits :: int
  weight_bits :: int
  pc_dim :: int
  product_bits :: int
  partial_bits :: int
  accumulator_bits :: int
  accumulator_rows :: int
  row_address_bits :: nat
  row_count_bits :: nat
  capacity_bytes :: int
  memory_backend :: string
  memory_read_latency :: int
  memory_latency_contract :: string
  numerical_semantics_revision :: string
  scale_carrier_bits :: int
  scale_storage_bytes :: int
  config_source_sha256 :: string
  generated_config_sha256 :: string

fun nat_bit_length :: "nat \<Rightarrow> nat" where
  "nat_bit_length n = (if n = 0 then 0 else Suc (nat_bit_length (n div 2)))"

declare nat_bit_length.simps [simp del]

definition profile_config :: "config_files \<Rightarrow> int \<Rightarrow> int \<Rightarrow> int \<Rightarrow> ProfileConfig res" where
  "profile_config files activation weight d =
     (let source = im2p_profiles; widths = integer_accumulator_bits source in
      chk (ps_schema source = 1) (ValueError ''unsupported profile schema'') (
      chk (activation = weight \<and> has_key widths (str_int activation) \<and> d \<in> set (ps_dimensions source))
        (ValueError ''unsupported profile'') (
      let bits = the (map_of widths (str_int activation));
          capacity = logical_capacity_bytes source;
          rows = capacity * 8 div (d * bits);
          remainder = capacity * 8 mod (d * bits) in
      chk (\<not> (remainder \<noteq> 0 \<or> rows < d \<or> rows AND (rows - 1) \<noteq> 0))
        (ValueError ''accumulator capacity must yield power-of-two rows >= DIM'') (
      chk (generated_current files) (ValueError ''stale generated configuration'') (
      Inr \<lparr>activation_bits = activation, weight_bits = weight, pc_dim = d, product_bits = activation + weight,
           partial_bits = bits, accumulator_bits = bits, accumulator_rows = rows,
           row_address_bits = nat_bit_length (nat (rows - 1)), row_count_bits = nat_bit_length (nat d),
           capacity_bytes = capacity, memory_backend = ps_memory_backend source,
           memory_read_latency = ps_memory_read_latency source,
           memory_latency_contract = ps_memory_latency_contract source,
           numerical_semantics_revision = ps_numerical_semantics_revision source,
           scale_carrier_bits = ps_scale_carrier_bits source, scale_storage_bytes = ps_scale_storage_bytes source,
           config_source_sha256 = config_fingerprint files, generated_config_sha256 = generated_sha256 files\<rparr>)))))"

lemma profile_keys: "str_int 4 = ''4''" "str_int 8 = ''8''" "str_int 16 = ''16''"
  by code_simp+

lemma profile_config_Inr:
  assumes "profile_config files a w d = Inr pc"
  shows "w = a \<and> (a, accumulator_bits pc) \<in> {(4, 32), (8, 32), (16, 64)} \<and> d \<in> {16, 32, 64} \<and>
    accumulator_rows pc = 65536 * 8 div (d * accumulator_bits pc) \<and>
    row_address_bits pc = nat_bit_length (nat (accumulator_rows pc - 1))"
proof -
  have "a = 4" if "str_int a = ''4''" for a using that by (simp add: profile_keys [symmetric] str_int_inj)
  moreover have "a = 8" if "str_int a = ''8''" for a using that by (simp add: profile_keys [symmetric] str_int_inj)
  moreover have "a = 16" if "str_int a = ''16''" for a using that by (simp add: profile_keys [symmetric] str_int_inj)
  ultimately show ?thesis using assms
    by (auto simp: profile_config_def im2p_profiles_def Let_def chk_eq_Inr has_key_def split: if_splits)
qed

text \<open>Every supported profile splits the accumulator memory exactly: a power of two of rows, at
  least one per array row, addressed by \<open>row_address_bits\<close> bits.\<close>

theorem profile_config_rows:
  assumes "profile_config files a w d = Inr pc"
  shows "accumulator_rows pc * (d * accumulator_bits pc) = 65536 * 8 \<and>
    accumulator_rows pc = 2 ^ row_address_bits pc \<and> d \<le> accumulator_rows pc \<and> accumulator_bits pc \<in> {32, 64}"
  using profile_config_Inr [OF assms] by (elim conjE insertE emptyE) (simp_all add: nat_bit_length.simps)

lemma profile_config_rows_witness:
  "\<exists>pc. profile_config \<lparr>generated_current = True, config_fingerprint = [], generated_sha256 = []\<rparr> 8 8 64 = Inr pc \<and>
     accumulator_rows pc = 2 ^ row_address_bits pc"
proof -
  let ?files = "\<lparr>generated_current = True, config_fingerprint = [], generated_sha256 = []\<rparr>"
  have "isl (profile_config ?files 8 8 64) = False"
    by (simp add: profile_config_def im2p_profiles_def has_key_def profile_keys)
  then obtain pc where "profile_config ?files 8 8 64 = Inr pc" by (cases "profile_config ?files 8 8 64") simp_all
  with profile_config_rows [OF this] show ?thesis by blast
qed

section \<open>Observations\<close>

datatype Operation = BYPASS | MULTIPLY | SHIFT | EXTERNAL

record Location =
  route :: string
  layer :: string
  stripe :: int
  loc_row :: int
  loc_column :: int

record Boundary =
  max_abs :: int
  overflow_count :: int
  first_k :: "int option"
  first_block :: "int option"
  first_value :: "int option"

definition Boundary_init :: Boundary where
  "Boundary_init = \<lparr>max_abs = 0, overflow_count = 0, first_k = None, first_block = None, first_value = None\<rparr>"

definition in_range :: "nat \<Rightarrow> int \<Rightarrow> bool" where
  "in_range width v \<longleftrightarrow> - (2 ^ (width - 1)) \<le> v \<and> v < 2 ^ (width - 1)"

definition observe :: "Boundary \<Rightarrow> int \<Rightarrow> nat \<Rightarrow> int \<times> int \<Rightarrow> Boundary" where
  "observe b value width position =
     (let b1 = b\<lparr>max_abs := max (max_abs b) \<bar>value\<bar>\<rparr> in
      if \<not> in_range width value then
        let b2 = b1\<lparr>overflow_count := overflow_count b1 + 1\<rparr> in
        if first_k b2 = None
        then b2\<lparr>first_k := Some (fst position), first_block := Some (snd position), first_value := Some value\<rparr>
        else b2
      else b1)"

record Dot =
  activations :: "int list"
  weights :: "int list"
  scales :: "int list"
  operand_bits :: int
  diagnostic_width :: "int option"
  dot_dim :: int
  block_size :: int
  k_origin :: int
  operation :: Operation
  dot_location :: Location

record Boundaries =
  pe_partial :: Boundary
  vector_contribution :: Boundary
  accumulator_update :: Boundary
  provider_output :: Boundary
  diagnostic_integer_reconstruction :: Boundary

record Result =
  result_location :: Location
  value_of :: int
  mathematical_value :: int
  block_outputs :: "int list"
  boundaries :: Boundaries
  datapath_width :: nat
  diagnostic_profile :: bool
  raw_int32_value :: "int option"
  reconstruction_policy :: string

definition overflow_free :: "Result \<Rightarrow> bool" where
  "overflow_free r \<longleftrightarrow> list_all (\<lambda>b. overflow_count b = 0)
     [pe_partial (boundaries r), vector_contribution (boundaries r), accumulator_update (boundaries r),
      provider_output (boundaries r), diagnostic_integer_reconstruction (boundaries r)]"

definition wrap :: "int \<Rightarrow> nat \<Rightarrow> int" where
  "wrap value width = (value + 2 ^ (width - 1)) mod 2 ^ width - 2 ^ (width - 1)"

definition transform :: "int \<Rightarrow> int \<Rightarrow> Operation \<Rightarrow> int" where
  "transform partial scale op = (case op of
     BYPASS \<Rightarrow> partial
   | EXTERNAL \<Rightarrow> partial
   | MULTIPLY \<Rightarrow> partial * scale
   | SHIFT \<Rightarrow> if scale < 0 then drop_bit (nat (- scale)) partial else push_bit (nat scale) partial)"

section \<open>The evaluation loop\<close>

record eval_state =
  es_offset :: int
  es_accumulator :: int
  es_mathematical :: int
  es_outputs :: "int list"
  es_reconstructed :: int
  es_position :: "int \<times> int"
  es_boundaries :: Boundaries

text \<open>One iteration of the inner loop over the products of a fragment; the state is
  (partial, exact partial, boundary).\<close>

definition product_step :: "Dot \<Rightarrow> nat \<Rightarrow> int \<Rightarrow> int \<times> int \<times> Boundary \<Rightarrow> int \<Rightarrow> int \<times> int \<times> Boundary" where
  "product_step dot width block st index =
     (case st of (partial, exact, pe) \<Rightarrow>
      let prod = activations dot ! nat index * weights dot ! nat index;
          wide = partial + prod in
      (wrap wide width, exact + prod, observe pe wide width (k_origin dot + index, block)))"

definition fragment :: "Dot \<Rightarrow> int \<Rightarrow> int \<times> int \<times> int" where
  "fragment dot offset =
     (let uses = operation dot \<noteq> BYPASS;
          global_k = k_origin dot + offset;
          block = (if uses then global_k div block_size dot else 0);
          inner = (if uses then global_k mod block_size dot else 0);
          count0 = min (dot_dim dot) (int (length (activations dot)) - offset);
          count = (if uses then min count0 (block_size dot - inner) else count0)
      in (block, inner, count))"

definition eval_step :: "Dot \<Rightarrow> nat \<Rightarrow> eval_state \<Rightarrow> eval_state" where
  "eval_step dot width st =
     (case fragment dot (es_offset st) of (block, inner, count) \<Rightarrow>
      let offset = es_offset st;
          n = int (length (activations dot));
          global_k = k_origin dot + offset;
          scale = (if operation dot = BYPASS then 0 else scales dot ! nat block);
          bs = es_boundaries st in
      case foldl (product_step dot width block) (0, 0, pe_partial bs) [offset..offset + count - 1] of
        (partial, exact, pe) \<Rightarrow>
      let wide_contribution = transform partial scale (operation dot);
          position = (global_k, block);
          vc = observe (vector_contribution bs) wide_contribution width position;
          contribution = wrap wide_contribution width;
          wide_update = es_accumulator st + contribution;
          au = observe (accumulator_update bs) wide_update width position;
          acc = wrap wide_update width;
          mathematical = es_mathematical st +
            (if operation dot = EXTERNAL then exact * scale else transform exact scale (operation dot));
          offset' = offset + count;
          bs1 = bs\<lparr>pe_partial := pe, vector_contribution := vc, accumulator_update := au\<rparr>;
          block_end = (inner + count = block_size dot \<or> offset' = n) in
      if operation dot = EXTERNAL \<and> block_end then
        let reconstructed = es_reconstructed st + acc * scale in
        \<lparr>es_offset = offset', es_accumulator = 0, es_mathematical = mathematical,
         es_outputs = es_outputs st @ [acc], es_reconstructed = reconstructed, es_position = position,
         es_boundaries = bs1\<lparr>provider_output := observe (provider_output bs1) acc 64 position,
           diagnostic_integer_reconstruction :=
             observe (diagnostic_integer_reconstruction bs1) reconstructed 64 position\<rparr>\<rparr>
      else
        \<lparr>es_offset = offset', es_accumulator = acc, es_mathematical = mathematical,
         es_outputs = es_outputs st, es_reconstructed = es_reconstructed st, es_position = position,
         es_boundaries = bs1\<rparr>)"

partial_function (option) eval_loop :: "Dot \<Rightarrow> nat \<Rightarrow> eval_state \<Rightarrow> eval_state option" where
  "eval_loop dot width st =
     (if es_offset st < int (length (activations dot)) then eval_loop dot width (eval_step dot width st) else Some st)"

declare eval_loop.simps [code]

definition eval_init :: "Dot \<Rightarrow> eval_state" where
  "eval_init dot = \<lparr>es_offset = 0, es_accumulator = 0, es_mathematical = 0, es_outputs = [], es_reconstructed = 0,
     es_position = (k_origin dot, 0),
     es_boundaries = \<lparr>pe_partial = Boundary_init, vector_contribution = Boundary_init,
       accumulator_update = Boundary_init, provider_output = Boundary_init,
       diagnostic_integer_reconstruction = Boundary_init\<rparr>\<rparr>"

text \<open>The result once the loop has ended.\<close>

definition eval_result :: "Dot \<Rightarrow> nat \<Rightarrow> eval_state \<Rightarrow> Result" where
  "eval_result dot width st =
     (let value = (if operation dot = EXTERNAL then es_reconstructed st else es_accumulator st);
          bs = es_boundaries st;
          bs' = (if operation dot \<noteq> EXTERNAL
                 then bs\<lparr>provider_output := observe (provider_output bs) value 64 (es_position st)\<rparr> else bs) in
      \<lparr>result_location = dot_location dot, value_of = value, mathematical_value = es_mathematical st, block_outputs = es_outputs st, boundaries = bs',
       datapath_width = width, diagnostic_profile = diagnostic_width dot \<noteq> None,
       raw_int32_value = (if operation dot = EXTERNAL then None else Some (max (- (2 ^ 31)) (min value (2 ^ 31 - 1)))),
       reconstruction_policy = (if operation dot = EXTERNAL
         then ''diagnostic-integer-only; use host_reconstruction for frontend'' else ''none'')\<rparr>)"

text \<open>The checks of \<^verbatim>\<open>evaluate\<close>, giving the datapath width. (Operands that are not integers
  cannot be built here.)\<close>

definition evaluate_checks :: "config_files \<Rightarrow> Dot \<Rightarrow> nat res" where
  "evaluate_checks files dot =
     chk (diagnostic_width dot \<in> {None, Some 32, Some 64} \<and> 0 \<le> block_size dot \<and> block_size dot \<le> 0xFFFFFFFF \<and>
          0 \<le> k_origin dot \<and> k_origin dot \<le> 0xFFFFFFFF \<and> activations dot \<noteq> [] \<and>
          int (length (activations dot)) \<le> 0xFFFFFFFF - k_origin dot \<and>
          length (activations dot) = length (weights dot)) (ValueError ''invalid dot dimensions/profile'') (
     bnd (profile_config files (operand_bits dot) (operand_bits dot) (dot_dim dot)) (\<lambda>profile.
     let width = (case diagnostic_width dot of None \<Rightarrow> nat (accumulator_bits profile) | Some w \<Rightarrow> nat w);
         limit = 2 ^ nat (operand_bits dot - 1) in
     chk (list_all (\<lambda>x. - limit \<le> x \<and> x < limit) (activations dot @ weights dot))
       (ValueError ''operand is not a signed integer in the selected profile'') (
     chk (operation dot = BYPASS \<or> block_size dot \<noteq> 0) (ValueError ''scaled work block size must be positive'') (
     chk (operation dot = BYPASS \<or>
          (int (length (scales dot)) > (k_origin dot + int (length (activations dot)) - 1) div block_size dot \<and>
           list_all (\<lambda>x. -128 \<le> x \<and> x \<le> 127) (scales dot)))
       (ValueError ''missing or invalid signed INT8 scale'') (
     Inr width)))))"

definition evaluate :: "config_files \<Rightarrow> Dot \<Rightarrow> Result res option" where
  "evaluate files dot =
     (case evaluate_checks files dot of
        Inl e \<Rightarrow> Some (Inl e)
      | Inr width \<Rightarrow> (case eval_loop dot width (eval_init dot) of
          None \<Rightarrow> None | Some st \<Rightarrow> Some (Inr (eval_result dot width st))))"


section \<open>Wrapping\<close>

lemma wrap_in_range: "0 < width \<Longrightarrow> in_range width v \<Longrightarrow> wrap v width = v"
proof -
  assume w: "0 < width" and r: "in_range width v"
  then have "(2 :: int) ^ width = 2 * 2 ^ (width - 1)" by (cases width) simp_all
  with r have "0 \<le> v + 2 ^ (width - 1)" "v + 2 ^ (width - 1) < 2 ^ width" by (auto simp: in_range_def)
  then show ?thesis by (simp add: wrap_def)
qed

text \<open>C24. Wrapping to a width is reading the value as a two's complement word of that width: for
  the 32-bit and 64-bit datapaths \<open>wrap\<close> is the signed value of the machine word.\<close>

theorem wrap_is_signed_word:
  "wrap v 32 = sint (word_of_int v :: 32 word) \<and> wrap v 64 = sint (word_of_int v :: 64 word)"
  by (simp add: wrap_def signed_of_int signed_take_bit_eq_take_bit_shift take_bit_eq_mod)

section \<open>Observations only count\<close>

lemma observe_count: "overflow_count (observe b v w p) = overflow_count b + (if in_range w v then 0 else 1)"
  by (simp add: observe_def Let_def)

lemma observe_zero: "0 \<le> overflow_count b \<Longrightarrow>
    overflow_count (observe b v w p) = 0 \<longleftrightarrow> overflow_count b = 0 \<and> in_range w v"
  by (simp add: observe_count)

lemma observe_nonneg: "0 \<le> overflow_count b \<Longrightarrow> 0 \<le> overflow_count (observe b v w p)"
  by (simp add: observe_count)

definition product_at :: "Dot \<Rightarrow> int \<Rightarrow> int" where
  "product_at dot i = activations dot ! nat i * weights dot ! nat i"

text \<open>The inner loop: the exact partial is the sum of the products, and without overflow the wrapped
  partial is the exact one.\<close>

lemma product_step_simp: "product_step dot width block (p, x, pe) i =
    (wrap (p + product_at dot i) width, x + product_at dot i, observe pe (p + product_at dot i) width (k_origin dot + i, block))"
  by (simp add: product_step_def product_at_def Let_def)

lemma product_fold:
  assumes "foldl (product_step dot width block) (p, x, pe) is = (p', x', pe')" and "0 \<le> overflow_count pe"
  shows "x' = x + sum_list (map (product_at dot) is) \<and> 0 \<le> overflow_count pe' \<and>
    (overflow_count pe' = 0 \<longrightarrow> overflow_count pe = 0 \<and> (0 < width \<and> p = x \<longrightarrow> p' = x'))"
  using assms
proof (induction "is" arbitrary: p x pe)
  case Nil
  then show ?case by simp
next
  case (Cons i "is")
  let ?wide = "p + product_at dot i"
  have "foldl (product_step dot width block) (wrap ?wide width, x + product_at dot i,
      observe pe ?wide width (k_origin dot + i, block)) is = (p', x', pe')"
    using Cons.prems(1) by (simp add: product_step_simp)
  from Cons.IH [OF this observe_nonneg [OF Cons.prems(2)]] show ?case
    using Cons.prems(2) by (auto simp: observe_zero wrap_in_range)
qed

section \<open>The loop computes the mathematical value\<close>

definition ofree :: "Boundaries \<Rightarrow> bool" where
  "ofree bs \<longleftrightarrow> overflow_count (pe_partial bs) = 0 \<and> overflow_count (vector_contribution bs) = 0 \<and>
     overflow_count (accumulator_update bs) = 0 \<and> overflow_count (provider_output bs) = 0 \<and>
     overflow_count (diagnostic_integer_reconstruction bs) = 0"

definition ononneg :: "Boundaries \<Rightarrow> bool" where
  "ononneg bs \<longleftrightarrow> 0 \<le> overflow_count (pe_partial bs) \<and> 0 \<le> overflow_count (vector_contribution bs) \<and>
     0 \<le> overflow_count (accumulator_update bs) \<and> 0 \<le> overflow_count (provider_output bs) \<and>
     0 \<le> overflow_count (diagnostic_integer_reconstruction bs)"

text \<open>The conditions the checks establish.\<close>

definition dot_ok :: "Dot \<Rightarrow> nat \<Rightarrow> bool" where
  "dot_ok dot width \<longleftrightarrow> 0 < dot_dim dot \<and> (operation dot \<noteq> BYPASS \<longrightarrow> 0 < block_size dot) \<and> 0 < width \<and>
     0 \<le> k_origin dot \<and> activations dot \<noteq> []"

lemma evaluate_checks_ok:
  assumes "evaluate_checks files dot = Inr width"
  shows "dot_ok dot width \<and> width \<in> {32, 64}"
proof -
  from assms obtain pc where pc: "profile_config files (operand_bits dot) (operand_bits dot) (dot_dim dot) = Inr pc"
    and width: "width = (case diagnostic_width dot of None \<Rightarrow> nat (accumulator_bits pc) | Some w \<Rightarrow> nat w)"
    and checks: "diagnostic_width dot \<in> {None, Some 32, Some 64}" "0 \<le> block_size dot" "0 \<le> k_origin dot"
      "activations dot \<noteq> []" "operation dot = BYPASS \<or> block_size dot \<noteq> 0"
    by (simp only: evaluate_checks_def chk_eq_Inr bnd_eq_Inr Let_def) blast
  from profile_config_Inr [OF pc] have "accumulator_bits pc \<in> {32, 64}" "0 < dot_dim dot" by auto
  with width checks show ?thesis by (auto simp: dot_ok_def)
qed

text \<open>Scale of the product at \<open>i\<close>: constant on a fragment.\<close>

definition coeff :: "Dot \<Rightarrow> int \<Rightarrow> int" where
  "coeff dot i = (if operation dot = BYPASS then 0 else scales dot ! nat ((k_origin dot + i) div block_size dot))"

lemma fragment_props:
  assumes ok: "dot_ok dot width" and o: "0 \<le> off" "off < int (length (activations dot))"
    and f: "fragment dot off = (block, inner, count)"
  shows "0 < count" "off + count \<le> int (length (activations dot))"
    "operation dot \<noteq> BYPASS \<Longrightarrow> inner + count \<le> block_size dot"
    "operation dot \<noteq> BYPASS \<Longrightarrow> 0 \<le> i \<Longrightarrow> i < count \<Longrightarrow> (k_origin dot + (off + i)) div block_size dot = block"
    "operation dot \<noteq> BYPASS \<Longrightarrow> inner + count < block_size dot \<Longrightarrow> (k_origin dot + (off + count)) div block_size dot = block"
proof -
  let ?bs = "block_size dot" and ?g = "k_origin dot + off"
  show "0 < count" "off + count \<le> int (length (activations dot))"
    "operation dot \<noteq> BYPASS \<Longrightarrow> inner + count \<le> ?bs"
    using f ok o pos_mod_bound [of ?bs ?g] by (auto simp: fragment_def dot_ok_def Let_def split: if_splits)
  have in_block: "(?g + j) div ?bs = ?g div ?bs" if "operation dot \<noteq> BYPASS" "0 \<le> j" "?g mod ?bs + j < ?bs" for j
  proof -
    have b: "0 < ?bs" using ok that(1) by (simp add: dot_ok_def)
    have split: "(?bs * q + r) div ?bs = q + r div ?bs" for q r using b by simp
    have "?g + j = ?bs * (?g div ?bs) + (?g mod ?bs + j)" by simp
    then have "(?g + j) div ?bs = ?g div ?bs + (?g mod ?bs + j) div ?bs" using split by metis
    also have "(?g mod ?bs + j) div ?bs = 0" using that b by (intro div_pos_pos_trivial) simp_all
    finally show ?thesis by simp
  qed
  show "(k_origin dot + (off + i)) div ?bs = block" if "operation dot \<noteq> BYPASS" "0 \<le> i" "i < count"
    using in_block [of i] that f by (auto simp: fragment_def Let_def algebra_simps split: if_splits)
  show "(k_origin dot + (off + count)) div ?bs = block" if "operation dot \<noteq> BYPASS" "inner + count < ?bs"
    using in_block [of count] that f \<open>0 < count\<close> by (auto simp: fragment_def Let_def algebra_simps split: if_splits)
qed


text \<open>The mathematical value of a fragment.\<close>

definition fragment_exact :: "Dot \<Rightarrow> int \<Rightarrow> int \<Rightarrow> int" where
  "fragment_exact dot off count = (\<Sum>i \<leftarrow> [off..off + count - 1]. product_at dot i)"

definition fragment_value :: "Dot \<Rightarrow> int \<Rightarrow> int" where
  "fragment_value dot off = (case fragment dot off of (block, inner, count) \<Rightarrow>
     let x = fragment_exact dot off count in
     if operation dot = EXTERNAL then x * coeff dot off else transform x (coeff dot off) (operation dot))"

text \<open>One iteration, in terms of the exact values: what it does to the mathematical value and, when
  nothing overflows, to the wrapped ones.\<close>

lemma eval_step_props:
  assumes ok: "dot_ok dot width" and o: "0 \<le> es_offset st" "es_offset st < int (length (activations dot))"
    and nn: "ononneg (es_boundaries st)" and f: "fragment dot (es_offset st) = (block, inner, count)"
  defines "st' \<equiv> eval_step dot width st" and "x \<equiv> fragment_exact dot (es_offset st) count"
    and "c \<equiv> coeff dot (es_offset st)"
  shows "es_offset st' = es_offset st + count"
    and "es_mathematical st' = es_mathematical st + fragment_value dot (es_offset st)"
    and "ononneg (es_boundaries st')"
    and "ofree (es_boundaries st') \<Longrightarrow> ofree (es_boundaries st) \<and>
      (let acc = es_accumulator st + transform x c (operation dot);
           block_end = (inner + count = block_size dot \<or> es_offset st' = int (length (activations dot))) in
       if operation dot = EXTERNAL \<and> block_end
       then es_accumulator st' = 0 \<and> es_reconstructed st' = es_reconstructed st + acc * c
       else es_accumulator st' = acc \<and> es_reconstructed st' = es_reconstructed st)"
proof -
  let ?bs = "es_boundaries st"
  obtain p e pe where fold: "foldl (product_step dot width block) (0, 0, pe_partial ?bs)
      [es_offset st..es_offset st + count - 1] = (p, e, pe)" by (metis prod_cases3)
  have scale: "(if operation dot = BYPASS then 0 else scales dot ! nat block) = c"
    using fragment_props(4) [OF ok o f, of 0] fragment_props(1) [OF ok o f] by (simp add: c_def coeff_def)
  from product_fold [OF fold] nn have e: "e = x" and pe: "0 \<le> overflow_count pe"
    "overflow_count pe = 0 \<Longrightarrow> overflow_count (pe_partial ?bs) = 0 \<and> p = x"
    using ok by (auto simp: x_def fragment_exact_def ononneg_def dot_ok_def)
  have w: "0 < width" using ok by (simp add: dot_ok_def)
  note step = eval_step_def [of dot width st, unfolded f prod.case Let_def scale fold]
  show "es_offset st' = es_offset st + count"
    "es_mathematical st' = es_mathematical st + fragment_value dot (es_offset st)"
    unfolding st'_def step fragment_value_def f prod.case Let_def
    using e by (simp_all add: x_def c_def)
  show "ononneg (es_boundaries st')"
    using nn pe(1) unfolding st'_def step by (simp add: ononneg_def observe_nonneg)
  show "ofree (es_boundaries st') \<Longrightarrow> ofree ?bs \<and>
      (let acc = es_accumulator st + transform x c (operation dot);
           block_end = (inner + count = block_size dot \<or> es_offset st' = int (length (activations dot))) in
       if operation dot = EXTERNAL \<and> block_end
       then es_accumulator st' = 0 \<and> es_reconstructed st' = es_reconstructed st + acc * c
       else es_accumulator st' = acc \<and> es_reconstructed st' = es_reconstructed st)"
    using nn pe w unfolding st'_def step Let_def
    by (auto simp: ofree_def ononneg_def observe_zero wrap_in_range observe_nonneg split: if_splits)
qed

text \<open>The loop invariant: the sum of the fragments so far, and the wrapped accumulators in terms of
  it.\<close>

definition eval_inv :: "Dot \<Rightarrow> eval_state \<Rightarrow> bool" where
  "eval_inv dot st \<longleftrightarrow>
     (let n = int (length (activations dot)) in
      0 \<le> es_offset st \<and> es_offset st \<le> n \<and> ononneg (es_boundaries st) \<and>
      (ofree (es_boundaries st) \<longrightarrow>
         (if operation dot = EXTERNAL
          then (if es_offset st < n
                then es_reconstructed st + es_accumulator st * coeff dot (es_offset st) = es_mathematical st
                else es_reconstructed st = es_mathematical st)
          else es_accumulator st = es_mathematical st)))"

lemma eval_inv_step:
  assumes ok: "dot_ok dot width" and inv: "eval_inv dot st" and lt: "es_offset st < int (length (activations dot))"
  shows "eval_inv dot (eval_step dot width st) \<and> es_offset st < es_offset (eval_step dot width st)"
proof -
  obtain block inner count where f: "fragment dot (es_offset st) = (block, inner, count)" by (metis prod_cases3)
  have o: "0 \<le> es_offset st" and nn: "ononneg (es_boundaries st)" using inv by (simp_all add: eval_inv_def Let_def)
  note fp = fragment_props [OF ok o lt f] and sp = eval_step_props [OF ok o lt nn f]
  let ?st = "eval_step dot width st" and ?n = "int (length (activations dot))" and ?c = "coeff dot (es_offset st)"
  have fv: "fragment_value dot (es_offset st) = (let x = fragment_exact dot (es_offset st) count in
      if operation dot = EXTERNAL then x * ?c else transform x ?c (operation dot))"
    by (simp add: fragment_value_def f)
  have main: "if operation dot = EXTERNAL
        then (if es_offset ?st < ?n
              then es_reconstructed ?st + es_accumulator ?st * coeff dot (es_offset ?st) = es_mathematical ?st
              else es_reconstructed ?st = es_mathematical ?st)
        else es_accumulator ?st = es_mathematical ?st" if free: "ofree (es_boundaries ?st)"
  proof (cases "operation dot = EXTERNAL")
    case False
    with sp(4) [OF free] sp(2) inv fv lt show ?thesis by (simp add: eval_inv_def Let_def)
  next
    case True
    have old: "es_reconstructed st + es_accumulator st * ?c = es_mathematical st"
      using sp(4) [OF free] inv True lt by (simp add: eval_inv_def Let_def)
    have tr: "transform x c EXTERNAL = x" for x c by (simp add: transform_def)
    show ?thesis
    proof (cases "inner + count = block_size dot \<or> es_offset ?st = ?n")
      case end_: True
      with sp(4) [OF free] sp(2) old True fv show ?thesis
        by (simp add: Let_def tr algebra_simps)
    next
      case False
      with fp(3) True have "inner + count < block_size dot" by auto
      with fp(5) fp(4) [of 0] fp(1) True sp(1) have "coeff dot (es_offset ?st) = ?c"
        by (simp add: coeff_def)
      moreover have "es_offset ?st < ?n" using False sp(1) fp(2) by simp
      ultimately show ?thesis using sp(4) [OF free] sp(2) old True fv False
        by (simp add: Let_def tr algebra_simps)
    qed
  qed
  have "0 \<le> es_offset ?st" "es_offset ?st \<le> ?n" "es_offset st < es_offset ?st"
    using fp(1,2) sp(1) o by simp_all
  with main sp(3) show ?thesis unfolding eval_inv_def Let_def by blast
qed

lemma eval_loop_returns:
  assumes ok: "dot_ok dot width"
    and "eval_inv dot st" "I st"
    and step: "\<And>st. eval_inv dot st \<Longrightarrow> es_offset st < int (length (activations dot)) \<Longrightarrow> I st \<Longrightarrow> I (eval_step dot width st)"
  shows "\<exists>st'. eval_loop dot width st = Some st' \<and> eval_inv dot st' \<and> es_offset st' = int (length (activations dot)) \<and> I st'"
  using assms(2,3)
proof (induction "nat (int (length (activations dot)) - es_offset st)" arbitrary: st rule: less_induct)
  case less
  show ?case
  proof (cases "es_offset st < int (length (activations dot))")
    case True
    from eval_inv_step [OF ok less.prems(1) True] have
      inv: "eval_inv dot (eval_step dot width st)" and lt: "es_offset st < es_offset (eval_step dot width st)" by blast+
    have "\<exists>st'. eval_loop dot width (eval_step dot width st) = Some st' \<and> eval_inv dot st' \<and>
        es_offset st' = int (length (activations dot)) \<and> I st'"
      using True lt inv step [OF less.prems(1) True less.prems(2)] by (intro less.hyps) auto
    then show ?thesis using True by (simp add: eval_loop.simps [of dot width st])
  next
    case False
    with less.prems show ?thesis by (auto simp: eval_loop.simps [of dot width st] eval_inv_def Let_def)
  qed
qed

lemma eval_inv_init: "eval_inv dot (eval_init dot)"
  by (simp add: eval_inv_def eval_init_def ononneg_def Boundary_init_def)

lemma eval_result_free: "ononneg (es_boundaries st) \<Longrightarrow> overflow_free (eval_result dot width st) \<Longrightarrow> ofree (es_boundaries st)"
  by (auto simp: overflow_free_def eval_result_def Let_def ofree_def ononneg_def observe_zero split: if_splits)

text \<open>The exact scaled dot product of the first \<open>n\<close> operands.\<close>

definition weight_at :: "Dot \<Rightarrow> int \<Rightarrow> int" where
  "weight_at dot i = (if operation dot = BYPASS then 1 else coeff dot i)"

definition scaled_dot :: "Dot \<Rightarrow> int \<Rightarrow> int" where
  "scaled_dot dot n = (\<Sum>i \<leftarrow> [0..n - 1]. activations dot ! nat i * weights dot ! nat i * weight_at dot i)"

lemma fragment_value_sum:
  assumes ok: "dot_ok dot width" and o: "0 \<le> off" "off < int (length (activations dot))"
    and f: "fragment dot off = (block, inner, count)" and op: "operation dot \<noteq> SHIFT"
  shows "fragment_value dot off = (\<Sum>i \<leftarrow> [off..off + count - 1]. product_at dot i * weight_at dot i)"
proof -
  have w: "weight_at dot i = weight_at dot off" if "i \<in> set [off..off + count - 1]" for i
  proof (cases "operation dot = BYPASS")
    case True
    then show ?thesis by (simp add: weight_at_def)
  next
    case False
    have i: "0 \<le> i - off" "i - off < count" "off + (i - off) = i" using that by auto
    have "(k_origin dot + i) div block_size dot = block"
      using fragment_props(4) [OF ok o f False i(1,2)] unfolding i(3) .
    moreover have "(k_origin dot + off) div block_size dot = block"
      using fragment_props(4) [OF ok o f False order_refl fragment_props(1) [OF ok o f]] by (simp only: add_0_right)
    ultimately
    show ?thesis using False by (simp only: weight_at_def coeff_def if_False)
  qed
  have "(\<Sum>i \<leftarrow> [off..off + count - 1]. product_at dot i * weight_at dot i) =
      (\<Sum>i \<leftarrow> [off..off + count - 1]. product_at dot i * weight_at dot off)"
    by (intro arg_cong [of _ _ sum_list] map_cong refl arg_cong2 [of _ _ _ _ "(*)"] w)
  also have "\<dots> = fragment_exact dot off count * weight_at dot off"
    by (simp add: fragment_exact_def sum_list_mult_const)
  finally show ?thesis using op
    by (cases "operation dot") (simp_all add: fragment_value_def f weight_at_def transform_def Let_def)
qed

lemma scaled_dot_append:
  assumes "0 \<le> a" "0 < c"
  shows "scaled_dot dot (a + c) = scaled_dot dot a + (\<Sum>i \<leftarrow> [a..a + c - 1]. product_at dot i * weight_at dot i)"
proof -
  have "[0..a + c - 1] = [0..a - 1] @ [a..a + c - 1]" using upto_split2 [of 0 "a - 1" "a + c - 1"] assms
    by (cases "a = 0") simp_all
  then show ?thesis by (simp add: scaled_dot_def product_at_def)
qed

lemma evaluate_loop:
  assumes "evaluate_checks files dot = Inr width"
  obtains st where "eval_loop dot width (eval_init dot) = Some st" "eval_inv dot st"
    "es_offset st = int (length (activations dot))"
    "operation dot \<noteq> SHIFT \<longrightarrow> es_mathematical st = scaled_dot dot (es_offset st)"
proof -
  from assms have ok: "dot_ok dot width" using evaluate_checks_ok by blast
  let ?I = "\<lambda>st. operation dot \<noteq> SHIFT \<longrightarrow> es_mathematical st = scaled_dot dot (es_offset st)"
  have "?I (eval_init dot)" by (simp add: eval_init_def scaled_dot_def)
  moreover have "?I (eval_step dot width st)"
    if inv: "eval_inv dot st" and lt: "es_offset st < int (length (activations dot))" and I: "?I st" for st
  proof -
    obtain block inner count where f: "fragment dot (es_offset st) = (block, inner, count)" by (metis prod_cases3)
    have o: "0 \<le> es_offset st" and nn: "ononneg (es_boundaries st)" using inv by (simp_all add: eval_inv_def Let_def)
    show ?thesis
      using eval_step_props(1,2) [OF ok o lt nn f] fragment_value_sum [OF ok o lt f] I
        scaled_dot_append [OF o fragment_props(1) [OF ok o lt f]] by simp
  qed
  ultimately show thesis using eval_loop_returns [OF ok eval_inv_init, of ?I] that by blast
qed

text \<open>C4. The reference returns on every input, and when no boundary overflowed the value of the
  wrapped datapath is the mathematical value.\<close>

theorem evaluate_overflow_free:
  "\<exists>r. evaluate files dot = Some r \<and>
     (\<forall>result. r = Inr result \<and> overflow_free result \<longrightarrow> value_of result = mathematical_value result)"
proof (cases "evaluate_checks files dot")
  case (Inl e)
  then show ?thesis by (simp add: evaluate_def)
next
  case (Inr width)
  then obtain st where st: "eval_loop dot width (eval_init dot) = Some st" "eval_inv dot st"
    "es_offset st = int (length (activations dot))" using evaluate_loop by blast
  have "value_of (eval_result dot width st) = mathematical_value (eval_result dot width st)"
    if "overflow_free (eval_result dot width st)"
    using eval_result_free [OF _ that] st(2,3) by (simp add: eval_inv_def Let_def eval_result_def)
  then show ?thesis using Inr st(1) by (simp add: evaluate_def)
qed


section \<open>A concrete product\<close>

definition ex_files :: config_files where
  "ex_files = \<lparr>generated_current = True, config_fingerprint = [], generated_sha256 = []\<rparr>"

definition ex_location :: Location where
  "ex_location = \<lparr>route = ''independent-dot'', layer = ''unspecified'', stripe = 0, loc_row = 0, loc_column = 0\<rparr>"

definition ex_dot :: Dot where
  "ex_dot = \<lparr>activations = [3, -4, 5], weights = [2, 7, -1], scales = [2, -3], operand_bits = 8,
     diagnostic_width = None, dot_dim = 16, block_size = 2, k_origin = 0, operation = EXTERNAL, dot_location = ex_location\<rparr>"

definition ex_result :: Result where
  "ex_result = \<lparr>result_location = ex_location, value_of = -29, mathematical_value = -29, block_outputs = [-22, -5],
     boundaries =
       \<lparr>pe_partial = Boundary_init\<lparr>max_abs := 22\<rparr>, vector_contribution = Boundary_init\<lparr>max_abs := 22\<rparr>,
        accumulator_update = Boundary_init\<lparr>max_abs := 22\<rparr>, provider_output = Boundary_init\<lparr>max_abs := 22\<rparr>,
        diagnostic_integer_reconstruction = Boundary_init\<lparr>max_abs := 44\<rparr>\<rparr>,
     datapath_width = 32, diagnostic_profile = False, raw_int32_value = None,
     reconstruction_policy = ''diagnostic-integer-only; use host_reconstruction for frontend''\<rparr>"

lemma evaluate_example: "evaluate ex_files ex_dot = Some (Inr ex_result)"
  by (simp add: evaluate_def evaluate_checks_def profile_config_def im2p_profiles_def ex_files_def ex_dot_def has_key_def
      profile_keys ex_result_def
      eval_loop.simps eval_init_def eval_step_def fragment_def product_step_def observe_def in_range_def
      wrap_def transform_def eval_result_def Boundary_init_def upto.simps numeral_eq_Suc Let_def)

theorem evaluate_overflow_free_witness: "overflow_free ex_result \<and> value_of ex_result = mathematical_value ex_result"
proof -
  have "overflow_free ex_result" by (simp add: overflow_free_def ex_result_def Boundary_init_def)
  then show ?thesis using evaluate_overflow_free [of ex_files ex_dot] evaluate_example by simp
qed


end
