(* ===== verification/Optrace_Parents.thy ===== *)
theory Optrace_Parents
  imports Trace_Schema
begin

text \<open>
  Parent coverage of the production op-trace: \<^verbatim>\<open>sim/cycle/optrace_parents.py\<close>. A parent invocation is
  declared, its works cover its rows in order, and it is completed before the phase ends. The validator is a
  state record and \<open>pv_consume\<close> its one operation.
\<close>

section \<open>Accessors\<close>

definition parent_error :: "string \<Rightarrow> py_error" where
  "parent_error message = ParentError (''parent integrity: '' @ message)"

definition prequire :: "bool \<Rightarrow> string \<Rightarrow> 'a res \<Rightarrow> 'a res" where
  "prequire c message k = chk c (parent_error message) k"

definition prequirer :: "bool res \<Rightarrow> string \<Rightarrow> 'a res \<Rightarrow> 'a res" where
  "prequirer c message k = chkr c (parent_error message) k"

lemma prequire_eq_Inr [res_simps]: "prequire c m k = Inr y \<longleftrightarrow> c \<and> k = Inr y"
  by (simp add: prequire_def chk_eq_Inr)

lemma prequirer_eq_Inr [res_simps]: "prequirer c m k = Inr y \<longleftrightarrow> c = Inr True \<and> k = Inr y"
  by (simp add: prequirer_def chkr_eq_Inr)

definition number :: "Record \<Rightarrow> string \<Rightarrow> int res" where
  "number r name = (case rget r name of
     JInt n \<Rightarrow> (if 0 \<le> n \<and> n < 2 ^ 64 then Inr n else Inl (parent_error (name @ '' must be uint64'')))
   | _ \<Rightarrow> Inl (parent_error (name @ '' must be uint64'')))"

lemma number_eq_Inr [res_simps]: "number r name = Inr n \<longleftrightarrow> rget r name = JInt n \<and> 0 \<le> n \<and> n < 2 ^ 64"
  by (auto simp: number_def split: jval.splits if_splits)

text \<open>A comparison on a number of the record, which may raise.\<close>

definition number_is :: "Record \<Rightarrow> string \<Rightarrow> (int \<Rightarrow> bool) \<Rightarrow> bool res" where
  "number_is r name P = bnd (number r name) (\<lambda>n. Inr (P n))"

lemma number_is_True [res_simps]: "number_is r name P = Inr True \<longleftrightarrow> (\<exists>n. number r name = Inr n \<and> P n)"
  by (auto simp: number_is_def bnd_eq_Inr)

section \<open>Field tables\<close>

definition OP_COMMON :: "string list" where
  "OP_COMMON = [''kind'', ''sequence'', ''run_id'']"

definition DESCRIPTOR_FIELDS :: "string list" where
  "DESCRIPTOR_FIELDS =
     [''layer'', ''operation'', ''provenance'', ''scope'', ''activation_bits'', ''weight_bits'', ''dim'',
      ''n'', ''k'', ''tile_i_count'', ''tile_j_count'', ''tile_k_count'', ''activation_stride_bytes'',
      ''weight_stride_bytes'', ''output_stride_bytes'', ''scale_stride_elements'', ''block_size'',
      ''vector_op'', ''output_domain'', ''production_geometry_version'']"

definition BEGIN_FIELDS :: "string list" where
  "BEGIN_FIELDS = OP_COMMON @ [''phase_id'', ''parent_invocation_id'', ''m''] @ DESCRIPTOR_FIELDS"

definition END_FIELDS :: "string list" where
  "END_FIELDS = OP_COMMON @ [''phase_id'', ''parent_invocation_id'', ''status'']"

definition TILE_FIELDS :: "string list" where
  "TILE_FIELDS = [''tile_i_count'', ''tile_j_count'', ''tile_k_count'']"

definition check_tiles :: "Record \<Rightarrow> unit res" where
  "check_tiles r =
     bnd (number r ''dim'') (\<lambda>d.
     prequire (d \<in> {16, 32, 64}) ''invalid DIM'' (
     prequirer (allr (map (\<lambda>key. number_is r key (\<lambda>n. n > 0)) TILE_FIELDS)) ''zero final tile factor'' (
     prequirer (allr [number_is r ''tile_i_count'' (\<lambda>n. n \<le> 65535 div d), number_is r ''tile_j_count'' (\<lambda>n. n \<le> 65535 div d),
                      number_is r ''tile_k_count'' (\<lambda>n. n \<le> (2 ^ 32 - 1) div d)])
       ''final tile factor exceeds hardware domain'' (Inr ()))))"

section \<open>State\<close>

record Parent =
  pa_descriptor :: "jval list"
  pa_rows :: int
  pa_phase :: int
  pa_scope :: string
  pa_next_row :: int
  pa_work_count :: int

record ParentValidator =
  pv_parents :: "(int, Parent) dict"
  pv_next_parent :: int
  pv_phase :: "int option"
  pv_profile :: "(int \<times> int \<times> int) option"

definition ParentValidator_init :: ParentValidator where
  "ParentValidator_init = \<lparr>pv_parents = [], pv_next_parent = 0, pv_phase = None, pv_profile = None\<rparr>"

section \<open>Handlers\<close>

definition pv_finish :: "ParentValidator \<Rightarrow> unit res" where
  "pv_finish st = prequire (pv_parents st = []) ''incomplete parent at phase/run end'' (Inr ())"

definition pv_run :: "ParentValidator \<Rightarrow> Record \<Rightarrow> ParentValidator res" where
  "pv_run st r =
     prequire (pv_profile st = None) ''duplicate run'' (
     bnd (number r ''activation_bits'') (\<lambda>a. bnd (number r ''weight_bits'') (\<lambda>w. bnd (number r ''dim'') (\<lambda>d.
     Inr (st\<lparr>pv_profile := Some (a, w, d)\<rparr>)))))"

definition pv_phase_begin :: "ParentValidator \<Rightarrow> Record \<Rightarrow> ParentValidator res" where
  "pv_phase_begin st r =
     bnd (pv_finish st) (\<lambda>_. bnd (number r ''phase_id'') (\<lambda>p. Inr (st\<lparr>pv_phase := Some p\<rparr>)))"

definition nonempty_string :: "jval \<Rightarrow> bool" where
  "nonempty_string v = (case v of JStr s \<Rightarrow> s \<noteq> [] | _ \<Rightarrow> False)"

text \<open>The checks of a declaration after its identity, giving its row count.\<close>

definition begin_checks :: "ParentValidator \<Rightarrow> Record \<Rightarrow> string \<Rightarrow> int res" where
  "begin_checks st r scope =
     bnd (mapr (\<lambda>key. prequire (nonempty_string (rget r key)) (''invalid parent '' @ key) (Inr ()))
       [''layer'', ''operation'', ''provenance'']) (\<lambda>_.
     prequire ((scope = ''residual_compact'' \<and> py_eq (rget r ''provenance'') (JStr ''residual'')) \<or>
               (scope \<in> {''full'', ''stripe''} \<and> py_eq (rget r ''provenance'') (JStr ''dense_main'')))
       ''parent scope/provenance mismatch'' (
     bnd (mapr (\<lambda>key. prequirer (number_is r key (\<lambda>n. n > 0)) (''parent '' @ key @ '' must be positive'') (Inr ()))
       (drop 4 DESCRIPTOR_FIELDS)) (\<lambda>_.
     bnd (number r ''activation_bits'') (\<lambda>a. bnd (number r ''weight_bits'') (\<lambda>w. bnd (number r ''dim'') (\<lambda>d.
     prequire (pv_profile st = Some (a, w, d)) ''parent/run profile mismatch'' (
     bnd (number r ''m'') (\<lambda>rows.
     prequire (rows > 0) ''parent m must be positive'' (
     bnd (check_tiles r) (\<lambda>_.
     prequire (list_all2 py_eq (map (rget r) [''block_size'', ''vector_op'', ''output_domain'', ''production_geometry_version''])
                [JInt 32, JInt 5, JInt 2, JInt 1]) ''invalid parent HP1 contract'' (
     bnd (number r ''n'') (\<lambda>n. bnd (number r ''k'') (\<lambda>k.
     prequirer (allr [number_is r ''activation_stride_bytes'' (\<lambda>x. x \<ge> k), number_is r ''weight_stride_bytes'' (\<lambda>x. x \<ge> n),
                      number_is r ''output_stride_bytes'' (\<lambda>x. x \<ge> 4 * n),
                      number_is r ''output_stride_bytes'' (\<lambda>x. x mod 4 = 0),
                      number_is r ''scale_stride_elements'' (\<lambda>x. x \<ge> n)]) ''invalid parent strides'' (
     prequire (scope \<noteq> ''residual_compact'' \<or> k \<le> 32) ''residual parent is not compact'' (
     Inr rows)))))))))))))))"

definition pv_begin :: "ParentValidator \<Rightarrow> Record \<Rightarrow> ParentValidator res" where
  "pv_begin st r =
     prequire (keys_are r BEGIN_FIELDS) ''missing or unknown parent declaration fields'' (
     bnd (number r ''phase_id'') (\<lambda>phase.
     prequire (pv_phase st = Some phase) ''missing/stale parent phase'' (
     bnd (number r ''parent_invocation_id'') (\<lambda>identity.
     prequire (identity = pv_next_parent st) ''duplicate or nonmonotonic parent identity'' (
     case rget r ''scope'' of
       JStr scope \<Rightarrow>
         prequire (scope \<in> {''full'', ''stripe'', ''residual_compact''}) ''invalid parent scope'' (
         bnd (begin_checks st r scope) (\<lambda>rows.
         Inr (st\<lparr>pv_parents := AList.update identity
                   \<lparr>pa_descriptor = map (rget r) DESCRIPTOR_FIELDS, pa_rows = rows, pa_phase = phase, pa_scope = scope,
                    pa_next_row = 0, pa_work_count = 0\<rparr> (pv_parents st),
                 pv_next_parent := pv_next_parent st + 1\<rparr>)))
     | _ \<Rightarrow> Inl (parent_error ''invalid parent scope''))))))"

definition pv_parent :: "ParentValidator \<Rightarrow> Record \<Rightarrow> (int \<times> Parent) res" where
  "pv_parent st r =
     bnd (number r ''parent_invocation_id'') (\<lambda>identity.
     case map_of (pv_parents st) identity of
       None \<Rightarrow> Inl (parent_error ''undeclared or completed parent'')
     | Some parent \<Rightarrow>
         prequirer (number_is r ''phase_id'' (\<lambda>p. p = pa_phase parent \<and> Some (pa_phase parent) = pv_phase st))
           ''stale parent phase'' (Inr (identity, parent)))"

definition same_descriptor :: "Parent \<Rightarrow> Record \<Rightarrow> bool" where
  "same_descriptor parent r \<longleftrightarrow>
     list_all (\<lambda>(key, expected). (pa_scope parent \<noteq> ''stripe'' \<or> key \<notin> set TILE_FIELDS) \<longrightarrow> py_eq (rget r key) expected)
       (zip DESCRIPTOR_FIELDS (pa_descriptor parent))"

definition pv_work :: "ParentValidator \<Rightarrow> Record \<Rightarrow> ParentValidator res" where
  "pv_work st r =
     bnd (pv_parent st r) (\<lambda>(identity, parent).
     prequire (same_descriptor parent r) ''work differs from parent descriptor/geometry'' (
     bnd (check_tiles r) (\<lambda>_.
     prequirer (number_is r ''geometry_m'' (\<lambda>g. g = pa_rows parent)) ''work parent shape mismatch'' (
     bnd (number r ''row_begin'') (\<lambda>first. bnd (number r ''row_count'') (\<lambda>count.
     prequirer (allr [Inr (count > 0), number_is r ''m'' (\<lambda>m. count = m), Inr (first + count \<le> pa_rows parent)])
       ''work exceeds parent row range'' (
     prequire (first = pa_next_row parent) ''overlapping, gapped, or duplicate parent row range'' (
     bnd (if rget r ''host_slot'' \<noteq> JNull
          then prequirer (number_is r ''host_slot'' (\<lambda>s. s \<in> {0, 1})) ''host_slot outside [0,1]'' (Inr ()) else Inr ()) (\<lambda>_.
     bnd (if pa_scope parent = ''stripe''
          then prequirer (number_is r ''stripe_id'' (\<lambda>s. s = pa_work_count parent)) ''duplicate or unordered parent stripe ID''
                 (prequirer (number_is r ''host_slot'' (\<lambda>s. s \<in> {0, 1})) ''host_slot outside [0,1]'' (Inr ()))
          else prequire (pa_work_count parent = 0 \<and> count = pa_rows parent)
                 ''FULL/compact parent needs one complete work'' (Inr ())) (\<lambda>_.
     Inr (st\<lparr>pv_parents := AList.update identity
             (parent\<lparr>pa_next_row := pa_next_row parent + count, pa_work_count := pa_work_count parent + 1\<rparr>)
             (pv_parents st)\<rparr>)))))))))))"

definition pv_end :: "ParentValidator \<Rightarrow> Record \<Rightarrow> ParentValidator res" where
  "pv_end st r =
     prequire (keys_are r END_FIELDS) ''missing or unknown parent completion fields'' (
     bnd (pv_parent st r) (\<lambda>(identity, parent).
     prequire (py_eq (rget r ''status'') (JStr ''success'')) ''parent did not complete successfully'' (
     prequire (pa_work_count parent > 0 \<and> pa_next_row parent = pa_rows parent) ''incomplete parent row coverage'' (
     Inr (st\<lparr>pv_parents := AList.delete identity (pv_parents st)\<rparr>)))))"

definition pv_run_end :: "ParentValidator \<Rightarrow> Record \<Rightarrow> ParentValidator res" where
  "pv_run_end st r = bnd (pv_finish st) (\<lambda>_. Inr st)"

definition pv_handlers :: "(string, ParentValidator \<Rightarrow> Record \<Rightarrow> ParentValidator res) dict" where
  "pv_handlers = [(''run'', pv_run), (''phase'', pv_phase_begin), (''parent_begin'', pv_begin), (''npu_work'', pv_work),
     (''parent_end'', pv_end), (''run_end'', pv_run_end)]"

definition pv_consume :: "ParentValidator \<Rightarrow> Record \<Rightarrow> ParentValidator res" where
  "pv_consume st r = (case rget r ''kind'' of
     JStr kind \<Rightarrow> (case map_of pv_handlers kind of
         None \<Rightarrow> Inl (parent_error ''unsupported record kind'')
       | Some handler \<Rightarrow> handler st r)
   | _ \<Rightarrow> Inl (parent_error ''unsupported record kind''))"

section \<open>Inversion\<close>

lemma pv_parent_Inr:
  assumes "pv_parent st r = Inr (i, p)"
  shows "rget r ''parent_invocation_id'' = JInt i \<and> map_of (pv_parents st) i = Some p"
  using assms by (auto simp: pv_parent_def bnd_eq_Inr number_eq_Inr prequirer_eq_Inr split: option.splits)

lemma pv_begin_Inr:
  assumes "pv_begin st r = Inr st'"
  obtains m phase scope where "rget r ''parent_invocation_id'' = JInt (pv_next_parent st)" "rget r ''m'' = JInt m" "m > 0"
    "rget r ''scope'' = JStr scope"
    "st' = st\<lparr>pv_parents := AList.update (pv_next_parent st)
                   \<lparr>pa_descriptor = map (rget r) DESCRIPTOR_FIELDS, pa_rows = m, pa_phase = phase, pa_scope = scope,
                    pa_next_row = 0, pa_work_count = 0\<rparr> (pv_parents st),
                 pv_next_parent := pv_next_parent st + 1\<rparr>"
proof -
  from assms obtain phase scope rows where i: "number r ''parent_invocation_id'' = Inr (pv_next_parent st)"
    and s: "rget r ''scope'' = JStr scope" and c: "begin_checks st r scope = Inr rows"
    and st': "st' = st\<lparr>pv_parents := AList.update (pv_next_parent st)
                   \<lparr>pa_descriptor = map (rget r) DESCRIPTOR_FIELDS, pa_rows = rows, pa_phase = phase, pa_scope = scope,
                    pa_next_row = 0, pa_work_count = 0\<rparr> (pv_parents st),
                 pv_next_parent := pv_next_parent st + 1\<rparr>"
    by (cases "rget r ''scope''") (auto simp: pv_begin_def bnd_eq_Inr prequire_eq_Inr)
  have "number r ''m'' = Inr rows \<and> rows > 0"
    using c [unfolded begin_checks_def bnd_eq_Inr prequire_eq_Inr prequirer_eq_Inr sum.inject]
    by (elim exE conjE) (simp only: simp_thms)
  with i s st' show thesis by (auto simp: number_eq_Inr intro: that)
qed

lemma pv_work_Inr:
  assumes "pv_work st r = Inr st'"
  obtains i p count where "rget r ''parent_invocation_id'' = JInt i" "map_of (pv_parents st) i = Some p"
    "same_descriptor p r" "rget r ''row_begin'' = JInt (pa_next_row p)" "rget r ''row_count'' = JInt count" "count > 0"
    "pa_next_row p + count \<le> pa_rows p"
    "st' = st\<lparr>pv_parents := AList.update i
             (p\<lparr>pa_next_row := pa_next_row p + count, pa_work_count := pa_work_count p + 1\<rparr>) (pv_parents st)\<rparr>"
proof -
  from assms [unfolded pv_work_def bnd_eq_Inr split_paired_Ex prod.case prequire_eq_Inr prequirer_eq_Inr sum.inject]
  obtain i p count where p: "pv_parent st r = Inr (i, p)" and d: "same_descriptor p r"
    and b: "number r ''row_begin'' = Inr (pa_next_row p)" "number r ''row_count'' = Inr count"
    and a: "allr [Inr (count > 0), number_is r ''m'' (\<lambda>m. count = m), Inr (pa_next_row p + count \<le> pa_rows p)] = Inr True"
    and st': "st\<lparr>pv_parents := AList.update i
             (p\<lparr>pa_next_row := pa_next_row p + count, pa_work_count := pa_work_count p + 1\<rparr>) (pv_parents st)\<rparr> = st'"
    by (elim exE conjE) (simp only: simp_thms)
  from a have "count > 0 \<and> pa_next_row p + count \<le> pa_rows p" by (simp only: allr_eq_True sum.inject simp_thms)
  with pv_parent_Inr [OF p] d b st' [symmetric] show thesis by (intro that [of i p count]) (simp_all add: number_eq_Inr)
qed

lemma pv_end_Inr:
  assumes "pv_end st r = Inr st'"
  obtains i p where "rget r ''parent_invocation_id'' = JInt i" "map_of (pv_parents st) i = Some p"
    "pa_next_row p = pa_rows p" "pa_work_count p > 0" "st' = st\<lparr>pv_parents := AList.delete i (pv_parents st)\<rparr>"
  using assms unfolding pv_end_def
  by (auto simp: bnd_eq_Inr prequire_eq_Inr dest: pv_parent_Inr)

text \<open>The other records leave the open parents alone.\<close>

lemma pv_other_frame:
  assumes "pv_run st r = Inr st' \<or> pv_phase_begin st r = Inr st' \<or> pv_run_end st r = Inr st'"
  shows "pv_parents st' = pv_parents st \<and> pv_next_parent st' = pv_next_parent st"
  using assms by (auto simp: pv_run_def pv_phase_begin_def pv_run_end_def bnd_eq_Inr prequire_eq_Inr)

section \<open>Coverage\<close>

definition is_kind :: "string \<Rightarrow> Record \<Rightarrow> bool" where
  "is_kind k r \<longleftrightarrow> rget r ''kind'' = JStr k"

definition declarations :: "Record list \<Rightarrow> Record list" where
  "declarations rs = filter (is_kind ''parent_begin'') rs"

definition works_for :: "int \<Rightarrow> Record list \<Rightarrow> Record list" where
  "works_for i rs = filter (\<lambda>r. is_kind ''npu_work'' r \<and> rget r ''parent_invocation_id'' = JInt i) rs"

text \<open>The row after the last one, when the row ranges follow each other from row \<open>b\<close>.\<close>

fun cover :: "int \<Rightarrow> Record list \<Rightarrow> int option" where
  "cover b [] = Some b"
| "cover b (w # ws) = (case rget w ''row_count'' of
     JInt n \<Rightarrow> if rget w ''row_begin'' = JInt b \<and> n > 0 then cover (b + n) ws else None
   | _ \<Rightarrow> None)"

lemma cover_snoc:
  "cover b ws = Some e \<Longrightarrow> rget w ''row_begin'' = JInt e \<Longrightarrow> rget w ''row_count'' = JInt n \<Longrightarrow> n > 0 \<Longrightarrow>
   cover b (ws @ [w]) = Some (e + n)"
  by (induction b ws rule: cover.induct) (auto split: jval.splits if_splits)

text \<open>A work repeats the descriptor of its declaration, the tile factors of a stripe aside.\<close>

definition described :: "Record \<Rightarrow> Record \<Rightarrow> bool" where
  "described b w \<longleftrightarrow> list_all (\<lambda>key. (rget b ''scope'' \<noteq> JStr ''stripe'' \<or> key \<notin> set TILE_FIELDS) \<longrightarrow>
     py_eq (rget w key) (rget b key)) DESCRIPTOR_FIELDS"

definition parent_matches :: "Parent \<Rightarrow> Record \<Rightarrow> bool" where
  "parent_matches p b \<longleftrightarrow> pa_descriptor p = map (rget b) DESCRIPTOR_FIELDS \<and> rget b ''m'' = JInt (pa_rows p) \<and>
     rget b ''scope'' = JStr (pa_scope p)"

lemma list_all_zip_map: "list_all (\<lambda>(k, e). P k e) (zip ks (map f ks)) = list_all (\<lambda>k. P k (f k)) ks"
  by (induction ks) auto

lemma same_descriptor_described: "parent_matches p b \<Longrightarrow> same_descriptor p w \<longleftrightarrow> described b w"
  by (simp add: same_descriptor_def described_def parent_matches_def list_all_zip_map)

definition covered :: "Parent option \<Rightarrow> Record \<Rightarrow> Record list \<Rightarrow> bool" where
  "covered po b ws \<longleftrightarrow> list_all (described b) ws \<and>
     (case po of
        Some p \<Rightarrow> parent_matches p b \<and> cover 0 ws = Some (pa_next_row p) \<and> pa_work_count p = int (length ws)
      | None \<Rightarrow> ws \<noteq> [] \<and> (\<exists>m. rget b ''m'' = JInt m \<and> cover 0 ws = Some m))"

definition coverage_inv :: "Record list \<Rightarrow> ParentValidator \<Rightarrow> bool" where
  "coverage_inv rs st \<longleftrightarrow>
     map (\<lambda>b. rget b ''parent_invocation_id'') (declarations rs) = map (\<lambda>i. JInt (int i)) [0..<length (declarations rs)] \<and>
     pv_next_parent st = int (length (declarations rs)) \<and>
     (\<forall>i < length (declarations rs). covered (map_of (pv_parents st) (int i)) (declarations rs ! i) (works_for (int i) rs)) \<and>
     (\<forall>i p. map_of (pv_parents st) i = Some p \<longrightarrow> 0 \<le> i \<and> i < int (length (declarations rs))) \<and>
     (\<forall>w \<in> set rs. is_kind ''npu_work'' w \<longrightarrow>
        (\<exists>i < length (declarations rs). rget w ''parent_invocation_id'' = JInt (int i)))"

lemma declarations_snoc: "declarations (rs @ [r]) = (if is_kind ''parent_begin'' r then declarations rs @ [r] else declarations rs)"
  by (simp add: declarations_def)

lemma works_for_snoc: "works_for i (rs @ [r]) =
    (if is_kind ''npu_work'' r \<and> rget r ''parent_invocation_id'' = JInt i then works_for i rs @ [r] else works_for i rs)"
  by (simp add: works_for_def)

lemma is_kind_unique: "is_kind a r \<Longrightarrow> is_kind b r \<longleftrightarrow> a = b"
  by (auto simp: is_kind_def)

lemma coverage_begin:
  assumes inv: "coverage_inv rs st" and b: "pv_begin st r = Inr st'" and k: "is_kind ''parent_begin'' r"
  shows "coverage_inv (rs @ [r]) st'"
proof -
  from b obtain m phase scope where f: "rget r ''parent_invocation_id'' = JInt (pv_next_parent st)" "rget r ''m'' = JInt m"
    "rget r ''scope'' = JStr scope"
    and st': "st' = st\<lparr>pv_parents := AList.update (pv_next_parent st)
                   \<lparr>pa_descriptor = map (rget r) DESCRIPTOR_FIELDS, pa_rows = m, pa_phase = phase, pa_scope = scope,
                    pa_next_row = 0, pa_work_count = 0\<rparr> (pv_parents st),
                 pv_next_parent := pv_next_parent st + 1\<rparr>" by (rule pv_begin_Inr)
  let ?n = "length (declarations rs)"
  have nk: "\<not> is_kind ''npu_work'' r" using k by (simp add: is_kind_def)
  have n: "pv_next_parent st = int ?n" using inv by (simp add: coverage_inv_def)
  have fresh: "works_for (int ?n) rs = []"
    using inv by (auto simp: coverage_inv_def works_for_def filter_empty_conv)
  have "covered (map_of (pv_parents st') (int i)) ((declarations rs @ [r]) ! i) (works_for (int i) rs)"
    if "i < Suc ?n" for i
  proof (cases "i = ?n")
    case True
    then show ?thesis using f fresh n by (simp add: st' covered_def parent_matches_def nth_append)
  next
    case False
    with that have i: "i < ?n" by simp
    with inv have "covered (map_of (pv_parents st) (int i)) (declarations rs ! i) (works_for (int i) rs)"
      by (simp add: coverage_inv_def)
    with i n show ?thesis by (simp add: st' nth_append)
  qed
  then show ?thesis using inv k nk f n unfolding coverage_inv_def
    by (auto simp: declarations_snoc works_for_snoc st' less_Suc_eq split: if_splits)
qed

text \<open>A record that is no declaration, and changes the state of one parent only.\<close>

lemma coverage_same:
  assumes inv: "coverage_inv rs st" and k: "\<not> is_kind ''parent_begin'' r" and n: "pv_next_parent st' = pv_next_parent st"
    and dom: "\<And>i p. map_of (pv_parents st') i = Some p \<Longrightarrow> map_of (pv_parents st) i \<noteq> None"
    and w: "is_kind ''npu_work'' r \<Longrightarrow> \<exists>i p. rget r ''parent_invocation_id'' = JInt i \<and> map_of (pv_parents st) i = Some p"
    and c: "\<And>i. i < length (declarations rs) \<Longrightarrow>
      covered (map_of (pv_parents st) (int i)) (declarations rs ! i) (works_for (int i) rs) \<Longrightarrow>
      covered (map_of (pv_parents st') (int i)) (declarations rs ! i) (works_for (int i) (rs @ [r]))"
  shows "coverage_inv (rs @ [r]) st'"
proof -
  have d: "declarations (rs @ [r]) = declarations rs" using k by (simp add: declarations_snoc)
  have "\<exists>i < length (declarations rs). rget r ''parent_invocation_id'' = JInt (int i)" if wk: "is_kind ''npu_work'' r"
  proof -
    from w [OF wk] obtain i p where i: "rget r ''parent_invocation_id'' = JInt i" and p: "map_of (pv_parents st) i = Some p" by blast
    from inv p have "0 \<le> i \<and> i < int (length (declarations rs))" unfolding coverage_inv_def by blast
    with i show ?thesis by (intro exI [of _ "nat i"]) auto
  qed
  moreover have "0 \<le> i \<and> i < int (length (declarations rs))" if "map_of (pv_parents st') i = Some p" for i p
    using dom [OF that] inv unfolding coverage_inv_def by blast
  moreover have "covered (map_of (pv_parents st') (int i)) (declarations rs ! i) (works_for (int i) (rs @ [r]))"
    if "i < length (declarations rs)" for i
    using c [OF that] inv that unfolding coverage_inv_def by blast
  ultimately show ?thesis using inv n unfolding coverage_inv_def d by auto
qed

lemma coverage_work:
  assumes inv: "coverage_inv rs st" and b: "pv_work st r = Inr st'" and k: "is_kind ''npu_work'' r"
  shows "coverage_inv (rs @ [r]) st'"
proof -
  from b obtain i p count where i: "rget r ''parent_invocation_id'' = JInt i" and p: "map_of (pv_parents st) i = Some p"
    and d: "same_descriptor p r" and rows: "rget r ''row_begin'' = JInt (pa_next_row p)" "rget r ''row_count'' = JInt count" "count > 0"
    and st': "st' = st\<lparr>pv_parents := AList.update i
             (p\<lparr>pa_next_row := pa_next_row p + count, pa_work_count := pa_work_count p + 1\<rparr>) (pv_parents st)\<rparr>"
    by (rule pv_work_Inr)
  show ?thesis
  proof (rule coverage_same [OF inv])
    show "\<not> is_kind ''parent_begin'' r" using k by (simp add: is_kind_def)
    fix j assume c: "covered (map_of (pv_parents st) (int j)) (declarations rs ! j) (works_for (int j) rs)"
    show "covered (map_of (pv_parents st') (int j)) (declarations rs ! j) (works_for (int j) (rs @ [r]))"
    proof (cases "int j = i")
      case True
      with c p have m: "parent_matches p (declarations rs ! j)" by (simp add: covered_def)
      with d have "described (declarations rs ! j) r" by (simp add: same_descriptor_described)
      with m True c p rows k i show ?thesis
        by (auto simp: st' works_for_snoc covered_def parent_matches_def intro: cover_snoc)
    next
      case False
      with c i show ?thesis by (simp add: st' works_for_snoc)
    qed
  qed (use st' i p in \<open>auto split: if_splits\<close>)
qed

lemma coverage_end:
  assumes inv: "coverage_inv rs st" and b: "pv_end st r = Inr st'" and k: "is_kind ''parent_end'' r"
  shows "coverage_inv (rs @ [r]) st'"
proof -
  from b obtain i p where p: "map_of (pv_parents st) i = Some p" "pa_next_row p = pa_rows p" "pa_work_count p > 0"
    and st': "st' = st\<lparr>pv_parents := AList.delete i (pv_parents st)\<rparr>" by (rule pv_end_Inr)
  have nk: "\<not> is_kind ''npu_work'' r" using k by (simp add: is_kind_def)
  show ?thesis
  proof (rule coverage_same [OF inv])
    show "\<not> is_kind ''parent_begin'' r" using k by (simp add: is_kind_def)
    fix j assume c: "covered (map_of (pv_parents st) (int j)) (declarations rs ! j) (works_for (int j) rs)"
    with p nk show "covered (map_of (pv_parents st') (int j)) (declarations rs ! j) (works_for (int j) (rs @ [r]))"
      by (cases "int j = i") (auto simp: st' works_for_snoc covered_def parent_matches_def)
  qed (use st' nk in \<open>auto split: if_splits\<close>)
qed

lemma coverage_step: "coverage_inv rs st \<Longrightarrow> pv_consume st r = Inr st' \<Longrightarrow> coverage_inv (rs @ [r]) st'"
proof -
  assume inv: "coverage_inv rs st" and c: "pv_consume st r = Inr st'"
  from c obtain k h where k: "is_kind k r" and h: "(k, h) \<in> set pv_handlers" and r: "h st r = Inr st'"
    by (auto simp: pv_consume_def is_kind_def split: jval.splits option.splits dest: map_of_SomeD)
  have frame: "coverage_inv (rs @ [r]) st'"
    if "pv_run st r = Inr st' \<or> pv_phase_begin st r = Inr st' \<or> pv_run_end st r = Inr st'" "k \<notin> {''parent_begin'', ''npu_work''}"
  proof (rule coverage_same [OF inv])
    show "\<not> is_kind ''parent_begin'' r" using that(2) is_kind_unique [OF k] by auto
    have "\<not> is_kind ''npu_work'' r" using that(2) is_kind_unique [OF k] by auto
    then show "covered (map_of (pv_parents st') (int j)) (declarations rs ! j) (works_for (int j) (rs @ [r]))"
      if "covered (map_of (pv_parents st) (int j)) (declarations rs ! j) (works_for (int j) rs)" for j
      using that pv_other_frame [OF \<open>pv_run st r = Inr st' \<or> _\<close>] by (simp add: works_for_snoc)
  qed (use pv_other_frame [OF that(1)] that(2) is_kind_unique [OF k] in auto)
  from h k r show ?thesis unfolding pv_handlers_def set_simps
    by (elim insertE emptyE) (auto intro: frame coverage_begin [OF inv] coverage_work [OF inv] coverage_end [OF inv])
qed

lemma coverage_init: "coverage_inv [] ParentValidator_init"
  by (simp add: coverage_inv_def declarations_def ParentValidator_init_def)

lemma parents_coverage:
  assumes "foldm pv_consume ParentValidator_init rs = Inr st" and "pv_finish st = Inr u"
  shows "map (\<lambda>b. rget b ''parent_invocation_id'') (declarations rs) = map (\<lambda>i. JInt (int i)) [0..<length (declarations rs)] \<and>
    (\<forall>i < length (declarations rs). let b = declarations rs ! i; ws = works_for (int i) rs in
       ws \<noteq> [] \<and> list_all (described b) ws \<and> (\<exists>m. rget b ''m'' = JInt m \<and> cover 0 ws = Some m)) \<and>
    (\<forall>w \<in> set rs. is_kind ''npu_work'' w \<longrightarrow>
       (\<exists>i < length (declarations rs). rget w ''parent_invocation_id'' = JInt (int i)))"
proof -
  have inv: "coverage_inv rs st"
    using assms(1) coverage_init coverage_step by (rule foldm_prefix_invariant [where P = coverage_inv])
  have "pv_parents st = []" using assms(2) by (simp add: pv_finish_def prequire_eq_Inr)
  with inv show ?thesis by (auto simp: coverage_inv_def covered_def Let_def)
qed

end
