(* ===== verification/Optrace_Schema.thy ===== *)
theory Optrace_Schema
  imports Optrace_Parents Trace_Integrity
begin

text \<open>
  The production op-trace of version 2: \<^verbatim>\<open>sim/cycle/optrace_schema.py\<close>. \<open>validate_records\<close> takes the
  decoded lines of a trace; reading and decoding the file is the standard library's part. Where the code
  iterates over a set of field names the model iterates over the table: the order only decides which of several
  faults is reported first, and the field lists in the two messages of \<open>trace_fields\<close> are left out. Counters are dictionaries compared as \<^verbatim>\<open>Counter\<close> compares them.
\<close>

section \<open>Field tables\<close>

definition OPTRACE_SCHEMA :: string where "OPTRACE_SCHEMA = ''im2p-production-optrace''"
definition OPTRACE_VERSION :: int where "OPTRACE_VERSION = 2"

definition RUN_FIELDS :: "string list" where
  "RUN_FIELDS = OP_COMMON @ [''schema'', ''version'', ''model'', ''profile'', ''activation_bits'', ''weight_bits'', ''dim'',
     ''backend'', ''mode'', ''residual_enabled'', ''prompt_tokens'', ''requested_generated_tokens'',
     ''source_commits'', ''source_worktree_sha256'', ''hardware_contract_sha256'', ''runtime_manifest_sha256'']"

definition PHASE_FIELDS :: "string list" where
  "PHASE_FIELDS = OP_COMMON @ [''phase_id'', ''phase_kind'', ''decode_index'', ''input_tokens'']"

definition WORK_NUMBERS :: "string list" where
  "WORK_NUMBERS = [''phase_id'', ''activation_bits'', ''weight_bits'', ''dim'', ''m'', ''n'', ''k'', ''tile_i_count'',
     ''tile_j_count'', ''tile_k_count'', ''geometry_m'', ''row_begin'', ''row_count'',
     ''activation_stride_bytes'', ''weight_stride_bytes'', ''output_stride_bytes'',
     ''scale_stride_elements'', ''block_size'', ''vector_op'', ''output_domain'',
     ''production_geometry_version'', ''work_context'', ''source_row_begin'', ''source_row_count'',
     ''column_begin'', ''group_index'', ''logical_work_id'', ''parent_invocation_id'']"

definition WORK_OPTIONALS :: "string list" where
  "WORK_OPTIONALS = [''stripe_id'', ''host_slot'', ''original_block_id'']"

definition WORK_STRINGS :: "string list" where
  "WORK_STRINGS = [''layer'', ''operation'', ''provenance'', ''numerical_datapath'', ''scope'']"

definition WORK_FIELDS :: "string list" where
  "WORK_FIELDS = OP_COMMON @ WORK_NUMBERS @ WORK_OPTIONALS @ WORK_STRINGS @ [''rmd_raw'', ''host_integer_block_multiply'']"

definition OBSERVATIONS :: "string list" where
  "OBSERVATIONS = [''observed_rtl_start'', ''observed_rtl_done'', ''observed_rtl_elapsed'']"

definition RUN_END_FIELDS :: "string list" where
  "RUN_END_FIELDS = OP_COMMON @ [''status'', ''reason'', ''work_count'', ''independent_counts'']"

definition SOURCE_NAMES :: "string list" where
  "SOURCE_NAMES = [''IM2P.sim'', ''llama.cpp-gemmini'', ''headers'']"

section \<open>Accessors\<close>

definition trequire :: "bool \<Rightarrow> string \<Rightarrow> 'a res \<Rightarrow> 'a res" where
  "trequire c message k = chk c (TraceError message) k"

lemma trequire_eq_Inr [res_simps]: "trequire c m k = Inr y \<longleftrightarrow> c \<and> k = Inr y"
  by (simp add: trequire_def chk_eq_Inr)

definition trace_integer :: "jval \<Rightarrow> string \<Rightarrow> bool \<Rightarrow> int res" where
  "trace_integer v name positive = (case v of
     JInt n \<Rightarrow> trequire ((if positive then 1 else 0) \<le> n \<and> n \<le> 2 ^ 64 - 1)
       (name @ '': expected '' @ (if positive then ''positive'' else ''nonnegative'') @ '' uint64'') (Inr n)
   | _ \<Rightarrow> Inl (TraceError (name @ '': expected '' @ (if positive then ''positive'' else ''nonnegative'') @ '' uint64'')))"

definition trace_text :: "jval \<Rightarrow> string \<Rightarrow> string res" where
  "trace_text v name = (case v of
     JStr s \<Rightarrow> trequire (s \<noteq> []) (name @ '': nonempty string required'') (Inr s)
   | _ \<Rightarrow> Inl (TraceError (name @ '': nonempty string required'')))"

definition trace_fields :: "Record \<Rightarrow> string list \<Rightarrow> string list \<Rightarrow> unit res" where
  "trace_fields r required optional =
     trequire (set required \<subseteq> set (map fst r)) ''missing fields'' (
     trequire (set (map fst r) \<subseteq> set required \<union> set optional) ''unknown fields'' (Inr ()))"

lemma trace_integer_eq_Inr [res_simps]:
  "trace_integer v name p = Inr n \<longleftrightarrow> v = JInt n \<and> (if p then 1 else 0) \<le> n \<and> n < 2 ^ 64"
  by (auto simp: trace_integer_def trequire_eq_Inr split: jval.splits)

lemma trace_text_eq_Inr [res_simps]: "trace_text v name = Inr s \<longleftrightarrow> v = JStr s \<and> s \<noteq> []"
  by (auto simp: trace_text_def trequire_eq_Inr split: jval.splits)

text \<open>An integer field that has been checked.\<close>

definition num :: "Record \<Rightarrow> string \<Rightarrow> int" where
  "num r k = (case rget r k of JInt n \<Rightarrow> n | _ \<Rightarrow> 0)"

section \<open>A work record\<close>

definition work_types :: "Record \<Rightarrow> unit res" where
  "work_types w =
     bnd (trace_fields w WORK_FIELDS OBSERVATIONS) (\<lambda>_.
     bnd (mapr (\<lambda>k. trace_integer (rget w k) k False) WORK_NUMBERS) (\<lambda>_.
     bnd (mapr (\<lambda>k. if rget w k \<noteq> JNull then bnd (trace_integer (rget w k) k False) (\<lambda>_. Inr ()) else Inr ())
       (WORK_OPTIONALS @ OBSERVATIONS)) (\<lambda>_.
     bnd (mapr (\<lambda>k. trace_text (rget w k) k) WORK_STRINGS) (\<lambda>_. Inr ()))))"

definition work_geometry :: "Record \<Rightarrow> Record \<Rightarrow> int \<Rightarrow> unit res" where
  "work_geometry w run phase_id =
     trequire (num w ''phase_id'' = phase_id) ''work does not belong to current explicit phase'' (
     trequire (list_all (\<lambda>k. py_eq (rget w k) (rget run k)) [''activation_bits'', ''weight_bits'', ''dim''])
       ''work/run profile mismatch'' (
     bnd (mapr (\<lambda>k. trace_integer (rget w k) k True) [''m'', ''n'', ''k'', ''tile_i_count'', ''tile_j_count'', ''tile_k_count'']) (\<lambda>_.
     trequire (num w ''tile_i_count'' \<le> 65535 div num w ''dim'' \<and> num w ''tile_j_count'' \<le> 65535 div num w ''dim'' \<and>
               num w ''tile_k_count'' \<le> (2 ^ 32 - 1) div num w ''dim'') ''tile factor exceeds hardware domain'' (
     trequire (num w ''row_count'' = num w ''m'' \<and> num w ''row_begin'' + num w ''row_count'' \<le> num w ''geometry_m'')
       ''invalid accepted stripe/compact row range'' (
     trequire (num w ''activation_stride_bytes'' \<ge> num w ''k'' \<and> num w ''weight_stride_bytes'' \<ge> num w ''n'' \<and>
               num w ''output_stride_bytes'' \<ge> 4 * num w ''n'' \<and> num w ''output_stride_bytes'' mod 4 = 0 \<and>
               num w ''scale_stride_elements'' \<ge> num w ''n'') ''invalid descriptor strides'' (Inr ()))))))"

definition work_contract :: "Record \<Rightarrow> Record \<Rightarrow> unit res" where
  "work_contract w run =
     trequire (map (num w) [''block_size'', ''vector_op'', ''output_domain'', ''production_geometry_version''] = [32, 5, 2, 1])
       ''unsupported production HP1 descriptor contract'' (
     trequire (rget w ''numerical_datapath'' = JStr ''hp1_scu'' \<and> rget w ''rmd_raw'' = JBool False \<and>
               rget w ''host_integer_block_multiply'' = JBool False) ''raw/host-integer work is not production HP1 SCU'' (
     trequire (py_eq (rget w ''logical_work_id'') (rget w ''sequence''))
       ''logical work identity must match the deterministic sequence'' (
     bnd (if rget w ''provenance'' = JStr ''residual'' then
            trequire (rget run ''residual_enabled'' = JBool True) ''residual work in residual-disabled run'' (
            trequire (rget w ''scope'' = JStr ''residual_compact'' \<and> num w ''k'' \<le> 32 \<and> rget w ''original_block_id'' \<noteq> JNull)
              ''residual requires compact geometry and original block id'' (Inr ()))
          else trequire (rget w ''provenance'' = JStr ''dense_main'' \<and> rget w ''scope'' \<in> {JStr ''full'', JStr ''stripe''} \<and>
                         rget w ''original_block_id'' = JNull) ''invalid dense provenance/scope'' (Inr ())) (\<lambda>_.
     if rget w ''scope'' = JStr ''stripe''
     then trequire (rget w ''stripe_id'' \<noteq> JNull \<and> rget w ''host_slot'' \<noteq> JNull) ''stripe id and host slot required'' (Inr ())
     else trequire (num w ''row_begin'' = 0 \<and> num w ''geometry_m'' = num w ''m'')
            ''full/compact geometry must describe exactly this work'' (Inr ())))))"

definition validate_work :: "Record \<Rightarrow> Record \<Rightarrow> int \<Rightarrow> unit res" where
  "validate_work w run phase_id =
     bnd (work_types w) (\<lambda>_. bnd (work_geometry w run phase_id) (\<lambda>_. work_contract w run))"

section \<open>The run record\<close>

definition source_identities :: "Record \<Rightarrow> string \<Rightarrow> nat \<Rightarrow> unit res" where
  "source_identities run field len = (case rget run field of
     JObj values \<Rightarrow>
       trequire (keys_are values SOURCE_NAMES) ''missing source identities'' (
       trequire (list_all (\<lambda>(_, v). case v of JStr s \<Rightarrow> hex_string len s | _ \<Rightarrow> False) values) (''invalid '' @ field) (Inr ()))
   | _ \<Rightarrow> Inl (TraceError ''missing source identities''))"

definition validate_run :: "Record \<Rightarrow> unit res" where
  "validate_run run =
     trequire (\<not> py_eq (rget run ''version'') (JInt 1))
       ''legacy trace v1 lacks hardware binding and parent declarations; recollect with a current trace v2 producer'' (
     bnd (trace_fields run RUN_FIELDS []) (\<lambda>_.
     trequire (rget run ''kind'' = JStr ''run'' \<and> rget run ''schema'' = JStr OPTRACE_SCHEMA \<and>
               rget run ''version'' = JInt OPTRACE_VERSION) ''unsupported trace schema/version'' (
     bnd (mapr (\<lambda>k. trace_text (rget run k) k) [''run_id'', ''model'', ''profile'', ''backend'', ''mode'']) (\<lambda>_.
     bnd (mapr (\<lambda>k. trace_integer (rget run k) k False)
       [''activation_bits'', ''weight_bits'', ''dim'', ''prompt_tokens'', ''requested_generated_tokens'']) (\<lambda>_.
     let bits = num run ''activation_bits''; d = num run ''dim'' in
     trequire (bits \<in> {4, 8} \<and> bits = num run ''weight_bits'' \<and> d \<in> {16, 32, 64} \<and>
               rget run ''profile'' = JStr (profile_name bits bits d)) ''invalid run profile'' (
     trequire (rget run ''backend'' = JStr ''IM2P_SIM/GEMMINI_HP1'') ''unsupported production backend'' (
     trequire (case rget run ''residual_enabled'' of JBool _ \<Rightarrow> True | _ \<Rightarrow> False) ''residual_enabled must be boolean'' (
     bnd (mapr (\<lambda>k. trequire (is_sha256 (rget run k)) (''missing/invalid '' @ k) (Inr ()))
       [''hardware_contract_sha256'', ''runtime_manifest_sha256'']) (\<lambda>_.
     bnd (source_identities run ''source_commits'' 40) (\<lambda>_.
     source_identities run ''source_worktree_sha256'' 64))))))))))"

section \<open>The record loop\<close>

type_synonym count_key = "int \<times> string \<times> string"

record trace_state =
  vt_phases :: "Record list"
  vt_works :: "Record list"
  vt_counts :: "(count_key, int) dict"
  vt_parents :: ParentValidator

definition trace_start :: trace_state where
  "trace_start = \<lparr>vt_phases = [], vt_works = [], vt_counts = [], vt_parents = ParentValidator_init\<rparr>"

text \<open>\<^verbatim>\<open>_parent_record\<close>: a fault of the parent validator is a fault of the trace.\<close>

definition parent_record :: "ParentValidator \<Rightarrow> Record \<Rightarrow> ParentValidator res" where
  "parent_record p r = (case pv_consume p r of
     Inl (ParentError m) \<Rightarrow> Inl (TraceError m)
   | x \<Rightarrow> x)"

definition text_at :: "Record \<Rightarrow> string \<Rightarrow> string" where
  "text_at r k = (case rget r k of JStr s \<Rightarrow> s | _ \<Rightarrow> [])"

definition phase_step :: "trace_state \<Rightarrow> Record \<Rightarrow> trace_state res" where
  "phase_step st r =
     (let n = int (length (vt_phases st)) in
      bnd (trace_fields r PHASE_FIELDS []) (\<lambda>_.
      bnd (trace_integer (rget r ''phase_id'') ''phase_id'' False) (\<lambda>phase.
      bnd (trace_integer (rget r ''input_tokens'') ''input_tokens'' False) (\<lambda>_.
      trequire (phase = n) ''nonmonotonic phase identity'' (
      bnd (if vt_phases st = []
           then trequire (rget r ''phase_kind'' = JStr ''prefill'' \<and> rget r ''decode_index'' = JNull) ''first phase must be prefill'' (Inr ())
           else bnd (trace_integer (rget r ''decode_index'') ''decode_index'' False) (\<lambda>decode.
             trequire (rget r ''phase_kind'' = JStr ''decode'' \<and> decode = n - 1) ''decode indices must start at zero'' (Inr ()))) (\<lambda>_.
      Inr (st\<lparr>vt_phases := vt_phases st @ [r]\<rparr>)))))))"

definition count_key :: "Record \<Rightarrow> count_key" where
  "count_key r = (num r ''phase_id'', text_at r ''layer'', text_at r ''provenance'')"

definition work_step :: "Record \<Rightarrow> trace_state \<Rightarrow> Record \<Rightarrow> trace_state res" where
  "work_step run st r =
     trequire (vt_phases st \<noteq> []) ''work before phase'' (
     bnd (validate_work r run (num (last (vt_phases st)) ''phase_id'')) (\<lambda>_.
     Inr (st\<lparr>vt_works := vt_works st @ [r], vt_counts := counter_inc (vt_counts st) (count_key r)\<rparr>)))"

definition independent_step :: "(count_key, int) dict \<Rightarrow> jval \<Rightarrow> (count_key, int) dict res" where
  "independent_step counts v = (case v of
     JObj c \<Rightarrow>
       bnd (trace_fields c [''phase_id'', ''layer'', ''provenance'', ''count''] []) (\<lambda>_.
       bnd (trace_integer (rget c ''phase_id'') ''counter phase_id'' False) (\<lambda>phase.
       bnd (trace_integer (rget c ''count'') ''counter count'' True) (\<lambda>count.
       bnd (trace_text (rget c ''layer'') ''counter layer'') (\<lambda>layer.
       bnd (trace_text (rget c ''provenance'') ''counter provenance'') (\<lambda>provenance.
       trequire (\<not> has_key counts (phase, layer, provenance)) ''duplicate independent counter key'' (
       Inr (AList.update (phase, layer, provenance) count counts)))))))
   | _ \<Rightarrow> Inl (TraceError ''invalid independent count record''))"

definition counters_equal :: "('k, int) dict \<Rightarrow> ('k, int) dict \<Rightarrow> bool" where
  "counters_equal a b \<longleftrightarrow> list_all (\<lambda>k. counter_get a k = counter_get b k) (map fst a @ map fst b)"

definition end_step :: "nat \<Rightarrow> nat \<Rightarrow> trace_state \<Rightarrow> Record \<Rightarrow> trace_state res" where
  "end_step size_of sequence st r =
     trequire (Suc sequence = size_of) ''record after run end'' (
     bnd (trace_fields r RUN_END_FIELDS []) (\<lambda>_.
     trequire (rget r ''status'' = JStr ''success'') ''production run did not complete successfully'' (
     trequire (is_str (rget r ''reason'')) ''run-end reason must be a string'' (
     bnd (trace_integer (rget r ''work_count'') ''work_count'' False) (\<lambda>works.
     trequire (works = int (length (vt_works st))) ''run-end work count mismatch'' (
     bnd (array_or (TraceError ''independent production counts required'') (rget r ''independent_counts'')) (\<lambda>cs.
     bnd (foldm independent_step [] cs) (\<lambda>counts.
     trequire (counters_equal counts (vt_counts st)) ''trace vs independent accepted-dispatch count mismatch'' (
     Inr st)))))))))"

definition kind_step :: "ext \<Rightarrow> Record \<Rightarrow> nat \<Rightarrow> nat \<Rightarrow> trace_state \<Rightarrow> Record \<Rightarrow> trace_state res" where
  "kind_step E run size_of sequence st r =
     (let kind = rget r ''kind'' in
      if kind = JStr ''phase'' then phase_step st r
      else if kind = JStr ''npu_work'' then work_step run st r
      else if kind \<in> {JStr ''parent_begin'', JStr ''parent_end''} then Inr st
      else if kind = JStr ''run_end'' then end_step size_of sequence st r
      else Inl (TraceError (''unsupported record kind: '' @ py_str E kind)))"

definition record_step :: "ext \<Rightarrow> Record \<Rightarrow> nat \<Rightarrow> trace_state \<Rightarrow> nat \<times> jval \<Rightarrow> trace_state res" where
  "record_step E run size_of st entry =
     (case entry of (sequence, JObj r) \<Rightarrow>
        trequire (rget r ''sequence'' = JInt (int sequence)) ''duplicate/gapped/nonmonotonic sequence'' (
        trequire (py_eq (rget r ''run_id'') (rget run ''run_id'')) ''mixed run identity'' (
        bnd (if sequence = 0 then Inr st else kind_step E run size_of sequence st r) (\<lambda>st'.
        bnd (parent_record (vt_parents st') r) (\<lambda>p. Inr (st'\<lparr>vt_parents := p\<rparr>)))))
      | _ \<Rightarrow> Inl (TraceError ''JSONL record must be an object''))"

record op_trace =
  ot_run :: Record
  ot_phases :: "Record list"
  ot_works :: "Record list"
  ot_end :: jval

definition validate_records :: "ext \<Rightarrow> jval list \<Rightarrow> op_trace res" where
  "validate_records E records =
     trequire (length records \<ge> 3) ''incomplete trace'' (
     case hd records of
       JObj run \<Rightarrow>
         bnd (validate_run run) (\<lambda>_.
         bnd (foldm (record_step E run (length records)) trace_start (zip [0..<length records] records)) (\<lambda>st.
         trequire ((case last records of JObj r \<Rightarrow> rget r ''kind'' = JStr ''run_end'' | _ \<Rightarrow> False) \<and> vt_phases st \<noteq> [])
           ''missing run end or explicit phases'' (
         Inr \<lparr>ot_run = run, ot_phases = vt_phases st, ot_works = vt_works st, ot_end = last records\<rparr>)))
     | _ \<Rightarrow> Inl (TraceError ''JSONL run record must be an object''))"

definition no_duplicate_keys :: "(string \<times> jval) list \<Rightarrow> Record res" where
  "no_duplicate_keys pairs =
     foldm (\<lambda>d (key, value). trequire (\<not> has_key d key) (''duplicate JSON key: '' @ key) (Inr (AList.update key value d))) [] pairs"

end
