(* ===== verification/Optrace_Theorems.thy ===== *)
theory Optrace_Theorems
  imports Optrace_Schema
begin

text \<open>What an accepted op-trace is: its works and phases, the coverage of its parents, its counts.\<close>

section \<open>The loop\<close>

lemma foldm_prefix_invariant_in:
  assumes "foldm f s xs = Inr t" and "P [] s"
    and "\<And>ps s x s'. P ps s \<Longrightarrow> x \<in> set xs \<Longrightarrow> f s x = Inr s' \<Longrightarrow> P (ps @ [x]) s'"
  shows "P xs t"
proof -
  have "foldm f s ys = Inr t \<Longrightarrow> P ps s \<Longrightarrow> set ys \<subseteq> set xs \<Longrightarrow> P (ps @ ys) t" for ps ys s
  proof (induction ys arbitrary: ps s)
    case (Cons y ys)
    then obtain s' where "f s y = Inr s'" "foldm f s' ys = Inr t" by (auto simp: bnd_eq_Inr)
    with Cons.IH [of s' "ps @ [y]"] Cons.prems(2,3) assms(3) [of ps s y s'] show ?case by simp
  qed simp
  from this [of s xs "[]"] assms(1,2) show ?thesis by simp
qed

lemma parent_record_Inr: "parent_record p r = Inr q \<longleftrightarrow> pv_consume p r = Inr q"
  by (auto simp: parent_record_def split: sum.splits py_error.splits)

lemma counter_get_inc: "counter_get (counter_inc c k) j = counter_get c j + (if j = k then 1 else 0)"
  by (auto simp: counter_get_def counter_inc_def)

lemma counters_equal_get: "counters_equal a b \<Longrightarrow> counter_get a k = counter_get b k"
proof (cases "k \<in> set (map fst a @ map fst b)")
  case True
  then show "counters_equal a b \<Longrightarrow> ?thesis" by (simp add: counters_equal_def list_all_iff)
next
  case False
  then have "map_of a k = None" "map_of b k = None" by (auto simp: map_of_eq_None_iff)
  then show "counters_equal a b \<Longrightarrow> ?thesis" by (simp add: counter_get_def)
qed

definition phases_of :: "Record list \<Rightarrow> Record list" where
  "phases_of rs = filter (is_kind ''phase'') rs"

definition works_of_trace :: "Record list \<Rightarrow> Record list" where
  "works_of_trace rs = filter (is_kind ''npu_work'') rs"

text \<open>The phases: the prefill, then the decode phases 0, 1, ...\<close>

definition phases_ok :: "Record list \<Rightarrow> bool" where
  "phases_ok ps \<longleftrightarrow> map (\<lambda>p. rget p ''phase_id'') ps = map (\<lambda>i. JInt (int i)) [0..<length ps] \<and>
     (\<forall>i < length ps. if i = 0 then rget (ps ! i) ''phase_kind'' = JStr ''prefill'' \<and> rget (ps ! i) ''decode_index'' = JNull
        else rget (ps ! i) ''phase_kind'' = JStr ''decode'' \<and> rget (ps ! i) ''decode_index'' = JInt (int i - 1))"

definition optrace_inv :: "Record \<Rightarrow> Record list \<Rightarrow> trace_state \<Rightarrow> bool" where
  "optrace_inv run rs st \<longleftrightarrow>
     foldm pv_consume ParentValidator_init rs = Inr (vt_parents st) \<and>
     vt_works st = works_of_trace rs \<and> vt_phases st = phases_of rs \<and> phases_ok (vt_phases st) \<and>
     (\<forall>k. counter_get (vt_counts st) k = int (length (filter (\<lambda>w. count_key w = k) (vt_works st)))) \<and>
     (\<forall>w \<in> set (vt_works st). \<exists>i < length (vt_phases st). validate_work w run (int i) = Inr ())"

lemma phase_step_Inr:
  assumes "phase_step st r = Inr st'" and "phases_ok (vt_phases st)"
  shows "st' = st\<lparr>vt_phases := vt_phases st @ [r]\<rparr> \<and> phases_ok (vt_phases st @ [r])"
proof -
  from assms(1) have "rget r ''phase_id'' = JInt (int (length (vt_phases st)))"
    and s: "st' = st\<lparr>vt_phases := vt_phases st @ [r]\<rparr>"
    and k: "if vt_phases st = [] then rget r ''phase_kind'' = JStr ''prefill'' \<and> rget r ''decode_index'' = JNull
      else rget r ''phase_kind'' = JStr ''decode'' \<and> rget r ''decode_index'' = JInt (int (length (vt_phases st)) - 1)"
    by (auto simp: phase_step_def Let_def bnd_eq_Inr trequire_eq_Inr trace_integer_eq_Inr split: if_splits)
  with assms(2) show ?thesis by (auto simp: phases_ok_def nth_append less_Suc_eq)
qed

lemma work_step_Inr:
  assumes "work_step run st r = Inr st'"
  shows "vt_phases st \<noteq> [] \<and> validate_work r run (num (last (vt_phases st)) ''phase_id'') = Inr () \<and>
    st' = st\<lparr>vt_works := vt_works st @ [r], vt_counts := counter_inc (vt_counts st) (count_key r)\<rparr>"
  using assms by (auto simp: work_step_def bnd_eq_Inr trequire_eq_Inr)

lemma end_step_same: "end_step n i st r = Inr st' \<Longrightarrow> st' = st"
  by (auto simp: end_step_def bnd_eq_Inr trequire_eq_Inr)

lemma last_phase_id: "phases_ok ps \<Longrightarrow> ps \<noteq> [] \<Longrightarrow> num (last ps) ''phase_id'' = int (length ps - 1)"
proof -
  assume p: "phases_ok ps" and ne: "ps \<noteq> []"
  then have "map (\<lambda>p. rget p ''phase_id'') ps ! (length ps - 1) = JInt (int (length ps - 1))"
    unfolding phases_ok_def by simp
  with ne show ?thesis by (simp add: num_def last_conv_nth)
qed

lemma record_step_inv:
  assumes inv: "optrace_inv run rs st" and step: "record_step E run n st (i, v) = Inr st'"
    and run: "i = 0 \<longrightarrow> v = JObj run" and k0: "rget run ''kind'' = JStr ''run''"
  obtains r where "v = JObj r" "optrace_inv run (rs @ [r]) st'" "rget r ''sequence'' = JInt (int i)"
proof -
  from step obtain r st1 where r: "v = JObj r" and seq: "rget r ''sequence'' = JInt (int i)"
    and st1: "(if i = 0 then Inr st else kind_step E run n i st r) = Inr st1"
    and p: "pv_consume (vt_parents st1) r = Inr (vt_parents st')" and st': "st' = st1\<lparr>vt_parents := vt_parents st'\<rparr>"
    by (cases v) (auto simp: record_step_def bnd_eq_Inr trequire_eq_Inr parent_record_Inr)
  have base: "vt_parents st1 = vt_parents st"
    using st1 by (auto simp: kind_step_def phase_step_def work_step_def Let_def bnd_eq_Inr trequire_eq_Inr
        dest: end_step_same split: if_splits)
  have folds: "foldm pv_consume ParentValidator_init (rs @ [r]) = Inr (vt_parents st')"
    using inv p base by (simp add: optrace_inv_def foldm_append)
  note frame = st' [THEN arg_cong [of _ _ vt_phases]] st' [THEN arg_cong [of _ _ vt_works]] st' [THEN arg_cong [of _ _ vt_counts]]
  consider (phase) "is_kind ''phase'' r" "phase_step st r = Inr st1"
    | (work) "is_kind ''npu_work'' r" "work_step run st r = Inr st1"
    | (other) "\<not> is_kind ''phase'' r" "\<not> is_kind ''npu_work'' r" "st1 = st"
  proof (cases "i = 0")
    case True
    with st1 run r k0 show thesis by (intro other) (auto simp: is_kind_def)
  next
    case False
    with st1 show thesis
      by (auto simp: kind_step_def Let_def is_kind_def intro: phase work other dest: end_step_same split: if_splits)
  qed
  then have "optrace_inv run (rs @ [r]) st'"
  proof cases
    case phase
    from phase_step_Inr [OF phase(2)] inv have s: "st1 = st\<lparr>vt_phases := vt_phases st @ [r]\<rparr>" "phases_ok (vt_phases st @ [r])"
      by (auto simp: optrace_inv_def)
    have "\<not> is_kind ''npu_work'' r" using phase(1) by (simp add: is_kind_def)
    with s phase(1) inv folds frame show ?thesis
      by (auto simp: optrace_inv_def works_of_trace_def phases_of_def less_Suc_eq) blast
  next
    case work
    note w = work_step_Inr [OF work(2)]
    have np: "\<not> is_kind ''phase'' r" using work(1) by (simp add: is_kind_def)
    from inv have "phases_ok (vt_phases st)" unfolding optrace_inv_def by blast
    with w last_phase_id have "validate_work r run (int (length (vt_phases st) - 1)) = Inr ()" by auto
    moreover have "length (vt_phases st) - 1 < length (vt_phases st)" using w by simp
    ultimately have "\<exists>i < length (vt_phases st). validate_work r run (int i) = Inr ()" by blast
    then show ?thesis using w work(1) np inv folds frame
      by (auto simp: optrace_inv_def works_of_trace_def phases_of_def counter_get_inc)
  next
    case other
    with inv folds frame show ?thesis by (auto simp: optrace_inv_def works_of_trace_def phases_of_def)
  qed
  with that r seq show thesis by blast
qed

lemma optrace_inv_start: "optrace_inv run [] trace_start"
  by (simp add: optrace_inv_def trace_start_def works_of_trace_def phases_of_def phases_ok_def counter_get_def)

lemma loop_inv:
  assumes fold: "foldm (record_step E run n) s0 xs = Inr st" and s0: "optrace_inv run [] s0"
    and k0: "rget run ''kind'' = JStr ''run''" and run: "\<forall>(i, v) \<in> set xs. i = 0 \<longrightarrow> v = JObj run"
  shows "\<exists>rs. map snd xs = map JObj rs \<and> optrace_inv run rs st \<and> map (\<lambda>r. rget r ''sequence'') rs = map (\<lambda>x. JInt (int (fst x))) xs"
proof (rule foldm_prefix_invariant_in [OF fold, where P = "\<lambda>ps st. \<exists>rs. map snd ps = map JObj rs \<and> optrace_inv run rs st \<and>
    map (\<lambda>r. rget r ''sequence'') rs = map (\<lambda>x. JInt (int (fst x))) ps"])
  show "\<exists>rs. map snd [] = map JObj rs \<and> optrace_inv run rs s0 \<and> map (\<lambda>r. rget r ''sequence'') rs = map (\<lambda>x. JInt (int (fst x))) []"
    using s0 by simp
  fix ps s x s'
  assume "\<exists>rs. map snd ps = map JObj rs \<and> optrace_inv run rs s \<and> map (\<lambda>r. rget r ''sequence'') rs = map (\<lambda>x. JInt (int (fst x))) ps"
    and x: "x \<in> set xs" and step: "record_step E run n s x = Inr s'"
  then obtain rs where rs: "map snd ps = map JObj rs" "optrace_inv run rs s"
    "map (\<lambda>r. rget r ''sequence'') rs = map (\<lambda>x. JInt (int (fst x))) ps" by blast
  obtain i v where iv: "x = (i, v)" by (cases x)
  with run x have first: "i = 0 \<longrightarrow> v = JObj run" by blast
  from rs(2) step [unfolded iv] first k0 obtain r where "v = JObj r" "optrace_inv run (rs @ [r]) s'" "rget r ''sequence'' = JInt (int i)"
    by (rule record_step_inv)
  with rs(1,3) show "\<exists>rs. map snd (ps @ [x]) = map JObj rs \<and> optrace_inv run rs s' \<and>
      map (\<lambda>r. rget r ''sequence'') rs = map (\<lambda>x. JInt (int (fst x))) (ps @ [x])"
    by (intro exI [of _ "rs @ [r]"]) (simp add: iv)
qed

lemma validate_run_kind: "validate_run run = Inr u \<Longrightarrow> rget run ''kind'' = JStr ''run''"
  by (auto simp: validate_run_def bnd_eq_Inr trequire_eq_Inr Let_def)

lemma enumerate_snoc: "xs \<noteq> [] \<Longrightarrow> zip [0..<length xs] xs =
    zip [0..<length xs - 1] (butlast xs) @ [(length xs - 1, last xs)]"
proof (induction xs rule: rev_induct)
  case (snoc x xs)
  then show ?case by (simp add: zip_append1)
qed simp

text \<open>What the last record, the run end, has checked.\<close>

definition ended_ok :: "Record \<Rightarrow> trace_state \<Rightarrow> bool" where
  "ended_ok e st \<longleftrightarrow> is_kind ''run_end'' e \<and> pv_parents (vt_parents st) = [] \<and>
     rget e ''work_count'' = JInt (int (length (vt_works st))) \<and>
     (\<exists>cs counts. rget e ''independent_counts'' = JArr cs \<and> foldm independent_step [] cs = Inr counts \<and>
        counters_equal counts (vt_counts st))"

lemma end_record:
  assumes "record_step E run n st (i, JObj e) = Inr st'" and "i \<noteq> 0" and "is_kind ''run_end'' e"
  shows "ended_ok e st'"
proof -
  from assms obtain st1 where k: "end_step n i st e = Inr st1" and p: "pv_consume (vt_parents st1) e = Inr (vt_parents st')"
    and st': "st' = st1\<lparr>vt_parents := vt_parents st'\<rparr>"
    by (auto simp: record_step_def bnd_eq_Inr trequire_eq_Inr parent_record_Inr kind_step_def is_kind_def Let_def)
  from p assms(3) have "pv_run_end (vt_parents st1) e = Inr (vt_parents st')"
    by (simp add: pv_consume_def pv_handlers_def is_kind_def)
  then have "pv_parents (vt_parents st') = []" by (auto simp: pv_run_end_def pv_finish_def bnd_eq_Inr prequire_eq_Inr)
  moreover have "vt_works st' = vt_works st1" "vt_counts st' = vt_counts st1"
    using st' [THEN arg_cong, of vt_works] st' [THEN arg_cong, of vt_counts] by simp_all
  moreover note end_step_same [OF k]
  ultimately show ?thesis using k assms(3)
    by (auto simp: ended_ok_def end_step_def bnd_eq_Inr trequire_eq_Inr array_or_eq_Inr trace_integer_eq_Inr)
qed

lemma validate_records_Inr:
  assumes "validate_records E records = Inr t"
  obtains rs st where "records = map JObj rs" "rs \<noteq> []" "optrace_inv (ot_run t) rs st" "ended_ok (last rs) st"
    "t = \<lparr>ot_run = hd rs, ot_phases = vt_phases st, ot_works = vt_works st, ot_end = JObj (last rs)\<rparr>"
    "map (\<lambda>r. rget r ''sequence'') rs = map (\<lambda>i. JInt (int i)) [0..<length rs]" "validate_run (hd rs) = Inr ()"
    "vt_phases st \<noteq> []"
proof -
  let ?n = "length records" and ?xs = "zip [0..<length records] records"
  from assms obtain run st e where n: "3 \<le> ?n" and run: "hd records = JObj run" and vr: "validate_run run = Inr ()"
    and fold: "foldm (record_step E run ?n) trace_start ?xs = Inr st" and e: "last records = JObj e" "is_kind ''run_end'' e"
    and ph: "vt_phases st \<noteq> []"
    and t: "t = \<lparr>ot_run = run, ot_phases = vt_phases st, ot_works = vt_works st, ot_end = last records\<rparr>"
    by (auto simp: validate_records_def trequire_eq_Inr bnd_eq_Inr is_kind_def split: jval.splits)
  have ne: "records \<noteq> []" using n by auto
  have first: "\<forall>(i, v) \<in> set ?xs. i = 0 \<longrightarrow> v = JObj run"
    using run ne by (auto simp: set_zip hd_conv_nth)
  from loop_inv [OF fold optrace_inv_start validate_run_kind [OF vr] first] obtain rs where
    rs: "map snd ?xs = map JObj rs" and inv: "optrace_inv run rs st"
    and seq: "map (\<lambda>r. rget r ''sequence'') rs = map (\<lambda>x. JInt (int (fst x))) ?xs" by blast
  have recs: "records = map JObj rs" using rs by (simp add: map_snd_zip)
  have len: "length rs = ?n" using recs by simp
  have "map (\<lambda>x. JInt (int (fst x))) ?xs = map (\<lambda>i. JInt (int i)) (map fst ?xs)"
    by (simp only: map_map comp_def)
  also have "map fst ?xs = [0..<?n]" by simp
  finally have seq': "map (\<lambda>r. rget r ''sequence'') rs = map (\<lambda>i. JInt (int i)) [0..<length rs]"
    using seq len by simp
  have rne: "rs \<noteq> []" and hd: "hd rs = run" and last: "last rs = e"
    using ne recs run e(1) by (auto simp: list.map_sel last_map)
  from fold enumerate_snoc [OF ne] obtain st0 where "record_step E run ?n st0 (?n - 1, JObj e) = Inr st"
    by (auto simp: foldm_append bnd_eq_Inr e(1))
  then have "ended_ok e st" using n e(2) by (intro end_record) auto
  then show thesis using that [of rs st] recs rne inv t hd last e(1) seq' vr ph by simp
qed

section \<open>Properties\<close>

text \<open>C7. An accepted op-trace covers its parents: the records are objects numbered 0, 1, ...; the works and the
  phases are those of the records, in order, one prefill and then the decodes 0, 1, ...; the parent declarations
  carry the identities 0, 1, ...; every work belongs to a declared parent and repeats its descriptor, and the works
  of each parent cover its rows from 0 to \<open>m\<close> without gap or overlap.\<close>

theorem optrace_covered:
  assumes "validate_records E records = Inr t"
  shows "\<exists>rs. records = map JObj rs \<and> map (\<lambda>r. rget r ''sequence'') rs = map (\<lambda>i. JInt (int i)) [0..<length rs] \<and>
    ot_works t = works_of_trace rs \<and> ot_phases t = phases_of rs \<and> phases_ok (ot_phases t) \<and> ot_phases t \<noteq> [] \<and>
    map (\<lambda>b. rget b ''parent_invocation_id'') (declarations rs) = map (\<lambda>i. JInt (int i)) [0..<length (declarations rs)] \<and>
    (\<forall>i < length (declarations rs). let b = declarations rs ! i; ws = works_for (int i) rs in
       ws \<noteq> [] \<and> list_all (described b) ws \<and> (\<exists>m. rget b ''m'' = JInt m \<and> cover 0 ws = Some m)) \<and>
    (\<forall>w \<in> set (ot_works t). \<exists>i < length (declarations rs). rget w ''parent_invocation_id'' = JInt (int i))"
proof -
  from assms obtain rs st where rs: "records = map JObj rs" and inv: "optrace_inv (ot_run t) rs st" and e: "ended_ok (last rs) st"
    and t: "t = \<lparr>ot_run = hd rs, ot_phases = vt_phases st, ot_works = vt_works st, ot_end = JObj (last rs)\<rparr>"
    and seq: "map (\<lambda>r. rget r ''sequence'') rs = map (\<lambda>i. JInt (int i)) [0..<length rs]" and ph: "vt_phases st \<noteq> []"
    by (rule validate_records_Inr)
  have "pv_finish (vt_parents st) = Inr ()" using e by (simp add: ended_ok_def pv_finish_def prequire_def)
  with inv have cov: "map (\<lambda>b. rget b ''parent_invocation_id'') (declarations rs) = map (\<lambda>i. JInt (int i)) [0..<length (declarations rs)] \<and>
    (\<forall>i < length (declarations rs). let b = declarations rs ! i; ws = works_for (int i) rs in
       ws \<noteq> [] \<and> list_all (described b) ws \<and> (\<exists>m. rget b ''m'' = JInt m \<and> cover 0 ws = Some m)) \<and>
    (\<forall>w \<in> set rs. is_kind ''npu_work'' w \<longrightarrow> (\<exists>i < length (declarations rs). rget w ''parent_invocation_id'' = JInt (int i)))"
    by (intro parents_coverage [where st = "vt_parents st"]) (auto simp: optrace_inv_def)
  have "ot_works t = works_of_trace rs \<and> ot_phases t = phases_of rs \<and> phases_ok (ot_phases t) \<and> ot_phases t \<noteq> []"
    using inv ph unfolding t optrace_inv_def by auto
  with rs seq cov show ?thesis by (intro exI [of _ rs]) (auto simp: works_of_trace_def)
qed


end
