(* ===== verification/Optrace.thy ===== *)
theory Optrace
  imports Optrace_Theorems Replay_Theorems Certificate
begin

text \<open>
  Replay of a production op-trace on the cycle model: \<^verbatim>\<open>sim/cycle/optrace.py\<close>. Every accepted work is
  turned into a request document, estimated on the native model and accounted per layer and per phase; the
  replay first binds the trace to the producer's build manifest and to the certificate. Contents and digests of
  files are arguments.
\<close>

section \<open>Documents\<close>

definition check_sources :: "Record \<Rightarrow> Record \<Rightarrow> unit res" where
  "check_sources run expected =
     bnd (mapr (\<lambda>field. bnd (item run field) (\<lambda>v.
            trequire (py_eq (rget expected field) v)
              (''incompatible '' @ field @ ''; use the actual producer build manifest'') (Inr ())))
       [''source_commits'', ''source_worktree_sha256'', ''profile'']) (\<lambda>_. Inr ())"

definition OP_REQUEST :: "(string \<times> string) list" where
  "OP_REQUEST = [(''m'', ''m''), (''n'', ''n''), (''k'', ''k''), (''tile_i'', ''tile_i_count''), (''tile_j'', ''tile_j_count''),
     (''tile_k'', ''tile_k_count''), (''activation_stride_bytes'', ''activation_stride_bytes''),
     (''weight_stride_bytes'', ''weight_stride_bytes''), (''output_stride_bytes'', ''output_stride_bytes''),
     (''scale_stride_elements'', ''scale_stride_elements'')]"

definition op_request :: "Record \<Rightarrow> Record res" where
  "op_request work =
     bnd (mapr (\<lambda>(key, field). bnd (item work field) (\<lambda>v. Inr (key, v))) OP_REQUEST) (\<lambda>geometry.
     bnd (item work ''logical_work_id'') (\<lambda>identity.
     Inr (geometry @ [(''accepted_cycle'', JInt 1), (''logical_work_id'', identity),
                      (''submission'', JStr ''planner-blocks''), (''record_events'', JInt 0)])))"

definition op_document :: "Record \<Rightarrow> Record \<Rightarrow> Record res" where
  "op_document run work =
     bnd (item run ''profile'') (\<lambda>profile.
     bnd (op_request work) (\<lambda>request.
     Inr [(''profile'', profile), (''limits'', JObj [(''max_cycles'', JInt REPLAY_MAX_CYCLES)]), (''request'', JObj request)]))"

section \<open>Accounting\<close>

record op_account =
  oa_rows :: "Record list"
  oa_layer :: "(string, int) dict"
  oa_phase :: "(int, int) dict"

definition op_start :: op_account where
  "op_start = \<lparr>oa_rows = [], oa_layer = [], oa_phase = []\<rparr>"

text \<open>The answer of the model for a work: its status and its result.\<close>

definition op_modeled :: "ext \<Rightarrow> cycle_native \<Rightarrow> Record \<Rightarrow> Record \<Rightarrow> (jval \<times> Record) res" where
  "op_modeled E N run work =
     bnd (op_document run work) (\<lambda>document.
     bnd (estimate N (JObj document)) (\<lambda>answer.
     trequire (rget answer ''status'' = JStr ''PASS'')
       (''first model rejection: sequence '' @ py_str E (rget work ''sequence'') @ '': '' @
        py_str E (get_default answer ''diagnostic'' (rget answer ''status''))) (
     bnd (item answer ''result'') (\<lambda>v. case v of
         JObj result \<Rightarrow> Inr (rget answer ''status'', result)
       | _ \<Rightarrow> Inl (TypeError ''result'')))))"

definition op_row :: "Record \<Rightarrow> jval \<Rightarrow> Record \<Rightarrow> jval \<Rightarrow> Record" where
  "op_row w status result loops =
     map (\<lambda>k. (k, rget w k)) [''sequence'', ''layer'', ''phase_id'', ''parent_invocation_id'', ''provenance'', ''scope''] @
     [(''shape'', JArr (map (rget w) [''m'', ''n'', ''k''])),
      (''tile_counts'', JArr (map (rget w) [''tile_i_count'', ''tile_j_count'', ''tile_k_count''])),
      (''model_status'', status), (''model_result'', JObj result), (''submission_count'', loops)]"

definition op_step :: "ext \<Rightarrow> cycle_native \<Rightarrow> Record \<Rightarrow> op_account \<Rightarrow> Record \<Rightarrow> op_account res" where
  "op_step E N run st w =
     bnd (op_modeled E N run w) (\<lambda>(status, result).
     bnd (item result ''total_cycles'') (\<lambda>cv.
     bnd (trace_integer cv ''model total_cycles'' False) (\<lambda>cycles.
     bnd (item result ''loop_count'') (\<lambda>loops.
     Inr (st\<lparr>oa_rows := oa_rows st @ [op_row w status result loops],
             oa_layer := dd_add (oa_layer st) (text_at w ''layer'') cycles,
             oa_phase := dd_add (oa_phase st) (num w ''phase_id'') cycles\<rparr>)))))"

definition phase_total :: "(int, int) dict \<Rightarrow> Record \<Rightarrow> int" where
  "phase_total per_phase p = dd_get per_phase (num p ''phase_id'')"

definition op_decode_sums :: "ext \<Rightarrow> Record list \<Rightarrow> (int, int) dict \<Rightarrow> Record" where
  "op_decode_sums E phs per_phase =
     dict_of (map (\<lambda>p. (py_str E (rget p ''decode_index''), JInt (phase_total per_phase p)))
       (filter (\<lambda>p. rget p ''phase_kind'' = JStr ''decode'') phs))"

definition op_phase_sums :: "ext \<Rightarrow> Record list \<Rightarrow> (int, int) dict \<Rightarrow> Record" where
  "op_phase_sums E phs per_phase =
     dict_of (map (\<lambda>p. (py_str E (rget p ''phase_id''), JInt (phase_total per_phase p))) phs)"

definition with_provenance :: "string \<Rightarrow> Record list \<Rightarrow> jval" where
  "with_provenance s ws = JInt (int (length (filter (\<lambda>w. rget w ''provenance'' = JStr s) ws)))"

definition op_summary :: "ext \<Rightarrow> string \<Rightarrow> op_trace \<Rightarrow> op_account \<Rightarrow> Record" where
  "op_summary E library_sha trace st =
     [(''schema'', JStr ''im2p-production-cycle-replay''), (''version'', JInt 2), (''status'', JStr ''ESTIMATED''),
      (''accounting_kind'', JStr ''isolated-work-accounting''), (''trace_schema'', JStr OPTRACE_SCHEMA),
      (''trace_version'', JInt OPTRACE_VERSION)] @
     map (\<lambda>k. (k, rget (ot_run trace) k)) [''profile'', ''run_id'', ''source_commits'', ''source_worktree_sha256''] @
     [(''cycle_library_sha256'', JStr library_sha),
      (''timing_contract'', JStr ''rtl-regression reference memory, independently drained accepted_cycle=1 per work''),
      (''software_limits'', JObj [(''max_cycles_per_work'', JInt REPLAY_MAX_CYCLES)]),
      (''work_count'', JInt (int (length (oa_rows st)))),
      (''dense_work_count'', with_provenance ''dense_main'' (ot_works trace)),
      (''residual_work_count'', with_provenance ''residual'' (ot_works trace)),
      (''phase_count'', JInt (int (length (ot_phases trace)))), (''works'', JArr (map JObj (oa_rows st))),
      (''isolated_cycle_sum'', JInt (sum_list (map snd (oa_phase st)))),
      (''per_layer_cycle_sums'', JObj (sort_key fst (map (\<lambda>(k, n). (k, JInt n)) (oa_layer st)))),
      (''prefill_cycle_sum'', JInt (dd_get (oa_phase st) 0)),
      (''per_decode_token_cycle_sums'', JObj (op_decode_sums E (ot_phases trace) (oa_phase st))),
      (''per_phase_cycle_sums'', JObj (op_phase_sums E (ot_phases trace) (oa_phase st))),
      (''trace_accepted_work_equality'', JStr ''PASS''), (''measured_answer_injection'', JBool False),
      (''not_modeled'', JArr (map JStr [''aggregate overlapped pipeline latency'', ''CPU/NPU overlap'', ''system timeline'',
                                        ''wall-clock latency'', ''frequency conversion'']))]"

definition estimate_trace :: "ext \<Rightarrow> cycle_native \<Rightarrow> string \<Rightarrow> op_trace \<Rightarrow> Record res" where
  "estimate_trace E N library_sha trace =
     bnd (foldm (op_step E N (ot_run trace)) op_start (ot_works trace)) (\<lambda>st. Inr (op_summary E library_sha trace st))"

section \<open>The producer\<close>

definition runtime_archive :: "jval \<Rightarrow> string res" where
  "runtime_archive v =
     bnd (certificate_object v ''runtime archive'') (\<lambda>artifact.
     case rget artifact ''path'' of
       JStr name \<Rightarrow>
         trequire (name \<noteq> []) ''runtime archive path must be a nonempty string'' (
         trequire (path_inside name) ''runtime archive path must be relative'' (
         bnd (digest_value (rget artifact ''sha256'') ''runtime archive'') (\<lambda>_.
         bnd (cert_number (rget artifact ''size'') ''runtime archive size'') (\<lambda>n.
         trequire (n > 0) ''empty runtime archive'' (Inr (path_name (path_of name)))))))
     | _ \<Rightarrow> Inl (TraceError ''runtime archive path must be a nonempty string''))"

definition producer_runtime :: "Record \<Rightarrow> Record \<Rightarrow> jval \<Rightarrow> unit res" where
  "producer_runtime run sources contract_sha =
     bnd (certificate_object (rget sources ''runtime_artifact'') ''producer runtime artifact'') (\<lambda>runtime.
     trequire (py_eq (rget runtime ''hardware_contract_sha256'') contract_sha) ''runtime/hardware contract mismatch'' (
     bnd (digest_value (rget runtime ''manifest_sha256'') ''runtime manifest'') (\<lambda>manifest.
     bnd (item run ''runtime_manifest_sha256'') (\<lambda>selected.
     trequire (selected = JStr manifest) ''trace/selected runtime manifest mismatch'' (
     bnd (digest_value (rget runtime ''fingerprint'') ''runtime fingerprint'') (\<lambda>_.
     trequire (rget runtime ''execution_kind'' \<in> {JStr ''FRESH_BUILD'', JStr ''VERIFIED_REUSE''})
       ''runtime build provenance missing'' (
     bnd (certificate_array (rget runtime ''artifacts'') ''runtime artifacts'') (\<lambda>artifacts.
     bnd (mapr runtime_archive artifacts) (\<lambda>names.
     trequire (sort names = [''libim2p_gemmini_frontend.a'', ''libim2p_sim.a'']) ''runtime archive closure mismatch''
       (Inr ()))))))))))"

definition producer_binding :: "ext \<Rightarrow> Record \<Rightarrow> Record \<Rightarrow> Record \<Rightarrow> unit res" where
  "producer_binding E run sources cert =
     bnd (check_sources run sources) (\<lambda>_.
     bnd (certificate_object (rget sources ''hardware_contract'') ''producer hardware contract'') (\<lambda>producer.
     bnd (certificate_object (rget cert ''hardware_contracts'') ''certificate hardware contracts'') (\<lambda>contracts.
     bnd (certificate_object (rget contracts (text_at run ''profile'')) ''model hardware contract'') (\<lambda>model.
     bnd (compatible E producer model) (\<lambda>_.
     bnd (item run ''hardware_contract_sha256'') (\<lambda>recorded.
     bnd (item producer ''sha256'') (\<lambda>contract_sha.
     trequire (py_eq recorded contract_sha) ''trace/producer hardware contract mismatch'' (
     producer_runtime run sources contract_sha))))))))"

section \<open>Replay\<close>

text \<open>\<^verbatim>\<open>read_trace\<close> on the parse trees of the lines: no object has a key twice.\<close>

definition read_line :: "nat \<times> jval \<Rightarrow> jval res" where
  "read_line entry = (case load_value no_duplicate_keys (snd entry) of
     Inl (TraceError m) \<Rightarrow> Inl (TraceError (''line '' @ str_nat (fst entry) @ '': '' @ m))
   | r \<Rightarrow> r)"

definition read_optrace :: "ext \<Rightarrow> jval list \<Rightarrow> op_trace res" where
  "read_optrace E lines =
     bnd (mapr read_line (zip [1..<Suc (length lines)] lines)) (\<lambda>records. validate_records E records)"

record optrace_inputs =
  oi_certificate :: jval
  oi_certificate_sha256 :: string
  oi_library_sha256 :: string
  oi_lines :: "jval list"
  oi_sources :: jval

definition optrace_replay :: "ext \<Rightarrow> corpus_env \<Rightarrow> cycle_native \<Rightarrow> optrace_inputs \<Rightarrow> Record res" where
  "optrace_replay E env N inputs =
     bnd (read_document ''certificate'' (oi_certificate inputs)) (\<lambda>cert.
     bnd (validate_certificate E env (oi_library_sha256 inputs) cert True) (\<lambda>_.
     bnd (read_optrace E (oi_lines inputs)) (\<lambda>trace.
     bnd (read_document ''sources'' (oi_sources inputs)) (\<lambda>sources.
     bnd (producer_binding E (ot_run trace) sources cert) (\<lambda>_.
     bnd (estimate_trace E N (oi_library_sha256 inputs) trace) (\<lambda>result.
     bnd (item cert ''reference_memory'') (\<lambda>mv. bnd (certificate_object mv ''reference memory'') (\<lambda>memory.
     Inr (dict_of (result @
       [(''status'', JStr ''PASS''), (''validation_scope'', JStr ''CURRENT_CERTIFIED''), (''source_compatibility'', JStr ''PASS''),
        (''hardware_contract_sha256'', rget (ot_run trace) ''hardware_contract_sha256''),
        (''runtime_manifest_sha256'', rget (ot_run trace) ''runtime_manifest_sha256''),
        (''reference_memory'', JObj memory), (''certificate_schema'', JStr CERT_SCHEMA),
        (''certificate_version'', JInt CERT_VERSION), (''certificate_sha256'', JStr (oi_certificate_sha256 inputs))]))))))))))"

definition replay_fixture :: "ext \<Rightarrow> cycle_native \<Rightarrow> string \<Rightarrow> op_trace \<Rightarrow> Record res" where
  "replay_fixture E N library_sha trace =
     bnd (estimate_trace E N library_sha trace) (\<lambda>result.
     Inr (dict_of (result @ [(''status'', JStr ''FIXTURE_ONLY''), (''validation_scope'', JStr ''UNCERTIFIED_SYNTHETIC_FIXTURE''),
       (''source_compatibility'', JStr ''NOT_CERTIFIED'')])))"

end
