(* ===== verification/Optrace_Totals.thy ===== *)
theory Optrace_Totals
  imports Optrace
begin

text \<open>The accounting of an op-trace replay adds up: per work, per layer, per phase, prefill and decode.\<close>

section \<open>The account after some works\<close>

definition row_cycles :: "Record \<Rightarrow> int" where
  "row_cycles row = (case rget row ''model_result'' of JObj result \<Rightarrow> num result ''total_cycles'' | _ \<Rightarrow> 0)"

definition cycles_of :: "(Record \<Rightarrow> bool) \<Rightarrow> Record list \<Rightarrow> int" where
  "cycles_of P rows = sum_list (map row_cycles (filter P rows))"

lemma cycles_of_snoc: "cycles_of P (rows @ [r]) = cycles_of P rows + (if P r then row_cycles r else 0)"
  by (simp add: cycles_of_def)

lemma dd_get_add: "dd_get (dd_add d k n) j = dd_get d j + (if j = k then n else 0)"
  by (auto simp: dd_get_def dd_add_def)

definition account_inv :: "Record list \<Rightarrow> op_account \<Rightarrow> bool" where
  "account_inv ws st \<longleftrightarrow>
     map (\<lambda>r. rget r ''sequence'') (oa_rows st) = map (\<lambda>w. rget w ''sequence'') ws \<and>
     distinct (map fst (oa_layer st)) \<and> distinct (map fst (oa_phase st)) \<and>
     set (map fst (oa_phase st)) = (\<lambda>w. num w ''phase_id'') ` set ws \<and>
     sum_list (map snd (oa_layer st)) = sum_list (map row_cycles (oa_rows st)) \<and>
     sum_list (map snd (oa_phase st)) = sum_list (map row_cycles (oa_rows st)) \<and>
     (\<forall>l. dd_get (oa_layer st) l = cycles_of (\<lambda>r. text_at r ''layer'' = l) (oa_rows st)) \<and>
     (\<forall>i. dd_get (oa_phase st) i = cycles_of (\<lambda>r. num r ''phase_id'' = i) (oa_rows st))"

lemma op_row_fields:
  "rget (op_row w status result loops) ''sequence'' = rget w ''sequence''"
  "text_at (op_row w status result loops) ''layer'' = text_at w ''layer''"
  "num (op_row w status result loops) ''phase_id'' = num w ''phase_id''"
  "row_cycles (op_row w status result loops) = num result ''total_cycles''"
  by (simp_all add: op_row_def rget_def text_at_def num_def row_cycles_def)

lemma op_step_Inr:
  assumes "op_step E N run st w = Inr st'"
  obtains row cycles where "st' = st\<lparr>oa_rows := oa_rows st @ [row], oa_layer := dd_add (oa_layer st) (text_at w ''layer'') cycles,
      oa_phase := dd_add (oa_phase st) (num w ''phase_id'') cycles\<rparr>"
    "rget row ''sequence'' = rget w ''sequence''" "text_at row ''layer'' = text_at w ''layer''"
    "num row ''phase_id'' = num w ''phase_id''" "row_cycles row = cycles"
proof -
  from assms [unfolded op_step_def bnd_eq_Inr split_paired_Ex prod.case item_eq_Inr trace_integer_eq_Inr sum.inject]
  obtain status result cycles loops where c: "map_of result ''total_cycles'' = Some (JInt cycles)"
    and st': "st' = st\<lparr>oa_rows := oa_rows st @ [op_row w status result loops],
      oa_layer := dd_add (oa_layer st) (text_at w ''layer'') cycles, oa_phase := dd_add (oa_phase st) (num w ''phase_id'') cycles\<rparr>"
    by auto
  from c have "num result ''total_cycles'' = cycles" by (simp add: num_def)
  with st' show thesis by (intro that [OF st']) (simp_all add: op_row_fields)
qed

lemma account_inv_step: "account_inv ws st \<Longrightarrow> op_step E N run st w = Inr st' \<Longrightarrow> account_inv (ws @ [w]) st'"
  by (erule op_step_Inr) (auto simp: account_inv_def dd_add_keys dd_add_sum dd_get_add cycles_of_snoc simp del: set_map)

lemma account_inv_run: "foldm (op_step E N run) op_start ws = Inr st \<Longrightarrow> account_inv ws st"
proof (erule foldm_prefix_invariant [where P = account_inv])
  show "account_inv [] op_start" by (simp add: account_inv_def op_start_def cycles_of_def dd_get_def)
qed (rule account_inv_step)

section \<open>The phases\<close>

lemma dict_of_same: "distinct (map fst ps) \<Longrightarrow> dict_of ps = ps"
  using dict_of_distinct [of "[]" ps] by (simp add: dict_of_def)

lemma phases_ok_nth:
  assumes "phases_ok ps" and "i < length ps"
  shows "rget (ps ! i) ''phase_id'' = JInt (int i)"
proof -
  have "map (\<lambda>p. rget p ''phase_id'') ps ! i = map (\<lambda>i. JInt (int i)) [0..<length ps] ! i"
    using assms(1) by (simp only: phases_ok_def)
  with assms(2) show ?thesis by simp
qed

lemma phases_ok_phase_sums:
  assumes "phases_ok ps"
  shows "op_phase_sums E ps d = map (\<lambda>i. (str_int (int i), JInt (dd_get d (int i)))) [0..<length ps]"
proof -
  have "map (\<lambda>p. (py_str E (rget p ''phase_id''), JInt (phase_total d p))) ps =
      map (\<lambda>i. (str_int (int i), JInt (dd_get d (int i)))) [0..<length ps]"
    by (rule nth_equalityI) (simp_all add: phases_ok_nth [OF assms] phase_total_def num_def)
  moreover have "dict_of (map (\<lambda>i. (str_int (int i), JInt (dd_get d (int i)))) [0..<length ps]) = \<dots>"
    by (rule dict_of_same) (simp add: comp_def distinct_map inj_on_def str_int_inj)
  ultimately show ?thesis by (simp add: op_phase_sums_def)
qed

lemma phases_ok_decodes:
  assumes "phases_ok ps" and "ps \<noteq> []"
  shows "op_decode_sums E ps d = map (\<lambda>i. (str_int (int i), JInt (dd_get d (int i + 1)))) [0..<length ps - 1]"
proof -
  have kind: "rget p ''phase_kind'' = JStr ''decode''" if "p \<in> set (tl ps)" for p
  proof -
    from that obtain i where "i < length (tl ps)" "p = tl ps ! i" by (auto simp: in_set_conv_nth)
    then show ?thesis using assms(1) by (auto simp: phases_ok_def nth_tl)
  qed
  have "rget (hd ps) ''phase_kind'' = JStr ''prefill''"
    using assms by (auto simp: phases_ok_def hd_conv_nth)
  then have "filter (\<lambda>p. rget p ''phase_kind'' = JStr ''decode'') ps = tl ps"
    using kind assms(2) by (cases ps) (auto intro: filter_True)
  moreover have "map (\<lambda>p. (py_str E (rget p ''decode_index''), JInt (phase_total d p))) (tl ps) =
      map (\<lambda>i. (str_int (int i), JInt (dd_get d (int i + 1)))) [0..<length ps - 1]"
  proof (rule nth_equalityI)
    fix i assume "i < length (map (\<lambda>p. (py_str E (rget p ''decode_index''), JInt (phase_total d p))) (tl ps))"
    then have i: "i < length ps - 1" by simp
    then have "rget (ps ! Suc i) ''decode_index'' = JInt (int i)" "rget (ps ! Suc i) ''phase_id'' = JInt (int (Suc i))"
      using assms(1) phases_ok_nth [OF assms(1), of "Suc i"] by (auto simp: phases_ok_def)
    with i show "map (\<lambda>p. (py_str E (rget p ''decode_index''), JInt (phase_total d p))) (tl ps) ! i =
        map (\<lambda>i. (str_int (int i), JInt (dd_get d (int i + 1)))) [0..<length ps - 1] ! i"
      by (simp add: nth_tl phase_total_def num_def add.commute)
  qed simp
  moreover have "dict_of (map (\<lambda>i. (str_int (int i), JInt (dd_get d (int i + 1)))) [0..<length ps - 1]) =
      map (\<lambda>i. (str_int (int i), JInt (dd_get d (int i + 1)))) [0..<length ps - 1]"
    by (rule dict_of_same) (simp add: comp_def distinct_map inj_on_def str_int_inj)
  ultimately show ?thesis by (simp add: op_decode_sums_def)
qed

lemma phases_ok_sum:
  assumes "distinct (map fst d)" and "set (map fst d) \<subseteq> int ` {0..<n}"
  shows "sum_list (map (\<lambda>i. dd_get d (int i)) [0..<n]) = sum_list (map snd d)"
proof -
  have "sum_list (map (\<lambda>i. dd_get d (int i)) [0..<n]) = (\<Sum>i \<in> {0..<n}. dd_get d (int i))"
    by (simp add: sum_list_distinct_conv_sum_set)
  also have "\<dots> = (\<Sum>i \<in> int ` {0..<n}. dd_get d i)" by (simp add: sum.reindex)
  finally show ?thesis using dd_get_sum [OF assms] by simp
qed

lemma sum_upt_split:
  fixes f :: "nat \<Rightarrow> int"
  assumes "0 < n"
  shows "f 0 + sum_list (map (\<lambda>i. f (Suc i)) [0..<n - 1]) = sum_list (map f [0..<n])"
proof -
  have "map (\<lambda>i. f (Suc i)) [0..<n - 1] = map f [1..<n]"
    using assms by (intro nth_equalityI) auto
  moreover have "[0..<n] = 0 # [1..<n]" using assms by (simp add: upt_conv_Cons)
  ultimately show ?thesis by simp
qed

lemma num_map: "inj_on g (set xs) \<Longrightarrow> x \<in> set xs \<Longrightarrow> num (map (\<lambda>x. (g x, JInt (f x))) xs) (g x) = f x"
  by (induction xs) (auto simp: num_def rget_def inj_on_def)

lemma num_sorted:
  assumes "distinct (map fst d)"
  shows "num (sort_key fst (map (\<lambda>(k, n). (k, JInt n)) d)) l = dd_get d l"
proof -
  let ?xs = "map (\<lambda>(k, n). (k, JInt n)) d"
  have d: "distinct (map fst ?xs)" using assms by (simp add: comp_def split_def)
  then have "distinct (map fst (sort_key fst ?xs))"
    by (metis mset_map mset_sort mset_eq_imp_distinct_iff)
  with d have "map_of (sort_key fst ?xs) = map_of ?xs" by (simp add: map_of_inject_set)
  moreover have "map_of ?xs l = map_option JInt (map_of d l)" by (induction d) auto
  ultimately show ?thesis by (simp add: num_def rget_def dd_get_def split: option.splits)
qed

lemma works_phases:
  assumes "validate_records E records = Inr t"
  shows "phases_ok (ot_phases t)" "ot_phases t \<noteq> []"
    "(\<lambda>w. num w ''phase_id'') ` set (ot_works t) \<subseteq> int ` {0..<length (ot_phases t)}"
proof -
  from assms obtain rs st where inv: "optrace_inv (ot_run t) rs st" and ne: "vt_phases st \<noteq> []"
    and t: "t = \<lparr>ot_run = hd rs, ot_phases = vt_phases st, ot_works = vt_works st, ot_end = JObj (last rs)\<rparr>"
    by (rule validate_records_Inr)
  have "num w ''phase_id'' = phase" if "validate_work w run phase = Inr ()" for w run phase
    using that by (auto simp: validate_work_def work_geometry_def bnd_eq_Inr trequire_eq_Inr)
  then show "phases_ok (ot_phases t)" "ot_phases t \<noteq> []"
    "(\<lambda>w. num w ''phase_id'') ` set (ot_works t) \<subseteq> int ` {0..<length (ot_phases t)}"
    using inv ne unfolding optrace_inv_def t by (auto simp: image_subset_iff) (metis atLeastLessThan_iff imageI le0)
qed

lemma summary_of_account:
  "rget (op_summary E sha t st) ''works'' = JArr (map JObj (oa_rows st))"
  "rget (op_summary E sha t st) ''isolated_cycle_sum'' = JInt (sum_list (map snd (oa_phase st)))"
  "rget (op_summary E sha t st) ''per_layer_cycle_sums'' = JObj (sort_key fst (map (\<lambda>(k, n). (k, JInt n)) (oa_layer st)))"
  "rget (op_summary E sha t st) ''prefill_cycle_sum'' = JInt (dd_get (oa_phase st) 0)"
  "rget (op_summary E sha t st) ''per_decode_token_cycle_sums'' = JObj (op_decode_sums E (ot_phases t) (oa_phase st))"
  "rget (op_summary E sha t st) ''per_phase_cycle_sums'' = JObj (op_phase_sums E (ot_phases t) (oa_phase st))"
  by (simp_all add: op_summary_def rget_def)

section \<open>Properties\<close>


lemma list_all2_in: "list_all2 P xs ys \<Longrightarrow> x \<in> set xs \<Longrightarrow> \<exists>y. P x y"
  by (induction rule: list_all2_induct) auto

lemma work_number:
  assumes "validate_work w run phase = Inr ()" and "k \<in> set WORK_NUMBERS"
  shows "item w k = Inr (JInt (num w k)) \<and> 0 \<le> num w k \<and> num w k < 2 ^ 64"
proof -
  from assms(1) obtain ns where "mapr (\<lambda>k. trace_integer (rget w k) k False) WORK_NUMBERS = Inr ns"
    unfolding validate_work_def work_types_def bnd_eq_Inr by blast
  then have "list_all2 (\<lambda>k n. trace_integer (rget w k) k False = Inr n) WORK_NUMBERS ns" by (simp add: mapr_Inr_iff)
  from list_all2_in [OF this assms(2)] obtain n where "trace_integer (rget w k) k False = Inr n" by blast
  then have n: "rget w k = JInt n" "0 \<le> n" "n < 2 ^ 64" unfolding trace_integer_eq_Inr by simp_all
  then have "map_of w k = Some (JInt n)" by (cases "map_of w k") (simp_all add: rget_def)
  with n show ?thesis by (simp add: num_def item_def)
qed

lemma set_request_u64:
  "k \<in> set REQUEST_U64 \<Longrightarrow> 0 \<le> n \<Longrightarrow> n < 2 ^ 64 \<Longrightarrow> set_request cfg (k, JInt n) = Inr (AList.update k n cfg)"
  by (auto simp: set_request_def set_fields_def cli_integer_def chk_def REQUEST_U64_def)

lemma set_requests:
  "\<forall>(k, n) \<in> set kns. k \<in> set REQUEST_U64 \<and> 0 \<le> n \<and> n < 2 ^ 64 \<Longrightarrow>
   foldm set_request init (map (\<lambda>(k, n). (k, JInt n)) kns) = Inr (foldl (\<lambda>d (k, n). AList.update k n d) init kns)"
  by (induction kns arbitrary: init) (auto simp: set_request_u64)

lemma work_validated:
  assumes "validate_records E records = Inr t" and "w \<in> set (ot_works t)"
  shows "\<exists>run phase. validate_work w run phase = Inr ()"
proof -
  from assms(1) obtain rs st where "optrace_inv (ot_run t) rs st"
    and "t = \<lparr>ot_run = hd rs, ot_phases = vt_phases st, ot_works = vt_works st, ot_end = JObj (last rs)\<rparr>"
    by (rule validate_records_Inr)
  with assms(2) have "\<exists>i. validate_work w (ot_run t) (int i) = Inr ()" by (auto simp: optrace_inv_def)
  then show ?thesis by blast
qed


end
