(* ===== verification/Optrace_Example.thy ===== *)
theory Optrace_Example
  imports Optrace_Totals
begin

text \<open>A production op-trace of one work, on which the properties of the op-trace are applied.\<close>

definition op_zeros :: string where "op_zeros = replicate 64 (CHR ''0'')"

definition op_common :: "string \<Rightarrow> int \<Rightarrow> Record" where
  "op_common kind sequence = [(''kind'', JStr kind), (''sequence'', JInt sequence), (''run_id'', JStr ''r'')]"

definition op_run :: Record where
  "op_run = op_common ''run'' 0 @
     [(''schema'', JStr ''im2p-production-optrace''), (''version'', JInt 2), (''model'', JStr ''m''),
      (''profile'', JStr ''a8w8-d16-hp1''), (''activation_bits'', JInt 8), (''weight_bits'', JInt 8), (''dim'', JInt 16),
      (''backend'', JStr ''IM2P_SIM/GEMMINI_HP1''), (''mode'', JStr ''x''), (''residual_enabled'', JBool False),
      (''prompt_tokens'', JInt 1), (''requested_generated_tokens'', JInt 1),
      (''source_commits'', JObj (map (\<lambda>k. (k, JStr (replicate 40 (CHR ''0'')))) SOURCE_NAMES)),
      (''source_worktree_sha256'', JObj (map (\<lambda>k. (k, JStr op_zeros)) SOURCE_NAMES)),
      (''hardware_contract_sha256'', JStr op_zeros), (''runtime_manifest_sha256'', JStr op_zeros)]"

definition op_phase :: Record where
  "op_phase = op_common ''phase'' 1 @
     [(''phase_id'', JInt 0), (''phase_kind'', JStr ''prefill''), (''decode_index'', JNull), (''input_tokens'', JInt 1)]"

definition op_geometry :: Record where
  "op_geometry =
     [(''layer'', JStr ''l0''), (''operation'', JStr ''mul''), (''provenance'', JStr ''dense_main''), (''scope'', JStr ''full''),
      (''activation_bits'', JInt 8), (''weight_bits'', JInt 8), (''dim'', JInt 16), (''n'', JInt 4), (''k'', JInt 32),
      (''tile_i_count'', JInt 1), (''tile_j_count'', JInt 1), (''tile_k_count'', JInt 2),
      (''activation_stride_bytes'', JInt 32), (''weight_stride_bytes'', JInt 4), (''output_stride_bytes'', JInt 16),
      (''scale_stride_elements'', JInt 4), (''block_size'', JInt 32), (''vector_op'', JInt 5), (''output_domain'', JInt 2),
      (''production_geometry_version'', JInt 1)]"

definition op_begin :: Record where
  "op_begin = op_common ''parent_begin'' 2 @
     [(''phase_id'', JInt 0), (''parent_invocation_id'', JInt 0), (''m'', JInt 2)] @ op_geometry"

definition op_work :: Record where
  "op_work = op_common ''npu_work'' 3 @
     [(''phase_id'', JInt 0), (''parent_invocation_id'', JInt 0), (''m'', JInt 2)] @ op_geometry @
     [(''geometry_m'', JInt 2), (''row_begin'', JInt 0), (''row_count'', JInt 2), (''work_context'', JInt 0),
      (''source_row_begin'', JInt 0), (''source_row_count'', JInt 2), (''column_begin'', JInt 0), (''group_index'', JInt 0),
      (''logical_work_id'', JInt 3), (''stripe_id'', JNull), (''host_slot'', JNull), (''original_block_id'', JNull),
      (''numerical_datapath'', JStr ''hp1_scu''), (''rmd_raw'', JBool False), (''host_integer_block_multiply'', JBool False)]"

definition op_end :: Record where
  "op_end = op_common ''parent_end'' 4 @
     [(''phase_id'', JInt 0), (''parent_invocation_id'', JInt 0), (''status'', JStr ''success'')]"

definition op_run_end :: Record where
  "op_run_end = op_common ''run_end'' 5 @
     [(''status'', JStr ''success''), (''reason'', JStr []), (''work_count'', JInt 1),
      (''independent_counts'', JArr [JObj [(''phase_id'', JInt 0), (''layer'', JStr ''l0''), (''provenance'', JStr ''dense_main''),
                                           (''count'', JInt 1)]])]"

definition op_records :: "Record list" where
  "op_records = [op_run, op_phase, op_begin, op_work, op_end, op_run_end]"

definition op_example :: op_trace where
  "op_example = \<lparr>ot_run = op_run, ot_phases = [op_phase], ot_works = [op_work], ot_end = JObj op_run_end\<rparr>"

lemma op_accepted: "validate_records ex_ext (map JObj op_records) = Inr op_example"
  by code_simp

lemma optrace_covered_witness:
  "validate_records ex_ext (map JObj op_records) = Inr op_example \<and> ot_works op_example = [op_work] \<and>
   (\<exists>rs. map JObj op_records = map JObj rs \<and> map (\<lambda>r. rget r ''sequence'') rs = map (\<lambda>i. JInt (int i)) [0..<length rs])"
  using optrace_covered [OF op_accepted] op_accepted by (auto simp: op_example_def)


lemma op_estimated:
  "case estimate_trace ex_ext ex_native ''l'' op_example of Inl _ \<Rightarrow> False
     | Inr summary \<Rightarrow> rget summary ''isolated_cycle_sum'' = JInt 40"
  by code_simp



end
