(* ===== verification/Pipeline_Contract.thy ===== *)
theory Pipeline_Contract
  imports Lifecycle
begin

text \<open>
  The declared pipeline of a stream: \<^verbatim>\<open>sim/cycle/execution_pipeline_contract.py\<close>. Parents, the stripe results of every
  parent, the residual works bound to a stripe and the owner events of every stripe are parsed into one record.
\<close>

definition PARENT_FIELDS :: "string list" where
  "PARENT_FIELDS = [''phase_id'', ''operation_id'', ''parent_id'', ''required_work_ids'', ''fence_call_id'', ''fence_required_work_ids'',
     ''production_geometry_version'', ''scope'', ''activation_bits'', ''weight_bits'', ''dim'', ''parent_m'', ''n'', ''k'', ''tile_i_count'',
     ''tile_j_count'', ''tile_k_count'', ''residual_bindings'']"

definition RESIDUAL_FIELDS :: "string list" where
  "RESIDUAL_FIELDS = [''work_id'', ''call_id'', ''child_parent_id'', ''dense_work_id'', ''dense_parent_id'', ''stripe_id'', ''row_begin'',
     ''row_end'', ''source_row_begin'', ''source_row_count'']"

definition OWNER_FIELDS :: "string list" where
  "OWNER_FIELDS = [''producer_sequence'', ''phase_id'', ''operation_id'', ''parent_id'', ''work_id'', ''producer_run_id'', ''stripe_id'',
     ''workspace_slot'', ''target_npu_slot'', ''row_begin'', ''row_end'', ''resource'', ''transition'', ''required_work_ids'',
     ''required_call_ids'', ''observed_call_id'', ''rmd_packet'', ''direct_residual'', ''source_owner'', ''source_location'']"

definition REQUIRED_EVENTS :: "(string \<times> string) list" where
  "REQUIRED_EVENTS = [(''EXSIA_WORKSPACE'', ''ACQUIRE''), (''EXSIA_WORKSPACE'', ''RELEASE''), (''ACTIVATION_ROWS'', ''COMMIT''),
     (''RESIDUAL_PAYLOAD'', ''SEAL''), (''FRONTEND_OUTSTANDING'', ''ACQUIRE''), (''FRONTEND_OUTSTANDING'', ''RELEASE''),
     (''FRONTEND_QUEUE'', ''ENQUEUE''), (''FRONTEND_QUEUE'', ''DEQUEUE''), (''CPU_FUNCTIONAL_STREAM'', ''ACCEPTED''),
     (''CPU_FUNCTIONAL_STREAM'', ''COMPLETED'')]"

definition OPTIONAL_EVENTS :: "(string \<times> string) list" where
  "OPTIONAL_EVENTS = [(''RESIDUAL_MERGE_CALL'', ''COMPLETE''), (''RESIDUAL_CALLBACK'', ''COMPLETE'')]"

type_synonym owner_key = "string \<times> string \<times> int option"

record PipelineContract =
  pc_parents :: "(int, Record) dict"
  pc_stripes :: "(int, Record list) dict"
  pc_residual :: "(int, (int, int list) dict) dict"
  pc_owners :: "(int \<times> int, (owner_key, Record) dict) dict"

definition npu_id :: "int \<Rightarrow> string" where
  "npu_id work = ''npu:'' @ str_int work"

definition required_ids :: "Record \<Rightarrow> string \<Rightarrow> int list res" where
  "required_ids row key =
     bnd (item row key) (\<lambda>v. bnd (array v) (\<lambda>raws. bnd (mapr (\<lambda>x. integer [(''id'', x)] ''id'') raws) (\<lambda>values.
     ensure (distinct values) ''duplicate pipeline required identity'' (Inr values))))"

definition int_in :: "Record \<Rightarrow> string \<Rightarrow> int list \<Rightarrow> bool res" where
  "int_in r key ns = bnd (integer r key) (\<lambda>v. Inr (v \<in> set ns))"

definition same_int :: "Record \<Rightarrow> Record \<Rightarrow> string \<times> string \<Rightarrow> bool res" where
  "same_int a b ks = bnd (integer a (fst ks)) (\<lambda>x. bnd (integer b (snd ks)) (\<lambda>y. Inr (x = y)))"

section \<open>Parents\<close>

definition parse_parent :: "(int, Record) dict \<Rightarrow> jval \<Rightarrow> (int, Record) dict res" where
  "parse_parent parents raw =
     bnd (object_value raw) (\<lambda>parent.
     bnd (fields_of parent PARENT_FIELDS) (\<lambda>_.
     bnd (integer parent ''parent_id'') (\<lambda>identity.
     ensure (\<not> has_key parents identity \<and> rget parent ''scope'' = JStr ''STREAM'') ''duplicate/unsupported pipeline parent'' (
     ensurer (allr (map (positive parent) [''parent_m'', ''n'', ''k'', ''dim'', ''tile_i_count'', ''tile_j_count'', ''tile_k_count'']))
       ''invalid producer parent geometry'' (
     ensurer (allr [int_is parent ''production_geometry_version'' 1, int_in parent ''activation_bits'' [4, 8],
                    Inr (py_eq (rget parent ''activation_bits'') (rget parent ''weight_bits''))]) ''unsupported producer parent geometry'' (
     bnd (required_ids parent ''required_work_ids'') (\<lambda>works.
     ensure (works \<noteq> []) ''pipeline parent has no selected work'' (
     bnd (integer parent ''phase_id'') (\<lambda>_. bnd (integer parent ''operation_id'') (\<lambda>_. bnd (integer parent ''fence_call_id'') (\<lambda>_.
     Inr (AList.update identity parent parents))))))))))))"

section \<open>Stripe results\<close>

definition GEOMETRY_KEYS :: "string list" where
  "GEOMETRY_KEYS = [''phase_id'', ''operation_id'', ''parent_m'', ''n'', ''k'', ''dim'', ''activation_bits'', ''weight_bits'',
     ''production_geometry_version'', ''tile_j_count'', ''tile_k_count'']"

definition append_row :: "('k, 'v list) dict \<Rightarrow> 'k \<Rightarrow> 'v \<Rightarrow> ('k, 'v list) dict" where
  "append_row d k v = AList.update k ((case map_of d k of None \<Rightarrow> [] | Some vs \<Rightarrow> vs) @ [v]) d"

definition parse_stripe :: "(int, Record) dict \<Rightarrow> (int, Record list) dict \<Rightarrow> string \<times> Record \<Rightarrow> (int, Record list) dict res" where
  "parse_stripe parents stripes entry =
     (case entry of (identity, result) \<Rightarrow>
      if rget result ''scope'' \<noteq> JStr ''stripe'' then Inr stripes else
      bnd (integer result ''parent_id'') (\<lambda>parent_id.
      case map_of parents parent_id of
        None \<Rightarrow> Inl (ExecutionError (''execution: '' @ ''stripe result lacks producer parent''))
      | Some parent \<Rightarrow>
          ensurer (allr [bnd (integer result ''work_id'') (\<lambda>w. Inr (identity = npu_id w)),
                         Inr (list_all (\<lambda>k. py_eq (rget result k) (rget parent k)) GEOMETRY_KEYS), same_int result result (''m'', ''row_count''),
                         positive result ''row_count'', positive result ''tile_i_count'']) ''stripe result/parent geometry mismatch'' (
          bnd (integer result ''call_id'') (\<lambda>_. bnd (integer result ''stripe_id'') (\<lambda>_. bnd (integer result ''row_begin'') (\<lambda>_.
          ensure (py_in (rget result ''host_slot'') [JInt 0, JInt 1]) ''invalid ExSIA workspace slot in result'' (
          Inr (append_row stripes parent_id result))))))))"

text \<open>\<^verbatim>\<open>sorted(rows, key=lambda row: integer(row, 'stripe_id'))\<close>: the key of every row was read before.\<close>

definition field_int :: "string \<Rightarrow> Record \<Rightarrow> int" where
  "field_int key r = (case integer r key of Inr n \<Rightarrow> n | Inl _ \<Rightarrow> 0)"

definition ordered_stripes :: "Record list \<Rightarrow> Record list" where
  "ordered_stripes rows = sort_key (field_int ''stripe_id'') rows"

section \<open>Residual works\<close>

definition binding_ok :: "int \<Rightarrow> Record list \<Rightarrow> int list \<Rightarrow> int list \<Rightarrow> int list \<Rightarrow> Record \<Rightarrow> int \<Rightarrow> int \<Rightarrow> int \<Rightarrow> bool res" where
  "binding_ok parent_id ordered works dense bound binding work dense_work stripe =
     (if work \<notin> set bound \<and> work \<in> set works \<and> work \<notin> set dense \<and> nat stripe < length ordered
      then let row = ordered ! nat stripe in
           allr [int_is row ''work_id'' dense_work, int_is binding ''dense_parent_id'' parent_id,
                 bnd (integer binding ''row_begin'') (\<lambda>a. bnd (integer binding ''row_end'') (\<lambda>b.
                 bnd (integer row ''row_begin'') (\<lambda>c. bnd (integer row ''row_count'') (\<lambda>n. Inr (a = c \<and> b = c + n)))))]
      else Inr False)"

definition residual_binding :: "(string, Record) dict \<Rightarrow> int \<Rightarrow> Record list \<Rightarrow> int list \<Rightarrow> int list \<Rightarrow>
    int list \<times> (int, int list) dict \<Rightarrow> jval \<Rightarrow> (int list \<times> (int, int list) dict) res" where
  "residual_binding results parent_id ordered works dense st raw =
     (case st of (bound, residual) \<Rightarrow>
      bnd (object_value raw) (\<lambda>binding.
      bnd (fields_of binding RESIDUAL_FIELDS) (\<lambda>_.
      bnd (integer binding ''work_id'') (\<lambda>work. bnd (integer binding ''dense_work_id'') (\<lambda>dense_work. bnd (integer binding ''stripe_id'') (\<lambda>stripe.
      ensurer (binding_ok parent_id ordered works dense bound binding work dense_work stripe) ''residual binding lacks exact dense stripe'' (
      case map_of results (npu_id work) of
        None \<Rightarrow> Inl (KeyError (npu_id work))
      | Some child \<Rightarrow>
          ensurer (if rget child ''scope'' = JStr ''residual_compact''
                   then allr (map (same_int binding child) [(''call_id'', ''call_id''), (''child_parent_id'', ''parent_id''),
                     (''source_row_begin'', ''source_row_begin''), (''source_row_count'', ''source_row_count'')])
                   else Inr False) ''residual binding differs from selected child work'' (
          Inr (List.insert work bound, append_row residual stripe work)))))))))"

definition stripe_row :: "int \<Rightarrow> nat \<times> Record \<Rightarrow> int res" where
  "stripe_row cursor entry =
     bnd (integer (snd entry) ''row_begin'') (\<lambda>first. bnd (integer (snd entry) ''row_count'') (\<lambda>count.
     ensurer (bnd (integer (snd entry) ''stripe_id'') (\<lambda>s. Inr (s = int (fst entry) \<and> first = cursor)))
       ''pipeline stripe gap, overlap, or duplicate'' (Inr (cursor + count))))"

definition work_owned :: "(string, Record) dict \<Rightarrow> Record \<Rightarrow> int \<Rightarrow> bool" where
  "work_owned results parent work \<longleftrightarrow> (case map_of results (npu_id work) of None \<Rightarrow> False
     | Some r \<Rightarrow> py_eq (rget r ''operation_id'') (rget parent ''operation_id''))"

definition parse_residual :: "(string, Record) dict \<Rightarrow> PipelineContract \<Rightarrow> int \<times> Record \<Rightarrow> PipelineContract res" where
  "parse_residual results pc entry =
     (case entry of (parent_id, parent) \<Rightarrow>
      let ordered = ordered_stripes (the (map_of (pc_stripes pc) parent_id)) in
      bnd (required_ids parent ''required_work_ids'') (\<lambda>works.
      bnd (required_ids parent ''fence_required_work_ids'') (\<lambda>fence.
      ensure (set fence = set works) ''pipeline fence does not cover parent work'' (
      bnd (mapr (\<lambda>r. integer r ''work_id'') ordered) (\<lambda>dense.
      ensure (filter (\<lambda>w. w \<in> set dense) works = dense \<and> list_all (work_owned results parent) works)
        ''pipeline parent required-work coverage mismatch'' (
      bnd (array (rget parent ''residual_bindings'')) (\<lambda>raws.
      bnd (foldm (residual_binding results parent_id ordered works dense) ([], []) raws) (\<lambda>st. case st of (bound, residual) \<Rightarrow>
      ensure (set works = set dense \<union> set bound) ''unbound pipeline residual work'' (
      bnd (foldm stripe_row 0 (zip [0..<length ordered] ordered)) (\<lambda>cursor.
      ensurer (int_is parent ''parent_m'' cursor) ''incomplete producer parent rows'' (
      Inr (pc\<lparr>pc_stripes := AList.update parent_id ordered (pc_stripes pc),
              pc_residual := AList.update parent_id residual (pc_residual pc)\<rparr>))))))))))))"

section \<open>Owners\<close>

definition owner_range :: "Record \<Rightarrow> Record \<Rightarrow> bool res" where
  "owner_range owner result =
     bnd (integer owner ''row_end'') (\<lambda>stop. bnd (integer result ''row_begin'') (\<lambda>first. bnd (integer result ''row_count'') (\<lambda>n.
     Inr (stop = first + n))))"

definition parse_owner :: "PipelineContract \<times> int list \<Rightarrow> jval \<Rightarrow> (PipelineContract \<times> int list) res" where
  "parse_owner st raw =
     (case st of (pc, sequences) \<Rightarrow>
      bnd (object_value raw) (\<lambda>owner.
      bnd (fields_of owner OWNER_FIELDS) (\<lambda>_.
      bnd (integer owner ''producer_sequence'') (\<lambda>sequence.
      ensure (sequence \<notin> set sequences) ''duplicate producer owner sequence'' (
      bnd (integer owner ''parent_id'') (\<lambda>parent_id. bnd (integer owner ''stripe_id'') (\<lambda>stripe. bnd (integer owner ''work_id'') (\<lambda>work.
      let rows = (case map_of (pc_stripes pc) parent_id of None \<Rightarrow> [] | Some rs \<Rightarrow> rs) in
      ensure (nat stripe < length rows) ''owner lacks exact stripe'' (
      let result = rows ! nat stripe in
      ensurer (allr ([int_is result ''work_id'' work] @
                     map (\<lambda>k. same_int owner result (k, k)) [''phase_id'', ''operation_id'', ''parent_id'', ''stripe_id'', ''row_begin''] @
                     [owner_range owner result,
                      bnd (integer owner ''workspace_slot'') (\<lambda>s. Inr (py_eq (JInt s) (rget result ''host_slot'') \<and> rget owner ''target_npu_slot'' = JNull))]))
        ''owner/result identity, range, or slot mismatch'' (
      bnd (integer owner ''producer_run_id'') (\<lambda>_.
      ensurer (if is_bool (rget owner ''rmd_packet'') \<and> is_bool (rget owner ''direct_residual'')
               then bnd (text_of owner ''source_location'') (\<lambda>loc. Inr (CHR '':'' \<in> set loc \<and>
                    py_in (rget owner ''source_owner'') [JStr ''IM2P.sim'', JStr ''llama.cpp-gemmini'']))
               else Inr False) ''invalid producer owner provenance'' (
      bnd (text_of owner ''resource'') (\<lambda>resource. bnd (text_of owner ''transition'') (\<lambda>transition.
      ensure ((resource, transition) \<in> set (REQUIRED_EVENTS @ OPTIONAL_EVENTS)) ''unknown producer owner transition'' (
      bnd (if rget owner ''observed_call_id'' = JNull then Inr None else bnd (integer owner ''observed_call_id'') (\<lambda>c. Inr (Some c))) (\<lambda>call.
      ensure ((resource = ''RESIDUAL_MERGE_CALL'') = (call \<noteq> None)) ''merge call owner identity mismatch'' (
      let key = (resource, transition, call);
          group = (case map_of (pc_owners pc) (parent_id, stripe) of None \<Rightarrow> [] | Some g \<Rightarrow> g) in
      ensure (\<not> has_key group key) ''duplicate producer owner transition'' (
      Inr (pc\<lparr>pc_owners := AList.update (parent_id, stripe) (AList.update key owner group) (pc_owners pc)\<rparr>,
           List.insert sequence sequences)))))))))))))))))))"

definition parse_pipeline :: "Record \<Rightarrow> (string, Record) dict \<Rightarrow> PipelineContract res" where
  "parse_pipeline contract results =
     bnd (item contract ''pipeline_parents'') (\<lambda>pv. bnd (array pv) (\<lambda>raws.
     bnd (foldm parse_parent [] raws) (\<lambda>parents.
     ensure (parents \<noteq> []) ''missing pipeline parent declarations'' (
     bnd (foldm (parse_stripe parents) [] results) (\<lambda>stripes.
     ensure (set (map fst stripes) = set (map fst parents)) ''pipeline parent/result coverage mismatch'' (
     bnd (foldm (parse_residual results) \<lparr>pc_parents = parents, pc_stripes = stripes, pc_residual = [], pc_owners = []\<rparr> parents) (\<lambda>pc.
     bnd (item contract ''pipeline_owners'') (\<lambda>ov. bnd (array ov) (\<lambda>owners.
     bnd (foldm parse_owner (pc, []) owners) (\<lambda>st. case st of (pc', sequences) \<Rightarrow>
     ensure (set sequences = int ` {..<length sequences}) ''producer owner sequence gap'' (Inr pc')))))))))))"

end
