(* ===== verification/Pipeline.thy ===== *)
theory Pipeline
  imports Pipeline_Contract Application
begin

text \<open>
  The projection of a declared pipeline to the execution graph: \<^verbatim>\<open>sim/cycle/execution_pipeline.py\<close>. Every owner event of a
  stripe becomes a barrier; the edges order the workspace slots, the two outstanding capacities, the queue and the
  publication of the stripe before its NPU work.
\<close>

section \<open>The projection under construction\<close>

record projection =
  pj_nodes :: "Node list"
  pj_additions :: "(string, Dependency list) dict"
  pj_removals :: "(string, string list) dict"

record PipelineProjection =
  pp_nodes :: "Node list"
  pp_additions :: "(string, Dependency list) dict"
  pp_removals :: "(string, string list) dict"

text \<open>\<^verbatim>\<open>dict.fromkeys\<close> keeps the first of equal elements.\<close>

definition from_keys :: "'a list \<Rightarrow> 'a list" where
  "from_keys xs = foldl (\<lambda>seen x. if x \<in> set seen then seen else seen @ [x]) [] xs"

definition PipelineProjection_edges :: "PipelineProjection \<Rightarrow> string \<Rightarrow> Dependency list \<Rightarrow> Dependency list" where
  "PipelineProjection_edges pp identity original =
     (let removed = (case map_of (pp_removals pp) identity of None \<Rightarrow> [] | Some ns \<Rightarrow> ns);
          added = (case map_of (pp_additions pp) identity of None \<Rightarrow> [] | Some es \<Rightarrow> es) in
      from_keys (filter (\<lambda>edge. dep_node edge \<notin> set removed) original @ added))"

definition add_edge :: "projection \<Rightarrow> string \<times> string \<Rightarrow> projection" where
  "add_edge pj edge = pj\<lparr>pj_additions := append_row (pj_additions pj) (fst edge) (result_of (snd edge))\<rparr>"

definition add_edges :: "(string \<times> string) list \<Rightarrow> projection \<Rightarrow> projection" where
  "add_edges edges pj = foldl add_edge pj edges"

definition remove_edge :: "string \<Rightarrow> string \<Rightarrow> projection \<Rightarrow> projection" where
  "remove_edge target source pj = pj\<lparr>pj_removals := AList.update target [source] (pj_removals pj)\<rparr>"

section \<open>Identities\<close>

definition owner_id :: "int \<Rightarrow> int \<Rightarrow> string \<Rightarrow> string \<Rightarrow> int option \<Rightarrow> string" where
  "owner_id parent stripe resource transition call =
     ''owner:'' @ str_int parent @ '':'' @ str_int stripe @ '':'' @ resource @ '':'' @ transition @
     (case call of None \<Rightarrow> '''' | Some c \<Rightarrow> '':'' @ str_int c)"

definition call_node :: "int \<Rightarrow> string \<Rightarrow> string" where
  "call_node call stage = ''call:'' @ str_int call @ '':'' @ stage"

section \<open>One stripe\<close>

text \<open>The state of the walk over the stripes of a parent: the release of the last holder of every workspace slot, the
  last dequeue and the works released so far.\<close>

record walk =
  wk_slots :: "(int, string) dict"
  wk_dequeue :: "string option"
  wk_released :: "int list"

definition fence_node :: "Record \<Rightarrow> string res" where
  "fence_node parent = bnd (integer parent ''fence_call_id'') (\<lambda>c. Inr (call_node c ''COMPLETE_REQUIRED''))"

definition row_is :: "(string, Record) dict \<Rightarrow> string \<Rightarrow> string \<Rightarrow> string \<Rightarrow> bool" where
  "row_is indexed identity key value \<longleftrightarrow> (case map_of indexed identity of None \<Rightarrow> False | Some r \<Rightarrow> rget r key = JStr value)"

fun is_npu :: "jval \<Rightarrow> bool" where
  "is_npu (JStr s) = (take 4 s = ''npu:'')"
| "is_npu _ = False"

definition fence_checks :: "(string, Record) dict \<Rightarrow> Record \<Rightarrow> string \<Rightarrow> unit res" where
  "fence_checks indexed parent fence =
     ensure (row_is indexed fence ''call_kind'' ''FENCE'') ''missing exact pipeline fence'' (
     bnd (item (the (map_of indexed fence)) ''dependencies'') (\<lambda>dv. bnd (array dv) (\<lambda>dependencies.
     bnd (required_ids parent ''fence_required_work_ids'') (\<lambda>works.
     ensure (set (filter is_npu dependencies) = set (map (\<lambda>w. JStr (npu_id w)) works))
       ''dataset/producer fence work mismatch'' (Inr ())))))"

definition group_present :: "(owner_key, Record) dict \<Rightarrow> (string \<times> string) list" where
  "group_present events = map (\<lambda>((resource, transition, _), _). (resource, transition)) events"

definition merges_of :: "(owner_key, Record) dict \<Rightarrow> owner_key list" where
  "merges_of events = filter (\<lambda>k. fst k = ''RESIDUAL_MERGE_CALL'') (map fst events)"

definition has_callback :: "(owner_key, Record) dict \<Rightarrow> bool" where
  "has_callback events \<longleftrightarrow> (''RESIDUAL_CALLBACK'', ''COMPLETE'') \<in> set (group_present events)"

definition stripe_group :: "PipelineContract \<Rightarrow> int \<Rightarrow> nat \<Rightarrow> (owner_key, Record) dict" where
  "stripe_group pc parent_id stripe = (case map_of (pc_owners pc) (parent_id, int stripe) of None \<Rightarrow> [] | Some g \<Rightarrow> g)"

definition group_checks :: "(owner_key, Record) dict \<Rightarrow> unit res" where
  "group_checks events =
     ensure (set REQUIRED_EVENTS \<subseteq> set (group_present events) \<and> set (group_present events) \<subseteq> set (REQUIRED_EVENTS @ OPTIONAL_EVENTS))
       ''missing/unknown pipeline stripe transition'' (
     ensure (has_callback events \<or> merges_of events = []) ''residual merge lacks callback'' (
     bnd (nth_item (map snd events) 0) (\<lambda>first.
     ensure (list_all (\<lambda>owner. py_eq (rget owner ''producer_run_id'') (rget first ''producer_run_id'')) (map snd events))
       ''mixed stripe producer identity'' (Inr ()))))"

definition stripe_edges :: "walk \<Rightarrow> int \<Rightarrow> int \<Rightarrow> int \<Rightarrow> (string \<times> string) list" where
  "stripe_edges wk parent stripe slot =
     (let oid = (\<lambda>resource transition. owner_id parent stripe resource transition None);
          acquire = oid ''EXSIA_WORKSPACE'' ''ACQUIRE''; commit = oid ''ACTIVATION_ROWS'' ''COMMIT'';
          seal = oid ''RESIDUAL_PAYLOAD'' ''SEAL''; capacity = oid ''FRONTEND_OUTSTANDING'' ''ACQUIRE'';
          enqueue = oid ''FRONTEND_QUEUE'' ''ENQUEUE''; dequeue = oid ''FRONTEND_QUEUE'' ''DEQUEUE'' in
      (case map_of (wk_slots wk) slot of None \<Rightarrow> [] | Some prior \<Rightarrow> [(acquire, prior)]) @
      [(commit, acquire), (seal, commit), (capacity, seal), (enqueue, capacity), (oid ''EXSIA_WORKSPACE'' ''RELEASE'', enqueue),
       (dequeue, enqueue)] @
      (if stripe \<ge> 2 then [(capacity, owner_id parent (stripe - 2) ''FRONTEND_OUTSTANDING'' ''RELEASE'' None)] else []) @
      (case wk_dequeue wk of None \<Rightarrow> [] | Some prior \<Rightarrow> [(dequeue, prior)]))"

definition publication_ok :: "(string, Record) dict \<Rightarrow> string \<Rightarrow> int \<Rightarrow> bool" where
  "publication_ok indexed operation call \<longleftrightarrow>
     has_key indexed (call_node call ''PREPARE'') \<and> row_is indexed (call_node call ''PUBLISH'') ''call_kind'' ''STRIPE'' \<and>
     row_is indexed (call_node call ''PREPARE'') ''operation_node_id'' operation \<and>
     row_is indexed (call_node call ''PUBLISH'') ''operation_node_id'' operation"

definition publication_edges :: "int \<Rightarrow> int \<Rightarrow> int \<Rightarrow> int \<Rightarrow> projection \<Rightarrow> projection" where
  "publication_edges parent stripe work call pj =
     (let oid = (\<lambda>resource transition. owner_id parent stripe resource transition None);
          publish = call_node call ''PUBLISH''; accepted = oid ''CPU_FUNCTIONAL_STREAM'' ''ACCEPTED'' in
      add_edges [(npu_id work, publish), (accepted, publish), (npu_id work, accepted), (oid ''CPU_FUNCTIONAL_STREAM'' ''COMPLETED'', accepted)]
        (remove_edge (npu_id work) (call_node call ''INVOKE'') (remove_edge publish (npu_id work)
          (add_edge pj (call_node call ''PREPARE'', oid ''FRONTEND_QUEUE'' ''DEQUEUE'')))))"

section \<open>The events of a stripe\<close>

definition owner_ids :: "(owner_key, Record) dict \<Rightarrow> string \<Rightarrow> string \<Rightarrow> string \<Rightarrow> int list res" where
  "owner_ids events resource transition key =
     (case map_of events (resource, transition, None) of
        None \<Rightarrow> Inl (KeyError resource) | Some owner \<Rightarrow> required_ids owner key)"

definition bound_works :: "PipelineContract \<Rightarrow> int \<Rightarrow> int \<Rightarrow> int list" where
  "bound_works pc parent_id stripe = (case map_of (pc_residual pc) parent_id of None \<Rightarrow> []
     | Some residual \<Rightarrow> (case map_of residual stripe of None \<Rightarrow> [] | Some ws \<Rightarrow> ws))"

text \<open>The works and calls that must complete before the outstanding capacity is released.\<close>

definition release_checks :: "(owner_key, Record) dict \<Rightarrow> int list \<Rightarrow> int \<Rightarrow> int list res" where
  "release_checks events bound work =
     bnd (owner_ids events ''CPU_FUNCTIONAL_STREAM'' ''COMPLETED'' ''required_work_ids'') (\<lambda>completion.
     bnd (owner_ids events ''FRONTEND_OUTSTANDING'' ''RELEASE'' ''required_work_ids'') (\<lambda>release.
     bnd (if has_callback events then owner_ids events ''RESIDUAL_CALLBACK'' ''COMPLETE'' ''required_work_ids'' else Inr completion) (\<lambda>callback.
     ensure (set completion \<subseteq> set callback \<and> release = callback) ''capacity release required-work coverage mismatch'' (
     ensure (set release = {work} \<union> set bound) ''capacity release/residual stripe binding mismatch'' (
     bnd (owner_ids events ''FRONTEND_OUTSTANDING'' ''RELEASE'' ''required_call_ids'') (\<lambda>release_calls.
     bnd (if has_callback events then owner_ids events ''RESIDUAL_CALLBACK'' ''COMPLETE'' ''required_call_ids'' else Inr []) (\<lambda>callback_calls.
     ensure (set release_calls = set callback_calls \<and>
             Some ` set callback_calls = (\<lambda>(_, _, call). call) ` set (merges_of events)) ''capacity release required-call coverage mismatch'' (
     Inr release))))))))"

definition COMPLETION_EVENTS :: "(string \<times> string) list" where
  "COMPLETION_EVENTS = [(''CPU_FUNCTIONAL_STREAM'', ''COMPLETED''), (''RESIDUAL_CALLBACK'', ''COMPLETE''), (''FRONTEND_OUTSTANDING'', ''RELEASE'')]"

definition continuation_ok :: "(string, Record) dict \<Rightarrow> string \<Rightarrow> int \<Rightarrow> bool" where
  "continuation_ok indexed operation call \<longleftrightarrow>
     row_is indexed (call_node call ''CONTINUATION'') ''call_kind'' ''RESIDUAL_MERGE'' \<and>
     row_is indexed (call_node call ''CONTINUATION'') ''operation_node_id'' operation"

definition owner_tail :: "(owner_key, Record) dict \<Rightarrow> int \<Rightarrow> int \<Rightarrow> string \<Rightarrow> string \<Rightarrow> int option \<Rightarrow> int list \<Rightarrow> (string \<times> string) list res" where
  "owner_tail events parent stripe resource transition observed calls =
     (let identity = owner_id parent stripe resource transition observed;
          completed = owner_id parent stripe ''CPU_FUNCTIONAL_STREAM'' ''COMPLETED'' None in
      if resource = ''RESIDUAL_MERGE_CALL''
      then ensure (map Some calls = [observed]) ''merge owner call dependency mismatch'' (Inr [(identity, completed)])
      else if resource = ''RESIDUAL_CALLBACK''
      then Inr ((identity, completed) # map (\<lambda>(r, t, c). (identity, owner_id parent stripe r t c)) (merges_of events))
      else if (resource, transition) = (''FRONTEND_OUTSTANDING'', ''RELEASE'')
      then Inr [(identity, if has_callback events then owner_id parent stripe ''RESIDUAL_CALLBACK'' ''COMPLETE'' None else completed)]
      else Inr [])"

definition owner_event :: "(string, Record) dict \<Rightarrow> (string, Record) dict \<Rightarrow> Record \<Rightarrow> string \<Rightarrow> string \<Rightarrow>
    (owner_key, Record) dict \<Rightarrow> int \<Rightarrow> int \<Rightarrow> int \<Rightarrow> projection \<Rightarrow> Record \<Rightarrow> projection res" where
  "owner_event indexed results parent operation phase events parent_id stripe work pj owner =
     bnd (text_of owner ''resource'') (\<lambda>resource. bnd (text_of owner ''transition'') (\<lambda>transition.
     bnd (if rget owner ''observed_call_id'' = JNull then Inr None else bnd (integer owner ''observed_call_id'') (\<lambda>c. Inr (Some c))) (\<lambda>observed.
     let identity = owner_id parent_id stripe resource transition observed in
     bnd (required_ids owner ''required_work_ids'') (\<lambda>works. bnd (required_ids owner ''required_call_ids'') (\<lambda>calls.
     ensure (list_all (work_owned results parent) works) ''owner required work lacks exact result'' (
     ensure (list_all (continuation_ok indexed operation) calls) ''owner required merge call missing'' (
     let completion = (resource, transition) \<in> set COMPLETION_EVENTS in
     ensure (if completion then work \<in> set works else works = [])
       (if completion then ''owner completion omits dense work'' else ''early owner event requires NPU completion'') (
     bnd (owner_tail events parent_id stripe resource transition observed calls) (\<lambda>tail.
     let pj' = add_edges (map (\<lambda>w. (identity, npu_id w)) works @ map (\<lambda>c. (identity, call_node c ''CONTINUATION'')) calls @ tail) pj in
     Inr (pj'\<lparr>pj_nodes := pj_nodes pj' @ [\<lparr>nd_identity = identity, nd_kind = BARRIER, nd_operation = operation, nd_phase = phase,
            nd_order = 0, nd_dependencies = [], nd_service = None, nd_resources = []\<rparr>]\<rparr>))))))))))"

definition stripe_operation :: "ext \<Rightarrow> (string, Record) dict \<Rightarrow> string \<Rightarrow> int \<Rightarrow> (string \<times> string) res" where
  "stripe_operation E indexed fence work =
     (case map_of indexed (npu_id work) of
        None \<Rightarrow> Inl (ExecutionError (''execution: '' @ ''missing selected stripe service''))
      | Some service \<Rightarrow>
        bnd (text_of service ''operation_node_id'') (\<lambda>operation.
        case map_of indexed operation of
          None \<Rightarrow> Inl (ExecutionError (''execution: '' @ ''owner lacks operation container''))
        | Some container \<Rightarrow>
          ensure (row_is indexed fence ''operation_node_id'' operation) ''pipeline fence/operation mismatch'' (
          bnd (item container ''phase'') (\<lambda>ph. Inr (operation, dumps E True ph)))))"

definition project_stripe :: "ext \<Rightarrow> PipelineContract \<Rightarrow> (string, Record) dict \<Rightarrow> (string, Record) dict \<Rightarrow> int \<Rightarrow> Record \<Rightarrow> string \<Rightarrow>
    walk \<times> projection \<Rightarrow> nat \<times> Record \<Rightarrow> (walk \<times> projection) res" where
  "project_stripe E pc indexed results parent_id parent fence st entry =
     (case st of (wk, pj) \<Rightarrow> let stripe = int (fst entry); result = snd entry in
      bnd (integer result ''work_id'') (\<lambda>work. bnd (integer result ''call_id'') (\<lambda>call.
      bnd (stripe_operation E indexed fence work) (\<lambda>op. case op of (operation, phase) \<Rightarrow>
      let events = stripe_group pc parent_id (fst entry) in
      bnd (group_checks events) (\<lambda>_.
      bnd (integer result ''host_slot'') (\<lambda>slot.
      let pj1 = add_edges (stripe_edges wk parent_id stripe slot) pj in
      ensure (publication_ok indexed operation call) ''stripe lacks exact publication boundary'' (
      ensure (case map_of (the (map_of indexed (npu_id work))) ''producer_operation_id'' of None \<Rightarrow> True
              | Some v \<Rightarrow> py_eq v (rget parent ''operation_id'')) ''stripe work/operation mismatch'' (
      let pj2 = publication_edges parent_id stripe work call pj1 in
      bnd (release_checks events (bound_works pc parent_id stripe) work) (\<lambda>released.
      bnd (foldm (owner_event indexed results parent operation phase events parent_id stripe work) pj2 (map snd events)) (\<lambda>pj3.
      Inr (\<lparr>wk_slots = AList.update slot (owner_id parent_id stripe ''EXSIA_WORKSPACE'' ''RELEASE'' None) (wk_slots wk),
            wk_dequeue = Some (owner_id parent_id stripe ''FRONTEND_QUEUE'' ''DEQUEUE'' None),
            wk_released = wk_released wk @ released\<rparr>,
           add_edge pj3 (fence, owner_id parent_id stripe ''FRONTEND_OUTSTANDING'' ''RELEASE'' None))))))))))))"

section \<open>The parents\<close>

definition project_parent :: "ext \<Rightarrow> PipelineContract \<Rightarrow> (string, Record) dict \<Rightarrow> (string, Record) dict \<Rightarrow> projection \<Rightarrow> int \<times> Record \<Rightarrow> projection res" where
  "project_parent E pc indexed results pj entry =
     (case entry of (parent_id, parent) \<Rightarrow>
      let ordered = the (map_of (pc_stripes pc) parent_id) in
      bnd (fence_node parent) (\<lambda>fence.
      bnd (fence_checks indexed parent fence) (\<lambda>_.
      bnd (foldm (project_stripe E pc indexed results parent_id parent fence) (\<lparr>wk_slots = [], wk_dequeue = None, wk_released = []\<rparr>, pj)
             (zip [0..<length ordered] ordered)) (\<lambda>st. case st of (wk, pj') \<Rightarrow>
      bnd (required_ids parent ''required_work_ids'') (\<lambda>works.
      ensure (set (wk_released wk) = set works \<and> distinct (wk_released wk)) ''pipeline parent release/work coverage mismatch'' (
      Inr (add_edges (map (\<lambda>w. (fence, npu_id w)) works) pj')))))))"

definition complete_node :: "Node list \<times> (string, Dependency list) dict \<Rightarrow> Node \<Rightarrow> Node list \<times> (string, Dependency list) dict" where
  "complete_node st node =
     (let added = (case map_of (snd st) (nd_identity node) of None \<Rightarrow> [] | Some es \<Rightarrow> es) in
      (fst st @ [node\<lparr>nd_dependencies := from_keys (result_of (nd_operation node @ '':enter'') # added)\<rparr>],
       AList.delete (nd_identity node) (snd st)))"

definition project_pipeline :: "ext \<Rightarrow> Record \<Rightarrow> (string, Record) dict \<Rightarrow> (string, Record) dict \<Rightarrow> PipelineProjection res" where
  "project_pipeline E contract indexed results =
     bnd (parse_pipeline contract results) (\<lambda>pc.
     bnd (foldm (project_parent E pc indexed results) \<lparr>pj_nodes = [], pj_additions = [], pj_removals = []\<rparr> (pc_parents pc)) (\<lambda>pj.
     case foldl complete_node ([], pj_additions pj) (pj_nodes pj) of (nodes, additions) \<Rightarrow>
     Inr \<lparr>pp_nodes = nodes, pp_additions = map (\<lambda>(k, es). (k, from_keys es)) additions, pp_removals = pj_removals pj\<rparr>))"

end
