(* ===== verification/Pipeline_Theorems.thy ===== *)
theory Pipeline_Theorems
  imports Pipeline_Contract Graph_Theorems
begin

text \<open>
  What a parsed pipeline contract is: the stripes of every parent, in the order the projection walks them, are numbered
  from zero and their row ranges tile the rows of the parent; every work of a parent is a dense stripe or a bound residual.
\<close>

section \<open>The stripes of one parent\<close>

fun row_tiles :: "int \<Rightarrow> int \<Rightarrow> Record list \<Rightarrow> int \<Rightarrow> bool" where
  "row_tiles k first [] stop = (first = stop)"
| "row_tiles k first (r # rs) stop \<longleftrightarrow> integer r ''stripe_id'' = Inr k \<and> integer r ''row_begin'' = Inr first \<and>
     (\<exists>n. integer r ''row_count'' = Inr n \<and> row_tiles (k + 1) (first + n) rs stop)"

lemma stripe_row_tiles: "foldm stripe_row first (zip [k..<k + length rs] rs) = Inr stop \<Longrightarrow> row_tiles (int k) first rs stop"
proof (induction rs arbitrary: k first)
  case (Cons r rs)
  have z: "zip [k..<k + length (r # rs)] (r # rs) = (k, r) # zip [Suc k..<Suc k + length rs] rs"
    by (simp add: upt_rec)
  from Cons.prems obtain n where n: "integer r ''row_begin'' = Inr first" "integer r ''row_count'' = Inr n"
    "integer r ''stripe_id'' = Inr (int k)" "foldm stripe_row (first + n) (zip [Suc k..<Suc k + length rs] rs) = Inr stop"
    unfolding z stripe_row_def by (auto simp: res_simps bnd_eq_Inr)
  with Cons.IH [OF n(4)] show ?case by (simp add: algebra_simps)
qed simp

definition work_ids :: "Record list \<Rightarrow> int set" where
  "work_ids rows = {w. \<exists>r \<in> set rows. integer r ''work_id'' = Inr w}"

definition parent_covered :: "(string, Record) dict \<Rightarrow> PipelineContract \<Rightarrow> int \<times> Record \<Rightarrow> bool" where
  "parent_covered results pc entry \<longleftrightarrow> (\<exists>rows works n residual.
     map_of (pc_stripes pc) (fst entry) = Some rows \<and> map_of (pc_residual pc) (fst entry) = Some residual \<and>
     integer (snd entry) ''parent_m'' = Inr n \<and> row_tiles 0 0 rows n \<and>
     required_ids (snd entry) ''required_work_ids'' = Inr works \<and>
     set works = work_ids rows \<union> \<Union> (set ` snd ` set residual) \<and> work_ids rows \<inter> \<Union> (set ` snd ` set residual) = {})"

section \<open>Residual bindings\<close>

lemma append_row_values:
  assumes "distinct (map fst d)"
  shows "\<Union> (set ` snd ` set (append_row d k v)) = insert v (\<Union> (set ` snd ` set d))" and "distinct (map fst (append_row d k v))"
proof -
  have u: "set (AList.update k vs d) = (set d - {(k, w) | w. True}) \<union> {(k, vs)}" for vs
    using assms by (induction d) (auto split: if_splits simp: image_iff)
  show "distinct (map fst (append_row d k v))" unfolding append_row_def using assms by (rule distinct_update)
  show "\<Union> (set ` snd ` set (append_row d k v)) = insert v (\<Union> (set ` snd ` set d))"
  proof (cases "map_of d k")
    case None
    then have "k \<notin> fst ` set d" by (simp add: map_of_eq_None_iff)
    then have "set d - {(k, w) | w. True} = set d" by force
    then show ?thesis using None unfolding append_row_def u by (simp add: Un_ac)
  next
    case (Some vs)
    then have "(k, w) \<in> set d \<longleftrightarrow> w = vs" for w using assms by (metis map_of_is_SomeI map_of_SomeD option.inject)
    then have e: "set d = (set d - {(k, w) | w. True}) \<union> {(k, vs)}" by auto
    have "\<Union> (set ` snd ` set d) = \<Union> (set ` snd ` (set d - {(k, w) | w. True})) \<union> set vs"
      by (subst e) (simp add: Un_commute)
    then show ?thesis using Some unfolding append_row_def u by (simp add: Un_ac)
  qed
qed

definition bound_inv :: "int list \<Rightarrow> int list \<times> (int, int list) dict \<Rightarrow> bool" where
  "bound_inv dense st \<longleftrightarrow> distinct (map fst (snd st)) \<and> set (fst st) = \<Union> (set ` snd ` set (snd st)) \<and> set (fst st) \<inter> set dense = {}"

lemma residual_binding_inv:
  assumes "residual_binding results p ordered works dense st raw = Inr st'" and "bound_inv dense st"
  shows "bound_inv dense st'"
proof -
  obtain bound residual where st: "st = (bound, residual)" by (cases st)
  from assms(1) obtain work stripe where w: "work \<notin> set dense" "st' = (List.insert work bound, append_row residual stripe work)"
    unfolding residual_binding_def st binding_ok_def
    by (auto simp: res_simps bnd_eq_Inr split: option.splits if_splits)
  from assms(2) have d: "distinct (map fst residual)" by (simp add: bound_inv_def st)
  from assms(2) w show ?thesis using append_row_values [OF d] by (auto simp: bound_inv_def st)
qed

section \<open>All parents\<close>

lemma parse_residual_step:
  assumes "parse_residual results pc (p, parent) = Inr pc'"
  shows "parent_covered results pc' (p, parent)" and "pc_parents pc' = pc_parents pc"
    and "q \<noteq> p \<Longrightarrow> map_of (pc_stripes pc') q = map_of (pc_stripes pc) q \<and> map_of (pc_residual pc') q = map_of (pc_residual pc) q"
proof -
  define rows where "rows = ordered_stripes (the (map_of (pc_stripes pc) p))"
  from assms obtain works dense raws bound residual cursor where
    r: "required_ids parent ''required_work_ids'' = Inr works" "mapr (\<lambda>r. integer r ''work_id'') rows = Inr dense"
      "foldm (residual_binding results p rows works dense) ([], []) raws = Inr (bound, residual)"
      "set works = set dense \<union> set bound" "foldm stripe_row 0 (zip [0..<length rows] rows) = Inr cursor"
      "int_is parent ''parent_m'' cursor = Inr True"
    and pc': "pc\<lparr>pc_stripes := AList.update p rows (pc_stripes pc), pc_residual := AList.update p residual (pc_residual pc)\<rparr> = pc'"
    unfolding parse_residual_def prod.case Let_def rows_def [symmetric] bnd_eq_Inr ensure_eq_Inr ensurer_eq_Inr sum.inject split_paired_Ex
    by (elim exE conjE) (rule that)
  note pc' = pc' [symmetric]
  have b: "bound_inv dense (bound, residual)"
    by (rule foldm_invariant [OF r(3)]) (auto simp: bound_inv_def [of _ "([], [])"] intro: residual_binding_inv)
  have t: "row_tiles 0 0 rows cursor" using stripe_row_tiles [of 0 0 rows cursor] r(5) by simp
  have d: "set dense = work_ids rows" using r(2) unfolding mapr_Inr_iff work_ids_def
    by (induction rows dense rule: list_all2_induct) auto
  show "parent_covered results pc' (p, parent)" unfolding parent_covered_def
    using r b t d by (auto simp: pc' int_is_def bnd_eq_Inr bound_inv_def)
  show "pc_parents pc' = pc_parents pc" by (simp add: pc')
  show "q \<noteq> p \<Longrightarrow> map_of (pc_stripes pc') q = map_of (pc_stripes pc) q \<and> map_of (pc_residual pc') q = map_of (pc_residual pc) q"
    by (simp add: pc')
qed

lemma parse_residual_all:
  assumes "foldm (parse_residual results) pc parents = Inr pc'" and "distinct (map fst parents)"
  shows "pc_parents pc' = pc_parents pc \<and> (\<forall>e \<in> set parents. parent_covered results pc' e)"
  using assms
proof (induction parents arbitrary: pc' rule: rev_induct)
  case (snoc e es)
  from snoc.prems obtain pc1 where s: "foldm (parse_residual results) pc es = Inr pc1" "parse_residual results pc1 e = Inr pc'"
    by (auto simp: foldm_append bnd_eq_Inr)
  obtain p parent where e: "e = (p, parent)" by (cases e)
  note step = parse_residual_step [OF s(2) [unfolded e]]
  have "parent_covered results pc' x" if "x \<in> set es" for x
  proof -
    have "fst x \<noteq> p" using that snoc.prems(2) by (auto simp: e image_iff)
    with step(3) snoc.IH [OF s(1)] snoc.prems(2) that show ?thesis by (fastforce simp: parent_covered_def)
  qed
  with step(1,2) snoc.IH [OF s(1)] snoc.prems(2) show ?case by (auto simp: e)
qed simp

lemma parse_parent_distinct:
  assumes "parse_parent parents raw = Inr parents'" and "distinct (map fst parents)"
  shows "distinct (map fst parents')"
  using assms unfolding parse_parent_def by (auto simp: res_simps bnd_eq_Inr distinct_update)

lemma parse_owner_frame:
  assumes "parse_owner st raw = Inr st'"
  shows "\<exists>owners. fst st' = (fst st)\<lparr>pc_owners := owners\<rparr>"
proof (cases st)
  case (Pair pc sequences)
  have "\<exists>owners s. st' = (pc\<lparr>pc_owners := owners\<rparr>, s)"
    using assms unfolding parse_owner_def Pair prod.case Let_def bnd_eq_Inr ensure_eq_Inr ensurer_eq_Inr sum.inject
    by (elim exE conjE) blast
  then show ?thesis by (auto simp: Pair)
qed

lemma parse_pipeline_split:
  assumes "parse_pipeline contract results = Inr pc"
  obtains raws parents pc0 pc1 where "foldm parse_parent [] raws = Inr parents"
    "pc_parents pc0 = parents" "foldm (parse_residual results) pc0 parents = Inr pc1" "\<exists>owners. pc = pc1\<lparr>pc_owners := owners\<rparr>"
proof -
  from assms obtain raws parents pc0 pc1 owners sequences where
    s: "foldm parse_parent [] raws = Inr parents" "pc_parents pc0 = parents" "foldm (parse_residual results) pc0 parents = Inr pc1"
      "foldm parse_owner (pc1, []) owners = Inr (pc, sequences)"
    unfolding parse_pipeline_def bnd_eq_Inr ensure_eq_Inr sum.inject split_paired_Ex prod.case
    by (metis PipelineContract.select_convs(1))
  have "\<exists>owners. fst (pc, sequences) = pc1\<lparr>pc_owners := owners\<rparr>"
  proof (rule foldm_invariant [OF s(4)])
    show "\<exists>owners. fst (pc1, []) = pc1\<lparr>pc_owners := owners\<rparr>" by (rule exI [of _ "pc_owners pc1"]) simp
  next
    fix st x st' assume "\<exists>owners. fst st = pc1\<lparr>pc_owners := owners\<rparr>" "parse_owner st x = Inr st'"
    then show "\<exists>owners. fst st' = pc1\<lparr>pc_owners := owners\<rparr>" using parse_owner_frame by fastforce
  qed
  then have "\<exists>owners. pc = pc1\<lparr>pc_owners := owners\<rparr>" by simp
  with s that show ?thesis by blast
qed

lemma parse_pipeline_parents_covered:
  assumes "parse_pipeline contract results = Inr pc" and "e \<in> set (pc_parents pc)"
  shows "parent_covered results pc e"
proof -
  from assms(1) obtain raws parents pc0 pc1 owners where s: "foldm parse_parent [] raws = Inr parents" "pc_parents pc0 = parents"
    "foldm (parse_residual results) pc0 parents = Inr pc1" "pc = pc1\<lparr>pc_owners := owners\<rparr>"
    by (elim parse_pipeline_split) blast
  have d: "distinct (map fst parents)" by (rule foldm_invariant [OF s(1)]) (auto intro: parse_parent_distinct)
  show ?thesis using parse_residual_all [OF s(3) d] s(2,4) assms(2) by (auto simp: parent_covered_def)
qed

text \<open>C13. The stripes of a parent of an accepted pipeline contract are numbered from zero in the order they are kept, their row
  ranges follow one another from row 0 to the rows the parent declares, and the selected work of the parent is exactly its
  dense stripes and, apart from them, the residual works bound to one of its stripes.\<close>

theorem pipeline_parents_tiled:
  assumes "parse_pipeline contract results = Inr pc" and "e \<in> set (pc_parents pc)"
  shows "parent_covered results pc e"
  by (rule parse_pipeline_parents_covered [OF assms])

section \<open>A parent with two stripes and one residual work\<close>

definition ex_parent :: Record where
  "ex_parent = [(''phase_id'', JInt 0), (''operation_id'', JInt 5), (''parent_id'', JInt 3),
     (''required_work_ids'', JArr [JInt 10, JInt 12, JInt 11]), (''fence_call_id'', JInt 9),
     (''fence_required_work_ids'', JArr [JInt 10, JInt 11, JInt 12]), (''production_geometry_version'', JInt 1),
     (''scope'', JStr ''STREAM''), (''activation_bits'', JInt 8), (''weight_bits'', JInt 8), (''dim'', JInt 4), (''parent_m'', JInt 6),
     (''n'', JInt 4), (''k'', JInt 4), (''tile_i_count'', JInt 2), (''tile_j_count'', JInt 1), (''tile_k_count'', JInt 1),
     (''residual_bindings'', JArr [JObj [(''work_id'', JInt 12), (''call_id'', JInt 7), (''child_parent_id'', JInt 4),
        (''dense_work_id'', JInt 11), (''dense_parent_id'', JInt 3), (''stripe_id'', JInt 1), (''row_begin'', JInt 4),
        (''row_end'', JInt 6), (''source_row_begin'', JInt 4), (''source_row_count'', JInt 1)]])]"

definition ex_stripe :: "int \<Rightarrow> int \<Rightarrow> int \<Rightarrow> int \<Rightarrow> Record" where
  "ex_stripe work stripe first count = [(''scope'', JStr ''stripe''), (''parent_id'', JInt 3), (''work_id'', JInt work), (''phase_id'', JInt 0),
     (''operation_id'', JInt 5), (''parent_m'', JInt 6), (''n'', JInt 4), (''k'', JInt 4), (''dim'', JInt 4), (''activation_bits'', JInt 8),
     (''weight_bits'', JInt 8), (''production_geometry_version'', JInt 1), (''tile_j_count'', JInt 1), (''tile_k_count'', JInt 1),
     (''m'', JInt count), (''row_count'', JInt count), (''tile_i_count'', JInt 1), (''call_id'', JInt (work - 9)), (''stripe_id'', JInt stripe),
     (''row_begin'', JInt first), (''host_slot'', JInt (stripe mod 2))]"

definition ex_results :: "(string, Record) dict" where
  "ex_results = [(''npu:11'', ex_stripe 11 1 4 2), (''npu:10'', ex_stripe 10 0 0 4),
     (''npu:12'', [(''scope'', JStr ''residual_compact''), (''operation_id'', JInt 5), (''call_id'', JInt 7), (''parent_id'', JInt 4),
        (''source_row_begin'', JInt 4), (''source_row_count'', JInt 1)])]"

definition ex_pipeline_contract :: Record where
  "ex_pipeline_contract = [(''pipeline_parents'', JArr [JObj ex_parent]), (''pipeline_owners'', JArr [])]"

definition ex_pipeline :: PipelineContract where
  "ex_pipeline = \<lparr>pc_parents = [(3, ex_parent)], pc_stripes = [(3, [ex_stripe 10 0 0 4, ex_stripe 11 1 4 2])],
     pc_residual = [(3, [(1, [12])])], pc_owners = []\<rparr>"

lemma ex_pipeline_parsed: "parse_pipeline ex_pipeline_contract ex_results = Inr ex_pipeline"
  by code_simp

theorem pipeline_parents_tiled_witness: "parent_covered ex_results ex_pipeline (3, ex_parent)"
  by (rule pipeline_parents_tiled [OF ex_pipeline_parsed]) (simp add: ex_pipeline_def)

end
