(* ===== verification/Pipeline_Order.thy ===== *)
theory Pipeline_Order
  imports Pipeline Pipeline_Theorems
begin

text \<open>
  The order a projected pipeline imposes on a stripe: production, seal, capacity, queue, publication, NPU work, release and
  fence; at most two stripes outstanding, a queue in stripe order, and a workspace slot taken only after its last holder
  left it.
\<close>

section \<open>The edges of a projection\<close>

definition pj_edges :: "projection \<Rightarrow> (string \<times> string) set" where
  "pj_edges pj = {(t, u). \<exists>es. map_of (pj_additions pj) t = Some es \<and> result_of u \<in> set es}"

lemma result_of_inj [simp]: "result_of u = result_of v \<longleftrightarrow> u = v"
  by (simp add: result_of_def)

lemma pj_edges_add_edge [simp]: "pj_edges (add_edge pj e) = insert e (pj_edges pj)"
  by (cases e) (auto simp: pj_edges_def add_edge_def append_row_def split: option.splits if_splits)

lemma pj_edges_add_edges [simp]: "pj_edges (add_edges es pj) = pj_edges pj \<union> set es"
  unfolding add_edges_def by (induction es arbitrary: pj) auto

lemma pj_edges_remove_edge [simp]: "pj_edges (remove_edge t u pj) = pj_edges pj"
  by (simp add: pj_edges_def remove_edge_def)

lemma pj_edges_nodes [simp]: "pj_edges (pj\<lparr>pj_nodes := ns\<rparr>) = pj_edges pj"
  by (simp add: pj_edges_def)

lemma pj_nodes_add_edge [simp]: "pj_nodes (add_edge pj e) = pj_nodes pj"
  by (simp add: add_edge_def)

lemma pj_nodes_add_edges [simp]: "pj_nodes (add_edges es pj) = pj_nodes pj"
  unfolding add_edges_def by (induction es arbitrary: pj) auto

lemma pj_nodes_remove_edge [simp]: "pj_nodes (remove_edge t u pj) = pj_nodes pj"
  by (simp add: remove_edge_def)

definition node_ids :: "projection \<Rightarrow> string set" where
  "node_ids pj = nd_identity ` set (pj_nodes pj)"

definition pj_le :: "projection \<Rightarrow> projection \<Rightarrow> bool" where
  "pj_le pj pj' \<longleftrightarrow> pj_edges pj \<subseteq> pj_edges pj' \<and> node_ids pj \<subseteq> node_ids pj'"

lemma pj_le_refl [simp]: "pj_le pj pj"
  by (simp add: pj_le_def)

lemma pj_le_trans: "pj_le a b \<Longrightarrow> pj_le b c \<Longrightarrow> pj_le a c"
  by (auto simp: pj_le_def)

lemma foldm_le:
  assumes "foldm f pj xs = Inr pj'" and "\<And>s x s'. x \<in> set xs \<Longrightarrow> f s x = Inr s' \<Longrightarrow> pj_le s s'"
  shows "pj_le pj pj'"
  by (rule foldm_invariant [OF assms(1)]) (use assms(2) pj_le_trans in auto)

section \<open>The required order\<close>

definition last_holder :: "Record list \<Rightarrow> int \<Rightarrow> nat \<Rightarrow> nat option" where
  "last_holder rows slot s = find (\<lambda>i. integer (rows ! i) ''host_slot'' = Inr slot) (rev [0..<s])"

lemma last_holder_Suc:
  "last_holder rows slot (Suc s) = (if integer (rows ! s) ''host_slot'' = Inr slot then Some s else last_holder rows slot s)"
  by (simp add: last_holder_def)

definition event_of :: "int \<Rightarrow> nat \<Rightarrow> string \<Rightarrow> string \<Rightarrow> string" where
  "event_of p s resource transition = owner_id p (int s) resource transition None"

definition stripe_order :: "int \<Rightarrow> string \<Rightarrow> Record list \<Rightarrow> nat \<Rightarrow> int \<Rightarrow> int \<Rightarrow> int \<Rightarrow> (string \<times> string) list" where
  "stripe_order p fence rows s work call slot =
     [(event_of p s ''ACTIVATION_ROWS'' ''COMMIT'', event_of p s ''EXSIA_WORKSPACE'' ''ACQUIRE''),
      (event_of p s ''RESIDUAL_PAYLOAD'' ''SEAL'', event_of p s ''ACTIVATION_ROWS'' ''COMMIT''),
      (event_of p s ''FRONTEND_OUTSTANDING'' ''ACQUIRE'', event_of p s ''RESIDUAL_PAYLOAD'' ''SEAL''),
      (event_of p s ''FRONTEND_QUEUE'' ''ENQUEUE'', event_of p s ''FRONTEND_OUTSTANDING'' ''ACQUIRE''),
      (event_of p s ''EXSIA_WORKSPACE'' ''RELEASE'', event_of p s ''FRONTEND_QUEUE'' ''ENQUEUE''),
      (event_of p s ''FRONTEND_QUEUE'' ''DEQUEUE'', event_of p s ''FRONTEND_QUEUE'' ''ENQUEUE''),
      (call_node call ''PREPARE'', event_of p s ''FRONTEND_QUEUE'' ''DEQUEUE''),
      (npu_id work, call_node call ''PUBLISH''),
      (event_of p s ''CPU_FUNCTIONAL_STREAM'' ''ACCEPTED'', call_node call ''PUBLISH''),
      (npu_id work, event_of p s ''CPU_FUNCTIONAL_STREAM'' ''ACCEPTED''),
      (event_of p s ''CPU_FUNCTIONAL_STREAM'' ''COMPLETED'', event_of p s ''CPU_FUNCTIONAL_STREAM'' ''ACCEPTED''),
      (event_of p s ''CPU_FUNCTIONAL_STREAM'' ''COMPLETED'', npu_id work),
      (event_of p s ''FRONTEND_OUTSTANDING'' ''RELEASE'', npu_id work),
      (fence, event_of p s ''FRONTEND_OUTSTANDING'' ''RELEASE'')] @
     (if s \<ge> 2 then [(event_of p s ''FRONTEND_OUTSTANDING'' ''ACQUIRE'', event_of p (s - 2) ''FRONTEND_OUTSTANDING'' ''RELEASE'')] else []) @
     (if s \<ge> 1 then [(event_of p s ''FRONTEND_QUEUE'' ''DEQUEUE'', event_of p (s - 1) ''FRONTEND_QUEUE'' ''DEQUEUE'')] else []) @
     (case last_holder rows slot s of None \<Rightarrow> []
      | Some s' \<Rightarrow> [(event_of p s ''EXSIA_WORKSPACE'' ''ACQUIRE'', event_of p s' ''EXSIA_WORKSPACE'' ''RELEASE'')])"

definition stripe_ordered :: "int \<Rightarrow> string \<Rightarrow> Record list \<Rightarrow> projection \<Rightarrow> nat \<Rightarrow> bool" where
  "stripe_ordered p fence rows pj s \<longleftrightarrow> (\<exists>work call slot. integer (rows ! s) ''work_id'' = Inr work \<and> integer (rows ! s) ''call_id'' = Inr call \<and>
     integer (rows ! s) ''host_slot'' = Inr slot \<and> set (stripe_order p fence rows s work call slot) \<subseteq> pj_edges pj \<and>
     (\<forall>(r, t) \<in> set REQUIRED_EVENTS. event_of p s r t \<in> node_ids pj))"

lemma stripe_ordered_mono: "pj_le pj pj' \<Longrightarrow> stripe_ordered p fence rows pj s \<Longrightarrow> stripe_ordered p fence rows pj' s"
  unfolding stripe_ordered_def pj_le_def by blast

section \<open>Owner events\<close>

definition event_wf :: "owner_key \<times> Record \<Rightarrow> bool" where
  "event_wf event \<longleftrightarrow> (case event of ((r, t, c), owner) \<Rightarrow>
     text_of owner ''resource'' = Inr r \<and> text_of owner ''transition'' = Inr t \<and>
     ((c = None) = (rget owner ''observed_call_id'' = JNull)) \<and> ((r = ''RESIDUAL_MERGE_CALL'') = (c \<noteq> None)))"

definition events_wf :: "(owner_key, Record) dict \<Rightarrow> bool" where
  "events_wf events \<longleftrightarrow> (\<forall>event \<in> set events. event_wf event)"

lemma owner_event_adds:
  assumes "owner_event indexed results parent operation phase events p stripe work pj owner = Inr pj'"
  shows "pj_le pj pj'"
    and "text_of owner ''resource'' = Inr r \<Longrightarrow> text_of owner ''transition'' = Inr t \<Longrightarrow> rget owner ''observed_call_id'' = JNull \<Longrightarrow>
      owner_id p stripe r t None \<in> node_ids pj' \<and>
      ((r, t) \<in> set COMPLETION_EVENTS \<longrightarrow> (owner_id p stripe r t None, npu_id work) \<in> pj_edges pj')"
proof -
  from assms obtain resource transition observed works calls tail where
    o: "text_of owner ''resource'' = Inr resource" "text_of owner ''transition'' = Inr transition"
      "(if rget owner ''observed_call_id'' = JNull then Inr None else bnd (integer owner ''observed_call_id'') (\<lambda>c. Inr (Some c))) = Inr observed"
      "if (resource, transition) \<in> set COMPLETION_EVENTS then work \<in> set works else works = []"
    and pj': "(add_edges (map (\<lambda>w. (owner_id p stripe resource transition observed, npu_id w)) works @
            map (\<lambda>c. (owner_id p stripe resource transition observed, call_node c ''CONTINUATION'')) calls @ tail) pj)
        \<lparr>pj_nodes := pj_nodes (add_edges (map (\<lambda>w. (owner_id p stripe resource transition observed, npu_id w)) works @
            map (\<lambda>c. (owner_id p stripe resource transition observed, call_node c ''CONTINUATION'')) calls @ tail) pj) @ [\<lparr>nd_identity = owner_id p stripe resource transition observed, nd_kind = BARRIER,
           nd_operation = operation, nd_phase = phase, nd_order = 0, nd_dependencies = [], nd_service = None, nd_resources = []\<rparr>]\<rparr> = pj'"
    unfolding owner_event_def bnd_eq_Inr ensure_eq_Inr Let_def sum.inject
    by (elim exE conjE) (rule that)
  show "pj_le pj pj'" unfolding pj' [symmetric] pj_le_def node_ids_def by auto
  assume "text_of owner ''resource'' = Inr r" "text_of owner ''transition'' = Inr t" "rget owner ''observed_call_id'' = JNull"
  with o have "resource = r" "transition = t" "observed = None" by simp_all
  then show "owner_id p stripe r t None \<in> node_ids pj' \<and>
      ((r, t) \<in> set COMPLETION_EVENTS \<longrightarrow> (owner_id p stripe r t None, npu_id work) \<in> pj_edges pj')"
    using o(4) unfolding pj' [symmetric] node_ids_def by auto
qed

lemma owner_events_all:
  assumes "foldm (owner_event indexed results parent operation phase events p stripe work) pj (map snd group0) = Inr pj'"
    and "events_wf group0" and "((r, t, None), owner) \<in> set group0"
  shows "owner_id p stripe r t None \<in> node_ids pj' \<and>
      ((r, t) \<in> set COMPLETION_EVENTS \<longrightarrow> (owner_id p stripe r t None, npu_id work) \<in> pj_edges pj')"
proof -
  from assms(3) obtain before after where g: "group0 = before @ ((r, t, None), owner) # after" by (auto simp: in_set_conv_decomp)
  let ?f = "owner_event indexed results parent operation phase events p stripe work"
  from assms(1) obtain pj1 pj2 where f: "?f pj1 owner = Inr pj2" "foldm ?f pj2 (map snd after) = Inr pj'"
    unfolding g by (auto simp: foldm_append bnd_eq_Inr)
  have le: "pj_le pj2 pj'" by (rule foldm_le [OF f(2)]) (rule owner_event_adds(1))
  have "text_of owner ''resource'' = Inr r" "text_of owner ''transition'' = Inr t" "rget owner ''observed_call_id'' = JNull"
    using bspec [OF assms(2) [unfolded events_wf_def] assms(3)] by (simp_all add: event_wf_def)
  from owner_event_adds(2) [OF f(1) this] le show ?thesis by (auto simp: pj_le_def)
qed

lemma update_member: "x \<in> set (AList.update k v d) \<Longrightarrow> x = (k, v) \<or> x \<in> set d"
  by (induction d) (auto split: if_splits)

definition owners_wf :: "PipelineContract \<Rightarrow> bool" where
  "owners_wf pc \<longleftrightarrow> (\<forall>(k, events) \<in> set (pc_owners pc). events_wf events)"

lemma owners_wf_group: "owners_wf pc \<Longrightarrow> events_wf (stripe_group pc p s)"
  by (auto simp: owners_wf_def stripe_group_def events_wf_def [of "[]"] split: option.splits dest: map_of_SomeD)

lemma parse_owner_wf:
  assumes "parse_owner st raw = Inr st'" and "owners_wf (fst st)"
  shows "owners_wf (fst st')"
proof -
  obtain pc sequences where st: "st = (pc, sequences)" by (cases st)
  from assms(1) obtain owner parent_id stripe resource transition call s' where
    o: "text_of owner ''resource'' = Inr resource" "text_of owner ''transition'' = Inr transition"
      "(if rget owner ''observed_call_id'' = JNull then Inr None else bnd (integer owner ''observed_call_id'') (\<lambda>c. Inr (Some c))) = Inr call"
      "(resource = ''RESIDUAL_MERGE_CALL'') = (call \<noteq> None)"
    and st': "(pc\<lparr>pc_owners := AList.update (parent_id, stripe) (AList.update (resource, transition, call) owner
        (case map_of (pc_owners pc) (parent_id, stripe) of None \<Rightarrow> [] | Some g \<Rightarrow> g)) (pc_owners pc)\<rparr>, s') = st'"
    unfolding parse_owner_def st prod.case bnd_eq_Inr ensure_eq_Inr ensurer_eq_Inr Let_def sum.inject
    by (elim exE conjE) (rule that)
  let ?old = "case map_of (pc_owners pc) (parent_id, stripe) of None \<Rightarrow> [] | Some g \<Rightarrow> g"
  have old: "events_wf ?old" using assms(2) by (auto simp: st owners_wf_def events_wf_def [of "[]"] split: option.splits dest: map_of_SomeD)
  have "event_wf ((resource, transition, call), owner)"
    using o by (auto simp: event_wf_def bnd_eq_Inr split: if_splits)
  then have new: "events_wf (AList.update (resource, transition, call) owner ?old)"
    using old unfolding events_wf_def by (blast dest: update_member)
  show ?thesis using assms(2) new unfolding st' [symmetric] st owners_wf_def by (auto dest!: update_member)
qed

lemma parse_pipeline_owners_wf:
  assumes "parse_pipeline contract results = Inr pc"
  shows "owners_wf pc"
proof -
  from assms obtain parents stripes pc1 owners sequences where
    s: "foldm (parse_residual results) \<lparr>pc_parents = parents, pc_stripes = stripes, pc_residual = [], pc_owners = []\<rparr> parents = Inr pc1"
      "foldm parse_owner (pc1, []) owners = Inr (pc, sequences)"
    unfolding parse_pipeline_def bnd_eq_Inr ensure_eq_Inr sum.inject split_paired_Ex prod.case by metis
  have "pc_owners pc1 = []"
  proof (rule foldm_invariant [OF s(1)])
    fix st x st' assume "pc_owners st = []" "parse_residual results st x = Inr st'"
    moreover obtain p parent where "x = (p, parent)" by (cases x)
    ultimately show "pc_owners st' = []" unfolding parse_residual_def Let_def by (auto simp: bnd_eq_Inr ensure_eq_Inr ensurer_eq_Inr)
  qed simp
  then have "owners_wf pc1" by (simp add: owners_wf_def)
  then have "owners_wf (fst (pc, sequences))"
    by - (rule foldm_invariant [OF s(2)], simp, rule parse_owner_wf)
  then show ?thesis by simp
qed

section \<open>Stripes and parents\<close>

definition walk_ok :: "int \<Rightarrow> Record list \<Rightarrow> nat \<Rightarrow> walk \<Rightarrow> bool" where
  "walk_ok p rows s wk \<longleftrightarrow> wk_dequeue wk = (if s = 0 then None else Some (event_of p (s - 1) ''FRONTEND_QUEUE'' ''DEQUEUE'')) \<and>
     (\<forall>slot. map_of (wk_slots wk) slot = map_option (\<lambda>s'. event_of p s' ''EXSIA_WORKSPACE'' ''RELEASE'') (last_holder rows slot s))"

lemma required_event:
  assumes "events_wf events" and "group_checks events = Inr u" and "(r, t) \<in> set REQUIRED_EVENTS"
  shows "\<exists>owner. ((r, t, None), owner) \<in> set events"
proof -
  from assms(2) have "set REQUIRED_EVENTS \<subseteq> set (group_present events)" by (simp add: group_checks_def ensure_eq_Inr)
  with assms(3) obtain c owner where m: "((r, t, c), owner) \<in> set events" by (fastforce simp: group_present_def)
  moreover have "c = None" using m assms(1,3) by (fastforce simp: events_wf_def event_wf_def REQUIRED_EVENTS_def)
  ultimately show ?thesis by blast
qed

lemma stripe_edges_order:
  assumes "walk_ok p rows s wk"
  shows "set (stripe_order p fence rows s work call slot) \<subseteq> set (stripe_edges wk p (int s) slot) \<union>
     {(call_node call ''PREPARE'', event_of p s ''FRONTEND_QUEUE'' ''DEQUEUE''), (npu_id work, call_node call ''PUBLISH''),
      (event_of p s ''CPU_FUNCTIONAL_STREAM'' ''ACCEPTED'', call_node call ''PUBLISH''),
      (npu_id work, event_of p s ''CPU_FUNCTIONAL_STREAM'' ''ACCEPTED''),
      (event_of p s ''CPU_FUNCTIONAL_STREAM'' ''COMPLETED'', event_of p s ''CPU_FUNCTIONAL_STREAM'' ''ACCEPTED''),
      (event_of p s ''CPU_FUNCTIONAL_STREAM'' ''COMPLETED'', npu_id work),
      (event_of p s ''FRONTEND_OUTSTANDING'' ''RELEASE'', npu_id work), (fence, event_of p s ''FRONTEND_OUTSTANDING'' ''RELEASE'')}"
  (is "_ \<subseteq> _ \<union> ?rest")
proof -
  have h: "map_of (wk_slots wk) slot = map_option (\<lambda>s'. event_of p s' ''EXSIA_WORKSPACE'' ''RELEASE'') (last_holder rows slot s)"
    and d: "wk_dequeue wk = (if s = 0 then None else Some (event_of p (s - 1) ''FRONTEND_QUEUE'' ''DEQUEUE''))"
    using assms by (simp_all add: walk_ok_def)
  have two: "owner_id p (int s - 2) r t None = event_of p (s - 2) r t" if "s \<ge> 2" for r t
    using that by (simp add: event_of_def of_nat_diff)
  have l: "(int s \<ge> 2) = (s \<ge> 2)" by simp
  show ?thesis unfolding stripe_order_def stripe_edges_def Let_def event_of_def [symmetric] h d l
    by (cases "last_holder rows slot s"; cases "s \<ge> 2"; cases "s = 0") (simp_all add: two)
qed

lemma project_stripe_step:
  assumes "project_stripe E pc indexed results p parent fence (wk, pj) (s, rows ! s) = Inr (wk', pj')"
    and "owners_wf pc" and "walk_ok p rows s wk"
  shows "pj_le pj pj'" and "walk_ok p rows (Suc s) wk'" and "stripe_ordered p fence rows pj' s"
proof -
  from assms(1) obtain work call operation phase u slot released pj3 where
    r: "integer (rows ! s) ''work_id'' = Inr work" "integer (rows ! s) ''call_id'' = Inr call" "integer (rows ! s) ''host_slot'' = Inr slot"
      "group_checks (stripe_group pc p s) = Inr u"
      "foldm (owner_event indexed results parent operation phase (stripe_group pc p s) p (int s) work) (publication_edges p (int s) work call (add_edges (stripe_edges wk p (int s) slot) pj))
         (map snd (stripe_group pc p s)) = Inr pj3"
    and wk': "wk' = \<lparr>wk_slots = AList.update slot (owner_id p (int s) ''EXSIA_WORKSPACE'' ''RELEASE'' None) (wk_slots wk),
         wk_dequeue = Some (owner_id p (int s) ''FRONTEND_QUEUE'' ''DEQUEUE'' None), wk_released = wk_released wk @ released\<rparr>"
    and pj': "pj' = add_edge pj3 (fence, owner_id p (int s) ''FRONTEND_OUTSTANDING'' ''RELEASE'' None)"
    unfolding project_stripe_def prod.case Let_def fst_conv snd_conv bnd_eq_Inr ensure_eq_Inr sum.inject split_paired_Ex prod.inject
    by (elim exE conjE) (rule that, (assumption | rule sym, assumption)+)
  note wk' = wk' [folded event_of_def] and pj' = pj' [folded event_of_def]
  let ?pj0 = "publication_edges p (int s) work call (add_edges (stripe_edges wk p (int s) slot) pj)"
  note g = owners_wf_group [OF assms(2), of p s]
  have le0: "pj_le pj ?pj0" by (auto simp: pj_le_def publication_edges_def Let_def node_ids_def)
  have le3: "pj_le ?pj0 pj3" by (rule foldm_le [OF r(5)]) (rule owner_event_adds(1))
  have le4: "pj_le pj3 pj'" by (auto simp: pj' pj_le_def node_ids_def)
  show "pj_le pj pj'" using le0 le3 le4 pj_le_trans by blast
  show "walk_ok p rows (Suc s) wk'" using assms(3) r(3) by (simp add: walk_ok_def wk' last_holder_Suc)
  have ev: "event_of p s r t \<in> node_ids pj3 \<and> ((r, t) \<in> set COMPLETION_EVENTS \<longrightarrow> (event_of p s r t, npu_id work) \<in> pj_edges pj3)"
    if "(r, t) \<in> set REQUIRED_EVENTS" for r t
    using required_event [OF g r(4) that] owner_events_all [OF r(5) g] unfolding event_of_def by blast
  have nodes: "\<forall>(r, t) \<in> set REQUIRED_EVENTS. event_of p s r t \<in> node_ids pj'" using ev le4 by (auto simp: pj_le_def)
  have ended: "(event_of p s ''CPU_FUNCTIONAL_STREAM'' ''COMPLETED'', npu_id work) \<in> pj_edges pj3"
    "(event_of p s ''FRONTEND_OUTSTANDING'' ''RELEASE'', npu_id work) \<in> pj_edges pj3"
    using ev [of "''CPU_FUNCTIONAL_STREAM''" "''COMPLETED''"] ev [of "''FRONTEND_OUTSTANDING''" "''RELEASE''"]
    by (simp_all add: REQUIRED_EVENTS_def COMPLETION_EVENTS_def)
  have "pj_edges ?pj0 \<subseteq> pj_edges pj3" using le3 by (simp add: pj_le_def)
  moreover have "pj_edges ?pj0 = pj_edges pj \<union> set (stripe_edges wk p (int s) slot) \<union>
     {(call_node call ''PREPARE'', event_of p s ''FRONTEND_QUEUE'' ''DEQUEUE''), (npu_id work, call_node call ''PUBLISH''),
      (event_of p s ''CPU_FUNCTIONAL_STREAM'' ''ACCEPTED'', call_node call ''PUBLISH''),
      (npu_id work, event_of p s ''CPU_FUNCTIONAL_STREAM'' ''ACCEPTED''),
      (event_of p s ''CPU_FUNCTIONAL_STREAM'' ''COMPLETED'', event_of p s ''CPU_FUNCTIONAL_STREAM'' ''ACCEPTED'')}"
    by (auto simp: publication_edges_def Let_def event_of_def)
  moreover note ended
  ultimately have "set (stripe_order p fence rows s work call slot) \<subseteq> pj_edges pj'"
    using stripe_edges_order [OF assms(3), of fence work call slot] by (auto simp: pj')
  then show "stripe_ordered p fence rows pj' s" using r(1-3) nodes by (auto simp: stripe_ordered_def)
qed

lemma project_parent_ordered:
  assumes "project_parent E pc indexed results pj (p, parent) = Inr pj'" and "owners_wf pc"
    and "map_of (pc_stripes pc) p = Some rows"
  shows "pj_le pj pj'" and "\<exists>fence. fence_node parent = Inr fence \<and> (\<forall>s < length rows. stripe_ordered p fence rows pj' s)"
proof -
  from assms(1,3) obtain fence wk pj1 works where
    f: "fence_node parent = Inr fence"
    and r: "foldm (project_stripe E pc indexed results p parent fence) (\<lparr>wk_slots = [], wk_dequeue = None, wk_released = []\<rparr>, pj)
       (zip [0..<length rows] rows) = Inr (wk, pj1)"
    and pj': "pj' = add_edges (map (\<lambda>w. (fence, npu_id w)) works) pj1"
    unfolding project_parent_def prod.case Let_def bnd_eq_Inr ensure_eq_Inr sum.inject split_paired_Ex by auto
  have "(\<lambda>i st. walk_ok p rows i (fst st) \<and> pj_le pj (snd st) \<and> (\<forall>s < i. stripe_ordered p fence rows (snd st) s)) (length rows) (wk, pj1)"
  proof (rule foldm_indexed [OF r])
    show "walk_ok p rows 0 (fst (\<lparr>wk_slots = [], wk_dequeue = None, wk_released = []\<rparr>, pj)) \<and>
        pj_le pj (snd (\<lparr>wk_slots = [], wk_dequeue = None, wk_released = []\<rparr>, pj)) \<and>
        (\<forall>s < 0. stripe_ordered p fence rows (snd (\<lparr>wk_slots = [], wk_dequeue = None, wk_released = []\<rparr>, pj)) s)"
      by (simp add: walk_ok_def last_holder_def)
  next
    fix i st st' assume st: "walk_ok p rows i (fst st) \<and> pj_le pj (snd st) \<and> (\<forall>s < i. stripe_ordered p fence rows (snd st) s)"
      and step: "project_stripe E pc indexed results p parent fence st (i, rows ! i) = Inr st'"
    note n = project_stripe_step [of E pc indexed results p parent fence "fst st" "snd st" i rows "fst st'" "snd st'"]
    from st step n assms(2) show "walk_ok p rows (Suc i) (fst st') \<and> pj_le pj (snd st') \<and> (\<forall>s < Suc i. stripe_ordered p fence rows (snd st') s)"
      by (auto simp: less_Suc_eq intro: pj_le_trans stripe_ordered_mono)
  qed
  moreover have "pj_le pj1 pj'" by (auto simp: pj' pj_le_def node_ids_def)
  ultimately show "pj_le pj pj'" "\<exists>fence. fence_node parent = Inr fence \<and> (\<forall>s < length rows. stripe_ordered p fence rows pj' s)"
    using f by (auto intro: pj_le_trans stripe_ordered_mono)
qed

section \<open>The finished projection\<close>

text \<open>A target waits for a source: in the dependencies of its node when it is an owner event, and otherwise in the edges
  the adapter adds to the node of the dataset.\<close>

definition pp_waits :: "PipelineProjection \<Rightarrow> string \<Rightarrow> string \<Rightarrow> bool" where
  "pp_waits pp t u \<longleftrightarrow>
     (if t \<in> nd_identity ` set (pp_nodes pp)
      then \<exists>node \<in> set (pp_nodes pp). nd_identity node = t \<and> result_of u \<in> set (nd_dependencies node)
      else \<exists>es. map_of (pp_additions pp) t = Some es \<and> result_of u \<in> set es)"

lemma set_from_keys [simp]: "set (from_keys xs) = set xs"
proof -
  have "set (foldl (\<lambda>seen x. if x \<in> set seen then seen else seen @ [x]) acc xs) = set acc \<union> set xs" for acc
    by (induction xs arbitrary: acc) auto
  from this [of "[]"] show ?thesis by (simp add: from_keys_def)
qed

lemma complete_nodes:
  assumes "foldl complete_node (ns, additions) nodes = (ns', additions')"
  shows "set ns \<subseteq> set ns'" and "nd_identity ` set ns' = nd_identity ` set ns \<union> nd_identity ` set nodes"
    and "map_of additions t = Some es \<Longrightarrow> e \<in> set es \<Longrightarrow>
      (t \<in> nd_identity ` set nodes \<longrightarrow> (\<exists>node \<in> set ns'. nd_identity node = t \<and> e \<in> set (nd_dependencies node))) \<and>
      (t \<notin> nd_identity ` set nodes \<longrightarrow> map_of additions' t = Some es)"
  using assms
proof (induction nodes arbitrary: ns additions)
  case Nil
  { case 1 then show ?case by simp next case 2 then show ?case by simp next case 3 then show ?case by simp }
next
  case (Cons n nodes)
  define done_with where "done_with = (\<lambda>additions. n\<lparr>nd_dependencies := from_keys (result_of (nd_operation n @ '':enter'') #
     (case map_of additions (nd_identity n) of None \<Rightarrow> [] | Some es \<Rightarrow> es))\<rparr>)"
  have id: "nd_identity (done_with a) = nd_identity n" for a by (simp add: done_with_def)
  have step: "foldl complete_node (ns @ [done_with additions], AList.delete (nd_identity n) additions) nodes = (ns', additions')"
    if "foldl complete_node (ns, additions) (n # nodes) = (ns', additions')" for ns additions
    using that by (simp add: complete_node_def done_with_def)
  { case 1 from Cons.IH(1) [OF step [OF 1]] show ?case by simp
  next
    case 2 from Cons.IH(2) [OF step [OF 2]] show ?case by (simp add: id)
  next
    case 3
    note s = step [OF 3(3)]
    show ?case
    proof (cases "t = nd_identity n")
      case True
      have "done_with additions \<in> set ns'" using Cons.IH(1) [OF s] by simp
      moreover have "e \<in> set (nd_dependencies (done_with additions))" using 3 True by (simp add: done_with_def)
      ultimately show ?thesis using True id by auto
    next
      case False
      with Cons.IH(3) [OF _ _ s] 3(1,2) show ?thesis by auto
    qed }
qed

lemma pipeline_rows:
  assumes "parse_pipeline contract results = Inr pc" and "(p, parent) \<in> set (pc_parents pc)"
  shows "\<exists>rows. map_of (pc_stripes pc) p = Some rows"
  using parse_pipeline_parents_covered [OF assms] by (auto simp: parent_covered_def)

text \<open>C12. An accepted pipeline is projected to an order on every stripe: the events that produce and seal it, the capacity, the
  queue, its preparation, publication and acceptance, its NPU work, its release and the fence wait for one another in this
  order; the capacity of a stripe waits for the release of the stripe two before it, so at most two stripes are outstanding,
  the queue is left in stripe order, and a workspace slot is acquired only after its last holder released it. Every required
  event of the stripe is a barrier of the projection.\<close>

theorem pipeline_orders:
  assumes "project_pipeline E contract indexed results = Inr pp" and "parse_pipeline contract results = Inr pc"
    and "(p, parent) \<in> set (pc_parents pc)" and "map_of (pc_stripes pc) p = Some rows" and "s < length rows"
  shows "\<exists>fence work call slot. fence_node parent = Inr fence \<and> integer (rows ! s) ''work_id'' = Inr work \<and>
     integer (rows ! s) ''call_id'' = Inr call \<and> integer (rows ! s) ''host_slot'' = Inr slot \<and>
     (\<forall>(t, u) \<in> set (stripe_order p fence rows s work call slot). pp_waits pp t u) \<and>
     (\<forall>(r, t) \<in> set REQUIRED_EVENTS. \<exists>node \<in> set (pp_nodes pp). nd_identity node = event_of p s r t)"
proof -
  from assms(1,2) obtain pj where
    f: "foldm (project_parent E pc indexed results) \<lparr>pj_nodes = [], pj_additions = [], pj_removals = []\<rparr> (pc_parents pc) = Inr pj"
    and r: "(case foldl complete_node ([], pj_additions pj) (pj_nodes pj) of (nodes, additions) \<Rightarrow>
       Inr \<lparr>pp_nodes = nodes, pp_additions = map (\<lambda>(k, es). (k, from_keys es)) additions, pp_removals = pj_removals pj\<rparr>) = (Inr pp :: PipelineProjection res)"
    unfolding project_pipeline_def bnd_eq_Inr by force
  obtain nodes additions where c: "foldl complete_node ([], pj_additions pj) (pj_nodes pj) = (nodes, additions)" by fastforce
  with r have pp: "pp = \<lparr>pp_nodes = nodes, pp_additions = map (\<lambda>(k, es). (k, from_keys es)) additions, pp_removals = pj_removals pj\<rparr>"
    by simp
  have wf: "owners_wf pc" by (rule parse_pipeline_owners_wf [OF assms(2)])
  note parent = project_parent_ordered [OF _ wf]
  obtain before after where ps: "pc_parents pc = before @ (p, parent) # after" using assms(3) by (auto simp: in_set_conv_decomp)
  from f obtain pj1 pj2 where q: "project_parent E pc indexed results pj1 (p, parent) = Inr pj2"
    "foldm (project_parent E pc indexed results) pj2 after = Inr pj" unfolding ps by (auto simp: foldm_append bnd_eq_Inr)
  have "pj_le pj2 pj"
  proof (rule foldm_le [OF q(2)])
    fix st x st' assume x: "x \<in> set after" and st: "project_parent E pc indexed results st x = Inr st'"
    obtain q parent' where x': "x = (q, parent')" by (cases x)
    with x ps have "(q, parent') \<in> set (pc_parents pc)" by simp
    with pipeline_rows [OF assms(2)] obtain rows' where "map_of (pc_stripes pc) q = Some rows'" by blast
    with parent(1) st x' show "pj_le st st'" by blast
  qed
  with parent(2) [OF q(1) assms(4)] obtain fence where fence: "fence_node parent = Inr fence" "stripe_ordered p fence rows pj s"
    using assms(5) stripe_ordered_mono by blast
  have w: "pp_waits pp t u" if "(t, u) \<in> pj_edges pj" for t u
  proof -
    from that obtain es where es: "map_of (pj_additions pj) t = Some es" "result_of u \<in> set es" by (auto simp: pj_edges_def)
    have "map_of (map (\<lambda>(k, es). (k, from_keys es)) additions) t = map_option from_keys (map_of additions t)"
      by (induction additions) auto
    with complete_nodes(2) [OF c] complete_nodes(3) [OF c es] es(2) show ?thesis by (auto simp: pp_waits_def pp)
  qed
  have n: "\<exists>node \<in> set (pp_nodes pp). nd_identity node = i" if "i \<in> node_ids pj" for i
  proof -
    have "i \<in> nd_identity ` set nodes" using complete_nodes(2) [OF c] that by (simp add: node_ids_def)
    then show ?thesis by (auto simp: pp)
  qed
  from fence obtain work call slot where o: "integer (rows ! s) ''work_id'' = Inr work" "integer (rows ! s) ''call_id'' = Inr call"
    "integer (rows ! s) ''host_slot'' = Inr slot" "set (stripe_order p fence rows s work call slot) \<subseteq> pj_edges pj"
    "\<forall>(r, t) \<in> set REQUIRED_EVENTS. event_of p s r t \<in> node_ids pj" unfolding stripe_ordered_def by blast
  have "\<forall>(t, u) \<in> set (stripe_order p fence rows s work call slot). pp_waits pp t u" using o(4) w by blast
  moreover have "\<forall>(r, t) \<in> set REQUIRED_EVENTS. \<exists>node \<in> set (pp_nodes pp). nd_identity node = event_of p s r t"
  proof (intro ballI)
    fix x assume "x \<in> set REQUIRED_EVENTS"
    with o(5) n show "case x of (r, t) \<Rightarrow> \<exists>node \<in> set (pp_nodes pp). nd_identity node = event_of p s r t" by (cases x) blast
  qed
  ultimately show ?thesis using fence(1) o(1-3) by (intro exI conjI)
qed

end
