(* ===== verification/Pipeline_Example.thy ===== *)
theory Pipeline_Example
  imports Pipeline_Order Hardware_Contract
begin

text \<open>A parent of three stripes that share two workspace slots, with its thirty owner events and the dataset rows of its calls.\<close>

definition po_parent :: Record where
  "po_parent = [(''phase_id'', JInt 0), (''operation_id'', JInt 5), (''parent_id'', JInt 3),
     (''required_work_ids'', JArr [JInt 10, JInt 11, JInt 12]), (''fence_call_id'', JInt 9),
     (''fence_required_work_ids'', JArr [JInt 10, JInt 11, JInt 12]), (''production_geometry_version'', JInt 1),
     (''scope'', JStr ''STREAM''), (''activation_bits'', JInt 8), (''weight_bits'', JInt 8), (''dim'', JInt 4), (''parent_m'', JInt 6),
     (''n'', JInt 4), (''k'', JInt 4), (''tile_i_count'', JInt 2), (''tile_j_count'', JInt 1), (''tile_k_count'', JInt 1),
     (''residual_bindings'', JArr [])]"

definition po_stripe :: "nat \<Rightarrow> Record" where
  "po_stripe s = [(''scope'', JStr ''stripe''), (''parent_id'', JInt 3), (''work_id'', JInt (10 + int s)), (''phase_id'', JInt 0),
     (''operation_id'', JInt 5), (''parent_m'', JInt 6), (''n'', JInt 4), (''k'', JInt 4), (''dim'', JInt 4), (''activation_bits'', JInt 8),
     (''weight_bits'', JInt 8), (''production_geometry_version'', JInt 1), (''tile_j_count'', JInt 1), (''tile_k_count'', JInt 1),
     (''m'', JInt 2), (''row_count'', JInt 2), (''tile_i_count'', JInt 1), (''call_id'', JInt (1 + int s)), (''stripe_id'', JInt (int s)),
     (''row_begin'', JInt (2 * int s)), (''host_slot'', JInt (int s mod 2))]"

definition po_results :: "(string, Record) dict" where
  "po_results = [(''npu:10'', po_stripe 0), (''npu:11'', po_stripe 1), (''npu:12'', po_stripe 2)]"

definition po_owner :: "nat \<Rightarrow> nat \<Rightarrow> string \<times> string \<Rightarrow> Record" where
  "po_owner sequence s event = [(''producer_sequence'', JInt (int sequence)), (''phase_id'', JInt 0), (''operation_id'', JInt 5),
     (''parent_id'', JInt 3), (''work_id'', JInt (10 + int s)), (''producer_run_id'', JInt 1), (''stripe_id'', JInt (int s)),
     (''workspace_slot'', JInt (int s mod 2)), (''target_npu_slot'', JNull), (''row_begin'', JInt (2 * int s)),
     (''row_end'', JInt (2 * int s + 2)), (''resource'', JStr (fst event)), (''transition'', JStr (snd event)),
     (''required_work_ids'', JArr (if event \<in> set COMPLETION_EVENTS then [JInt (10 + int s)] else [])), (''required_call_ids'', JArr []),
     (''observed_call_id'', JNull), (''rmd_packet'', JBool False), (''direct_residual'', JBool False), (''source_owner'', JStr ''IM2P.sim''),
     (''source_location'', JStr ''stream.cpp:1'')]"

definition po_owners :: "jval list" where
  "po_owners = concat (map (\<lambda>s. map (\<lambda>(i, event). JObj (po_owner (10 * s + i) s event)) (zip [0..<10] REQUIRED_EVENTS)) [0, 1, 2])"

definition po_contract :: Record where
  "po_contract = [(''pipeline_parents'', JArr [JObj po_parent]), (''pipeline_owners'', JArr po_owners)]"

definition po_indexed :: "(string, Record) dict" where
  "po_indexed = [(''op'', [(''phase'', JInt 0)]),
     (''call:9:COMPLETE_REQUIRED'', [(''call_kind'', JStr ''FENCE''), (''operation_node_id'', JStr ''op''),
        (''dependencies'', JArr [JStr ''npu:10'', JStr ''npu:11'', JStr ''npu:12''])])] @
     concat (map (\<lambda>s. [(npu_id (10 + int s), [(''operation_node_id'', JStr ''op'')]),
        (call_node (1 + int s) ''PREPARE'', [(''operation_node_id'', JStr ''op'')]),
        (call_node (1 + int s) ''PUBLISH'', [(''call_kind'', JStr ''STRIPE''), (''operation_node_id'', JStr ''op'')])]) [0..<3])"

section \<open>Reading the owners\<close>

lemmas po_read_defs = rget_def item_def integer_def text_of_def U64_def

lemma po_owner_reads:
  assumes "s < 3" and "q < 30" and "e \<in> set REQUIRED_EVENTS"
  shows "integer (po_owner q s e) ''producer_sequence'' = Inr (int q)" "integer (po_owner q s e) ''parent_id'' = Inr 3"
    "integer (po_owner q s e) ''stripe_id'' = Inr (int s)" "integer (po_owner q s e) ''work_id'' = Inr (10 + int s)"
    "integer (po_owner q s e) ''phase_id'' = Inr 0" "integer (po_owner q s e) ''operation_id'' = Inr 5"
    "integer (po_owner q s e) ''row_begin'' = Inr (2 * int s)" "integer (po_owner q s e) ''row_end'' = Inr (2 * int s + 2)"
    "integer (po_owner q s e) ''workspace_slot'' = Inr (int s mod 2)" "integer (po_owner q s e) ''producer_run_id'' = Inr 1"
    "rget (po_owner q s e) ''target_npu_slot'' = JNull" "rget (po_owner q s e) ''observed_call_id'' = JNull"
    "rget (po_owner q s e) ''rmd_packet'' = JBool False" "rget (po_owner q s e) ''direct_residual'' = JBool False"
    "rget (po_owner q s e) ''source_owner'' = JStr ''IM2P.sim''" "text_of (po_owner q s e) ''source_location'' = Inr ''stream.cpp:1''"
    "rget (po_owner q s e) ''producer_run_id'' = JInt 1"
    "text_of (po_owner q s e) ''resource'' = Inr (fst e)" "text_of (po_owner q s e) ''transition'' = Inr (snd e)"
    "keys_are (po_owner q s e) OWNER_FIELDS"
    "required_ids (po_owner q s e) ''required_work_ids'' = Inr (if e \<in> set COMPLETION_EVENTS then [10 + int s] else [])"
    "required_ids (po_owner q s e) ''required_call_ids'' = Inr []"
  using assms
  by (simp_all add: po_owner_def po_read_defs required_ids_def array_def keys_are_def OWNER_FIELDS_def insert_commute)
    (auto simp: REQUIRED_EVENTS_def)

lemma po_stripe_reads:
  assumes "s < 3"
  shows "integer (po_stripe s) ''work_id'' = Inr (10 + int s)" "integer (po_stripe s) ''phase_id'' = Inr 0"
    "integer (po_stripe s) ''operation_id'' = Inr 5" "integer (po_stripe s) ''parent_id'' = Inr 3"
    "integer (po_stripe s) ''stripe_id'' = Inr (int s)" "integer (po_stripe s) ''row_begin'' = Inr (2 * int s)"
    "integer (po_stripe s) ''row_count'' = Inr 2" "rget (po_stripe s) ''host_slot'' = JInt (int s mod 2)"
    "integer (po_stripe s) ''host_slot'' = Inr (int s mod 2)" "integer (po_stripe s) ''call_id'' = Inr (1 + int s)"
    "integer (po_stripe s) ''m'' = Inr 2" "integer (po_stripe s) ''tile_i_count'' = Inr 1" "rget (po_stripe s) ''scope'' = JStr ''stripe''"
    "rget (po_stripe s) ''operation_id'' = JInt 5"
    "list_all (\<lambda>k. py_eq (rget (po_stripe s) k) (rget po_parent k)) GEOMETRY_KEYS"
  using assms by (simp_all add: po_stripe_def po_parent_def po_read_defs GEOMETRY_KEYS_def)

definition po_rows :: "Record list" where
  "po_rows = [po_stripe 0, po_stripe 1, po_stripe 2]"

lemma po_row: "s < 3 \<Longrightarrow> po_rows ! s = po_stripe s"
  by (cases s; cases "s - 1"; cases "s - 2") (simp_all add: po_rows_def numeral_2_eq_2 less_Suc_eq numeral_3_eq_3)

lemma po_owner_step:
  assumes "s < 3" and "q < 30" and "e \<in> set REQUIRED_EVENTS" and "map_of (pc_stripes pc) 3 = Some po_rows" and "int q \<notin> set seqs"
    and "\<not> has_key (case map_of (pc_owners pc) (3, int s) of None \<Rightarrow> [] | Some g \<Rightarrow> g) (fst e, snd e, None)"
  shows "parse_owner (pc, seqs) (JObj (po_owner q s e)) =
    Inr (pc\<lparr>pc_owners := AList.update (3, int s) (AList.update (fst e, snd e, None) (po_owner q s e)
           (case map_of (pc_owners pc) (3, int s) of None \<Rightarrow> [] | Some g \<Rightarrow> g)) (pc_owners pc)\<rparr>, List.insert (int q) seqs)"
proof -
  note reads = po_owner_reads [OF assms(1-3)]
  have e: "(fst e, snd e) \<in> set (REQUIRED_EVENTS @ OPTIONAL_EVENTS)" "fst e \<noteq> ''RESIDUAL_MERGE_CALL''"
    using assms(3) by (auto simp: REQUIRED_EVENTS_def)
  have len: "length po_rows = 3" by (simp add: po_rows_def)
  have colon: "CHR '':'' \<in> set ''stream.cpp:1''" by simp
  have slot: "py_eq (JInt (int s mod 2)) (JInt (int s mod 2))" by simp
  show ?thesis
    unfolding parse_owner_def prod.case object_value_def jval.case bnd_simps
    using assms(3) by (simp add: reads fields_of_def require_def assms(4-6) len assms(1) po_row po_stripe_reads e allr_eq_True int_is_def same_int_def owner_range_def
      py_in_def Let_def)
qed

definition lookup :: "PipelineContract \<Rightarrow> int \<times> int \<Rightarrow> (owner_key, Record) dict" where
  "lookup pc k = (case map_of (pc_owners pc) k of None \<Rightarrow> [] | Some g \<Rightarrow> g)"

definition po_entry :: "nat \<Rightarrow> nat \<times> string \<times> string \<Rightarrow> owner_key \<times> Record" where
  "po_entry s x = ((fst (snd x), snd (snd x), None), po_owner (10 * s + fst x) s (snd x))"

definition po_events :: "(nat \<times> string \<times> string) list" where
  "po_events = zip [0..<10] REQUIRED_EVENTS"

lemma update_append: "\<not> has_key d k \<Longrightarrow> AList.update k v d = d @ [(k, v)]"
  by (induction d) (auto simp: has_key_def)

lemma po_owners_fold:
  assumes "s < 3" and "map_of (pc_stripes pc) 3 = Some po_rows" and "\<forall>(i, e) \<in> set xs. i < 10 \<and> e \<in> set REQUIRED_EVENTS"
    and "distinct (map fst xs)" and "distinct (map snd xs)" and "\<forall>(i, e) \<in> set xs. int (10 * s + i) \<notin> set seqs"
    and "\<forall>(i, e) \<in> set xs. \<not> has_key (lookup pc (3, int s)) (fst e, snd e, None)" and "distinct seqs"
  shows "\<exists>ow seqs'. foldm parse_owner (pc, seqs) (map (\<lambda>(i, e). JObj (po_owner (10 * s + i) s e)) xs) = Inr (pc\<lparr>pc_owners := ow\<rparr>, seqs') \<and>
     lookup (pc\<lparr>pc_owners := ow\<rparr>) = (lookup pc)((3, int s) := lookup pc (3, int s) @ map (po_entry s) xs) \<and>
     distinct seqs' \<and> set seqs' = set seqs \<union> (\<lambda>x. int (10 * s + fst x)) ` set xs"
  using assms
proof (induction xs arbitrary: pc seqs)
  case Nil
  show ?case by (rule exI [of _ "pc_owners pc"]) (simp add: Nil.prems)
next
  case (Cons x xs)
  obtain i e where x: "x = (i, e)" by (cases x)
  define pc1 where "pc1 = pc\<lparr>pc_owners := AList.update (3, int s) (lookup pc (3, int s) @ [po_entry s (i, e)]) (pc_owners pc)\<rparr>"
  define q where "q = 10 * s + i"
  have q: "q < 30" "e \<in> set REQUIRED_EVENTS" "int q \<notin> set seqs" "\<not> has_key (lookup pc (3, int s)) (fst e, snd e, None)"
    using Cons.prems(1,3,6,7) by (auto simp: x q_def)
  have step: "parse_owner (pc, seqs) (JObj (po_owner q s e)) = Inr (pc1, int q # seqs)"
    using po_owner_step [OF Cons.prems(1) q(1,2) Cons.prems(2) q(3) q(4) [unfolded lookup_def]] q(3)
    by (simp add: pc1_def lookup_def [symmetric] update_append [OF q(4)] po_entry_def q_def)
  have l1: "lookup pc1 = (lookup pc)((3, int s) := lookup pc (3, int s) @ [po_entry s (i, e)])"
    by (rule ext) (simp add: pc1_def lookup_def)
  have "\<exists>ow seqs'. foldm parse_owner (pc1, int q # seqs) (map (\<lambda>(i, e). JObj (po_owner (10 * s + i) s e)) xs) = Inr (pc1\<lparr>pc_owners := ow\<rparr>, seqs') \<and>
     lookup (pc1\<lparr>pc_owners := ow\<rparr>) = (lookup pc1)((3, int s) := lookup pc1 (3, int s) @ map (po_entry s) xs) \<and>
     distinct seqs' \<and> set seqs' = set (int q # seqs) \<union> (\<lambda>x. int (10 * s + fst x)) ` set xs"
  proof (rule Cons.IH)
    show "map_of (pc_stripes pc1) 3 = Some po_rows" using Cons.prems(2) by (simp add: pc1_def)
    show "\<forall>(j, e') \<in> set xs. int (10 * s + j) \<notin> set (int q # seqs)" using Cons.prems(4,6) by (force simp: x q_def)
    show "\<forall>(j, e') \<in> set xs. \<not> has_key (lookup pc1 (3, int s)) (fst e', snd e', None)"
      using Cons.prems(5,7) by (auto simp: l1 has_key_def po_entry_def x prod_eq_iff image_iff)
    show "distinct (int q # seqs)" using q(3) Cons.prems(8) by simp
  qed (use Cons.prems in auto)
  then obtain ow seqs' where "foldm parse_owner (pc1, int q # seqs) (map (\<lambda>(i, e). JObj (po_owner (10 * s + i) s e)) xs) = Inr (pc1\<lparr>pc_owners := ow\<rparr>, seqs')"
    "lookup (pc1\<lparr>pc_owners := ow\<rparr>) = (lookup pc1)((3, int s) := lookup pc1 (3, int s) @ map (po_entry s) xs)"
    "distinct seqs'" "set seqs' = set (int q # seqs) \<union> (\<lambda>x. int (10 * s + fst x)) ` set xs" by blast
  moreover have "pc1\<lparr>pc_owners := ow\<rparr> = pc\<lparr>pc_owners := ow\<rparr>" by (simp add: pc1_def)
  ultimately show ?case using step
    by (intro exI [of _ ow] exI [of _ seqs']) (auto simp: x l1 q_def)
qed

section \<open>The contract\<close>

definition po_start :: PipelineContract where
  "po_start = \<lparr>pc_parents = [(3, po_parent)], pc_stripes = [(3, po_rows)], pc_residual = [(3, [])], pc_owners = []\<rparr>"

lemma po_parents: "foldm parse_parent [] [JObj po_parent] = Inr [(3, po_parent)]"
  by code_simp

lemma po_stripes: "foldm (parse_stripe [(3, po_parent)]) [] po_results = Inr [(3, po_rows)]"
  by code_simp

lemma po_residual:
  "foldm (parse_residual po_results) \<lparr>pc_parents = [(3, po_parent)], pc_stripes = [(3, po_rows)], pc_residual = [], pc_owners = []\<rparr>
     [(3, po_parent)] = Inr po_start"
  by code_simp

lemma po_events_ok:
  "\<forall>(i, e) \<in> set po_events. i < 10 \<and> e \<in> set REQUIRED_EVENTS" "distinct (map fst po_events)" "distinct (map snd po_events)"
  "fst ` set po_events = {..<10}" "set (map snd po_events) = set REQUIRED_EVENTS"
  by (auto simp: po_events_def REQUIRED_EVENTS_def upt_rec)

lemma po_owners_read:
  "\<exists>ow seqs. foldm parse_owner (po_start, []) po_owners = Inr (po_start\<lparr>pc_owners := ow\<rparr>, seqs) \<and>
     (\<forall>s < 3. lookup (po_start\<lparr>pc_owners := ow\<rparr>) (3, int s) = map (po_entry s) po_events) \<and> set seqs = int ` {..<length seqs}"
proof -
  let ?ow = "\<lambda>s. map (\<lambda>(i, e). JObj (po_owner (10 * s + i) s e)) po_events"
  have fold: "\<exists>ow seqs'. foldm parse_owner (pc, seqs) (?ow s) = Inr (pc\<lparr>pc_owners := ow\<rparr>, seqs') \<and>
      lookup (pc\<lparr>pc_owners := ow\<rparr>) = (lookup pc)((3, int s) := map (po_entry s) po_events) \<and>
      distinct seqs' \<and> set seqs' = int ` {..<10 * Suc s}"
    if s: "s < 3" and r: "pc_stripes pc = [(3, po_rows)]" and g: "lookup pc (3, int s) = []" and q: "set seqs = int ` {..<10 * s}" "distinct seqs" for pc s seqs
  proof -
    have new: "\<forall>(i, e) \<in> set po_events. int (10 * s + i) \<notin> set seqs" using q(1) by auto
    have "(\<lambda>x. int (10 * s + fst x)) ` set po_events = int ` (\<lambda>i. 10 * s + i) ` fst ` set po_events" by (simp add: image_image)
    also have "(\<lambda>i. 10 * s + i) ` fst ` set po_events = {10 * s..<10 * Suc s}"
      unfolding po_events_ok(4) using image_add_atLeastLessThan [of "10 * s" 0 10] by (simp add: lessThan_atLeast0 add.commute)
    finally have e: "(\<lambda>x. int (10 * s + fst x)) ` set po_events = int ` {10 * s..<10 * Suc s}" .
    have "int ` {..<10 * s} \<union> int ` {10 * s..<10 * Suc s} = int ` {..<10 * Suc s}" by (auto simp flip: image_Un)
    with po_owners_fold [OF s _ po_events_ok(1-3) new _ q(2), of pc] r g e q(1) show ?thesis by (simp add: has_key_def)
  qed
  have l0: "lookup po_start k = []" for k by (simp add: lookup_def po_start_def)
  obtain ow0 q0 where f0: "foldm parse_owner (po_start, []) (?ow 0) = Inr (po_start\<lparr>pc_owners := ow0\<rparr>, q0)"
    "lookup (po_start\<lparr>pc_owners := ow0\<rparr>) = (lookup po_start)((3, int 0) := map (po_entry 0) po_events)"
    "distinct q0" "set q0 = int ` {..<10 * Suc 0}" using fold [of 0 po_start "[]"] l0 by (auto simp: po_start_def)
  obtain ow1 q1 where f1: "foldm parse_owner (po_start\<lparr>pc_owners := ow0\<rparr>, q0) (?ow 1) = Inr (po_start\<lparr>pc_owners := ow1\<rparr>, q1)"
    "lookup (po_start\<lparr>pc_owners := ow1\<rparr>) = (lookup (po_start\<lparr>pc_owners := ow0\<rparr>))((3, int 1) := map (po_entry 1) po_events)"
    "distinct q1" "set q1 = int ` {..<10 * Suc 1}"
    using fold [of 1 "po_start\<lparr>pc_owners := ow0\<rparr>" q0] l0 f0 by (auto simp: po_start_def)
  obtain ow2 q2 where f2: "foldm parse_owner (po_start\<lparr>pc_owners := ow1\<rparr>, q1) (?ow 2) = Inr (po_start\<lparr>pc_owners := ow2\<rparr>, q2)"
    "lookup (po_start\<lparr>pc_owners := ow2\<rparr>) = (lookup (po_start\<lparr>pc_owners := ow1\<rparr>))((3, int 2) := map (po_entry 2) po_events)"
    "distinct q2" "set q2 = int ` {..<10 * Suc 2}"
    using fold [of 2 "po_start\<lparr>pc_owners := ow1\<rparr>" q1] l0 f0(2) f1 by (auto simp: po_start_def)
  have all: "po_owners = ?ow 0 @ ?ow 1 @ ?ow 2" by (simp add: po_owners_def po_events_def)
  have "foldm parse_owner (po_start, []) po_owners = Inr (po_start\<lparr>pc_owners := ow2\<rparr>, q2)"
    by (simp only: all foldm_append f0(1) f1(1) f2(1) bnd_simps)
  moreover have "lookup (po_start\<lparr>pc_owners := ow2\<rparr>) (3, int s) = map (po_entry s) po_events" if "s < 3" for s
  proof -
    from that consider "s = 0" | "s = 1" | "s = 2" by linarith
    then show ?thesis using f0(2) f1(2) f2(2) by cases simp_all
  qed
  moreover have "length q2 = 30" using f2(3,4) distinct_card [of q2] by (simp add: card_image)
  ultimately show ?thesis using f2(4) by auto
qed

lemma po_parsed:
  "\<exists>pc. parse_pipeline po_contract po_results = Inr pc \<and> pc_parents pc = [(3, po_parent)] \<and> map_of (pc_stripes pc) 3 = Some po_rows \<and>
     map_of (pc_residual pc) 3 = Some [] \<and> (\<forall>s < 3. stripe_group pc 3 s = map (po_entry s) po_events)"
proof -
  obtain ow seqs where o: "foldm parse_owner (po_start, []) po_owners = Inr (po_start\<lparr>pc_owners := ow\<rparr>, seqs)"
    "\<forall>s < 3. lookup (po_start\<lparr>pc_owners := ow\<rparr>) (3, int s) = map (po_entry s) po_events" "set seqs = int ` {..<length seqs}"
    using po_owners_read by blast
  have "parse_pipeline po_contract po_results = Inr (po_start\<lparr>pc_owners := ow\<rparr>)"
    unfolding parse_pipeline_def
    by (simp add: po_contract_def item_def array_def po_parents po_stripes po_residual o del: foldm.simps)
  then show ?thesis using o(2) by (simp add: po_start_def stripe_group_def lookup_def)
qed

section \<open>The projection\<close>

abbreviation po_fence :: string where
  "po_fence \<equiv> ''call:9:COMPLETE_REQUIRED''"

lemma po_dataset_all:
  "list_all (\<lambda>s. stripe_operation ex_ext po_indexed po_fence (10 + int s) = Inr (''op'', ''0'') \<and> publication_ok po_indexed ''op'' (1 + int s) \<and>
     map_of (the (map_of po_indexed (npu_id (10 + int s)))) ''producer_operation_id'' = None \<and> work_owned po_results po_parent (10 + int s)) [0, 1, 2]"
  by code_simp

lemma po_dataset:
  assumes "s < 3"
  shows "stripe_operation ex_ext po_indexed po_fence (10 + int s) = Inr (''op'', ''0'')" "publication_ok po_indexed ''op'' (1 + int s)"
    "map_of (the (map_of po_indexed (npu_id (10 + int s)))) ''producer_operation_id'' = None" "work_owned po_results po_parent (10 + int s)"
proof -
  have "s \<in> set [0, 1, 2]" using assms by auto
  with po_dataset_all show "stripe_operation ex_ext po_indexed po_fence (10 + int s) = Inr (''op'', ''0'')" "publication_ok po_indexed ''op'' (1 + int s)"
    "map_of (the (map_of po_indexed (npu_id (10 + int s)))) ''producer_operation_id'' = None" "work_owned po_results po_parent (10 + int s)"
    unfolding list_all_iff by blast+
qed

lemma po_present: "group_present (map (po_entry s) po_events) = REQUIRED_EVENTS" "merges_of (map (po_entry s) po_events) = []"
  "has_callback (map (po_entry s) po_events) = False"
  by (simp_all add: group_present_def merges_of_def has_callback_def po_entry_def po_events_def REQUIRED_EVENTS_def upt_rec)

lemma po_event_ok:
  assumes "s < 3" and "q < 30" and "e \<in> set REQUIRED_EVENTS"
  shows "\<exists>pj'. owner_event po_indexed po_results po_parent ''op'' phase (map (po_entry s) po_events) 3 (int s) (10 + int s) pj (po_owner q s e) = Inr pj'"
proof -
  note reads = po_owner_reads [OF assms]
  have tail: "\<exists>tail. owner_tail (map (po_entry s) po_events) 3 (int s) (fst e) (snd e) None [] = Inr tail"
    using assms(3) by (auto simp: owner_tail_def REQUIRED_EVENTS_def Let_def)
  then obtain tail where "owner_tail (map (po_entry s) po_events) 3 (int s) (fst e) (snd e) None [] = Inr tail" by blast
  then show ?thesis unfolding owner_event_def by (simp add: reads po_dataset(4) [OF assms(1)] Let_def)
qed

lemma po_group_checks: "s < 3 \<Longrightarrow> group_checks (map (po_entry s) po_events) = Inr ()"
proof -
  assume s: "s < 3"
  have r: "rget owner ''producer_run_id'' = JInt 1" if o: "owner \<in> set (map snd (map (po_entry s) po_events))" for owner
  proof -
    from o obtain i e where "(i, e) \<in> set po_events" "owner = po_owner (10 * s + i) s e" by (auto simp: po_entry_def)
    with po_events_ok(1) s show ?thesis by (auto intro!: po_owner_reads(17))
  qed
  have ne: "nth_item (map snd (map (po_entry s) po_events)) 0 = Inr (po_owner (10 * s) s (''EXSIA_WORKSPACE'', ''ACQUIRE''))"
    by (simp add: nth_item_def po_events_def REQUIRED_EVENTS_def po_entry_def upt_rec)
  have f: "rget (po_owner (10 * s) s (''EXSIA_WORKSPACE'', ''ACQUIRE'')) ''producer_run_id'' = JInt 1"
    using po_owner_reads(17) [of s "10 * s" "(''EXSIA_WORKSPACE'', ''ACQUIRE'')"] s by (simp add: REQUIRED_EVENTS_def)
  have "list_all (\<lambda>owner. py_eq (rget owner ''producer_run_id'') (JInt 1)) (map snd (map (po_entry s) po_events))"
    unfolding list_all_iff using r by auto
  then show ?thesis unfolding group_checks_def po_present ne by (simp add: f)
qed

lemma po_owner_ids:
  assumes "s < 3"
  shows "owner_ids (map (po_entry s) po_events) ''CPU_FUNCTIONAL_STREAM'' ''COMPLETED'' ''required_work_ids'' = Inr [10 + int s]"
    "owner_ids (map (po_entry s) po_events) ''FRONTEND_OUTSTANDING'' ''RELEASE'' ''required_work_ids'' = Inr [10 + int s]"
    "owner_ids (map (po_entry s) po_events) ''FRONTEND_OUTSTANDING'' ''RELEASE'' ''required_call_ids'' = Inr []"
proof -
  have c: "map_of (map (po_entry s) po_events) (''CPU_FUNCTIONAL_STREAM'', ''COMPLETED'', None) = Some (po_owner (10 * s + 9) s (''CPU_FUNCTIONAL_STREAM'', ''COMPLETED''))"
    "map_of (map (po_entry s) po_events) (''FRONTEND_OUTSTANDING'', ''RELEASE'', None) = Some (po_owner (10 * s + 5) s (''FRONTEND_OUTSTANDING'', ''RELEASE''))"
    by (simp_all add: po_events_def REQUIRED_EVENTS_def po_entry_def upt_rec, simp_all add: eval_nat_numeral)
  have e: "(''CPU_FUNCTIONAL_STREAM'', ''COMPLETED'') \<in> set REQUIRED_EVENTS" "(''FRONTEND_OUTSTANDING'', ''RELEASE'') \<in> set REQUIRED_EVENTS"
    "(''CPU_FUNCTIONAL_STREAM'', ''COMPLETED'') \<in> set COMPLETION_EVENTS" "(''FRONTEND_OUTSTANDING'', ''RELEASE'') \<in> set COMPLETION_EVENTS"
    by (simp_all add: REQUIRED_EVENTS_def COMPLETION_EVENTS_def)
  have q: "10 * s + 9 < 30" "10 * s + 5 < 30" using assms by auto
  note r = po_owner_reads [OF assms q(1) e(1)] po_owner_reads [OF assms q(2) e(2)]
  show "owner_ids (map (po_entry s) po_events) ''CPU_FUNCTIONAL_STREAM'' ''COMPLETED'' ''required_work_ids'' = Inr [10 + int s]"
    "owner_ids (map (po_entry s) po_events) ''FRONTEND_OUTSTANDING'' ''RELEASE'' ''required_work_ids'' = Inr [10 + int s]"
    "owner_ids (map (po_entry s) po_events) ''FRONTEND_OUTSTANDING'' ''RELEASE'' ''required_call_ids'' = Inr []"
    unfolding owner_ids_def c by (simp_all add: r e)
qed

lemma foldm_total: "(\<And>s x. x \<in> set xs \<Longrightarrow> \<exists>s'. f s x = Inr s') \<Longrightarrow> \<exists>t. foldm f s xs = Inr t"
proof (induction xs arbitrary: s)
  case (Cons x xs)
  then obtain s' where "f s x = Inr s'" by force
  with Cons show ?case by simp
qed simp

lemma po_stripe_ok:
  assumes "s < 3" and "stripe_group pc 3 s = map (po_entry s) po_events" and "map_of (pc_residual pc) 3 = Some []"
  shows "\<exists>wk' pj'. project_stripe ex_ext pc po_indexed po_results 3 po_parent po_fence (wk, pj) (s, po_stripe s) = Inr (wk', pj') \<and>
     wk_released wk' = wk_released wk @ [10 + int s]"
proof -
  have owners: "\<exists>pj'. foldm (owner_event po_indexed po_results po_parent ''op'' ''0'' (map (po_entry s) po_events) 3 (int s) (10 + int s)) pj1
      (map snd (map (po_entry s) po_events)) = Inr pj'" for pj1
  proof (rule foldm_total)
    fix st x assume "x \<in> set (map snd (map (po_entry s) po_events))"
    then obtain i e where "(i, e) \<in> set po_events" "x = po_owner (10 * s + i) s e" by (auto simp: po_entry_def)
    with po_events_ok(1) assms(1)
    show "\<exists>s'. owner_event po_indexed po_results po_parent ''op'' ''0'' (map (po_entry s) po_events) 3 (int s) (10 + int s) st x = Inr s'"
      by (auto intro!: po_event_ok)
  qed
  define pj1 where "pj1 = publication_edges 3 (int s) (10 + int s) (1 + int s) (add_edges (stripe_edges wk 3 (int s) (int s mod 2)) pj)"
  from owners [of pj1] obtain pj3 where f:
    "foldm (owner_event po_indexed po_results po_parent ''op'' ''0'' (map (po_entry s) po_events) 3 (int s) (10 + int s)) pj1
      (map snd (map (po_entry s) po_events)) = Inr pj3" by blast
  have bound: "bound_works pc 3 (int s) = []" by (simp add: bound_works_def assms(3))
  have release: "release_checks (map (po_entry s) po_events) [] (10 + int s) = Inr [10 + int s]"
    unfolding release_checks_def by (simp add: po_owner_ids [OF assms(1)] po_present)
  show ?thesis unfolding project_stripe_def prod.case fst_conv snd_conv Let_def
    by (simp add: po_stripe_reads [OF assms(1)] po_dataset [OF assms(1)] assms(2) po_group_checks [OF assms(1)] bound release pj1_def [symmetric] f
      del: map_map)
qed

lemma po_projected: "\<exists>pp. project_pipeline ex_ext po_contract po_indexed po_results = Inr pp"
proof -
  obtain pc where pc: "parse_pipeline po_contract po_results = Inr pc" "pc_parents pc = [(3, po_parent)]" "map_of (pc_stripes pc) 3 = Some po_rows"
    "map_of (pc_residual pc) 3 = Some []" "\<forall>s < 3. stripe_group pc 3 s = map (po_entry s) po_events" using po_parsed by blast
  note stripe = po_stripe_ok [OF _ _ pc(4)]
  let ?step = "project_stripe ex_ext pc po_indexed po_results 3 po_parent po_fence"
  let ?wk = "\<lparr>wk_slots = [], wk_dequeue = None, wk_released = []\<rparr>" and ?pj = "\<lparr>pj_nodes = [], pj_additions = [], pj_removals = []\<rparr>"
  obtain wk0 pj0 where s0: "?step (?wk, ?pj) (0, po_stripe 0) = Inr (wk0, pj0)" "wk_released wk0 = [10]"
    using stripe [of 0 ?wk ?pj] pc(5) by auto
  obtain wk1 pj1 where s1: "?step (wk0, pj0) (1, po_stripe 1) = Inr (wk1, pj1)" "wk_released wk1 = [10, 11]"
    using stripe [of 1 wk0 pj0] pc(5) s0(2) by auto
  obtain wk2 pj2 where s2: "?step (wk1, pj1) (2, po_stripe 2) = Inr (wk2, pj2)" "wk_released wk2 = [10, 11, 12]"
    using stripe [of 2 wk1 pj1] pc(5) s1(2) by auto
  have z: "zip [0..<length po_rows] po_rows = [(0, po_stripe 0), (1, po_stripe 1), (2, po_stripe 2)]"
    by (simp add: po_rows_def numeral_2_eq_2)
  have walk: "foldm ?step (?wk, ?pj) (zip [0..<length po_rows] po_rows) = Inr (wk2, pj2)"
    unfolding z foldm.simps by (simp only: s0(1) s1(1) s2(1) bnd_simps)
  have fence: "fence_node po_parent = Inr po_fence" "fence_checks po_indexed po_parent po_fence = Inr ()"
    "required_ids po_parent ''required_work_ids'' = Inr [10, 11, 12]" by code_simp+
  have "\<exists>pj. project_parent ex_ext pc po_indexed po_results ?pj (3, po_parent) = Inr pj"
    unfolding project_parent_def prod.case pc(3) option.sel Let_def by (simp add: fence walk s2(2))
  then obtain pj where "project_parent ex_ext pc po_indexed po_results ?pj (3, po_parent) = Inr pj" by blast
  then show ?thesis unfolding project_pipeline_def by (simp add: pc(1,2) split: prod.split)
qed

text \<open>The third stripe shares its slot with the first and takes the capacity the first released.\<close>

theorem pipeline_orders_witness:
  "\<exists>pp. project_pipeline ex_ext po_contract po_indexed po_results = Inr pp \<and>
     pp_waits pp (event_of 3 2 ''FRONTEND_OUTSTANDING'' ''ACQUIRE'') (event_of 3 0 ''FRONTEND_OUTSTANDING'' ''RELEASE'') \<and>
     pp_waits pp (event_of 3 2 ''EXSIA_WORKSPACE'' ''ACQUIRE'') (event_of 3 0 ''EXSIA_WORKSPACE'' ''RELEASE'') \<and>
     pp_waits pp ''npu:12'' ''call:3:PUBLISH''"
proof -
  obtain pp where pp: "project_pipeline ex_ext po_contract po_indexed po_results = Inr pp" using po_projected by blast
  obtain pc where pc: "parse_pipeline po_contract po_results = Inr pc" "pc_parents pc = [(3, po_parent)]" "map_of (pc_stripes pc) 3 = Some po_rows"
    using po_parsed by blast
  have r: "po_rows ! 2 = po_stripe 2" by (rule po_row) simp
  obtain fence where "\<forall>(t, u) \<in> set (stripe_order 3 fence po_rows 2 12 3 0). pp_waits pp t u"
    using pipeline_orders [OF pp pc(1) _ pc(3), of po_parent 2] pc(2) r po_stripe_reads [of 2] by (auto simp: po_rows_def)
  moreover have "set [(event_of 3 2 ''FRONTEND_OUTSTANDING'' ''ACQUIRE'', event_of 3 0 ''FRONTEND_OUTSTANDING'' ''RELEASE''),
      (event_of 3 2 ''EXSIA_WORKSPACE'' ''ACQUIRE'', event_of 3 0 ''EXSIA_WORKSPACE'' ''RELEASE''), (''npu:12'', ''call:3:PUBLISH'')]
      \<subseteq> set (stripe_order 3 fence po_rows 2 12 3 0)"
  proof -
    have "last_holder po_rows 0 2 = Some 0" "npu_id 12 = ''npu:12''" "call_node 3 ''PUBLISH'' = ''call:3:PUBLISH''" by code_simp+
    then show ?thesis by (simp add: stripe_order_def)
  qed
  ultimately show ?thesis using pp by auto
qed

end
