(* ===== verification/Stateful_Domain.thy ===== *)
theory Stateful_Domain
  imports Trace_Schema
begin

text \<open>
  The admitted state domains of the sequence model: \<^verbatim>\<open>sim/cycle/sequence_domain.py\<close>
  (limits of the reviewed revisions) and \<^verbatim>\<open>sim/cycle/stateful_domain.py\<close> (the domain a
  profile and a revision select, and the checks of an initial state and of a work class).
\<close>

section \<open>Limits\<close>

definition LEGACY_REVISION :: string where "LEGACY_REVISION = ''GUARDED_TAG4_ROW_LT6_REVIEWED_V2''"
definition TAG5_REVISION :: string where "TAG5_REVISION = ''GUARDED_A8D16_TAG5_ROW_LT6_REVIEWED_V3''"
definition TAG6_REVISION :: string where "TAG6_REVISION = ''GUARDED_A8D16_TAG6_ROW_LT6_REVIEWED_V1''"
definition TAG5_PROFILE :: string where "TAG5_PROFILE = ''a8w8-d16-hp1''"

definition PROFILES :: "string list" where
  "PROFILES = [''a4w4-d16-hp1'', ''a4w4-d32-hp1'', ''a4w4-d64-hp1'', ''a8w8-d16-hp1'', ''a8w8-d32-hp1'', ''a8w8-d64-hp1'']"

record DomainLimits =
  max_tag_occupancy :: int
  max_row_occupancy_exclusive :: int
  ready_violation_mask :: int
  tag_capacity :: int

text \<open>The constructor with its defaults.\<close>

definition DomainLimits_of :: "int \<Rightarrow> int \<Rightarrow> DomainLimits" where
  "DomainLimits_of tags rows = \<lparr>max_tag_occupancy = tags, max_row_occupancy_exclusive = rows,
     ready_violation_mask = 0, tag_capacity = 6\<rparr>"

definition TAG4_limits :: DomainLimits where "TAG4_limits = DomainLimits_of 4 6"
definition TAG5_limits :: DomainLimits where "TAG5_limits = DomainLimits_of 5 6"
definition TAG6_limits :: DomainLimits where "TAG6_limits = DomainLimits_of 6 6"

definition profile_domain :: "string \<Rightarrow> string \<Rightarrow> DomainLimits res" where
  "profile_domain profile revision =
     (if revision = TAG6_REVISION then
        chk (profile = TAG5_PROFILE) (DomainRevisionError profile revision) (Inr TAG6_limits)
      else
        chk (profile \<in> set PROFILES \<and> revision \<in> {LEGACY_REVISION, TAG5_REVISION})
          (DomainRevisionError profile revision)
          (Inr (if profile = TAG5_PROFILE \<and> revision = TAG5_REVISION then TAG5_limits else TAG4_limits)))"

section \<open>Revisions\<close>

definition A8D32_REVISION :: string where "A8D32_REVISION = ''GUARDED_A8D32_PRODUCER_TAG4_ROW_LT4_V1''"

definition PROFILE_EXTENSION_REVISIONS :: "(string, string) dict" where
  "PROFILE_EXTENSION_REVISIONS =
     [(''stateful-a8w8-d64-v1'', ''a8w8-d64-hp1''), (''stateful-a4w4-d16-v1'', ''a4w4-d16-hp1''),
      (''stateful-a4w4-d32-v1'', ''a4w4-d32-hp1''), (''stateful-a4w4-d64-v1'', ''a4w4-d64-hp1'')]"

definition ACTUAL_TRACE_REVISIONS :: "(string, string \<times> DomainLimits) dict" where
  "ACTUAL_TRACE_REVISIONS =
     [(''GUARDED_A8D32_ACTUAL_EVAL_TAG5_ROW_LT5_V1'', (''a8w8-d32-hp1'', DomainLimits_of 5 5))]"

definition INTERLEAVED_TRACE_REVISIONS :: "(string, string \<times> DomainLimits) dict" where
  "INTERLEAVED_TRACE_REVISIONS =
     [(''GUARDED_A8D32_INTERLEAVED_ISSUE_TAG5_ROW_LT5_V1'', (''a8w8-d32-hp1'', DomainLimits_of 5 5))]"

datatype Revision = LEGACY | TAG5 | TAG6 | A8D32 | A8D64 | A4D16 | A4D32 | A4D64 | A8D32_ACTUAL | A8D32_INTERLEAVED

definition Revisions :: "(string, Revision) dict" where
  "Revisions =
     [(LEGACY_REVISION, LEGACY), (TAG5_REVISION, TAG5), (TAG6_REVISION, TAG6), (A8D32_REVISION, A8D32),
      (''stateful-a8w8-d64-v1'', A8D64), (''stateful-a4w4-d16-v1'', A4D16), (''stateful-a4w4-d32-v1'', A4D32),
      (''stateful-a4w4-d64-v1'', A4D64), (''GUARDED_A8D32_ACTUAL_EVAL_TAG5_ROW_LT5_V1'', A8D32_ACTUAL),
      (''GUARDED_A8D32_INTERLEAVED_ISSUE_TAG5_ROW_LT5_V1'', A8D32_INTERLEAVED)]"

section \<open>Domains\<close>

record InitialState =
  is_generation :: int
  is_absolute_cycle :: int
  is_scratchpad_half :: int
  is_accumulator_half :: int
  is_tag_count :: int
  is_row_count :: int
  is_ready_mask :: int

definition InitialState_default :: InitialState where
  "InitialState_default = \<lparr>is_generation = 1, is_absolute_cycle = 0, is_scratchpad_half = 0, is_accumulator_half = 0,
     is_tag_count = 0, is_row_count = 0, is_ready_mask = 0\<rparr>"

record WorkClass =
  work_type :: string
  run_type :: string

record StateDomain =
  sd_profile :: string
  sd_precision :: string
  sd_dim :: int
  allowed_tag_peak :: int
  allowed_row_peak :: int
  ready_mask_rule :: string
  initial_state_domain :: string
  supported_work_types :: "string list"
  supported_run_types :: "string list"
  sd_revision :: string
  workload_scope :: string

definition sd_limits :: "StateDomain \<Rightarrow> DomainLimits" where
  "sd_limits d = DomainLimits_of (allowed_tag_peak d) (allowed_row_peak d + 1)"

definition check_initial_state :: "StateDomain \<Rightarrow> InitialState \<Rightarrow> unit res" where
  "check_initial_state d state =
     chk (state = InitialState_default)
       (StateDomainError ''initial state'' ''only the certified cold origin is supported'') (Inr ())"

definition check_work_class :: "StateDomain \<Rightarrow> WorkClass \<Rightarrow> unit res" where
  "check_work_class d work =
     chk (work_type work \<in> set (supported_work_types d) \<and> run_type work \<in> set (supported_run_types d) \<and>
          (work_type work, run_type work) \<in> {(''dense_main'', ''dense''), (''residual'', RUN_REVISION)})
       (StateDomainError ''work class'' ''work/run pair is outside the certified domain'') (Inr ())"

text \<open>\<^verbatim>\<open>re.fullmatch(r"a([48])w\1-d(16|32|64)-hp1", profile)\<close>: the language is finite, the groups are
  the operand width and the array dimension.\<close>

definition profile_shapes :: "(string, int \<times> int) dict" where
  "profile_shapes =
     [(''a4w4-d16-hp1'', (4, 16)), (''a4w4-d32-hp1'', (4, 32)), (''a4w4-d64-hp1'', (4, 64)),
      (''a8w8-d16-hp1'', (8, 16)), (''a8w8-d32-hp1'', (8, 32)), (''a8w8-d64-hp1'', (8, 64))]"

text \<open>The limits a revision selects for a profile (the \<^verbatim>\<open>match\<close> statement).\<close>

definition revision_limits :: "string \<Rightarrow> string \<Rightarrow> Revision \<Rightarrow> DomainLimits res" where
  "revision_limits profile revision selected =
     (let refuse = DomainRevisionError profile revision in
      case selected of
        LEGACY \<Rightarrow> profile_domain profile revision
      | TAG5 \<Rightarrow> profile_domain profile revision
      | TAG6 \<Rightarrow> profile_domain profile revision
      | A8D32 \<Rightarrow> chk (profile = ''a8w8-d32-hp1'') refuse (Inr (DomainLimits_of 4 4))
      | A8D32_ACTUAL \<Rightarrow> (case map_of ACTUAL_TRACE_REVISIONS revision of
            None \<Rightarrow> Inl (KeyError revision)
          | Some (certified, limits) \<Rightarrow> chk (certified = profile) refuse (Inr limits))
      | A8D32_INTERLEAVED \<Rightarrow> (case map_of INTERLEAVED_TRACE_REVISIONS revision of
            None \<Rightarrow> Inl (KeyError revision)
          | Some (certified, limits) \<Rightarrow> chk (certified = profile) refuse (Inr limits))
      | _ \<Rightarrow> (case map_of PROFILE_EXTENSION_REVISIONS revision of
            None \<Rightarrow> Inl (KeyError revision)
          | Some certified \<Rightarrow> chk (certified = profile) refuse (Inr (DomainLimits_of 4 4))))"

definition state_domain :: "string \<Rightarrow> string \<Rightarrow> StateDomain res" where
  "state_domain profile revision =
     (case map_of profile_shapes profile of
        None \<Rightarrow> Inl (DomainRevisionError profile revision)
      | Some (bits, d) \<Rightarrow>
     (case map_of Revisions revision of
        None \<Rightarrow> Inl (DomainRevisionError profile revision)
      | Some selected \<Rightarrow>
        bnd (revision_limits profile revision selected) (\<lambda>limits.
        Inr \<lparr>sd_profile = profile, sd_precision = ''A'' @ str_int bits @ ''W'' @ str_int bits, sd_dim = d,
             allowed_tag_peak = max_tag_occupancy limits, allowed_row_peak = max_row_occupancy_exclusive limits - 1,
             ready_mask_rule = ''ZERO_AT_RESOURCE_READY'', initial_state_domain = ''COLD_RESET_ONCE'',
             supported_work_types = [''dense_main'', ''residual''], supported_run_types = [''dense'', RUN_REVISION],
             sd_revision = revision, workload_scope = ''CERTIFICATE_BOUND_CORPUS''\<rparr>)))"

section \<open>Properties\<close>

lemmas revision_names = LEGACY_REVISION_def TAG5_REVISION_def TAG6_REVISION_def A8D32_REVISION_def TAG5_PROFILE_def

text \<open>The revisions that are certified for one profile only.\<close>

definition bound_profile :: "string \<Rightarrow> string option" where
  "bound_profile revision =
     (if revision = TAG6_REVISION then Some TAG5_PROFILE
      else if revision = A8D32_REVISION then Some ''a8w8-d32-hp1''
      else case map_of PROFILE_EXTENSION_REVISIONS revision of
          Some p \<Rightarrow> Some p
        | None \<Rightarrow> map_option fst (map_of (ACTUAL_TRACE_REVISIONS @ INTERLEAVED_TRACE_REVISIONS) revision))"

lemma map_of_shape: "map_of profile_shapes profile = Some s \<Longrightarrow> profile \<in> set PROFILES"
  by (auto simp: profile_shapes_def PROFILES_def split: if_splits)

lemma map_of_Revisions: "map_of Revisions revision = Some r \<Longrightarrow> (revision, r) \<in> set Revisions"
  by (rule map_of_SomeD)

lemma state_domain_bounds:
  assumes "state_domain profile revision = Inr d"
  shows "4 \<le> allowed_tag_peak d \<and> allowed_tag_peak d \<le> tag_capacity (sd_limits d) \<and>
    3 \<le> allowed_row_peak d \<and> max_row_occupancy_exclusive (sd_limits d) \<le> 6 \<and>
    ready_violation_mask (sd_limits d) = 0 \<and>
    sd_profile d = profile \<and> sd_revision d = revision \<and> profile \<in> set PROFILES \<and>
    (\<forall>p. bound_profile revision = Some p \<longrightarrow> p = profile)"
proof -
  from assms obtain s r limits where s: "map_of profile_shapes profile = Some s"
    and r: "map_of Revisions revision = Some r" and l: "revision_limits profile revision r = Inr limits"
    and d: "allowed_tag_peak d = max_tag_occupancy limits" "allowed_row_peak d = max_row_occupancy_exclusive limits - 1"
      "sd_profile d = profile" "sd_revision d = revision"
    by (auto simp: state_domain_def bnd_eq_Inr split: option.splits prod.splits)
  have "4 \<le> max_tag_occupancy limits \<and> max_tag_occupancy limits \<le> 6 \<and> 4 \<le> max_row_occupancy_exclusive limits \<and>
      max_row_occupancy_exclusive limits \<le> 6 \<and> (\<forall>p. bound_profile revision = Some p \<longrightarrow> p = profile)"
    using map_of_Revisions [OF r] l unfolding Revisions_def set_simps
    by (elim insertE emptyE)
      (auto simp: revision_limits_def profile_domain_def revision_names bound_profile_def PROFILE_EXTENSION_REVISIONS_def
        ACTUAL_TRACE_REVISIONS_def INTERLEAVED_TRACE_REVISIONS_def DomainLimits_of_def TAG4_limits_def TAG5_limits_def
        TAG6_limits_def chk_eq_Inr split: if_splits)
  then show ?thesis using d map_of_shape [OF s] by (auto simp: sd_limits_def DomainLimits_of_def)
qed

text \<open>C29. Every selectable domain stays within the hardware: the tag peak is at most the tag capacity
  and at least four, the row bound is at most six, ready violations are never allowed; a revision
  certified for one profile selects nothing for another, and the domain keeps the profile and
  revision asked for.\<close>

theorem state_domain_limits:
  assumes "state_domain profile revision = Inr d"
  shows "4 \<le> allowed_tag_peak d \<and> allowed_tag_peak d \<le> tag_capacity (sd_limits d) \<and>
    3 \<le> allowed_row_peak d \<and> max_row_occupancy_exclusive (sd_limits d) \<le> 6 \<and>
    ready_violation_mask (sd_limits d) = 0 \<and>
    sd_profile d = profile \<and> sd_revision d = revision \<and> profile \<in> set PROFILES \<and>
    (\<forall>p. bound_profile revision = Some p \<longrightarrow> p = profile)"
  using assms by (rule state_domain_bounds)

lemma state_domain_limits_witness:
  "\<exists>d. state_domain ''a8w8-d16-hp1'' TAG6_REVISION = Inr d \<and> allowed_tag_peak d \<le> tag_capacity (sd_limits d)"
proof -
  have "\<exists>d. state_domain ''a8w8-d16-hp1'' TAG6_REVISION = Inr d"
    by (simp add: state_domain_def profile_shapes_def Revisions_def revision_limits_def profile_domain_def revision_names)
  then obtain d where "state_domain ''a8w8-d16-hp1'' TAG6_REVISION = Inr d" by blast
  with state_domain_limits [OF this] show ?thesis by blast
qed

end
