(* ===== verification/Native_Session.thy ===== *)
theory Native_Session
  imports Trace_Schema
begin

text \<open>
  The Python side of the native sequence session: \<^verbatim>\<open>sim/cycle/sequence_binding_abi.py\<close> (codes,
  structures, argument checks) and \<^verbatim>\<open>SequenceSession\<close> of \<^verbatim>\<open>sim/cycle/sequence_binding.py\<close>.
  The shared library is the parameter \<open>native\<close>: one function per C entry point, from the state of
  the handle to the returned code, the structure it fills and the next state. A structure is the
  record of its fields less the ABI header.
\<close>

section \<open>Codes\<close>

datatype Code = OK | INCOMPLETE | WOULD_BLOCK | INVALID | UNSUPPORTED | OVERFLOW | LIMIT | INTERNAL | FAULTED

fun Code_value :: "Code \<Rightarrow> int" where
  "Code_value OK = 0"
| "Code_value INCOMPLETE = 1"
| "Code_value WOULD_BLOCK = 2"
| "Code_value INVALID = -1"
| "Code_value UNSUPPORTED = -2"
| "Code_value OVERFLOW = -3"
| "Code_value LIMIT = -4"
| "Code_value INTERNAL = -5"
| "Code_value FAULTED = -6"

definition Codes :: "Code list" where
  "Codes = [OK, INCOMPLETE, WOULD_BLOCK, INVALID, UNSUPPORTED, OVERFLOW, LIMIT, INTERNAL, FAULTED]"

definition Code_of :: "int \<Rightarrow> Code option" where
  "Code_of raw = find (\<lambda>c. Code_value c = raw) Codes"

datatype StopReason = NONE | TARGET | WORK_BUDGET | SESSION_BUDGET | FAULT | REPORT_BUFFER
  | EVENT_BUFFER_AVAILABLE | EVENT_BURST | REPORT_AVAILABLE | SOFT_BUDGET

fun StopReason_value :: "StopReason \<Rightarrow> int" where
  "StopReason_value NONE = 0"
| "StopReason_value TARGET = 1"
| "StopReason_value WORK_BUDGET = 2"
| "StopReason_value SESSION_BUDGET = 3"
| "StopReason_value FAULT = 4"
| "StopReason_value REPORT_BUFFER = 5"
| "StopReason_value EVENT_BUFFER_AVAILABLE = 6"
| "StopReason_value EVENT_BURST = 7"
| "StopReason_value REPORT_AVAILABLE = 8"
| "StopReason_value SOFT_BUDGET = 9"

definition sequence_error :: "Code \<Rightarrow> string \<Rightarrow> py_error" where
  "sequence_error c op = SequenceError (Code_value c) op"

definition uint :: "int \<Rightarrow> nat \<Rightarrow> string \<Rightarrow> int res" where
  "uint value bits name =
     chk (\<not> value < 0) (sequence_error INVALID name) (
     chk (value < 2 ^ bits) (sequence_error OVERFLOW name) (Inr value))"

text \<open>\<^verbatim>\<open>_checked\<close>: an unknown code is an internal error, a negative one is raised.\<close>

definition checked :: "int \<Rightarrow> string \<Rightarrow> Code res" where
  "checked raw op = (case Code_of raw of
     None \<Rightarrow> Inl (sequence_error INTERNAL op)
   | Some c \<Rightarrow> chk (\<not> Code_value c < 0) (sequence_error c op) (Inr c))"

section \<open>Structures\<close>

record SourceIdentity =
  si_profile :: string
  si_library_sha256 :: string
  si_source_sha256 :: "(string \<times> string) list"

record Settings =
  read_ready_period :: int
  max_work_cycles :: "int option"
  max_session_cycles :: "int option"
  max_fragments :: "int option"
  max_trace_events :: "int option"
  max_work_ids :: "int option"

definition Settings_default :: Settings where
  "Settings_default = \<lparr>read_ready_period = 5, max_work_cycles = None, max_session_cycles = None, max_fragments = None,
     max_trace_events = None, max_work_ids = None\<rparr>"

text \<open>A work as the session takes it; \<open>sw_inputs\<close> holds the 64-bit fields of
  \<^verbatim>\<open>WORK_U64\<close> after the identity.\<close>

record SequenceWork =
  sw_logical_work_id :: int
  sw_inputs :: "int list"
  sw_original_k :: "int option"
  sw_runs :: "RunSpan list"
  sw_submission :: int
  sw_record_events :: bool

definition WORK_U64 :: "string list" where
  "WORK_U64 = [''logical_work_id'', ''m'', ''n'', ''k'', ''tile_i'', ''tile_j'', ''tile_k'',
     ''activation_stride_bytes'', ''weight_stride_bytes'', ''output_stride_bytes'', ''scale_stride_elements'']"

record Descriptor =
  ds_u64 :: "int list"
  ds_compact_runs :: "(int \<times> (int \<times> int \<times> int \<times> int) list) option"
  ds_submission :: int
  ds_record_events :: int

record Status =
  st_generation :: int
  st_cursor :: int
  st_session_cycles :: int
  st_work_cycles :: int
  st_accepted_work_id :: int
  st_offered_cycle :: int
  st_accepted_cycle :: int
  st_last_discarded_generation :: int
  st_initialized :: int
  st_has_pending :: int
  st_has_active :: int
  st_has_report :: int
  st_has_accepted :: int
  st_faulted :: int
  st_next_scratchpad_half :: int
  st_next_accumulator_half :: int
  st_stop_reason :: int

record RowPressure =
  rp_generation :: int
  rp_cursor :: int
  rp_row_count :: int
  rp_max_row_occupancy :: int

record DomainTag =
  dt_origin_generation :: int
  dt_origin_ordinal :: int
  dt_origin_work_id :: int
  dt_id :: int
  dt_rows :: int
  dt_rob_valid :: int
  dt_rob_id :: int
  dt_preload_src :: int
  dt_preload_dst :: int
  dt_preload_output_rows :: int
  dt_preload_output_cols :: int
  dt_preload_accumulate :: int

record DomainSnapshot =
  dm_generation :: int
  dm_cursor :: int
  dm_resource_ready :: int
  dm_row_count :: int
  dm_tag_count :: int
  dm_max_tag_occupancy :: int
  dm_ready_violation_mask :: int
  dm_rows :: "(int \<times> int) list"
  dm_tags :: "DomainTag list"
  dm_banks :: "(int \<times> int \<times> int) list"

record Counters =
  ct_start_cycle :: int
  ct_done_cycle :: int
  ct_total_cycles :: int
  ct_logical_work_count :: int
  ct_loop_count :: int
  ct_planner_loop_count :: int
  ct_fragment_count :: int
  ct_load_request_count :: int
  ct_load_response_count :: int
  ct_store_request_count :: int
  ct_store_response_count :: int
  ct_scale_request_count :: int
  ct_scale_response_count :: int
  ct_event_count :: int

record Report =
  rep_generation :: int
  rep_logical_work_id :: int
  rep_offered_cycle :: int
  rep_accepted_cycle :: int
  rep_result_ready_cycle :: int
  rep_final_scale_release_cycle :: int
  rep_resource_ready_cycle :: int
  rep_event_count :: int
  rep_next_scratchpad_half :: int
  rep_next_accumulator_half :: int
  rep_counters :: Counters

section \<open>The session\<close>

record 's native =
  nv_reset :: "'s \<Rightarrow> int \<times> 's"
  nv_offer :: "'s \<Rightarrow> Descriptor \<Rightarrow> int \<Rightarrow> int \<times> 's"
  nv_advance_to_boundary :: "'s \<Rightarrow> int \<Rightarrow> int \<Rightarrow> int \<times> 's"
  nv_get_status :: "'s \<Rightarrow> int \<times> Status"
  nv_get_row_pressure :: "'s \<Rightarrow> int \<times> RowPressure"
  nv_get_domain_snapshot :: "'s \<Rightarrow> int \<times> DomainSnapshot"
  nv_get_counters :: "'s \<Rightarrow> int \<times> Counters"
  nv_pop_report :: "'s \<Rightarrow> int \<times> Report \<times> 's"
  nv_event_count :: "'s \<Rightarrow> int \<times> int"
  nv_read_events :: "'s \<Rightarrow> int \<Rightarrow> int \<times> int \<times> 's"

text \<open>\<open>ss_handle\<close> is \<open>None\<close> once closed. Only \<open>offer\<close>, \<open>advance_to_boundary\<close>,
  \<open>reset\<close>, \<open>pop_report\<close> and the reading of events change the handle.\<close>

record 's session =
  ss_handle :: "'s option"
  ss_identity :: SourceIdentity

definition handle :: "'s session \<Rightarrow> 's res" where
  "handle ss = (case ss_handle ss of None \<Rightarrow> Inl (sequence_error INVALID ''closed session'') | Some h \<Rightarrow> Inr h)"

definition ss_close :: "'s session \<Rightarrow> 's session" where
  "ss_close ss = ss\<lparr>ss_handle := None\<rparr>"

definition verify_identity :: "'s session \<Rightarrow> SourceIdentity \<Rightarrow> unit res" where
  "verify_identity ss current = chk (current = ss_identity ss) (sequence_error INVALID ''publication identity changed'') (Inr ())"

text \<open>A read-only entry point: the code is checked, the structure returned.\<close>

definition observed :: "('s \<Rightarrow> int \<times> 'a) \<Rightarrow> string \<Rightarrow> 's session \<Rightarrow> 'a res" where
  "observed f op ss = bnd (handle ss) (\<lambda>h. bnd (checked (fst (f h)) op) (\<lambda>_. Inr (snd (f h))))"

definition ss_status :: "'s native \<Rightarrow> 's session \<Rightarrow> Status res" where
  "ss_status N ss = observed (nv_get_status N) ''get_status'' ss"

definition ss_row_pressure :: "'s native \<Rightarrow> 's session \<Rightarrow> RowPressure res" where
  "ss_row_pressure N ss = observed (nv_get_row_pressure N) ''get_row_pressure'' ss"

definition ss_domain_snapshot :: "'s native \<Rightarrow> 's session \<Rightarrow> DomainSnapshot res" where
  "ss_domain_snapshot N ss = observed (nv_get_domain_snapshot N) ''get_domain_snapshot'' ss"

definition ss_counters :: "'s native \<Rightarrow> 's session \<Rightarrow> Counters res" where
  "ss_counters N ss = observed (nv_get_counters N) ''get_counters'' ss"

definition ss_event_count :: "'s native \<Rightarrow> 's session \<Rightarrow> int res" where
  "ss_event_count N ss = observed (nv_event_count N) ''event_count'' ss"

definition run_fields :: "RunSpan \<Rightarrow> (int \<times> int \<times> int \<times> int) res" where
  "run_fields run =
     bnd (uint (original_block_id run) 32 ''original_block_id'') (\<lambda>a.
     bnd (uint (original_k_mask run) 32 ''original_k_mask'') (\<lambda>b.
     bnd (uint (compact_k_begin run) 32 ''compact_k_begin'') (\<lambda>c.
     bnd (uint (compact_k_count run) 32 ''compact_k_count'') (\<lambda>d. Inr (a, b, c, d)))))"

definition describe :: "SequenceWork \<Rightarrow> Descriptor res" where
  "describe work =
     bnd (mapr (\<lambda>(name, v). uint v 64 name) (zip WORK_U64 (sw_logical_work_id work # sw_inputs work))) (\<lambda>u64.
     bnd (uint (sw_submission work) 32 ''submission'') (\<lambda>submission.
     bnd (if sw_runs work \<noteq> [] then
            (case sw_original_k work of
               None \<Rightarrow> Inl (sequence_error INVALID ''original_k'')
             | Some k0 \<Rightarrow> bnd (mapr run_fields (sw_runs work)) (\<lambda>spans.
                 bnd (uint k0 32 ''original_k'') (\<lambda>k. Inr (Some (k, spans)))))
          else chk (sw_original_k work = None) (sequence_error INVALID ''runs'') (Inr None)) (\<lambda>runs.
     Inr \<lparr>ds_u64 = u64, ds_compact_runs = runs, ds_submission = submission,
          ds_record_events = (if sw_record_events work then 1 else 0)\<rparr>)))"

definition ss_offer :: "'s native \<Rightarrow> 's session \<Rightarrow> SequenceWork \<Rightarrow> int \<Rightarrow> Code res \<times> 's session" where
  "ss_offer N ss work offered_cycle =
     (case bnd (handle ss) (\<lambda>h. bnd (describe work) (\<lambda>d. bnd (uint offered_cycle 64 ''offered_cycle'') (\<lambda>c.
             Inr (nv_offer N h d c)))) of
        Inl e \<Rightarrow> (Inl e, ss)
      | Inr (raw, h') \<Rightarrow> (checked raw ''offer'', ss\<lparr>ss_handle := Some h'\<rparr>))"

definition ss_advance_to_boundary :: "'s native \<Rightarrow> 's session \<Rightarrow> int \<Rightarrow> int \<Rightarrow> Code res \<times> 's session" where
  "ss_advance_to_boundary N ss until_cycle max_steps =
     (case bnd (handle ss) (\<lambda>h. bnd (uint until_cycle 64 ''until_cycle'') (\<lambda>u.
             bnd (uint max_steps 64 ''max_steps'') (\<lambda>m. Inr (nv_advance_to_boundary N h u m)))) of
        Inl e \<Rightarrow> (Inl e, ss)
      | Inr (raw, h') \<Rightarrow> (checked raw ''advance_to_boundary'', ss\<lparr>ss_handle := Some h'\<rparr>))"

text \<open>\<^verbatim>\<open>pop_report\<close> returns the report, or the code when there is none.\<close>

definition ss_pop_report :: "'s native \<Rightarrow> 's session \<Rightarrow> Report option res \<times> 's session" where
  "ss_pop_report N ss =
     (case handle ss of
        Inl e \<Rightarrow> (Inl e, ss)
      | Inr h \<Rightarrow> (case nv_pop_report N h of (raw, report, h') \<Rightarrow>
          (bnd (checked raw ''pop_report'') (\<lambda>c. Inr (if c = OK then Some report else None)),
           ss\<lparr>ss_handle := Some h'\<rparr>)))"

definition ss_reset :: "'s native \<Rightarrow> 's session \<Rightarrow> Code res \<times> 's session" where
  "ss_reset N ss =
     (case handle ss of
        Inl e \<Rightarrow> (Inl e, ss)
      | Inr h \<Rightarrow> (case nv_reset N h of (raw, h') \<Rightarrow> (checked raw ''reset'', ss\<lparr>ss_handle := Some h'\<rparr>)))"

section \<open>Facts\<close>

lemma checked_eq_Inr: "checked raw op = Inr c \<longleftrightarrow> Code_of raw = Some c \<and> c \<in> {OK, INCOMPLETE, WOULD_BLOCK}"
  by (cases c) (auto simp: checked_def chk_eq_Inr split: option.splits)

lemma uint_eq_Inr: "uint v bits name = Inr w \<longleftrightarrow> w = v \<and> 0 \<le> v \<and> v < 2 ^ bits"
  by (auto simp: uint_def chk_eq_Inr)

lemma Code_of_value: "Code_of (Code_value c) = Some c"
  by (cases c) (simp_all add: Code_of_def Codes_def)


definition ex_sequence_work :: SequenceWork where
  "ex_sequence_work = \<lparr>sw_logical_work_id = 7, sw_inputs = [4, 5, 3, 1, 1, 1, 3, 5, 20, 5], sw_original_k = Some 64,
     sw_runs = [\<lparr>original_block_id = 1, original_k_mask = 7, compact_k_begin = 0, compact_k_count = 3\<rparr>],
     sw_submission = 0, sw_record_events = False\<rparr>"


end
