(* ===== verification/Sequence_Admission.thy ===== *)
theory Sequence_Admission
  imports Stateful_Domain Native_Session Npu_Replay Exec_Services Trace_Example Certificate_Values
begin

text \<open>
  Admission of a trace to the stateful provider: \<^verbatim>\<open>sim/cycle/execution_sequence_admission.py\<close> and the
  profile check of \<^verbatim>\<open>sim/cycle/stateful_domain_admission.py\<close>. What a look at the files gives
  (digests, identities, the validation of the certificate by the certificate modules, the lines of the trace)
  is the record \<open>source_files\<close>; two looks are taken where the code takes two.
\<close>

record ScopedEvidence =
  se_certificate_sha256 :: string
  se_library_sha256 :: string
  se_case_ids :: "string list"
  se_validation_scope :: string
  se_production_admitted :: bool
  se_state_domain_revision :: string

record BoundWork =
  bw_request :: NpuWork
  bw_trace :: Work

record StatefulAdmission =
  sa_scoped :: ScopedEvidence
  sa_trace_sha256 :: string
  sa_source_identity :: SourceIdentity
  sa_binding_sha256 :: string
  sa_binding_abi_sha256 :: string
  sa_cli_sha256 :: string
  sa_provider_sha256 :: string
  sa_admission_sha256 :: string
  sa_validator_sha256 :: string
  sa_profile :: string
  sa_work_bindings :: "(int \<times> int \<times> string) list"
  sa_read_ready_period :: int
  sa_initial_scratchpad_half :: int
  sa_initial_accumulator_half :: int
  sa_validation_scope :: string
  sa_production_admitted :: bool
  sa_trace_identity :: "int list"
  sa_extension_source_sha256 :: "(string \<times> string) list"

record source_files =
  sf_library_is_context :: bool
  sf_certificate_sha256 :: string
  sf_certificate_document :: "Record res"
  sf_trace_identity :: "int list"
  sf_trace_sha256 :: string
  sf_trace_lines :: "jval list"
  sf_binding_sha256 :: string
  sf_binding_abi_sha256 :: string
  sf_cli_sha256 :: string
  sf_provider_sha256 :: string
  sf_admission_sha256 :: string
  sf_validator_sha256 :: string
  sf_sha256_of :: "string \<Rightarrow> string"
  sf_source_identity :: "string \<Rightarrow> SourceIdentity res"
  sf_validate :: "ScopedEvidence res"
  sf_admit :: "unit res"

section \<open>Admission\<close>

definition EXTENSION_NAMES :: "string list" where
  "EXTENSION_NAMES = [''stateful_domain.py'', ''stateful_domain_admission.py'', ''stateful_profile_certificate.py'',
     ''stateful_profile_extension.py'', ''stateful_profile_extension_evidence.py'', ''stateful_profile_extension_pins.py'']"

text \<open>The groups of revisions the admission and the provider test.\<close>

definition certified_corpus :: "string \<Rightarrow> bool" where
  "certified_corpus revision \<longleftrightarrow> revision = A8D32_REVISION \<or> has_key PROFILE_EXTENSION_REVISIONS revision \<or>
     has_key ACTUAL_TRACE_REVISIONS revision \<or> has_key INTERLEAVED_TRACE_REVISIONS revision"

definition back_to_back :: "string \<Rightarrow> bool" where
  "back_to_back revision \<longleftrightarrow> revision = TAG6_REVISION \<or> revision = A8D32_REVISION \<or>
     has_key PROFILE_EXTENSION_REVISIONS revision \<or> has_key ACTUAL_TRACE_REVISIONS revision"

definition bind_work :: "ext \<Rightarrow> string \<Rightarrow> Work \<Rightarrow> BoundWork" where
  "bind_work E profile work =
     \<lparr>bw_request = \<lparr>nw_identity = ''npu:'' @ str_int (w_identity work), nw_request_sha256 = work_binding E work,
        nw_profile = profile\<rparr>, bw_trace = work\<rparr>"

definition check_profile_scope :: "string \<Rightarrow> source_files \<Rightarrow> ScopedEvidence \<Rightarrow> StateDomain res" where
  "check_profile_scope profile files scoped =
     bnd (sf_certificate_document files) (\<lambda>document.
     bnd (certificate_object (rget document ''trace'') ''profile trace'') (\<lambda>trace.
     chk (py_eq (rget document ''profile'') (JStr profile) \<and> py_eq (rget trace ''sha256'') (JStr (sf_trace_sha256 files)) \<and>
          sf_library_is_context files)
       (StatefulProviderError ''profile domain'' ''profile, trace or library differs from certificate'') (
     state_domain profile (se_state_domain_revision scoped))))"

text \<open>The checks on a Tag6 corpus, and on the domain of the certified revisions.\<close>

definition check_tag6 :: "source_files \<Rightarrow> string \<Rightarrow> BoundWork list \<Rightarrow> unit res" where
  "check_tag6 files profile bound =
     bnd (sf_certificate_document files) (\<lambda>document.
     chkr (allr [Inr (profile = TAG5_PROFILE),
                 bnd (item document ''trace'') (\<lambda>tv. bnd (certificate_object tv ''Tag6 trace'') (\<lambda>trace.
                   bnd (item trace ''sha256'') (\<lambda>sha. Inr (py_eq sha (JStr (sf_trace_sha256 files)))))),
                 Inr (map (w_identity \<circ> bw_trace) bound = [0..373])])
       (StatefulProviderError ''Tag6 corpus'' ''only the certified original374 trace is supported'') (Inr ()))"

definition work_class_of :: "Work \<Rightarrow> WorkClass" where
  "work_class_of work = \<lparr>work_type = w_provenance work,
     run_type = (case w_residual_work_revision work of Some r \<Rightarrow> if r = [] then ''dense'' else r | None \<Rightarrow> ''dense'')\<rparr>"

definition check_domain :: "source_files \<Rightarrow> ScopedEvidence \<Rightarrow> string \<Rightarrow> BoundWork list \<Rightarrow> unit res" where
  "check_domain files scoped profile bound =
     bnd (check_profile_scope profile files scoped) (\<lambda>domain.
     bnd (check_initial_state domain InitialState_default) (\<lambda>_.
     bnd (mapr (\<lambda>b. check_work_class domain (work_class_of (bw_trace b))) bound) (\<lambda>_.
     if certified_corpus (se_state_domain_revision scoped) then
       bnd (sf_certificate_document files) (\<lambda>document.
       bnd (item document ''work_ids'') (\<lambda>ids.
       chk (py_eq (JArr (map (JInt \<circ> w_identity \<circ> bw_trace) bound)) ids)
         (StatefulProviderError ''profile corpus'' ''complete certified work order required'') (Inr ())))
     else Inr ())))"

text \<open>The admission once the run of the trace is open.\<close>

definition admit_run :: "ext \<Rightarrow> source_files \<Rightarrow> source_files \<Rightarrow> bool \<Rightarrow> ScopedEvidence \<Rightarrow> TraceState \<Rightarrow> Record list \<Rightarrow>
    (StatefulAdmission \<times> BoundWork list) res" where
  "admit_run E files after production scoped st0 rest =
     chk (run_trace_version (ts_run st0) = 2) (StatefulProviderError ''trace'' ''version 2 required'') (
     bnd (trace_run st0 rest) (\<lambda>(st, works).
     let profile = run_profile (ts_run st); bound = map (bind_work E profile) works in
     bnd (ts_summary st) (\<lambda>_.
     chk (bound \<noteq> [] \<and> sf_trace_identity after = sf_trace_identity files \<and> sf_trace_sha256 after = sf_trace_sha256 files)
       (StatefulProviderError ''trace'' ''empty or changed during parse'') (
     bnd (if se_state_domain_revision scoped = TAG6_REVISION then check_tag6 after profile bound else Inr ()) (\<lambda>_.
     bnd (if se_state_domain_revision scoped = TAG6_REVISION \<or> certified_corpus (se_state_domain_revision scoped)
          then check_domain after scoped profile bound else Inr ()) (\<lambda>_.
     bnd (sf_source_identity after profile) (\<lambda>identity.
     Inr (\<lparr>sa_scoped = scoped, sa_trace_sha256 = sf_trace_sha256 files, sa_source_identity = identity,
            sa_binding_sha256 = sf_binding_sha256 after, sa_binding_abi_sha256 = sf_binding_abi_sha256 after,
            sa_cli_sha256 = sf_cli_sha256 after, sa_provider_sha256 = sf_provider_sha256 after,
            sa_admission_sha256 = sf_admission_sha256 after, sa_validator_sha256 = sf_validator_sha256 after,
            sa_profile = profile,
            sa_work_bindings = map (\<lambda>b. (w_identity (bw_trace b), w_parent_id (bw_trace b), nw_request_sha256 (bw_request b))) bound,
            sa_read_ready_period = 5, sa_initial_scratchpad_half = 0, sa_initial_accumulator_half = 0,
            sa_validation_scope = (if production then ''STATEFUL_SEQUENCE_PRODUCTION'' else ''DIAGNOSTIC_SCOPED_EVIDENCE''),
            sa_production_admitted = production, sa_trace_identity = sf_trace_identity files,
            sa_extension_source_sha256 = map (\<lambda>n. (n, sf_sha256_of after n)) EXTENSION_NAMES\<rparr>, bound))))))))"

definition admit_trace :: "ext \<Rightarrow> source_files \<Rightarrow> source_files \<Rightarrow> bool \<Rightarrow> (StatefulAdmission \<times> BoundWork list) res" where
  "admit_trace E files after production =
     chk (sf_library_is_context files)
       (StatefulProviderError ''library'' ''caller library differs from certificate context'') (
     bnd (if production then sf_admit files else Inr ()) (\<lambda>_.
     bnd (sf_validate files) (\<lambda>scoped.
     bnd (read_records (sf_trace_lines files)) (\<lambda>records.
     bnd (start_trace E records) (\<lambda>(st0, rest). admit_run E files after production scoped st0 rest)))))"

text \<open>The exceptions \<^verbatim>\<open>verify_sources\<close> turns into its own.\<close>

definition wrap_source_error :: "unit res \<Rightarrow> unit res" where
  "wrap_source_error r = (case r of
     Inl (OSError m) \<Rightarrow> Inl (StatefulProviderError ''source binding'' m)
   | Inl (SequenceError c op) \<Rightarrow> Inl (StatefulProviderError ''source binding'' op)
   | Inl (StatefulCertificateError b d) \<Rightarrow> Inl (StatefulProviderError ''source binding'' d)
   | _ \<Rightarrow> r)"

definition sources_unchanged :: "StatefulAdmission \<Rightarrow> source_files \<Rightarrow> bool \<Rightarrow> bool" where
  "sources_unchanged adm files publication \<longleftrightarrow>
     sf_certificate_sha256 files = se_certificate_sha256 (sa_scoped adm) \<and>
     sf_trace_identity files = sa_trace_identity adm \<and>
     (publication \<longrightarrow> sf_trace_sha256 files = sa_trace_sha256 adm) \<and>
     sf_binding_sha256 files = sa_binding_sha256 adm \<and> sf_binding_abi_sha256 files = sa_binding_abi_sha256 adm \<and>
     sf_cli_sha256 files = sa_cli_sha256 adm \<and> sf_provider_sha256 files = sa_provider_sha256 adm \<and>
     sf_admission_sha256 files = sa_admission_sha256 adm \<and> sf_validator_sha256 files = sa_validator_sha256 adm \<and>
     list_all (\<lambda>(name, digest). sf_sha256_of files name = digest) (sa_extension_source_sha256 adm)"

definition verify_sources :: "StatefulAdmission \<Rightarrow> source_files \<Rightarrow> 's session \<Rightarrow> bool \<Rightarrow> unit res" where
  "verify_sources adm files ss publication = wrap_source_error (
     chk (sources_unchanged adm files publication)
       (StatefulProviderError ''source binding'' ''certificate, trace, or Python source changed'') (
     bnd (sf_source_identity files (sa_profile adm)) (\<lambda>current.
     bnd (verify_identity ss current) (\<lambda>_.
     if \<not> publication then Inr ()
     else bnd (sf_validate files) (\<lambda>scoped.
       chk (scoped = sa_scoped adm) (StatefulProviderError ''source binding'' ''scoped certificate identity changed'') (
       if sa_production_admitted adm then sf_admit files else Inr ()))))))"

section \<open>What an admission binds\<close>

lemma wrap_source_error_Inr [simp]: "wrap_source_error r = Inr u \<longleftrightarrow> r = Inr u"
  by (auto simp: wrap_source_error_def split: sum.splits py_error.splits)

lemma admit_run_Inr:
  assumes "admit_run E files after production scoped st0 rest = Inr (adm, bound)"
  obtains st works where "trace_run st0 rest = Inr (st, works)" "ended st"
    "bound = map (bind_work E (run_profile (ts_run st))) works" "bound \<noteq> []"
    "if se_state_domain_revision scoped = TAG6_REVISION \<or> certified_corpus (se_state_domain_revision scoped)
          then check_domain after scoped (run_profile (ts_run st)) bound = Inr () else True"
    "sa_scoped adm = scoped" "sa_profile adm = run_profile (ts_run st)" "sa_production_admitted adm = production"
    "sa_work_bindings adm = map (\<lambda>b. (w_identity (bw_trace b), w_parent_id (bw_trace b), nw_request_sha256 (bw_request b))) bound"
proof -
  from assms obtain sw where t: "trace_run st0 rest = Inr sw"
    by (auto simp: admit_run_def chk_eq_Inr bnd_eq_Inr)
  obtain st works where sw: "sw = (st, works)" by (cases sw)
  let ?b = "map (bind_work E (run_profile (ts_run st))) works"
  from assms t sw have r: "bound = ?b" "?b \<noteq> []" "\<exists>s. ts_summary st = Inr s"
    "(if se_state_domain_revision scoped = TAG6_REVISION \<or> certified_corpus (se_state_domain_revision scoped)
          then check_domain after scoped (run_profile (ts_run st)) ?b else Inr ()) = Inr ()"
    and adm: "sa_scoped adm = scoped" "sa_profile adm = run_profile (ts_run st)" "sa_production_admitted adm = production"
    "sa_work_bindings adm = map (\<lambda>b. (w_identity (bw_trace b), w_parent_id (bw_trace b), nw_request_sha256 (bw_request b))) ?b"
    unfolding admit_run_def by (auto simp only: chk_eq_Inr bnd_eq_Inr Let_def prod.case sum.inject prod.inject StatefulAdmission.simps old.unit.exhaust unit_eq)
  have "ended st" using r(3) by (auto simp: ts_summary_def require_eq_Inr)
  moreover have "if se_state_domain_revision scoped = TAG6_REVISION \<or> certified_corpus (se_state_domain_revision scoped)
          then check_domain after scoped (run_profile (ts_run st)) bound = Inr () else True"
    using r(1,4) by (auto split: if_splits)
  ultimately show thesis using r adm t by (intro that [of st works]) (simp_all add: sw)
qed

lemma admit_run_bound:
  assumes "admit_run E files after production scoped (TraceState_init run) rest = Inr (adm, bound)"
  shows "bound \<noteq> [] \<and> map (w_identity \<circ> bw_trace) bound = map int [0..<length bound] \<and>
    map (nw_identity \<circ> bw_request) bound = map (\<lambda>i. ''npu:'' @ str_int (int i)) [0..<length bound] \<and>
    list_all (\<lambda>b. nw_profile (bw_request b) = sa_profile adm \<and> nw_request_sha256 (bw_request b) = work_binding E (bw_trace b)) bound \<and>
    (certified_corpus (se_state_domain_revision scoped) \<longrightarrow>
       (\<exists>d. state_domain (sa_profile adm) (se_state_domain_revision scoped) = Inr d \<and>
            list_all (\<lambda>b. check_work_class d (work_class_of (bw_trace b)) = Inr ()) bound))"
proof -
  from assms obtain st works where t: "trace_run (TraceState_init run) rest = Inr (st, works)"
    and b: "bound = map (bind_work E (run_profile (ts_run st))) works" "bound \<noteq> []"
    and d: "if se_state_domain_revision scoped = TAG6_REVISION \<or> certified_corpus (se_state_domain_revision scoped)
          then check_domain after scoped (run_profile (ts_run st)) bound = Inr () else True"
    and p: "sa_profile adm = run_profile (ts_run st)" by (rule admit_run_Inr)
  have ids: "map w_identity works = map int [0..<length works]"
    using trace_run_count_inv [OF t] by (simp add: count_inv_def)
  have trace: "map bw_trace bound = works" by (simp add: b(1) bind_work_def comp_def)
  have n: "length works = length bound" using trace by auto
  have "map (w_identity \<circ> bw_trace) bound = map int [0..<length bound]" using ids n trace by (metis map_map)
  moreover have "map (nw_identity \<circ> bw_request) bound = map (\<lambda>i. ''npu:'' @ str_int i) (map w_identity works)"
    by (simp add: b(1) bind_work_def comp_def)
  then have "map (nw_identity \<circ> bw_request) bound = map (\<lambda>i. ''npu:'' @ str_int (int i)) [0..<length bound]"
    unfolding ids n by (simp add: comp_def)
  moreover have "list_all (\<lambda>b. nw_profile (bw_request b) = sa_profile adm \<and> nw_request_sha256 (bw_request b) = work_binding E (bw_trace b)) bound"
    by (simp add: b(1) bind_work_def p list_all_iff)
  moreover have "\<exists>d. state_domain (sa_profile adm) (se_state_domain_revision scoped) = Inr d \<and>
      list_all (\<lambda>b. check_work_class d (work_class_of (bw_trace b)) = Inr ()) bound"
    if "certified_corpus (se_state_domain_revision scoped)"
  proof -
    from d that have "check_domain after scoped (run_profile (ts_run st)) bound = Inr ()" by simp
    then obtain dom cs where dom: "check_profile_scope (run_profile (ts_run st)) after scoped = Inr dom"
      and cs: "mapr (\<lambda>b. check_work_class dom (work_class_of (bw_trace b))) bound = Inr cs"
      by (auto simp: check_domain_def bnd_eq_Inr)
    have "list_all (\<lambda>b. check_work_class dom (work_class_of (bw_trace b)) = Inr ()) bound"
      using cs unfolding mapr_Inr_iff by (induction rule: list_all2_induct) auto
    with dom p show ?thesis by (auto simp: check_profile_scope_def bnd_eq_Inr chk_eq_Inr)
  qed
  ultimately show ?thesis using b(2) by blast
qed


section \<open>An admitted trace\<close>

definition ex_scoped :: ScopedEvidence where
  "ex_scoped = \<lparr>se_certificate_sha256 = ''c'', se_library_sha256 = ''l'', se_case_ids = [],
     se_validation_scope = ''SCOPED_EVIDENCE'', se_production_admitted = False, se_state_domain_revision = LEGACY_REVISION\<rparr>"

definition ex_identity :: SourceIdentity where
  "ex_identity = \<lparr>si_profile = ''a8w8-d16-hp1'', si_library_sha256 = ''l'', si_source_sha256 = []\<rparr>"

definition ex_sources :: source_files where
  "ex_sources = \<lparr>sf_library_is_context = True, sf_certificate_sha256 = ''c'', sf_certificate_document = Inr [],
     sf_trace_identity = [1], sf_trace_sha256 = ''t'', sf_trace_lines = [], sf_binding_sha256 = ''b'',
     sf_binding_abi_sha256 = ''a'', sf_cli_sha256 = ''i'', sf_provider_sha256 = ''p'', sf_admission_sha256 = ''m'',
     sf_validator_sha256 = ''v'', sf_sha256_of = (\<lambda>n. n), sf_source_identity = (\<lambda>_. Inr ex_identity),
     sf_validate = Inr ex_scoped, sf_admit = Inr ()\<rparr>"

lemma ex_admission:
  "\<exists>adm. admit_run ex_ext ex_sources ex_sources False ex_scoped (TraceState_init ex_run) ex_trace =
     Inr (adm, map (bind_work ex_ext ''a8w8-d16-hp1'') ex_works) \<and>
     sa_profile adm = ''a8w8-d16-hp1'' \<and> sa_scoped adm = ex_scoped \<and> sources_unchanged adm ex_sources True \<and>
     sa_source_identity adm = ex_identity"
proof -
  have run: "run_trace_version (ts_run (TraceState_init ex_run)) = 2" "run_profile (ts_run ex_final) = ''a8w8-d16-hp1''"
    by (simp_all add: TraceState_init_def ex_run_def ex_final_def ex_state_def)
  obtain x where sum: "ts_summary (ex_final\<lparr>ended := True\<rparr>) = Inr x"
    by (simp add: ts_summary_def require_def)
  have rev: "se_state_domain_revision ex_scoped \<noteq> TAG6_REVISION" "\<not> certified_corpus (se_state_domain_revision ex_scoped)"
    by (simp_all add: ex_scoped_def certified_corpus_def revision_names PROFILE_EXTENSION_REVISIONS_def
        ACTUAL_TRACE_REVISIONS_def INTERLEAVED_TRACE_REVISIONS_def has_key_def)
  have ne: "ex_works \<noteq> []" by (simp add: ex_works_def)
  show ?thesis
    by (simp add: admit_run_def run ex_trace_accepted sum rev ne Let_def ex_sources_def sources_unchanged_def
        EXTENSION_NAMES_def) (simp add: ex_scoped_def)
qed


end
