(* ===== verification/Sequence_Open.thy ===== *)
theory Sequence_Open
  imports Sequence_Admission Cycle_Cli Schedule_Theorems
begin

text \<open>
  Construction of the stateful timing provider of \<^verbatim>\<open>sim/cycle/execution_sequence_provider.py\<close> and the
  opening of its native session, \<^verbatim>\<open>SequenceSession.__enter__\<close> of
  \<^verbatim>\<open>sim/cycle/sequence_binding.py\<close>. The shared library is the parameter \<open>native\<close>; what opening
  a session takes from its environment is the record \<open>session_env\<close>.
\<close>

section \<open>Opening a session\<close>

record Config =
  cf_hardware :: "int list"
  cf_read_ready_period :: int
  cf_budgets :: "(string \<times> int) list"

text \<open>What opening a session takes from its environment: the identity of the sources and of the library, the
  hardware values \<^verbatim>\<open>resolve_profile\<close> gives, the ABI test of the configuration and the native constructor.\<close>

record 's session_env =
  so_profile :: string
  so_identity :: "SourceIdentity res"
  so_hardware :: "int list res"
  so_config_abi :: bool
  so_create :: "Config \<Rightarrow> int \<times> 's"

definition budget_fields :: "Settings \<Rightarrow> (string \<times> int option) list" where
  "budget_fields settings =
     [(''max_work_cycles'', max_work_cycles settings), (''max_session_cycles'', max_session_cycles settings),
      (''max_fragments'', max_fragments settings), (''max_trace_events'', max_trace_events settings),
      (''max_work_ids'', max_work_ids settings)]"

definition set_budget :: "(string \<times> int) list \<Rightarrow> string \<times> int option \<Rightarrow> (string \<times> int) list res" where
  "set_budget budgets = (\<lambda>(name, value). case value of
       None \<Rightarrow> Inr budgets
     | Some v \<Rightarrow> bnd (uint v 64 name) (\<lambda>n. Inr (budgets @ [(name, n)])))"

definition session_config :: "'s session_env \<Rightarrow> Settings \<Rightarrow> Config res" where
  "session_config env settings =
     bnd (so_hardware env) (\<lambda>hardware.
     chk (so_config_abi env) (sequence_error UNSUPPORTED ''config ABI'') (
     bnd (mapr (\<lambda>(name, v). uint v 32 name) (zip HARDWARE_FIELDS hardware)) (\<lambda>hw.
     bnd (uint (read_ready_period settings) 32 ''read_ready_period'') (\<lambda>period.
     bnd (foldm set_budget [] (budget_fields settings)) (\<lambda>budgets.
     Inr \<lparr>cf_hardware = hw, cf_read_ready_period = period, cf_budgets = budgets\<rparr>)))))"

definition session_open :: "'s native \<Rightarrow> 's session_env \<Rightarrow> bool \<Rightarrow> Settings \<Rightarrow> SourceIdentity option \<Rightarrow> 's session res" where
  "session_open N env opened settings expected =
     chk (\<not> opened) (sequence_error INVALID ''session already open'') (
     bnd (so_identity env) (\<lambda>identity.
     chk (expected = None \<or> expected = Some identity) (sequence_error INVALID ''source/library identity changed'') (
     chk (has_key profile_shapes (so_profile env)) (sequence_error UNSUPPORTED ''profile'') (
     bnd (session_config env settings) (\<lambda>config.
     case so_create env config of (created, h) \<Rightarrow>
     bnd (checked created ''create'') (\<lambda>_.
     case nv_reset N h of (reset, h') \<Rightarrow>
     bnd (checked reset ''reset'') (\<lambda>_.
     Inr \<lparr>ss_handle = Some h', ss_identity = identity\<rparr>)))))))"

section \<open>State\<close>

definition MAX_WORK_CYCLES :: int where "MAX_WORK_CYCLES = 10000000"
definition MAX_SESSION_CYCLES :: int where "MAX_SESSION_CYCLES = 1000000000"
definition EVENT_BUFFER_EVENTS :: int where "EVENT_BUFFER_EVENTS = 2 ^ 20"

text \<open>The attributes that never change after construction, and the others.\<close>

record 's provider_config =
  pc_native :: "'s native"
  pc_admission :: StatefulAdmission
  pc_bound :: "BoundWork list"
  pc_limits :: DomainLimits
  pc_offers :: "int list option"
  pc_sink :: bool
  pc_capacity :: int

record 's provider =
  pv_session :: "'s session"
  pv_completed :: "string set"
  pv_invocations :: nat
  pv_previous :: int
  pv_scratchpad_half :: int
  pv_accumulator_half :: int
  pv_faulted :: bool
  pv_closed :: bool
  pv_events :: "int list"

definition requests :: "'s provider_config \<Rightarrow> NpuWork list" where
  "requests C = map bw_request (pc_bound C)"

definition revision_of :: "'s provider_config \<Rightarrow> string" where
  "revision_of C = se_state_domain_revision (sa_scoped (pc_admission C))"

definition provider_error :: "string \<Rightarrow> string \<Rightarrow> py_error" where
  "provider_error boundary detail = StatefulProviderError boundary detail"

section \<open>Construction\<close>

definition in_budget :: "int option \<Rightarrow> int \<Rightarrow> bool" where
  "in_budget v limit = (case v of None \<Rightarrow> True | Some n \<Rightarrow> 0 < n \<and> n \<le> limit)"

text \<open>\<^verbatim>\<open>value or default\<close> on an optional integer.\<close>

definition or_default :: "int option \<Rightarrow> int \<Rightarrow> int" where
  "or_default v d = (case v of None \<Rightarrow> d | Some n \<Rightarrow> if n = 0 then d else n)"

definition work_limit :: "string \<Rightarrow> int" where
  "work_limit revision = (if revision = TAG6_REVISION then MAX_SESSION_CYCLES else MAX_WORK_CYCLES)"

definition check_settings :: "string \<Rightarrow> bool \<Rightarrow> Settings \<Rightarrow> unit res" where
  "check_settings revision sink settings =
     chk (read_ready_period settings = 5 \<and> in_budget (max_work_cycles settings) (work_limit revision) \<and>
          in_budget (max_session_cycles settings) MAX_SESSION_CYCLES \<and>
          (sink \<longrightarrow> in_budget (max_trace_events settings) EVENT_BUFFER_EVENTS))
       (provider_error ''reference memory'' ''unsupported period, cycle or event budget'') (Inr ())"

definition event_capacity :: "bool \<Rightarrow> Settings \<Rightarrow> int" where
  "event_capacity sink settings = (if sink then or_default (max_trace_events settings) EVENT_BUFFER_EVENTS else 0)"

definition session_limits :: "string \<Rightarrow> bool \<Rightarrow> Settings \<Rightarrow> Settings" where
  "session_limits revision sink settings =
     \<lparr>read_ready_period = 5,
      max_work_cycles = Some (or_default (max_work_cycles settings) (work_limit revision)),
      max_session_cycles = Some (or_default (max_session_cycles settings) MAX_SESSION_CYCLES),
      max_fragments = max_fragments settings,
      max_trace_events = (if event_capacity sink settings = 0 then max_trace_events settings
                          else Some (event_capacity sink settings)),
      max_work_ids = max_work_ids settings\<rparr>"

definition certified_offers :: "source_files \<Rightarrow> int list res" where
  "certified_offers files =
     bnd (sf_certificate_document files) (\<lambda>document.
     bnd (item document ''issue_sequence'') (\<lambda>sv.
     bnd (certificate_object sv ''issue sequence'') (\<lambda>sequence.
     bnd (item sequence ''port_offer_cycles'') (\<lambda>ov.
     bnd (certificate_array ov ''offers'') (\<lambda>offers.
     mapr (\<lambda>value. integer [(''cycle'', value)] ''cycle'') offers)))))"

definition interleaved_offers :: "source_files \<Rightarrow> string \<Rightarrow> nat \<Rightarrow> int list option res" where
  "interleaved_offers files revision works =
     (if has_key INTERLEAVED_TRACE_REVISIONS revision then
        bnd (certified_offers files) (\<lambda>offers.
        chk (length offers = works)
          (provider_error ''interleaved offer policy'' ''certified issue sequence coverage differs'') (Inr (Some offers)))
      else Inr None)"

definition cold :: "DomainSnapshot \<Rightarrow> bool" where
  "cold d \<longleftrightarrow> (dm_generation d, dm_cursor d, dm_resource_ready d, dm_row_count d, dm_tag_count d,
     dm_max_tag_occupancy d, dm_ready_violation_mask d) = (1, 0, 1, 0, 0, 0, 0)"

definition provider_start :: "'s session \<Rightarrow> 's provider" where
  "provider_start ss = \<lparr>pv_session = ss, pv_completed = {}, pv_invocations = 0, pv_previous = 0, pv_scratchpad_half = 0,
     pv_accumulator_half = 0, pv_faulted = False, pv_closed = False, pv_events = []\<rparr>"

text \<open>The constructor once the trace is admitted; the session it opens is closed again when the native reset
  state differs, and the exception is all that is left.\<close>

definition provider_init :: "'s native \<Rightarrow> 's session_env \<Rightarrow> source_files \<Rightarrow> bool \<Rightarrow> Settings \<Rightarrow> StatefulAdmission \<Rightarrow>
    BoundWork list \<Rightarrow> ('s provider_config \<times> 's provider) res" where
  "provider_init N env files sink settings adm bws =
     (let revision = se_state_domain_revision (sa_scoped adm) in
      bnd (state_domain (sa_profile adm) revision) (\<lambda>domain.
      bnd (check_settings revision sink settings) (\<lambda>_.
      bnd (interleaved_offers files revision (length bws)) (\<lambda>offers.
      bnd (session_open N env False (session_limits revision sink settings) (Some (sa_source_identity adm))) (\<lambda>ss.
      bnd (ss_domain_snapshot N ss) (\<lambda>snapshot.
      chk (cold snapshot) (provider_error ''initial state'' ''native cold reset differs'') (
      Inr (\<lparr>pc_native = N, pc_admission = adm, pc_bound = bws, pc_limits = sd_limits domain, pc_offers = offers,
             pc_sink = sink, pc_capacity = event_capacity sink settings\<rparr>, provider_start ss))))))))"

definition provider_open :: "ext \<Rightarrow> 's native \<Rightarrow> 's session_env \<Rightarrow> source_files \<Rightarrow> source_files \<Rightarrow> bool \<Rightarrow> bool \<Rightarrow> Settings \<Rightarrow>
    ('s provider_config \<times> 's provider) res" where
  "provider_open E N env files after production sink settings =
     bnd (admit_trace E files after production) (\<lambda>(adm, bws). provider_init N env files sink settings adm bws)"

definition provider_enter :: "'s provider \<Rightarrow> unit res" where
  "provider_enter p = chk (\<not> pv_closed p) (provider_error ''closed'' ''provider cannot reopen'') (Inr ())"

definition provider_close :: "'s provider \<Rightarrow> 's provider" where
  "provider_close p = (if pv_closed p then p else p\<lparr>pv_session := ss_close (pv_session p), pv_closed := True\<rparr>)"

definition native_cursor :: "'s provider_config \<Rightarrow> 's provider \<Rightarrow> int res" where
  "native_cursor C p = bnd (ss_status (pc_native C) (pv_session p)) (\<lambda>status. Inr (st_cursor status))"

end
