(* ===== verification/Sequence_Provider.thy ===== *)
theory Sequence_Provider
  imports Sequence_Open
begin

text \<open>
  The operations of the stateful timing provider, \<^verbatim>\<open>sim/cycle/execution_sequence_provider.py\<close>: it offers
  the works of an admitted trace to one native session, one at a time and in order, and checks every report
  against the admitted domain.

  A call of \<open>execute_work\<close> returns the result, or the exception, together with the provider the caller is
  left with; not returning is the value \<open>None\<close>. The event sink is the list of the counts delivered to it.
\<close>

section \<open>Draining events\<close>

definition Code_name :: "Code \<Rightarrow> string" where
  "Code_name c = (case c of OK \<Rightarrow> ''OK'' | INCOMPLETE \<Rightarrow> ''INCOMPLETE'' | WOULD_BLOCK \<Rightarrow> ''WOULD_BLOCK''
     | INVALID \<Rightarrow> ''INVALID'' | UNSUPPORTED \<Rightarrow> ''UNSUPPORTED'' | OVERFLOW \<Rightarrow> ''OVERFLOW'' | LIMIT \<Rightarrow> ''LIMIT''
     | INTERNAL \<Rightarrow> ''INTERNAL'' | FAULTED \<Rightarrow> ''FAULTED'')"

partial_function (option) drain_loop :: "'s native \<Rightarrow> int \<Rightarrow> 's session \<Rightarrow> int list \<Rightarrow> (unit res \<times> 's session \<times> int list) option" where
  "drain_loop N capacity ss events =
     (case handle ss of Inl e \<Rightarrow> Some (Inl e, ss, events)
      | Inr h \<Rightarrow> (case nv_read_events N h capacity of (raw, count, h') \<Rightarrow>
          let ss' = ss\<lparr>ss_handle := Some h'\<rparr> in
          (case Code_of raw of None \<Rightarrow> Some (Inl (ValueError ''not a valid Code''), ss', events)
           | Some code \<Rightarrow>
               if code \<noteq> OK \<or> count > capacity
               then Some (Inl (provider_error ''native events'' (''event drain failed: '' @ Code_name code)), ss', events)
               else if count = 0 then Some (Inr (), ss', events)
               else drain_loop N capacity ss' (events @ [count]))))"

definition drain_events :: "'s provider_config \<Rightarrow> 's session \<Rightarrow> int list \<Rightarrow> (unit res \<times> 's session \<times> int list) option" where
  "drain_events C ss events =
     (if \<not> pc_sink C \<or> pc_capacity C = 0 then Some (Inr (), ss, events)
      else drain_loop (pc_native C) (pc_capacity C) ss events)"

section \<open>Checks before and after a transition\<close>

definition busy :: "Status \<Rightarrow> bool" where
  "busy status \<longleftrightarrow> st_has_pending status \<noteq> 0 \<or> st_has_active status \<noteq> 0 \<or> st_has_report status \<noteq> 0 \<or> st_faulted status \<noteq> 0"

definition tags_retired :: "DomainSnapshot \<Rightarrow> bool" where
  "tags_retired d \<longleftrightarrow> list_all (\<lambda>tag. dt_rob_valid tag = 0) (take (nat (dm_tag_count d)) (dm_tags d))"

definition offer_policy :: "'s provider_config \<Rightarrow> 's provider \<Rightarrow> int \<Rightarrow> unit res" where
  "offer_policy C p offered =
     (case pc_offers C of
        Some offers \<Rightarrow> chk (offered = offers ! pv_invocations p)
          (provider_error ''interleaved offer policy'' ''offer differs from the certified CPU/NPU issue sequence'') (Inr ())
      | None \<Rightarrow> chk (back_to_back (revision_of C) \<longrightarrow> offered = pv_previous p)
          (provider_error ''Tag6 offer policy'' ''only certified back-to-back NPU offers are supported'') (Inr ()))"

definition ready_domain :: "'s provider_config \<Rightarrow> 's provider \<Rightarrow> Status \<Rightarrow> DomainSnapshot \<Rightarrow> RowPressure \<Rightarrow> bool" where
  "ready_domain C p status d rows \<longleftrightarrow>
     st_generation status = dm_generation d \<and> dm_generation d = rp_generation rows \<and> rp_generation rows = 1 \<and>
     st_cursor status = dm_cursor d \<and> dm_cursor d = rp_cursor rows \<and> rp_cursor rows = pv_previous p \<and>
     dm_resource_ready d = 1 \<and> dm_ready_violation_mask d = ready_violation_mask (pc_limits C) \<and>
     dm_max_tag_occupancy d \<le> max_tag_occupancy (pc_limits C) \<and> dm_tag_count d \<le> 6 \<and> tags_retired d \<and>
     dm_row_count d = rp_row_count rows \<and> rp_row_count rows \<le> rp_max_row_occupancy rows \<and>
     rp_max_row_occupancy rows < max_row_occupancy_exclusive (pc_limits C) \<and>
     (st_next_scratchpad_half status, st_next_accumulator_half status) = (pv_scratchpad_half p, pv_accumulator_half p)"

text \<open>The checks of \<open>execute\<close> before the work is offered: nothing is changed. \<open>files\<close> is what the look at
  the sources gives at this call.\<close>

definition execute_checks :: "'s provider_config \<Rightarrow> source_files \<Rightarrow> 's provider \<Rightarrow> NpuWork \<Rightarrow> int \<Rightarrow> BoundWork res" where
  "execute_checks C files p work offered =
     chk (\<not> pv_faulted p) (provider_error ''FAULTED'' ''native transition already failed'') (
     chk (\<not> pv_closed p) (provider_error ''closed'' ''provider cannot execute'') (
     chk (pv_invocations p < length (pc_bound C)) (provider_error ''work order'' ''all declared trace works completed'') (
     let bound_work = pc_bound C ! pv_invocations p; N = pc_native C; ss = pv_session p in
     chk (work = bw_request bound_work) (provider_error ''request binding'' ''duplicate, reordered, or changed work'') (
     bnd (ss_status N ss) (\<lambda>status.
     chk (st_cursor status \<le> offered \<and> pv_previous p \<le> offered \<and> offered < 2 ^ 64 \<and> \<not> busy status)
       (provider_error ''offer epoch'' ''offer precedes native cursor/resource or state is busy'') (
     bnd (offer_policy C p offered) (\<lambda>_.
     bnd (verify_sources (pc_admission C) files ss False) (\<lambda>_.
     bnd (ss_domain_snapshot N ss) (\<lambda>d.
     bnd (ss_row_pressure N ss) (\<lambda>rows.
     chkr (if ready_domain C p status d rows
           then bnd (ss_counters N ss) (\<lambda>c. Inr (ct_logical_work_count c = int (pv_invocations p))) else Inr False)
       (provider_error ''pre-transition domain'' ''native state outside admitted W/S'') (
     Inr bound_work)))))))))))"

definition report_ok :: "DomainLimits \<Rightarrow> BoundWork \<Rightarrow> int \<Rightarrow> Status \<Rightarrow> DomainSnapshot \<Rightarrow> RowPressure \<Rightarrow> Report \<Rightarrow> bool" where
  "report_ok limits bw offered status d rows r \<longleftrightarrow>
     (let counts = rep_counters r in
      rep_generation r = st_generation status \<and> st_generation status = dm_generation d \<and> dm_generation d = 1 \<and>
      st_cursor status = dm_cursor d \<and> dm_cursor d = rep_resource_ready_cycle r \<and>
      st_has_report status = dm_resource_ready d \<and> dm_resource_ready d = 1 \<and>
      st_has_pending status = st_has_active status \<and> st_has_active status = st_faulted status \<and> st_faulted status = 0 \<and>
      rep_logical_work_id r = w_identity (bw_trace bw) \<and> rep_offered_cycle r = offered \<and>
      offered \<le> rep_accepted_cycle r \<and> rep_accepted_cycle r < rep_result_ready_cycle r \<and>
      rep_result_ready_cycle r \<le> rep_final_scale_release_cycle r \<and>
      rep_final_scale_release_cycle r \<le> rep_resource_ready_cycle r \<and>
      ct_logical_work_count counts = 1 \<and> ct_start_cycle counts = rep_accepted_cycle r \<and>
      ct_done_cycle counts = rep_result_ready_cycle r \<and>
      ct_total_cycles counts = rep_result_ready_cycle r - rep_accepted_cycle r \<and>
      ct_load_request_count counts = ct_load_response_count counts \<and>
      ct_store_request_count counts = ct_store_response_count counts \<and>
      ct_scale_request_count counts = ct_scale_response_count counts \<and>
      dm_max_tag_occupancy d \<le> max_tag_occupancy limits \<and> dm_ready_violation_mask d = ready_violation_mask limits \<and>
      dm_tag_count d \<le> 6 \<and> tags_retired d \<and>
      rp_generation rows = dm_generation d \<and> rp_cursor rows = dm_cursor d \<and> rp_row_count rows = dm_row_count d \<and>
      rp_row_count rows \<le> rp_max_row_occupancy rows \<and> rp_max_row_occupancy rows < max_row_occupancy_exclusive limits \<and>
      (rep_next_scratchpad_half r, rep_next_accumulator_half r) = (st_next_scratchpad_half status, st_next_accumulator_half status) \<and>
      rep_next_scratchpad_half r \<in> {0, 1} \<and> rep_next_accumulator_half r \<in> {0, 1})"

text \<open>\<^verbatim>\<open>asdict\<close> of the admission, and what the scheduler sees of it.\<close>

definition scoped_record :: "ScopedEvidence \<Rightarrow> Record" where
  "scoped_record s =
     [(''certificate_sha256'', JStr (se_certificate_sha256 s)), (''library_sha256'', JStr (se_library_sha256 s)),
      (''case_ids'', JArr (map JStr (se_case_ids s))), (''validation_scope'', JStr (se_validation_scope s)),
      (''production_admitted'', JBool (se_production_admitted s)),
      (''state_domain_revision'', JStr (se_state_domain_revision s))]"

definition identity_record :: "SourceIdentity \<Rightarrow> Record" where
  "identity_record s =
     [(''profile'', JStr (si_profile s)), (''library_sha256'', JStr (si_library_sha256 s)),
      (''source_sha256'', JArr (map (\<lambda>(n, d). JArr [JStr n, JStr d]) (si_source_sha256 s)))]"

definition admission_record :: "StatefulAdmission \<Rightarrow> Record" where
  "admission_record a =
     [(''scoped'', JObj (scoped_record (sa_scoped a))), (''trace_sha256'', JStr (sa_trace_sha256 a)),
      (''source_identity'', JObj (identity_record (sa_source_identity a))),
      (''binding_sha256'', JStr (sa_binding_sha256 a)), (''binding_abi_sha256'', JStr (sa_binding_abi_sha256 a)),
      (''cli_sha256'', JStr (sa_cli_sha256 a)), (''provider_sha256'', JStr (sa_provider_sha256 a)),
      (''admission_sha256'', JStr (sa_admission_sha256 a)), (''validator_sha256'', JStr (sa_validator_sha256 a)),
      (''profile'', JStr (sa_profile a)),
      (''work_bindings'', JArr (map (\<lambda>(i, parent, digest). JArr [JInt i, JInt parent, JStr digest]) (sa_work_bindings a))),
      (''read_ready_period'', JInt (sa_read_ready_period a)),
      (''initial_scratchpad_half'', JInt (sa_initial_scratchpad_half a)),
      (''initial_accumulator_half'', JInt (sa_initial_accumulator_half a)),
      (''validation_scope'', JStr (sa_validation_scope a)), (''production_admitted'', JBool (sa_production_admitted a)),
      (''trace_identity'', JArr (map JInt (sa_trace_identity a))),
      (''extension_source_sha256'', JArr (map (\<lambda>(n, d). JArr [JStr n, JStr d]) (sa_extension_source_sha256 a)))]"

definition admission_view :: "StatefulAdmission \<Rightarrow> admission" where
  "admission_view a =
     \<lparr>ad_production = sa_production_admitted a, ad_profile = sa_profile a, ad_work_count = int (length (sa_work_bindings a)),
      ad_validation_scope = sa_validation_scope a, ad_certificate_sha256 = se_certificate_sha256 (sa_scoped a),
      ad_record = admission_record a\<rparr>"

definition window_of :: "StatefulAdmission \<Rightarrow> BoundWork \<Rightarrow> int \<Rightarrow> DomainSnapshot \<Rightarrow> RowPressure \<Rightarrow> Report \<Rightarrow> StatefulWindow" where
  "window_of adm bw offered d rows r =
     \<lparr>win_work = bw_request bw, win_offered_cycle = offered, win_accepted_cycle = rep_accepted_cycle r,
      win_result_ready_cycle = rep_result_ready_cycle r, win_final_scale_release_cycle = rep_final_scale_release_cycle r,
      win_resource_ready_cycle = rep_resource_ready_cycle r, win_next_scratchpad_half = rep_next_scratchpad_half r,
      win_next_accumulator_half = rep_next_accumulator_half r, win_max_tag_occupancy = dm_max_tag_occupancy d,
      win_max_row_occupancy = rp_max_row_occupancy rows, win_admission = admission_view adm\<rparr>"

definition check_report :: "'s provider_config \<Rightarrow> 's session \<Rightarrow> BoundWork \<Rightarrow> int \<Rightarrow> StatefulWindow res \<times> 's session" where
  "check_report C ss bw offered =
     (let N = pc_native C in
      case bnd (ss_status N ss) (\<lambda>status. bnd (ss_domain_snapshot N ss) (\<lambda>d. bnd (ss_row_pressure N ss) (\<lambda>rows.
             Inr (status, d, rows)))) of
        Inl e \<Rightarrow> (Inl e, ss)
      | Inr (status, d, rows) \<Rightarrow> (case ss_pop_report N ss of (popped, ss') \<Rightarrow>
          (bnd popped (\<lambda>ro. case ro of
             None \<Rightarrow> Inl (provider_error ''native report'' ''missing completed work'')
           | Some r \<Rightarrow>
               chk (report_ok (pc_limits C) bw offered status d rows r)
                 (provider_error ''post-transition domain'' ''native report or drained state outside W/S'') (
               Inr (window_of (pc_admission C) bw offered d rows r))), ss')))"

section \<open>Executing a work\<close>

definition sequence_work :: "'s provider_config \<Rightarrow> BoundWork \<Rightarrow> SequenceWork" where
  "sequence_work C bw =
     \<lparr>sw_logical_work_id = w_identity (bw_trace bw), sw_inputs = w_inputs (bw_trace bw),
      sw_original_k = w_original_k (bw_trace bw), sw_runs = w_runs (bw_trace bw), sw_submission = 0,
      sw_record_events = pc_sink C\<rparr>"

text \<open>The loop that advances the session to the report.\<close>

partial_function (option) advance_loop :: "'s provider_config \<Rightarrow> 's session \<Rightarrow> int list \<Rightarrow>
    (unit res \<times> 's session \<times> int list) option" where
  "advance_loop C ss events =
     (case ss_advance_to_boundary (pc_native C) ss MAX_SESSION_CYCLES 65536 of (advanced, ss1) \<Rightarrow>
      (case advanced of Inl e \<Rightarrow> Some (Inl e, ss1, events)
       | Inr code \<Rightarrow>
      (case ss_status (pc_native C) ss1 of Inl e \<Rightarrow> Some (Inl e, ss1, events)
       | Inr status \<Rightarrow>
         let stop = st_stop_reason status in
         if code = OK then
           (if stop \<noteq> StopReason_value REPORT_AVAILABLE
            then Some (Inl (provider_error ''native advance'' ''report boundary missing''), ss1, events)
            else Some (Inr (), ss1, events))
         else if pc_sink C \<and> code = WOULD_BLOCK \<and> stop = StopReason_value EVENT_BUFFER_AVAILABLE then
           (case drain_events C ss1 events of
              None \<Rightarrow> None
            | Some (drained, ss2, events2) \<Rightarrow>
                (case drained of Inl e \<Rightarrow> Some (Inl e, ss2, events2) | Inr _ \<Rightarrow> advance_loop C ss2 events2))
         else if code \<noteq> INCOMPLETE \<or> stop \<noteq> StopReason_value SOFT_BUDGET
           then Some (Inl (provider_error ''native advance'' (''unexpected '' @ Code_name code)), ss1, events)
         else advance_loop C ss1 events)))"

text \<open>The body of the \<^verbatim>\<open>try\<close>: the window, or the exception, with the session and the sink.\<close>

definition transition :: "'s provider_config \<Rightarrow> 's session \<Rightarrow> int list \<Rightarrow> BoundWork \<Rightarrow> int \<Rightarrow>
    (StatefulWindow res \<times> 's session \<times> int list) option" where
  "transition C ss events bw offered =
     (case advance_loop C ss events of
        None \<Rightarrow> None
      | Some (advanced, ss1, events1) \<Rightarrow>
          (case advanced of Inl e \<Rightarrow> Some (Inl e, ss1, events1)
           | Inr _ \<Rightarrow>
          (case check_report C ss1 bw offered of (reported, ss2) \<Rightarrow>
          (case reported of Inl e \<Rightarrow> Some (Inl e, ss2, events1)
           | Inr window \<Rightarrow>
          (case drain_events C ss2 events1 of
             None \<Rightarrow> None
           | Some (drained, ss3, events3) \<Rightarrow> Some (bnd drained (\<lambda>_. Inr window), ss3, events3))))))"

definition commit_window :: "'s provider \<Rightarrow> NpuWork \<Rightarrow> StatefulWindow \<Rightarrow> 's provider" where
  "commit_window p work window =
     p\<lparr>pv_completed := insert (nw_identity work) (pv_completed p), pv_invocations := pv_invocations p + 1,
       pv_previous := win_resource_ready_cycle window, pv_scratchpad_half := win_next_scratchpad_half window,
       pv_accumulator_half := win_next_accumulator_half window\<rparr>"

definition execute_work :: "'s provider_config \<Rightarrow> source_files \<Rightarrow> 's provider \<Rightarrow> NpuWork \<Rightarrow> int \<Rightarrow>
    (StatefulWindow res \<times> 's provider) option" where
  "execute_work C files p work offered =
     (case execute_checks C files p work offered of
        Inl e \<Rightarrow> Some (Inl e, p)
      | Inr bw \<Rightarrow>
     (case ss_offer (pc_native C) (pv_session p) (sequence_work C bw) offered of (answer, ss) \<Rightarrow>
     (let p1 = p\<lparr>pv_session := ss\<rparr> in
      case answer of
        Inl e \<Rightarrow> Some (Inl e, p1)
      | Inr code \<Rightarrow>
          if code \<noteq> OK then Some (Inl (provider_error ''native offer'' ''work was not accepted into pending state''), p1)
          else (case transition C ss (pv_events p) bw offered of
            None \<Rightarrow> None
          | Some (result, ss', events') \<Rightarrow>
              let p2 = p1\<lparr>pv_session := ss', pv_events := events'\<rparr> in
              (case result of
                 Inl e \<Rightarrow> Some (Inl e, p2\<lparr>pv_faulted := True\<rparr>)
               | Inr window \<Rightarrow> Some (Inr window, commit_window p2 work window))))))"

section \<open>Completion\<close>

definition completion_ok :: "'s provider_config \<Rightarrow> source_files \<Rightarrow> 's provider \<Rightarrow> unit res" where
  "completion_ok C files p =
     (let N = pc_native C; ss = pv_session p in
      bnd (verify_sources (pc_admission C) files ss True) (\<lambda>_.
      bnd (ss_status N ss) (\<lambda>status.
      chkr (allr [Inr (\<not> busy status), bnd (ss_counters N ss) (\<lambda>c. Inr (ct_logical_work_count c = int (pv_invocations p))),
                  bnd (ss_event_count N ss) (\<lambda>n. Inr (n = 0))])
        (provider_error ''completion'' ''native session has unfinished work'') (Inr ()))))"

definition verify_complete :: "'s provider_config \<Rightarrow> source_files \<Rightarrow> 's provider \<Rightarrow> unit res \<times> 's provider" where
  "verify_complete C files p =
     (if pv_faulted p \<or> pv_closed p \<or> pv_invocations p \<noteq> length (pc_bound C) \<or>
         pv_completed p \<noteq> set (map nw_identity (requests C))
      then (Inl (provider_error ''completion'' ''session faulted, closed, or trace work omitted''), p)
      else (case completion_ok C files p of
              Inl e \<Rightarrow> (Inl e, p\<lparr>pv_faulted := True\<rparr>)
            | Inr _ \<Rightarrow> (Inr (), p)))"

section \<open>The provider as the scheduler sees it\<close>

text \<open>A call that does not return is the error \<open>OutOfFuel\<close> here; \<open>execute_work\<close> keeps them apart.\<close>

definition sequence_provider :: "'s provider_config \<Rightarrow> source_files \<Rightarrow> bool \<Rightarrow> 's provider timing_provider" where
  "sequence_provider C files production =
     \<lparr>tp_class = (if production then SequenceProvider else DiagnosticProvider),
      tp_admission = Some (admission_view (pc_admission C)),
      tp_requests = map nw_identity (requests C), tp_scope = [], tp_completed = pv_completed,
      tp_previous = pv_previous,
      tp_estimate = (\<lambda>p work cycle. Inl (TypeError ''object has no attribute estimate'')),
      tp_execute = (\<lambda>p work cycle. case execute_work C files p work cycle of
          None \<Rightarrow> Inl OutOfFuel
        | Some (result, p') \<Rightarrow> bnd result (\<lambda>window. Inr (window, p'))),
      tp_verify_complete = (\<lambda>p. fst (verify_complete C files p))\<rparr>"

end
