(* ===== verification/Provider_Theorems.thy ===== *)
theory Provider_Theorems
  imports Sequence_Provider
begin

text \<open>
  Correctness of the stateful provider: one call of \<open>execute_work\<close>, the life of a provider as a step relation
  with its invariant, the end of the loops, and the timing contract of the scheduler.
\<close>

section \<open>One call\<close>

lemma verify_sources_partial: "verify_sources adm files ss False = Inr u \<Longrightarrow> sources_unchanged adm files False"
  by (auto simp: verify_sources_def chk_eq_Inr bnd_eq_Inr)

lemma execute_checks_Inr:
  assumes "execute_checks C files p work offered = Inr bw"
  shows "\<not> pv_faulted p \<and> \<not> pv_closed p \<and> pv_invocations p < length (pc_bound C) \<and> bw = pc_bound C ! pv_invocations p \<and>
    work = bw_request bw \<and> pv_previous p \<le> offered \<and> offered < 2 ^ 64 \<and> offer_policy C p offered = Inr () \<and>
    sources_unchanged (pc_admission C) files False"
  using assms unfolding execute_checks_def Let_def
  by (auto simp: chk_eq_Inr bnd_eq_Inr chkr_eq_Inr dest: verify_sources_partial)

text \<open>The window a checked report gives.\<close>

definition window_ok :: "DomainLimits \<Rightarrow> StatefulWindow \<Rightarrow> bool" where
  "window_ok limits w \<longleftrightarrow>
     win_offered_cycle w \<le> win_accepted_cycle w \<and> win_accepted_cycle w < win_result_ready_cycle w \<and>
     win_result_ready_cycle w \<le> win_final_scale_release_cycle w \<and>
     win_final_scale_release_cycle w \<le> win_resource_ready_cycle w \<and>
     win_max_tag_occupancy w \<le> max_tag_occupancy limits \<and> win_max_row_occupancy w < max_row_occupancy_exclusive limits \<and>
     win_next_scratchpad_half w \<in> {0, 1} \<and> win_next_accumulator_half w \<in> {0, 1}"

lemma check_report_Inr:
  assumes "check_report C ss bw offered = (Inr w, ss')"
  shows "window_ok (pc_limits C) w \<and> win_work w = bw_request bw \<and> win_offered_cycle w = offered"
proof -
  from assms obtain status d rows popped where p: "ss_pop_report (pc_native C) ss = (popped, ss')"
    and w: "bnd popped (\<lambda>ro. case ro of None \<Rightarrow> Inl (provider_error ''native report'' ''missing completed work'')
      | Some r \<Rightarrow> chk (report_ok (pc_limits C) bw offered status d rows r)
          (provider_error ''post-transition domain'' ''native report or drained state outside W/S'') (
        Inr (window_of (pc_admission C) bw offered d rows r))) = Inr w"
    unfolding check_report_def Let_def by (auto split: sum.splits prod.splits)
  then obtain r where "report_ok (pc_limits C) bw offered status d rows r" "w = window_of (pc_admission C) bw offered d rows r"
    by (auto simp: bnd_eq_Inr chk_eq_Inr split: option.splits)
  then show ?thesis unfolding report_ok_def window_ok_def window_of_def Let_def prod.inject by (elim conjE) simp
qed

lemma transition_Inr:
  assumes "transition C ss events bw offered = Some (Inr w, ss', events')"
  shows "window_ok (pc_limits C) w \<and> win_work w = bw_request bw \<and> win_offered_cycle w = offered"
  using assms unfolding transition_def
  by (auto simp: bnd_eq_Inr split: option.splits sum.splits prod.splits dest: check_report_Inr)

lemma execute_work_Inr:
  assumes "execute_work C files p work offered = Some (Inr w, p')"
  shows "execute_checks C files p work offered = Inr (pc_bound C ! pv_invocations p) \<and>
    window_ok (pc_limits C) w \<and> win_work w = work \<and> win_offered_cycle w = offered \<and>
    (\<exists>ss ev. p' = commit_window (p\<lparr>pv_session := ss, pv_events := ev\<rparr>) work w)"
proof -
  from assms obtain bw where c: "execute_checks C files p work offered = Inr bw"
    by (auto simp: execute_work_def split: sum.splits)
  note facts = execute_checks_Inr [OF c]
  obtain answer ss where o: "ss_offer (pc_native C) (pv_session p) (sequence_work C bw) offered = (answer, ss)" by fastforce
  from assms c o have a: "answer = Inr OK" by (auto simp: execute_work_def Let_def split: sum.splits if_splits)
  with assms c o obtain result ss' ev' where t: "transition C ss (pv_events p) bw offered = Some (result, ss', ev')"
    by (auto simp: execute_work_def Let_def split: option.splits)
  from assms c o a t have r: "result = Inr w"
    and p': "p' = commit_window (p\<lparr>pv_session := ss', pv_events := ev'\<rparr>) work w"
    by (auto simp: execute_work_def Let_def split: sum.splits)
  from transition_Inr [OF t [unfolded r]] facts c p' show ?thesis by auto
qed

text \<open>A call that raises.\<close>

lemma execute_work_Inl:
  assumes "execute_work C files p work offered = Some (Inl e, p')"
  shows "(execute_checks C files p work offered = Inl e \<and> p' = p) \<or>
    (\<exists>bw answer ss. execute_checks C files p work offered = Inr bw \<and>
       ss_offer (pc_native C) (pv_session p) (sequence_work C bw) offered = (answer, ss) \<and>
       (if answer = Inr OK then \<exists>ss' ev. p' = p\<lparr>pv_session := ss', pv_events := ev, pv_faulted := True\<rparr>
        else p' = p\<lparr>pv_session := ss\<rparr>))"
proof (cases "execute_checks C files p work offered")
  case (Inl f)
  with assms show ?thesis by (simp add: execute_work_def)
next
  case (Inr bw)
  obtain answer ss where o: "ss_offer (pc_native C) (pv_session p) (sequence_work C bw) offered = (answer, ss)" by fastforce
  show ?thesis
  proof (cases "answer = Inr OK")
    case True
    with assms Inr o obtain result ss' ev' where t: "transition C ss (pv_events p) bw offered = Some (result, ss', ev')"
      by (auto simp: execute_work_def Let_def split: option.splits)
    with assms Inr o True show ?thesis by (auto simp: execute_work_def Let_def split: sum.splits)
  next
    case False
    with assms Inr o show ?thesis by (auto simp: execute_work_def Let_def split: sum.splits if_splits)
  qed
qed

section \<open>The life of a provider\<close>

text \<open>One call from outside, with the windows it returns.\<close>

inductive provider_step :: "'s provider_config \<Rightarrow> 's provider \<Rightarrow> StatefulWindow list \<Rightarrow> 's provider \<Rightarrow> bool"
  for C :: "'s provider_config" where
  executed: "execute_work C files p work offered = Some (Inr w, p') \<Longrightarrow> provider_step C p [w] p'"
| raised: "execute_work C files p work offered = Some (Inl e, p') \<Longrightarrow> provider_step C p [] p'"
| verified: "verify_complete C files p = (r, p') \<Longrightarrow> provider_step C p [] p'"
| closed: "provider_step C p [] (provider_close p)"

inductive_cases provider_stepE: "provider_step C p ws p'"

inductive provider_run :: "'s provider_config \<Rightarrow> 's provider \<Rightarrow> StatefulWindow list \<Rightarrow> 's provider \<Rightarrow> bool"
  for C :: "'s provider_config" and p0 :: "'s provider" where
  start: "provider_run C p0 [] p0"
| step: "provider_run C p0 ws p \<Longrightarrow> provider_step C p us p' \<Longrightarrow> provider_run C p0 (ws @ us) p'"

text \<open>Windows one after the other from cycle \<open>t\<close>.\<close>

fun windows_from :: "int \<Rightarrow> StatefulWindow list \<Rightarrow> bool" where
  "windows_from t [] = True"
| "windows_from t (w # ws) = (t \<le> win_offered_cycle w \<and> windows_from (win_resource_ready_cycle w) ws)"

definition end_cycle :: "StatefulWindow list \<Rightarrow> int" where
  "end_cycle ws = (if ws = [] then 0 else win_resource_ready_cycle (last ws))"

lemma windows_from_snoc:
  "windows_from t (ws @ [w]) \<longleftrightarrow> windows_from t ws \<and> (if ws = [] then t else end_cycle ws) \<le> win_offered_cycle w"
  by (induction ws arbitrary: t) (auto simp: end_cycle_def)

definition provider_inv :: "'s provider_config \<Rightarrow> StatefulWindow list \<Rightarrow> 's provider \<Rightarrow> bool" where
  "provider_inv C ws p \<longleftrightarrow>
     pv_invocations p = length ws \<and> length ws \<le> length (pc_bound C) \<and> map win_work ws = take (length ws) (requests C) \<and>
     pv_completed p = set (map (nw_identity \<circ> win_work) ws) \<and> windows_from 0 ws \<and> pv_previous p = end_cycle ws \<and>
     list_all (window_ok (pc_limits C)) ws"

lemma provider_inv_start: "provider_inv C [] (provider_start ss)"
  by (simp add: provider_inv_def provider_start_def end_cycle_def)

text \<open>What the invariant reads of a provider.\<close>

lemma provider_inv_frame:
  assumes "provider_inv C ws p" and "pv_invocations p' = pv_invocations p" and "pv_completed p' = pv_completed p"
    and "pv_previous p' = pv_previous p"
  shows "provider_inv C ws p'"
  using assms by (simp add: provider_inv_def)

lemma verify_complete_state: "verify_complete C files p = (r, p') \<Longrightarrow> p' = p \<or> p' = p\<lparr>pv_faulted := True\<rparr>"
  by (auto simp: verify_complete_def split: if_splits sum.splits)

lemma execute_inv:
  assumes inv: "provider_inv C ws p" and ex: "execute_work C files p work offered = Some (Inr w, p')"
  shows "provider_inv C (ws @ [w]) p'"
proof -
  from execute_work_Inr [OF ex] obtain ss ev where c: "execute_checks C files p work offered = Inr (pc_bound C ! pv_invocations p)"
    and w: "window_ok (pc_limits C) w" "win_work w = work" "win_offered_cycle w = offered"
    and p': "p' = commit_window (p\<lparr>pv_session := ss, pv_events := ev\<rparr>) work w" by blast
  from execute_checks_Inr [OF c] have i: "pv_invocations p < length (pc_bound C)"
    and work: "work = bw_request (pc_bound C ! pv_invocations p)" and le: "pv_previous p \<le> offered" by blast+
  from inv have n: "pv_invocations p = length ws" and m: "map win_work ws = take (length ws) (requests C)"
    and prev: "pv_previous p = end_cycle ws" by (auto simp: provider_inv_def)
  have "take (Suc (length ws)) (requests C) = take (length ws) (requests C) @ [work]"
    using i n work by (simp add: requests_def take_Suc_conv_app_nth)
  moreover have "windows_from 0 (ws @ [w])"
    using inv le prev w by (auto simp: windows_from_snoc provider_inv_def end_cycle_def)
  ultimately show ?thesis using inv i n m w
    by (auto simp: provider_inv_def p' commit_window_def end_cycle_def comp_def)
qed

lemma provider_step_inv: "provider_step C p us p' \<Longrightarrow> provider_inv C ws p \<Longrightarrow> provider_inv C (ws @ us) p'"
proof (induction rule: provider_step.induct)
  case (executed files p work offered w p')
  then show ?case by (auto intro: execute_inv)
next
  case (raised files p work offered e p')
  from execute_work_Inl [OF raised(1)]
  have "pv_invocations p' = pv_invocations p \<and> pv_completed p' = pv_completed p \<and> pv_previous p' = pv_previous p"
    by (auto split: if_splits)
  with raised(2) show ?case by (auto intro: provider_inv_frame)
next
  case (verified files p r p')
  from verify_complete_state [OF verified(1)] verified(2) show ?case by (auto intro: provider_inv_frame)
next
  case (closed p)
  then show ?case by (auto simp: provider_close_def intro: provider_inv_frame)
qed

lemma provider_run_inv: "provider_run C p0 ws p \<Longrightarrow> provider_inv C [] p0 \<Longrightarrow> provider_inv C ws p"
proof (induction rule: provider_run.induct)
  case start
  then show ?case .
next
  case (step ws p us p')
  from step.hyps(2) step.IH [OF step.prems] show ?case by (rule provider_step_inv)
qed

lemma provider_init_Inr:
  assumes "provider_init N env files sink settings adm bws = Inr (C, p0)"
  obtains d ss where "state_domain (sa_profile adm) (se_state_domain_revision (sa_scoped adm)) = Inr d"
    "pc_limits C = sd_limits d" "pc_bound C = bws" "pc_admission C = adm" "pc_native C = N" "pc_sink C = sink"
    "pc_capacity C = event_capacity sink settings" "p0 = provider_start ss"
  using assms unfolding provider_init_def Let_def by (auto simp: bnd_eq_Inr chk_eq_Inr)


text \<open>C31. A provider offers the works of its trace in order, each at most once: whatever is called on it, the
  works it has returned a window for are the first works \<open>npu:0\<close>, \<open>npu:1\<close>, ... of the admitted trace, their
  windows follow each other in the session without overlap, and in every window the tag and row occupancies stay
  below the limits of the admitted domain, themselves within the native queue of six entries.\<close>

theorem provider_windows:
  assumes "admit_run E files after production scoped (TraceState_init run) rest = Inr (adm, bws)"
    and "provider_init N env files' sink settings adm bws = Inr (C, p0)" and "provider_run C p0 ws p"
  shows "length ws \<le> length bws \<and>
    map (nw_identity \<circ> win_work) ws = map (\<lambda>i. ''npu:'' @ str_int (int i)) [0..<length ws] \<and>
    windows_from 0 ws \<and> list_all (window_ok (pc_limits C)) ws \<and>
    max_tag_occupancy (pc_limits C) \<le> 6 \<and> max_row_occupancy_exclusive (pc_limits C) \<le> 6"
proof -
  from assms(2) obtain d ss where d: "state_domain (sa_profile adm) (se_state_domain_revision (sa_scoped adm)) = Inr d"
    and C: "pc_limits C = sd_limits d" "pc_bound C = bws" and p0: "p0 = provider_start ss" by (rule provider_init_Inr)
  from provider_run_inv [OF assms(3)] have inv: "provider_inv C ws p" by (simp add: p0 provider_inv_start)
  then have n: "length ws \<le> length bws" and m: "map win_work ws = take (length ws) (requests C)"
    and ws: "windows_from 0 ws" "list_all (window_ok (pc_limits C)) ws" by (auto simp: provider_inv_def C)
  have "map (nw_identity \<circ> win_work) ws = take (length ws) (map (nw_identity \<circ> bw_request) bws)"
    unfolding map_map [symmetric] m by (simp add: requests_def C take_map)
  also have "\<dots> = map (\<lambda>i. ''npu:'' @ str_int (int i)) [0..<length ws]"
    using admit_run_bound [OF assms(1)] n by (simp add: take_map)
  finally show ?thesis using n ws state_domain_bounds [OF d] C
    by (simp add: sd_limits_def DomainLimits_of_def)
qed

lemma verify_complete_Inr:
  assumes "verify_complete C files p = (Inr u, p')"
  shows "p' = p \<and> \<not> pv_faulted p \<and> \<not> pv_closed p \<and> pv_invocations p = length (pc_bound C) \<and>
    completion_ok C files p = Inr ()"
  using assms by (auto simp: verify_complete_def split: if_splits sum.splits)

text \<open>C34. A completed session is complete: when \<open>verify_complete\<close> returns, every bound work has been executed,
  once and in order, the sources and the certificate are the ones admitted, and the native session has
  nothing pending, active or unread and has counted exactly those works.\<close>

theorem verify_complete_all_works:
  assumes "provider_run C (provider_start ss) ws p" and "verify_complete C files p = (Inr u, p')"
  shows "map win_work ws = requests C \<and> p' = p \<and> sources_unchanged (pc_admission C) files True \<and>
    (\<exists>status c. ss_status (pc_native C) (pv_session p) = Inr status \<and> \<not> busy status \<and>
       ss_counters (pc_native C) (pv_session p) = Inr c \<and> ct_logical_work_count c = int (length ws) \<and>
       ss_event_count (pc_native C) (pv_session p) = Inr 0)"
proof -
  have inv: "provider_inv C ws p" using assms(1) provider_inv_start by (rule provider_run_inv)
  note v = verify_complete_Inr [OF assms(2)]
  then have "sources_unchanged (pc_admission C) files True"
    by (auto simp: completion_ok_def Let_def bnd_eq_Inr verify_sources_def chk_eq_Inr)
  moreover have "map win_work ws = requests C" using inv v by (simp add: provider_inv_def requests_def)
  moreover have "\<exists>status c. ss_status (pc_native C) (pv_session p) = Inr status \<and> \<not> busy status \<and>
       ss_counters (pc_native C) (pv_session p) = Inr c \<and> ct_logical_work_count c = int (pv_invocations p) \<and>
       ss_event_count (pc_native C) (pv_session p) = Inr 0"
    using v by (auto simp: completion_ok_def Let_def bnd_eq_Inr chkr_eq_Inr allr_eq_True simp del: allr.simps(2))
  ultimately show ?thesis using v inv by (auto simp: provider_inv_def)
qed

text \<open>C32. An exception commits nothing: after a call that raises, the completed works, the count, the last
  resource cycle and the halves are those before it; the provider is unchanged when the checks refuse the
  call, keeps all but its session when the native offer is refused, and is faulted when the work had been
  accepted. A faulted or closed provider refuses every further call and stays as it is.\<close>

theorem execute_error_state:
  assumes "execute_work C files p work offered = Some (Inl e, p')"
  shows "pv_completed p' = pv_completed p \<and> pv_invocations p' = pv_invocations p \<and> pv_previous p' = pv_previous p \<and>
    pv_scratchpad_half p' = pv_scratchpad_half p \<and> pv_accumulator_half p' = pv_accumulator_half p \<and>
    (pv_faulted p' \<or> (\<exists>ss. p' = p\<lparr>pv_session := ss\<rparr>)) \<and>
    (fst (ss_offer (pc_native C) (pv_session p) (sequence_work C (pc_bound C ! pv_invocations p)) offered) = Inr OK \<longrightarrow>
       pv_faulted p' \<or> p' = p) \<and>
    (pv_faulted p' \<or> pv_closed p' \<longrightarrow> (\<forall>files w c. \<exists>f. execute_work C files p' w c = Some (Inl f, p')))"
proof -
  have "\<exists>f. execute_work C files q w c = Some (Inl f, q)" if "pv_faulted q \<or> pv_closed q" for q files w c
    using that by (auto simp: execute_work_def execute_checks_def chk_def)
  moreover have "bw = pc_bound C ! pv_invocations p" if "execute_checks C files p work offered = Inr bw" for bw
    using execute_checks_Inr [OF that] by blast
  moreover have "\<exists>ss. p = p\<lparr>pv_session := ss\<rparr>" by (rule exI [of _ "pv_session p"]) simp
  ultimately show ?thesis using execute_work_Inl [OF assms] by (auto split: if_splits)
qed

section \<open>The loops end\<close>

text \<open>What the loops rely on in the native session: \<open>advance_to_boundary\<close> never moves away from the end of the
  work, it comes closer each time it stops on its step budget, and when it stops for a full event buffer it came
  closer or there are events to read; reading events comes closer as long as it delivers any.\<close>

definition native_progress :: "'s native \<Rightarrow> int \<Rightarrow> ('s \<Rightarrow> nat) \<Rightarrow> bool" where
  "native_progress N capacity \<mu> \<longleftrightarrow>
     (\<forall>h u m raw h'. nv_advance_to_boundary N h u m = (raw, h') \<longrightarrow>
        \<mu> h' \<le> \<mu> h \<and> (raw = Code_value INCOMPLETE \<longrightarrow> \<mu> h' < \<mu> h) \<and>
        (raw = Code_value WOULD_BLOCK \<longrightarrow> \<mu> h' < \<mu> h \<or> fst (snd (nv_read_events N h' capacity)) \<noteq> 0)) \<and>
     (\<forall>h raw count h'. nv_read_events N h capacity = (raw, count, h') \<longrightarrow>
        \<mu> h' \<le> \<mu> h \<and> (count \<noteq> 0 \<longrightarrow> \<mu> h' < \<mu> h))"

definition handle_measure :: "('s \<Rightarrow> nat) \<Rightarrow> 's session \<Rightarrow> nat" where
  "handle_measure \<mu> ss = (case ss_handle ss of None \<Rightarrow> 0 | Some h \<Rightarrow> \<mu> h)"

lemma Code_of_Some: "Code_of raw = Some c \<Longrightarrow> raw = Code_value c"
  by (auto simp: Code_of_def find_Some_iff)

lemma drain_loop_returns:
  assumes "native_progress N capacity \<mu>"
  shows "\<exists>r ss' ev'. drain_loop N capacity ss events = Some (r, ss', ev') \<and>
    (r = Inr () \<longrightarrow> handle_measure \<mu> ss' \<le> handle_measure \<mu> ss \<and>
      (\<forall>h. ss_handle ss = Some h \<and> fst (snd (nv_read_events N h capacity)) \<noteq> 0 \<longrightarrow>
         handle_measure \<mu> ss' < handle_measure \<mu> ss))"
proof (induction "handle_measure \<mu> ss" arbitrary: ss events rule: less_induct)
  case less
  show ?case
  proof (cases "ss_handle ss")
    case None
    then show ?thesis by (subst drain_loop.simps) (simp add: handle_def)
  next
    case (Some h)
    obtain raw count h' where r: "nv_read_events N h capacity = (raw, count, h')" by (cases "nv_read_events N h capacity")
    let ?ss = "ss\<lparr>ss_handle := Some h'\<rparr>"
    have m: "\<mu> h' \<le> \<mu> h" "count \<noteq> 0 \<Longrightarrow> \<mu> h' < \<mu> h" using assms r unfolding native_progress_def by blast+
    show ?thesis
    proof (cases "Code_of raw = Some OK \<and> count \<le> capacity \<and> count \<noteq> 0")
      case True
      with m Some have "handle_measure \<mu> ?ss < handle_measure \<mu> ss" by (simp add: handle_measure_def)
      from less [OF this] obtain q ss' ev' where "drain_loop N capacity ?ss (events @ [count]) = Some (q, ss', ev')"
        "q = Inr () \<longrightarrow> handle_measure \<mu> ss' \<le> handle_measure \<mu> ?ss" by blast
      with True Some r m show ?thesis
        by (subst drain_loop.simps) (auto simp: handle_def handle_measure_def)
    next
      case False
      with Some r have "\<exists>q. drain_loop N capacity ss events = Some (q, ?ss, events) \<and> (q = Inr () \<longrightarrow> count = 0)"
        by (subst drain_loop.simps) (auto simp: handle_def Let_def split: option.splits)
      with Some r m show ?thesis by (fastforce simp: handle_measure_def)
    qed
  qed
qed

lemma advance_to_boundary_cases:
  assumes "ss_handle ss = Some h"
  shows "\<exists>raw h'. nv_advance_to_boundary N h MAX_SESSION_CYCLES 65536 = (raw, h') \<and>
    ss_advance_to_boundary N ss MAX_SESSION_CYCLES 65536 = (checked raw ''advance_to_boundary'', ss\<lparr>ss_handle := Some h'\<rparr>)"
  using assms by (cases "nv_advance_to_boundary N h MAX_SESSION_CYCLES 65536")
    (simp add: ss_advance_to_boundary_def handle_def uint_def MAX_SESSION_CYCLES_def)

lemma advance_loop_returns:
  assumes np: "native_progress (pc_native C) (pc_capacity C) \<mu>" and cap: "pc_sink C \<longrightarrow> pc_capacity C \<noteq> 0"
  shows "\<exists>r. advance_loop C ss events = Some r"
proof (induction "handle_measure \<mu> ss" arbitrary: ss events rule: less_induct)
  case less
  show ?case
  proof (cases "ss_handle ss")
    case None
    then show ?thesis by (subst advance_loop.simps) (simp add: ss_advance_to_boundary_def handle_def)
  next
    case (Some h)
    from advance_to_boundary_cases [OF this, of "pc_native C"] obtain raw h' where
      n: "nv_advance_to_boundary (pc_native C) h MAX_SESSION_CYCLES 65536 = (raw, h')"
      and a: "ss_advance_to_boundary (pc_native C) ss MAX_SESSION_CYCLES 65536 =
        (checked raw ''advance_to_boundary'', ss\<lparr>ss_handle := Some h'\<rparr>)" by blast
    let ?ss = "ss\<lparr>ss_handle := Some h'\<rparr>"
    have m: "\<mu> h' \<le> \<mu> h" "raw = Code_value INCOMPLETE \<Longrightarrow> \<mu> h' < \<mu> h"
      "raw = Code_value WOULD_BLOCK \<Longrightarrow> \<mu> h' < \<mu> h \<or> fst (snd (nv_read_events (pc_native C) h' (pc_capacity C))) \<noteq> 0"
      using np n unfolding native_progress_def by blast+
    have hm: "handle_measure \<mu> ss = \<mu> h" "handle_measure \<mu> ?ss = \<mu> h'" by (simp_all add: handle_measure_def Some)
    consider "\<exists>e. checked raw ''advance_to_boundary'' = Inl e"
      | code where "checked raw ''advance_to_boundary'' = Inr code" "raw = Code_value code"
      by (cases "checked raw ''advance_to_boundary''") (auto simp: checked_eq_Inr dest: Code_of_Some)
    then show ?thesis
    proof cases
      case 1
      with a show ?thesis by (subst advance_loop.simps) auto
    next
      case c: 2
      show ?thesis
      proof (cases "code = INCOMPLETE")
        case True
        with m(2) c hm have "\<exists>r. advance_loop C ?ss events = Some r" by (intro less) simp
        with True a c show ?thesis by (subst advance_loop.simps) (auto simp: Let_def split: sum.splits)
      next
        case ni: False
        show ?thesis
        proof (cases "code = WOULD_BLOCK \<and> pc_sink C")
          case True
          from drain_loop_returns [OF np, of ?ss events] obtain q ss2 ev2 where
            d: "drain_loop (pc_native C) (pc_capacity C) ?ss events = Some (q, ss2, ev2)"
            and dm: "q = Inr () \<longrightarrow> handle_measure \<mu> ss2 \<le> handle_measure \<mu> ?ss \<and>
              (\<forall>h. ss_handle ?ss = Some h \<and> fst (snd (nv_read_events (pc_native C) h (pc_capacity C))) \<noteq> 0 \<longrightarrow>
                handle_measure \<mu> ss2 < handle_measure \<mu> ?ss)" by blast
          have "\<exists>r. advance_loop C ss2 ev2 = Some r" if "q = Inr ()"
          proof (rule less)
            show "handle_measure \<mu> ss2 < handle_measure \<mu> ss" using that dm m(1,3) c True hm by auto
          qed
          with True a c d cap show ?thesis
            by (subst advance_loop.simps) (auto simp: Let_def drain_events_def split: sum.splits)
        next
          case False
          with a c ni show ?thesis by (subst advance_loop.simps) (auto simp: Let_def split: sum.splits)
        qed
      qed
    qed
  qed
qed

lemma drain_events_returns:
  assumes "native_progress (pc_native C) (pc_capacity C) \<mu>"
  shows "\<exists>r ss' ev'. drain_events C ss events = Some (r, ss', ev')"
  using drain_loop_returns [OF assms] by (force simp: drain_events_def)

lemma transition_returns:
  assumes "native_progress (pc_native C) (pc_capacity C) \<mu>" and "pc_sink C \<longrightarrow> pc_capacity C \<noteq> 0"
  shows "\<exists>r ss' ev'. transition C ss events bw offered = Some (r, ss', ev')"
proof -
  from advance_loop_returns [OF assms, of ss events] obtain a ss1 ev1
    where "advance_loop C ss events = Some (a, ss1, ev1)" by force
  moreover obtain rep ss2 where "check_report C ss1 bw offered = (rep, ss2)" by fastforce
  moreover obtain d ss3 ev3 where "drain_events C ss2 ev1 = Some (d, ss3, ev3)"
    using drain_events_returns [OF assms(1)] by blast
  ultimately show ?thesis by (auto simp: transition_def split: sum.splits)
qed

lemma event_capacity_pos: "check_settings revision sink settings = Inr u \<Longrightarrow> sink \<Longrightarrow> event_capacity sink settings \<noteq> 0"
  by (auto simp: check_settings_def chk_eq_Inr event_capacity_def or_default_def in_budget_def EVENT_BUFFER_EVENTS_def
      split: option.splits)

lemma execute_work_returns:
  assumes "native_progress (pc_native C) (pc_capacity C) \<mu>" and "pc_sink C \<longrightarrow> pc_capacity C \<noteq> 0"
  shows "\<exists>r p'. execute_work C files p work offered = Some (r, p')"
proof (cases "execute_checks C files p work offered")
  case (Inl e)
  then show ?thesis by (simp add: execute_work_def)
next
  case (Inr bw)
  obtain answer ss where o: "ss_offer (pc_native C) (pv_session p) (sequence_work C bw) offered = (answer, ss)" by fastforce
  obtain r ss' ev' where "transition C ss (pv_events p) bw offered = Some (r, ss', ev')"
    using transition_returns [OF assms] by blast
  with Inr o show ?thesis by (auto simp: execute_work_def Let_def split: sum.splits)
qed


section \<open>The scheduler's contract\<close>

text \<open>The contract holds for the providers that can be reached by calls; the scheduler adds \<open>execute\<close> calls.\<close>

definition reached :: "'s provider_config \<Rightarrow> 's provider \<Rightarrow> 's provider \<Rightarrow> bool" where
  "reached C p0 p \<longleftrightarrow> (\<exists>ws. provider_run C p0 ws p)"

lemma reached_execute: "reached C p0 p \<Longrightarrow> execute_work C files p w c = Some (Inr win, p') \<Longrightarrow> reached C p0 p'"
  unfolding reached_def by (blast intro: provider_run.step provider_step.executed)

interpretation sequence: timing_contract "sequence_provider C files production" "reached C p0" for C files production p0
proof
  fix p p' :: "'a provider" and w c win
  assume r: "reached C p0 p" and "tp_execute (sequence_provider C files production) p w c = Inr (win, p')"
  then have ex: "execute_work C files p w c = Some (Inr win, p')"
    by (auto simp: sequence_provider_def bnd_eq_Inr split: option.splits)
  from execute_work_Inr [OF this] reached_execute [OF r ex]
  show "win_offered_cycle win = c \<and> c \<le> win_accepted_cycle win \<and> win_accepted_cycle win < win_result_ready_cycle win \<and>
      win_result_ready_cycle win \<le> win_resource_ready_cycle win \<and> reached C p0 p'"
    unfolding window_ok_def by auto
qed (simp add: sequence_provider_def)

text \<open>C6. A schedule on the stateful provider covers its trace: when \<open>schedule\<close> returns a result for a freshly
  constructed provider, the schedule is valid and there is a run of the provider in which every bound work was
  executed exactly once, in trace order, in windows that do not overlap, on unchanged sources.\<close>

theorem stateful_schedule_complete:
  assumes "valid_ir ir" and "valid_services services"
    and "schedule load_selection src ir services (sequence_provider C files production) (provider_start ss) sc = Some (Inr result)"
  shows "valid_schedule sc (ir_nodes ir) (sr_nodes result) \<and>
    (\<exists>ws p. provider_run C (provider_start ss) ws p \<and> map win_work ws = requests C \<and> windows_from 0 ws \<and>
       list_all (window_ok (pc_limits C)) ws \<and> verify_complete C files p = (Inr (), p))"
proof -
  have "reached C (provider_start ss) (provider_start ss)" unfolding reached_def by (blast intro: provider_run.start)
  from schedule_result_valid [OF sequence.timing_contract_axioms this assms]
  obtain p where v: "valid_schedule sc (ir_nodes ir) (sr_nodes result)" and p: "reached C (provider_start ss) p"
    and c: "complete_provider (sequence_provider C files production) sc p = Inr ()" by blast
  from p obtain ws where ws: "provider_run C (provider_start ss) ws p" unfolding reached_def by blast
  have inv: "provider_inv C ws p" using ws provider_inv_start by (rule provider_run_inv)
  have "fst (verify_complete C files p) = Inr ()"
    using c by (simp add: complete_provider_def stateful_def sequence_provider_def split: if_splits)
  then obtain p' where vc: "verify_complete C files p = (Inr (), p')" by (cases "verify_complete C files p") auto
  from verify_complete_Inr [OF this] inv have "p' = p" "map win_work ws = requests C"
    by (auto simp: provider_inv_def requests_def)
  with v ws vc inv show ?thesis by (auto simp: provider_inv_def)
qed

end
