(* ===== verification/Provider_Example.thy ===== *)
theory Provider_Example
  imports Provider_Theorems
begin

text \<open>A concrete session for the stateful provider: one work, admitted from the example trace, executed by a
  native session of five states, and scheduled on one node.\<close>

section \<open>A native session\<close>

text \<open>0: reset, 1: offered, 2: interrupted by the step budget, 3: report available, 4: report taken.\<close>

definition ex_status :: "nat \<Rightarrow> Status" where
  "ex_status h = \<lparr>st_generation = 1, st_cursor = (if h \<ge> 3 then 12 else 0), st_session_cycles = 0, st_work_cycles = 0,
     st_accepted_work_id = 0, st_offered_cycle = 0, st_accepted_cycle = 0, st_last_discarded_generation = 0,
     st_initialized = 1, st_has_pending = 0, st_has_active = 0, st_has_report = (if h = 3 then 1 else 0),
     st_has_accepted = 0, st_faulted = 0, st_next_scratchpad_half = (if h \<ge> 3 then 1 else 0),
     st_next_accumulator_half = 0,
     st_stop_reason = (if h = 2 then StopReason_value SOFT_BUDGET else if h = 3 then StopReason_value REPORT_AVAILABLE else 0)\<rparr>"

definition ex_rows :: "nat \<Rightarrow> RowPressure" where
  "ex_rows h = \<lparr>rp_generation = 1, rp_cursor = (if h \<ge> 3 then 12 else 0), rp_row_count = 0,
     rp_max_row_occupancy = (if h \<ge> 3 then 3 else 0)\<rparr>"

definition ex_domain :: "nat \<Rightarrow> DomainSnapshot" where
  "ex_domain h = \<lparr>dm_generation = 1, dm_cursor = (if h \<ge> 3 then 12 else 0), dm_resource_ready = 1, dm_row_count = 0,
     dm_tag_count = 0, dm_max_tag_occupancy = (if h \<ge> 3 then 2 else 0), dm_ready_violation_mask = 0, dm_rows = [],
     dm_tags = [], dm_banks = []\<rparr>"

definition ex_counters :: "int \<Rightarrow> Counters" where
  "ex_counters works = \<lparr>ct_start_cycle = 2, ct_done_cycle = 8, ct_total_cycles = 6, ct_logical_work_count = works,
     ct_loop_count = 1, ct_planner_loop_count = 1, ct_fragment_count = 1, ct_load_request_count = 4,
     ct_load_response_count = 4, ct_store_request_count = 2, ct_store_response_count = 2, ct_scale_request_count = 1,
     ct_scale_response_count = 1, ct_event_count = 0\<rparr>"

definition ex_report :: Report where
  "ex_report = \<lparr>rep_generation = 1, rep_logical_work_id = 0, rep_offered_cycle = 0, rep_accepted_cycle = 2,
     rep_result_ready_cycle = 8, rep_final_scale_release_cycle = 10, rep_resource_ready_cycle = 12, rep_event_count = 0,
     rep_next_scratchpad_half = 1, rep_next_accumulator_half = 0, rep_counters = ex_counters 1\<rparr>"

definition ex_session_native :: "nat native" where
  "ex_session_native =
     \<lparr>nv_reset = (\<lambda>h. (0, 0)), nv_offer = (\<lambda>h d c. (0, 1)),
      nv_advance_to_boundary = (\<lambda>h u m. if h = 1 then (1, 2) else if h = 2 then (0, 3) else (-3, h)),
      nv_get_status = (\<lambda>h. (0, ex_status h)), nv_get_row_pressure = (\<lambda>h. (0, ex_rows h)),
      nv_get_domain_snapshot = (\<lambda>h. (0, ex_domain h)),
      nv_get_counters = (\<lambda>h. (0, ex_counters (if h \<ge> 3 then 1 else 0))),
      nv_pop_report = (\<lambda>h. (0, ex_report, 4)), nv_event_count = (\<lambda>h. (0, 0)),
      nv_read_events = (\<lambda>h capacity. (0, 0, h))\<rparr>"

definition ex_env :: "nat session_env" where
  "ex_env = \<lparr>so_profile = ''a8w8-d16-hp1'', so_identity = Inr ex_identity, so_hardware = Inr [8, 8, 16],
     so_config_abi = True, so_create = (\<lambda>config. (0, 0))\<rparr>"

section \<open>The admitted provider\<close>

definition ex_bound :: "BoundWork list" where
  "ex_bound = map (bind_work ex_ext ''a8w8-d16-hp1'') ex_works"

definition ex_adm :: StatefulAdmission where
  "ex_adm = fst (projr (admit_run ex_ext ex_sources ex_sources False ex_scoped (TraceState_init ex_run) ex_trace))"

lemma ex_admit: "admit_run ex_ext ex_sources ex_sources False ex_scoped (TraceState_init ex_run) ex_trace = Inr (ex_adm, ex_bound)"
  and ex_adm_facts: "sa_profile ex_adm = ''a8w8-d16-hp1''" "sa_scoped ex_adm = ex_scoped"
    "sources_unchanged ex_adm ex_sources publication" "sa_source_identity ex_adm = ex_identity"
proof -
  obtain adm where a: "admit_run ex_ext ex_sources ex_sources False ex_scoped (TraceState_init ex_run) ex_trace =
     Inr (adm, ex_bound)" and f: "sa_profile adm = ''a8w8-d16-hp1''" "sa_scoped adm = ex_scoped"
     "sources_unchanged adm ex_sources True" "sa_source_identity adm = ex_identity"
    using ex_admission unfolding ex_bound_def by blast
  then have "adm = ex_adm" by (simp add: ex_adm_def)
  with a f show "admit_run ex_ext ex_sources ex_sources False ex_scoped (TraceState_init ex_run) ex_trace = Inr (ex_adm, ex_bound)"
    "sa_profile ex_adm = ''a8w8-d16-hp1''" "sa_scoped ex_adm = ex_scoped"
    "sources_unchanged ex_adm ex_sources publication" "sa_source_identity ex_adm = ex_identity"
    by (auto simp: sources_unchanged_def)
qed

definition ex_config :: "nat provider_config" where
  "ex_config = \<lparr>pc_native = ex_session_native, pc_admission = ex_adm, pc_bound = ex_bound, pc_limits = DomainLimits_of 4 6,
     pc_offers = None, pc_sink = False, pc_capacity = 0\<rparr>"

definition ex_session :: "nat \<Rightarrow> nat session" where
  "ex_session h = \<lparr>ss_handle = Some h, ss_identity = ex_identity\<rparr>"

lemmas ex_native_simps = ex_session_def ex_session_native_def handle_def checked_def Code_of_def Codes_def observed_def
  ss_status_def ss_domain_snapshot_def ss_row_pressure_def ss_counters_def ss_event_count_def

lemma ex_observe:
  "ss_status ex_session_native (ex_session h) = Inr (ex_status h)"
  "ss_domain_snapshot ex_session_native (ex_session h) = Inr (ex_domain h)"
  "ss_row_pressure ex_session_native (ex_session h) = Inr (ex_rows h)"
  "ss_counters ex_session_native (ex_session h) = Inr (ex_counters (if h \<ge> 3 then 1 else 0))"
  "ss_event_count ex_session_native (ex_session h) = Inr 0"
  by (simp_all add: ex_native_simps)

lemma ex_revision: "se_state_domain_revision ex_scoped = LEGACY_REVISION" "\<not> back_to_back LEGACY_REVISION"
  "\<not> has_key INTERLEAVED_TRACE_REVISIONS LEGACY_REVISION" "LEGACY_REVISION \<noteq> TAG6_REVISION"
  by (simp_all add: ex_scoped_def back_to_back_def revision_names PROFILE_EXTENSION_REVISIONS_def
      ACTUAL_TRACE_REVISIONS_def INTERLEAVED_TRACE_REVISIONS_def has_key_def)

lemma ex_domain_limits: "\<exists>d. state_domain ''a8w8-d16-hp1'' LEGACY_REVISION = Inr d \<and> sd_limits d = DomainLimits_of 4 6"
  by (simp add: state_domain_def profile_shapes_def Revisions_def revision_limits_def profile_domain_def revision_names
      PROFILES_def TAG4_limits_def sd_limits_def DomainLimits_of_def)

lemma ex_open: "session_open ex_session_native ex_env False (session_limits LEGACY_REVISION False Settings_default) (Some ex_identity) =
  Inr (ex_session 0)"
  by (simp add: session_open_def session_config_def ex_env_def ex_native_simps has_key_def profile_shapes_def
      HARDWARE_FIELDS_def uint_def budget_fields_def set_budget_def session_limits_def or_default_def
      Settings_default_def work_limit_def ex_revision MAX_WORK_CYCLES_def MAX_SESSION_CYCLES_def event_capacity_def)

lemma ex_init: "provider_init ex_session_native ex_env ex_sources False Settings_default ex_adm ex_bound =
  Inr (ex_config, provider_start (ex_session 0))"
proof -
  obtain d where d: "state_domain ''a8w8-d16-hp1'' LEGACY_REVISION = Inr d" "sd_limits d = DomainLimits_of 4 6"
    using ex_domain_limits by blast
  have "check_settings LEGACY_REVISION False Settings_default = Inr ()"
    by (simp add: check_settings_def Settings_default_def in_budget_def)
  then show ?thesis
    by (simp add: provider_init_def ex_adm_facts ex_revision d ex_open ex_observe interleaved_offers_def ex_domain_def
        cold_def ex_config_def event_capacity_def)
qed

section \<open>One work\<close>

definition ex_request :: NpuWork where
  "ex_request = bw_request (hd ex_bound)"

definition ex_window :: StatefulWindow where
  "ex_window = window_of ex_adm (hd ex_bound) 0 (ex_domain 3) (ex_rows 3) ex_report"

definition ex_done :: "nat provider" where
  "ex_done = commit_window ((provider_start (ex_session 0))\<lparr>pv_session := ex_session 4, pv_events := []\<rparr>) ex_request ex_window"

lemma ex_verify: "verify_sources ex_adm ex_sources (ex_session h) False = Inr ()"
  by (simp add: verify_sources_def ex_adm_facts wrap_source_error_def ex_sources_def [THEN arg_cong, of sf_source_identity]
      verify_identity_def ex_session_def)

lemma ex_checks: "execute_checks ex_config ex_sources (provider_start (ex_session 0)) ex_request 0 = Inr (hd ex_bound)"
proof -
  have b: "length ex_bound = 1" "ex_bound ! 0 = hd ex_bound" by (simp_all add: ex_bound_def ex_works_def)
  have "ready_domain ex_config (provider_start (ex_session 0)) (ex_status 0) (ex_domain 0) (ex_rows 0)"
    by (simp add: ready_domain_def ex_status_def ex_domain_def ex_rows_def ex_config_def provider_start_def tags_retired_def
        DomainLimits_of_def)
  then show ?thesis
    by (simp add: execute_checks_def provider_start_def ex_config_def b ex_observe ex_request_def ex_verify
        offer_policy_def revision_of_def ex_adm_facts ex_revision)
      (simp add: ex_status_def busy_def ex_counters_def)
qed

lemma ex_offer: "ss_offer ex_session_native (ex_session 0) (sequence_work ex_config (hd ex_bound)) 0 = (Inr OK, ex_session 1)"
  by (simp add: ss_offer_def ex_native_simps sequence_work_def ex_config_def ex_bound_def bind_work_def ex_works_def
      describe_def WORK_U64_def uint_def)

lemma ex_advance: "advance_loop ex_config (ex_session 1) [] = Some (Inr (), ex_session 3, [])"
  by (subst advance_loop.simps, subst advance_loop.simps)
    (simp add: ss_advance_to_boundary_def ex_config_def ex_native_simps uint_def MAX_SESSION_CYCLES_def ex_status_def)

lemma ex_check_report: "check_report ex_config (ex_session 3) (hd ex_bound) 0 = (Inr ex_window, ex_session 4)"
proof -
  have "report_ok (DomainLimits_of 4 6) (hd ex_bound) 0 (ex_status 3) (ex_domain 3) (ex_rows 3) ex_report"
    by (simp add: report_ok_def ex_status_def ex_domain_def ex_rows_def ex_report_def ex_counters_def ex_bound_def
        bind_work_def ex_works_def DomainLimits_of_def tags_retired_def)
  moreover have "ss_pop_report ex_session_native (ex_session 3) = (Inr (Some ex_report), ex_session 4)"
    by (simp add: ss_pop_report_def ex_native_simps)
  ultimately show ?thesis by (simp add: check_report_def ex_config_def ex_observe ex_window_def)
qed

lemma ex_config_sel: "pc_native ex_config = ex_session_native" "pc_sink ex_config = False"
  by (simp_all add: ex_config_def)

lemma ex_execute: "execute_work ex_config ex_sources (provider_start (ex_session 0)) ex_request 0 = Some (Inr ex_window, ex_done)"
proof -
  have "transition ex_config (ex_session 1) [] (hd ex_bound) 0 = Some (Inr ex_window, ex_session 4, [])"
    unfolding transition_def ex_advance by (simp add: ex_check_report drain_events_def ex_config_sel)
  moreover have "pv_session (provider_start (ex_session 0)) = ex_session 0" "pv_events (provider_start (ex_session 0)) = []"
    by (simp_all add: provider_start_def)
  ultimately show ?thesis
    unfolding execute_work_def ex_checks ex_config_sel by (simp add: ex_offer [simplified] ex_done_def)
qed

lemma ex_run_done: "provider_run ex_config (provider_start (ex_session 0)) [ex_window] ex_done"
  using provider_run.step [OF provider_run.start provider_step.executed [OF ex_execute]] by simp

lemma provider_windows_witness:
  "map (nw_identity \<circ> win_work) [ex_window] = [''npu:'' @ str_int 0] \<and> windows_from 0 [ex_window]"
  using provider_windows [OF ex_admit ex_init ex_run_done] by simp

lemma ex_done_state: "pv_session ex_done = ex_session 4" "\<not> pv_faulted ex_done" "\<not> pv_closed ex_done"
  "pv_invocations ex_done = 1" "pv_completed ex_done = {nw_identity ex_request}" "pv_previous ex_done = 12"
  by (simp_all add: ex_done_def commit_window_def provider_start_def ex_window_def window_of_def ex_report_def)

lemma ex_requests: "requests ex_config = [ex_request]"
  by (simp add: requests_def ex_config_def ex_request_def ex_bound_def ex_works_def)

lemma ex_verify_publication: "verify_sources ex_adm ex_sources (ex_session h) True = Inr ()"
proof -
  have "\<not> sa_production_admitted ex_adm" using ex_admit by (blast elim: admit_run_Inr)
  then show ?thesis
    by (simp add: verify_sources_def ex_adm_facts) (simp add: ex_sources_def verify_identity_def ex_session_def)
qed

lemma ex_complete: "verify_complete ex_config ex_sources ex_done = (Inr (), ex_done)"
proof -
  have "completion_ok ex_config ex_sources ex_done = Inr ()"
    by (simp add: completion_ok_def Let_def ex_done_state ex_config_def ex_verify_publication ex_observe)
      (simp add: ex_status_def busy_def ex_counters_def)
  moreover have "length (pc_bound ex_config) = 1" by (simp add: ex_config_def ex_bound_def ex_works_def)
  ultimately show ?thesis by (simp add: verify_complete_def ex_done_state ex_requests)
qed

lemma verify_complete_all_works_witness: "map win_work [ex_window] = requests ex_config"
  using verify_complete_all_works [OF ex_run_done ex_complete] by blast

lemma ex_progress: "native_progress ex_session_native capacity (\<lambda>h. 4 - h)"
  by (simp add: native_progress_def ex_session_native_def)


lemma execute_error_state_witness:
  "\<exists>e p'. execute_work ex_config ex_sources ex_done ex_request 12 = Some (Inl e, p') \<and> pv_completed p' = pv_completed ex_done"
proof -
  have "length (pc_bound ex_config) = 1" by (simp add: ex_config_def ex_bound_def ex_works_def)
  then have "execute_work ex_config ex_sources ex_done ex_request 12 =
      Some (Inl (provider_error ''work order'' ''all declared trace works completed''), ex_done)"
    by (simp add: execute_work_def execute_checks_def ex_done_state)
  from execute_error_state [OF this] this show ?thesis by blast
qed

section \<open>The work scheduled\<close>

definition ex_stateful_node :: Node where
  "ex_stateful_node = \<lparr>nd_identity = ''npu'', nd_kind = NPU, nd_operation = ''op'', nd_phase = ''prefill'', nd_order = 0,
     nd_dependencies = [], nd_service = Some (nw_identity ex_request), nd_resources = [''npu:0'']\<rparr>"

definition ex_stateful_ir :: ExecutionIR where
  "ex_stateful_ir = \<lparr>ir_nodes = [ex_stateful_node],
     ir_scope = ''BOUND_DATASET'', ir_source_sha256 = ''x''\<rparr>"

definition ex_stateful_services :: Services where
  "ex_stateful_services = \<lparr>sv_cpu = [], sv_npu = [(nw_identity ex_request, ex_request)]\<rparr>"

definition ex_stateful_scenario :: Scenario where
  "ex_stateful_scenario = \<lparr>npu_frequency_hz = 1000000000, sc_scope = ''STATEFUL_DIAGNOSTIC'', clock_artifact = None,
     sc_profile = ''a8w8-d16-hp1''\<rparr>"

lemma ex_stateful_valid: "valid_ir ex_stateful_ir" "valid_services ex_stateful_services"
proof -
  have "ExecutionIR_check ex_stateful_ir = Inr ex_stateful_ir"
    by (simp add: ExecutionIR_check_def ex_stateful_ir_def ex_stateful_node_def check_node_def service_kind_def
        dependency_graph_def static_order_ok.simps blocked_def)
  then show "valid_ir ex_stateful_ir" by (simp add: ExecutionIR_check_Inr)
  show "valid_services ex_stateful_services" by (simp add: valid_services_def ex_stateful_services_def)
qed

abbreviation ex_provider :: "nat provider timing_provider" where
  "ex_provider \<equiv> sequence_provider ex_config ex_sources False"

lemma ex_provider_sel:
  "stateful ex_provider" "tp_class ex_provider = DiagnosticProvider" "tp_requests ex_provider = [nw_identity ex_request]"
  "tp_admission ex_provider = Some (admission_view ex_adm)" "tp_previous ex_provider = pv_previous"
  "tp_verify_complete ex_provider p = fst (verify_complete ex_config ex_sources p)"
  "tp_execute ex_provider (provider_start (ex_session 0)) ex_request 0 = Inr (ex_window, ex_done)"
  by (simp_all add: stateful_def sequence_provider_def ex_requests ex_execute) (simp add: ex_config_def)

lemma ex_stateful_gate: "gate no_clock ex_stateful_ir ex_stateful_services ex_provider ex_stateful_scenario = Inr ()"
proof -
  have "\<not> sa_production_admitted ex_adm" "length (sa_work_bindings ex_adm) = 1"
    using ex_admit by (auto elim!: admit_run_Inr simp: ex_bound_def ex_works_def)
  then show ?thesis
    by (simp add: gate_def validate_environment_def ex_provider_sel admission_view_def ex_adm_facts
        ex_stateful_ir_def ex_stateful_node_def ex_stateful_services_def ex_stateful_scenario_def ensure_def cpu_kind_def check_cpu_node_def)
qed

lemma ex_stateful_loop:
  "\<exists>completed eng. schedule_loop ex_provider ex_stateful_scenario ex_stateful_services
     (map (\<lambda>n. (nd_identity n, n)) (ir_nodes ex_stateful_ir)) [] \<lparr>resource_free = [], en_provider = provider_start (ex_session 0)\<rparr> 0 =
     Some (Inr (completed, eng)) \<and> en_provider eng = ex_done"
proof -
  let ?e = "\<lparr>resource_free = [], en_provider = provider_start (ex_session 0)\<rparr>"
  let ?n = "ex_stateful_node"
  have prev: "pv_previous (provider_start (ex_session 0)) = 0" by (simp add: provider_start_def)
  have e: "earliest ex_provider ex_stateful_scenario ?e ?n 0 = 0"
    by (simp add: earliest_def max_default_def free_at_def ex_stateful_node_def ex_provider_sel prev Let_def)
  have t: "trunc 0 = 0" by (simp add: trunc_def)
  obtain sn eng' where x: "execute ex_provider ex_stateful_scenario ex_stateful_services ?e ?n 0 (Some 0) = Inr (sn, eng')"
    and fin: "en_provider eng' = ex_done"
    by (simp add: execute_def e)
      (simp add: ex_stateful_node_def cpu_kind_def execute_npu_def npu_lookup_def service_id_def ex_stateful_services_def
        ex_stateful_scenario_def ex_provider_sel t reserve_def Let_def)
  have "scan ex_provider ex_stateful_scenario ex_stateful_services ?e [] 0 [] [?n] = Inr (Started ?n sn eng')"
    using x e by (simp add: resolved_def ready_time_def ex_stateful_node_def max_default_def)
  moreover have "selection [(nd_identity ?n, ?n)] = [?n]" by (simp add: selection_def)
  moreover have "ir_nodes ex_stateful_ir = [?n]" by (simp add: ex_stateful_ir_def)
  ultimately show ?thesis using fin
    by (subst schedule_loop.simps, simp, subst schedule_loop.simps, simp)
qed

lemma stateful_schedule_complete_witness:
  "\<exists>result. schedule no_clock [] ex_stateful_ir ex_stateful_services ex_provider (provider_start (ex_session 0)) ex_stateful_scenario =
     Some (Inr result) \<and> valid_schedule ex_stateful_scenario (ir_nodes ex_stateful_ir) (sr_nodes result) \<and>
     (\<exists>ws p. provider_run ex_config (provider_start (ex_session 0)) ws p \<and> map win_work ws = [ex_request])"
proof -
  from ex_stateful_loop obtain completed eng where l: "schedule_loop ex_provider ex_stateful_scenario ex_stateful_services
     (map (\<lambda>n. (nd_identity n, n)) (ir_nodes ex_stateful_ir)) [] \<lparr>resource_free = [], en_provider = provider_start (ex_session 0)\<rparr> 0 =
     Some (Inr (completed, eng))" and e: "en_provider eng = ex_done" by blast
  have "\<exists>result. schedule no_clock [] ex_stateful_ir ex_stateful_services ex_provider (provider_start (ex_session 0)) ex_stateful_scenario =
     Some (Inr result)"
    by (simp add: schedule_def ex_stateful_gate l e complete_provider_def ex_provider_sel ex_complete)
      (simp add: service_binding_def ex_stateful_scenario_def ex_provider_sel)
  then obtain result where r: "schedule no_clock [] ex_stateful_ir ex_stateful_services ex_provider (provider_start (ex_session 0))
     ex_stateful_scenario = Some (Inr result)" by blast
  from stateful_schedule_complete [OF ex_stateful_valid r] r show ?thesis unfolding ex_requests by metis
qed

end
