(* ===== verification/Spec2Isabelle.thy ===== *)
theory Spec2Isabelle
  imports Application_Example Certificate_Example Cpu_Theorems Exec_Example Forced_Theorems Lifecycle_Example Numerical Optrace_Example Pipeline_Example Provider_Example
begin

text \<open>
  Verification development of the IM2P simulator: the Python program that checks collected traces of an NPU
  run, reconstructs an execution graph from them, replays the works on a cycle-accurate model and schedules
  the graph against its answers, together with the certificates that say which configurations of the cycle
  model were compared with the RTL. Paths are relative to the root of the repository.

  \<^bold>\<open>The program.\<close> A collector writes a run as JSON lines. \<^verbatim>\<open>sim/cycle/npu_trace_schema.py\<close> gives every record its
  typed fields, \<^verbatim>\<open>npu_trace_integrity.py\<close> feeds the records to one state machine (phases, operations, calls,
  dispatch parents, works), which uses \<^verbatim>\<open>npu_trace_calls.py\<close>, \<^verbatim>\<open>npu_trace_hosts.py\<close> and \<^verbatim>\<open>npu_trace_runs.py\<close>.
  \<^verbatim>\<open>npu_trace.py\<close> turns each accepted work into a request for \<^verbatim>\<open>cli.py\<close>, the front end of the native model, caches
  the answers and accounts for them; \<^verbatim>\<open>optrace.py\<close>, with \<^verbatim>\<open>optrace_schema.py\<close> and \<^verbatim>\<open>optrace_parents.py\<close>, does the
  same for the older production op-trace. \<^verbatim>\<open>execution_ir.py\<close> and \<^verbatim>\<open>execution_services.py\<close> are the graph and the
  services, \<^verbatim>\<open>scheduler.py\<close> schedules the one with the other through a timing provider, of which the stateful
  one (\<^verbatim>\<open>execution_sequence_provider.py\<close> over \<^verbatim>\<open>sequence_binding.py\<close>, admitted by
  \<^verbatim>\<open>execution_sequence_admission.py\<close> inside the domains of \<^verbatim>\<open>stateful_domain.py\<close>) drives a native session. The
  hardware contract (\<^verbatim>\<open>scripts/gemmini_replay_contract.py\<close>), the build binding, the corpus authority and
  \<^verbatim>\<open>certificate_contract.py\<close> decide which evidence the replay accepts.

  \<^bold>\<open>Conventions.\<close> A Python exception is a value of \<open>py_error\<close> and a function that may raise returns \<open>'a res\<close>, the
  sum of an error and a result; \<open>bnd\<close> is sequencing, \<open>require\<close>, \<open>chk\<close> and their component variants are checks that
  raise, \<open>mapr\<close> is a comprehension and \<open>foldm\<close> a loop whose body may raise. A method of an object that mutates its
  fields takes the record of the fields and returns it updated. JSON values are \<open>jval\<close>; a dictionary is an association
  list in insertion order (\<open>Record\<close>, \<open>dict\<close>), Python integers are \<open>int\<close>, floats are an abstract carrier, and
  \<open>py_eq\<close> is the equality of Python, for which \<^verbatim>\<open>1 == True == 1.0\<close>. What comes from outside the repository (SHA-256, the
  textual form of a float, files, git, the shared library) is an argument.

  \<^bold>\<open>Theories.\<close>
  \<^item> \<open>Py_Base\<close>, \<open>Py_Json\<close>: the shared prelude: errors, checks, loops, values, dictionaries, \<open>dumps\<close>, the decoder with a
    pairs hook. The inversion lemmas of the error monad are collected in \<open>res_simps\<close>.
  \<^item> \<open>Completed_Ids\<close>: \<^verbatim>\<open>CompletedIDs\<close>. The locale \<open>id_registry\<close> is the contract of a set of identities that rejects
    duplicates; it is interpreted on the cursor and look-ahead set of the code, and the call, dispatch and operation
    registries of the validator rest on it.
  \<^item> \<open>Trace_Schema\<close>, \<open>Trace_Runs\<close>: field tables, typed reads, run views, the two duplicate-key hooks of
    \<^verbatim>\<open>strict_json.py\<close>. \<open>Trace_Calls\<close>: \<^verbatim>\<open>Calls\<close> and \<^verbatim>\<open>Hosts\<close>. \<open>Trace_Integrity\<close>: \<^verbatim>\<open>TraceState\<close>, every handler.
    \<open>Trace_Theorems\<close>: invariants of the validator and what an accepted trace guarantees; \<open>Trace_Example\<close>: an accepted
    trace.
  \<^item> \<open>Exec_IR\<close>, \<open>Exec_Services\<close>, \<open>Scheduler\<close>: graph, services and the selection loop. \<open>Schedule_Theorems\<close>: validity, progress and
    totality of schedules. Its locale \<open>timing_contract\<close> states what the engine relies on in a provider; it is interpreted
    on the phase table and, in \<open>Provider_Theorems\<close>, on the reachable states of the stateful provider. \<open>Exec_Example\<close>:
    documents written and read back.
  \<^item> \<open>Hardware_Contract\<close>, \<open>Cycle_Cli\<close>, \<open>Npu_Replay\<close>, \<open>Replay_Theorems\<close>: contract validation, requests and answers of the native
    estimator, the replay loop with its cache, and its correctness.
  \<^item> \<open>Stateful_Domain\<close>, \<open>Native_Session\<close>, \<open>Sequence_Admission\<close>, \<open>Sequence_Open\<close>, \<open>Sequence_Provider\<close>: the domains, the Python side
    of the native session, admission, construction and the operations of the provider. \<open>Provider_Theorems\<close>: the life of a
    provider as the step relation \<open>provider_step\<close>, its invariant, error states, termination and the composition with
    the scheduler; \<open>Provider_Example\<close>: a session of one work.
  \<^item> \<open>Optrace_Parents\<close>, \<open>Optrace_Schema\<close>, \<open>Optrace\<close>: the production op-trace and its replay. \<open>Optrace_Theorems\<close>,
    \<open>Optrace_Totals\<close>: coverage, counts, accounting; \<open>Optrace_Example\<close>: an op-trace of one work.
  \<^item> \<open>Certificate_Values\<close>, \<open>Build_Binding\<close>, \<open>Corpus_Authority\<close>, \<open>Corpus_Versions\<close>, \<open>Corpus_Check\<close>, \<open>Certificate\<close>: the typed accessors, the
    binding of build outputs, the reviewed corpus in its five versions, and the certificate. \<open>Certificate_Theorems\<close>: what a
    validated certificate contains; \<open>Corpus_Example\<close>, \<open>Certificate_Example\<close>: a reviewed corpus and a complete certificate of 240
    cases over it.
  \<^item> \<open>Numerical\<close>: the bit-accurate dot product of \<^verbatim>\<open>scripts/numerical_reference.py\<close> with the profiles of
    \<^verbatim>\<open>scripts/im2p_config.py\<close>, its overflow flags and its equality with the scaled dot product.

  \<^bold>\<open>What the lemmas show.\<close> For each validator, an invariant that every handler preserves, and at the end of an accepted
  input the property of the whole input: identities dense and unique, parents tiled by their works without gap or
  overlap, calls through their stages in order, declared counts equal to the true ones. For the graph, that the
  constructor accepts exactly the valid graphs, and that printing and parsing are inverse. For the scheduler, that a
  result respects every dependency and resource, that the loop ends on every valid graph and that with a covering
  phase table the result exists. For the providers, that works are executed once, in order, in disjoint windows,
  that a raising call commits nothing and that the loops end. For the replays, that the cache is transparent and the sums
  are the sums of the modelled cycles. For the certificates, completeness over the reviewed corpus. For the arithmetic,
  that a value without an overflow flag is the mathematical one and that wrapping is reading a machine word.

  \<^bold>\<open>Loops.\<close> Loops over lists are folds. The absorption of completed identities and the topological sorter are
  \<open>function\<close>s with a measure (the look-ahead set and the nodes left). The scheduler's selection loop, the advance and
  drain loops of the provider and the chunk loop of the dot product are \<open>partial_function (option)\<close>, where \<open>None\<close> is not
  returning; it is proved that the dot product always returns, the scheduler on every valid graph, and the provider
  when the native session makes progress (\<open>native_progress\<close>). No definition uses fuel.

  \<^bold>\<open>Abstractions.\<close> A JSON text is its parse tree with the pairs of an object in order, before the duplicate check; characters
  are code points below 256. Messages of exceptions are kept where the code gives a constant text, and the
  message that embeds a representation uses the parameters of \<open>ext\<close>. Sets whose iteration order does not matter are
  lists or \<open>fset\<close>s. A path is the list of its parts.

  \<^bold>\<open>Not modelled.\<close> The native cycle model (C++ behind ctypes), the RTL generators (Scala and BSV), the build, export, board
  and check scripts and the command line entry points, which run processes and read and write files; the publication of
  replay artifacts and evidence archives; \<^verbatim>\<open>hardware_contract\<close>, \<^verbatim>\<open>seal_build\<close> and \<^verbatim>\<open>verify_build\<close>, which walk
  directories; the observation-only calls of the native session; the self test of the numerical reference. The
  performance of the code and the claims of the RTL comparison itself are outside the development: it shows
  what the checks accept, not that the recorded digests are true.
\<close>

end
